(* ===== verification/Prelude.thy ===== *)
theory Prelude
  imports Complex_Main "HOL-Library.Sublist"
begin

text \<open>
  What every component shares: the fact collections of the development, the generic
  lemmas on lists, and the JavaScript string operations the panel uses.

  JavaScript strings are sequences of UTF-16 code units; the model keeps the units below
  256, as HOL's \<open>string\<close>.  \<open>length\<close> is then the \<open>.length\<close> of the source.
\<close>

named_theorems guard_simps \<open>equations of the request guards\<close>
named_theorems store_simps \<open>equations of the table operations\<close>
named_theorems inv_intros \<open>an operation keeps an invariant\<close>

section \<open>Generic lemmas\<close>

lemma find_SomeD: "List.find P xs = Some x \<Longrightarrow> P x \<and> x \<in> set xs"
  by (metis find_Some_iff nth_mem)

lemma find_None_all: "List.find P xs = None \<longleftrightarrow> (\<forall>x \<in> set xs. \<not> P x)"
  by (auto simp: find_None_iff)

lemma find_append: "List.find P (xs @ ys) = (case List.find P xs of None \<Rightarrow> List.find P ys | Some x \<Rightarrow> Some x)"
  by (induction xs) auto

lemma find_distinct_key:
  "distinct (map key xs) \<Longrightarrow> x \<in> set xs \<Longrightarrow> List.find (\<lambda>r. key r = key x) xs = Some x"
  by (induction xs) (auto simp: rev_image_eqI)

lemma find_filter: "List.find P (filter Q xs) = List.find (\<lambda>x. Q x \<and> P x) xs"
  by (induction xs) auto

lemma distinct_map_filter_keep: "distinct (map f xs) \<Longrightarrow> distinct (map f (filter P xs))"
  by (induction xs) auto

lemma distinct_map_key_eq: "distinct (map f xs) \<Longrightarrow> x \<in> set xs \<Longrightarrow> y \<in> set xs \<Longrightarrow> f x = f y \<Longrightarrow> x = y"
  by (auto simp: distinct_map inj_on_def)

lemma sum_list_filter_split:
  fixes f :: "'a \<Rightarrow> int"
  shows "sum_list (map f xs) = sum_list (map f (filter P xs)) + sum_list (map f (filter (\<lambda>x. \<not> P x) xs))"
  by (induction xs) auto

section \<open>JavaScript strings\<close>

text \<open>White space of \<open>String.prototype.trim\<close> (below 256).\<close>

definition js_space :: "char \<Rightarrow> bool" where
  "js_space c \<longleftrightarrow> of_char c \<in> {9, 10, 11, 12, 13, 32, 160 :: nat}"

definition js_trim :: "string \<Rightarrow> string" where
  "js_trim s = rev (dropWhile js_space (rev (dropWhile js_space s)))"

text \<open>\<open>s.split(c)\<close> for a one-character separator: never the empty list.\<close>

fun js_split :: "char \<Rightarrow> string \<Rightarrow> string list" where
  "js_split c [] = [[]]"
| "js_split c (x # xs) =
     (if x = c then [] # js_split c xs
      else (case js_split c xs of [] \<Rightarrow> [[x]] | y # ys \<Rightarrow> (x # y) # ys))"

definition js_startsWith :: "string \<Rightarrow> string \<Rightarrow> bool" where
  "js_startsWith s p \<longleftrightarrow> prefix p s"

text \<open>\<open>indexOf\<close> and \<open>lastIndexOf\<close> of one character; \<open>None\<close> is the source's \<open>-1\<close>.\<close>

fun js_indexOf :: "char \<Rightarrow> string \<Rightarrow> nat option" where
  "js_indexOf c [] = None"
| "js_indexOf c (x # xs) = (if x = c then Some 0 else map_option Suc (js_indexOf c xs))"

fun js_lastIndexOf :: "char \<Rightarrow> string \<Rightarrow> nat option" where
  "js_lastIndexOf c [] = None"
| "js_lastIndexOf c (x # xs) =
     (case js_lastIndexOf c xs of Some n \<Rightarrow> Some (Suc n)
      | None \<Rightarrow> if x = c then Some 0 else None)"

text \<open>\<open>s.slice(i, j)\<close> and \<open>s.substring(i, j)\<close> for \<open>0 \<le> i \<le> j\<close>.\<close>

definition js_slice :: "nat \<Rightarrow> nat \<Rightarrow> string \<Rightarrow> string" where
  "js_slice i j s = take (j - i) (drop i s)"

text \<open>\<open>a || b\<close> on strings: the empty string and \<open>undefined\<close>/\<open>null\<close> are falsy.\<close>

definition str_or :: "string option \<Rightarrow> string \<Rightarrow> string" where
  "str_or a b = (case a of None \<Rightarrow> b | Some [] \<Rightarrow> b | Some s \<Rightarrow> s)"

definition truthy_str :: "string option \<Rightarrow> bool" where
  "truthy_str a \<longleftrightarrow> (case a of None \<Rightarrow> False | Some s \<Rightarrow> s \<noteq> [])"

text \<open>\<open>a ?? b\<close>.\<close>

definition nullish :: "'a option \<Rightarrow> 'a \<Rightarrow> 'a" where
  "nullish a b = (case a of None \<Rightarrow> b | Some x \<Rightarrow> x)"

lemma nullish_simps [simp]: "nullish None b = b" "nullish (Some x) b = x"
  by (simp_all add: nullish_def)

lemma str_or_simps [simp]: "str_or None b = b" "str_or (Some []) b = b" "str_or (Some (c # s)) b = c # s"
  by (simp_all add: str_or_def)

lemma str_or_empty [simp]: "str_or (Some s) [] = s"
  by (cases s) (simp_all add: str_or_def)

lemma truthy_str_iff: "truthy_str a \<longleftrightarrow> (\<exists>s. a = Some s \<and> s \<noteq> [])"
  by (auto simp: truthy_str_def split: option.splits)

lemma truthy_str_simps [simp]:
  "\<not> truthy_str None" "truthy_str (Some s) \<longleftrightarrow> s \<noteq> []"
  by (simp_all add: truthy_str_def)

lemma js_split_nonempty [simp]: "js_split c s \<noteq> []"
  by (induction c s rule: js_split.induct) (auto split: list.splits)

lemma js_split_subset: "q \<in> set (js_split c s) \<Longrightarrow> set q \<subseteq> set s"
  by (induction c s arbitrary: q rule: js_split.induct) (force split: if_splits list.splits)+

lemma js_indexOf_append: "c \<notin> set a \<Longrightarrow> js_indexOf c (a @ c # b) = Some (length a)"
  by (induction a) auto

lemma js_indexOf_None: "js_indexOf c s = None \<longleftrightarrow> c \<notin> set s"
  by (induction s) auto

lemma js_startsWith_append [simp]: "js_startsWith (p @ s) p"
  by (simp add: js_startsWith_def)

section \<open>Decimal printing\<close>

text \<open>Template literals print integers in decimal.\<close>

definition digit_char :: "nat \<Rightarrow> char" where
  "digit_char n = char_of (48 + n)"

fun show_nat :: "nat \<Rightarrow> string" where
  "show_nat n = (if n < 10 then [digit_char n] else show_nat (n div 10) @ [digit_char (n mod 10)])"

declare show_nat.simps [simp del]

definition show_int :: "int \<Rightarrow> string" where
  "show_int i = (if i < 0 then CHR ''-'' # show_nat (nat (- i)) else show_nat (nat i))"

lemma digit_char_inj: "m < 10 \<Longrightarrow> n < 10 \<Longrightarrow> digit_char m = digit_char n \<longleftrightarrow> m = n"
  by (auto simp: digit_char_def)

lemma show_nat_nonempty [simp]: "show_nat n \<noteq> []"
  by (subst show_nat.simps) simp

lemma show_nat_nonempty' [simp]: "[] \<noteq> show_nat n"
  using show_nat_nonempty [of n] by (simp del: show_nat_nonempty)

lemma show_nat_inj: "show_nat m = show_nat n \<Longrightarrow> m = n"
proof (induction m arbitrary: n rule: show_nat.induct)
  case (1 m)
  have dm: "show_nat m = (if m < 10 then [digit_char m] else show_nat (m div 10) @ [digit_char (m mod 10)])"
    and dn: "show_nat n = (if n < 10 then [digit_char n] else show_nat (n div 10) @ [digit_char (n mod 10)])"
    by (rule show_nat.simps)+
  show ?case
  proof (cases "m < 10 \<or> n < 10")
    case True
    then show ?thesis
      using 1(2) dm dn by (auto split: if_splits simp: digit_char_inj)
  next
    case False
    then have "show_nat (m div 10) = show_nat (n div 10)" and "digit_char (m mod 10) = digit_char (n mod 10)"
      using 1(2) dm dn by auto
    then have "m div 10 = n div 10" and "m mod 10 = n mod 10"
      using 1(1) False by (auto simp: digit_char_inj)
    then show ?thesis by (metis div_mult_mod_eq)
  qed
qed

end
