(* ===== verification/External.thy ===== *)
theory External
  imports Prelude
begin

text \<open>
  The code the panel calls that is not under \<^verbatim>\<open>src/\<close> (bcrypt, otplib, the JWT
  service, class-validator's format checks, PostgreSQL's pattern matching, the regular
  expression engine) is one record of functions, an argument of every definition that
  calls it.  Random values (generated identifiers, tokens, codes) and the clock are
  arguments of the single operation that draws them.
\<close>

text \<open>The payloads the panel signs: \<open>JwtPayload\<close>, the two-factor payload and the
  impersonation payload; a field that a payload lacks is \<open>None\<close>.  Times are milliseconds.\<close>

record claims =
  jwt_sub :: string
  jwt_email :: "string option"
  jwt_rootAdmin :: "bool option"
  jwt_purpose :: "string option"
  jwt_impersonatedBy :: "string option"
  jwt_expiresAt :: nat

record ext =
  regexTest :: "string \<Rightarrow> string \<Rightarrow> bool option" \<comment> \<open>source, subject; \<open>None\<close> is a SyntaxError\<close>
  regexReplaceAll :: "string \<Rightarrow> string \<Rightarrow> string \<Rightarrow> string option" \<comment> \<open>source, replacement, subject\<close>
  bcryptHash :: "nat \<Rightarrow> string \<Rightarrow> string" \<comment> \<open>rounds, plain text\<close>
  bcryptCompare :: "string \<Rightarrow> string \<Rightarrow> bool" \<comment> \<open>plain text, hash\<close>
  totpVerify :: "nat \<Rightarrow> string \<Rightarrow> string \<Rightarrow> bool" \<comment> \<open>time, token, secret\<close>
  totpKeyUri :: "string \<Rightarrow> string \<Rightarrow> string \<Rightarrow> string" \<comment> \<open>account, issuer, secret\<close>
  qrDataUrl :: "string \<Rightarrow> string"
  jwtSign :: "claims \<Rightarrow> string"
  jwtVerify :: "nat \<Rightarrow> string \<Rightarrow> claims option" \<comment> \<open>time, token\<close>
  bearerExtract :: "string option \<Rightarrow> string option" \<comment> \<open>\<open>fromAuthHeaderAsBearerToken\<close>\<close>
  isEmail :: "string \<Rightarrow> bool"
  isUUID :: "string \<Rightarrow> bool"
  isUUID4 :: "string \<Rightarrow> bool" \<comment> \<open>\<open>IsUUID('4')\<close>\<close>
  sqlLike :: "string \<Rightarrow> string \<Rightarrow> bool" \<comment> \<open>subject, pattern\<close>
  sqlILike :: "string \<Rightarrow> string \<Rightarrow> bool" \<comment> \<open>subject, pattern\<close>
  collation :: "string \<Rightarrow> nat" \<comment> \<open>rank in the ORDER BY of the database\<close>
  base64 :: "string \<Rightarrow> string"
  skipUndefined :: bool \<comment> \<open>an entity property set to \<open>undefined\<close> is left out of the UPDATE\<close>

text \<open>The documented behaviour of the external code, the hypotheses of the theorems that
  need it.\<close>

definition bcrypt_ok :: "ext \<Rightarrow> bool" where
  "bcrypt_ok X \<longleftrightarrow> (\<forall>n p. bcryptCompare X p (bcryptHash X n p))"

definition jwt_ok :: "ext \<Rightarrow> bool" where
  "jwt_ok X \<longleftrightarrow> (\<forall>t c. jwtVerify X t (jwtSign X c) = (if t < jwt_expiresAt c then Some c else None))"

text \<open>
  The value an UPDATE of a nullable column leaves when the entity property was set to
  \<open>undefined\<close>: TypeORM skips such columns (\<open>skipUndefined\<close>), so the stored value stays.
\<close>

definition col_undefined :: "ext \<Rightarrow> 'a option \<Rightarrow> 'a option" where
  "col_undefined X stored = (if skipUndefined X then stored else None)"

end
