(* ===== verification/JsNumber.thy ===== *)
theory JsNumber
  imports Prelude "HOL-Library.Log_Nat"
begin

text \<open>
  The JavaScript number type as far as the panel uses it: IEEE doubles as exact rationals
  with the rounding written out (53 significant bits, ties to even, subnormals, overflow to
  infinity), the comparison operators with their treatment of \<open>NaN\<close>, and
  \<open>Number(string)\<close>.  The sign of zero is not kept: no comparison sees it.
\<close>

section \<open>Rounding\<close>

definition pow2 :: "int \<Rightarrow> rat" where
  "pow2 e = (if 0 \<le> e then 2 ^ nat e else 1 / 2 ^ nat (- e))"

text \<open>The exponent of a positive rational: \<open>pow2 e \<le> x\<close>.\<close>

definition log2_floor :: "rat \<Rightarrow> int" where
  "log2_floor x =
     (let (p, q) = quotient_of x; e = bitlen p - bitlen q
      in if pow2 e \<le> x then e else e - 1)"

definition round_half_even :: "rat \<Rightarrow> int" where
  "round_half_even x =
     (let f = \<lfloor>x\<rfloor>; d = x - of_int f
      in if d < 1 / 2 then f else if d > 1 / 2 then f + 1 else if even f then f else f + 1)"

definition ulp :: "rat \<Rightarrow> rat" where
  "ulp x = pow2 (max (log2_floor \<bar>x\<bar> - 52) (-1074))"

definition rnd :: "rat \<Rightarrow> rat" where
  "rnd x = (if x = 0 then 0 else of_int (round_half_even (x / ulp x)) * ulp x)"

section \<open>The number type\<close>

datatype jsnum = NaN | Infinity bool | Fin rat

definition to_double :: "rat \<Rightarrow> jsnum" where
  "to_double x = (let r = rnd x in if pow2 1024 \<le> \<bar>r\<bar> then Infinity (x < 0) else Fin r)"

definition is_nan :: "jsnum \<Rightarrow> bool" where
  "is_nan x \<longleftrightarrow> x = NaN"

instantiation jsnum :: ord
begin

fun less_jsnum :: "jsnum \<Rightarrow> jsnum \<Rightarrow> bool" where
  "less_jsnum NaN y = False"
| "less_jsnum x NaN = False"
| "less_jsnum (Infinity a) (Infinity b) = (a \<and> \<not> b)"
| "less_jsnum (Infinity a) (Fin y) = a"
| "less_jsnum (Fin x) (Infinity b) = (\<not> b)"
| "less_jsnum (Fin x) (Fin y) = (x < y)"

fun less_eq_jsnum :: "jsnum \<Rightarrow> jsnum \<Rightarrow> bool" where
  "less_eq_jsnum NaN y = False"
| "less_eq_jsnum x NaN = False"
| "less_eq_jsnum (Infinity a) (Infinity b) = (a \<or> \<not> b)"
| "less_eq_jsnum (Infinity a) (Fin y) = a"
| "less_eq_jsnum (Fin x) (Infinity b) = (\<not> b)"
| "less_eq_jsnum (Fin x) (Fin y) = (x \<le> y)"

instance ..

end

text \<open>\<open>Number.isInteger\<close>.\<close>

fun is_integer :: "jsnum \<Rightarrow> bool" where
  "is_integer (Fin x) = (of_int \<lfloor>x\<rfloor> = x)"
| "is_integer _ = False"

lemma not_less_jsnum: "\<not> is_nan x \<Longrightarrow> \<not> is_nan y \<Longrightarrow> \<not> x < y \<longleftrightarrow> y \<le> x" for x y :: jsnum
  by (cases x; cases y) (auto simp: is_nan_def)

section \<open>Number applied to a string\<close>

definition digit_val :: "char \<Rightarrow> nat option" where
  "digit_val c =
     (let n = (of_char c :: nat)
      in if 48 \<le> n \<and> n \<le> 57 then Some (n - 48)
         else if 97 \<le> n \<and> n \<le> 122 then Some (n - 87)
         else if 65 \<le> n \<and> n \<le> 90 then Some (n - 55) else None)"

text \<open>A non-empty digit string in a radix.\<close>

fun digits_acc :: "nat \<Rightarrow> nat \<Rightarrow> string \<Rightarrow> nat option" where
  "digits_acc r acc [] = Some acc"
| "digits_acc r acc (c # cs) =
     (case digit_val c of None \<Rightarrow> None
      | Some d \<Rightarrow> if d < r then digits_acc r (acc * r + d) cs else None)"

definition digits :: "nat \<Rightarrow> string \<Rightarrow> nat option" where
  "digits r s = (if s = [] then None else digits_acc r 0 s)"

definition is_digit :: "char \<Rightarrow> bool" where
  "is_digit c \<longleftrightarrow> 48 \<le> (of_char c :: nat) \<and> (of_char c :: nat) \<le> 57"

text \<open>A sign: \<open>(negative, rest)\<close>.\<close>

fun take_sign :: "string \<Rightarrow> bool \<times> string" where
  "take_sign [] = (False, [])"
| "take_sign (c # cs) =
     (if c = CHR ''-'' then (True, cs) else if c = CHR ''+'' then (False, cs) else (False, c # cs))"

text \<open>The exponent part: absent, or \<open>e\<close>/\<open>E\<close>, an optional sign and digits.\<close>

definition exponent :: "string \<Rightarrow> int option" where
  "exponent s =
     (case s of [] \<Rightarrow> Some 0
      | c # cs \<Rightarrow>
          if c = CHR ''e'' \<or> c = CHR ''E'' then
            (let (neg, ds) = take_sign cs
             in map_option (\<lambda>n. if neg then - int n else int n) (digits 10 ds))
          else None)"

text \<open>
  An unsigned decimal literal: digits, an optional point and digits, an optional exponent;
  at least one digit.
\<close>

definition unsigned_decimal :: "string \<Rightarrow> rat option" where
  "unsigned_decimal s =
     (let ip = takeWhile is_digit s; r1 = dropWhile is_digit s;
          fp = (case r1 of c # cs \<Rightarrow> if c = CHR ''.'' then takeWhile is_digit cs else [] | [] \<Rightarrow> []);
          r2 = (case r1 of c # cs \<Rightarrow> if c = CHR ''.'' then dropWhile is_digit cs else r1 | [] \<Rightarrow> [])
      in if ip = [] \<and> fp = [] then None
         else (case (digits 10 (ip @ fp), exponent r2) of
                 (Some n, Some e) \<Rightarrow>
                   (let k = e - int (length fp)
                    in Some (if 0 \<le> k then of_nat n * 10 ^ nat k else of_nat n / 10 ^ nat (- k)))
               | _ \<Rightarrow> None))"

text \<open>\<open>Number(s)\<close>: trimmed; empty is 0; binary, octal and hexadecimal take no sign.\<close>

definition js_Number :: "string \<Rightarrow> jsnum" where
  "js_Number s =
     (let t = js_trim s
      in if t = [] then Fin 0
         else if take 2 t \<in> {''0x'', ''0X''} then
           (case digits 16 (drop 2 t) of None \<Rightarrow> NaN | Some n \<Rightarrow> to_double (of_nat n))
         else if take 2 t \<in> {''0o'', ''0O''} then
           (case digits 8 (drop 2 t) of None \<Rightarrow> NaN | Some n \<Rightarrow> to_double (of_nat n))
         else if take 2 t \<in> {''0b'', ''0B''} then
           (case digits 2 (drop 2 t) of None \<Rightarrow> NaN | Some n \<Rightarrow> to_double (of_nat n))
         else
           (let (neg, u) = take_sign t
            in if u = ''Infinity'' then Infinity neg
               else (case unsigned_decimal u of None \<Rightarrow> NaN
                     | Some x \<Rightarrow> to_double (if neg then - x else x))))"

end
