(* ===== verification/VariableValidator.thy ===== *)
theory VariableValidator
  imports External JsNumber "HOL-Library.AList"
begin

text \<open>
  \<^verbatim>\<open>common/utils/variable-validator.ts\<close>: the egg variables of a server against their rule
  strings, and step 8 of \<open>ServersService.create\<close>, the substitution of the placeholders of
  the startup command.

  Values are strings or absent (\<open>null\<close>/\<open>undefined\<close>).  An error message is its
  constructor with the variable's name and the numbers or options it prints.
\<close>

section \<open>JavaScript objects with string keys\<close>

text \<open>An object is an association list in insertion order; assigning an existing key keeps
  its place (\<open>AList.update\<close>).\<close>

type_synonym 'v js_obj = "(string \<times> 'v) list"

definition js_get :: "'v js_obj \<Rightarrow> string \<Rightarrow> 'v option" where
  "js_get obj k = map_of obj k"

definition js_set :: "string \<Rightarrow> 'v \<Rightarrow> 'v js_obj \<Rightarrow> 'v js_obj" where
  "js_set k v obj = AList.update k v obj"

text \<open>\<open>Object.entries\<close>: array-index keys first, ascending, then the others in insertion
  order.\<close>

definition array_index :: "string \<Rightarrow> nat option" where
  "array_index k =
     (if k \<noteq> [] \<and> list_all is_digit k \<and> (length k = 1 \<or> hd k \<noteq> CHR ''0'') then
        (case digits 10 k of Some n \<Rightarrow> if n < 4294967295 then Some n else None | None \<Rightarrow> None)
      else None)"

definition js_entries :: "'v js_obj \<Rightarrow> (string \<times> 'v) list" where
  "js_entries obj =
     sort_key (\<lambda>e. case array_index (fst e) of Some n \<Rightarrow> n | None \<Rightarrow> 0)
       (filter (\<lambda>e. array_index (fst e) \<noteq> None) obj)
     @ filter (\<lambda>e. array_index (fst e) = None) obj"

section \<open>The rules\<close>

datatype var_error =
    IsRequired | MustBeString | MustBeNumeric | MustBeInteger | MustBeBoolean
  | MustBeBetween jsnum jsnum | MustBeOneOf "string list"
  | DoesNotMatch | InvalidRegexRule
  | AtLeast jsnum | AtLeastCharacters jsnum | NoMoreThan jsnum | NoMoreThanCharacters jsnum

type_synonym var_message = "string \<times> var_error"

record ValidationResult =
  vr_valid :: bool
  vr_errors :: "var_message list"

text \<open>The delimiters of a \<open>regex:\<close> rule: \<open>/pattern/\<close> loses both slashes.\<close>

definition strip_delimiters :: "string \<Rightarrow> string" where
  "strip_delimiters pattern =
     (case js_lastIndexOf (CHR ''/'') pattern of
        Some n \<Rightarrow> if js_startsWith pattern ''/'' \<and> 0 < n then js_slice 1 n pattern else pattern
      | None \<Rightarrow> pattern)"

definition js_length :: "string \<Rightarrow> jsnum" where
  "js_length s = Fin (of_nat (length s))"

text \<open>The body of the loop over the rules, for one rule and a non-empty value.\<close>

definition check_rule :: "ext \<Rightarrow> bool \<Rightarrow> string \<Rightarrow> string \<Rightarrow> var_error list" where
  "check_rule X isNumericType v rule =
     (if rule = ''required'' \<or> rule = ''nullable'' then []
      else if rule = ''string'' then []
      else if rule = ''numeric'' then
        (if is_nan (js_Number v) then [MustBeNumeric] else [])
      else if rule = ''integer'' then
        (if \<not> is_integer (js_Number v) \<or> is_nan (js_Number v) then [MustBeInteger] else [])
      else if rule = ''boolean'' then
        (if v \<notin> set [''true'', ''false'', ''1'', ''0''] then [MustBeBoolean] else [])
      else if js_startsWith rule ''between:'' then
        (case js_split (CHR '','') (drop 8 rule) of
           [a, b] \<Rightarrow>
             (let min = js_Number a; max = js_Number b; numVal = js_Number v
              in if is_nan numVal \<or> numVal < min \<or> max < numVal then [MustBeBetween min max] else [])
         | _ \<Rightarrow> [])
      else if js_startsWith rule ''in:'' then
        (let options = js_split (CHR '','') (drop 3 rule)
         in if v \<notin> set options then [MustBeOneOf options] else [])
      else if js_startsWith rule ''regex:'' then
        (case regexTest X (strip_delimiters (drop 6 rule)) v of
           None \<Rightarrow> [InvalidRegexRule]
         | Some m \<Rightarrow> if \<not> m then [DoesNotMatch] else [])
      else if js_startsWith rule ''min:'' then
        (let min = js_Number (drop 4 rule)
         in if isNumericType then
              (if is_nan (js_Number v) \<or> js_Number v < min then [AtLeast min] else [])
            else (if js_length v < min then [AtLeastCharacters min] else []))
      else if js_startsWith rule ''max:'' then
        (let max = js_Number (drop 4 rule)
         in if isNumericType then
              (if is_nan (js_Number v) \<or> max < js_Number v then [NoMoreThan max] else [])
            else (if max < js_length v then [NoMoreThanCharacters max] else []))
      else [])"

definition rule_list :: "string \<Rightarrow> string list" where
  "rule_list rules = map js_trim (js_split (CHR ''|'') rules)"

definition validateVariableValue :: "ext \<Rightarrow> string \<Rightarrow> string option \<Rightarrow> string \<Rightarrow> ValidationResult" where
  "validateVariableValue X variableName v rules =
     (if js_trim rules = [] then \<lparr>vr_valid = True, vr_errors = []\<rparr>
      else
        (let ruleList = rule_list rules;
             isNullable = ''nullable'' \<in> set ruleList;
             isRequired = ''required'' \<in> set ruleList
         in if v = None \<or> v = Some [] then
              (let errs = (if isRequired then [(variableName, IsRequired)] else [])
               in if isNullable \<or> \<not> isRequired then \<lparr>vr_valid = (errs = []), vr_errors = errs\<rparr>
                  else \<lparr>vr_valid = False, vr_errors = errs\<rparr>)
            else
              (let isNumericType = (''numeric'' \<in> set ruleList \<or> ''integer'' \<in> set ruleList);
                   errs = concat (map (\<lambda>r. map (Pair variableName) (check_rule X isNumericType (the v) r)) ruleList)
               in \<lparr>vr_valid = (errs = []), vr_errors = errs\<rparr>)))"

record var_spec =
  vs_envVariable :: string
  vs_name :: string
  vs_rules :: string
  vs_defaultValue :: string

record ServerValidation =
  sv_valid :: bool
  sv_errors :: "var_message list js_obj"

fun collect_errors :: "ext \<Rightarrow> string js_obj \<Rightarrow> var_spec list \<Rightarrow> var_message list js_obj \<Rightarrow> var_message list js_obj" where
  "collect_errors X vars [] errs = errs"
| "collect_errors X vars (ev # evs) errs =
     (let value = Some (nullish (js_get vars (vs_envVariable ev)) (vs_defaultValue ev));
          result = validateVariableValue X (vs_name ev) value (vs_rules ev)
      in collect_errors X vars evs
           (if \<not> vr_valid result then js_set (vs_envVariable ev) (vr_errors result) errs else errs))"

definition validateServerVariables :: "ext \<Rightarrow> string js_obj \<Rightarrow> var_spec list \<Rightarrow> ServerValidation" where
  "validateServerVariables X vars eggVariables =
     (let errs = collect_errors X vars eggVariables []
      in \<lparr>sv_valid = (errs = []), sv_errors = errs\<rparr>)"

section \<open>Properties\<close>

text \<open>A result's flag always agrees with its message list.\<close>

lemma vr_valid_iff [simp]: "vr_valid (validateVariableValue X n v rules) \<longleftrightarrow> vr_errors (validateVariableValue X n v rules) = []"
  by (auto simp: validateVariableValue_def Let_def)

lemma validate_nonempty:
  assumes "v \<noteq> []" and "js_trim rules \<noteq> []"
  shows "vr_valid (validateVariableValue X n (Some v) rules) \<longleftrightarrow>
    (\<forall>r \<in> set (rule_list rules).
       check_rule X (''numeric'' \<in> set (rule_list rules) \<or> ''integer'' \<in> set (rule_list rules)) v r = [])"
  using assms by (auto simp: validateVariableValue_def Let_def)

lemma validate_empty:
  assumes "v = None \<or> v = Some []"
  shows "vr_valid (validateVariableValue X n v rules) \<longleftrightarrow>
    js_trim rules = [] \<or> ''required'' \<notin> set (rule_list rules)"
  using assms by (auto simp: validateVariableValue_def Let_def)

lemma trim_nonempty_if_rule:
  assumes "r \<in> set (rule_list rules)" and "r \<noteq> []"
  shows "js_trim rules \<noteq> []"
proof
  assume e: "js_trim rules = []"
  have "\<forall>c \<in> set rules. js_space c"
  proof (rule ccontr)
    assume "\<not> (\<forall>c \<in> set rules. js_space c)"
    then obtain c where "c \<in> set (dropWhile js_space rules)" and "\<not> js_space c"
      by (metis UnE set_takeWhileD set_append takeWhile_dropWhile_id)
    then have "dropWhile js_space (rev (dropWhile js_space rules)) \<noteq> []"
      by (metis dropWhile_eq_Nil_conv set_rev)
    with e show False by (simp add: js_trim_def)
  qed
  then have "dropWhile js_space q = []" if "q \<in> set (js_split (CHR ''|'') rules)" for q
    using js_split_subset [OF that] by (auto simp: dropWhile_eq_Nil_conv)
  then have "\<forall>q \<in> set (rule_list rules). q = []"
    by (auto simp: rule_list_def js_trim_def dest: set_dropWhileD)
  with assms show False by auto
qed

text \<open>The rules a value passed, one by one.\<close>

lemma accepted_rule:
  assumes "vr_valid (validateVariableValue X n (Some v) rules)" and "v \<noteq> []"
    and "r \<in> set (rule_list rules)" and "r \<noteq> []"
  shows "check_rule X (''numeric'' \<in> set (rule_list rules) \<or> ''integer'' \<in> set (rule_list rules)) v r = []"
  using assms validate_nonempty [OF assms(2) trim_nonempty_if_rule [OF assms(3,4)]] by blast

lemma check_integer: "check_rule X b v ''integer'' = [] \<longleftrightarrow> is_integer (js_Number v)"
  by (cases "js_Number v") (auto simp: check_rule_def is_nan_def)

lemma js_startsWith_Cons [simp]:
  "js_startsWith (a # s) (b # p) \<longleftrightarrow> a = b \<and> js_startsWith s p"
  "js_startsWith s []"
  "\<not> js_startsWith [] (b # p)"
  by (auto simp: js_startsWith_def)

lemma check_min_numeric:
  "check_rule X True v (''min:'' @ a) = [] \<longleftrightarrow>
     \<not> is_nan (js_Number v) \<and> \<not> js_Number v < js_Number a"
  by (simp add: check_rule_def Let_def)

lemma check_max_numeric:
  "check_rule X True v (''max:'' @ a) = [] \<longleftrightarrow>
     \<not> is_nan (js_Number v) \<and> \<not> js_Number a < js_Number v"
  by (simp add: check_rule_def Let_def)

lemma check_in: "check_rule X b v (''in:'' @ opts) = [] \<longleftrightarrow> v \<in> set (js_split (CHR '','') opts)"
  by (simp add: check_rule_def Let_def)

lemma js_set_nonempty [simp]: "js_set k v obj \<noteq> []"
  by (cases obj) (auto simp: js_set_def)

lemma collect_errors_nil:
  "collect_errors X vars evs errs = [] \<longleftrightarrow>
     errs = [] \<and> (\<forall>ev \<in> set evs. vr_valid (validateVariableValue X (vs_name ev)
        (Some (nullish (js_get vars (vs_envVariable ev)) (vs_defaultValue ev))) (vs_rules ev)))"
  by (induction X vars evs errs rule: collect_errors.induct) (auto simp: Let_def)

end
