(* ===== verification/Store.thy ===== *)
theory Store
  imports VariableValidator
begin

text \<open>
  What the services see of TypeORM and NestJS: the exceptions they throw, a table as a list
  of rows with the repository operations on it, pagination, and the interface of a
  repository as a locale.

  A handler takes the state and returns \<open>exn + 'a\<close> with the new state: the state after an
  exception is kept, since a handler may have written before it threw.  The rows of a list
  stand in the order the database returns them; where the source gives no ORDER BY, nothing
  depends on it but the choice of \<open>findOne\<close> among several matches.
\<close>

section \<open>Exceptions\<close>

datatype exn =
    NotFoundException string
  | BadRequestException string
  | BadRequestErrors string "var_message list js_obj" \<comment> \<open>a body with \<open>message\<close> and \<open>errors\<close>\<close>
  | ForbiddenException string
  | UnauthorizedException string
  | UnauthorizedDefault \<comment> \<open>\<open>new UnauthorizedException()\<close>, as the JWT guard throws it\<close>
  | ValidationFailed \<comment> \<open>the \<open>ValidationPipe\<close> refused the body\<close>
  | ConflictException string
  | QueryFailedError \<comment> \<open>a constraint of the database, or an invalid OFFSET or LIMIT\<close>
  | WingsError string \<comment> \<open>an \<open>Error\<close> of \<open>WingsService\<close>\<close>
  | ThrownTrue \<comment> \<open>\<open>throw true\<close>\<close>
  | TypeError \<comment> \<open>a property of \<open>null\<close>/\<open>undefined\<close>\<close>
  | SyntaxError \<comment> \<open>of \<open>new RegExp\<close>\<close>

type_synonym ('s, 'a) handled = "(exn + 'a) \<times> 's"

fun is_ok :: "exn + 'a \<Rightarrow> bool" where
  "is_ok (Inl e) = False"
| "is_ok (Inr a) = True"

lemma is_ok_iff: "is_ok r \<longleftrightarrow> (\<exists>a. r = Inr a)"
  by (cases r) auto

section \<open>Tables\<close>

definition findOne :: "('r \<Rightarrow> bool) \<Rightarrow> 'r list \<Rightarrow> 'r option" where
  "findOne P t = List.find P t"

definition findRows :: "('r \<Rightarrow> bool) \<Rightarrow> 'r list \<Rightarrow> 'r list" where
  "findRows P t = filter P t"

definition countRows :: "('r \<Rightarrow> bool) \<Rightarrow> 'r list \<Rightarrow> nat" where
  "countRows P t = length (filter P t)"

definition insertRow :: "'r \<Rightarrow> 'r list \<Rightarrow> 'r list" where
  "insertRow r t = t @ [r]"

definition updateRows :: "('r \<Rightarrow> bool) \<Rightarrow> ('r \<Rightarrow> 'r) \<Rightarrow> 'r list \<Rightarrow> 'r list" where
  "updateRows P f t = map (\<lambda>r. if P r then f r else r) t"

definition removeRows :: "('r \<Rightarrow> bool) \<Rightarrow> 'r list \<Rightarrow> 'r list" where
  "removeRows P t = filter (\<lambda>r. \<not> P r) t"

definition hasRow :: "('r \<Rightarrow> bool) \<Rightarrow> 'r list \<Rightarrow> bool" where
  "hasRow P t \<longleftrightarrow> list_ex P t"

lemma findOne_Some: "findOne P t = Some r \<Longrightarrow> P r \<and> r \<in> set t"
  by (simp add: findOne_def find_SomeD)

lemma findOne_None: "findOne P t = None \<longleftrightarrow> (\<forall>r \<in> set t. \<not> P r)"
  by (simp add: findOne_def find_None_all)

lemma hasRow_iff: "hasRow P t \<longleftrightarrow> (\<exists>r \<in> set t. P r)"
  by (simp add: hasRow_def list_ex_iff)

lemma findOne_hasRow: "findOne P t = Some r \<Longrightarrow> hasRow P t"
  by (auto simp: hasRow_iff dest: findOne_Some)

lemma table_sets [store_simps]:
  "set (findRows P t) = {r \<in> set t. P r}"
  "set (insertRow r t) = insert r (set t)"
  "set (updateRows P f t) = (\<lambda>r. if P r then f r else r) ` set t"
  "set (removeRows P t) = {r \<in> set t. \<not> P r}"
  by (auto simp: findRows_def insertRow_def updateRows_def removeRows_def)

lemma map_updateRows: "(\<And>r. P r \<Longrightarrow> key (f r) = key r) \<Longrightarrow> map key (updateRows P f t) = map key t"
  by (auto simp: updateRows_def)

lemma updateRows_none: "\<not> hasRow P t \<Longrightarrow> updateRows P f t = t"
  by (auto simp: updateRows_def hasRow_iff intro: map_idI)

lemma findOne_updateRows:
  "(\<And>r. P r \<Longrightarrow> key (f r) = key r) \<Longrightarrow>
   findOne (\<lambda>r. key r = k) (updateRows P f t) =
     map_option (\<lambda>r. if P r then f r else r) (findOne (\<lambda>r. key r = k) t)"
  by (induction t) (auto simp: findOne_def updateRows_def)

lemma findOne_insertRow:
  "findOne P (insertRow r t) = (case findOne P t of Some x \<Rightarrow> Some x | None \<Rightarrow> if P r then Some r else None)"
  by (simp add: findOne_def insertRow_def find_append split: option.splits)

lemma findOne_removeRows_key:
  "findOne (\<lambda>r. key r = k) (removeRows (\<lambda>r. key r = k) t) = None"
  by (auto simp: findOne_None removeRows_def)

lemma findOne_key: "distinct (map key t) \<Longrightarrow> r \<in> set t \<Longrightarrow> findOne (\<lambda>x. key x = key r) t = Some r"
  by (simp add: findOne_def find_distinct_key)

text \<open>\<open>save\<close> of an array: one transaction, so that a refused row undoes the rows before it.\<close>

fun save_each :: "('r \<Rightarrow> 'd \<Rightarrow> exn + 'd) \<Rightarrow> 'r list \<Rightarrow> 'd \<Rightarrow> exn + 'd" where
  "save_each save [] d = Inr d"
| "save_each save (r # rs) d = (case save r d of Inl e \<Rightarrow> Inl e | Inr d1 \<Rightarrow> save_each save rs d1)"

lemma save_each_keeps:
  "save_each save rs d = Inr d' \<Longrightarrow> (\<And>r d d'. save r d = Inr d' \<Longrightarrow> I d \<Longrightarrow> I d') \<Longrightarrow> I d \<Longrightarrow> I d'"
  by (induction rs arbitrary: d) (auto split: sum.splits)

section \<open>The interface of a repository\<close>

text \<open>
  A repository reads a table out of the state and writes it back; a row is found by its key
  (the primary key of the entity).  The laws are those of one field of the state; the
  clients' lemmas about finding, saving, updating and removing are proved once from them.
\<close>

locale repository =
  fixes rows :: "'d \<Rightarrow> 'r list"
    and put :: "('r list \<Rightarrow> 'r list) \<Rightarrow> 'd \<Rightarrow> 'd"
    and key :: "'r \<Rightarrow> string"
  assumes rows_put: "rows (put f d) = f (rows d)"
    and put_put: "put f (put g d) = put (f \<circ> g) d"
    and put_id: "put (\<lambda>t. t) d = d"
begin

lemma find_after_save:
  "findOne (\<lambda>x. key x = key r) (rows d) = None \<Longrightarrow>
   findOne (\<lambda>x. key x = key r) (rows (put (insertRow r) d)) = Some r"
  by (simp add: rows_put findOne_insertRow)

lemma find_other_after_save:
  "k \<noteq> key r \<Longrightarrow>
   findOne (\<lambda>x. key x = k) (rows (put (insertRow r) d)) = findOne (\<lambda>x. key x = k) (rows d)"
  by (auto simp: rows_put findOne_insertRow split: option.splits)

lemma find_after_update:
  assumes "\<And>r. key (f r) = key r"
  shows "findOne (\<lambda>x. key x = k) (rows (put (updateRows (\<lambda>x. key x = k') f) d)) =
    (if k = k' then map_option f (findOne (\<lambda>x. key x = k) (rows d)) else findOne (\<lambda>x. key x = k) (rows d))"
proof -
  have "findOne (\<lambda>x. key x = k) (rows (put (updateRows (\<lambda>x. key x = k') f) d)) =
      map_option (\<lambda>r. if key r = k' then f r else r) (findOne (\<lambda>x. key x = k) (rows d))"
    by (simp add: rows_put findOne_updateRows assms)
  then show ?thesis
    by (cases "findOne (\<lambda>x. key x = k) (rows d)") (auto dest: findOne_Some)
qed

lemma find_after_remove:
  "findOne (\<lambda>x. key x = k) (rows (put (removeRows (\<lambda>x. key x = k)) d)) = None"
  by (simp add: rows_put findOne_removeRows_key)

lemma save_each_append:
  assumes "\<And>r d. r \<in> set rs \<Longrightarrow> ok d \<Longrightarrow> \<not> hasRow (\<lambda>x. key x = key r) (rows d) \<Longrightarrow> save r d = Inr (put (insertRow r) d)"
    and "\<And>r d. ok d \<Longrightarrow> ok (put (insertRow r) d)"
    and "ok d" "distinct (map key rs)" "\<forall>r \<in> set rs. \<forall>x \<in> set (rows d). key x \<noteq> key r"
  shows "save_each save rs d = Inr (put (\<lambda>t. t @ rs) d)"
  using assms
proof (induction rs arbitrary: d)
  case Nil
  then show ?case by (simp add: put_id)
next
  case (Cons r rs)
  have "save r d = Inr (put (insertRow r) d)" using Cons.prems by (intro Cons.prems(1)) (auto simp: hasRow_iff)
  moreover have "save_each save rs (put (insertRow r) d) = Inr (put (\<lambda>t. t @ rs) (put (insertRow r) d))"
  proof (rule Cons.IH)
    show "save r' d' = Inr (put (insertRow r') d')"
      if "r' \<in> set rs" "ok d'" "\<not> hasRow (\<lambda>x. key x = key r') (rows d')" for r' d'
      using that by (intro Cons.prems(1)) auto
    show "ok (put (insertRow r) d)" using Cons.prems(2,3) by blast
    show "\<forall>r' \<in> set rs. \<forall>x \<in> set (rows (put (insertRow r) d)). key x \<noteq> key r'"
      using Cons.prems(4,5) by (auto simp: rows_put insertRow_def)
  qed (use Cons.prems in auto)
  ultimately show ?case by (simp add: put_put comp_def insertRow_def)
qed

lemma unique_save:
  "distinct (map key (rows d)) \<Longrightarrow> findOne (\<lambda>x. key x = key r) (rows d) = None \<Longrightarrow>
   distinct (map key (rows (put (insertRow r) d)))"
  by (auto simp: rows_put insertRow_def findOne_None)

lemma unique_update:
  "distinct (map key (rows d)) \<Longrightarrow> (\<And>r. P r \<Longrightarrow> key (f r) = key r) \<Longrightarrow>
   distinct (map key (rows (put (updateRows P f) d)))"
  by (simp add: rows_put map_updateRows)

lemma unique_remove:
  "distinct (map key (rows d)) \<Longrightarrow> distinct (map key (rows (put (removeRows P) d)))"
  by (simp add: rows_put removeRows_def distinct_map_filter_keep)

end

section \<open>Pagination\<close>

record 'a paged =
  pg_data :: "'a list"
  pg_total :: nat
  pg_page :: int
  pg_perPage :: int
  pg_totalPages :: int

text \<open>\<open>page ? +page : d\<close> on a query parameter: absent, \<open>NaN\<close> and 0 give the default.\<close>

definition query_or :: "int option \<Rightarrow> int \<Rightarrow> int" where
  "query_or q d = (case q of None \<Rightarrow> d | Some n \<Rightarrow> if n = 0 then d else n)"

text \<open>
  \<open>skip: (page - 1) * perPage, take: perPage\<close> over the matching rows in order, with the
  meta block; PostgreSQL refuses a negative OFFSET or LIMIT.
\<close>

definition paginate :: "int \<Rightarrow> int \<Rightarrow> 'a list \<Rightarrow> exn + 'a paged" where
  "paginate page perPage xs =
     (if (page - 1) * perPage < 0 \<or> perPage < 0 then Inl QueryFailedError
      else Inr \<lparr>pg_data = take (nat perPage) (drop (nat ((page - 1) * perPage)) xs),
                pg_total = length xs, pg_page = page, pg_perPage = perPage,
                pg_totalPages = - ((- int (length xs)) div perPage)\<rparr>)"

text \<open>\<open>ORDER BY createdAt DESC\<close>: stable, so that rows of one instant keep their order.\<close>

definition order_desc :: "('r \<Rightarrow> nat) \<Rightarrow> 'r list \<Rightarrow> 'r list" where
  "order_desc f t = sort_key (\<lambda>r. - int (f r)) t"

lemma order_desc_set [simp]: "set (order_desc f t) = set t"
  by (simp add: order_desc_def)

lemma order_desc_length [simp]: "length (order_desc f t) = length t"
  by (simp add: order_desc_def)

lemma take_drop_chunks:
  "concat (map (\<lambda>i. take n (drop (i * n) xs)) [0..<k]) = take (k * n) xs"
proof (induction k)
  case 0
  then show ?case by simp
next
  case (Suc k)
  then show ?case using take_add [of "k * n" n xs] by (simp add: add.commute)
qed

lemma page_data:
  "pg_data p = take n (drop (i * n) xs)" if "paginate (int i + 1) (int n) xs = Inr p"
proof -
  have "\<not> int i * int n < 0" and "nat (int i * int n) = i * n"
    by (simp_all add: nat_mult_distrib linorder_not_less)
  then show ?thesis using that by (auto simp: paginate_def split: if_splits)
qed

lemma paginate_ok: "\<exists>p. paginate (int i + 1) (int n) xs = Inr p"
proof -
  have "0 \<le> int i * int n" by simp
  then show ?thesis by (simp add: paginate_def linorder_not_less)
qed

section \<open>Runs of a component\<close>

text \<open>
  A component as a step relation on its state: what every step keeps holds after any number
  of steps.
\<close>

locale run_invariant =
  fixes step :: "'s \<Rightarrow> 's \<Rightarrow> bool"
    and inv :: "'s \<Rightarrow> bool"
  assumes step_keeps: "step s t \<Longrightarrow> inv s \<Longrightarrow> inv t"
begin

lemma run_keeps: "step\<^sup>*\<^sup>* s t \<Longrightarrow> inv s \<Longrightarrow> inv t"
  by (induction rule: rtranclp_induct) (auto intro: step_keeps)

end

end
