(* ===== verification/Enums.thy ===== *)
theory Enums
  imports Prelude
begin

text \<open>
  \<^verbatim>\<open>packages/shared/src/enums/index.ts\<close> and the message types of
  \<^verbatim>\<open>packages/shared/src/wings/index.ts\<close>: each enum as a datatype, with the string each
  member stands for.
\<close>

datatype UserRole = ROOT_ADMIN | CLIENT | SUBUSER

fun UserRole_value :: "UserRole \<Rightarrow> string" where
  "UserRole_value ROOT_ADMIN = ''root_admin''"
| "UserRole_value CLIENT = ''client''"
| "UserRole_value SUBUSER = ''subuser''"

datatype ServerPowerState =
  PS_RUNNING | PS_STARTING | PS_STOPPING | PS_STOPPED | PS_INSTALLING | PS_INSTALL_FAILED | PS_ERROR

fun ServerPowerState_value :: "ServerPowerState \<Rightarrow> string" where
  "ServerPowerState_value PS_RUNNING = ''running''"
| "ServerPowerState_value PS_STARTING = ''starting''"
| "ServerPowerState_value PS_STOPPING = ''stopping''"
| "ServerPowerState_value PS_STOPPED = ''stopped''"
| "ServerPowerState_value PS_INSTALLING = ''installing''"
| "ServerPowerState_value PS_INSTALL_FAILED = ''install_failed''"
| "ServerPowerState_value PS_ERROR = ''error''"

datatype ServerStatus = INSTALLING | INSTALL_FAILED | SUSPENDED | RESTORING_BACKUP | TRANSFERRING

fun ServerStatus_value :: "ServerStatus \<Rightarrow> string" where
  "ServerStatus_value INSTALLING = ''installing''"
| "ServerStatus_value INSTALL_FAILED = ''install_failed''"
| "ServerStatus_value SUSPENDED = ''suspended''"
| "ServerStatus_value RESTORING_BACKUP = ''restoring_backup''"
| "ServerStatus_value TRANSFERRING = ''transferring''"

datatype PowerAction = START | STOP | RESTART | KILL

fun PowerAction_value :: "PowerAction \<Rightarrow> string" where
  "PowerAction_value START = ''start''"
| "PowerAction_value STOP = ''stop''"
| "PowerAction_value RESTART = ''restart''"
| "PowerAction_value KILL = ''kill''"

datatype SubuserPermission =
    WEBSOCKET_CONNECT | CONTROL_CONSOLE | CONTROL_START | CONTROL_STOP | CONTROL_RESTART
  | USER_READ | USER_UPDATE | USER_CREATE | USER_DELETE
  | SERVER_READ | SERVER_UPDATE | SERVER_CREATE | SERVER_DELETE | SERVER_SUSPEND | SERVER_REINSTALL
  | FILE_READ | FILE_READ_CONTENT | FILE_CREATE | FILE_UPDATE | FILE_DELETE | FILE_ARCHIVE | FILE_SFTP
  | DATABASE_READ | DATABASE_CREATE | DATABASE_DELETE | DATABASE_UPDATE | DATABASE_VIEW_PASSWORD
  | SCHEDULE_READ | SCHEDULE_CREATE | SCHEDULE_UPDATE | SCHEDULE_DELETE
  | ALLOCATION_READ | ALLOCATION_CREATE | ALLOCATION_UPDATE | ALLOCATION_DELETE
  | STARTUP_READ | STARTUP_UPDATE | SETTINGS_RENAME

fun SubuserPermission_value :: "SubuserPermission \<Rightarrow> string" where
  "SubuserPermission_value WEBSOCKET_CONNECT = ''websocket.connect''"
| "SubuserPermission_value CONTROL_CONSOLE = ''control.console''"
| "SubuserPermission_value CONTROL_START = ''control.start''"
| "SubuserPermission_value CONTROL_STOP = ''control.stop''"
| "SubuserPermission_value CONTROL_RESTART = ''control.restart''"
| "SubuserPermission_value USER_READ = ''user.read''"
| "SubuserPermission_value USER_UPDATE = ''user.update''"
| "SubuserPermission_value USER_CREATE = ''user.create''"
| "SubuserPermission_value USER_DELETE = ''user.delete''"
| "SubuserPermission_value SERVER_READ = ''server.read''"
| "SubuserPermission_value SERVER_UPDATE = ''server.update''"
| "SubuserPermission_value SERVER_CREATE = ''server.create''"
| "SubuserPermission_value SERVER_DELETE = ''server.delete''"
| "SubuserPermission_value SERVER_SUSPEND = ''server.suspend''"
| "SubuserPermission_value SERVER_REINSTALL = ''server.reinstall''"
| "SubuserPermission_value FILE_READ = ''file.read''"
| "SubuserPermission_value FILE_READ_CONTENT = ''file.read-content''"
| "SubuserPermission_value FILE_CREATE = ''file.create''"
| "SubuserPermission_value FILE_UPDATE = ''file.update''"
| "SubuserPermission_value FILE_DELETE = ''file.delete''"
| "SubuserPermission_value FILE_ARCHIVE = ''file.archive''"
| "SubuserPermission_value FILE_SFTP = ''file.sftp''"
| "SubuserPermission_value DATABASE_READ = ''database.read''"
| "SubuserPermission_value DATABASE_CREATE = ''database.create''"
| "SubuserPermission_value DATABASE_DELETE = ''database.delete''"
| "SubuserPermission_value DATABASE_UPDATE = ''database.update''"
| "SubuserPermission_value DATABASE_VIEW_PASSWORD = ''database.view_password''"
| "SubuserPermission_value SCHEDULE_READ = ''schedule.read''"
| "SubuserPermission_value SCHEDULE_CREATE = ''schedule.create''"
| "SubuserPermission_value SCHEDULE_UPDATE = ''schedule.update''"
| "SubuserPermission_value SCHEDULE_DELETE = ''schedule.delete''"
| "SubuserPermission_value ALLOCATION_READ = ''allocation.read''"
| "SubuserPermission_value ALLOCATION_CREATE = ''allocation.create''"
| "SubuserPermission_value ALLOCATION_UPDATE = ''allocation.update''"
| "SubuserPermission_value ALLOCATION_DELETE = ''allocation.delete''"
| "SubuserPermission_value STARTUP_READ = ''startup.read''"
| "SubuserPermission_value STARTUP_UPDATE = ''startup.update''"
| "SubuserPermission_value SETTINGS_RENAME = ''settings.rename''"

datatype ScheduleTaskAction = COMMAND | POWER | BACKUP

fun ScheduleTaskAction_value :: "ScheduleTaskAction \<Rightarrow> string" where
  "ScheduleTaskAction_value COMMAND = ''command''"
| "ScheduleTaskAction_value POWER = ''power''"
| "ScheduleTaskAction_value BACKUP = ''backup''"

datatype NotificationType =
    SERVER_INSTALL_COMPLETE | SERVER_ERROR | SCHEDULE_COMPLETE | SCHEDULE_FAILED
  | SUBUSER_INVITATION | ADMIN_ANNOUNCEMENT

fun NotificationType_value :: "NotificationType \<Rightarrow> string" where
  "NotificationType_value SERVER_INSTALL_COMPLETE = ''server.install_complete''"
| "NotificationType_value SERVER_ERROR = ''server.error''"
| "NotificationType_value SCHEDULE_COMPLETE = ''schedule.complete''"
| "NotificationType_value SCHEDULE_FAILED = ''schedule.failed''"
| "NotificationType_value SUBUSER_INVITATION = ''subuser.invitation''"
| "NotificationType_value ADMIN_ANNOUNCEMENT = ''admin.announcement''"

datatype NodeConnectionStatus = CONNECTED | DISCONNECTED | NODE_ERROR

fun NodeConnectionStatus_value :: "NodeConnectionStatus \<Rightarrow> string" where
  "NodeConnectionStatus_value CONNECTED = ''connected''"
| "NodeConnectionStatus_value DISCONNECTED = ''disconnected''"
| "NodeConnectionStatus_value NODE_ERROR = ''error''"

datatype ClientMessageType = AUTH | SUBSCRIBE_CONSOLE | SUBSCRIBE_STATS | SEND_COMMAND | SEND_POWER_ACTION

fun ClientMessageType_value :: "ClientMessageType \<Rightarrow> string" where
  "ClientMessageType_value AUTH = ''auth''"
| "ClientMessageType_value SUBSCRIBE_CONSOLE = ''subscribe_console''"
| "ClientMessageType_value SUBSCRIBE_STATS = ''subscribe_stats''"
| "ClientMessageType_value SEND_COMMAND = ''send_command''"
| "ClientMessageType_value SEND_POWER_ACTION = ''send_power_action''"

text \<open>Distinct members stand for distinct strings, so a stored string names one member.\<close>

lemma ServerStatus_value_inj: "ServerStatus_value a = ServerStatus_value b \<longleftrightarrow> a = b"
  by (cases a; cases b) simp_all

lemma PowerAction_value_inj: "PowerAction_value a = PowerAction_value b \<longleftrightarrow> a = b"
  by (cases a; cases b) simp_all

end
