(* ===== verification/Entities.thy ===== *)
theory Entities
  imports Store Enums
begin

text \<open>
  The entities of \<^verbatim>\<open>packages/backend/src/database/entities\<close>: one record per class with
  its columns (a nullable column is an option), the database as the record of its tables,
  and what the decorators promise: the columns declared unique, the foreign keys of the
  relations and their \<open>onDelete\<close> actions.  Left out are \<open>updatedAt\<close>, which no code of the
  panel reads, and the properties that hold related objects: the services' loads of
  relations are lookups in the related table.
\<close>

datatype json =
    JNull | JBool bool | JNum int | JStr string | JArr "json list" | JObj "(string \<times> json) list"

section \<open>The rows\<close>

record UserEntity =
  user_id :: string
  user_email :: string
  user_username :: string
  user_password :: string
  user_rootAdmin :: bool
  user_usesTotp :: bool
  user_totpSecret :: "string option"
  user_pendingTotpSecret :: "string option"
  user_backupCodes :: "string list option"
  user_enabled :: bool
  user_avatarUrl :: "string option"
  user_lastLogin :: "nat option"
  user_createdAt :: nat

record SessionEntity =
  session_id :: string
  session_userId :: string
  session_refreshToken :: string
  session_ipAddress :: string
  session_userAgent :: string
  session_lastActiveAt :: nat
  session_revoked :: bool
  session_createdAt :: nat

record ApiKeyEntity =
  apikey_id :: string
  apikey_userId :: string
  apikey_keyStart :: string
  apikey_token :: string
  apikey_memo :: "string option"
  apikey_allowedIps :: "string list"
  apikey_lastUsedAt :: "nat option"
  apikey_createdAt :: nat

record NotificationEntity =
  notif_id :: string
  notif_userId :: string
  notif_type :: NotificationType
  notif_title :: string
  notif_message :: string
  notif_read :: bool
  notif_resourceType :: "string option"
  notif_resourceId :: "string option"
  notif_createdAt :: nat

record AuditLogEntity =
  audit_id :: string
  audit_userId :: "string option"
  audit_event :: string
  audit_ip :: "string option"
  audit_metadata :: "(string \<times> json) list"
  audit_createdAt :: nat

record LocationEntity =
  loc_id :: string
  loc_short :: string
  loc_long :: string
  loc_createdAt :: nat

record NodeEntity =
  node_id :: string
  node_name :: string
  node_description :: "string option"
  node_location :: string
  node_locationId :: "string option"
  node_fqdn :: string
  node_scheme :: string
  node_behindProxy :: bool
  node_memory :: int
  node_memoryOverallocate :: int
  node_disk :: int
  node_diskOverallocate :: int
  node_daemonPort :: int
  node_daemonTokenId :: string
  node_daemonToken :: string
  node_uploadSize :: int
  node_connectionStatus :: NodeConnectionStatus
  node_wingsVersion :: "string option"
  node_createdAt :: nat

record AllocationEntity =
  alloc_id :: string
  alloc_nodeId :: string
  alloc_ip :: string
  alloc_ipAlias :: "string option"
  alloc_port :: int
  alloc_notes :: "string option"
  alloc_serverId :: "string option"
  alloc_createdAt :: nat

record NestEntity =
  nest_id :: string
  nest_author :: string
  nest_name :: string
  nest_description :: "string option"
  nest_createdAt :: nat

record EggEntity =
  egg_id :: string
  egg_nestId :: string
  egg_name :: string
  egg_description :: "string option"
  egg_author :: string
  egg_dockerImage :: string
  egg_dockerImages :: "string js_obj"
  egg_startup :: string
  egg_configFiles :: "json option"
  egg_configStartup :: "json option"
  egg_configStop :: "string option"
  egg_configLogs :: "json option"
  egg_scriptInstall :: "string option"
  egg_scriptEntry :: string
  egg_scriptContainer :: string
  egg_copyScriptFrom :: "string option"
  egg_createdAt :: nat

record EggVariableEntity =
  eggvar_id :: string
  eggvar_eggId :: string
  eggvar_name :: string
  eggvar_description :: string
  eggvar_envVariable :: string
  eggvar_defaultValue :: string
  eggvar_userViewable :: bool
  eggvar_userEditable :: bool
  eggvar_rules :: string
  eggvar_createdAt :: nat

record ServerEntity =
  server_id :: string
  server_externalId :: "string option"
  server_uuid :: string
  server_uuidShort :: string
  server_name :: string
  server_description :: "string option"
  server_userId :: string
  server_nodeId :: string
  server_nestId :: string
  server_eggId :: string
  server_allocationId :: string
  server_memory :: int
  server_swap :: int
  server_disk :: int
  server_io :: int
  server_cpu :: int
  server_threads :: "string option"
  server_oomDisabled :: bool
  server_startup :: string
  server_image :: string
  server_envVariables :: "string js_obj"
  server_installed :: int
  server_status :: "ServerStatus option"
  server_createdAt :: nat

record ServerSubuserEntity =
  subuser_id :: string
  subuser_serverId :: string
  subuser_userId :: string
  subuser_permissions :: "string list"
  subuser_createdAt :: nat

record ServerDatabaseEntity =
  sdb_id :: string
  sdb_serverId :: string
  sdb_databaseHostId :: string
  sdb_database :: string
  sdb_username :: string
  sdb_password :: string
  sdb_remote :: string
  sdb_maxConnections :: int
  sdb_createdAt :: nat

record DatabaseHostEntity =
  dbhost_id :: string
  dbhost_name :: string
  dbhost_host :: string
  dbhost_port :: int
  dbhost_username :: string
  dbhost_password :: string
  dbhost_maxDatabases :: "int option"
  dbhost_nodeId :: "string option"
  dbhost_createdAt :: nat

record ScheduleEntity =
  sched_id :: string
  sched_serverId :: string
  sched_name :: string
  sched_cronDayOfWeek :: string
  sched_cronDayOfMonth :: string
  sched_cronMonth :: string
  sched_cronHour :: string
  sched_cronMinute :: string
  sched_isActive :: bool
  sched_isProcessing :: bool
  sched_lastRunAt :: "nat option"
  sched_nextRunAt :: "nat option"
  sched_createdAt :: nat

record ScheduleTaskEntity =
  task_id :: string
  task_scheduleId :: string
  task_action :: ScheduleTaskAction
  task_sequence :: int
  task_payload :: string
  task_timeOffset :: int
  task_createdAt :: nat

text \<open>\<open>@BeforeInsert generateUuidShort\<close>; \<open>hex\<close> is the random string of the other branch.\<close>

definition generateUuidShort :: "string \<Rightarrow> ServerEntity \<Rightarrow> ServerEntity" where
  "generateUuidShort hex s =
     (if server_uuidShort s \<noteq> [] then s
      else if server_uuid s \<noteq> [] then
        s\<lparr>server_uuidShort := js_slice 0 8 (filter (\<lambda>c. c \<noteq> CHR ''-'') (server_uuid s))\<rparr>
      else s\<lparr>server_uuidShort := hex\<rparr>)"

section \<open>The database\<close>

record db =
  db_users :: "UserEntity list"
  db_sessions :: "SessionEntity list"
  db_apiKeys :: "ApiKeyEntity list"
  db_notifications :: "NotificationEntity list"
  db_auditLogs :: "AuditLogEntity list"
  db_locations :: "LocationEntity list"
  db_nodes :: "NodeEntity list"
  db_allocations :: "AllocationEntity list"
  db_nests :: "NestEntity list"
  db_eggs :: "EggEntity list"
  db_eggVariables :: "EggVariableEntity list"
  db_servers :: "ServerEntity list"
  db_subusers :: "ServerSubuserEntity list"
  db_databases :: "ServerDatabaseEntity list"
  db_databaseHosts :: "DatabaseHostEntity list"
  db_schedules :: "ScheduleEntity list"
  db_scheduleTasks :: "ScheduleTaskEntity list"

end
