(* ===== verification/Constraints.thy ===== *)
theory Constraints
  imports Entities
begin

text \<open>
  Writing the tables: \<open>repository.save\<close> and \<open>repository.remove\<close>/\<open>delete\<close> with the constraints
  the decorators of the entities declare.  \<open>save\<close> inserts a row with a new primary key and
  updates the row with a known one; a violated \<open>@Unique\<close>, \<open>unique: true\<close> or foreign key is
  a \<open>QueryFailedError\<close> and leaves the database as it was.  Removing a row follows the
  \<open>onDelete\<close> of the relations that point to it.
\<close>

section \<open>Saving a row\<close>

text \<open>
  A statement fails when a unique column or a reference says so; the types of the columns (integers of
  32 bits, the syntax of a UUID) are not checked here.
\<close>

definition upsertRow :: "('r \<Rightarrow> string) \<Rightarrow> 'r \<Rightarrow> 'r list \<Rightarrow> 'r list" where
  "upsertRow key r t =
     (if hasRow (\<lambda>x. key x = key r) t then updateRows (\<lambda>x. key x = key r) (\<lambda>_. r) t
      else insertRow r t)"

definition saveRow ::
  "('r \<Rightarrow> string) \<Rightarrow> ('r \<Rightarrow> 'r \<Rightarrow> bool) \<Rightarrow> bool \<Rightarrow> 'r \<Rightarrow> 'r list \<Rightarrow> exn + 'r list" where
  "saveRow key clash refs r t =
     (if refs \<and> \<not> hasRow (\<lambda>x. key x \<noteq> key r \<and> clash r x) t then Inr (upsertRow key r t)
      else Inl QueryFailedError)"

text \<open>The constraint a table keeps: distinct primary keys, and no clash of unique columns.\<close>

definition unique_rows :: "('r \<Rightarrow> string) \<Rightarrow> ('r \<Rightarrow> 'r \<Rightarrow> bool) \<Rightarrow> 'r list \<Rightarrow> bool" where
  "unique_rows key clash t \<longleftrightarrow>
     distinct (map key t) \<and> (\<forall>x \<in> set t. \<forall>y \<in> set t. key x \<noteq> key y \<longrightarrow> \<not> clash x y)"

lemma unique_rows_distinct: "unique_rows key clash t \<Longrightarrow> distinct (map key t)"
  by (simp add: unique_rows_def)

lemma unique_rows_filter: "unique_rows key clash t \<Longrightarrow> unique_rows key clash (filter P t)"
  by (auto simp: unique_rows_def distinct_map_filter_keep)

lemma unique_rows_remove: "unique_rows key clash t \<Longrightarrow> unique_rows key clash (removeRows P t)"
  by (simp add: removeRows_def unique_rows_filter)

lemma unique_rows_update:
  assumes "unique_rows key clash t"
    and "\<And>r. key (f r) = key r" and "\<And>x y. clash (f x) (f y) \<longleftrightarrow> clash x y"
    and "\<And>x y. clash (f x) y \<longleftrightarrow> clash x y" and "\<And>x y. clash x (f y) \<longleftrightarrow> clash x y"
  shows "unique_rows key clash (updateRows P f t)"
  using assms by (auto simp: unique_rows_def updateRows_def map_updateRows comp_def if_distrib cong: if_cong)

lemma upsertRow_set:
  "distinct (map key t) \<Longrightarrow> set (upsertRow key r t) = insert r {x \<in> set t. key x \<noteq> key r}"
  by (auto simp: upsertRow_def hasRow_iff table_sets)

lemma upsertRow_key: "map key (upsertRow key r t) = (if hasRow (\<lambda>x. key x = key r) t then map key t else map key t @ [key r])"
  by (auto simp: upsertRow_def insertRow_def updateRows_def)

lemma upsertRow_distinct: "distinct (map key t) \<Longrightarrow> distinct (map key (upsertRow key r t))"
  by (auto simp: upsertRow_key hasRow_iff)

lemma saveRow_unique:
  assumes "saveRow key clash refs r t = Inr t'" and "unique_rows key clash t"
    and "symp clash"
  shows "unique_rows key clash t'"
proof -
  have t': "t' = upsertRow key r t" and ok: "\<not> hasRow (\<lambda>x. key x \<noteq> key r \<and> clash r x) t"
    using assms(1) by (auto simp: saveRow_def split: if_splits)
  have d: "distinct (map key t)" using assms(2) by (rule unique_rows_distinct)
  then show ?thesis
    using assms(2,3) ok unfolding t' unique_rows_def upsertRow_set [OF d]
    by (auto simp: upsertRow_distinct hasRow_iff dest: sympD)
qed

lemma saveRow_ok: "(\<exists>t'. saveRow key clash refs r t = Inr t') \<longleftrightarrow>
    refs \<and> (\<forall>x \<in> set t. key x \<noteq> key r \<longrightarrow> \<not> clash r x)"
  by (auto simp: saveRow_def hasRow_iff)

lemma saveRow_Inr: "saveRow key clash refs r t = Inr t' \<Longrightarrow> t' = upsertRow key r t \<and> refs"
  by (auto simp: saveRow_def split: if_splits)

lemma upsertRow_find: "findOne (\<lambda>x. key x = key r) (upsertRow key r t) = Some r"
proof (cases "hasRow (\<lambda>x. key x = key r) t")
  case True
  then show ?thesis
    by (induction t) (auto simp: findOne_def upsertRow_def updateRows_def hasRow_def)
next
  case False
  then have "findOne (\<lambda>x. key x = key r) t = None" by (auto simp: hasRow_iff findOne_None)
  then show ?thesis using False by (simp add: upsertRow_def findOne_insertRow)
qed

lemma updateRows_find_other:
  "k \<noteq> key r \<Longrightarrow>
   findOne (\<lambda>x. key x = k) (updateRows (\<lambda>x. key x = key r) (\<lambda>_. r) t) = findOne (\<lambda>x. key x = k) t"
  by (induction t) (auto simp: findOne_def updateRows_def)

lemma upsertRow_find_other:
  "k \<noteq> key r \<Longrightarrow> findOne (\<lambda>x. key x = k) (upsertRow key r t) = findOne (\<lambda>x. key x = k) t"
  by (auto simp: upsertRow_def updateRows_find_other findOne_insertRow split: option.splits)

section \<open>Unique columns\<close>

definition same_some :: "'a option \<Rightarrow> 'a option \<Rightarrow> bool" where
  "same_some a b \<longleftrightarrow> (case a of None \<Rightarrow> False | Some x \<Rightarrow> b = Some x)"

definition user_clash :: "UserEntity \<Rightarrow> UserEntity \<Rightarrow> bool" where
  "user_clash a b \<longleftrightarrow> user_email a = user_email b \<or> user_username a = user_username b"

definition node_clash :: "NodeEntity \<Rightarrow> NodeEntity \<Rightarrow> bool" where
  "node_clash a b \<longleftrightarrow> node_name a = node_name b"

definition location_clash :: "LocationEntity \<Rightarrow> LocationEntity \<Rightarrow> bool" where
  "location_clash a b \<longleftrightarrow> loc_short a = loc_short b"

definition allocation_clash :: "AllocationEntity \<Rightarrow> AllocationEntity \<Rightarrow> bool" where
  "allocation_clash a b \<longleftrightarrow>
     (alloc_nodeId a = alloc_nodeId b \<and> alloc_ip a = alloc_ip b \<and> alloc_port a = alloc_port b) \<or>
     same_some (alloc_serverId a) (alloc_serverId b)"

definition server_clash :: "ServerEntity \<Rightarrow> ServerEntity \<Rightarrow> bool" where
  "server_clash a b \<longleftrightarrow>
     same_some (server_externalId a) (server_externalId b) \<or>
     server_uuidShort a = server_uuidShort b \<or> server_allocationId a = server_allocationId b"

definition subuser_clash :: "ServerSubuserEntity \<Rightarrow> ServerSubuserEntity \<Rightarrow> bool" where
  "subuser_clash a b \<longleftrightarrow> subuser_userId a = subuser_userId b \<and> subuser_serverId a = subuser_serverId b"

definition no_clash :: "'r \<Rightarrow> 'r \<Rightarrow> bool" where
  "no_clash a b \<longleftrightarrow> False"

lemma clash_sym [simp]:
  "symp user_clash" "symp node_clash" "symp location_clash" "symp allocation_clash"
  "symp server_clash" "symp subuser_clash" "symp no_clash"
  by (auto simp: symp_def user_clash_def node_clash_def location_clash_def allocation_clash_def
      server_clash_def subuser_clash_def no_clash_def same_some_def split: option.splits)

section \<open>Foreign keys\<close>

definition opt_ref :: "('a \<Rightarrow> bool) \<Rightarrow> 'a option \<Rightarrow> bool" where
  "opt_ref P a \<longleftrightarrow> (case a of None \<Rightarrow> True | Some x \<Rightarrow> P x)"

definition user_exists :: "'z db_scheme \<Rightarrow> string \<Rightarrow> bool" where
  "user_exists d i \<longleftrightarrow> hasRow (\<lambda>x. user_id x = i) (db_users d)"

definition location_exists :: "'z db_scheme \<Rightarrow> string \<Rightarrow> bool" where
  "location_exists d i \<longleftrightarrow> hasRow (\<lambda>x. loc_id x = i) (db_locations d)"

definition node_exists :: "'z db_scheme \<Rightarrow> string \<Rightarrow> bool" where
  "node_exists d i \<longleftrightarrow> hasRow (\<lambda>x. node_id x = i) (db_nodes d)"

definition nest_exists :: "'z db_scheme \<Rightarrow> string \<Rightarrow> bool" where
  "nest_exists d i \<longleftrightarrow> hasRow (\<lambda>x. nest_id x = i) (db_nests d)"

definition egg_exists :: "'z db_scheme \<Rightarrow> string \<Rightarrow> bool" where
  "egg_exists d i \<longleftrightarrow> hasRow (\<lambda>x. egg_id x = i) (db_eggs d)"

definition server_exists :: "'z db_scheme \<Rightarrow> string \<Rightarrow> bool" where
  "server_exists d i \<longleftrightarrow> hasRow (\<lambda>x. server_id x = i) (db_servers d)"

definition databaseHost_exists :: "'z db_scheme \<Rightarrow> string \<Rightarrow> bool" where
  "databaseHost_exists d i \<longleftrightarrow> hasRow (\<lambda>x. dbhost_id x = i) (db_databaseHosts d)"

definition schedule_exists :: "'z db_scheme \<Rightarrow> string \<Rightarrow> bool" where
  "schedule_exists d i \<longleftrightarrow> hasRow (\<lambda>x. sched_id x = i) (db_schedules d)"

section \<open>\<open>save\<close> of each repository\<close>

definition save_user :: "UserEntity \<Rightarrow> 'z db_scheme \<Rightarrow> exn + 'z db_scheme" where
  "save_user r d =
     map_sum id (\<lambda>t. d\<lparr>db_users := t\<rparr>)
       (saveRow user_id user_clash (True) r (db_users d))"

definition save_session :: "SessionEntity \<Rightarrow> 'z db_scheme \<Rightarrow> exn + 'z db_scheme" where
  "save_session r d =
     map_sum id (\<lambda>t. d\<lparr>db_sessions := t\<rparr>)
       (saveRow session_id no_clash (user_exists d (session_userId r)) r (db_sessions d))"

definition save_apiKey :: "ApiKeyEntity \<Rightarrow> 'z db_scheme \<Rightarrow> exn + 'z db_scheme" where
  "save_apiKey r d =
     map_sum id (\<lambda>t. d\<lparr>db_apiKeys := t\<rparr>)
       (saveRow apikey_id no_clash (user_exists d (apikey_userId r)) r (db_apiKeys d))"

definition save_notification :: "NotificationEntity \<Rightarrow> 'z db_scheme \<Rightarrow> exn + 'z db_scheme" where
  "save_notification r d =
     map_sum id (\<lambda>t. d\<lparr>db_notifications := t\<rparr>)
       (saveRow notif_id no_clash (user_exists d (notif_userId r)) r (db_notifications d))"

definition save_auditLog :: "AuditLogEntity \<Rightarrow> 'z db_scheme \<Rightarrow> exn + 'z db_scheme" where
  "save_auditLog r d =
     map_sum id (\<lambda>t. d\<lparr>db_auditLogs := t\<rparr>)
       (saveRow audit_id no_clash (opt_ref (user_exists d) (audit_userId r)) r (db_auditLogs d))"

definition save_location :: "LocationEntity \<Rightarrow> 'z db_scheme \<Rightarrow> exn + 'z db_scheme" where
  "save_location r d =
     map_sum id (\<lambda>t. d\<lparr>db_locations := t\<rparr>)
       (saveRow loc_id location_clash (True) r (db_locations d))"

definition save_node :: "NodeEntity \<Rightarrow> 'z db_scheme \<Rightarrow> exn + 'z db_scheme" where
  "save_node r d =
     map_sum id (\<lambda>t. d\<lparr>db_nodes := t\<rparr>)
       (saveRow node_id node_clash (opt_ref (location_exists d) (node_locationId r)) r (db_nodes d))"

definition save_allocation :: "AllocationEntity \<Rightarrow> 'z db_scheme \<Rightarrow> exn + 'z db_scheme" where
  "save_allocation r d =
     map_sum id (\<lambda>t. d\<lparr>db_allocations := t\<rparr>)
       (saveRow alloc_id allocation_clash (node_exists d (alloc_nodeId r) \<and> opt_ref (server_exists d) (alloc_serverId r)) r (db_allocations d))"

definition save_nest :: "NestEntity \<Rightarrow> 'z db_scheme \<Rightarrow> exn + 'z db_scheme" where
  "save_nest r d =
     map_sum id (\<lambda>t. d\<lparr>db_nests := t\<rparr>)
       (saveRow nest_id no_clash (True) r (db_nests d))"

definition save_egg :: "EggEntity \<Rightarrow> 'z db_scheme \<Rightarrow> exn + 'z db_scheme" where
  "save_egg r d =
     map_sum id (\<lambda>t. d\<lparr>db_eggs := t\<rparr>)
       (saveRow egg_id no_clash (nest_exists d (egg_nestId r) \<and> opt_ref (\<lambda>e. e = egg_id r \<or> egg_exists d e) (egg_copyScriptFrom r)) r (db_eggs d))"

definition save_eggVariable :: "EggVariableEntity \<Rightarrow> 'z db_scheme \<Rightarrow> exn + 'z db_scheme" where
  "save_eggVariable r d =
     map_sum id (\<lambda>t. d\<lparr>db_eggVariables := t\<rparr>)
       (saveRow eggvar_id no_clash (egg_exists d (eggvar_eggId r)) r (db_eggVariables d))"

definition save_server :: "ServerEntity \<Rightarrow> 'z db_scheme \<Rightarrow> exn + 'z db_scheme" where
  "save_server r d =
     map_sum id (\<lambda>t. d\<lparr>db_servers := t\<rparr>)
       (saveRow server_id server_clash (user_exists d (server_userId r) \<and> node_exists d (server_nodeId r) \<and> egg_exists d (server_eggId r)) r (db_servers d))"

definition save_subuser :: "ServerSubuserEntity \<Rightarrow> 'z db_scheme \<Rightarrow> exn + 'z db_scheme" where
  "save_subuser r d =
     map_sum id (\<lambda>t. d\<lparr>db_subusers := t\<rparr>)
       (saveRow subuser_id subuser_clash (server_exists d (subuser_serverId r) \<and> user_exists d (subuser_userId r)) r (db_subusers d))"

definition save_database :: "ServerDatabaseEntity \<Rightarrow> 'z db_scheme \<Rightarrow> exn + 'z db_scheme" where
  "save_database r d =
     map_sum id (\<lambda>t. d\<lparr>db_databases := t\<rparr>)
       (saveRow sdb_id no_clash (server_exists d (sdb_serverId r) \<and> databaseHost_exists d (sdb_databaseHostId r)) r (db_databases d))"

definition save_databaseHost :: "DatabaseHostEntity \<Rightarrow> 'z db_scheme \<Rightarrow> exn + 'z db_scheme" where
  "save_databaseHost r d =
     map_sum id (\<lambda>t. d\<lparr>db_databaseHosts := t\<rparr>)
       (saveRow dbhost_id no_clash (opt_ref (node_exists d) (dbhost_nodeId r)) r (db_databaseHosts d))"

definition save_schedule :: "ScheduleEntity \<Rightarrow> 'z db_scheme \<Rightarrow> exn + 'z db_scheme" where
  "save_schedule r d =
     map_sum id (\<lambda>t. d\<lparr>db_schedules := t\<rparr>)
       (saveRow sched_id no_clash (server_exists d (sched_serverId r)) r (db_schedules d))"

definition save_scheduleTask :: "ScheduleTaskEntity \<Rightarrow> 'z db_scheme \<Rightarrow> exn + 'z db_scheme" where
  "save_scheduleTask r d =
     map_sum id (\<lambda>t. d\<lparr>db_scheduleTasks := t\<rparr>)
       (saveRow task_id no_clash (schedule_exists d (task_scheduleId r)) r (db_scheduleTasks d))"

lemmas save_defs =
  save_user_def
  save_session_def
  save_apiKey_def
  save_notification_def
  save_auditLog_def
  save_location_def
  save_node_def
  save_allocation_def
  save_nest_def
  save_egg_def
  save_eggVariable_def
  save_server_def
  save_subuser_def
  save_database_def
  save_databaseHost_def
  save_schedule_def
  save_scheduleTask_def

lemmas exists_defs =
  user_exists_def location_exists_def node_exists_def nest_exists_def egg_exists_def
  server_exists_def databaseHost_exists_def schedule_exists_def

text \<open>Every table is a repository of the interface: what was saved is found by its key.\<close>

interpretation user_repo: repository db_users db_users_update user_id
  by unfold_locales (simp_all add: comp_def)

interpretation session_repo: repository db_sessions db_sessions_update session_id
  by unfold_locales (simp_all add: comp_def)

interpretation apiKey_repo: repository db_apiKeys db_apiKeys_update apikey_id
  by unfold_locales (simp_all add: comp_def)

interpretation notification_repo: repository db_notifications db_notifications_update notif_id
  by unfold_locales (simp_all add: comp_def)

interpretation auditLog_repo: repository db_auditLogs db_auditLogs_update audit_id
  by unfold_locales (simp_all add: comp_def)

interpretation location_repo: repository db_locations db_locations_update loc_id
  by unfold_locales (simp_all add: comp_def)

interpretation node_repo: repository db_nodes db_nodes_update node_id
  by unfold_locales (simp_all add: comp_def)

interpretation allocation_repo: repository db_allocations db_allocations_update alloc_id
  by unfold_locales (simp_all add: comp_def)

interpretation nest_repo: repository db_nests db_nests_update nest_id
  by unfold_locales (simp_all add: comp_def)

interpretation egg_repo: repository db_eggs db_eggs_update egg_id
  by unfold_locales (simp_all add: comp_def)

interpretation eggVariable_repo: repository db_eggVariables db_eggVariables_update eggvar_id
  by unfold_locales (simp_all add: comp_def)

interpretation server_repo: repository db_servers db_servers_update server_id
  by unfold_locales (simp_all add: comp_def)

interpretation subuser_repo: repository db_subusers db_subusers_update subuser_id
  by unfold_locales (simp_all add: comp_def)

interpretation database_repo: repository db_databases db_databases_update sdb_id
  by unfold_locales (simp_all add: comp_def)

interpretation databaseHost_repo: repository db_databaseHosts db_databaseHosts_update dbhost_id
  by unfold_locales (simp_all add: comp_def)

interpretation schedule_repo: repository db_schedules db_schedules_update sched_id
  by unfold_locales (simp_all add: comp_def)

interpretation scheduleTask_repo: repository db_scheduleTasks db_scheduleTasks_update task_id
  by unfold_locales (simp_all add: comp_def)

section \<open>Removing rows\<close>

text \<open>
  Deleting a row deletes the rows whose relation to it says \<open>CASCADE\<close> and clears the columns
  that say \<open>SET NULL\<close>.  A relation with no \<open>onDelete\<close> (\<open>allocation.serverId\<close>,
  \<open>egg.copyScriptFrom\<close>) refuses the deletion while a row that stays refers to a deleted
  one; \<open>SET NULL\<close> on the column \<open>server.eggId\<close>, which is not nullable, refuses it too.
\<close>

definition remove_scheduleTasks :: "(ScheduleTaskEntity \<Rightarrow> bool) \<Rightarrow> 'z db_scheme \<Rightarrow> 'z db_scheme" where
  "remove_scheduleTasks P d = d\<lparr>db_scheduleTasks := removeRows P (db_scheduleTasks d)\<rparr>"

definition remove_schedules :: "(ScheduleEntity \<Rightarrow> bool) \<Rightarrow> 'z db_scheme \<Rightarrow> 'z db_scheme" where
  "remove_schedules P d =
     (let gone = map sched_id (filter P (db_schedules d))
      in (remove_scheduleTasks (\<lambda>t. task_scheduleId t \<in> set gone) d)
           \<lparr>db_schedules := removeRows P (db_schedules d)\<rparr>)"

definition cascade_servers :: "(ServerEntity \<Rightarrow> bool) \<Rightarrow> 'z db_scheme \<Rightarrow> 'z db_scheme" where
  "cascade_servers P d =
     (let gone = map server_id (filter P (db_servers d))
      in (remove_schedules (\<lambda>s. sched_serverId s \<in> set gone) d)
           \<lparr>db_servers := removeRows P (db_servers d),
            db_subusers := removeRows (\<lambda>s. subuser_serverId s \<in> set gone) (db_subusers d),
            db_databases := removeRows (\<lambda>s. sdb_serverId s \<in> set gone) (db_databases d)\<rparr>)"

definition allocation_refs :: "'z db_scheme \<Rightarrow> bool" where
  "allocation_refs d \<longleftrightarrow> list_all (\<lambda>a. opt_ref (server_exists d) (alloc_serverId a)) (db_allocations d)"

text \<open>The statement fails as a whole when a foreign key with no action would be left dangling.\<close>

definition checked :: "'z db_scheme \<Rightarrow> exn + 'z db_scheme" where
  "checked d = (if allocation_refs d then Inr d else Inl QueryFailedError)"

definition remove_server :: "string \<Rightarrow> 'z db_scheme \<Rightarrow> exn + 'z db_scheme" where
  "remove_server i d = checked (cascade_servers (\<lambda>s. server_id s = i) d)"

definition remove_user :: "string \<Rightarrow> 'z db_scheme \<Rightarrow> exn + 'z db_scheme" where
  "remove_user i d =
     checked ((cascade_servers (\<lambda>s. server_userId s = i) d)
       \<lparr>db_users := removeRows (\<lambda>u. user_id u = i) (db_users d),
        db_sessions := removeRows (\<lambda>s. session_userId s = i) (db_sessions d),
        db_apiKeys := removeRows (\<lambda>k. apikey_userId k = i) (db_apiKeys d),
        db_notifications := removeRows (\<lambda>n. notif_userId n = i) (db_notifications d),
        db_subusers := removeRows (\<lambda>s. subuser_userId s = i)
          (db_subusers (cascade_servers (\<lambda>s. server_userId s = i) d)),
        db_auditLogs := updateRows (\<lambda>a. audit_userId a = Some i) (audit_userId_update (\<lambda>_. None))
          (db_auditLogs d)\<rparr>)"

definition remove_node :: "string \<Rightarrow> 'z db_scheme \<Rightarrow> exn + 'z db_scheme" where
  "remove_node i d =
     checked ((cascade_servers (\<lambda>s. server_nodeId s = i) d)
       \<lparr>db_nodes := removeRows (\<lambda>n. node_id n = i) (db_nodes d),
        db_allocations := removeRows (\<lambda>a. alloc_nodeId a = i) (db_allocations d),
        db_databaseHosts := updateRows (\<lambda>h. dbhost_nodeId h = Some i) (dbhost_nodeId_update (\<lambda>_. None))
          (db_databaseHosts d)\<rparr>)"

definition remove_location :: "string \<Rightarrow> 'z db_scheme \<Rightarrow> 'z db_scheme" where
  "remove_location i d =
     d\<lparr>db_locations := removeRows (\<lambda>l. loc_id l = i) (db_locations d),
       db_nodes := updateRows (\<lambda>n. node_locationId n = Some i) (node_locationId_update (\<lambda>_. None))
         (db_nodes d)\<rparr>"

definition remove_eggs :: "(EggEntity \<Rightarrow> bool) \<Rightarrow> 'z db_scheme \<Rightarrow> exn + 'z db_scheme" where
  "remove_eggs P d =
     (let gone = map egg_id (filter P (db_eggs d))
      in if hasRow (\<lambda>s. server_eggId s \<in> set gone) (db_servers d) \<or>
            hasRow (\<lambda>e. \<not> P e \<and> \<not> opt_ref (\<lambda>c. c \<notin> set gone) (egg_copyScriptFrom e)) (db_eggs d)
         then Inl QueryFailedError
         else Inr (d\<lparr>db_eggs := removeRows P (db_eggs d),
                     db_eggVariables := removeRows (\<lambda>v. eggvar_eggId v \<in> set gone) (db_eggVariables d)\<rparr>))"

definition remove_nest :: "string \<Rightarrow> 'z db_scheme \<Rightarrow> exn + 'z db_scheme" where
  "remove_nest i d =
     map_sum id (\<lambda>d'. d'\<lparr>db_nests := removeRows (\<lambda>n. nest_id n = i) (db_nests d)\<rparr>)
       (remove_eggs (\<lambda>e. egg_nestId e = i) d)"

section \<open>The constraints hold after every statement\<close>

definition db_keys :: "'z db_scheme \<Rightarrow> bool" where
  "db_keys d \<longleftrightarrow>
     unique_rows user_id user_clash (db_users d) \<and> unique_rows session_id no_clash (db_sessions d) \<and>
     unique_rows apikey_id no_clash (db_apiKeys d) \<and> unique_rows notif_id no_clash (db_notifications d) \<and>
     unique_rows audit_id no_clash (db_auditLogs d) \<and> unique_rows loc_id location_clash (db_locations d) \<and>
     unique_rows node_id node_clash (db_nodes d) \<and> unique_rows alloc_id allocation_clash (db_allocations d) \<and>
     unique_rows nest_id no_clash (db_nests d) \<and> unique_rows egg_id no_clash (db_eggs d) \<and>
     unique_rows eggvar_id no_clash (db_eggVariables d) \<and> unique_rows server_id server_clash (db_servers d) \<and>
     unique_rows subuser_id subuser_clash (db_subusers d) \<and> unique_rows sdb_id no_clash (db_databases d) \<and>
     unique_rows dbhost_id no_clash (db_databaseHosts d) \<and> unique_rows sched_id no_clash (db_schedules d) \<and>
     unique_rows task_id no_clash (db_scheduleTasks d)"

definition user_children_ok :: "'z db_scheme \<Rightarrow> bool" where
  "user_children_ok d \<longleftrightarrow>
     (\<forall>s \<in> set (db_sessions d). user_exists d (session_userId s)) \<and>
     (\<forall>k \<in> set (db_apiKeys d). user_exists d (apikey_userId k)) \<and>
     (\<forall>n \<in> set (db_notifications d). user_exists d (notif_userId n)) \<and>
     (\<forall>a \<in> set (db_auditLogs d). opt_ref (user_exists d) (audit_userId a)) \<and>
     (\<forall>s \<in> set (db_subusers d). user_exists d (subuser_userId s)) \<and>
     (\<forall>s \<in> set (db_servers d). user_exists d (server_userId s))"

definition node_children_ok :: "'z db_scheme \<Rightarrow> bool" where
  "node_children_ok d \<longleftrightarrow>
     (\<forall>n \<in> set (db_nodes d). opt_ref (location_exists d) (node_locationId n)) \<and>
     (\<forall>a \<in> set (db_allocations d). node_exists d (alloc_nodeId a)) \<and>
     (\<forall>s \<in> set (db_servers d). node_exists d (server_nodeId s)) \<and>
     (\<forall>h \<in> set (db_databaseHosts d). opt_ref (node_exists d) (dbhost_nodeId h))"

definition egg_children_ok :: "'z db_scheme \<Rightarrow> bool" where
  "egg_children_ok d \<longleftrightarrow>
     (\<forall>e \<in> set (db_eggs d). nest_exists d (egg_nestId e) \<and> opt_ref (egg_exists d) (egg_copyScriptFrom e)) \<and>
     (\<forall>v \<in> set (db_eggVariables d). egg_exists d (eggvar_eggId v)) \<and>
     (\<forall>s \<in> set (db_servers d). egg_exists d (server_eggId s))"

definition server_children_ok :: "'z db_scheme \<Rightarrow> bool" where
  "server_children_ok d \<longleftrightarrow>
     (\<forall>a \<in> set (db_allocations d). opt_ref (server_exists d) (alloc_serverId a)) \<and>
     (\<forall>s \<in> set (db_subusers d). server_exists d (subuser_serverId s)) \<and>
     (\<forall>s \<in> set (db_databases d). server_exists d (sdb_serverId s)) \<and>
     (\<forall>s \<in> set (db_databases d). databaseHost_exists d (sdb_databaseHostId s)) \<and>
     (\<forall>s \<in> set (db_schedules d). server_exists d (sched_serverId s)) \<and>
     (\<forall>t \<in> set (db_scheduleTasks d). schedule_exists d (task_scheduleId t))"

definition db_refs :: "'z db_scheme \<Rightarrow> bool" where
  "db_refs d \<longleftrightarrow> user_children_ok d \<and> node_children_ok d \<and> egg_children_ok d \<and> server_children_ok d"

definition db_ok :: "'z db_scheme \<Rightarrow> bool" where
  "db_ok d \<longleftrightarrow> db_keys d \<and> db_refs d"

lemmas remove_defs =
  remove_scheduleTasks_def remove_schedules_def cascade_servers_def checked_def remove_server_def
  remove_user_def remove_node_def remove_location_def remove_eggs_def remove_nest_def

lemmas children_defs =
  db_refs_def user_children_ok_def node_children_ok_def egg_children_ok_def server_children_ok_def

lemma hasRow_key: "hasRow (\<lambda>x. key x = i) t \<longleftrightarrow> i \<in> set (map key t)"
  by (auto simp: hasRow_iff)

lemma hasRow_upsert [store_simps]:
  "hasRow (\<lambda>x. key x = i) (upsertRow key r t) \<longleftrightarrow> i = key r \<or> hasRow (\<lambda>x. key x = i) t"
  by (auto simp: hasRow_key upsertRow_key)

lemma set_upsert: "x \<in> set (upsertRow key r t) \<Longrightarrow> x = r \<or> x \<in> set t"
  by (auto simp: upsertRow_def table_sets split: if_splits)

lemma opt_ref_mono: "opt_ref P a \<Longrightarrow> (\<And>x. P x \<Longrightarrow> Q x) \<Longrightarrow> opt_ref Q a"
  by (auto simp: opt_ref_def split: option.splits)

lemma map_sum_Inr: "map_sum id f s = Inr d \<longleftrightarrow> (\<exists>t. s = Inr t \<and> d = f t)"
  by (cases s) auto

lemma map_sum_Inl: "map_sum id f s = Inl e \<longleftrightarrow> s = Inl e"
  by (cases s) auto

end
