(* ===== verification/Invariant.thy ===== *)
theory Invariant
  imports Constraints
begin

text \<open>
  Every statement of the panel keeps the constraints of the database: \<open>db_keys\<close> (primary keys
  and unique columns) and \<open>db_refs\<close> (foreign keys), together \<open>db_ok\<close>.  The lemmas are
  collected in \<open>inv_intros\<close>, from which the invariant proofs of the services follow.
\<close>

section \<open>Saving\<close>

lemma save_user_keys: "save_user r d = Inr d' \<Longrightarrow> db_keys d \<Longrightarrow> db_keys d'"
  unfolding save_user_def map_sum_Inr db_keys_def by (elim exE conjE) (simp add: saveRow_unique)

lemma save_user_refs: "save_user r d = Inr d' \<Longrightarrow> db_refs d \<Longrightarrow> db_refs d'"
  unfolding save_user_def map_sum_Inr
  by (elim exE conjE, drule saveRow_Inr)
    (auto simp: children_defs exists_defs hasRow_upsert dest!: set_upsert intro: opt_ref_mono)

lemma save_session_keys: "save_session r d = Inr d' \<Longrightarrow> db_keys d \<Longrightarrow> db_keys d'"
  unfolding save_session_def map_sum_Inr db_keys_def by (elim exE conjE) (simp add: saveRow_unique)

lemma save_session_refs: "save_session r d = Inr d' \<Longrightarrow> db_refs d \<Longrightarrow> db_refs d'"
  unfolding save_session_def map_sum_Inr
  by (elim exE conjE, drule saveRow_Inr)
    (auto simp: children_defs exists_defs hasRow_upsert dest!: set_upsert intro: opt_ref_mono)

lemma save_apiKey_keys: "save_apiKey r d = Inr d' \<Longrightarrow> db_keys d \<Longrightarrow> db_keys d'"
  unfolding save_apiKey_def map_sum_Inr db_keys_def by (elim exE conjE) (simp add: saveRow_unique)

lemma save_apiKey_refs: "save_apiKey r d = Inr d' \<Longrightarrow> db_refs d \<Longrightarrow> db_refs d'"
  unfolding save_apiKey_def map_sum_Inr
  by (elim exE conjE, drule saveRow_Inr)
    (auto simp: children_defs exists_defs hasRow_upsert dest!: set_upsert intro: opt_ref_mono)

lemma save_notification_keys: "save_notification r d = Inr d' \<Longrightarrow> db_keys d \<Longrightarrow> db_keys d'"
  unfolding save_notification_def map_sum_Inr db_keys_def by (elim exE conjE) (simp add: saveRow_unique)

lemma save_notification_refs: "save_notification r d = Inr d' \<Longrightarrow> db_refs d \<Longrightarrow> db_refs d'"
  unfolding save_notification_def map_sum_Inr
  by (elim exE conjE, drule saveRow_Inr)
    (auto simp: children_defs exists_defs hasRow_upsert dest!: set_upsert intro: opt_ref_mono)

lemma save_auditLog_keys: "save_auditLog r d = Inr d' \<Longrightarrow> db_keys d \<Longrightarrow> db_keys d'"
  unfolding save_auditLog_def map_sum_Inr db_keys_def by (elim exE conjE) (simp add: saveRow_unique)

lemma save_auditLog_refs: "save_auditLog r d = Inr d' \<Longrightarrow> db_refs d \<Longrightarrow> db_refs d'"
  unfolding save_auditLog_def map_sum_Inr
  by (elim exE conjE, drule saveRow_Inr)
    (auto simp: children_defs exists_defs hasRow_upsert dest!: set_upsert intro: opt_ref_mono)

lemma save_location_keys: "save_location r d = Inr d' \<Longrightarrow> db_keys d \<Longrightarrow> db_keys d'"
  unfolding save_location_def map_sum_Inr db_keys_def by (elim exE conjE) (simp add: saveRow_unique)

lemma save_location_refs: "save_location r d = Inr d' \<Longrightarrow> db_refs d \<Longrightarrow> db_refs d'"
  unfolding save_location_def map_sum_Inr
  by (elim exE conjE, drule saveRow_Inr)
    (auto simp: children_defs exists_defs hasRow_upsert dest!: set_upsert intro: opt_ref_mono)

lemma save_node_keys: "save_node r d = Inr d' \<Longrightarrow> db_keys d \<Longrightarrow> db_keys d'"
  unfolding save_node_def map_sum_Inr db_keys_def by (elim exE conjE) (simp add: saveRow_unique)

lemma save_node_refs: "save_node r d = Inr d' \<Longrightarrow> db_refs d \<Longrightarrow> db_refs d'"
  unfolding save_node_def map_sum_Inr
  by (elim exE conjE, drule saveRow_Inr)
    (auto simp: children_defs exists_defs hasRow_upsert dest!: set_upsert intro: opt_ref_mono)

lemma save_allocation_keys: "save_allocation r d = Inr d' \<Longrightarrow> db_keys d \<Longrightarrow> db_keys d'"
  unfolding save_allocation_def map_sum_Inr db_keys_def by (elim exE conjE) (simp add: saveRow_unique)

lemma save_allocation_refs: "save_allocation r d = Inr d' \<Longrightarrow> db_refs d \<Longrightarrow> db_refs d'"
  unfolding save_allocation_def map_sum_Inr
  by (elim exE conjE, drule saveRow_Inr)
    (auto simp: children_defs exists_defs hasRow_upsert dest!: set_upsert intro: opt_ref_mono)

lemma save_nest_keys: "save_nest r d = Inr d' \<Longrightarrow> db_keys d \<Longrightarrow> db_keys d'"
  unfolding save_nest_def map_sum_Inr db_keys_def by (elim exE conjE) (simp add: saveRow_unique)

lemma save_nest_refs: "save_nest r d = Inr d' \<Longrightarrow> db_refs d \<Longrightarrow> db_refs d'"
  unfolding save_nest_def map_sum_Inr
  by (elim exE conjE, drule saveRow_Inr)
    (auto simp: children_defs exists_defs hasRow_upsert dest!: set_upsert intro: opt_ref_mono)

lemma save_egg_keys: "save_egg r d = Inr d' \<Longrightarrow> db_keys d \<Longrightarrow> db_keys d'"
  unfolding save_egg_def map_sum_Inr db_keys_def by (elim exE conjE) (simp add: saveRow_unique)

lemma save_egg_refs: "save_egg r d = Inr d' \<Longrightarrow> db_refs d \<Longrightarrow> db_refs d'"
  unfolding save_egg_def map_sum_Inr
  by (elim exE conjE, drule saveRow_Inr)
    (auto simp: children_defs exists_defs hasRow_upsert dest!: set_upsert intro: opt_ref_mono)

lemma save_eggVariable_keys: "save_eggVariable r d = Inr d' \<Longrightarrow> db_keys d \<Longrightarrow> db_keys d'"
  unfolding save_eggVariable_def map_sum_Inr db_keys_def by (elim exE conjE) (simp add: saveRow_unique)

lemma save_eggVariable_refs: "save_eggVariable r d = Inr d' \<Longrightarrow> db_refs d \<Longrightarrow> db_refs d'"
  unfolding save_eggVariable_def map_sum_Inr
  by (elim exE conjE, drule saveRow_Inr)
    (auto simp: children_defs exists_defs hasRow_upsert dest!: set_upsert intro: opt_ref_mono)

lemma save_server_keys: "save_server r d = Inr d' \<Longrightarrow> db_keys d \<Longrightarrow> db_keys d'"
  unfolding save_server_def map_sum_Inr db_keys_def by (elim exE conjE) (simp add: saveRow_unique)

lemma save_server_refs: "save_server r d = Inr d' \<Longrightarrow> db_refs d \<Longrightarrow> db_refs d'"
  unfolding save_server_def map_sum_Inr
  by (elim exE conjE, drule saveRow_Inr)
    (auto simp: children_defs exists_defs hasRow_upsert dest!: set_upsert intro: opt_ref_mono)

lemma save_subuser_keys: "save_subuser r d = Inr d' \<Longrightarrow> db_keys d \<Longrightarrow> db_keys d'"
  unfolding save_subuser_def map_sum_Inr db_keys_def by (elim exE conjE) (simp add: saveRow_unique)

lemma save_subuser_refs: "save_subuser r d = Inr d' \<Longrightarrow> db_refs d \<Longrightarrow> db_refs d'"
  unfolding save_subuser_def map_sum_Inr
  by (elim exE conjE, drule saveRow_Inr)
    (auto simp: children_defs exists_defs hasRow_upsert dest!: set_upsert intro: opt_ref_mono)

lemma save_database_keys: "save_database r d = Inr d' \<Longrightarrow> db_keys d \<Longrightarrow> db_keys d'"
  unfolding save_database_def map_sum_Inr db_keys_def by (elim exE conjE) (simp add: saveRow_unique)

lemma save_database_refs: "save_database r d = Inr d' \<Longrightarrow> db_refs d \<Longrightarrow> db_refs d'"
  unfolding save_database_def map_sum_Inr
  by (elim exE conjE, drule saveRow_Inr)
    (auto simp: children_defs exists_defs hasRow_upsert dest!: set_upsert intro: opt_ref_mono)

lemma save_databaseHost_keys: "save_databaseHost r d = Inr d' \<Longrightarrow> db_keys d \<Longrightarrow> db_keys d'"
  unfolding save_databaseHost_def map_sum_Inr db_keys_def by (elim exE conjE) (simp add: saveRow_unique)

lemma save_databaseHost_refs: "save_databaseHost r d = Inr d' \<Longrightarrow> db_refs d \<Longrightarrow> db_refs d'"
  unfolding save_databaseHost_def map_sum_Inr
  by (elim exE conjE, drule saveRow_Inr)
    (auto simp: children_defs exists_defs hasRow_upsert dest!: set_upsert intro: opt_ref_mono)

lemma save_schedule_keys: "save_schedule r d = Inr d' \<Longrightarrow> db_keys d \<Longrightarrow> db_keys d'"
  unfolding save_schedule_def map_sum_Inr db_keys_def by (elim exE conjE) (simp add: saveRow_unique)

lemma save_schedule_refs: "save_schedule r d = Inr d' \<Longrightarrow> db_refs d \<Longrightarrow> db_refs d'"
  unfolding save_schedule_def map_sum_Inr
  by (elim exE conjE, drule saveRow_Inr)
    (auto simp: children_defs exists_defs hasRow_upsert dest!: set_upsert intro: opt_ref_mono)

lemma save_scheduleTask_keys: "save_scheduleTask r d = Inr d' \<Longrightarrow> db_keys d \<Longrightarrow> db_keys d'"
  unfolding save_scheduleTask_def map_sum_Inr db_keys_def by (elim exE conjE) (simp add: saveRow_unique)

lemma save_scheduleTask_refs: "save_scheduleTask r d = Inr d' \<Longrightarrow> db_refs d \<Longrightarrow> db_refs d'"
  unfolding save_scheduleTask_def map_sum_Inr
  by (elim exE conjE, drule saveRow_Inr)
    (auto simp: children_defs exists_defs hasRow_upsert dest!: set_upsert intro: opt_ref_mono)

lemmas save_keys =
  save_user_keys
  save_session_keys
  save_apiKey_keys
  save_notification_keys
  save_auditLog_keys
  save_location_keys
  save_node_keys
  save_allocation_keys
  save_nest_keys
  save_egg_keys
  save_eggVariable_keys
  save_server_keys
  save_subuser_keys
  save_database_keys
  save_databaseHost_keys
  save_schedule_keys
  save_scheduleTask_keys

lemmas save_refs =
  save_user_refs
  save_session_refs
  save_apiKey_refs
  save_notification_refs
  save_auditLog_refs
  save_location_refs
  save_node_refs
  save_allocation_refs
  save_nest_refs
  save_egg_refs
  save_eggVariable_refs
  save_server_refs
  save_subuser_refs
  save_database_refs
  save_databaseHost_refs
  save_schedule_refs
  save_scheduleTask_refs

lemma save_ok [inv_intros]:
  "save_user r0 d = Inr d' \<Longrightarrow> db_ok d \<Longrightarrow> db_ok d'"
  "save_session r1 d = Inr d' \<Longrightarrow> db_ok d \<Longrightarrow> db_ok d'"
  "save_apiKey r2 d = Inr d' \<Longrightarrow> db_ok d \<Longrightarrow> db_ok d'"
  "save_notification r3 d = Inr d' \<Longrightarrow> db_ok d \<Longrightarrow> db_ok d'"
  "save_auditLog r4 d = Inr d' \<Longrightarrow> db_ok d \<Longrightarrow> db_ok d'"
  "save_location r5 d = Inr d' \<Longrightarrow> db_ok d \<Longrightarrow> db_ok d'"
  "save_node r6 d = Inr d' \<Longrightarrow> db_ok d \<Longrightarrow> db_ok d'"
  "save_allocation r7 d = Inr d' \<Longrightarrow> db_ok d \<Longrightarrow> db_ok d'"
  "save_nest r8 d = Inr d' \<Longrightarrow> db_ok d \<Longrightarrow> db_ok d'"
  "save_egg r9 d = Inr d' \<Longrightarrow> db_ok d \<Longrightarrow> db_ok d'"
  "save_eggVariable r10 d = Inr d' \<Longrightarrow> db_ok d \<Longrightarrow> db_ok d'"
  "save_server r11 d = Inr d' \<Longrightarrow> db_ok d \<Longrightarrow> db_ok d'"
  "save_subuser r12 d = Inr d' \<Longrightarrow> db_ok d \<Longrightarrow> db_ok d'"
  "save_database r13 d = Inr d' \<Longrightarrow> db_ok d \<Longrightarrow> db_ok d'"
  "save_databaseHost r14 d = Inr d' \<Longrightarrow> db_ok d \<Longrightarrow> db_ok d'"
  "save_schedule r15 d = Inr d' \<Longrightarrow> db_ok d \<Longrightarrow> db_ok d'"
  "save_scheduleTask r16 d = Inr d' \<Longrightarrow> db_ok d \<Longrightarrow> db_ok d'"
  unfolding db_ok_def by (blast intro: save_keys save_refs)+


section \<open>Removing\<close>

lemma checked_Inr: "checked d = Inr d' \<longleftrightarrow> d' = d \<and> allocation_refs d"
  by (auto simp: checked_def)

lemma cascade_servers_same [store_simps]:
  "db_users (cascade_servers P d) = db_users d"
  "db_sessions (cascade_servers P d) = db_sessions d"
  "db_apiKeys (cascade_servers P d) = db_apiKeys d"
  "db_notifications (cascade_servers P d) = db_notifications d"
  "db_auditLogs (cascade_servers P d) = db_auditLogs d"
  "db_locations (cascade_servers P d) = db_locations d"
  "db_nodes (cascade_servers P d) = db_nodes d"
  "db_allocations (cascade_servers P d) = db_allocations d"
  "db_nests (cascade_servers P d) = db_nests d"
  "db_eggs (cascade_servers P d) = db_eggs d"
  "db_eggVariables (cascade_servers P d) = db_eggVariables d"
  "db_databaseHosts (cascade_servers P d) = db_databaseHosts d"
  by (simp_all add: cascade_servers_def remove_schedules_def remove_scheduleTasks_def Let_def)

lemma cascade_servers_sets [store_simps]:
  "set (db_servers (cascade_servers P d)) = {s \<in> set (db_servers d). \<not> P s}"
  "set (db_subusers (cascade_servers P d)) =
     {x \<in> set (db_subusers d). \<forall>s \<in> set (db_servers d). P s \<longrightarrow> subuser_serverId x \<noteq> server_id s}"
  "set (db_databases (cascade_servers P d)) =
     {x \<in> set (db_databases d). \<forall>s \<in> set (db_servers d). P s \<longrightarrow> sdb_serverId x \<noteq> server_id s}"
  "set (db_schedules (cascade_servers P d)) =
     {x \<in> set (db_schedules d). \<forall>s \<in> set (db_servers d). P s \<longrightarrow> sched_serverId x \<noteq> server_id s}"
  "set (db_scheduleTasks (cascade_servers P d)) =
     {x \<in> set (db_scheduleTasks d). \<forall>c \<in> set (db_schedules d).
        (\<exists>s \<in> set (db_servers d). P s \<and> sched_serverId c = server_id s) \<longrightarrow> task_scheduleId x \<noteq> sched_id c}"
  by (auto simp: cascade_servers_def remove_schedules_def remove_scheduleTasks_def Let_def removeRows_def)

lemma cascade_servers_keys: "db_keys d \<Longrightarrow> db_keys (cascade_servers P d)"
  by (simp add: cascade_servers_def remove_schedules_def remove_scheduleTasks_def Let_def
      db_keys_def unique_rows_remove)

text \<open>Existence of the key of a row, as membership: what the foreign keys need.\<close>

lemma exists_iff [store_simps]:
  "user_exists d = (\<lambda>i. \<exists>u \<in> set (db_users d). user_id u = i)"
  "location_exists d = (\<lambda>i. \<exists>l \<in> set (db_locations d). loc_id l = i)"
  "node_exists d = (\<lambda>i. \<exists>n \<in> set (db_nodes d). node_id n = i)"
  "nest_exists d = (\<lambda>i. \<exists>n \<in> set (db_nests d). nest_id n = i)"
  "egg_exists d = (\<lambda>i. \<exists>e \<in> set (db_eggs d). egg_id e = i)"
  "server_exists d = (\<lambda>i. \<exists>s \<in> set (db_servers d). server_id s = i)"
  "databaseHost_exists d = (\<lambda>i. \<exists>h \<in> set (db_databaseHosts d). dbhost_id h = i)"
  "schedule_exists d = (\<lambda>i. \<exists>c \<in> set (db_schedules d). sched_id c = i)"
  by (simp_all add: fun_eq_iff exists_defs hasRow_iff)

lemma allocation_refs_iff:
  "allocation_refs d \<longleftrightarrow> (\<forall>a \<in> set (db_allocations d). opt_ref (server_exists d) (alloc_serverId a))"
  by (simp add: allocation_refs_def list_all_iff)

lemma opt_ref_simps [simp]: "opt_ref P None" "opt_ref P (Some x) \<longleftrightarrow> P x"
  by (simp_all add: opt_ref_def)

lemma cascade_user_children: "user_children_ok d \<Longrightarrow> user_children_ok (cascade_servers P d)"
  unfolding user_children_ok_def by (simp add: store_simps)

lemma cascade_node_children: "node_children_ok d \<Longrightarrow> node_children_ok (cascade_servers P d)"
  unfolding node_children_ok_def by (simp add: store_simps)

lemma cascade_egg_children: "egg_children_ok d \<Longrightarrow> egg_children_ok (cascade_servers P d)"
  unfolding egg_children_ok_def by (simp add: store_simps)

definition server_rows_ok :: "'z db_scheme \<Rightarrow> bool" where
  "server_rows_ok d \<longleftrightarrow>
     (\<forall>s \<in> set (db_subusers d). server_exists d (subuser_serverId s)) \<and>
     (\<forall>s \<in> set (db_databases d). server_exists d (sdb_serverId s)) \<and>
     (\<forall>s \<in> set (db_databases d). databaseHost_exists d (sdb_databaseHostId s)) \<and>
     (\<forall>s \<in> set (db_schedules d). server_exists d (sched_serverId s)) \<and>
     (\<forall>t \<in> set (db_scheduleTasks d). schedule_exists d (task_scheduleId t))"

lemma server_children_split: "server_children_ok d \<longleftrightarrow> allocation_refs d \<and> server_rows_ok d"
  by (auto simp: server_children_ok_def server_rows_ok_def allocation_refs_iff)

lemma cascade_server_rows:
  assumes "server_rows_ok d"
  shows "server_rows_ok (cascade_servers P d)"
proof -
  have 1: "\<forall>s \<in> set (db_databases (cascade_servers P d)). databaseHost_exists (cascade_servers P d) (sdb_databaseHostId s)"
    using assms by (simp add: server_rows_ok_def store_simps)
  have 2: "\<forall>s \<in> set (db_subusers (cascade_servers P d)). server_exists (cascade_servers P d) (subuser_serverId s)"
    using assms by (simp add: server_rows_ok_def store_simps) metis
  have 3: "\<forall>s \<in> set (db_databases (cascade_servers P d)). server_exists (cascade_servers P d) (sdb_serverId s)"
    using assms by (simp add: server_rows_ok_def store_simps) metis
  have 4: "\<forall>s \<in> set (db_schedules (cascade_servers P d)). server_exists (cascade_servers P d) (sched_serverId s)"
    using assms by (simp add: server_rows_ok_def store_simps) metis
  have 5: "\<forall>t \<in> set (db_scheduleTasks (cascade_servers P d)). schedule_exists (cascade_servers P d) (task_scheduleId t)"
  proof
    fix t
    assume t: "t \<in> set (db_scheduleTasks (cascade_servers P d))"
    then have "t \<in> set (db_scheduleTasks d)" by (simp add: store_simps)
    then obtain c where c: "c \<in> set (db_schedules d)" "sched_id c = task_scheduleId t"
      using assms by (auto simp: server_rows_ok_def store_simps)
    with t have "c \<in> set (db_schedules (cascade_servers P d))" by (force simp: store_simps)
    with c show "schedule_exists (cascade_servers P d) (task_scheduleId t)" by (auto simp: store_simps)
  qed
  show ?thesis
    unfolding server_rows_ok_def using 1 2 3 4 5 by simp
qed

lemma cascade_server_children:
  "server_children_ok d \<Longrightarrow> allocation_refs (cascade_servers P d) \<Longrightarrow>
   server_children_ok (cascade_servers P d)"
  by (simp add: server_children_split cascade_server_rows)

lemma other_row [store_simps]:
  "(\<exists>n. n \<in> A \<and> k n \<noteq> i \<and> k n = a) \<longleftrightarrow> a \<noteq> i \<and> (\<exists>n \<in> A. k n = a)"
  by auto

lemma remove_server_keys: "remove_server i d = Inr d' \<Longrightarrow> db_keys d \<Longrightarrow> db_keys d'"
  by (simp add: remove_server_def checked_Inr cascade_servers_keys)

lemma remove_server_refs: "remove_server i d = Inr d' \<Longrightarrow> db_refs d \<Longrightarrow> db_refs d'"
  unfolding remove_server_def checked_Inr db_refs_def
  by (simp add: cascade_user_children cascade_node_children cascade_egg_children cascade_server_children)

section \<open>Removing, with the actions of the relations\<close>

lemma unique_rows_updateRows:
  assumes "unique_rows key clash t" and "\<And>r. key (f r) = key r"
    and "\<And>x y. clash (f x) (f y) \<longrightarrow> clash x y" and "\<And>x y. clash (f x) y \<longrightarrow> clash x y"
    and "\<And>x y. clash x (f y) \<longrightarrow> clash x y"
  shows "unique_rows key clash (updateRows P f t)"
proof -
  have "distinct (map key (updateRows P f t))"
    using assms(1,2) by (simp add: unique_rows_def map_updateRows)
  moreover have "\<not> clash x y" if that1: "x \<in> set (updateRows P f t)" "y \<in> set (updateRows P f t)" and that3: "key x \<noteq> key y" for x y
  proof -
    obtain a b where *: "a \<in> set t" "b \<in> set t" "x = (if P a then f a else a)" "y = (if P b then f b else b)"
      using that1 by (auto simp: table_sets)
    show ?thesis using that3 * assms unfolding unique_rows_def by (metis (full_types))
  qed
  ultimately show ?thesis by (simp add: unique_rows_def)
qed

lemma exists_updated:
  "(\<And>r. key (f r) = key r) \<Longrightarrow> (\<exists>h \<in> set (updateRows P f t). key h = k) \<longleftrightarrow> (\<exists>h \<in> set t. key h = k)"
  by (auto simp: table_sets)

lemma remove_user_keys: "remove_user i d = Inr d' \<Longrightarrow> db_keys d \<Longrightarrow> db_keys d'"
  unfolding remove_user_def checked_Inr
  using cascade_servers_keys [of d "\<lambda>s. server_userId s = i"]
  by (simp add: db_keys_def store_simps unique_rows_remove unique_rows_updateRows no_clash_def)

lemma remove_node_keys: "remove_node i d = Inr d' \<Longrightarrow> db_keys d \<Longrightarrow> db_keys d'"
  unfolding remove_node_def checked_Inr
  using cascade_servers_keys [of d "\<lambda>s. server_nodeId s = i"]
  by (simp add: db_keys_def store_simps unique_rows_remove unique_rows_updateRows no_clash_def)

lemma remove_user_refs:
  assumes "remove_user i d = Inr d'" and "db_refs d" shows "db_refs d'"
proof -
  let ?c = "cascade_servers (\<lambda>s. server_userId s = i) d"
  have d': "allocation_refs ?c" and "d' = ?c
       \<lparr>db_users := removeRows (\<lambda>u. user_id u = i) (db_users d),
        db_sessions := removeRows (\<lambda>s. session_userId s = i) (db_sessions d),
        db_apiKeys := removeRows (\<lambda>k. apikey_userId k = i) (db_apiKeys d),
        db_notifications := removeRows (\<lambda>n. notif_userId n = i) (db_notifications d),
        db_subusers := removeRows (\<lambda>s. subuser_userId s = i) (db_subusers ?c),
        db_auditLogs := updateRows (\<lambda>a. audit_userId a = Some i) (audit_userId_update (\<lambda>_. None))
          (db_auditLogs d)\<rparr>"
    using assms(1) by (auto simp: remove_user_def checked_def allocation_refs_iff store_simps split: if_splits)
  moreover have "user_children_ok d'"
    using assms(2) unfolding calculation(2) db_refs_def user_children_ok_def
    by (auto simp: store_simps opt_ref_def split: option.splits)
  moreover have "node_children_ok d'" "egg_children_ok d'"
    using assms(2) unfolding calculation(2) db_refs_def node_children_ok_def egg_children_ok_def
    by (simp_all add: store_simps)
  moreover have "server_children_ok d'"
    using cascade_server_children [of d "\<lambda>s. server_userId s = i"] assms(2) calculation(1)
    unfolding calculation(2) db_refs_def server_children_ok_def
    by (auto simp: exists_iff table_sets)
  ultimately show ?thesis by (simp add: db_refs_def)
qed

lemma remove_node_refs:
  assumes "remove_node i d = Inr d'" and "db_refs d" shows "db_refs d'"
proof -
  let ?c = "cascade_servers (\<lambda>s. server_nodeId s = i) d"
  have d': "d' = ?c
       \<lparr>db_nodes := removeRows (\<lambda>n. node_id n = i) (db_nodes d),
        db_allocations := removeRows (\<lambda>a. alloc_nodeId a = i) (db_allocations d),
        db_databaseHosts := updateRows (\<lambda>h. dbhost_nodeId h = Some i) (dbhost_nodeId_update (\<lambda>_. None))
          (db_databaseHosts d)\<rparr>" and a: "allocation_refs d'"
    using assms(1) by (auto simp: remove_node_def checked_def split: if_splits)
  have "user_children_ok d'" "egg_children_ok d'"
    using assms(2) unfolding d' db_refs_def user_children_ok_def egg_children_ok_def
    by (simp_all add: store_simps)
  moreover have "node_children_ok d'"
    using assms(2) unfolding d' db_refs_def node_children_ok_def
    by (auto simp: store_simps opt_ref_def split: option.splits)
  moreover have "server_children_ok d'"
    using cascade_server_rows [of d "\<lambda>s. server_nodeId s = i"] assms(2) a
    unfolding server_children_split db_refs_def d'
    by (simp add: server_rows_ok_def exists_iff exists_updated cascade_servers_same)
  ultimately show ?thesis by (simp add: db_refs_def)
qed
lemma remove_eggs_keys: "remove_eggs P d = Inr d' \<Longrightarrow> db_keys d \<Longrightarrow> db_keys d'"
  by (auto simp: remove_eggs_def Let_def db_keys_def unique_rows_remove split: if_splits)
lemma remove_nest_keys: "remove_nest i d = Inr d' \<Longrightarrow> db_keys d \<Longrightarrow> db_keys d'"
  by (auto simp: remove_nest_def map_sum_Inr remove_eggs_def Let_def db_keys_def unique_rows_remove split: if_splits)
lemma remove_location_keys: "db_keys d \<Longrightarrow> db_keys (remove_location i d)"
  by (simp add: remove_location_def db_keys_def unique_rows_remove unique_rows_updateRows node_clash_def)
lemma remove_location_refs:
  assumes "db_refs d" shows "db_refs (remove_location i d)"
proof -
  have "user_children_ok (remove_location i d)" "egg_children_ok (remove_location i d)"
      "server_children_ok (remove_location i d)"
    using assms unfolding remove_location_def db_refs_def user_children_ok_def egg_children_ok_def server_children_ok_def
    by (simp_all add: exists_iff)
  moreover have "node_children_ok (remove_location i d)"
    using assms unfolding remove_location_def db_refs_def node_children_ok_def
    by (simp add: exists_iff exists_updated) (auto simp: table_sets opt_ref_def other_row split: option.splits)
  ultimately show ?thesis by (simp add: db_refs_def)
qed

lemma remove_eggs_refs:
  assumes "remove_eggs P d = Inr d'" and "db_refs d" shows "db_refs d'"
proof -
  let ?gone = "egg_id ` {e \<in> set (db_eggs d). P e}"
  have d': "d' = d\<lparr>db_eggs := removeRows P (db_eggs d),
                   db_eggVariables := removeRows (\<lambda>v. eggvar_eggId v \<in> ?gone) (db_eggVariables d)\<rparr>"
    and s: "\<forall>s \<in> set (db_servers d). server_eggId s \<notin> ?gone"
    and c: "\<forall>e \<in> set (db_eggs d). P e \<or> opt_ref (\<lambda>c. c \<notin> ?gone) (egg_copyScriptFrom e)"
    using assms(1) by (auto simp: remove_eggs_def Let_def hasRow_iff split: if_splits)
  have "user_children_ok d'" "node_children_ok d'" "server_children_ok d'"
    using assms(2) unfolding d' db_refs_def user_children_ok_def node_children_ok_def server_children_ok_def
    by (simp_all add: exists_iff)
  moreover have "egg_children_ok d'"
  proof -
    have keep: "egg_exists d i \<Longrightarrow> i \<notin> ?gone \<Longrightarrow> egg_exists d' i" for i
      unfolding d' by (auto simp: exists_iff table_sets)
    have e: "\<forall>e \<in> set (db_eggs d). nest_exists d (egg_nestId e) \<and> opt_ref (egg_exists d) (egg_copyScriptFrom e)"
      and v: "\<forall>v \<in> set (db_eggVariables d). egg_exists d (eggvar_eggId v)"
      and ss: "\<forall>s \<in> set (db_servers d). egg_exists d (server_eggId s)"
      using assms(2) by (auto simp: db_refs_def egg_children_ok_def)
    have "nest_exists d' = nest_exists d" by (simp add: d' exists_iff)
    moreover have "opt_ref (egg_exists d') (egg_copyScriptFrom x)" if "x \<in> set (db_eggs d)" "\<not> P x" for x
      using e c that keep by (cases "egg_copyScriptFrom x") fastforce+
    moreover have "set (db_eggs d') = {x \<in> set (db_eggs d). \<not> P x}"
        "set (db_eggVariables d') = {v \<in> set (db_eggVariables d). eggvar_eggId v \<notin> ?gone}"
        "db_servers d' = db_servers d"
      by (simp_all add: d' table_sets)
    ultimately show ?thesis using e v ss s keep unfolding egg_children_ok_def by simp
  qed
  ultimately show ?thesis by (simp add: db_refs_def)
qed

lemma remove_nest_refs:
  assumes "remove_nest i d = Inr d'" and "db_refs d" shows "db_refs d'"
proof -
  obtain e where e: "remove_eggs (\<lambda>e. egg_nestId e = i) d = Inr e"
    and d': "d' = e\<lparr>db_nests := removeRows (\<lambda>n. nest_id n = i) (db_nests d)\<rparr>"
    using assms(1) by (auto simp: remove_nest_def map_sum_Inr)
  have r: "db_refs e" using e assms(2) by (rule remove_eggs_refs)
  have n: "db_nests e = db_nests d" and g: "\<forall>x \<in> set (db_eggs e). egg_nestId x \<noteq> i"
    using e by (auto simp: remove_eggs_def Let_def table_sets split: if_splits)
  have "user_children_ok d'" "node_children_ok d'" "server_children_ok d'"
    using r unfolding d' db_refs_def user_children_ok_def node_children_ok_def server_children_ok_def
    by (simp_all add: exists_iff)
  moreover have "egg_children_ok d'"
    using r g n unfolding d' db_refs_def egg_children_ok_def by (auto simp: exists_iff table_sets other_row)
  ultimately show ?thesis by (simp add: db_refs_def)
qed

lemmas remove_keys = remove_server_keys remove_user_keys remove_node_keys remove_eggs_keys remove_nest_keys

lemmas remove_refs = remove_server_refs remove_user_refs remove_node_refs remove_eggs_refs remove_nest_refs

lemma remove_ok [inv_intros]:
  "remove_server i d = Inr d' \<Longrightarrow> db_ok d \<Longrightarrow> db_ok d'"
  "remove_user i d = Inr d' \<Longrightarrow> db_ok d \<Longrightarrow> db_ok d'"
  "remove_node i d = Inr d' \<Longrightarrow> db_ok d \<Longrightarrow> db_ok d'"
  "remove_eggs P d = Inr d' \<Longrightarrow> db_ok d \<Longrightarrow> db_ok d'"
  "remove_nest i d = Inr d' \<Longrightarrow> db_ok d \<Longrightarrow> db_ok d'"
  "db_ok d \<Longrightarrow> db_ok (remove_location i d)"
  unfolding db_ok_def by (blast intro: remove_keys remove_refs remove_location_keys remove_location_refs)+

text \<open>
  Deleting rows nothing refers to: \<open>delete\<close> on the leaf tables.
\<close>

lemma remove_leaf_ok [inv_intros]:
  "db_ok d \<Longrightarrow> db_ok (d\<lparr>db_sessions := removeRows P1 (db_sessions d)\<rparr>)"
  "db_ok d \<Longrightarrow> db_ok (d\<lparr>db_apiKeys := removeRows P2 (db_apiKeys d)\<rparr>)"
  "db_ok d \<Longrightarrow> db_ok (d\<lparr>db_notifications := removeRows P3 (db_notifications d)\<rparr>)"
  "db_ok d \<Longrightarrow> db_ok (d\<lparr>db_allocations := removeRows P4 (db_allocations d)\<rparr>)"
  "db_ok d \<Longrightarrow> db_ok (d\<lparr>db_eggVariables := removeRows P5 (db_eggVariables d)\<rparr>)"
  "db_ok d \<Longrightarrow> db_ok (d\<lparr>db_subusers := removeRows P6 (db_subusers d)\<rparr>)"
  "db_ok d \<Longrightarrow> db_ok (d\<lparr>db_databases := removeRows P7 (db_databases d)\<rparr>)"
  "db_ok d \<Longrightarrow> db_ok (remove_scheduleTasks P8 d)"
  by (auto simp: db_ok_def db_keys_def unique_rows_remove children_defs exists_iff table_sets remove_scheduleTasks_def)

end
