(* ===== verification/Guards.thy ===== *)
theory Guards
  imports Invariant
begin

text \<open>
  \<^verbatim>\<open>common/guards\<close>, \<^verbatim>\<open>common/filters\<close>, \<^verbatim>\<open>common/decorators\<close> and
  \<^verbatim>\<open>auth/strategies\<close>: who a request acts for, and the HTTP answer to an exception.  A
  guard runs before the pipes and the handler; the three \<open>with_\<dots>\<close> functions are the
  decorator stacks of the controllers (\<open>JwtAuthGuard\<close>, \<open>JwtAuthGuard\<close> with \<open>RolesGuard\<close>
  and \<open>@Roles('admin')\<close>, \<open>DaemonTokenGuard\<close>).
\<close>

section \<open>Requests\<close>

record Request =
  req_sessionCookie :: "string option" \<comment> \<open>\<open>cookies['nexus_session']\<close>\<close>
  req_refreshCookie :: "string option" \<comment> \<open>\<open>cookies.refreshToken\<close>\<close>
  req_authorization :: "string option"
  req_ip :: string \<comment> \<open>\<open>req.ip || req.socket.remoteAddress || ''\<close>\<close>
  req_userAgent :: "string option"
  req_protocol :: string
  req_method :: string
  req_path :: string

record AuthUser =
  au_id :: string
  au_email :: string
  au_rootAdmin :: bool

section \<open>JWT authentication\<close>

definition cookieThenBearerExtractor :: "ext \<Rightarrow> Request \<Rightarrow> string option" where
  "cookieThenBearerExtractor X req =
     (case req_sessionCookie req of
        Some (c # cs) \<Rightarrow> Some (c # cs)
      | _ \<Rightarrow> bearerExtract X (req_authorization req))"

definition validateUser :: "'z db_scheme \<Rightarrow> string \<Rightarrow> UserEntity option" where
  "validateUser d userId = findOne (\<lambda>u. user_id u = userId \<and> user_enabled u) (db_users d)"

definition JwtStrategy_validate :: "'z db_scheme \<Rightarrow> claims \<Rightarrow> exn + AuthUser" where
  "JwtStrategy_validate d payload =
     (case validateUser d (jwt_sub payload) of
        None \<Rightarrow> Inl UnauthorizedDefault
      | Some u \<Rightarrow> Inr \<lparr>au_id = user_id u, au_email = user_email u, au_rootAdmin = user_rootAdmin u\<rparr>)"

text \<open>\<open>JwtAuthGuard\<close>: the token of the request, verified, not expired, of a live user.\<close>

definition JwtAuthGuard :: "ext \<Rightarrow> nat \<Rightarrow> Request \<Rightarrow> 'z db_scheme \<Rightarrow> exn + AuthUser" where
  "JwtAuthGuard X now req d =
     (case cookieThenBearerExtractor X req of
        None \<Rightarrow> Inl UnauthorizedDefault
      | Some token \<Rightarrow>
          (case jwtVerify X now token of
             None \<Rightarrow> Inl UnauthorizedDefault
           | Some payload \<Rightarrow> JwtStrategy_validate d payload))"

text \<open>\<open>RolesGuard\<close>; a guard that returns \<open>false\<close> makes Nest answer 403.\<close>

definition RolesGuard :: "bool \<Rightarrow> AuthUser \<Rightarrow> bool" where
  "RolesGuard requiresAdmin user = (if \<not> requiresAdmin then True else au_rootAdmin user)"

definition with_user ::
  "ext \<Rightarrow> nat \<Rightarrow> Request \<Rightarrow> (AuthUser \<Rightarrow> 'z db_scheme \<Rightarrow> ('z db_scheme, 'a) handled) \<Rightarrow>
   'z db_scheme \<Rightarrow> ('z db_scheme, 'a) handled" where
  "with_user X now req h d =
     (case JwtAuthGuard X now req d of
        Inl e \<Rightarrow> (Inl e, d)
      | Inr u \<Rightarrow> if RolesGuard False u then h u d else (Inl (ForbiddenException ''Forbidden resource''), d))"

definition with_admin ::
  "ext \<Rightarrow> nat \<Rightarrow> Request \<Rightarrow> (AuthUser \<Rightarrow> 'z db_scheme \<Rightarrow> ('z db_scheme, 'a) handled) \<Rightarrow>
   'z db_scheme \<Rightarrow> ('z db_scheme, 'a) handled" where
  "with_admin X now req h d =
     (case JwtAuthGuard X now req d of
        Inl e \<Rightarrow> (Inl e, d)
      | Inr u \<Rightarrow> if RolesGuard True u then h u d else (Inl (ForbiddenException ''Forbidden resource''), d))"

text \<open>The \<open>ValidationPipe\<close> on a body: the decorators of the DTO class as a predicate.  A body
  with a property of another type or a property the class does not have is refused before
  the model starts.\<close>

definition validated :: "bool \<Rightarrow> ('z db_scheme \<Rightarrow> ('z db_scheme, 'a) handled) \<Rightarrow>
    'z db_scheme \<Rightarrow> ('z db_scheme, 'a) handled" where
  "validated ok h d = (if ok then h d else (Inl ValidationFailed, d))"

lemma JwtAuthGuard_Inr [guard_simps]:
  "JwtAuthGuard X now req d = Inr a \<longleftrightarrow>
   (\<exists>token payload u. cookieThenBearerExtractor X req = Some token \<and> jwtVerify X now token = Some payload \<and>
      validateUser d (jwt_sub payload) = Some u \<and>
      a = \<lparr>au_id = user_id u, au_email = user_email u, au_rootAdmin = user_rootAdmin u\<rparr>)"
  by (auto simp: JwtAuthGuard_def JwtStrategy_validate_def split: option.splits)

text \<open>Who a request acts for depends on the table of users alone.\<close>

lemma guard_users: "db_users d = db_users d' \<Longrightarrow> JwtAuthGuard X now req d = JwtAuthGuard X now req d'"
  by (simp add: JwtAuthGuard_def JwtStrategy_validate_def validateUser_def split: option.split)

lemma validateUser_Some: "validateUser d i = Some u \<Longrightarrow> u \<in> set (db_users d) \<and> user_id u = i \<and> user_enabled u"
  unfolding validateUser_def by (auto dest: findOne_Some)

lemma with_admin_state: "(\<And>u d. snd (h u d) = d) \<Longrightarrow> snd (with_admin X now req h d) = d"
  by (simp add: with_admin_def split: sum.splits)

lemma with_admin_Inr:
  "with_admin X now req h d = (Inr a, d') \<longleftrightarrow>
   (\<exists>u. JwtAuthGuard X now req d = Inr u \<and> au_rootAdmin u \<and> h u d = (Inr a, d'))"
  by (auto simp: with_admin_def RolesGuard_def split: sum.splits)

lemma with_user_Inr:
  "with_user X now req h d = (Inr a, d') \<longleftrightarrow>
   (\<exists>u. JwtAuthGuard X now req d = Inr u \<and> h u d = (Inr a, d'))"
  by (auto simp: with_user_def RolesGuard_def split: sum.splits)

lemma validated_Inr: "validated ok h d = (Inr a, d') \<longleftrightarrow> ok \<and> h d = (Inr a, d')"
  by (auto simp: validated_def)

section \<open>Daemon tokens\<close>

definition bearer_prefix :: string where
  "bearer_prefix = ''Bearer ''"

definition DaemonTokenGuard :: "Request \<Rightarrow> 'z db_scheme \<Rightarrow> exn + NodeEntity" where
  "DaemonTokenGuard req d =
     (case req_authorization req of
        None \<Rightarrow> Inl (UnauthorizedException ''Missing daemon token'')
      | Some authHeader \<Rightarrow>
          if authHeader = [] \<or> \<not> js_startsWith authHeader bearer_prefix
          then Inl (UnauthorizedException ''Missing daemon token'')
          else (let bearerToken = drop 7 authHeader
                in (case js_indexOf (CHR ''.'') bearerToken of
                      None \<Rightarrow> Inl (UnauthorizedException ''Invalid daemon token format'')
                    | Some dotIndex \<Rightarrow>
                        (let tokenId = take dotIndex bearerToken;
                             token = drop (dotIndex + 1) bearerToken
                         in (case findOne (\<lambda>n. node_daemonTokenId n = tokenId) (db_nodes d) of
                               None \<Rightarrow> Inl (UnauthorizedException ''Invalid daemon token'')
                             | Some node \<Rightarrow>
                                 if token \<noteq> node_daemonToken node
                                 then Inl (UnauthorizedException ''Invalid daemon token'')
                                 else Inr node)))))"

definition with_daemon ::
  "Request \<Rightarrow> (NodeEntity \<Rightarrow> 'z db_scheme \<Rightarrow> ('z db_scheme, 'a) handled) \<Rightarrow>
   'z db_scheme \<Rightarrow> ('z db_scheme, 'a) handled" where
  "with_daemon req h d =
     (case DaemonTokenGuard req d of Inl e \<Rightarrow> (Inl e, d) | Inr node \<Rightarrow> h node d)"

text \<open>The bearer value of a node: \<open>`${daemonTokenId}.${daemonToken}`\<close>.\<close>

definition daemon_bearer :: "string \<Rightarrow> string \<Rightarrow> string" where
  "daemon_bearer tokenId token = tokenId @ CHR ''.'' # token"

lemma DaemonTokenGuard_bearer:
  assumes "CHR ''.'' \<notin> set tokenId" and "req_authorization req = Some (bearer_prefix @ daemon_bearer tokenId token)"
  shows "DaemonTokenGuard req d =
    (case findOne (\<lambda>n. node_daemonTokenId n = tokenId) (db_nodes d) of
       None \<Rightarrow> Inl (UnauthorizedException ''Invalid daemon token'')
     | Some node \<Rightarrow> if token \<noteq> node_daemonToken node then Inl (UnauthorizedException ''Invalid daemon token'')
                    else Inr node)"
proof -
  have "drop 7 (bearer_prefix @ daemon_bearer tokenId token) = daemon_bearer tokenId token"
    by (simp add: bearer_prefix_def)
  moreover have "js_indexOf (CHR ''.'') (daemon_bearer tokenId token) = Some (length tokenId)"
    unfolding daemon_bearer_def using assms(1) by (rule js_indexOf_append)
  moreover have "bearer_prefix @ daemon_bearer tokenId token \<noteq> []" by (simp add: bearer_prefix_def)
  ultimately show ?thesis
    by (simp add: DaemonTokenGuard_def assms(2) daemon_bearer_def)
qed

lemma DaemonTokenGuard_Inr:
  assumes "DaemonTokenGuard req d = Inr node"
  shows "node \<in> set (db_nodes d) \<and>
    req_authorization req = Some (bearer_prefix @ daemon_bearer (node_daemonTokenId node) (node_daemonToken node))"
proof -
  obtain h i where h: "req_authorization req = Some h" "js_startsWith h bearer_prefix"
    and i: "js_indexOf (CHR ''.'') (drop 7 h) = Some i"
    and n: "findOne (\<lambda>n. node_daemonTokenId n = take i (drop 7 h)) (db_nodes d) = Some node"
    and t: "drop (i + 1) (drop 7 h) = node_daemonToken node"
    using assms by (auto simp: DaemonTokenGuard_def Let_def split: option.splits if_splits)
  obtain r where r: "h = bearer_prefix @ r" using h(2) by (auto simp: js_startsWith_def prefix_def)
  then have d7: "drop 7 h = r" by (simp add: bearer_prefix_def)
  have split: "js_indexOf c s = Some k \<Longrightarrow> s = take k s @ c # drop (k + 1) s" for c s k
    by (induction s arbitrary: k) (auto split: if_splits)
  from n have "node \<in> set (db_nodes d)" "node_daemonTokenId node = take i r"
    by (auto simp: d7 dest: findOne_Some)
  moreover have "r = take i r @ CHR ''.'' # drop (i + 1) r"
    using split [OF i] unfolding d7 .
  ultimately show ?thesis using h(1) r t unfolding d7 daemon_bearer_def by metis
qed

section \<open>Exceptions as HTTP answers\<close>

text \<open>The status of an \<open>HttpException\<close>; any other thrown value is not one.\<close>

fun http_status :: "exn \<Rightarrow> nat option" where
  "http_status (NotFoundException m) = Some 404"
| "http_status (BadRequestException m) = Some 400"
| "http_status (BadRequestErrors m es) = Some 400"
| "http_status (ForbiddenException m) = Some 403"
| "http_status (UnauthorizedException m) = Some 401"
| "http_status UnauthorizedDefault = Some 401"
| "http_status ValidationFailed = Some 400"
| "http_status (ConflictException m) = Some 409"
| "http_status _ = None"

text \<open>The \<open>message\<close> and \<open>error\<close> of \<open>getResponse()\<close>, which Nest makes an object.  The messages
  of the validation pipe are class-validator's, here the empty text.\<close>

fun http_message :: "exn \<Rightarrow> string" where
  "http_message (NotFoundException m) = m"
| "http_message (BadRequestException m) = m"
| "http_message (BadRequestErrors m es) = m"
| "http_message (ForbiddenException m) = m"
| "http_message (UnauthorizedException m) = m"
| "http_message UnauthorizedDefault = ''Unauthorized''"
| "http_message (ConflictException m) = m"
| "http_message _ = []"

fun http_error :: "exn \<Rightarrow> string option" where
  "http_error (NotFoundException m) = Some ''Not Found''"
| "http_error (BadRequestException m) = Some ''Bad Request''"
| "http_error ValidationFailed = Some ''Bad Request''"
| "http_error (ForbiddenException m) = Some ''Forbidden''"
| "http_error (UnauthorizedException m) = Some ''Unauthorized''"
| "http_error (ConflictException m) = Some ''Conflict''"
| "http_error _ = None"

record ErrorBody =
  err_statusCode :: nat
  err_errorCode :: string
  err_message :: string

definition AllExceptionsFilter :: "exn \<Rightarrow> ErrorBody" where
  "AllExceptionsFilter e =
     (case http_status e of
        None \<Rightarrow> \<lparr>err_statusCode = 500, err_errorCode = ''INTERNAL_ERROR'', err_message = ''Internal server error''\<rparr>
      | Some st \<Rightarrow> \<lparr>err_statusCode = st, err_errorCode = str_or (http_error e) ''HTTP_ERROR'',
                    err_message = str_or (Some (http_message e)) ''Internal server error''\<rparr>)"

datatype FilterAnswer = SendIndex | SendNotBuilt | SendJson nat string

definition SpaFallbackFilter :: "bool \<Rightarrow> Request \<Rightarrow> exn \<Rightarrow> FilterAnswer" where
  "SpaFallbackFilter frontendBuilt req e =
     (let status = (case http_status e of Some st \<Rightarrow> st | None \<Rightarrow> 500)
      in if status = 404 \<and> req_method req = ''GET'' \<and> \<not> js_startsWith (req_path req) ''/api/'' \<and>
            \<not> js_startsWith (req_path req) ''/health''
         then (if frontendBuilt then SendIndex else SendNotBuilt)
         else SendJson status
           (if http_status e = None then ''Internal server error''
            else str_or (Some (http_message e)) ''Internal server error''))"

text \<open>Nothing an exception carries reaches the client unless it is an \<open>HttpException\<close>.\<close>

lemma internal_errors_opaque:
  "http_status e = None \<Longrightarrow> AllExceptionsFilter e =
     \<lparr>err_statusCode = 500, err_errorCode = ''INTERNAL_ERROR'', err_message = ''Internal server error''\<rparr>"
  by (simp add: AllExceptionsFilter_def)

lemma filters_agree_api:
  "js_startsWith (req_path req) ''/api/'' \<Longrightarrow>
   SpaFallbackFilter b req e = SendJson (err_statusCode (AllExceptionsFilter e)) (err_message (AllExceptionsFilter e))"
  by (cases "http_status e") (simp_all add: SpaFallbackFilter_def AllExceptionsFilter_def Let_def)

end
