(* ===== verification/AuditLog.thy ===== *)
theory AuditLog
  imports Guards
begin

text \<open>
  \<^verbatim>\<open>audit-log/audit-log.service.ts\<close> and its controller: an append-only table, read by
  admins in pages, newest first.
\<close>

definition AuditLogService_log ::
  "string \<Rightarrow> nat \<Rightarrow> string \<Rightarrow> string \<Rightarrow> string \<Rightarrow> (string \<times> json) list option \<Rightarrow> 'z db_scheme \<Rightarrow> exn + 'z db_scheme" where
  "AuditLogService_log newId now userId event ip metadata d =
     save_auditLog \<lparr>audit_id = newId, audit_userId = Some userId, audit_event = event, audit_ip = Some ip,
                    audit_metadata = nullish metadata [], audit_createdAt = now\<rparr> d"

definition AuditLogService_findAll ::
  "int \<Rightarrow> int \<Rightarrow> string option \<Rightarrow> string option \<Rightarrow> 'z db_scheme \<Rightarrow>
   exn + (AuditLogEntity \<times> UserEntity option) paged" where
  "AuditLogService_findAll page perPage event userId d =
     (let rows = filter (\<lambda>a. (truthy_str event \<longrightarrow> Some (audit_event a) = event) \<and>
                             (truthy_str userId \<longrightarrow> audit_userId a = userId)) (db_auditLogs d);
          joined = map (\<lambda>a. (a, case audit_userId a of None \<Rightarrow> None
                                | Some u \<Rightarrow> findOne (\<lambda>x. user_id x = u) (db_users d))) (order_desc audit_createdAt rows)
      in paginate page perPage joined)"

definition AuditLogController_findAll ::
  "ext \<Rightarrow> nat \<Rightarrow> Request \<Rightarrow> int option \<Rightarrow> int option \<Rightarrow> string option \<Rightarrow> string option \<Rightarrow>
   'z db_scheme \<Rightarrow> ('z db_scheme, (AuditLogEntity \<times> UserEntity option) paged) handled" where
  "AuditLogController_findAll X now req page perPage event userId d =
     with_admin X now req
       (\<lambda>_ d. (AuditLogService_findAll (query_or page 1) (query_or perPage 25) event userId d, d)) d"

lemma audit_append:
  assumes "AuditLogService_log i now u ev ip md d = Inr d'" and "\<not> hasRow (\<lambda>a. audit_id a = i) (db_auditLogs d)"
  shows "d' = d\<lparr>db_auditLogs := db_auditLogs d @
    [\<lparr>audit_id = i, audit_userId = Some u, audit_event = ev, audit_ip = Some ip,
      audit_metadata = nullish md [], audit_createdAt = now\<rparr>]\<rparr>"
  using assms by (auto simp: AuditLogService_log_def save_auditLog_def map_sum_Inr upsertRow_def insertRow_def
      dest: saveRow_Inr)

lemma audit_log_keeps:
  assumes "AuditLogService_log i now u ev ip md d = Inr d'"
  shows "\<exists>t. d' = d\<lparr>db_auditLogs := t\<rparr>"
  using assms by (auto simp: AuditLogService_log_def save_auditLog_def map_sum_Inr)

lemma audit_log_total:
  "user_exists d u \<Longrightarrow> \<exists>d'. AuditLogService_log i now u ev ip md d = Inr d'"
  by (simp add: AuditLogService_log_def save_auditLog_def saveRow_def hasRow_iff no_clash_def)

lemma audit_log_ok [inv_intros]: "AuditLogService_log i now u ev ip md d = Inr d' \<Longrightarrow> db_ok d \<Longrightarrow> db_ok d'"
  unfolding AuditLogService_log_def by (rule save_ok)

end
