(* ===== verification/Auth.thy ===== *)
theory Auth
  imports AuditLog
begin

text \<open>
  \<^verbatim>\<open>auth/auth.service.ts\<close>, \<^verbatim>\<open>auth/auth.controller.ts\<close> and \<^verbatim>\<open>auth/dto\<close>: registration,
  login with an optional second factor, refresh tokens and sessions.  The clock \<open>now\<close> is in
  milliseconds; a signed token expires at a whole second, as JWTs do.
\<close>

section \<open>Bodies\<close>

record LoginDto =
  ld_email :: string
  ld_password :: string
  ld_twoFactorCode :: "string option"

definition LoginDto_ok :: "ext \<Rightarrow> LoginDto \<Rightarrow> bool" where
  "LoginDto_ok X dto \<longleftrightarrow> isEmail X (ld_email dto) \<and> ld_password dto \<noteq> []"

record RegisterDto =
  rd_email :: string
  rd_username :: string
  rd_password :: string

definition RegisterDto_ok :: "ext \<Rightarrow> RegisterDto \<Rightarrow> bool" where
  "RegisterDto_ok X dto \<longleftrightarrow> isEmail X (rd_email dto) \<and> 3 \<le> length (rd_username dto) \<and> 8 \<le> length (rd_password dto)"

text \<open>\<open>TwoFactorVerifyDto\<close> is one code, \<open>TwoFactorLoginDto\<close> a session token and a code.\<close>

definition TwoFactorVerifyDto_ok :: "string \<Rightarrow> bool" where
  "TwoFactorVerifyDto_ok code \<longleftrightarrow> code \<noteq> []"

definition TwoFactorLoginDto_ok :: "string \<Rightarrow> string \<Rightarrow> bool" where
  "TwoFactorLoginDto_ok sessionToken code \<longleftrightarrow> sessionToken \<noteq> [] \<and> code \<noteq> []"

section \<open>Tokens\<close>

text \<open>\<open>expiresIn\<close> in seconds from the second the token is signed in.\<close>

definition expires :: "nat \<Rightarrow> nat \<Rightarrow> nat" where
  "expires now seconds = (now div 1000 + seconds) * 1000"

definition access_claims :: "nat \<Rightarrow> UserEntity \<Rightarrow> claims" where
  "access_claims now user =
     \<lparr>jwt_sub = user_id user, jwt_email = Some (user_email user), jwt_rootAdmin = Some (user_rootAdmin user),
      jwt_purpose = None, jwt_impersonatedBy = None, jwt_expiresAt = expires now 900\<rparr>"

definition two_factor_claims :: "nat \<Rightarrow> UserEntity \<Rightarrow> claims" where
  "two_factor_claims now user =
     \<lparr>jwt_sub = user_id user, jwt_email = None, jwt_rootAdmin = None,
      jwt_purpose = Some ''two-factor'', jwt_impersonatedBy = None, jwt_expiresAt = expires now 300\<rparr>"

section \<open>The service\<close>

record UserView =
  uv_id :: string
  uv_email :: string
  uv_username :: string
  uv_rootAdmin :: bool
  uv_usesTotp :: bool

definition user_view :: "UserEntity \<Rightarrow> UserView" where
  "user_view u = \<lparr>uv_id = user_id u, uv_email = user_email u, uv_username = user_username u,
                  uv_rootAdmin = user_rootAdmin u, uv_usesTotp = user_usesTotp u\<rparr>"

datatype LoginResult =
    RequiresTwoFactor string UserView \<comment> \<open>\<open>sessionToken\<close>, \<open>user\<close>\<close>
  | LoggedIn string string UserView \<comment> \<open>\<open>accessToken\<close>, \<open>refreshToken\<close>, \<open>user\<close>\<close>

text \<open>What one call draws: identifiers of new rows, the refresh token.\<close>

record draws =
  dr_sessionId :: string
  dr_auditId :: string
  dr_refreshToken :: string

definition new_user :: "string \<Rightarrow> nat \<Rightarrow> string \<Rightarrow> string \<Rightarrow> string \<Rightarrow> bool \<Rightarrow> UserEntity" where
  "new_user i now email username hash admin =
     \<lparr>user_id = i, user_email = email, user_username = username, user_password = hash, user_rootAdmin = admin,
      user_usesTotp = False, user_totpSecret = None, user_pendingTotpSecret = None, user_backupCodes = None,
      user_enabled = True, user_avatarUrl = None, user_lastLogin = None, user_createdAt = now\<rparr>"

definition AuthService_register ::
  "ext \<Rightarrow> nat \<Rightarrow> string \<Rightarrow> string \<Rightarrow> RegisterDto \<Rightarrow> 'z db_scheme \<Rightarrow> ('z db_scheme, string \<times> string \<times> string) handled" where
  "AuthService_register X now newId auditId dto d =
     (case findOne (\<lambda>u. user_email u = rd_email dto \<or> user_username u = rd_username dto) (db_users d) of
        Some _ \<Rightarrow> (Inl (ConflictException ''Email or username already exists''), d)
      | None \<Rightarrow>
          (let hashedPassword = bcryptHash X 12 (rd_password dto);
               user = new_user newId now (rd_email dto) (rd_username dto) hashedPassword False
           in (case save_user user d of
                 Inl e \<Rightarrow> (Inl e, d)
               | Inr d1 \<Rightarrow>
                   (case AuditLogService_log auditId now (user_id user) ''user.created'' [] None d1 of
                      Inl e \<Rightarrow> (Inl e, d1)
                    | Inr d2 \<Rightarrow> (Inr (user_id user, user_email user, user_username user), d2)))))"

definition set_lastLogin :: "string \<Rightarrow> nat \<Rightarrow> 'z db_scheme \<Rightarrow> 'z db_scheme" where
  "set_lastLogin userId now d =
     d\<lparr>db_users := updateRows (\<lambda>u. user_id u = userId) (user_lastLogin_update (\<lambda>_. Some now)) (db_users d)\<rparr>"

definition new_session :: "nat \<Rightarrow> draws \<Rightarrow> UserEntity \<Rightarrow> string \<Rightarrow> string \<Rightarrow> SessionEntity" where
  "new_session now dr user ip userAgent =
     \<lparr>session_id = dr_sessionId dr, session_userId = user_id user,
      session_refreshToken = dr_refreshToken dr, session_ipAddress = ip,
      session_userAgent = userAgent, session_lastActiveAt = now, session_revoked = False,
      session_createdAt = now\<rparr>"

text \<open>The end \<open>login\<close> and \<open>verifyTwoFactorLogin\<close> share: the session row, the time of the
  login, the audit entry, the two tokens.\<close>

definition open_session ::
  "ext \<Rightarrow> nat \<Rightarrow> draws \<Rightarrow> UserEntity \<Rightarrow> string \<Rightarrow> string \<Rightarrow> 'z db_scheme \<Rightarrow> ('z db_scheme, LoginResult) handled" where
  "open_session X now dr user ip userAgent d =
     (let accessToken = jwtSign X (access_claims now user)
      in (case save_session (new_session now dr user ip userAgent) d of
            Inl e \<Rightarrow> (Inl e, d)
          | Inr d1 \<Rightarrow>
              (let d2 = set_lastLogin (user_id user) now d1
               in (case AuditLogService_log (dr_auditId dr) now (user_id user) ''user.login'' ip None d2 of
                     Inl e \<Rightarrow> (Inl e, d2)
                   | Inr d3 \<Rightarrow> (Inr (LoggedIn accessToken (dr_refreshToken dr) (user_view user)), d3)))))"

definition AuthService_login ::
  "ext \<Rightarrow> nat \<Rightarrow> draws \<Rightarrow> LoginDto \<Rightarrow> string \<Rightarrow> string \<Rightarrow> 'z db_scheme \<Rightarrow> ('z db_scheme, LoginResult) handled" where
  "AuthService_login X now dr dto ip userAgent d =
     (case findOne (\<lambda>u. user_email u = ld_email dto) (db_users d) of
        None \<Rightarrow> (Inl (UnauthorizedException ''Invalid credentials''), d)
      | Some user \<Rightarrow>
          if \<not> user_enabled user then (Inl (UnauthorizedException ''Invalid credentials''), d)
          else if \<not> bcryptCompare X (ld_password dto) (user_password user)
          then (Inl (UnauthorizedException ''Invalid credentials''), d)
          else if user_usesTotp user
          then (Inr (RequiresTwoFactor (jwtSign X (two_factor_claims now user)) (user_view user)), d)
          else open_session X now dr user ip userAgent d)"

definition AuthService_refreshToken ::
  "ext \<Rightarrow> nat \<Rightarrow> string \<Rightarrow> 'z db_scheme \<Rightarrow> ('z db_scheme, string) handled" where
  "AuthService_refreshToken X now token d =
     (case findOne (\<lambda>s. session_refreshToken s = token \<and> \<not> session_revoked s) (db_sessions d) of
        None \<Rightarrow> (Inl (UnauthorizedException ''Invalid refresh token''), d)
      | Some session \<Rightarrow>
          (case findOne (\<lambda>u. user_id u = session_userId session) (db_users d) of
             None \<Rightarrow> (Inl (UnauthorizedException ''User not found or disabled''), d)
           | Some user \<Rightarrow>
               if \<not> user_enabled user then (Inl (UnauthorizedException ''User not found or disabled''), d)
               else (case save_session (session\<lparr>session_lastActiveAt := now\<rparr>) d of
                       Inl e \<Rightarrow> (Inl e, d)
                     | Inr d1 \<Rightarrow> (Inr (jwtSign X (access_claims now user)), d1))))"

definition AuthService_logout :: "string \<Rightarrow> 'z db_scheme \<Rightarrow> ('z db_scheme, unit) handled" where
  "AuthService_logout sessionId d =
     (case findOne (\<lambda>s. session_id s = sessionId) (db_sessions d) of
        None \<Rightarrow> (Inl (NotFoundException ''Session not found''), d)
      | Some session \<Rightarrow>
          (case save_session (session\<lparr>session_revoked := True\<rparr>) d of
             Inl e \<Rightarrow> (Inl e, d) | Inr d1 \<Rightarrow> (Inr (), d1)))"

definition AuthService_setupTwoFactor ::
  "ext \<Rightarrow> string \<Rightarrow> string \<Rightarrow> 'z db_scheme \<Rightarrow> ('z db_scheme, string \<times> string) handled" where
  "AuthService_setupTwoFactor X secret userId d =
     (case findOne (\<lambda>u. user_id u = userId) (db_users d) of
        None \<Rightarrow> (Inl (NotFoundException ''User not found''), d)
      | Some user \<Rightarrow>
          if user_usesTotp user
          then (Inl (BadRequestException ''Two-factor authentication is already enabled''), d)
          else (let qrCodeUrl = qrDataUrl X (totpKeyUri X (user_email user) ''Nexus Panel'' secret)
                in (case save_user (user\<lparr>user_pendingTotpSecret := Some secret\<rparr>) d of
                      Inl e \<Rightarrow> (Inl e, d) | Inr d1 \<Rightarrow> (Inr (secret, qrCodeUrl), d1))))"

text \<open>\<open>crypto.randomBytes(12).toString('base64url').substring(0, 16)\<close> is one of the \<open>codes\<close>;
  assigning \<open>undefined\<close> to \<open>pendingTotpSecret\<close> leaves the column as it is.\<close>

definition AuthService_verifyTwoFactorSetup ::
  "ext \<Rightarrow> nat \<Rightarrow> string list \<Rightarrow> string \<Rightarrow> string \<Rightarrow> 'z db_scheme \<Rightarrow> ('z db_scheme, string list) handled" where
  "AuthService_verifyTwoFactorSetup X now codes userId code d =
     (case findOne (\<lambda>u. user_id u = userId) (db_users d) of
        None \<Rightarrow> (Inl (NotFoundException ''User not found''), d)
      | Some user \<Rightarrow>
          (case user_pendingTotpSecret user of
             None \<Rightarrow> (Inl (BadRequestException ''Two-factor setup not initiated''), d)
           | Some secret \<Rightarrow>
               if secret = [] then (Inl (BadRequestException ''Two-factor setup not initiated''), d)
               else if \<not> totpVerify X now code secret
               then (Inl (BadRequestException ''Invalid verification code''), d)
               else (let plaintextBackupCodes = map (js_slice 0 16) (take 8 codes);
                         hashedBackupCodes = map (bcryptHash X 10) plaintextBackupCodes
                     in (case save_user (user\<lparr>user_totpSecret := Some secret,
                                             user_pendingTotpSecret := col_undefined X (Some secret),
                                             user_usesTotp := True,
                                             user_backupCodes := Some hashedBackupCodes\<rparr>) d of
                           Inl e \<Rightarrow> (Inl e, d)
                         | Inr d1 \<Rightarrow> (Inr plaintextBackupCodes, d1)))))"

definition AuthService_disableTwoFactor ::
  "ext \<Rightarrow> nat \<Rightarrow> string \<Rightarrow> string \<Rightarrow> 'z db_scheme \<Rightarrow> ('z db_scheme, unit) handled" where
  "AuthService_disableTwoFactor X now userId code d =
     (case findOne (\<lambda>u. user_id u = userId) (db_users d) of
        None \<Rightarrow> (Inl (NotFoundException ''User not found''), d)
      | Some user \<Rightarrow>
          if \<not> user_usesTotp user \<or> \<not> truthy_str (user_totpSecret user)
          then (Inl (BadRequestException ''Two-factor authentication is not enabled''), d)
          else if \<not> totpVerify X now code (nullish (user_totpSecret user) [])
          then (Inl (BadRequestException ''Invalid verification code''), d)
          else (case save_user (user\<lparr>user_totpSecret := col_undefined X (user_totpSecret user),
                                     user_usesTotp := False,
                                     user_backupCodes := col_undefined X (user_backupCodes user)\<rparr>) d of
                  Inl e \<Rightarrow> (Inl e, d) | Inr d1 \<Rightarrow> (Inr (), d1)))"

text \<open>The loop over the stored backup codes: the first match is spliced out.\<close>

fun consume_backup_code :: "ext \<Rightarrow> string \<Rightarrow> string list \<Rightarrow> string list option" where
  "consume_backup_code X code [] = None"
| "consume_backup_code X code (h # hs) =
     (if bcryptCompare X code h then Some hs else map_option (Cons h) (consume_backup_code X code hs))"

definition AuthService_verifyTwoFactorLogin ::
  "ext \<Rightarrow> nat \<Rightarrow> draws \<Rightarrow> string \<Rightarrow> string \<Rightarrow> string \<Rightarrow> string \<Rightarrow> 'z db_scheme \<Rightarrow> ('z db_scheme, LoginResult) handled" where
  "AuthService_verifyTwoFactorLogin X now dr sessionToken code ip userAgent d =
     (case jwtVerify X now sessionToken of
        None \<Rightarrow> (Inl (UnauthorizedException ''Invalid or expired session token''), d)
      | Some payload \<Rightarrow>
          if jwt_purpose payload \<noteq> Some ''two-factor''
          then (Inl (UnauthorizedException ''Invalid session token''), d)
          else (case findOne (\<lambda>u. user_id u = jwt_sub payload) (db_users d) of
             None \<Rightarrow> (Inl (UnauthorizedException ''User not found or disabled''), d)
           | Some user \<Rightarrow>
               if \<not> user_enabled user then (Inl (UnauthorizedException ''User not found or disabled''), d)
               else if \<not> truthy_str (user_totpSecret user)
               then (Inl (BadRequestException ''Two-factor authentication is not configured''), d)
               else if totpVerify X now code (nullish (user_totpSecret user) [])
               then open_session X now dr user ip userAgent d
               else (case consume_backup_code X code (nullish (user_backupCodes user) []) of
                       None \<Rightarrow> (Inl (UnauthorizedException ''Invalid two-factor code''), d)
                     | Some rest \<Rightarrow>
                         (let user' = user\<lparr>user_backupCodes := Some rest\<rparr>
                          in (case save_user user' d of
                                Inl e \<Rightarrow> (Inl e, d)
                              | Inr d1 \<Rightarrow> open_session X now dr user' ip userAgent d1)))))"

record SessionView =
  sv_id :: string
  sv_ipAddress :: string
  sv_userAgent :: string
  sv_lastActiveAt :: nat
  sv_createdAt :: nat

definition AuthService_getUserSessions :: "string \<Rightarrow> 'z db_scheme \<Rightarrow> SessionView list" where
  "AuthService_getUserSessions userId d =
     map (\<lambda>s. \<lparr>sv_id = session_id s, sv_ipAddress = session_ipAddress s, sv_userAgent = session_userAgent s,
               sv_lastActiveAt = session_lastActiveAt s, sv_createdAt = session_createdAt s\<rparr>)
       (order_desc session_lastActiveAt (findRows (\<lambda>s. session_userId s = userId \<and> \<not> session_revoked s) (db_sessions d)))"

definition AuthService_revokeSession :: "string \<Rightarrow> string \<Rightarrow> 'z db_scheme \<Rightarrow> ('z db_scheme, unit) handled" where
  "AuthService_revokeSession userId sessionId d =
     (case findOne (\<lambda>s. session_id s = sessionId \<and> session_userId s = userId) (db_sessions d) of
        None \<Rightarrow> (Inl (NotFoundException ''Session not found''), d)
      | Some session \<Rightarrow>
          (case save_session (session\<lparr>session_revoked := True\<rparr>) d of
             Inl e \<Rightarrow> (Inl e, d) | Inr d1 \<Rightarrow> (Inr (), d1)))"

section \<open>The controller\<close>

text \<open>\<open>maxAge\<close> in milliseconds.\<close>

record Cookie =
  ck_name :: string
  ck_value :: string
  ck_httpOnly :: bool
  ck_secure :: bool
  ck_sameSite :: string
  ck_maxAge :: nat
  ck_path :: string

datatype CookieAction = SetCookie Cookie | ClearCookie string

definition refresh_cookie :: "bool \<Rightarrow> string \<Rightarrow> CookieAction" where
  "refresh_cookie production token =
     SetCookie \<lparr>ck_name = ''refreshToken'', ck_value = token, ck_httpOnly = True, ck_secure = production,
                ck_sameSite = ''strict'', ck_maxAge = 7 * 24 * 60 * 60 * 1000, ck_path = ''/''\<rparr>"

definition session_cookie :: "Request \<Rightarrow> string \<Rightarrow> CookieAction" where
  "session_cookie req accessToken =
     SetCookie \<lparr>ck_name = ''nexus_session'', ck_value = accessToken, ck_httpOnly = True,
                ck_secure = (req_protocol req = ''https''), ck_sameSite = ''strict'',
                ck_maxAge = 15 * 60 * 1000, ck_path = ''/''\<rparr>"

text \<open>The body a login answers with: the result less its refresh token.\<close>

datatype LoginBody = TwoFactorBody string UserView | SessionBody string UserView

definition login_answer :: "bool \<Rightarrow> Request \<Rightarrow> LoginResult \<Rightarrow> LoginBody \<times> CookieAction list" where
  "login_answer production req result =
     (case result of
        LoggedIn accessToken refreshToken user \<Rightarrow>
          (SessionBody accessToken user, [refresh_cookie production refreshToken, session_cookie req accessToken])
      | RequiresTwoFactor sessionToken user \<Rightarrow> (TwoFactorBody sessionToken user, []))"

definition AuthController_register ::
  "ext \<Rightarrow> nat \<Rightarrow> string \<Rightarrow> string \<Rightarrow> RegisterDto \<Rightarrow> 'z db_scheme \<Rightarrow> ('z db_scheme, string \<times> string \<times> string) handled" where
  "AuthController_register X now newId auditId dto d =
     validated (RegisterDto_ok X dto) (AuthService_register X now newId auditId dto) d"

definition AuthController_login ::
  "ext \<Rightarrow> nat \<Rightarrow> bool \<Rightarrow> draws \<Rightarrow> Request \<Rightarrow> LoginDto \<Rightarrow> 'z db_scheme \<Rightarrow>
   ('z db_scheme, LoginBody \<times> CookieAction list) handled" where
  "AuthController_login X now production dr req dto d =
     validated (LoginDto_ok X dto)
       (\<lambda>d. (case AuthService_login X now dr dto (req_ip req) (str_or (req_userAgent req) []) d of
               (Inl e, d') \<Rightarrow> (Inl e, d')
             | (Inr result, d') \<Rightarrow> (Inr (login_answer production req result), d'))) d"

definition AuthController_refresh ::
  "ext \<Rightarrow> nat \<Rightarrow> Request \<Rightarrow> 'z db_scheme \<Rightarrow> ('z db_scheme, string \<times> CookieAction list) handled" where
  "AuthController_refresh X now req d =
     (case req_refreshCookie req of
        Some (c # cs) \<Rightarrow>
          (case AuthService_refreshToken X now (c # cs) d of
             (Inl e, d') \<Rightarrow> (Inl e, d')
           | (Inr accessToken, d') \<Rightarrow> (Inr (accessToken, [session_cookie req accessToken]), d'))
      | _ \<Rightarrow> (Inl (UnauthorizedException ''No refresh token provided''), d))"

text \<open>\<open>logout\<close> clears the cookies; the session row is left as it is.\<close>

definition AuthController_logout ::
  "ext \<Rightarrow> nat \<Rightarrow> Request \<Rightarrow> 'z db_scheme \<Rightarrow> ('z db_scheme, CookieAction list) handled" where
  "AuthController_logout X now req d =
     with_user X now req
       (\<lambda>_ d. (Inr ((if truthy_str (req_refreshCookie req) then [ClearCookie ''refreshToken''] else []) @
                    [ClearCookie ''nexus_session'']), d)) d"

record MeView =
  me_id :: string
  me_email :: string
  me_username :: string
  me_rootAdmin :: bool
  me_usesTotp :: bool
  me_avatarUrl :: "string option"
  me_createdAt :: nat

definition me_token :: "Request \<Rightarrow> string option" where
  "me_token req =
     (case req_sessionCookie req of
        Some (c # cs) \<Rightarrow> Some (c # cs)
      | _ \<Rightarrow> (case req_authorization req of
                None \<Rightarrow> None
              | Some h \<Rightarrow> if h \<noteq> [] \<and> js_startsWith h bearer_prefix then Some (drop 7 h) else None))"

definition AuthController_me :: "ext \<Rightarrow> nat \<Rightarrow> Request \<Rightarrow> 'z db_scheme \<Rightarrow> exn + MeView" where
  "AuthController_me X now req d =
     (if \<not> truthy_str (me_token req) then Inl (UnauthorizedException ''No token provided'')
      else (case jwtVerify X now (nullish (me_token req) []) of
              None \<Rightarrow> Inl (UnauthorizedException ''Invalid or expired token'')
            | Some payload \<Rightarrow>
                (case validateUser d (jwt_sub payload) of
                   None \<Rightarrow> Inl (UnauthorizedException ''User not found or disabled'')
                 | Some u \<Rightarrow> Inr \<lparr>me_id = user_id u, me_email = user_email u, me_username = user_username u,
                                 me_rootAdmin = user_rootAdmin u, me_usesTotp = user_usesTotp u,
                                 me_avatarUrl = user_avatarUrl u, me_createdAt = user_createdAt u\<rparr>)))"

definition AuthController_setupTwoFactor ::
  "ext \<Rightarrow> nat \<Rightarrow> Request \<Rightarrow> string \<Rightarrow> 'z db_scheme \<Rightarrow> ('z db_scheme, string \<times> string) handled" where
  "AuthController_setupTwoFactor X now req secret d =
     with_user X now req (\<lambda>u. AuthService_setupTwoFactor X secret (au_id u)) d"

definition AuthController_verifyTwoFactor ::
  "ext \<Rightarrow> nat \<Rightarrow> Request \<Rightarrow> string list \<Rightarrow> string \<Rightarrow> 'z db_scheme \<Rightarrow> ('z db_scheme, string list) handled" where
  "AuthController_verifyTwoFactor X now req codes code d =
     with_user X now req (\<lambda>u. validated (TwoFactorVerifyDto_ok code)
       (AuthService_verifyTwoFactorSetup X now codes (au_id u) code)) d"

definition AuthController_disableTwoFactor ::
  "ext \<Rightarrow> nat \<Rightarrow> Request \<Rightarrow> string \<Rightarrow> 'z db_scheme \<Rightarrow> ('z db_scheme, unit) handled" where
  "AuthController_disableTwoFactor X now req code d =
     with_user X now req (\<lambda>u. validated (TwoFactorVerifyDto_ok code)
       (AuthService_disableTwoFactor X now (au_id u) code)) d"

definition AuthController_verifyTwoFactorLogin ::
  "ext \<Rightarrow> nat \<Rightarrow> bool \<Rightarrow> draws \<Rightarrow> Request \<Rightarrow> string \<Rightarrow> string \<Rightarrow> 'z db_scheme \<Rightarrow>
   ('z db_scheme, LoginBody \<times> CookieAction list) handled" where
  "AuthController_verifyTwoFactorLogin X now production dr req sessionToken code d =
     validated (TwoFactorLoginDto_ok sessionToken code)
       (\<lambda>d. (case AuthService_verifyTwoFactorLogin X now dr sessionToken code (req_ip req)
                    (str_or (req_userAgent req) []) d of
               (Inl e, d') \<Rightarrow> (Inl e, d')
             | (Inr result, d') \<Rightarrow> (Inr (login_answer production req result), d'))) d"

definition AuthController_getSessions ::
  "ext \<Rightarrow> nat \<Rightarrow> Request \<Rightarrow> 'z db_scheme \<Rightarrow> ('z db_scheme, SessionView list) handled" where
  "AuthController_getSessions X now req d =
     with_user X now req (\<lambda>u d. (Inr (AuthService_getUserSessions (au_id u) d), d)) d"

definition AuthController_revokeSession ::
  "ext \<Rightarrow> nat \<Rightarrow> Request \<Rightarrow> string \<Rightarrow> 'z db_scheme \<Rightarrow> ('z db_scheme, unit) handled" where
  "AuthController_revokeSession X now req sessionId d =
     with_user X now req (\<lambda>u. AuthService_revokeSession (au_id u) sessionId) d"

end
