(* ===== verification/Users.thy ===== *)
theory Users
  imports Auth
begin

text \<open>
  \<^verbatim>\<open>users/\<close> (service, controller, DTOs), \<^verbatim>\<open>admin/admin-users.controller.ts\<close> and the
  impersonation of \<^verbatim>\<open>admin/admin.service.ts\<close>.  The admin controller repeats the service's
  code over the repositories with other exceptions and one more check; both are modelled.
\<close>

section \<open>Bodies\<close>

record CreateUserDto =
  cu_email :: string
  cu_username :: string
  cu_password :: string
  cu_rootAdmin :: "bool option"

definition CreateUserDto_ok :: "ext \<Rightarrow> CreateUserDto \<Rightarrow> bool" where
  "CreateUserDto_ok X dto \<longleftrightarrow>
     isEmail X (cu_email dto) \<and> 3 \<le> length (cu_username dto) \<and> 8 \<le> length (cu_password dto)"

text \<open>
  \<open>UpdateUserDto\<close> and \<open>UpdateProfileDto\<close> are one record of the properties either has; the
  pipe (\<open>forbidNonWhitelisted\<close>) refuses a property the class of the route does not declare.
\<close>

record UserChanges =
  uc_email :: "string option"
  uc_username :: "string option"
  uc_password :: "string option"
  uc_rootAdmin :: "bool option"
  uc_enabled :: "bool option"
  uc_avatarUrl :: "string option"

definition opt_ok :: "('a \<Rightarrow> bool) \<Rightarrow> 'a option \<Rightarrow> bool" where
  "opt_ok P a \<longleftrightarrow> (case a of None \<Rightarrow> True | Some x \<Rightarrow> P x)"

lemma opt_ok_simps [simp]: "opt_ok P None" "opt_ok P (Some x) \<longleftrightarrow> P x"
  by (simp_all add: opt_ok_def)

definition UpdateUserDto_ok :: "ext \<Rightarrow> UserChanges \<Rightarrow> bool" where
  "UpdateUserDto_ok X dto \<longleftrightarrow>
     opt_ok (isEmail X) (uc_email dto) \<and> opt_ok (\<lambda>s. 3 \<le> length s) (uc_username dto) \<and>
     opt_ok (\<lambda>s. 8 \<le> length s) (uc_password dto) \<and> uc_avatarUrl dto = None"

definition UpdateProfileDto_ok :: "ext \<Rightarrow> UserChanges \<Rightarrow> bool" where
  "UpdateProfileDto_ok X dto \<longleftrightarrow>
     opt_ok (isEmail X) (uc_email dto) \<and> opt_ok (\<lambda>s. 3 \<le> length s) (uc_username dto) \<and>
     opt_ok (\<lambda>s. 8 \<le> length s) (uc_password dto) \<and> uc_rootAdmin dto = None \<and> uc_enabled dto = None"

section \<open>The service\<close>

text \<open>The columns the lists select, and what is left of a saved row without \<open>password\<close>,
  \<open>totpSecret\<close> and \<open>backupCodes\<close>.\<close>

record UserRow =
  ur_id :: string
  ur_email :: string
  ur_username :: string
  ur_rootAdmin :: bool
  ur_usesTotp :: bool
  ur_enabled :: bool
  ur_avatarUrl :: "string option"
  ur_createdAt :: nat

record UserResult = UserRow +
  ur_pendingTotpSecret :: "string option"
  ur_lastLogin :: "nat option"

definition user_row :: "UserEntity \<Rightarrow> UserRow" where
  "user_row u = \<lparr>ur_id = user_id u, ur_email = user_email u, ur_username = user_username u,
     ur_rootAdmin = user_rootAdmin u, ur_usesTotp = user_usesTotp u, ur_enabled = user_enabled u,
     ur_avatarUrl = user_avatarUrl u, ur_createdAt = user_createdAt u\<rparr>"

definition user_result :: "UserEntity \<Rightarrow> UserResult" where
  "user_result u = \<lparr>ur_id = user_id u, ur_email = user_email u, ur_username = user_username u,
     ur_rootAdmin = user_rootAdmin u, ur_usesTotp = user_usesTotp u, ur_enabled = user_enabled u,
     ur_avatarUrl = user_avatarUrl u, ur_createdAt = user_createdAt u,
     ur_pendingTotpSecret = user_pendingTotpSecret u, ur_lastLogin = user_lastLogin u\<rparr>"

definition like_pattern :: "string \<Rightarrow> string" where
  "like_pattern search = CHR ''%'' # search @ ''%''"

definition user_search :: "ext \<Rightarrow> string option \<Rightarrow> UserEntity \<Rightarrow> bool" where
  "user_search X search u \<longleftrightarrow>
     (case search of None \<Rightarrow> True
      | Some s \<Rightarrow> s = [] \<or> sqlLike X (user_email u) (like_pattern s) \<or> sqlLike X (user_username u) (like_pattern s))"

definition UsersService_findAll ::
  "ext \<Rightarrow> int \<Rightarrow> int \<Rightarrow> string option \<Rightarrow> 'z db_scheme \<Rightarrow> exn + UserRow paged" where
  "UsersService_findAll X page perPage search d =
     paginate page perPage
       (map user_row (order_desc user_createdAt (findRows (user_search X search) (db_users d))))"

definition UsersService_findById :: "string \<Rightarrow> 'z db_scheme \<Rightarrow> exn + UserRow" where
  "UsersService_findById i d =
     (case findOne (\<lambda>u. user_id u = i) (db_users d) of
        None \<Rightarrow> Inl (NotFoundException ''User not found'')
      | Some u \<Rightarrow> Inr (user_row u))"

definition UsersService_findByEmail :: "string \<Rightarrow> 'z db_scheme \<Rightarrow> UserEntity option" where
  "UsersService_findByEmail email d = findOne (\<lambda>u. user_email u = email) (db_users d)"

definition insert_user ::
  "ext \<Rightarrow> nat \<Rightarrow> string \<Rightarrow> CreateUserDto \<Rightarrow> 'z db_scheme \<Rightarrow> ('z db_scheme, UserResult) handled" where
  "insert_user X now newId dto d =
     (let user = new_user newId now (cu_email dto) (cu_username dto) (bcryptHash X 12 (cu_password dto))
                   (nullish (cu_rootAdmin dto) False)
      in (case save_user user d of Inl e \<Rightarrow> (Inl e, d) | Inr d1 \<Rightarrow> (Inr (user_result user), d1)))"

definition taken :: "string \<Rightarrow> string \<Rightarrow> 'z db_scheme \<Rightarrow> UserEntity option" where
  "taken email username d = findOne (\<lambda>u. user_email u = email \<or> user_username u = username) (db_users d)"

definition UsersService_create ::
  "ext \<Rightarrow> nat \<Rightarrow> string \<Rightarrow> CreateUserDto \<Rightarrow> 'z db_scheme \<Rightarrow> ('z db_scheme, UserResult) handled" where
  "UsersService_create X now newId dto d =
     (case taken (cu_email dto) (cu_username dto) d of
        Some _ \<Rightarrow> (Inl (ConflictException ''Email or username already exists''), d)
      | None \<Rightarrow> insert_user X now newId dto d)"

text \<open>\<open>dto.email && dto.email !== user.email\<close>, then a row with that address.\<close>

definition email_conflict :: "UserChanges \<Rightarrow> UserEntity \<Rightarrow> 'z db_scheme \<Rightarrow> bool" where
  "email_conflict dto user d \<longleftrightarrow>
     truthy_str (uc_email dto) \<and> uc_email dto \<noteq> Some (user_email user) \<and>
     findOne (\<lambda>u. Some (user_email u) = uc_email dto) (db_users d) \<noteq> None"

definition username_conflict :: "UserChanges \<Rightarrow> UserEntity \<Rightarrow> 'z db_scheme \<Rightarrow> bool" where
  "username_conflict dto user d \<longleftrightarrow>
     truthy_str (uc_username dto) \<and> uc_username dto \<noteq> Some (user_username user) \<and>
     findOne (\<lambda>u. Some (user_username u) = uc_username dto) (db_users d) \<noteq> None"

text \<open>\<open>dto.password\<close> hashed if truthy, then \<open>Object.assign(user, dto)\<close>.\<close>

definition assign_user :: "ext \<Rightarrow> UserChanges \<Rightarrow> UserEntity \<Rightarrow> UserEntity" where
  "assign_user X dto user =
     user\<lparr>user_email := nullish (uc_email dto) (user_email user),
          user_username := nullish (uc_username dto) (user_username user),
          user_password := (case uc_password dto of None \<Rightarrow> user_password user
                            | Some p \<Rightarrow> if p = [] then [] else bcryptHash X 12 p),
          user_rootAdmin := nullish (uc_rootAdmin dto) (user_rootAdmin user),
          user_enabled := nullish (uc_enabled dto) (user_enabled user),
          user_avatarUrl := (case uc_avatarUrl dto of None \<Rightarrow> user_avatarUrl user | Some a \<Rightarrow> Some a)\<rparr>"

definition UsersService_update ::
  "ext \<Rightarrow> string \<Rightarrow> UserChanges \<Rightarrow> 'z db_scheme \<Rightarrow> ('z db_scheme, UserResult) handled" where
  "UsersService_update X i dto d =
     (case findOne (\<lambda>u. user_id u = i) (db_users d) of
        None \<Rightarrow> (Inl (NotFoundException ''User not found''), d)
      | Some user \<Rightarrow>
          if email_conflict dto user d then (Inl (ConflictException ''Email already in use''), d)
          else if username_conflict dto user d then (Inl (ConflictException ''Username already in use''), d)
          else (let user' = assign_user X dto user
                in (case save_user user' d of
                      Inl e \<Rightarrow> (Inl e, d) | Inr d1 \<Rightarrow> (Inr (user_result user'), d1))))"

definition UsersService_delete :: "string \<Rightarrow> 'z db_scheme \<Rightarrow> ('z db_scheme, unit) handled" where
  "UsersService_delete i d =
     (case findOne (\<lambda>u. user_id u = i) (db_users d) of
        None \<Rightarrow> (Inl (NotFoundException ''User not found''), d)
      | Some user \<Rightarrow>
          (case remove_user (user_id user) d of Inl e \<Rightarrow> (Inl e, d) | Inr d1 \<Rightarrow> (Inr (), d1)))"

section \<open>The controller of \<open>/users\<close>\<close>

definition UsersController_getMe :: "ext \<Rightarrow> nat \<Rightarrow> Request \<Rightarrow> 'z db_scheme \<Rightarrow> ('z db_scheme, UserRow) handled" where
  "UsersController_getMe X now req d =
     with_user X now req (\<lambda>u d. (UsersService_findById (au_id u) d, d)) d"

definition UsersController_updateMe ::
  "ext \<Rightarrow> nat \<Rightarrow> Request \<Rightarrow> UserChanges \<Rightarrow> 'z db_scheme \<Rightarrow> ('z db_scheme, UserResult) handled" where
  "UsersController_updateMe X now req dto d =
     with_user X now req (\<lambda>u. validated (UpdateProfileDto_ok X dto) (UsersService_update X (au_id u) dto)) d"

definition UsersController_findAll ::
  "ext \<Rightarrow> nat \<Rightarrow> Request \<Rightarrow> int option \<Rightarrow> int option \<Rightarrow> string option \<Rightarrow> 'z db_scheme \<Rightarrow>
   ('z db_scheme, UserRow paged) handled" where
  "UsersController_findAll X now req page perPage search d =
     with_admin X now req
       (\<lambda>_ d. (UsersService_findAll X (query_or page 1) (query_or perPage 25) search d, d)) d"

definition UsersController_findById ::
  "ext \<Rightarrow> nat \<Rightarrow> Request \<Rightarrow> string \<Rightarrow> 'z db_scheme \<Rightarrow> ('z db_scheme, UserRow) handled" where
  "UsersController_findById X now req i d = with_admin X now req (\<lambda>_ d. (UsersService_findById i d, d)) d"

definition UsersController_create ::
  "ext \<Rightarrow> nat \<Rightarrow> Request \<Rightarrow> string \<Rightarrow> CreateUserDto \<Rightarrow> 'z db_scheme \<Rightarrow> ('z db_scheme, UserResult) handled" where
  "UsersController_create X now req newId dto d =
     with_admin X now req (\<lambda>_. validated (CreateUserDto_ok X dto) (UsersService_create X now newId dto)) d"

definition UsersController_update ::
  "ext \<Rightarrow> nat \<Rightarrow> Request \<Rightarrow> string \<Rightarrow> UserChanges \<Rightarrow> 'z db_scheme \<Rightarrow> ('z db_scheme, UserResult) handled" where
  "UsersController_update X now req i dto d =
     with_admin X now req (\<lambda>_. validated (UpdateUserDto_ok X dto) (UsersService_update X i dto)) d"

definition UsersController_delete ::
  "ext \<Rightarrow> nat \<Rightarrow> Request \<Rightarrow> string \<Rightarrow> 'z db_scheme \<Rightarrow> ('z db_scheme, unit) handled" where
  "UsersController_delete X now req i d = with_admin X now req (\<lambda>_. UsersService_delete i) d"

section \<open>The controller of \<open>/admin/users\<close>\<close>

definition AdminUsers_findAll ::
  "ext \<Rightarrow> nat \<Rightarrow> Request \<Rightarrow> int option \<Rightarrow> int option \<Rightarrow> string option \<Rightarrow> 'z db_scheme \<Rightarrow>
   ('z db_scheme, UserRow paged) handled" where
  "AdminUsers_findAll X now req page perPage search d =
     with_admin X now req
       (\<lambda>_ d. (paginate (query_or page 1) (query_or perPage 25)
          (map user_row (order_desc user_createdAt (findRows (user_search X search) (db_users d)))), d)) d"

record UserDetail =
  ud_user :: UserRow
  ud_servers :: "(string \<times> string \<times> ServerStatus option \<times> nat) list"
  ud_apiKeys :: "(string \<times> string \<times> string option \<times> nat option \<times> nat) list"

definition AdminUsers_findById ::
  "ext \<Rightarrow> nat \<Rightarrow> Request \<Rightarrow> string \<Rightarrow> 'z db_scheme \<Rightarrow> ('z db_scheme, UserDetail) handled" where
  "AdminUsers_findById X now req i d =
     with_admin X now req
       (\<lambda>_ d. (case findOne (\<lambda>u. user_id u = i) (db_users d) of
                 None \<Rightarrow> (Inl (BadRequestException ''User not found''), d)
               | Some u \<Rightarrow>
                   (Inr \<lparr>ud_user = user_row u,
                         ud_servers = map (\<lambda>s. (server_id s, server_name s, server_status s, server_createdAt s))
                           (findRows (\<lambda>s. server_userId s = i) (db_servers d)),
                         ud_apiKeys = map (\<lambda>k. (apikey_id k, apikey_keyStart k, apikey_memo k, apikey_lastUsedAt k, apikey_createdAt k))
                           (findRows (\<lambda>k. apikey_userId k = i) (db_apiKeys d))\<rparr>, d))) d"

definition AdminUsers_create ::
  "ext \<Rightarrow> nat \<Rightarrow> Request \<Rightarrow> string \<Rightarrow> CreateUserDto \<Rightarrow> 'z db_scheme \<Rightarrow> ('z db_scheme, UserResult) handled" where
  "AdminUsers_create X now req newId dto d =
     with_admin X now req
       (\<lambda>_. validated (CreateUserDto_ok X dto)
          (\<lambda>d. (case taken (cu_email dto) (cu_username dto) d of
                  Some _ \<Rightarrow> (Inl (BadRequestException ''Email or username already exists''), d)
                | None \<Rightarrow> insert_user X now newId dto d))) d"

definition AdminUsers_update ::
  "ext \<Rightarrow> nat \<Rightarrow> Request \<Rightarrow> string \<Rightarrow> UserChanges \<Rightarrow> 'z db_scheme \<Rightarrow> ('z db_scheme, UserResult) handled" where
  "AdminUsers_update X now req i dto d =
     with_admin X now req
       (\<lambda>_. validated (UpdateUserDto_ok X dto)
          (\<lambda>d. (case findOne (\<lambda>u. user_id u = i) (db_users d) of
                  None \<Rightarrow> (Inl (BadRequestException ''User not found''), d)
                | Some user \<Rightarrow>
                    if email_conflict dto user d then (Inl (BadRequestException ''Email already in use''), d)
                    else if username_conflict dto user d then (Inl (BadRequestException ''Username already in use''), d)
                    else (let user' = assign_user X dto user
                          in (case save_user user' d of
                                Inl e \<Rightarrow> (Inl e, d) | Inr d1 \<Rightarrow> (Inr (user_result user'), d1)))))) d"

definition servers_left_message :: "string \<Rightarrow> nat \<Rightarrow> string \<Rightarrow> string" where
  "servers_left_message before n after = before @ show_nat n @ after"

definition AdminUsers_delete ::
  "ext \<Rightarrow> nat \<Rightarrow> Request \<Rightarrow> string \<Rightarrow> 'z db_scheme \<Rightarrow> ('z db_scheme, unit) handled" where
  "AdminUsers_delete X now req i d =
     with_admin X now req
       (\<lambda>_ d. (case findOne (\<lambda>u. user_id u = i) (db_users d) of
                 None \<Rightarrow> (Inl (BadRequestException ''User not found''), d)
               | Some user \<Rightarrow>
                   (let serverCount = countRows (\<lambda>s. server_userId s = i) (db_servers d)
                    in if 0 < serverCount
                       then (Inl (BadRequestException (servers_left_message ''Cannot delete user: '' serverCount
                                    '' server(s) are still owned by this user'')), d)
                       else (case remove_user (user_id user) d of
                               Inl e \<Rightarrow> (Inl e, d) | Inr d1 \<Rightarrow> (Inr (), d1))))) d"

section \<open>Impersonation\<close>

record Impersonation =
  imp_accessToken :: string
  imp_id :: string
  imp_email :: string
  imp_username :: string
  imp_rootAdmin :: bool

definition impersonation_claims :: "nat \<Rightarrow> string \<Rightarrow> UserEntity \<Rightarrow> claims" where
  "impersonation_claims now adminId target =
     \<lparr>jwt_sub = user_id target, jwt_email = Some (user_email target), jwt_rootAdmin = Some (user_rootAdmin target),
      jwt_purpose = None, jwt_impersonatedBy = Some adminId, jwt_expiresAt = expires now 3600\<rparr>"

definition AdminService_impersonateUser ::
  "ext \<Rightarrow> nat \<Rightarrow> string \<Rightarrow> string \<Rightarrow> 'z db_scheme \<Rightarrow> exn + Impersonation" where
  "AdminService_impersonateUser X now adminId targetUserId d =
     (case findOne (\<lambda>u. user_id u = targetUserId) (db_users d) of
        None \<Rightarrow> Inl (NotFoundException ''User not found'')
      | Some target \<Rightarrow>
          Inr \<lparr>imp_accessToken = jwtSign X (impersonation_claims now adminId target), imp_id = user_id target,
               imp_email = user_email target, imp_username = user_username target,
               imp_rootAdmin = user_rootAdmin target\<rparr>)"

definition AdminController_impersonate ::
  "ext \<Rightarrow> nat \<Rightarrow> Request \<Rightarrow> string \<Rightarrow> 'z db_scheme \<Rightarrow> ('z db_scheme, Impersonation) handled" where
  "AdminController_impersonate X now req userId d =
     with_admin X now req (\<lambda>u d. (AdminService_impersonateUser X now (au_id u) userId d, d)) d"

end
