(* ===== verification/Demo.thy ===== *)
theory Demo
  imports Invariant
begin

text \<open>
  A concrete instance of the external functions, on which the witnesses of the theorems
  run: bcrypt as a marked copy of the plain text, tokens as a printed form of their claims
  that is read back, formats and patterns as simple tests.  It shows that the documented
  behaviour the theorems assume (\<open>bcrypt_ok\<close>, \<open>jwt_ok\<close>) can hold.
\<close>

section \<open>Printed claims\<close>

fun put_str :: "string \<Rightarrow> string" where
  "put_str [] = ''.''"
| "put_str (c # cs) = CHR ''x'' # c # put_str cs"

fun get_str :: "string \<Rightarrow> string \<times> string" where
  "get_str (x # c # cs) = (if x = CHR ''x'' then (case get_str cs of (s, r) \<Rightarrow> (c # s, r)) else ([], c # cs))"
| "get_str _ = ([], [])"

fun put_nat :: "nat \<Rightarrow> string" where
  "put_nat n = (if n = 0 then ''.'' else (if even n then CHR ''0'' else CHR ''1'') # put_nat (n div 2))"

declare put_nat.simps [simp del]

fun get_nat :: "string \<Rightarrow> nat \<times> string" where
  "get_nat (x # cs) =
     (if x = CHR ''.'' then (0, cs)
      else (case get_nat cs of (n, r) \<Rightarrow> (if x = CHR ''1'' then 2 * n + 1 else 2 * n, r)))"
| "get_nat [] = (0, [])"

lemma get_put_nat: "get_nat (put_nat n @ r) = (n, r)"
proof (induction n rule: put_nat.induct)
  case (1 n)
  then show ?case
    by (subst put_nat.simps) (auto elim!: evenE oddE)
qed

lemma get_put_str: "r \<noteq> [] \<Longrightarrow> get_str (put_str s @ r) = (s, r)"
  by (induction s) (auto simp: neq_Nil_conv)

fun put_opt :: "('a \<Rightarrow> string) \<Rightarrow> 'a option \<Rightarrow> string" where
  "put_opt f None = ''n''"
| "put_opt f (Some x) = CHR ''s'' # f x"

fun get_opt :: "(string \<Rightarrow> 'a \<times> string) \<Rightarrow> string \<Rightarrow> 'a option \<times> string" where
  "get_opt f (x # cs) = (if x = CHR ''n'' then (None, cs) else (case f cs of (a, r) \<Rightarrow> (Some a, r)))"
| "get_opt f [] = (None, [])"

fun put_bool :: "bool \<Rightarrow> string" where
  "put_bool b = (if b then ''1'' else ''0'')"

fun get_bool :: "string \<Rightarrow> bool \<times> string" where
  "get_bool (x # cs) = (x = CHR ''1'', cs)"
| "get_bool [] = (False, [])"

definition demo_sign :: "claims \<Rightarrow> string" where
  "demo_sign c =
     put_str (jwt_sub c) @ put_opt put_str (jwt_email c) @ put_opt put_bool (jwt_rootAdmin c) @
     put_opt put_str (jwt_purpose c) @ put_opt put_str (jwt_impersonatedBy c) @ put_nat (jwt_expiresAt c)"

definition demo_read :: "string \<Rightarrow> claims" where
  "demo_read s0 =
     (case get_str s0 of (sub, s1) \<Rightarrow>
      case get_opt get_str s1 of (email, s2) \<Rightarrow>
      case get_opt get_bool s2 of (admin, s3) \<Rightarrow>
      case get_opt get_str s3 of (purpose, s4) \<Rightarrow>
      case get_opt get_str s4 of (imp, s5) \<Rightarrow>
      case get_nat s5 of (expiry, s6) \<Rightarrow>
        \<lparr>jwt_sub = sub, jwt_email = email, jwt_rootAdmin = admin, jwt_purpose = purpose,
         jwt_impersonatedBy = imp, jwt_expiresAt = expiry\<rparr>)"

lemma put_opt_nonempty [simp]: "put_opt f a \<noteq> []"
  by (cases a) auto

lemma put_nat_nonempty [simp]: "put_nat n \<noteq> []"
  by (subst put_nat.simps) simp

lemma get_put_opt_str: "r \<noteq> [] \<Longrightarrow> get_opt get_str (put_opt put_str a @ r) = (a, r)"
  by (cases a) (simp_all add: get_put_str)

lemma get_put_opt_bool: "get_opt get_bool (put_opt put_bool a @ r) = (a, r)"
  by (cases a) simp_all

lemma demo_read_sign: "demo_read (demo_sign c) = c"
  using get_put_nat [of "jwt_expiresAt c" "[]"]
  by (simp add: demo_read_def demo_sign_def get_put_str get_put_opt_str get_put_opt_bool)

section \<open>The instance\<close>

definition demo_ext :: ext where
  "demo_ext =
     \<lparr>regexTest = (\<lambda>re s. Some (sublist re s)),
      regexReplaceAll = (\<lambda>re rep s. Some s),
      bcryptHash = (\<lambda>n p. CHR ''$'' # p),
      bcryptCompare = (\<lambda>p h. h = CHR ''$'' # p),
      totpVerify = (\<lambda>t token secret. token = secret),
      totpKeyUri = (\<lambda>account issuer secret. secret),
      qrDataUrl = (\<lambda>u. u),
      jwtSign = demo_sign,
      jwtVerify = (\<lambda>t token. let c = demo_read token
                             in if token = demo_sign c \<and> t < jwt_expiresAt c then Some c else None),
      bearerExtract = (\<lambda>h. case h of None \<Rightarrow> None
                                 | Some s \<Rightarrow> if js_startsWith s ''Bearer '' then Some (drop 7 s) else None),
      isEmail = (\<lambda>s. CHR ''@'' \<in> set s),
      isUUID = (\<lambda>s. length s = 36),
      isUUID4 = (\<lambda>s. length s = 36),
      sqlLike = (\<lambda>s p. s = p),
      sqlILike = (\<lambda>s p. s = p),
      collation = length,
      base64 = (\<lambda>s. s),
      skipUndefined = True\<rparr>"

lemma demo_ext_sel [simp]:
  "bcryptHash demo_ext n p = CHR ''$'' # p"
  "bcryptCompare demo_ext p h \<longleftrightarrow> h = CHR ''$'' # p"
  "totpVerify demo_ext t token secret \<longleftrightarrow> token = secret"
  "jwtSign demo_ext = demo_sign"
  "bearerExtract demo_ext (Some s) = (if js_startsWith s ''Bearer '' then Some (drop 7 s) else None)"
  "bearerExtract demo_ext None = None"
  "isEmail demo_ext s \<longleftrightarrow> CHR ''@'' \<in> set s"
  "isUUID demo_ext s \<longleftrightarrow> length s = 36" "isUUID4 demo_ext s \<longleftrightarrow> length s = 36"
  "base64 demo_ext s = s"
  "skipUndefined demo_ext"
  by (simp_all add: demo_ext_def)

lemma demo_verify_sign [simp]:
  "jwtVerify demo_ext t (demo_sign c) = (if t < jwt_expiresAt c then Some c else None)"
  by (simp add: demo_ext_def demo_read_sign)

lemma demo_bcrypt_ok [simp]: "bcrypt_ok demo_ext"
  by (simp add: bcrypt_ok_def)

lemma demo_jwt_ok [simp]: "jwt_ok demo_ext"
  by (simp add: jwt_ok_def)

section \<open>A database\<close>

definition demo_user :: "string \<Rightarrow> string \<Rightarrow> bool \<Rightarrow> UserEntity" where
  "demo_user i name admin =
     \<lparr>user_id = i, user_email = name @ ''@x'', user_username = name, user_password = ''$secret'',
      user_rootAdmin = admin, user_usesTotp = False, user_totpSecret = None, user_pendingTotpSecret = None,
      user_backupCodes = None, user_enabled = True, user_avatarUrl = None, user_lastLogin = None,
      user_createdAt = 0\<rparr>"

definition empty_db :: db where
  "empty_db =
     \<lparr>db_users = [], db_sessions = [], db_apiKeys = [], db_notifications = [], db_auditLogs = [],
      db_locations = [], db_nodes = [], db_allocations = [], db_nests = [], db_eggs = [],
      db_eggVariables = [], db_servers = [], db_subusers = [], db_databases = [],
      db_databaseHosts = [], db_schedules = [], db_scheduleTasks = []\<rparr>"

definition demo_db :: db where
  "demo_db = empty_db\<lparr>db_users := [demo_user ''u1'' ''ann'' True, demo_user ''u2'' ''bob'' False]\<rparr>"

lemma empty_db_ok: "db_ok empty_db"
  by (simp add: empty_db_def db_ok_def db_keys_def unique_rows_def children_defs)

lemma demo_db_sel [simp]:
  "db_users demo_db = [demo_user ''u1'' ''ann'' True, demo_user ''u2'' ''bob'' False]"
  "db_sessions demo_db = []" "db_apiKeys demo_db = []" "db_auditLogs demo_db = []"
  "db_servers demo_db = []" "db_nodes demo_db = []" "db_allocations demo_db = []"
  "db_locations demo_db = []" "db_notifications demo_db = []" "db_subusers demo_db = []"
  by (simp_all add: demo_db_def empty_db_def)

lemma demo_db_ok: "db_ok demo_db"
  by (simp add: demo_db_def empty_db_def demo_user_def db_ok_def db_keys_def unique_rows_def
      user_clash_def children_defs)

text \<open>A node with two allocations, an egg, and a server of \<open>bob\<close> on the first allocation.\<close>

definition demo_node :: NodeEntity where
  "demo_node =
     \<lparr>node_id = ''n1'', node_name = ''node'', node_description = None, node_location = ''eu'',
      node_locationId = None, node_fqdn = ''n1.x'', node_scheme = ''https'', node_behindProxy = False,
      node_memory = 1000, node_memoryOverallocate = 0, node_disk = 1000, node_diskOverallocate = 0,
      node_daemonPort = 8080, node_daemonTokenId = ''tid'', node_daemonToken = ''tok'',
      node_uploadSize = 100, node_connectionStatus = DISCONNECTED, node_wingsVersion = None,
      node_createdAt = 0\<rparr>"

definition demo_allocation :: "string \<Rightarrow> int \<Rightarrow> string option \<Rightarrow> AllocationEntity" where
  "demo_allocation i port server =
     \<lparr>alloc_id = i, alloc_nodeId = ''n1'', alloc_ip = ''10.0.0.1'', alloc_ipAlias = None, alloc_port = port,
      alloc_notes = None, alloc_serverId = server, alloc_createdAt = 0\<rparr>"

definition demo_egg :: EggEntity where
  "demo_egg =
     \<lparr>egg_id = ''e1'', egg_nestId = ''t1'', egg_name = ''egg'', egg_description = None, egg_author = ''x'',
      egg_dockerImage = ''img'', egg_dockerImages = [], egg_startup = ''run {{PORT}}'', egg_configFiles = None,
      egg_configStartup = None, egg_configStop = None, egg_configLogs = None, egg_scriptInstall = None,
      egg_scriptEntry = ''bash'', egg_scriptContainer = ''alpine:latest'', egg_copyScriptFrom = None,
      egg_createdAt = 0\<rparr>"

definition demo_eggVariable :: EggVariableEntity where
  "demo_eggVariable =
     \<lparr>eggvar_id = ''v1'', eggvar_eggId = ''e1'', eggvar_name = ''Port'', eggvar_description = [],
      eggvar_envVariable = ''PORT'', eggvar_defaultValue = ''80'', eggvar_userViewable = True,
      eggvar_userEditable = True, eggvar_rules = ''required|string'', eggvar_createdAt = 0\<rparr>"

definition demo_server :: ServerEntity where
  "demo_server =
     \<lparr>server_id = ''s1'', server_externalId = None, server_uuid = ''uuid-1'', server_uuidShort = ''uuid1'',
      server_name = ''srv'', server_description = None, server_userId = ''u2'', server_nodeId = ''n1'',
      server_nestId = ''t1'', server_eggId = ''e1'', server_allocationId = ''al1'', server_memory = 100,
      server_swap = 0, server_disk = 100, server_io = 500, server_cpu = 100, server_threads = None,
      server_oomDisabled = False, server_startup = ''run 80'', server_image = ''img'',
      server_envVariables = [(''PORT'', ''80'')], server_installed = 1, server_status = None,
      server_createdAt = 0\<rparr>"

definition demo_full :: db where
  "demo_full = demo_db\<lparr>db_nodes := [demo_node],
     db_allocations := [demo_allocation ''al1'' 2000 (Some ''s1''), demo_allocation ''al2'' 2001 None],
     db_nests := [\<lparr>nest_id = ''t1'', nest_author = ''x'', nest_name = ''nest'', nest_description = None, nest_createdAt = 0\<rparr>],
     db_eggs := [demo_egg], db_eggVariables := [demo_eggVariable], db_servers := [demo_server]\<rparr>"

lemma demo_full_ok: "db_ok demo_full"
  by (simp add: demo_full_def demo_db_def empty_db_def demo_user_def demo_node_def demo_allocation_def demo_egg_def
      demo_eggVariable_def demo_server_def db_ok_def db_keys_def unique_rows_def user_clash_def allocation_clash_def
      same_some_def children_defs exists_iff)

lemma demo_full_sel [simp]:
  "db_users demo_full = [demo_user ''u1'' ''ann'' True, demo_user ''u2'' ''bob'' False]"
  "db_nodes demo_full = [demo_node]" "db_servers demo_full = [demo_server]"
  "db_allocations demo_full = [demo_allocation ''al1'' 2000 (Some ''s1''), demo_allocation ''al2'' 2001 None]"
  "db_eggs demo_full = [demo_egg]" "db_eggVariables demo_full = [demo_eggVariable]"
  "db_locations demo_full = []" "db_auditLogs demo_full = []" "db_subusers demo_full = []"
  by (simp_all add: demo_full_def)

end
