(* ===== verification/AuthProps.thy ===== *)
theory AuthProps
  imports Auth Demo
begin

text \<open>
  What the authentication component guarantees: which credentials open a session and what is
  written then, that the first step of a two-factor login opens none, what a second step does to
  the backup codes, that registered credentials log in, and that the database constraints hold
  throughout.  What runs of the whole panel keep of sessions and codes is in \<open>PanelSessions\<close>.
\<close>

section \<open>Opening a session\<close>

lemma open_session_cases:
  assumes "open_session X now dr user ip ua d = (r, d')"
  obtains (no_session) e where "r = Inl e" "save_session (new_session now dr user ip ua) d = Inl e" "d' = d"
  | (no_audit) e d1 where "r = Inl e" "save_session (new_session now dr user ip ua) d = Inr d1"
      "d' = set_lastLogin (user_id user) now d1"
  | (opened) d1 where "r = Inr (LoggedIn (jwtSign X (access_claims now user)) (dr_refreshToken dr) (user_view user))"
      "save_session (new_session now dr user ip ua) d = Inr d1"
      "AuditLogService_log (dr_auditId dr) now (user_id user) ''user.login'' ip None
         (set_lastLogin (user_id user) now d1) = Inr d'"
  using assms by (auto simp: open_session_def Let_def split: sum.splits)

lemma set_lastLogin_ok [inv_intros]: "db_ok d \<Longrightarrow> db_ok (set_lastLogin i now d)"
  unfolding set_lastLogin_def db_ok_def
  by (auto simp: db_keys_def unique_rows_updateRows user_clash_def children_defs exists_iff exists_updated)

lemma open_session_ok [inv_intros]:
  assumes "open_session X now dr user ip ua d = (r, d')" and "db_ok d"
  shows "db_ok d'"
  using assms by (cases rule: open_session_cases) (auto intro: inv_intros)

lemma open_session_total:
  assumes "user_exists d (user_id user)"
  shows "\<exists>d'. open_session X now dr user ip ua d =
    (Inr (LoggedIn (jwtSign X (access_claims now user)) (dr_refreshToken dr) (user_view user)), d')"
proof -
  obtain r d' where o: "open_session X now dr user ip ua d = (r, d')" by fastforce
  then show ?thesis
  proof (cases rule: open_session_cases)
    case (no_session e)
    then show ?thesis using assms
      by (simp add: save_session_def map_sum_Inl saveRow_def hasRow_iff no_clash_def new_session_def)
  next
    case (no_audit e d1)
    then have "user_exists (set_lastLogin (user_id user) now d1) (user_id user)"
      using assms by (auto simp: save_session_def map_sum_Inr set_lastLogin_def exists_iff exists_updated)
    then show ?thesis
      using audit_log_total [of "set_lastLogin (user_id user) now d1" "user_id user" "dr_auditId dr" now
          "''user.login''" ip None] o no_audit
      by (auto simp: open_session_def Let_def)
  next
    case (opened d1)
    then show ?thesis using o by blast
  qed
qed

lemma open_session_sessions:
  assumes "open_session X now dr user ip ua d = (Inr res, d')" and "\<not> hasRow (\<lambda>s. session_id s = dr_sessionId dr) (db_sessions d)"
  shows "db_sessions d' = db_sessions d @ [new_session now dr user ip ua]"
  using assms(1)
proof (cases rule: open_session_cases)
  case (opened d1)
  then show ?thesis using assms(2)
    by (auto dest!: audit_log_keeps saveRow_Inr simp: set_lastLogin_def save_session_def map_sum_Inr
        upsertRow_def insertRow_def new_session_def)
qed simp_all

lemma open_session_row:
  assumes "open_session X now dr user ip ua d = (Inr res, d')" and "db_ok d"
  shows "new_session now dr user ip ua \<in> set (db_sessions d')"
  using assms(1)
proof (cases rule: open_session_cases)
  case (opened d1)
  moreover have "distinct (map session_id (db_sessions d))"
    using assms(2) by (simp add: db_ok_def db_keys_def unique_rows_def)
  ultimately show ?thesis
    by (auto dest!: audit_log_keeps saveRow_Inr simp: set_lastLogin_def save_session_def map_sum_Inr upsertRow_set)
qed simp_all

lemma open_session_writes:
  assumes "user_exists d (user_id user)" and "\<not> hasRow (\<lambda>s. session_id s = dr_sessionId dr) (db_sessions d)"
    and "\<not> hasRow (\<lambda>a. audit_id a = dr_auditId dr) (db_auditLogs d)"
  shows "open_session X now dr user ip ua d =
    (Inr (LoggedIn (jwtSign X (access_claims now user)) (dr_refreshToken dr) (user_view user)),
     d\<lparr>db_sessions := db_sessions d @ [new_session now dr user ip ua],
       db_users := map (\<lambda>u. if user_id u = user_id user then u\<lparr>user_lastLogin := Some now\<rparr> else u) (db_users d),
       db_auditLogs := db_auditLogs d @ [\<lparr>audit_id = dr_auditId dr, audit_userId = Some (user_id user), audit_event = ''user.login'',
         audit_ip = Some ip, audit_metadata = [], audit_createdAt = now\<rparr>]\<rparr>)"
proof -
  obtain d' where o: "open_session X now dr user ip ua d =
      (Inr (LoggedIn (jwtSign X (access_claims now user)) (dr_refreshToken dr) (user_view user)), d')"
    using open_session_total [OF assms(1)] by blast
  then show ?thesis
  proof (cases rule: open_session_cases)
    case (opened d1)
    have "d1 = d\<lparr>db_sessions := db_sessions d @ [new_session now dr user ip ua]\<rparr>"
      using opened(2) assms(2)
      by (auto simp: save_session_def map_sum_Inr upsertRow_def insertRow_def new_session_def dest!: saveRow_Inr)
    then show ?thesis
      using audit_append [OF opened(3)] assms(3) o by (simp add: set_lastLogin_def updateRows_def)
  qed simp_all
qed

section \<open>Login\<close>

definition demo_draws :: draws where
  "demo_draws = \<lparr>dr_sessionId = ''s1'', dr_auditId = ''a1'', dr_refreshToken = ''r1''\<rparr>"

definition demo_login :: LoginDto where
  "demo_login = \<lparr>ld_email = ''ann@x'', ld_password = ''secret'', ld_twoFactorCode = None\<rparr>"

lemma login_ok [inv_intros]:
  "AuthService_login X now dr dto ip ua d = (r, d') \<Longrightarrow> db_ok d \<Longrightarrow> db_ok d'"
  unfolding AuthService_login_def by (auto split: option.splits if_splits intro: inv_intros)

lemma login_LoggedIn:
  "AuthService_login X now dr dto ip ua d = (Inr (LoggedIn a t v), d') \<longleftrightarrow>
   (\<exists>user. findOne (\<lambda>u. user_email u = ld_email dto) (db_users d) = Some user \<and> user_enabled user \<and>
      bcryptCompare X (ld_password dto) (user_password user) \<and> \<not> user_usesTotp user \<and>
      open_session X now dr user ip ua d = (Inr (LoggedIn a t v), d'))"
  by (auto simp: AuthService_login_def split: option.splits)

lemma unique_user_row: "db_ok d \<Longrightarrow> u \<in> set (db_users d) \<Longrightarrow> findOne (\<lambda>x. user_id x = user_id u) (db_users d) = Some u"
  by (auto simp: db_ok_def db_keys_def unique_rows_def intro: findOne_key)

lemma validateUser_row:
  assumes "db_ok d" and "u \<in> set (db_users d)" and "user_enabled u"
  shows "validateUser d (user_id u) = Some u"
proof -
  have "distinct (map user_id (db_users d))" using assms(1) by (simp add: db_ok_def db_keys_def unique_rows_def)
  then have "findOne (\<lambda>x. user_id x = user_id u) (filter user_enabled (db_users d)) = Some u"
    using assms by (intro findOne_key) (auto simp: distinct_map_filter_keep)
  then show ?thesis by (simp add: findOne_def find_filter validateUser_def conj_commute)
qed

lemma before_expiry: "t < expires now n \<longleftrightarrow> t div 1000 < now div 1000 + n"
  by (simp add: expires_def div_less_iff_less_mult)

text \<open>
  C11. \<open>AuthService.login\<close>: the password decides.  An unknown address, a wrong password or a disabled
  account is refused with the same message and nothing is written; with two-factor enabled the answer
  is a five-minute token for the second step and again nothing is written.  Otherwise, the identifiers
  drawn being new, the answer is an access token of fifteen minutes with the drawn refresh token, and
  exactly three things are written: the session, the time of the login on the account, and the entry
  \<open>user.login\<close> of the audit log.
\<close>

theorem login_spec:
  assumes "db_ok d" and "\<not> hasRow (\<lambda>s. session_id s = dr_sessionId dr) (db_sessions d)"
    and "\<not> hasRow (\<lambda>a. audit_id a = dr_auditId dr) (db_auditLogs d)"
  shows "case findOne (\<lambda>u. user_email u = ld_email dto) (db_users d) of
      None \<Rightarrow> AuthService_login X now dr dto ip ua d = (Inl (UnauthorizedException ''Invalid credentials''), d)
    | Some user \<Rightarrow>
        if user_enabled user \<and> bcryptCompare X (ld_password dto) (user_password user)
        then (if user_usesTotp user
              then AuthService_login X now dr dto ip ua d =
                (Inr (RequiresTwoFactor (jwtSign X \<lparr>jwt_sub = user_id user, jwt_email = None, jwt_rootAdmin = None, jwt_purpose = Some ''two-factor'',
                   jwt_impersonatedBy = None, jwt_expiresAt = expires now 300\<rparr>) (user_view user)), d)
              else AuthService_login X now dr dto ip ua d =
                (Inr (LoggedIn (jwtSign X \<lparr>jwt_sub = user_id user, jwt_email = Some (user_email user), jwt_rootAdmin = Some (user_rootAdmin user),
                   jwt_purpose = None, jwt_impersonatedBy = None, jwt_expiresAt = expires now 900\<rparr>) (dr_refreshToken dr) (user_view user)),
                 d\<lparr>db_sessions := db_sessions d @
                     [\<lparr>session_id = dr_sessionId dr, session_userId = user_id user, session_refreshToken = dr_refreshToken dr,
                       session_ipAddress = ip, session_userAgent = ua, session_lastActiveAt = now, session_revoked = False,
                       session_createdAt = now\<rparr>],
                   db_users := map (\<lambda>u. if user_id u = user_id user then u\<lparr>user_lastLogin := Some now\<rparr> else u) (db_users d),
                   db_auditLogs := db_auditLogs d @
                     [\<lparr>audit_id = dr_auditId dr, audit_userId = Some (user_id user), audit_event = ''user.login'',
                       audit_ip = Some ip, audit_metadata = [], audit_createdAt = now\<rparr>]\<rparr>))
        else AuthService_login X now dr dto ip ua d = (Inl (UnauthorizedException ''Invalid credentials''), d)"
proof (cases "findOne (\<lambda>u. user_email u = ld_email dto) (db_users d)")
  case None
  then show ?thesis by (simp add: AuthService_login_def)
next
  case (Some user)
  then have "user_exists d (user_id user)" by (auto simp: exists_iff dest: findOne_Some)
  then show ?thesis using Some open_session_writes [OF _ assms(2,3)] by (simp add: AuthService_login_def new_session_def access_claims_def two_factor_claims_def)
qed

theorem login_spec_witness:
  "\<exists>d'. AuthService_login demo_ext 0 demo_draws demo_login [] [] demo_db =
     (Inr (LoggedIn (demo_sign (access_claims 0 (demo_user ''u1'' ''ann'' True))) ''r1''
        (user_view (demo_user ''u1'' ''ann'' True))), d') \<and>
     map audit_event (db_auditLogs d') = [''user.login''] \<and> map session_refreshToken (db_sessions d') = [''r1'']"
proof -
  have "\<not> hasRow (\<lambda>s. session_id s = dr_sessionId demo_draws) (db_sessions demo_db)"
    "\<not> hasRow (\<lambda>a. audit_id a = dr_auditId demo_draws) (db_auditLogs demo_db)"
    by (simp_all add: hasRow_def demo_db_def empty_db_def)
  from login_spec [OF demo_db_ok this, where X = demo_ext and now = 0 and dto = demo_login and ip = "[]" and ua = "[]"]
  show ?thesis by (auto simp: findOne_def demo_user_def demo_login_def demo_draws_def demo_db_def empty_db_def access_claims_def)
qed

section \<open>Access tokens\<close>

lemma login_user:
  assumes "AuthService_login X now dr dto ip ua d = (Inr (LoggedIn a t v), d')"
  obtains user where "user \<in> set (db_users d)" "user_email user = ld_email dto" "user_enabled user"
    "bcryptCompare X (ld_password dto) (user_password user)" "a = jwtSign X (access_claims now user)"
    "v = user_view user" "t = dr_refreshToken dr" "open_session X now dr user ip ua d = (Inr (LoggedIn a t v), d')"
proof -
  obtain user where u: "findOne (\<lambda>u. user_email u = ld_email dto) (db_users d) = Some user" "user_enabled user"
      "bcryptCompare X (ld_password dto) (user_password user)"
      "open_session X now dr user ip ua d = (Inr (LoggedIn a t v), d')"
    using assms by (auto simp: login_LoggedIn)
  moreover from u(4) have "a = jwtSign X (access_claims now user) \<and> v = user_view user \<and> t = dr_refreshToken dr"
    by (cases rule: open_session_cases) simp_all
  ultimately show ?thesis using that findOne_Some [OF u(1)] by blast
qed

text \<open>
  C12. The access token a login returns authenticates exactly its user for the fifteen
  minutes \<open>auth.module.ts\<close> gives it: presented as the session cookie, at any later state in
  which the account exists and is enabled, it makes the guard answer with that account's
  current data before the expiry, and with 401 from the expiry on.
\<close>

theorem access_token_roundtrip:
  assumes "jwt_ok X" and "AuthService_login X now dr dto ip ua d = (Inr (LoggedIn a t v), d')"
    and "req_sessionCookie req = Some a" and "a \<noteq> []"
    and "validateUser d2 (uv_id v) = Some u"
  shows "JwtAuthGuard X time req d2 =
    (if time div 1000 < now div 1000 + 900
     then Inr \<lparr>au_id = uv_id v, au_email = user_email u, au_rootAdmin = user_rootAdmin u\<rparr>
     else Inl UnauthorizedDefault)"
proof -
  obtain user where a: "a = jwtSign X (access_claims now user)" and v: "v = user_view user"
    using assms(2) by (rule login_user)
  have "cookieThenBearerExtractor X req = Some a"
    using assms(3,4) by (simp add: cookieThenBearerExtractor_def split: list.splits)
  moreover have "jwtVerify X time a =
      (if time div 1000 < now div 1000 + 900 then Some (access_claims now user) else None)"
    using assms(1) by (simp add: a jwt_ok_def access_claims_def before_expiry)
  moreover have "user_id u = uv_id v" using validateUser_Some [OF assms(5)] by simp
  ultimately show ?thesis
    using assms(5) by (simp add: JwtAuthGuard_def JwtStrategy_validate_def v user_view_def access_claims_def)
qed

definition demo_request :: "string option \<Rightarrow> string option \<Rightarrow> Request" where
  "demo_request cookie auth =
     \<lparr>req_sessionCookie = cookie, req_refreshCookie = None, req_authorization = auth, req_ip = [],
      req_userAgent = None, req_protocol = ''https'', req_method = ''GET'', req_path = ''/api/v1/x''\<rparr>"

lemma demo_request_sel [simp]:
  "req_sessionCookie (demo_request c a) = c" "req_authorization (demo_request c a) = a"
  by (simp_all add: demo_request_def)

lemma demo_sign_nonempty [simp]: "demo_sign c \<noteq> []"
  by (simp add: demo_sign_def)

theorem access_token_roundtrip_witness:
  "JwtAuthGuard demo_ext 5000 (demo_request (Some (demo_sign (access_claims 0 (demo_user ''u1'' ''ann'' True)))) None)
     demo_db = Inr \<lparr>au_id = ''u1'', au_email = ''ann@x'', au_rootAdmin = True\<rparr>"
proof -
  let ?u = "demo_user ''u1'' ''ann'' True"
  let ?a = "demo_sign (access_claims 0 ?u)"
  obtain d' where l: "AuthService_login demo_ext 0 demo_draws demo_login [] [] demo_db =
      (Inr (LoggedIn ?a ''r1'' (user_view ?u)), d')"
    using open_session_total [of demo_db ?u demo_ext 0 demo_draws "[]" "[]"]
    by (auto simp: AuthService_login_def findOne_def demo_user_def demo_login_def demo_draws_def exists_iff)
  have "validateUser demo_db (uv_id (user_view ?u)) = Some ?u"
    by (simp add: validateUser_def findOne_def demo_user_def user_view_def)
  from access_token_roundtrip [OF demo_jwt_ok l _ _ this, of "demo_request (Some ?a) None" 5000]
  show ?thesis by (simp add: user_view_def demo_user_def)
qed

text \<open>
  The token of the first step of a two-factor login is, to the guard, an access token:
  \<open>JwtStrategy.validate\<close> looks at \<open>sub\<close> only, so for five minutes it authenticates the
  user without the second factor (\<open>purpose\<close> is checked in \<open>verifyTwoFactorLogin\<close> alone).
\<close>

theorem two_factor_token_authenticates:
  assumes "jwt_ok X" and "AuthService_login X now dr dto ip ua d = (Inr (RequiresTwoFactor tok v), d')"
    and "req_sessionCookie req = Some tok" and "tok \<noteq> []" and "time div 1000 < now div 1000 + 300"
    and "db_ok d"
  shows "JwtAuthGuard X time req d =
    Inr \<lparr>au_id = uv_id v, au_email = uv_email v, au_rootAdmin = uv_rootAdmin v\<rparr>"
proof -
  obtain user where u: "findOne (\<lambda>u. user_email u = ld_email dto) (db_users d) = Some user" "user_enabled user"
      "tok = jwtSign X (two_factor_claims now user)" "v = user_view user"
    using assms(2) by (auto simp: AuthService_login_def open_session_def Let_def split: option.splits if_splits sum.splits)
  have m: "user \<in> set (db_users d)" using findOne_Some [OF u(1)] by simp
  have "validateUser d (user_id user) = Some user" using assms(6) m u(2) by (rule validateUser_row)
  moreover have "jwtVerify X time tok = Some (two_factor_claims now user)"
    using assms(1,5) by (simp add: u(3) jwt_ok_def two_factor_claims_def before_expiry)
  moreover have "cookieThenBearerExtractor X req = Some tok"
    using assms(3,4) by (simp add: cookieThenBearerExtractor_def split: list.splits)
  ultimately show ?thesis
    by (simp add: JwtAuthGuard_def JwtStrategy_validate_def u(4) user_view_def two_factor_claims_def)
qed

definition demo_totp_db :: db where
  "demo_totp_db = demo_db\<lparr>db_users := [(demo_user ''u1'' ''ann'' True)
      \<lparr>user_usesTotp := True, user_totpSecret := Some ''123'',
       user_backupCodes := Some [''$AAA'', ''$BBB'']\<rparr>]\<rparr>"

lemma demo_totp_db_ok: "db_ok demo_totp_db"
  by (simp add: demo_totp_db_def demo_db_def empty_db_def demo_user_def db_ok_def db_keys_def unique_rows_def
      user_clash_def children_defs)

theorem two_factor_token_authenticates_witness:
  "\<exists>tok v. AuthService_login demo_ext 0 demo_draws demo_login [] [] demo_totp_db =
     (Inr (RequiresTwoFactor tok v), demo_totp_db) \<and>
     JwtAuthGuard demo_ext 5000 (demo_request (Some tok) None) demo_totp_db =
     Inr \<lparr>au_id = ''u1'', au_email = ''ann@x'', au_rootAdmin = True\<rparr>"
proof -
  let ?u = "(demo_user ''u1'' ''ann'' True)\<lparr>user_usesTotp := True, user_totpSecret := Some ''123'',
       user_backupCodes := Some [''$AAA'', ''$BBB'']\<rparr>"
  have l: "AuthService_login demo_ext 0 demo_draws demo_login [] [] demo_totp_db =
      (Inr (RequiresTwoFactor (demo_sign (two_factor_claims 0 ?u)) (user_view ?u)), demo_totp_db)"
    by (simp add: AuthService_login_def findOne_def demo_user_def demo_login_def demo_totp_db_def)
  from two_factor_token_authenticates [OF demo_jwt_ok l _ _ _ demo_totp_db_ok, where time = 5000
      and req = "demo_request (Some (demo_sign (two_factor_claims 0 ?u))) None"]
  show ?thesis using l by (auto simp: user_view_def demo_user_def)
qed

section \<open>Backup codes\<close>

lemma consume_None: "consume_backup_code X code hs = None \<longleftrightarrow> filter (bcryptCompare X code) hs = []"
  by (induction hs) auto

lemma consume_Some:
  "consume_backup_code X code hs = Some rest \<Longrightarrow>
   length (filter (bcryptCompare X code) hs) = Suc (length (filter (bcryptCompare X code) rest))"
  by (induction hs arbitrary: rest) (auto split: if_splits)

lemma findOne_set_lastLogin:
  "findOne (\<lambda>u. user_id u = i) (db_users (set_lastLogin j now d)) =
   map_option (\<lambda>u. if user_id u = j then u\<lparr>user_lastLogin := Some now\<rparr> else u)
     (findOne (\<lambda>u. user_id u = i) (db_users d))"
  by (simp add: set_lastLogin_def findOne_updateRows)

lemma save_session_users: "save_session s d = Inr d' \<Longrightarrow> db_users d' = db_users d"
  by (auto simp: save_session_def map_sum_Inr)

lemma open_session_user:
  assumes "open_session X now dr user ip ua d = (Inr res, d')" and "findOne (\<lambda>u. user_id u = user_id user) (db_users d) = Some u"
  shows "findOne (\<lambda>u. user_id u = user_id user) (db_users d') = Some (u\<lparr>user_lastLogin := Some now\<rparr>)"
  using assms(1)
proof (cases rule: open_session_cases)
  case (opened d1)
  then have "db_users d' = db_users (set_lastLogin (user_id user) now d1)" by (auto dest!: audit_log_keeps)
  moreover have "user_id u = user_id user" using findOne_Some [OF assms(2)] by simp
  ultimately show ?thesis
    using opened(2) assms(2) by (simp add: findOne_set_lastLogin save_session_users)
qed simp_all

lemma two_factor_login_cases:
  assumes "AuthService_verifyTwoFactorLogin X now dr tok code ip ua d = (Inr res, d')"
  obtains payload u where "jwtVerify X now tok = Some payload" "jwt_purpose payload = Some ''two-factor''"
    "findOne (\<lambda>u. user_id u = jwt_sub payload) (db_users d) = Some u" "user_enabled u" "truthy_str (user_totpSecret u)"
    "totpVerify X now code (nullish (user_totpSecret u) [])" "open_session X now dr u ip ua d = (Inr res, d')"
  | payload u rest d1 where "jwtVerify X now tok = Some payload" "jwt_purpose payload = Some ''two-factor''"
    "findOne (\<lambda>u. user_id u = jwt_sub payload) (db_users d) = Some u" "user_enabled u" "truthy_str (user_totpSecret u)"
    "\<not> totpVerify X now code (nullish (user_totpSecret u) [])"
    "consume_backup_code X code (nullish (user_backupCodes u) []) = Some rest"
    "save_user (u\<lparr>user_backupCodes := Some rest\<rparr>) d = Inr d1"
    "open_session X now dr (u\<lparr>user_backupCodes := Some rest\<rparr>) ip ua d1 = (Inr res, d')"
  using assms
  by (auto simp: AuthService_verifyTwoFactorLogin_def Let_def split: option.splits if_splits sum.splits)

lemma save_user_find: "save_user u d = Inr d' \<Longrightarrow> findOne (\<lambda>x. user_id x = user_id u) (db_users d') = Some u"
  by (auto simp: save_user_def map_sum_Inr upsertRow_find dest!: saveRow_Inr)

section \<open>The service keeps the constraints\<close>

lemma AuthService_register_ok [inv_intros]:
  "AuthService_register X now i a dto d = (r, d') \<Longrightarrow> db_ok d \<Longrightarrow> db_ok d'"
  unfolding AuthService_register_def Let_def
  by (auto split: option.splits if_splits sum.splits intro: save_ok audit_log_ok open_session_ok)

lemma AuthService_refreshToken_ok [inv_intros]:
  "AuthService_refreshToken X now tok d = (r, d') \<Longrightarrow> db_ok d \<Longrightarrow> db_ok d'"
  unfolding AuthService_refreshToken_def Let_def
  by (auto split: option.splits if_splits sum.splits intro: save_ok audit_log_ok open_session_ok)

lemma AuthService_logout_ok [inv_intros]:
  "AuthService_logout i d = (r, d') \<Longrightarrow> db_ok d \<Longrightarrow> db_ok d'"
  unfolding AuthService_logout_def Let_def
  by (auto split: option.splits if_splits sum.splits intro: save_ok audit_log_ok open_session_ok)

lemma AuthService_setupTwoFactor_ok [inv_intros]:
  "AuthService_setupTwoFactor X secret u d = (r, d') \<Longrightarrow> db_ok d \<Longrightarrow> db_ok d'"
  unfolding AuthService_setupTwoFactor_def Let_def
  by (auto split: option.splits if_splits sum.splits intro: save_ok audit_log_ok open_session_ok)

lemma AuthService_verifyTwoFactorSetup_ok [inv_intros]:
  "AuthService_verifyTwoFactorSetup X now codes u code d = (r, d') \<Longrightarrow> db_ok d \<Longrightarrow> db_ok d'"
  unfolding AuthService_verifyTwoFactorSetup_def Let_def
  by (auto split: option.splits if_splits sum.splits intro: save_ok audit_log_ok open_session_ok)

lemma AuthService_disableTwoFactor_ok [inv_intros]:
  "AuthService_disableTwoFactor X now u code d = (r, d') \<Longrightarrow> db_ok d \<Longrightarrow> db_ok d'"
  unfolding AuthService_disableTwoFactor_def Let_def
  by (auto split: option.splits if_splits sum.splits intro: save_ok audit_log_ok open_session_ok)

lemma AuthService_verifyTwoFactorLogin_ok [inv_intros]:
  "AuthService_verifyTwoFactorLogin X now dr tok code ip ua d = (r, d') \<Longrightarrow> db_ok d \<Longrightarrow> db_ok d'"
  unfolding AuthService_verifyTwoFactorLogin_def Let_def
  by (auto split: option.splits if_splits sum.splits intro: save_ok audit_log_ok open_session_ok)

lemma AuthService_revokeSession_ok [inv_intros]:
  "AuthService_revokeSession u i d = (r, d') \<Longrightarrow> db_ok d \<Longrightarrow> db_ok d'"
  unfolding AuthService_revokeSession_def Let_def
  by (auto split: option.splits if_splits sum.splits intro: save_ok audit_log_ok open_session_ok)

lemma findOne_upsert_new:
  "\<not> hasRow P t \<Longrightarrow> P r \<Longrightarrow> \<not> hasRow (\<lambda>x. key x = key r) t \<Longrightarrow> findOne P (upsertRow key r t) = Some r"
  by (auto simp: upsertRow_def findOne_insertRow hasRow_iff dest: findOne_Some split: option.splits)

text \<open>
  Registration: the e-mail address and the user name must both be free, otherwise the
  answer is a conflict and nothing is written; with both free (and a new identifier) the
  account is created, no constraint of the database is ever hit, and the credentials just
  given open a session.
\<close>

theorem register_then_login:
  assumes "db_ok d" and "bcrypt_ok X" and "\<not> hasRow (\<lambda>u. user_id u = newId) (db_users d)"
  shows "if hasRow (\<lambda>u. user_email u = rd_email dto \<or> user_username u = rd_username dto) (db_users d)
    then AuthService_register X now newId auditId dto d =
      (Inl (ConflictException ''Email or username already exists''), d)
    else \<exists>d'. AuthService_register X now newId auditId dto d = (Inr (newId, rd_email dto, rd_username dto), d') \<and>
      db_ok d' \<and>
      (\<exists>d'' a v. AuthService_login X now' dr \<lparr>ld_email = rd_email dto, ld_password = rd_password dto, ld_twoFactorCode = None\<rparr>
         ip ua d' = (Inr (LoggedIn a (dr_refreshToken dr) v), d'') \<and> uv_id v = newId \<and> \<not> uv_rootAdmin v)"
proof (cases "hasRow (\<lambda>u. user_email u = rd_email dto \<or> user_username u = rd_username dto) (db_users d)")
  case True
  then obtain u where "findOne (\<lambda>u. user_email u = rd_email dto \<or> user_username u = rd_username dto) (db_users d) = Some u"
    by (metis findOne_None hasRow_iff not_None_eq)
  then show ?thesis using True by (simp add: AuthService_register_def)
next
  case False
  then have n: "findOne (\<lambda>u. user_email u = rd_email dto \<or> user_username u = rd_username dto) (db_users d) = None"
    by (auto simp: findOne_None hasRow_iff)
  let ?u = "new_user newId now (rd_email dto) (rd_username dto) (bcryptHash X 12 (rd_password dto)) False"
  let ?d1 = "d\<lparr>db_users := upsertRow user_id ?u (db_users d)\<rparr>"
  have s: "save_user ?u d = Inr ?d1"
    using False by (auto simp: save_user_def saveRow_def hasRow_iff user_clash_def new_user_def)
  have e: "user_exists ?d1 newId" by (auto simp: exists_defs hasRow_upsert new_user_def)
  then obtain d' where a: "AuditLogService_log auditId now newId ''user.created'' [] None ?d1 = Inr d'"
    using audit_log_total by blast
  have r: "AuthService_register X now newId auditId dto d = (Inr (newId, rd_email dto, rd_username dto), d')"
    using n s a by (simp add: AuthService_register_def Let_def new_user_def)
  have u: "db_users d' = upsertRow user_id ?u (db_users d)" using audit_log_keeps [OF a] by auto
  then have f: "findOne (\<lambda>u. user_email u = rd_email dto) (db_users d') = Some ?u"
    using False assms(3) unfolding u by (intro findOne_upsert_new) (auto simp: hasRow_iff new_user_def)
  then have "user_exists d' (user_id ?u)" by (auto simp: exists_iff dest: findOne_Some)
  then obtain d'' where "open_session X now' dr ?u ip ua d' =
      (Inr (LoggedIn (jwtSign X (access_claims now' ?u)) (dr_refreshToken dr) (user_view ?u)), d'')"
    using open_session_total by blast
  then have "AuthService_login X now' dr \<lparr>ld_email = rd_email dto, ld_password = rd_password dto, ld_twoFactorCode = None\<rparr> ip ua d' =
      (Inr (LoggedIn (jwtSign X (access_claims now' ?u)) (dr_refreshToken dr) (user_view ?u)), d'')"
    using f assms(2) by (simp add: AuthService_login_def new_user_def bcrypt_ok_def)
  moreover have "uv_id (user_view ?u) = newId \<and> \<not> uv_rootAdmin (user_view ?u)" by (simp add: user_view_def new_user_def)
  moreover have "db_ok d'" using r assms(1) by (rule AuthService_register_ok)
  ultimately show ?thesis using False r by auto
qed

theorem register_then_login_witness:
  "\<exists>d' d'' a v. AuthService_register demo_ext 0 ''u9'' ''a9'' \<lparr>rd_email = ''eve@x'', rd_username = ''eve'', rd_password = ''password''\<rparr>
       demo_db = (Inr (''u9'', ''eve@x'', ''eve''), d') \<and>
     AuthService_login demo_ext 7 demo_draws \<lparr>ld_email = ''eve@x'', ld_password = ''password'', ld_twoFactorCode = None\<rparr>
       [] [] d' = (Inr (LoggedIn a ''r1'' v), d'')"
  using register_then_login [where d = demo_db and X = demo_ext and newId = "''u9''" and now = 0 and now' = 7
      and auditId = "''a9''" and dr = demo_draws and ip = "[]" and ua = "[]"
      and dto = "\<lparr>rd_email = ''eve@x'', rd_username = ''eve'', rd_password = ''password''\<rparr>"]
  by (auto simp: demo_db_ok hasRow_def demo_user_def demo_draws_def)


end
