(* ===== verification/UsersProps.thy ===== *)
theory UsersProps
  imports Users AuthProps
begin

text \<open>
  What the user component guarantees: updates never hit a constraint of the database, a
  user cannot change his own role or reactivate himself, and deleting an account takes all
  that belongs to it and nothing else.
\<close>

section \<open>Updating\<close>

lemma assign_user_id [simp]: "user_id (assign_user X dto u) = user_id u"
  by (simp add: assign_user_def)

lemma email_conflict_iff:
  "db_ok d \<Longrightarrow> u \<in> set (db_users d) \<Longrightarrow> uc_email dto = Some e \<Longrightarrow> e \<noteq> [] \<Longrightarrow>
   email_conflict dto u d \<longleftrightarrow> (\<exists>x \<in> set (db_users d). user_id x \<noteq> user_id u \<and> user_email x = e)"
  by (auto simp: email_conflict_def findOne_None db_ok_def db_keys_def unique_rows_def user_clash_def
      dest: distinct_map_key_eq)

lemma username_conflict_iff:
  "db_ok d \<Longrightarrow> u \<in> set (db_users d) \<Longrightarrow> uc_username dto = Some e \<Longrightarrow> e \<noteq> [] \<Longrightarrow>
   username_conflict dto u d \<longleftrightarrow> (\<exists>x \<in> set (db_users d). user_id x \<noteq> user_id u \<and> user_username x = e)"
  by (auto simp: username_conflict_def findOne_None db_ok_def db_keys_def unique_rows_def user_clash_def
      dest: distinct_map_key_eq)

lemma assign_user_no_clash:
  assumes "db_ok d" and "u \<in> set (db_users d)" and "\<not> email_conflict dto u d" and "\<not> username_conflict dto u d"
    and "uc_email dto \<noteq> Some []" and "uc_username dto \<noteq> Some []"
  shows "\<not> hasRow (\<lambda>x. user_id x \<noteq> user_id u \<and> user_clash (assign_user X dto u) x) (db_users d)"
proof -
  have "nullish (uc_email dto) (user_email u) \<noteq> user_email x" if "x \<in> set (db_users d)" "user_id x \<noteq> user_id u" for x
  proof (cases "uc_email dto")
    case None
    then show ?thesis using assms(1,2) that
      by (auto simp: db_ok_def db_keys_def unique_rows_def user_clash_def)
  next
    case (Some e)
    then show ?thesis using email_conflict_iff [OF assms(1,2) Some] assms(3,5) that by auto
  qed
  moreover have "nullish (uc_username dto) (user_username u) \<noteq> user_username x" if "x \<in> set (db_users d)" "user_id x \<noteq> user_id u" for x
  proof (cases "uc_username dto")
    case None
    then show ?thesis using assms(1,2) that
      by (auto simp: db_ok_def db_keys_def unique_rows_def user_clash_def)
  next
    case (Some e)
    then show ?thesis using username_conflict_iff [OF assms(1,2) Some] assms(4,6) that by auto
  qed
  ultimately show ?thesis by (auto simp: hasRow_iff user_clash_def assign_user_def)
qed

lemma UsersService_update_ok [inv_intros]:
  "UsersService_update X i dto d = (r, d') \<Longrightarrow> db_ok d \<Longrightarrow> db_ok d'"
  unfolding UsersService_update_def Let_def by (auto split: option.splits if_splits sum.splits intro: save_ok)

text \<open>
  \<open>UsersService.update\<close> with a non-empty address and name: it answers with a conflict
  exactly when another account holds the new address or name, writing nothing; otherwise it
  succeeds (no constraint violation is possible), the account reads as assigned and every
  other account as before.
\<close>

theorem user_update_spec:
  assumes "db_ok d" and "findOne (\<lambda>u. user_id u = i) (db_users d) = Some u"
    and "uc_email dto \<noteq> Some []" and "uc_username dto \<noteq> Some []"
  shows "if \<exists>x \<in> set (db_users d). user_id x \<noteq> i \<and>
          (uc_email dto = Some (user_email x) \<or> uc_username dto = Some (user_username x))
    then \<exists>m. UsersService_update X i dto d = (Inl (ConflictException m), d)
    else \<exists>d'. UsersService_update X i dto d = (Inr (user_result (assign_user X dto u)), d') \<and> db_ok d' \<and>
      (\<forall>j. findOne (\<lambda>u. user_id u = j) (db_users d') =
         (if j = i then Some (assign_user X dto u) else findOne (\<lambda>u. user_id u = j) (db_users d)))"
proof -
  have u: "u \<in> set (db_users d)" and i: "user_id u = i" using findOne_Some [OF assms(2)] by simp_all
  have c: "(\<exists>x \<in> set (db_users d). user_id x \<noteq> i \<and>
          (uc_email dto = Some (user_email x) \<or> uc_username dto = Some (user_username x))) \<longleftrightarrow>
        email_conflict dto u d \<or> username_conflict dto u d"
  proof -
    have "(\<exists>x \<in> set (db_users d). user_id x \<noteq> i \<and> uc_email dto = Some (user_email x)) \<longleftrightarrow> email_conflict dto u d"
    proof (cases "uc_email dto")
      case (Some e)
      then have "e \<noteq> []" using assms(3) by simp
      from email_conflict_iff [OF assms(1) u Some this] show ?thesis by (auto simp: Some i)
    qed (simp add: email_conflict_def)
    moreover have "(\<exists>x \<in> set (db_users d). user_id x \<noteq> i \<and> uc_username dto = Some (user_username x)) \<longleftrightarrow> username_conflict dto u d"
    proof (cases "uc_username dto")
      case (Some e)
      then have "e \<noteq> []" using assms(4) by simp
      from username_conflict_iff [OF assms(1) u Some this] show ?thesis by (auto simp: Some i)
    qed (simp add: username_conflict_def)
    ultimately show ?thesis by blast
  qed
  show ?thesis
  proof (cases "email_conflict dto u d \<or> username_conflict dto u d")
    case True
    then show ?thesis unfolding c using assms(2) by (auto simp: UsersService_update_def)
  next
    case False
    let ?d1 = "d\<lparr>db_users := upsertRow user_id (assign_user X dto u) (db_users d)\<rparr>"
    have "save_user (assign_user X dto u) d = Inr ?d1"
      using assign_user_no_clash [OF assms(1) u _ _ assms(3,4)] False by (simp add: save_user_def saveRow_def)
    then have r: "UsersService_update X i dto d = (Inr (user_result (assign_user X dto u)), ?d1)"
      using False assms(2) by (simp add: UsersService_update_def Let_def)
    moreover have "db_ok ?d1" using r assms(1) by (rule UsersService_update_ok)
    moreover have "findOne (\<lambda>u. user_id u = j) (db_users ?d1) =
        (if j = i then Some (assign_user X dto u) else findOne (\<lambda>u. user_id u = j) (db_users d))" for j
      using upsertRow_find [of user_id "assign_user X dto u"] upsertRow_find_other [of j user_id "assign_user X dto u"] i
      by simp
    ultimately show ?thesis unfolding c using False by auto
  qed
qed

theorem user_update_spec_witness:
  "\<exists>d' m. fst (UsersService_update demo_ext ''u2''
       \<lparr>uc_email = Some ''bob@y'', uc_username = None, uc_password = None, uc_rootAdmin = None, uc_enabled = None, uc_avatarUrl = None\<rparr>
       demo_db) = Inr d' \<and>
     fst (UsersService_update demo_ext ''u2''
       \<lparr>uc_email = Some ''ann@x'', uc_username = None, uc_password = None, uc_rootAdmin = None, uc_enabled = None, uc_avatarUrl = None\<rparr>
       demo_db) = Inl (ConflictException m)"
proof -
  have f: "findOne (\<lambda>u. user_id u = ''u2'') (db_users demo_db) = Some (demo_user ''u2'' ''bob'' False)"
    by (simp add: findOne_def demo_user_def)
  from user_update_spec [OF demo_db_ok f, where X = demo_ext and dto = "\<lparr>uc_email = Some ''bob@y'', uc_username = None,
      uc_password = None, uc_rootAdmin = None, uc_enabled = None, uc_avatarUrl = None\<rparr>"]
    user_update_spec [OF demo_db_ok f, where X = demo_ext and dto = "\<lparr>uc_email = Some ''ann@x'', uc_username = None,
      uc_password = None, uc_rootAdmin = None, uc_enabled = None, uc_avatarUrl = None\<rparr>"]
  show ?thesis by (fastforce simp: demo_user_def)
qed

lemma save_user_rows:
  assumes "save_user u d = Inr d'" and "x \<in> set (db_users d)"
  shows "if user_id x = user_id u then u \<in> set (db_users d') else x \<in> set (db_users d')"
proof -
  have "db_users d' = upsertRow user_id u (db_users d)"
    using assms(1) by (auto simp: save_user_def map_sum_Inr dest: saveRow_Inr)
  then show ?thesis using assms(2)
    by (auto simp: upsertRow_def hasRow_iff table_sets)
qed

text \<open>
  Whatever body a user sends to \<open>PUT /users/me\<close>, no account changes its role or its
  \<open>enabled\<close> flag, and no account but the requester's changes at all.
\<close>

theorem profile_update_no_escalation:
  assumes "UsersController_updateMe X now req dto d = (r, d')" and "db_ok d" and "x \<in> set (db_users d)"
  shows "\<exists>x' \<in> set (db_users d'). user_id x' = user_id x \<and> user_rootAdmin x' = user_rootAdmin x \<and>
      user_enabled x' = user_enabled x \<and>
      (x' = x \<or> (\<exists>a. JwtAuthGuard X now req d = Inr a \<and> au_id a = user_id x))"
proof -
  consider "d' = d"
    | a u where "JwtAuthGuard X now req d = Inr a" "findOne (\<lambda>u. user_id u = au_id a) (db_users d) = Some u"
        "UpdateProfileDto_ok X dto" "save_user (assign_user X dto u) d = Inr d'"
    using assms(1)
    by (auto simp: UsersController_updateMe_def with_user_def validated_def UsersService_update_def Let_def
        split: sum.splits option.splits if_splits)
  then show ?thesis
  proof cases
    case 1
    then show ?thesis using assms(3) by blast
  next
    case (2 a u)
    then have u: "u \<in> set (db_users d)" "user_id u = au_id a" by (auto dest: findOne_Some)
    show ?thesis
    proof (cases "user_id x = user_id u")
      case True
      then have "x = u"
        using assms(2,3) u(1) by (auto simp: db_ok_def db_keys_def unique_rows_def dest: distinct_map_key_eq)
      moreover have "assign_user X dto u \<in> set (db_users d')"
        using save_user_rows [OF 2(4) u(1)] by simp
      ultimately show ?thesis
        using 2(1,3) u(2) by (intro bexI [of _ "assign_user X dto u"]) (auto simp: assign_user_def UpdateProfileDto_ok_def)
    next
      case False
      then have "x \<in> set (db_users d')" using save_user_rows [OF 2(4) assms(3)] by simp
      then show ?thesis by blast
    qed
  qed
qed

definition demo_cookie :: "UserEntity \<Rightarrow> Request" where
  "demo_cookie u = demo_request (Some (demo_sign (access_claims 0 u))) None"

lemma demo_request_extract: "s \<noteq> [] \<Longrightarrow> cookieThenBearerExtractor X (demo_request (Some s) a) = Some s"
  by (simp add: cookieThenBearerExtractor_def split: list.splits)

lemma demo_cookie_guard:
  "validateUser d (user_id u) = Some v \<Longrightarrow> user_id v = user_id u \<Longrightarrow>
   JwtAuthGuard demo_ext 0 (demo_cookie u) d = Inr \<lparr>au_id = user_id v, au_email = user_email v, au_rootAdmin = user_rootAdmin v\<rparr>"
  by (simp add: JwtAuthGuard_def JwtStrategy_validate_def demo_cookie_def demo_request_extract
      access_claims_def expires_def)

theorem profile_update_no_escalation_witness:
  "\<exists>x' \<in> set (db_users (snd (UsersController_updateMe demo_ext 0 (demo_cookie (demo_user ''u2'' ''bob'' False))
       \<lparr>uc_email = None, uc_username = Some ''rob'', uc_password = None, uc_rootAdmin = Some True, uc_enabled = None, uc_avatarUrl = None\<rparr>
       demo_db))). user_id x' = ''u2'' \<and> \<not> user_rootAdmin x'"
  using profile_update_no_escalation [OF prod.collapse [symmetric] demo_db_ok,
      where x = "demo_user ''u2'' ''bob'' False" and X = demo_ext and now = 0
      and req = "demo_cookie (demo_user ''u2'' ''bob'' False)"]
  by (fastforce simp: demo_user_def)

section \<open>Deleting\<close>

lemma exists_find: "user_exists d i \<Longrightarrow> \<exists>u. findOne (\<lambda>u. user_id u = i) (db_users d) = Some u"
  using findOne_None [of "\<lambda>u. user_id u = i" "db_users d"] by (auto simp: exists_iff)

lemma removeRows_none: "\<not> hasRow P t \<Longrightarrow> removeRows P t = t"
  by (auto simp: removeRows_def hasRow_iff)

lemma removeRows_empty [simp]: "removeRows (\<lambda>x. False) t = t"
  by (simp add: removeRows_def)

lemma cascade_servers_none:
  assumes "\<not> hasRow P (db_servers d)"
  shows "cascade_servers P d = d"
proof -
  have "filter P (db_servers d) = []" using assms by (simp add: hasRow_iff filter_empty_conv)
  then show ?thesis
    using assms by (simp add: cascade_servers_def remove_schedules_def remove_scheduleTasks_def Let_def removeRows_none)
qed

lemma db_ok_allocation_refs: "db_ok d \<Longrightarrow> allocation_refs d"
  by (simp add: db_ok_def db_refs_def server_children_split)

lemma remove_user_no_servers:
  assumes "db_ok d" and "\<not> hasRow (\<lambda>s. server_userId s = i) (db_servers d)"
  shows "remove_user i d =
    Inr (d\<lparr>db_users := removeRows (\<lambda>u. user_id u = i) (db_users d),
        db_sessions := removeRows (\<lambda>s. session_userId s = i) (db_sessions d),
        db_apiKeys := removeRows (\<lambda>k. apikey_userId k = i) (db_apiKeys d),
        db_notifications := removeRows (\<lambda>n. notif_userId n = i) (db_notifications d),
        db_subusers := removeRows (\<lambda>s. subuser_userId s = i) (db_subusers d),
        db_auditLogs := updateRows (\<lambda>a. audit_userId a = Some i) (audit_userId_update (\<lambda>_. None)) (db_auditLogs d)\<rparr>)"
  using db_ok_allocation_refs [OF assms(1)]
  by (simp add: remove_user_def cascade_servers_none [OF assms(2)] checked_def allocation_refs_iff exists_iff)

lemma countRows_pos: "0 < countRows P t \<longleftrightarrow> hasRow P t"
  by (auto simp: countRows_def hasRow_iff filter_empty_conv)

text \<open>
  An admin deletes an account (\<open>DELETE /admin/users/:id\<close>): refused with the database
  untouched while the account owns a server; otherwise the account goes with its sessions,
  API keys, notifications and subuser entries, its audit entries stay without the name, and
  every row of another account, every server and node stays as it was.
\<close>

theorem admin_delete_user:
  assumes "db_ok d" and "JwtAuthGuard X now req d = Inr a" and "au_rootAdmin a" and "user_exists d i"
  shows "if hasRow (\<lambda>s. server_userId s = i) (db_servers d)
    then \<exists>m. AdminUsers_delete X now req i d = (Inl (BadRequestException m), d)
    else \<exists>d'. AdminUsers_delete X now req i d = (Inr (), d') \<and> db_ok d' \<and>
      db_users d' = filter (\<lambda>u. user_id u \<noteq> i) (db_users d) \<and>
      db_sessions d' = filter (\<lambda>s. session_userId s \<noteq> i) (db_sessions d) \<and>
      db_apiKeys d' = filter (\<lambda>k. apikey_userId k \<noteq> i) (db_apiKeys d) \<and>
      db_notifications d' = filter (\<lambda>n. notif_userId n \<noteq> i) (db_notifications d) \<and>
      db_subusers d' = filter (\<lambda>s. subuser_userId s \<noteq> i) (db_subusers d) \<and>
      map audit_event (db_auditLogs d') = map audit_event (db_auditLogs d) \<and>
      (\<forall>e \<in> set (db_auditLogs d'). audit_userId e \<noteq> Some i) \<and>
      db_servers d' = db_servers d \<and> db_nodes d' = db_nodes d \<and> db_allocations d' = db_allocations d"
proof -
  obtain u where u: "findOne (\<lambda>u. user_id u = i) (db_users d) = Some u"
    using assms(4) by (auto dest: exists_find)
  then have ui: "user_id u = i" using findOne_Some [OF u] by simp
  show ?thesis
  proof (cases "hasRow (\<lambda>s. server_userId s = i) (db_servers d)")
    case True
    then show ?thesis
      using assms(2,3) u by (simp add: AdminUsers_delete_def with_admin_def RolesGuard_def Let_def countRows_pos)
  next
    case False
    note r = remove_user_no_servers [OF assms(1) False]
    from r have "db_ok (projr (remove_user i d))" using remove_ok(2) [OF r assms(1)] by simp
    then show ?thesis
      using False assms(2,3) u r ui
      by (auto simp: AdminUsers_delete_def with_admin_def RolesGuard_def Let_def countRows_pos removeRows_def updateRows_def)
  qed
qed

theorem admin_delete_user_witness:
  "\<exists>d'. AdminUsers_delete demo_ext 0 (demo_cookie (demo_user ''u1'' ''ann'' True)) ''u2'' demo_db = (Inr (), d') \<and>
     db_users d' = [demo_user ''u1'' ''ann'' True]"
proof -
  let ?a = "demo_user ''u1'' ''ann'' True"
  have g: "JwtAuthGuard demo_ext 0 (demo_cookie ?a) demo_db = Inr \<lparr>au_id = ''u1'', au_email = ''ann@x'', au_rootAdmin = True\<rparr>"
    using demo_cookie_guard [where u = ?a and v = ?a and d = demo_db]
    by (simp add: validateUser_def findOne_def demo_user_def)
  from admin_delete_user [OF demo_db_ok g, of "''u2''"]
  show ?thesis by (auto simp: hasRow_def exists_iff demo_user_def)
qed

text \<open>
  The other route to the same act (\<open>DELETE /users/:id\<close>, \<open>UsersService.delete\<close>) has no
  such check: for an account that owns a server holding an allocation the deletion cascades
  to the server, the foreign key of the allocation refuses it, and the request ends in an
  internal error with nothing deleted.
\<close>

theorem user_delete_blocked_by_allocation:
  assumes "user_exists d i" and "s \<in> set (db_servers d)" and "server_userId s = i"
    and "a \<in> set (db_allocations d)" and "alloc_serverId a = Some (server_id s)"
    and "db_ok d"
  shows "UsersService_delete i d = (Inl QueryFailedError, d) \<and> http_status QueryFailedError = None"
proof -
  obtain u where u: "findOne (\<lambda>u. user_id u = i) (db_users d) = Some u"
    using assms(1) by (auto dest: exists_find)
  then have ui: "user_id u = i" using findOne_Some [OF u] by simp
  have "x = s" if "x \<in> set (db_servers d)" "server_id x = server_id s" for x
    using assms(2,6) that by (auto simp: db_ok_def db_keys_def unique_rows_def dest: distinct_map_key_eq)
  then have "\<not> server_exists (cascade_servers (\<lambda>s. server_userId s = i) d) (server_id s)"
    using assms(3) by (auto simp: exists_iff cascade_servers_sets)
  then have "remove_user i d = Inl QueryFailedError"
    using assms(4,5)
    by (auto simp: remove_user_def checked_def allocation_refs_iff cascade_servers_same exists_iff intro!: bexI [of _ a])
  then show ?thesis using u ui by (simp add: UsersService_delete_def)
qed

theorem user_delete_blocked_by_allocation_witness:
  "UsersService_delete ''u2'' demo_full = (Inl QueryFailedError, demo_full)"
  using user_delete_blocked_by_allocation [OF _ _ _ _ _ demo_full_ok, where i = "''u2''" and s = demo_server
      and a = "demo_allocation ''al1'' 2000 (Some ''s1'')"]
  by (simp add: exists_iff demo_user_def demo_server_def demo_allocation_def)


end
