(* ===== verification/Locations.thy ===== *)
theory Locations
  imports UsersProps
begin

text \<open>
  \<^verbatim>\<open>locations/\<close>: named places nodes belong to.  A short code is unique and of a fixed
  alphabet; a location with nodes cannot be deleted.
\<close>

record CreateLocationDto =
  cl_short :: string
  cl_long :: string

definition CreateLocationDto_ok :: "CreateLocationDto \<Rightarrow> bool" where
  "CreateLocationDto_ok dto \<longleftrightarrow> cl_short dto \<noteq> [] \<and> cl_long dto \<noteq> []"

record UpdateLocationDto =
  ul_short :: "string option"
  ul_long :: "string option"

text \<open>\<open>/^[A-Z0-9-]+$/\<close>\<close>

definition short_char :: "char \<Rightarrow> bool" where
  "short_char c \<longleftrightarrow> (let n = of_char c :: nat in (65 \<le> n \<and> n \<le> 90) \<or> (48 \<le> n \<and> n \<le> 57) \<or> n = 45)"

definition short_ok :: "string \<Rightarrow> bool" where
  "short_ok s \<longleftrightarrow> s \<noteq> [] \<and> list_all short_char s"

definition short_message :: string where
  "short_message = ''Short code must be uppercase alphanumeric (hyphens allowed)''"

definition node_count :: "string \<Rightarrow> 'z db_scheme \<Rightarrow> nat" where
  "node_count i d = countRows (\<lambda>n. node_locationId n = Some i) (db_nodes d)"

definition LocationsService_findAll :: "ext \<Rightarrow> 'z db_scheme \<Rightarrow> (LocationEntity \<times> nat) list" where
  "LocationsService_findAll X d =
     map (\<lambda>l. (l, node_count (loc_id l) d)) (sort_key (\<lambda>l. collation X (loc_short l)) (db_locations d))"

definition LocationsService_findById :: "string \<Rightarrow> 'z db_scheme \<Rightarrow> exn + (LocationEntity \<times> NodeEntity list)" where
  "LocationsService_findById i d =
     (case findOne (\<lambda>l. loc_id l = i) (db_locations d) of
        None \<Rightarrow> Inl (NotFoundException ''Location not found'')
      | Some l \<Rightarrow> Inr (l, findRows (\<lambda>n. node_locationId n = Some i) (db_nodes d)))"

definition LocationsService_create ::
  "string \<Rightarrow> nat \<Rightarrow> string \<Rightarrow> string \<Rightarrow> 'z db_scheme \<Rightarrow> ('z db_scheme, LocationEntity) handled" where
  "LocationsService_create newId now short long d =
     (if \<not> short_ok short then (Inl (BadRequestException short_message), d)
      else (case findOne (\<lambda>l. loc_short l = short) (db_locations d) of
              Some _ \<Rightarrow> (Inl (ConflictException ''Location short code already exists''), d)
            | None \<Rightarrow>
                (let location = \<lparr>loc_id = newId, loc_short = short, loc_long = long, loc_createdAt = now\<rparr>
                 in (case save_location location d of
                       Inl e \<Rightarrow> (Inl e, d) | Inr d1 \<Rightarrow> (Inr location, d1)))))"

definition LocationsService_update ::
  "string \<Rightarrow> string option \<Rightarrow> string option \<Rightarrow> 'z db_scheme \<Rightarrow> ('z db_scheme, LocationEntity) handled" where
  "LocationsService_update i short long d =
     (case findOne (\<lambda>l. loc_id l = i) (db_locations d) of
        None \<Rightarrow> (Inl (NotFoundException ''Location not found''), d)
      | Some location \<Rightarrow>
          (case (case short of
                   None \<Rightarrow> Inr location
                 | Some s \<Rightarrow>
                     if \<not> short_ok s then Inl (BadRequestException short_message)
                     else (case findOne (\<lambda>l. loc_short l = s) (db_locations d) of
                             Some c \<Rightarrow> if loc_id c \<noteq> i then Inl (ConflictException ''Location short code already exists'')
                                       else Inr (location\<lparr>loc_short := s\<rparr>)
                           | None \<Rightarrow> Inr (location\<lparr>loc_short := s\<rparr>))) of
             Inl e \<Rightarrow> (Inl e, d)
           | Inr location1 \<Rightarrow>
               (let location2 = (case long of None \<Rightarrow> location1 | Some l \<Rightarrow> location1\<lparr>loc_long := l\<rparr>)
                in (case save_location location2 d of
                      Inl e \<Rightarrow> (Inl e, d) | Inr d1 \<Rightarrow> (Inr location2, d1)))))"

definition LocationsService_delete :: "string \<Rightarrow> 'z db_scheme \<Rightarrow> ('z db_scheme, unit) handled" where
  "LocationsService_delete i d =
     (case findOne (\<lambda>l. loc_id l = i) (db_locations d) of
        None \<Rightarrow> (Inl (NotFoundException ''Location not found''), d)
      | Some location \<Rightarrow>
          (let nodeCount = node_count i d
           in if 0 < nodeCount
              then (Inl (BadRequestException (servers_left_message ''Cannot delete location: '' nodeCount
                           '' node(s) are still assigned to it'')), d)
              else (Inr (), remove_location (loc_id location) d)))"

definition LocationsController_findAll ::
  "ext \<Rightarrow> nat \<Rightarrow> Request \<Rightarrow> 'z db_scheme \<Rightarrow> ('z db_scheme, (LocationEntity \<times> nat) list) handled" where
  "LocationsController_findAll X now req d =
     with_admin X now req (\<lambda>_ d. (Inr (LocationsService_findAll X d), d)) d"

definition LocationsController_findById ::
  "ext \<Rightarrow> nat \<Rightarrow> Request \<Rightarrow> string \<Rightarrow> 'z db_scheme \<Rightarrow> ('z db_scheme, LocationEntity \<times> NodeEntity list) handled" where
  "LocationsController_findById X now req i d =
     with_admin X now req (\<lambda>_ d. (LocationsService_findById i d, d)) d"

definition LocationsController_create ::
  "ext \<Rightarrow> nat \<Rightarrow> Request \<Rightarrow> string \<Rightarrow> CreateLocationDto \<Rightarrow> 'z db_scheme \<Rightarrow> ('z db_scheme, LocationEntity) handled" where
  "LocationsController_create X now req newId dto d =
     with_admin X now req
       (\<lambda>_. validated (CreateLocationDto_ok dto) (LocationsService_create newId now (cl_short dto) (cl_long dto))) d"

definition LocationsController_update ::
  "ext \<Rightarrow> nat \<Rightarrow> Request \<Rightarrow> string \<Rightarrow> UpdateLocationDto \<Rightarrow> 'z db_scheme \<Rightarrow> ('z db_scheme, LocationEntity) handled" where
  "LocationsController_update X now req i dto d =
     with_admin X now req (\<lambda>_. LocationsService_update i (ul_short dto) (ul_long dto)) d"

definition LocationsController_delete ::
  "ext \<Rightarrow> nat \<Rightarrow> Request \<Rightarrow> string \<Rightarrow> 'z db_scheme \<Rightarrow> ('z db_scheme, unit) handled" where
  "LocationsController_delete X now req i d = with_admin X now req (\<lambda>_. LocationsService_delete i) d"

section \<open>What a location keeps\<close>

text \<open>The codes of all locations are of the alphabet: kept by every operation that answers.\<close>

definition shorts_ok :: "'z db_scheme \<Rightarrow> bool" where
  "shorts_ok d \<longleftrightarrow> (\<forall>l \<in> set (db_locations d). short_ok (loc_short l))"

inductive location_step :: "'z db_scheme \<Rightarrow> 'z db_scheme \<Rightarrow> bool" where
  create: "LocationsService_create i now short long d = (r, d') \<Longrightarrow> location_step d d'"
| update: "LocationsService_update i short' long' d = (r', d') \<Longrightarrow> location_step d d'"
| delete: "LocationsService_delete i d = (r'', d') \<Longrightarrow> location_step d d'"

inductive_cases location_stepE: "location_step d d'"

lemma save_location_rows:
  "save_location l d = Inr d' \<Longrightarrow> x \<in> set (db_locations d') \<Longrightarrow> x = l \<or> x \<in> set (db_locations d)"
  by (auto simp: save_location_def map_sum_Inr dest!: saveRow_Inr set_upsert)

lemma LocationsService_create_keeps:
  "LocationsService_create i now short long d = (r, d') \<Longrightarrow> db_ok d \<and> shorts_ok d \<Longrightarrow> db_ok d' \<and> shorts_ok d'"
  unfolding LocationsService_create_def Let_def shorts_ok_def
  by (auto split: if_splits option.splits sum.splits intro: save_ok dest: save_location_rows)

lemma LocationsService_update_saves:
  assumes "LocationsService_update i short long d = (Inr l, d')"
  obtains location where "findOne (\<lambda>l. loc_id l = i) (db_locations d) = Some location" "save_location l d = Inr d'"
    "l = location\<lparr>loc_short := nullish short (loc_short location), loc_long := nullish long (loc_long location)\<rparr>"
    "\<forall>s. short = Some s \<longrightarrow> short_ok s"
  using assms unfolding LocationsService_update_def Let_def
  by (auto split: if_splits option.splits sum.splits)

lemma LocationsService_update_error:
  "LocationsService_update i short long d = (Inl e, d') \<Longrightarrow> d' = d"
  unfolding LocationsService_update_def Let_def by (auto split: if_splits option.splits sum.splits)

lemma LocationsService_update_keeps:
  assumes "LocationsService_update i short long d = (r, d')" and "db_ok d \<and> shorts_ok d"
  shows "db_ok d' \<and> shorts_ok d'"
proof (cases r)
  case (Inl e)
  then show ?thesis using assms LocationsService_update_error by fastforce
next
  case (Inr l)
  then obtain location where 1: "findOne (\<lambda>l. loc_id l = i) (db_locations d) = Some location" "save_location l d = Inr d'"
      "l = location\<lparr>loc_short := nullish short (loc_short location), loc_long := nullish long (loc_long location)\<rparr>"
      "\<forall>s. short = Some s \<longrightarrow> short_ok s"
    using assms(1) by (blast elim: LocationsService_update_saves)
  then have "short_ok (loc_short l)" using assms(2) findOne_Some [OF 1(1)]
    by (cases short) (auto simp: shorts_ok_def)
  then show ?thesis
    using save_location_rows [OF 1(2)] save_ok(6) [OF 1(2)] assms(2) by (auto simp: shorts_ok_def)
qed

lemma remove_location_locations: "set (db_locations (remove_location i d)) = {l \<in> set (db_locations d). loc_id l \<noteq> i}"
  by (simp add: remove_location_def table_sets)

lemma LocationsService_delete_keeps:
  "LocationsService_delete i d = (r, d') \<Longrightarrow> db_ok d \<and> shorts_ok d \<Longrightarrow> db_ok d' \<and> shorts_ok d'"
  unfolding LocationsService_delete_def Let_def shorts_ok_def
  by (auto split: if_splits option.splits intro: remove_ok simp: remove_location_locations)

lemma location_step_keeps: "location_step d d' \<Longrightarrow> db_ok d \<and> shorts_ok d \<Longrightarrow> db_ok d' \<and> shorts_ok d'"
  by (erule location_stepE)
    (blast dest: LocationsService_create_keeps LocationsService_update_keeps LocationsService_delete_keeps)+

interpretation location_run: run_invariant location_step "\<lambda>d. db_ok d \<and> shorts_ok d"
  by unfold_locales (rule location_step_keeps)

text \<open>
  After any sequence of location calls, failed ones included, every short code is
  non-empty, of capital letters, digits and hyphens, and belongs to one location only.
\<close>

theorem location_codes_invariant:
  assumes "location_step\<^sup>*\<^sup>* d d'" and "db_ok d" and "shorts_ok d"
  shows "(\<forall>l \<in> set (db_locations d'). loc_short l \<noteq> [] \<and> list_all short_char (loc_short l)) \<and>
    distinct (map loc_short (db_locations d'))"
proof -
  have "db_ok d' \<and> shorts_ok d'" using location_run.run_keeps [OF assms(1)] assms(2,3) by simp
  then have s: "\<forall>l \<in> set (db_locations d'). short_ok (loc_short l)"
    and u: "unique_rows loc_id location_clash (db_locations d')"
    by (simp_all add: shorts_ok_def db_ok_def db_keys_def)
  from u have "distinct (db_locations d')" and "inj_on loc_short (set (db_locations d'))"
    by (auto simp: unique_rows_def distinct_map location_clash_def inj_on_def)
  then show ?thesis using s by (auto simp: short_ok_def distinct_map)
qed

theorem location_codes_invariant_witness:
  "let d' = snd (LocationsService_create ''l1'' 0 ''EU-1'' ''Europe'' demo_full)
   in map loc_short (db_locations d') = [''EU-1''] \<and> distinct (map loc_short (db_locations d'))"
proof -
  let ?d = "snd (LocationsService_create ''l1'' 0 ''EU-1'' ''Europe'' demo_full)"
  have "location_step\<^sup>*\<^sup>* demo_full ?d"
    by (intro r_into_rtranclp location_step.create) (rule prod.collapse [symmetric])
  from location_codes_invariant [OF this demo_full_ok]
  have "distinct (map loc_short (db_locations ?d))" by (simp add: shorts_ok_def)
  moreover have "map loc_short (db_locations ?d) = [''EU-1'']"
    by (simp add: LocationsService_create_def short_ok_def short_char_def findOne_def save_location_def saveRow_def
        hasRow_def upsertRow_def insertRow_def Let_def)
  ultimately show ?thesis by (simp add: Let_def)
qed

text \<open>
  Deleting a location: refused while a node names it, with the number of nodes in the
  message; when it succeeds no node, server or allocation changes and only that location is
  gone.
\<close>

theorem location_delete_spec:
  assumes "location_exists d i"
  shows "if hasRow (\<lambda>n. node_locationId n = Some i) (db_nodes d)
    then \<exists>m. LocationsService_delete i d = (Inl (BadRequestException m), d)
    else LocationsService_delete i d =
      (Inr (), d\<lparr>db_locations := filter (\<lambda>l. loc_id l \<noteq> i) (db_locations d)\<rparr>)"
proof -
  obtain l where l: "findOne (\<lambda>l. loc_id l = i) (db_locations d) = Some l"
    using assms findOne_None [of "\<lambda>l. loc_id l = i" "db_locations d"] by (auto simp: exists_iff)
  then have i: "loc_id l = i" using findOne_Some [OF l] by simp
  show ?thesis
  proof (cases "hasRow (\<lambda>n. node_locationId n = Some i) (db_nodes d)")
    case True
    then show ?thesis using l by (simp add: LocationsService_delete_def Let_def node_count_def countRows_pos)
  next
    case False
    then have "node_count i d = 0"
      by (auto simp: node_count_def countRows_def hasRow_iff filter_empty_conv)
    then show ?thesis using False l i
      by (simp add: LocationsService_delete_def Let_def remove_location_def updateRows_none removeRows_def)
  qed
qed

theorem location_delete_spec_witness:
  "let d = demo_full\<lparr>db_locations := [\<lparr>loc_id = ''l1'', loc_short = ''EU'', loc_long = ''x'', loc_createdAt = 0\<rparr>]\<rparr>
   in LocationsService_delete ''l1'' d = (Inr (), demo_full\<lparr>db_locations := []\<rparr>)"
proof -
  let ?d = "demo_full\<lparr>db_locations := [\<lparr>loc_id = ''l1'', loc_short = ''EU'', loc_long = ''x'', loc_createdAt = 0\<rparr>]\<rparr>"
  have "location_exists ?d ''l1''" by (simp add: exists_iff)
  from location_delete_spec [OF this] show ?thesis
    by (simp add: Let_def hasRow_def demo_node_def)
qed


end
