(* ===== verification/Allocations.thy ===== *)
theory Allocations
  imports Locations
begin

text \<open>
  \<^verbatim>\<open>allocations/\<close> and \<^verbatim>\<open>admin/admin-allocations.controller.ts\<close>: the IP:port pairs of a
  node.  The service looks up the ports of a range in one query, the admin controller port by
  port; both write the missing ones in one \<open>save\<close> (one transaction).
\<close>

section \<open>Bodies\<close>

record CreateAllocationsDto =
  ca_nodeId :: string
  ca_ip :: string
  ca_portStart :: int
  ca_portEnd :: int

definition CreateAllocationsDto_ok :: "ext \<Rightarrow> CreateAllocationsDto \<Rightarrow> bool" where
  "CreateAllocationsDto_ok X dto \<longleftrightarrow>
     isUUID X (ca_nodeId dto) \<and> ca_ip dto \<noteq> [] \<and> 1024 \<le> ca_portStart dto \<and> 1024 \<le> ca_portEnd dto"

record CreateNodeAllocationsDto =
  cna_ip :: string
  cna_portStart :: int
  cna_portEnd :: int
  cna_ipAlias :: "string option"

definition CreateNodeAllocationsDto_ok :: "CreateNodeAllocationsDto \<Rightarrow> bool" where
  "CreateNodeAllocationsDto_ok dto \<longleftrightarrow> cna_ip dto \<noteq> [] \<and> 1024 \<le> cna_portStart dto \<and> 1024 \<le> cna_portEnd dto"

section \<open>The service\<close>

definition node_page :: "string \<Rightarrow> int \<Rightarrow> int \<Rightarrow> 'z db_scheme \<Rightarrow> exn + AllocationEntity paged" where
  "node_page nodeId page perPage d =
     paginate page perPage (sort_key alloc_port (findRows (\<lambda>a. alloc_nodeId a = nodeId) (db_allocations d)))"

definition AllocationsService_findByNode ::
  "string \<Rightarrow> int \<Rightarrow> int \<Rightarrow> 'z db_scheme \<Rightarrow> exn + AllocationEntity paged" where
  "AllocationsService_findByNode nodeId page perPage d = node_page nodeId page perPage d"

text \<open>The identifiers the new rows get, one per port.\<close>

type_synonym new_ids = "int \<Rightarrow> string"

definition new_allocation :: "new_ids \<Rightarrow> nat \<Rightarrow> string \<Rightarrow> string \<Rightarrow> string option \<Rightarrow> int \<Rightarrow> AllocationEntity" where
  "new_allocation ids now nodeId ip ipAlias port =
     \<lparr>alloc_id = ids port, alloc_nodeId = nodeId, alloc_ip = ip, alloc_ipAlias = ipAlias, alloc_port = port,
      alloc_notes = None, alloc_serverId = None, alloc_createdAt = now\<rparr>"

definition save_allocations ::
  "AllocationEntity list \<Rightarrow> 'z db_scheme \<Rightarrow> ('z db_scheme, AllocationEntity list) handled" where
  "save_allocations allocations d =
     (case save_each save_allocation allocations d of
        Inl e \<Rightarrow> (Inl e, d) | Inr d1 \<Rightarrow> (Inr allocations, d1))"

definition AllocationsService_create ::
  "new_ids \<Rightarrow> nat \<Rightarrow> string \<Rightarrow> string \<Rightarrow> int \<Rightarrow> int \<Rightarrow> 'z db_scheme \<Rightarrow> ('z db_scheme, AllocationEntity list) handled" where
  "AllocationsService_create ids now nodeId ip portStart portEnd d =
     (if portEnd < portStart then (Inl (BadRequestException ''portStart must be <= portEnd''), d)
      else if 1000 < portEnd - portStart
      then (Inl (BadRequestException ''Cannot create more than 1000 allocations at once''), d)
      else (let ports = map (\<lambda>i. portStart + int i) [0..<nat (portEnd - portStart + 1)];
                existingPorts = map alloc_port (filter (\<lambda>a. alloc_nodeId a = nodeId \<and> alloc_ip a = ip \<and>
                                  alloc_port a \<in> set ports) (db_allocations d));
                missing = filter (\<lambda>port. port \<notin> set existingPorts) ports
            in save_allocations (map (new_allocation ids now nodeId ip None) missing) d))"

definition AllocationsService_delete :: "string \<Rightarrow> 'z db_scheme \<Rightarrow> ('z db_scheme, unit) handled" where
  "AllocationsService_delete i d =
     (case findOne (\<lambda>a. alloc_id a = i) (db_allocations d) of
        None \<Rightarrow> (Inl (NotFoundException ''Allocation not found''), d)
      | Some a \<Rightarrow>
          if alloc_serverId a \<noteq> None then (Inl (BadRequestException ''Cannot delete an assigned allocation''), d)
          else (Inr (), d\<lparr>db_allocations := removeRows (\<lambda>x. alloc_id x = alloc_id a) (db_allocations d)\<rparr>))"

definition AllocationsService_assign ::
  "string \<Rightarrow> string \<Rightarrow> 'z db_scheme \<Rightarrow> ('z db_scheme, AllocationEntity) handled" where
  "AllocationsService_assign i serverId d =
     (case findOne (\<lambda>a. alloc_id a = i) (db_allocations d) of
        None \<Rightarrow> (Inl (NotFoundException ''Allocation not found''), d)
      | Some a \<Rightarrow>
          (let a' = a\<lparr>alloc_serverId := Some serverId\<rparr>
           in (case save_allocation a' d of Inl e \<Rightarrow> (Inl e, d) | Inr d1 \<Rightarrow> (Inr a', d1))))"

definition AllocationsService_unassign ::
  "string \<Rightarrow> 'z db_scheme \<Rightarrow> ('z db_scheme, AllocationEntity) handled" where
  "AllocationsService_unassign i d =
     (case findOne (\<lambda>a. alloc_id a = i) (db_allocations d) of
        None \<Rightarrow> (Inl (NotFoundException ''Allocation not found''), d)
      | Some a \<Rightarrow>
          (let a' = a\<lparr>alloc_serverId := None\<rparr>
           in (case save_allocation a' d of Inl e \<Rightarrow> (Inl e, d) | Inr d1 \<Rightarrow> (Inr a', d1))))"

definition AllocationsController_findByNode ::
  "ext \<Rightarrow> nat \<Rightarrow> Request \<Rightarrow> string \<Rightarrow> int option \<Rightarrow> int option \<Rightarrow> 'z db_scheme \<Rightarrow>
   ('z db_scheme, AllocationEntity paged) handled" where
  "AllocationsController_findByNode X now req nodeId page perPage d =
     with_admin X now req
       (\<lambda>_ d. (AllocationsService_findByNode nodeId (query_or page 1) (query_or perPage 50) d, d)) d"

definition AllocationsController_create ::
  "ext \<Rightarrow> nat \<Rightarrow> Request \<Rightarrow> new_ids \<Rightarrow> CreateAllocationsDto \<Rightarrow> 'z db_scheme \<Rightarrow>
   ('z db_scheme, AllocationEntity list) handled" where
  "AllocationsController_create X now req ids dto d =
     with_admin X now req
       (\<lambda>_. validated (CreateAllocationsDto_ok X dto)
          (AllocationsService_create ids now (ca_nodeId dto) (ca_ip dto) (ca_portStart dto) (ca_portEnd dto))) d"

definition AllocationsController_delete ::
  "ext \<Rightarrow> nat \<Rightarrow> Request \<Rightarrow> string \<Rightarrow> 'z db_scheme \<Rightarrow> ('z db_scheme, unit) handled" where
  "AllocationsController_delete X now req i d = with_admin X now req (\<lambda>_. AllocationsService_delete i) d"

section \<open>The admin controller\<close>

definition AdminAllocations_findByNode ::
  "ext \<Rightarrow> nat \<Rightarrow> Request \<Rightarrow> string \<Rightarrow> int option \<Rightarrow> int option \<Rightarrow> 'z db_scheme \<Rightarrow>
   ('z db_scheme, AllocationEntity paged) handled" where
  "AdminAllocations_findByNode X now req nodeId page perPage d =
     with_admin X now req (\<lambda>_ d. (node_page nodeId (query_or page 1) (query_or perPage 50) d, d)) d"

text \<open>The loop \<open>for (port = portStart; port <= portEnd; port++)\<close> from \<open>port\<close> on.\<close>

function missing_ports :: "string \<Rightarrow> string \<Rightarrow> int \<Rightarrow> int \<Rightarrow> 'z db_scheme \<Rightarrow> int list" where
  "missing_ports nodeId ip port portEnd d =
     (if port \<le> portEnd
      then (case findOne (\<lambda>a. alloc_nodeId a = nodeId \<and> alloc_ip a = ip \<and> alloc_port a = port) (db_allocations d) of
              None \<Rightarrow> port # missing_ports nodeId ip (port + 1) portEnd d
            | Some _ \<Rightarrow> missing_ports nodeId ip (port + 1) portEnd d)
      else [])"
  by pat_completeness auto

termination
  by (relation "measure (\<lambda>(nodeId, ip, port, portEnd, d). nat (portEnd - port + 1))") auto

declare missing_ports.simps [simp del]

definition create_node_allocations ::
  "new_ids \<Rightarrow> nat \<Rightarrow> string \<Rightarrow> CreateNodeAllocationsDto \<Rightarrow> 'z db_scheme \<Rightarrow>
   ('z db_scheme, AllocationEntity list) handled" where
  "create_node_allocations ids now nodeId dto d =
     (if cna_portEnd dto < cna_portStart dto then (Inl (BadRequestException ''portStart must be <= portEnd''), d)
      else if 1000 < cna_portEnd dto - cna_portStart dto
      then (Inl (BadRequestException ''Cannot create more than 1000 allocations at once''), d)
      else save_allocations
        (map (new_allocation ids now nodeId (cna_ip dto) (cna_ipAlias dto))
           (missing_ports nodeId (cna_ip dto) (cna_portStart dto) (cna_portEnd dto) d)) d)"

definition AdminAllocations_create ::
  "ext \<Rightarrow> nat \<Rightarrow> Request \<Rightarrow> new_ids \<Rightarrow> string \<Rightarrow> CreateNodeAllocationsDto \<Rightarrow> 'z db_scheme \<Rightarrow>
   ('z db_scheme, AllocationEntity list) handled" where
  "AdminAllocations_create X now req ids nodeId dto d =
     with_admin X now req
       (\<lambda>_. validated (CreateNodeAllocationsDto_ok dto) (create_node_allocations ids now nodeId dto)) d"

definition AdminAllocations_delete ::
  "ext \<Rightarrow> nat \<Rightarrow> Request \<Rightarrow> string \<Rightarrow> string \<Rightarrow> 'z db_scheme \<Rightarrow> ('z db_scheme, unit) handled" where
  "AdminAllocations_delete X now req nodeId i d =
     with_admin X now req
       (\<lambda>_ d. (case findOne (\<lambda>a. alloc_id a = i \<and> alloc_nodeId a = nodeId) (db_allocations d) of
                 None \<Rightarrow> (Inl (BadRequestException ''Allocation not found''), d)
               | Some a \<Rightarrow>
                   if truthy_str (alloc_serverId a)
                   then (Inl (BadRequestException ''Cannot delete an assigned allocation''), d)
                   else (Inr (), d\<lparr>db_allocations := removeRows (\<lambda>x. alloc_id x = alloc_id a) (db_allocations d)\<rparr>))) d"

definition AdminAllocations_bulkDelete ::
  "ext \<Rightarrow> nat \<Rightarrow> Request \<Rightarrow> string \<Rightarrow> 'z db_scheme \<Rightarrow> ('z db_scheme, unit) handled" where
  "AdminAllocations_bulkDelete X now req nodeId d =
     with_admin X now req
       (\<lambda>_ d. (Inr (), d\<lparr>db_allocations :=
          removeRows (\<lambda>a. alloc_nodeId a = nodeId \<and> alloc_serverId a = None) (db_allocations d)\<rparr>)) d"

section \<open>The two ways to create are one\<close>

lemma missing_ports_filter:
  "missing_ports nodeId ip port portEnd d =
   filter (\<lambda>p. \<not> hasRow (\<lambda>a. alloc_nodeId a = nodeId \<and> alloc_ip a = ip \<and> alloc_port a = p) (db_allocations d))
     (map (\<lambda>i. port + int i) [0..<nat (portEnd - port + 1)])"
proof (induction nodeId ip port portEnd d rule: missing_ports.induct)
  case (1 nodeId ip port portEnd d)
  show ?case
  proof (cases "port \<le> portEnd")
    case True
    then have n: "nat (portEnd - port + 1) = Suc (nat (portEnd - (port + 1) + 1))" by simp
    have s: "map (\<lambda>i. port + int i) [0..<Suc m] = port # map (\<lambda>i. port + 1 + int i) [0..<m]" for m
      by (simp only: upt_conv_Cons zero_less_Suc map_Suc_upt [symmetric]) (simp add: comp_def algebra_simps)
    show ?thesis
      using 1 True findOne_None [of "\<lambda>a. alloc_nodeId a = nodeId \<and> alloc_ip a = ip \<and> alloc_port a = port" "db_allocations d"]
      unfolding n s by (subst missing_ports.simps) (auto simp: hasRow_iff split: option.splits)
  next
    case False
    then show ?thesis by (subst missing_ports.simps) simp
  qed
qed

lemma allocation_create_eq:
  "AllocationsService_create ids now nodeId ip portStart portEnd d =
   create_node_allocations ids now nodeId
     \<lparr>cna_ip = ip, cna_portStart = portStart, cna_portEnd = portEnd, cna_ipAlias = None\<rparr> d"
proof -
  let ?ports = "map (\<lambda>i. portStart + int i) [0..<nat (portEnd - portStart + 1)]"
  have "filter (\<lambda>port. port \<notin> set (map alloc_port (filter (\<lambda>a. alloc_nodeId a = nodeId \<and> alloc_ip a = ip \<and>
          alloc_port a \<in> set ?ports) (db_allocations d)))) ?ports =
      missing_ports nodeId ip portStart portEnd d"
    unfolding missing_ports_filter by (rule filter_cong) (auto simp: hasRow_iff image_iff)
  then show ?thesis
    by (simp add: AllocationsService_create_def create_node_allocations_def Let_def)
qed

text \<open>
  The batched creation of the service and the port-by-port creation of the admin
  controller are the same function: same rows, same errors, same database.
\<close>

theorem allocation_create_equivalence:
  "AllocationsService_create ids now nodeId ip portStart portEnd d =
   create_node_allocations ids now nodeId
     \<lparr>cna_ip = ip, cna_portStart = portStart, cna_portEnd = portEnd, cna_ipAlias = None\<rparr> d"
  by (rule allocation_create_eq)

section \<open>What creation writes\<close>

definition range_row :: "string \<Rightarrow> string \<Rightarrow> int \<Rightarrow> AllocationEntity \<Rightarrow> bool" where
  "range_row nodeId ip port a \<longleftrightarrow> alloc_nodeId a = nodeId \<and> alloc_ip a = ip \<and> alloc_port a = port"

lemma save_each_allocations:
  assumes "node_exists d nodeId" and "inj_on ids (set ports)" and "distinct ports"
    and "\<forall>a \<in> set (db_allocations d). alloc_id a \<notin> ids ` set ports"
    and "\<forall>p \<in> set ports. \<not> hasRow (range_row nodeId ip p) (db_allocations d)"
  shows "save_each save_allocation (map (new_allocation ids now nodeId ip ipAlias) ports) d =
    Inr (d\<lparr>db_allocations := db_allocations d @ map (new_allocation ids now nodeId ip ipAlias) ports\<rparr>)"
  using assms
proof (induction ports arbitrary: d)
  case Nil
  then show ?case by simp
next
  case (Cons p ps)
  let ?a = "new_allocation ids now nodeId ip ipAlias p"
  let ?d1 = "d\<lparr>db_allocations := db_allocations d @ [?a]\<rparr>"
  have s: "save_allocation ?a d = Inr ?d1"
  proof -
    have "\<not> hasRow (\<lambda>x. alloc_id x \<noteq> alloc_id ?a \<and> allocation_clash ?a x) (db_allocations d)"
      using Cons.prems(5) by (auto simp: hasRow_iff allocation_clash_def new_allocation_def same_some_def range_row_def)
    moreover have "\<not> hasRow (\<lambda>x. alloc_id x = alloc_id ?a) (db_allocations d)"
      using Cons.prems(4) by (auto simp: hasRow_iff new_allocation_def)
    ultimately show ?thesis
      using Cons.prems(1) by (simp add: save_allocation_def saveRow_def upsertRow_def insertRow_def new_allocation_def)
  qed
  have "node_exists ?d1 nodeId" using Cons.prems(1) by (simp add: exists_iff)
  moreover have "inj_on ids (set ps)" "distinct ps" using Cons.prems(2,3) by auto
  moreover have "\<forall>a \<in> set (db_allocations ?d1). alloc_id a \<notin> ids ` set ps"
    using Cons.prems(2,3,4) by (auto simp: new_allocation_def inj_on_def)
  moreover have "\<forall>q \<in> set ps. \<not> hasRow (range_row nodeId ip q) (db_allocations ?d1)"
    using Cons.prems(3,5) by (auto simp: hasRow_iff new_allocation_def range_row_def)
  ultimately show ?case using s Cons.IH [of ?d1] by simp
qed

lemma allocation_ports_unique:
  "db_ok d \<Longrightarrow> a \<in> set (db_allocations d) \<Longrightarrow> b \<in> set (db_allocations d) \<Longrightarrow>
   range_row n ip p a \<Longrightarrow> range_row n ip p b \<Longrightarrow> a = b"
proof (rule ccontr)
  assume "db_ok d" and ab: "a \<in> set (db_allocations d)" "b \<in> set (db_allocations d)"
    and r: "range_row n ip p a" "range_row n ip p b" and "a \<noteq> b"
  then have u: "unique_rows alloc_id allocation_clash (db_allocations d)" by (simp add: db_ok_def db_keys_def)
  then have "alloc_id a \<noteq> alloc_id b"
    using ab \<open>a \<noteq> b\<close> distinct_map_key_eq [of alloc_id "db_allocations d" a b] by (auto simp: unique_rows_def)
  then have "\<not> allocation_clash a b" using u ab by (simp add: unique_rows_def)
  then show False using r by (simp add: allocation_clash_def range_row_def)
qed

text \<open>
  Creating the allocations of a port range on an existing node (with new identifiers):
  it succeeds without touching a constraint, adds exactly the ports of the range the address
  did not have, unassigned, at most 1001 of them, changes nothing else; afterwards every port
  of the range is one allocation of the address.
\<close>

theorem allocation_create_spec:
  assumes "db_ok d" and "node_exists d nodeId" and "portStart \<le> portEnd" and "portEnd \<le> portStart + 1000"
    and "inj ids" and "\<forall>a \<in> set (db_allocations d). alloc_id a \<notin> range ids"
  shows "\<exists>rows. AllocationsService_create ids now nodeId ip portStart portEnd d =
      (Inr rows, d\<lparr>db_allocations := db_allocations d @ rows\<rparr>) \<and>
    db_ok (d\<lparr>db_allocations := db_allocations d @ rows\<rparr>) \<and> length rows \<le> 1001 \<and>
    (\<forall>r \<in> set rows. alloc_serverId r = None \<and> alloc_nodeId r = nodeId \<and> alloc_ip r = ip \<and>
       portStart \<le> alloc_port r \<and> alloc_port r \<le> portEnd) \<and>
    (\<forall>port. portStart \<le> port \<and> port \<le> portEnd \<longrightarrow>
       (\<exists>!a. a \<in> set (db_allocations d @ rows) \<and> alloc_nodeId a = nodeId \<and> alloc_ip a = ip \<and> alloc_port a = port))"
proof -
  let ?ports = "missing_ports nodeId ip portStart portEnd d"
  let ?rows = "map (new_allocation ids now nodeId ip None) ?ports"
  let ?d' = "d\<lparr>db_allocations := db_allocations d @ ?rows\<rparr>"
  let ?range = "map (\<lambda>i. portStart + int i) [0..<nat (portEnd - portStart + 1)]"
  have p: "?ports = filter (\<lambda>p. \<not> hasRow (range_row nodeId ip p) (db_allocations d)) ?range"
    unfolding missing_ports_filter by (rule filter_cong) (simp_all add: hasRow_iff range_row_def)
  have mem: "portStart \<le> x \<and> x \<le> portEnd \<longleftrightarrow> x \<in> set ?range" for x
    by (auto simp: image_iff intro: bexI [of _ "nat (x - portStart)"])
  have e: "save_each save_allocation ?rows d = Inr ?d'"
  proof (rule save_each_allocations)
    show "inj_on ids (set ?ports)" using assms(5) by (rule inj_on_subset) simp
    show "distinct ?ports" unfolding p by (simp add: distinct_map inj_on_def)
    show "\<forall>a \<in> set (db_allocations d). alloc_id a \<notin> ids ` set ?ports" using assms(6) by auto
    show "\<forall>q \<in> set ?ports. \<not> hasRow (range_row nodeId ip q) (db_allocations d)" unfolding p by simp
  qed (rule assms(2))
  have ok: "db_ok ?d'" using e by (rule save_each_keeps) (use assms(1) in \<open>auto intro: save_ok(8)\<close>)
  have c: "AllocationsService_create ids now nodeId ip portStart portEnd d = (Inr ?rows, ?d')"
    using assms(3,4) e by (simp add: allocation_create_eq create_node_allocations_def save_allocations_def)
  have "length ?ports \<le> length ?range" unfolding p by (rule length_filter_le)
  then have len: "length ?rows \<le> 1001" using assms(4) by simp
  have r: "\<forall>r \<in> set ?rows. alloc_serverId r = None \<and> alloc_nodeId r = nodeId \<and> alloc_ip r = ip \<and>
       portStart \<le> alloc_port r \<and> alloc_port r \<le> portEnd"
    unfolding p by (auto simp: new_allocation_def)
  have u: "\<exists>!a. a \<in> set (db_allocations d @ ?rows) \<and> alloc_nodeId a = nodeId \<and> alloc_ip a = ip \<and> alloc_port a = port"
    if "portStart \<le> port \<and> port \<le> portEnd" for port
  proof -
    have "\<exists>a \<in> set (db_allocations ?d'). range_row nodeId ip port a"
    proof (cases "hasRow (range_row nodeId ip port) (db_allocations d)")
      case True
      then show ?thesis by (auto simp: hasRow_iff)
    next
      case False
      then have "port \<in> set ?ports" using that mem unfolding p by auto
      then have "new_allocation ids now nodeId ip None port \<in> set (db_allocations ?d')" by simp
      then show ?thesis by (rule bexI [rotated]) (simp add: range_row_def new_allocation_def)
    qed
    then obtain a where a: "a \<in> set (db_allocations ?d')" "range_row nodeId ip port a" by blast
    have S: "db_allocations ?d' = db_allocations d @ ?rows" by simp
    show ?thesis
    proof (rule ex1I [of _ a])
      show "a \<in> set (db_allocations d @ ?rows) \<and> alloc_nodeId a = nodeId \<and> alloc_ip a = ip \<and> alloc_port a = port"
        using a by (simp only: range_row_def S simp_thms)
    next
      fix b
      assume "b \<in> set (db_allocations d @ ?rows) \<and> alloc_nodeId b = nodeId \<and> alloc_ip b = ip \<and> alloc_port b = port"
      then have "b \<in> set (db_allocations ?d')" and "range_row nodeId ip port b"
        by (simp_all only: range_row_def S simp_thms)
      then show "b = a" by (rule allocation_ports_unique [OF ok _ a(1) _ a(2)])
    qed
  qed
  have u2: "\<forall>port. portStart \<le> port \<and> port \<le> portEnd \<longrightarrow>
      (\<exists>!a. a \<in> set (db_allocations d @ ?rows) \<and> alloc_nodeId a = nodeId \<and> alloc_ip a = ip \<and> alloc_port a = port)"
    by (intro allI impI u)
  show ?thesis by (rule exI [of _ ?rows]) (intro conjI c ok len r u2)
qed

lemma show_nat_no_minus: "CHR ''-'' # s \<noteq> show_nat n"
proof -
  have "hd (show_nat n) \<noteq> CHR ''-''"
  proof (induction n rule: show_nat.induct)
    case (1 n)
    have d: "digit_char m \<noteq> CHR ''-''" if "m < 10" for m
    proof
      assume "digit_char m = CHR ''-''"
      then have "of_char (digit_char m) = (45 :: nat)" by simp
      then show False using that by (simp add: digit_char_def)
    qed
    from 1 show ?case by (subst show_nat.simps) (auto simp: d hd_append)
  qed
  then show ?thesis by (metis list.sel(1))
qed

lemma show_int_inj: "show_int x = show_int y \<Longrightarrow> x = y"
  using show_nat_no_minus [symmetric] show_nat_no_minus
  by (auto simp: show_int_def dest!: show_nat_inj split: if_splits)

theorem allocation_create_spec_witness:
  "\<exists>rows. AllocationsService_create (\<lambda>p. CHR ''n'' # show_int p) 0 ''n1'' ''10.0.0.1'' 2000 2003 demo_full =
     (Inr rows, demo_full\<lparr>db_allocations := db_allocations demo_full @ rows\<rparr>) \<and> length rows \<le> 1001"
proof -
  have i: "inj (\<lambda>p. CHR ''n'' # show_int p)" by (auto simp: inj_def dest: show_int_inj)
  have f: "\<forall>a \<in> set (db_allocations demo_full). alloc_id a \<notin> range (\<lambda>p. CHR ''n'' # show_int p)"
    by (auto simp: demo_allocation_def)
  have n: "node_exists demo_full ''n1''" by (simp add: exists_iff demo_node_def)
  have l: "(2000 :: int) \<le> 2003" "(2003 :: int) \<le> 2000 + 1000" by simp_all
  show ?thesis
    using allocation_create_spec [OF demo_full_ok n l i f, of 0 "''10.0.0.1''"] by blast
qed

text \<open>
  C38. No way of deleting allocations takes one a server holds: the service's and the admin
  controller's delete and the bulk delete keep every assigned row, and no server loses one.
\<close>

theorem assigned_allocation_survives:
  assumes "db_ok d" and "a \<in> set (db_allocations d)" and "alloc_serverId a = Some s" and "s \<noteq> []"
  shows "a \<in> set (db_allocations (snd (AllocationsService_delete i d))) \<and>
    a \<in> set (db_allocations (snd (AdminAllocations_delete X now req nodeId i d))) \<and>
    a \<in> set (db_allocations (snd (AdminAllocations_bulkDelete X now req nodeId d)))"
proof -
  have same: "x = a" if "x \<in> set (db_allocations d)" "alloc_id x = alloc_id a" for x
    using that assms(1,2) distinct_map_key_eq [of alloc_id "db_allocations d" x a]
    by (simp add: db_ok_def db_keys_def unique_rows_def)
  have keep: "a \<in> set (removeRows (\<lambda>x. alloc_id x = alloc_id b) (db_allocations d))"
    if "b \<in> set (db_allocations d)" "\<not> truthy_str (alloc_serverId b)" for b
  proof -
    have "alloc_id a \<noteq> alloc_id b"
    proof
      assume "alloc_id a = alloc_id b"
      then have "b = a" using same [OF that(1)] by simp
      then show False using that(2) assms(3,4) by simp
    qed
    then show ?thesis using assms(2) by (simp add: table_sets)
  qed
  have "a \<in> set (db_allocations (snd (AllocationsService_delete i d)))"
  proof (cases "findOne (\<lambda>a. alloc_id a = i) (db_allocations d)")
    case (Some b)
    then show ?thesis using assms(2) keep [of b] findOne_Some [OF Some]
      by (simp add: AllocationsService_delete_def)
  qed (use assms(2) in \<open>simp add: AllocationsService_delete_def\<close>)
  moreover have "a \<in> set (db_allocations (snd (AdminAllocations_delete X now req nodeId i d)))"
  proof (cases "findOne (\<lambda>a. alloc_id a = i \<and> alloc_nodeId a = nodeId) (db_allocations d)")
    case (Some b)
    then show ?thesis using assms(2) keep [of b] findOne_Some [OF Some]
      by (simp add: AdminAllocations_delete_def with_admin_def split: sum.splits)
  qed (use assms(2) in \<open>simp add: AdminAllocations_delete_def with_admin_def split: sum.splits\<close>)
  moreover have "a \<in> set (db_allocations (snd (AdminAllocations_bulkDelete X now req nodeId d)))"
    using assms(2,3) by (auto simp: AdminAllocations_bulkDelete_def with_admin_def table_sets split: sum.splits)
  ultimately show ?thesis by blast
qed

theorem assigned_allocation_survives_witness:
  "demo_allocation ''al1'' 2000 (Some ''s1'') \<in>
     set (db_allocations (snd (AdminAllocations_bulkDelete demo_ext 0 (demo_cookie (demo_user ''u1'' ''ann'' True)) ''n1'' demo_full)))"
  using assigned_allocation_survives [OF demo_full_ok, where a = "demo_allocation ''al1'' 2000 (Some ''s1'')"]
  by (simp add: demo_allocation_def)


end
