(* ===== verification/Nodes.thy ===== *)
theory Nodes
  imports Allocations
begin

text \<open>
  \<^verbatim>\<open>nodes/\<close> (service, heartbeat store, controller, DTOs) and
  \<^verbatim>\<open>admin/admin-nodes.controller.ts\<close>.  The heartbeat store is process memory: a JavaScript
  \<open>Map\<close>, added to the database to make the state these operations act on.
\<close>

section \<open>A JavaScript map in the state\<close>

locale js_map =
  fixes get :: "'s \<Rightarrow> string \<Rightarrow> 'v option"
    and set_key :: "string \<Rightarrow> 'v \<Rightarrow> 's \<Rightarrow> 's"
    and delete :: "string \<Rightarrow> 's \<Rightarrow> 's"
  assumes get_set: "get (set_key k v s) j = (if j = k then Some v else get s j)"
    and get_delete: "get (delete k s) j = (if j = k then None else get s j)"
begin

lemma get_set_same: "get (set_key k v s) k = Some v"
  by (simp add: get_set)

lemma get_set_other: "j \<noteq> k \<Longrightarrow> get (set_key k v s) j = get s j"
  by (simp add: get_set)

lemma get_overwrite: "get (set_key k v (set_key k w s)) j = get (set_key k v s) j"
  by (simp add: get_set)

lemma get_delete_set: "get (delete k (set_key k v s)) j = get (delete k s) j"
  by (simp add: get_set get_delete)

end

section \<open>Heartbeats\<close>

record ServerHeartbeat =
  sh_uuid :: string
  sh_state :: string
  sh_resources :: "json option"

record HeartbeatDto =
  hb_version :: string
  hb_totalMemory :: rat
  hb_usedMemory :: rat
  hb_totalDisk :: rat
  hb_usedDisk :: rat
  hb_cpuPercent :: rat
  hb_servers :: "ServerHeartbeat list"

definition HeartbeatDto_ok :: "HeartbeatDto \<Rightarrow> bool" where
  "HeartbeatDto_ok dto \<longleftrightarrow>
     0 \<le> hb_totalMemory dto \<and> 0 \<le> hb_usedMemory dto \<and> 0 \<le> hb_totalDisk dto \<and> 0 \<le> hb_usedDisk dto \<and>
     0 \<le> hb_cpuPercent dto \<and> hb_cpuPercent dto \<le> 100"

text \<open>\<open>HeartbeatData\<close> is the body and the time it arrived.\<close>

record HeartbeatData = HeartbeatDto +
  hb_receivedAt :: nat

record node_panel = db +
  pn_heartbeats :: "(string \<times> HeartbeatData) list"

definition NodeHeartbeatStore_set :: "string \<Rightarrow> HeartbeatData \<Rightarrow> 'z node_panel_scheme \<Rightarrow> 'z node_panel_scheme" where
  "NodeHeartbeatStore_set nodeId data s = s\<lparr>pn_heartbeats := AList.update nodeId data (pn_heartbeats s)\<rparr>"

definition NodeHeartbeatStore_get :: "'z node_panel_scheme \<Rightarrow> string \<Rightarrow> HeartbeatData option" where
  "NodeHeartbeatStore_get s nodeId = map_of (pn_heartbeats s) nodeId"

definition OFFLINE_THRESHOLD_MS :: nat where
  "OFFLINE_THRESHOLD_MS = 60000"

text \<open>\<open>Date.now() - receivedAt < threshold\<close>: a clock set back makes a heartbeat of the future
  count as recent.\<close>

definition NodeHeartbeatStore_isOnline :: "nat \<Rightarrow> 'z node_panel_scheme \<Rightarrow> string \<Rightarrow> bool" where
  "NodeHeartbeatStore_isOnline now s nodeId =
     (case NodeHeartbeatStore_get s nodeId of
        None \<Rightarrow> False
      | Some data \<Rightarrow> int now - int (hb_receivedAt data) < int OFFLINE_THRESHOLD_MS)"

definition NodeHeartbeatStore_delete :: "string \<Rightarrow> 'z node_panel_scheme \<Rightarrow> 'z node_panel_scheme" where
  "NodeHeartbeatStore_delete nodeId s = s\<lparr>pn_heartbeats := AList.delete nodeId (pn_heartbeats s)\<rparr>"

interpretation heartbeat_map: js_map NodeHeartbeatStore_get NodeHeartbeatStore_set NodeHeartbeatStore_delete
  by unfold_locales
    (simp_all add: NodeHeartbeatStore_get_def NodeHeartbeatStore_set_def NodeHeartbeatStore_delete_def
      update_conv' delete_conv')

section \<open>Node bodies\<close>

record CreateNodeDto =
  cn_name :: string
  cn_description :: "string option"
  cn_location :: string
  cn_fqdn :: string
  cn_scheme :: string
  cn_behindProxy :: "bool option"
  cn_memory :: int
  cn_memoryOverallocate :: "int option"
  cn_disk :: int
  cn_diskOverallocate :: "int option"
  cn_daemonPort :: "int option"
  cn_uploadSize :: "int option"

definition scheme_ok :: "string \<Rightarrow> bool" where
  "scheme_ok s \<longleftrightarrow> s = ''http'' \<or> s = ''https''"

definition CreateNodeDto_ok :: "CreateNodeDto \<Rightarrow> bool" where
  "CreateNodeDto_ok dto \<longleftrightarrow>
     cn_name dto \<noteq> [] \<and> cn_location dto \<noteq> [] \<and> cn_fqdn dto \<noteq> [] \<and> scheme_ok (cn_scheme dto) \<and>
     1 \<le> cn_memory dto \<and> 1 \<le> cn_disk dto \<and> opt_ok (\<lambda>n. 1 \<le> n) (cn_daemonPort dto) \<and>
     opt_ok (\<lambda>n. 1 \<le> n) (cn_uploadSize dto)"

record UpdateNodeDto =
  un_name :: "string option"
  un_description :: "string option"
  un_location :: "string option"
  un_fqdn :: "string option"
  un_scheme :: "string option"
  un_behindProxy :: "bool option"
  un_memory :: "int option"
  un_memoryOverallocate :: "int option"
  un_disk :: "int option"
  un_diskOverallocate :: "int option"
  un_daemonPort :: "int option"
  un_uploadSize :: "int option"

definition UpdateNodeDto_ok :: "UpdateNodeDto \<Rightarrow> bool" where
  "UpdateNodeDto_ok dto \<longleftrightarrow>
     opt_ok scheme_ok (un_scheme dto) \<and> opt_ok (\<lambda>n. 1 \<le> n) (un_memory dto) \<and> opt_ok (\<lambda>n. 1 \<le> n) (un_disk dto) \<and>
     opt_ok (\<lambda>n. 1 \<le> n) (un_daemonPort dto) \<and> opt_ok (\<lambda>n. 1 \<le> n) (un_uploadSize dto)"

section \<open>The service\<close>

definition node_search :: "ext \<Rightarrow> string option \<Rightarrow> NodeEntity \<Rightarrow> bool" where
  "node_search X search n \<longleftrightarrow>
     (case search of None \<Rightarrow> True | Some s \<Rightarrow> s = [] \<or> sqlLike X (node_name n) (like_pattern s))"

definition NodesService_findAll ::
  "ext \<Rightarrow> int \<Rightarrow> int \<Rightarrow> string option \<Rightarrow> 'z db_scheme \<Rightarrow> exn + NodeEntity paged" where
  "NodesService_findAll X page perPage search d =
     paginate page perPage (order_desc node_createdAt (findRows (node_search X search) (db_nodes d)))"

definition NodesService_findById :: "string \<Rightarrow> 'z db_scheme \<Rightarrow> exn + (NodeEntity \<times> AllocationEntity list)" where
  "NodesService_findById i d =
     (case findOne (\<lambda>n. node_id n = i) (db_nodes d) of
        None \<Rightarrow> Inl (NotFoundException ''Node not found'')
      | Some n \<Rightarrow> Inr (n, findRows (\<lambda>a. alloc_nodeId a = i) (db_allocations d)))"

text \<open>\<open>JSON.stringify\<close> of a string.\<close>

definition json_char :: "char \<Rightarrow> string" where
  "json_char c =
     (let n = of_char c :: nat; hex = (\<lambda>d. if d < 10 then char_of (48 + d) else char_of (87 + d))
      in if n = 34 then [CHR 0x5C, CHR 0x22] else if n = 92 then [CHR 0x5C, CHR 0x5C]
         else if n = 8 then [CHR 0x5C, CHR ''b''] else if n = 9 then [CHR 0x5C, CHR ''t'']
         else if n = 10 then [CHR 0x5C, CHR ''n''] else if n = 12 then [CHR 0x5C, CHR ''f'']
         else if n = 13 then [CHR 0x5C, CHR ''r'']
         else if n < 32 then [CHR 0x5C, CHR ''u'', CHR ''0'', CHR ''0'', hex (n div 16), hex (n mod 16)]
         else [c])"

definition json_quote :: "string \<Rightarrow> string" where
  "json_quote s = CHR 0x22 # concat (map json_char s) @ [CHR 0x22]"

definition configurationToken :: "ext \<Rightarrow> string \<Rightarrow> string \<Rightarrow> string \<Rightarrow> string \<Rightarrow> string" where
  "configurationToken X panelUrl nodeId tokenId token =
     base64 X (''{'' @ json_quote ''nodeId'' @ '':'' @ json_quote nodeId @ '','' @
               json_quote ''token'' @ '':'' @ json_quote (daemon_bearer tokenId token) @ '','' @
               json_quote ''panelUrl'' @ '':'' @ json_quote panelUrl @ ''}'')"

record NodeTokens =
  nt_nodeId :: string
  nt_daemonTokenId :: string
  nt_daemonToken :: string
  nt_configurationToken :: string

record CreatedNode =
  crn_id :: string
  crn_name :: string
  crn_fqdn :: string
  crn_daemonToken :: string
  crn_configurationToken :: string

definition new_node :: "string \<Rightarrow> nat \<Rightarrow> string \<Rightarrow> string \<Rightarrow> CreateNodeDto \<Rightarrow> NodeEntity" where
  "new_node newId now tokenId token dto =
     \<lparr>node_id = newId, node_name = cn_name dto, node_description = cn_description dto,
      node_location = cn_location dto, node_locationId = None, node_fqdn = cn_fqdn dto,
      node_scheme = cn_scheme dto, node_behindProxy = nullish (cn_behindProxy dto) False,
      node_memory = cn_memory dto, node_memoryOverallocate = nullish (cn_memoryOverallocate dto) 0,
      node_disk = cn_disk dto, node_diskOverallocate = nullish (cn_diskOverallocate dto) 0,
      node_daemonPort = nullish (cn_daemonPort dto) 8080, node_daemonTokenId = tokenId,
      node_daemonToken = token, node_uploadSize = nullish (cn_uploadSize dto) 100,
      node_connectionStatus = DISCONNECTED, node_wingsVersion = None, node_createdAt = now\<rparr>"

text \<open>\<open>tokenId\<close> and \<open>token\<close> are the drawn \<open>randomBytes(8).toString('hex')\<close> and UUID;
  \<open>panelUrl\<close> is the configured \<open>APP_URL\<close>.\<close>

definition NodesService_create ::
  "ext \<Rightarrow> nat \<Rightarrow> string \<Rightarrow> string \<Rightarrow> string \<Rightarrow> string \<Rightarrow> CreateNodeDto \<Rightarrow> 'z db_scheme \<Rightarrow>
   ('z db_scheme, CreatedNode) handled" where
  "NodesService_create X now newId tokenId token panelUrl dto d =
     (let node = new_node newId now tokenId token dto
      in (case save_node node d of
            Inl e \<Rightarrow> (Inl e, d)
          | Inr d1 \<Rightarrow> (Inr \<lparr>crn_id = node_id node, crn_name = node_name node, crn_fqdn = node_fqdn node,
                            crn_daemonToken = token,
                            crn_configurationToken = configurationToken X panelUrl (node_id node) tokenId token\<rparr>, d1)))"

definition assign_node :: "UpdateNodeDto \<Rightarrow> NodeEntity \<Rightarrow> NodeEntity" where
  "assign_node dto n =
     n\<lparr>node_name := nullish (un_name dto) (node_name n),
       node_description := (case un_description dto of None \<Rightarrow> node_description n | Some s \<Rightarrow> Some s),
       node_location := nullish (un_location dto) (node_location n),
       node_fqdn := nullish (un_fqdn dto) (node_fqdn n),
       node_scheme := nullish (un_scheme dto) (node_scheme n),
       node_behindProxy := nullish (un_behindProxy dto) (node_behindProxy n),
       node_memory := nullish (un_memory dto) (node_memory n),
       node_memoryOverallocate := nullish (un_memoryOverallocate dto) (node_memoryOverallocate n),
       node_disk := nullish (un_disk dto) (node_disk n),
       node_diskOverallocate := nullish (un_diskOverallocate dto) (node_diskOverallocate n),
       node_daemonPort := nullish (un_daemonPort dto) (node_daemonPort n),
       node_uploadSize := nullish (un_uploadSize dto) (node_uploadSize n)\<rparr>"

definition NodesService_update ::
  "string \<Rightarrow> UpdateNodeDto \<Rightarrow> 'z db_scheme \<Rightarrow> ('z db_scheme, NodeEntity) handled" where
  "NodesService_update i dto d =
     (case findOne (\<lambda>n. node_id n = i) (db_nodes d) of
        None \<Rightarrow> (Inl (NotFoundException ''Node not found''), d)
      | Some node \<Rightarrow>
          (let node' = assign_node dto node
           in (case save_node node' d of Inl e \<Rightarrow> (Inl e, d) | Inr d1 \<Rightarrow> (Inr node', d1))))"

definition NodesService_delete :: "string \<Rightarrow> 'z db_scheme \<Rightarrow> ('z db_scheme, unit) handled" where
  "NodesService_delete i d =
     (case findOne (\<lambda>n. node_id n = i) (db_nodes d) of
        None \<Rightarrow> (Inl (NotFoundException ''Node not found''), d)
      | Some node \<Rightarrow>
          (case remove_node (node_id node) d of Inl e \<Rightarrow> (Inl e, d) | Inr d1 \<Rightarrow> (Inr (), d1)))"

definition update_node :: "string \<Rightarrow> (NodeEntity \<Rightarrow> NodeEntity) \<Rightarrow> 'z db_scheme \<Rightarrow> 'z db_scheme" where
  "update_node i f d = d\<lparr>db_nodes := updateRows (\<lambda>n. node_id n = i) f (db_nodes d)\<rparr>"

definition NodesService_processHeartbeat ::
  "nat \<Rightarrow> NodeEntity \<Rightarrow> HeartbeatDto \<Rightarrow> 'z node_panel_scheme \<Rightarrow> 'z node_panel_scheme" where
  "NodesService_processHeartbeat now node data s =
     (let wasOnline = NodeHeartbeatStore_isOnline now s (node_id node);
          s1 = NodeHeartbeatStore_set (node_id node) (HeartbeatDto.extend data (HeartbeatData.fields now)) s
      in if \<not> wasOnline \<and> node_connectionStatus node \<noteq> CONNECTED
         then update_node (node_id node)
                (\<lambda>n. n\<lparr>node_connectionStatus := CONNECTED, node_wingsVersion := Some (hb_version data)\<rparr>) s1
         else s1)"

record NodeHealth =
  nh_nodeId :: string
  nh_online :: bool
  nh_lastHeartbeat :: "HeartbeatData option"

definition NodesService_getHealth ::
  "nat \<Rightarrow> string \<Rightarrow> 'z node_panel_scheme \<Rightarrow> ('z node_panel_scheme, NodeHealth) handled" where
  "NodesService_getHealth now i s =
     (case NodesService_findById i s of
        Inl e \<Rightarrow> (Inl e, s)
      | Inr (node, _) \<Rightarrow>
          (let heartbeat = NodeHeartbeatStore_get s (node_id node);
               online = NodeHeartbeatStore_isOnline now s (node_id node);
               s1 = (if \<not> online \<and> node_connectionStatus node = CONNECTED
                     then update_node (node_id node) (node_connectionStatus_update (\<lambda>_. DISCONNECTED)) s
                     else s)
           in (Inr \<lparr>nh_nodeId = node_id node, nh_online = online, nh_lastHeartbeat = heartbeat\<rparr>, s1)))"

record NodeConfiguration =
  nc_nodeId :: string
  nc_name :: string
  nc_fqdn :: string
  nc_scheme :: string
  nc_daemonPort :: int
  nc_memory :: int
  nc_memoryOverallocate :: int
  nc_disk :: int
  nc_diskOverallocate :: int
  nc_uploadSize :: int
  nc_behindProxy :: bool
  nc_location :: string
  nc_panelApiUrl :: string

definition NodesService_getConfiguration :: "string \<Rightarrow> NodeEntity \<Rightarrow> NodeConfiguration" where
  "NodesService_getConfiguration appUrl n =
     \<lparr>nc_nodeId = node_id n, nc_name = node_name n, nc_fqdn = node_fqdn n, nc_scheme = node_scheme n,
      nc_daemonPort = node_daemonPort n, nc_memory = node_memory n,
      nc_memoryOverallocate = node_memoryOverallocate n, nc_disk = node_disk n,
      nc_diskOverallocate = node_diskOverallocate n, nc_uploadSize = node_uploadSize n,
      nc_behindProxy = node_behindProxy n, nc_location = node_location n, nc_panelApiUrl = appUrl\<rparr>"

definition NodesService_regenerateToken ::
  "ext \<Rightarrow> string \<Rightarrow> string \<Rightarrow> string \<Rightarrow> string \<Rightarrow> 'z db_scheme \<Rightarrow> ('z db_scheme, NodeTokens) handled" where
  "NodesService_regenerateToken X tokenId token panelUrl i d =
     (case findOne (\<lambda>n. node_id n = i) (db_nodes d) of
        None \<Rightarrow> (Inl (NotFoundException ''Node not found''), d)
      | Some node \<Rightarrow>
          (Inr \<lparr>nt_nodeId = i, nt_daemonTokenId = tokenId, nt_daemonToken = token,
                nt_configurationToken = configurationToken X panelUrl i tokenId token\<rparr>,
           update_node i (\<lambda>n. n\<lparr>node_daemonTokenId := tokenId, node_daemonToken := token\<rparr>) d))"

section \<open>The controllers\<close>

definition NodesController_heartbeat ::
  "nat \<Rightarrow> Request \<Rightarrow> HeartbeatDto \<Rightarrow> 'z node_panel_scheme \<Rightarrow> ('z node_panel_scheme, unit) handled" where
  "NodesController_heartbeat now req dto s =
     with_daemon req (\<lambda>node. validated (HeartbeatDto_ok dto)
       (\<lambda>s. (Inr (), NodesService_processHeartbeat now node dto s))) s"

definition NodesController_getConfiguration ::
  "string \<Rightarrow> Request \<Rightarrow> 'z db_scheme \<Rightarrow> ('z db_scheme, NodeConfiguration) handled" where
  "NodesController_getConfiguration appUrl req d =
     with_daemon req (\<lambda>node d. (Inr (NodesService_getConfiguration appUrl node), d)) d"

definition NodesController_findAll ::
  "ext \<Rightarrow> nat \<Rightarrow> Request \<Rightarrow> int option \<Rightarrow> int option \<Rightarrow> string option \<Rightarrow> 'z db_scheme \<Rightarrow>
   ('z db_scheme, NodeEntity paged) handled" where
  "NodesController_findAll X now req page perPage search d =
     with_admin X now req (\<lambda>_ d. (NodesService_findAll X (query_or page 1) (query_or perPage 25) search d, d)) d"

definition NodesController_findById ::
  "ext \<Rightarrow> nat \<Rightarrow> Request \<Rightarrow> string \<Rightarrow> 'z db_scheme \<Rightarrow> ('z db_scheme, NodeEntity \<times> AllocationEntity list) handled" where
  "NodesController_findById X now req i d = with_admin X now req (\<lambda>_ d. (NodesService_findById i d, d)) d"

definition NodesController_getHealth ::
  "ext \<Rightarrow> nat \<Rightarrow> Request \<Rightarrow> string \<Rightarrow> 'z node_panel_scheme \<Rightarrow> ('z node_panel_scheme, NodeHealth) handled" where
  "NodesController_getHealth X now req i s = with_admin X now req (\<lambda>_. NodesService_getHealth now i) s"

definition NodesController_create ::
  "ext \<Rightarrow> nat \<Rightarrow> Request \<Rightarrow> string \<Rightarrow> string \<Rightarrow> string \<Rightarrow> string \<Rightarrow> CreateNodeDto \<Rightarrow> 'z db_scheme \<Rightarrow>
   ('z db_scheme, CreatedNode) handled" where
  "NodesController_create X now req newId tokenId token panelUrl dto d =
     with_admin X now req
       (\<lambda>_. validated (CreateNodeDto_ok dto) (NodesService_create X now newId tokenId token panelUrl dto)) d"

definition NodesController_regenerateToken ::
  "ext \<Rightarrow> nat \<Rightarrow> Request \<Rightarrow> string \<Rightarrow> string \<Rightarrow> string \<Rightarrow> string \<Rightarrow> 'z db_scheme \<Rightarrow> ('z db_scheme, NodeTokens) handled" where
  "NodesController_regenerateToken X now req tokenId token panelUrl i d =
     with_admin X now req (\<lambda>_. NodesService_regenerateToken X tokenId token panelUrl i) d"

definition NodesController_update ::
  "ext \<Rightarrow> nat \<Rightarrow> Request \<Rightarrow> string \<Rightarrow> UpdateNodeDto \<Rightarrow> 'z db_scheme \<Rightarrow> ('z db_scheme, NodeEntity) handled" where
  "NodesController_update X now req i dto d =
     with_admin X now req (\<lambda>_. validated (UpdateNodeDto_ok dto) (NodesService_update i dto)) d"

definition NodesController_delete ::
  "ext \<Rightarrow> nat \<Rightarrow> Request \<Rightarrow> string \<Rightarrow> 'z db_scheme \<Rightarrow> ('z db_scheme, unit) handled" where
  "NodesController_delete X now req i d = with_admin X now req (\<lambda>_. NodesService_delete i) d"

text \<open>\<open>/admin/nodes\<close>.  The list does not load the allocations of its nodes, so that
  \<open>node.allocations ? \<dots> : 0\<close> is 0 in every row.\<close>

record NodeListRow =
  nl_node :: NodeEntity
  nl_location :: "LocationEntity option"
  nl_serverCount :: nat
  nl_allocationCount :: nat
  nl_online :: bool
  nl_memoryUsed :: "rat option"
  nl_memoryTotal :: "rat option"
  nl_diskUsed :: "rat option"
  nl_diskTotal :: "rat option"
  nl_cpuUsage :: "rat option"
  nl_lastHeartbeat :: "nat option"

definition location_of :: "NodeEntity \<Rightarrow> 'z db_scheme \<Rightarrow> LocationEntity option" where
  "location_of n d =
     (case node_locationId n of None \<Rightarrow> None | Some i \<Rightarrow> findOne (\<lambda>l. loc_id l = i) (db_locations d))"

definition node_list_row :: "nat \<Rightarrow> 'z node_panel_scheme \<Rightarrow> NodeEntity \<Rightarrow> NodeListRow" where
  "node_list_row now s node =
     (let heartbeat = NodeHeartbeatStore_get s (node_id node)
      in \<lparr>nl_node = node, nl_location = location_of node s,
          nl_serverCount = countRows (\<lambda>x. server_nodeId x = node_id node) (db_servers s),
          nl_allocationCount = 0, nl_online = NodeHeartbeatStore_isOnline now s (node_id node),
          nl_memoryUsed = map_option hb_usedMemory heartbeat, nl_memoryTotal = map_option hb_totalMemory heartbeat,
          nl_diskUsed = map_option hb_usedDisk heartbeat, nl_diskTotal = map_option hb_totalDisk heartbeat,
          nl_cpuUsage = map_option hb_cpuPercent heartbeat, nl_lastHeartbeat = map_option hb_receivedAt heartbeat\<rparr>)"

definition AdminNodes_findAll ::
  "ext \<Rightarrow> nat \<Rightarrow> Request \<Rightarrow> int option \<Rightarrow> int option \<Rightarrow> string option \<Rightarrow> 'z node_panel_scheme \<Rightarrow>
   ('z node_panel_scheme, NodeListRow paged) handled" where
  "AdminNodes_findAll X now req page perPage search s =
     with_admin X now req
       (\<lambda>_ s. (paginate (query_or page 1) (query_or perPage 25)
          (map (node_list_row now s) (order_desc node_createdAt (findRows (node_search X search) (db_nodes s)))), s)) s"

record NodeDetail =
  nd_node :: NodeEntity
  nd_allocations :: "AllocationEntity list"
  nd_servers :: "ServerEntity list"
  nd_location :: "LocationEntity option"
  nd_online :: bool
  nd_lastHeartbeat :: "HeartbeatData option"

definition AdminNodes_findById ::
  "ext \<Rightarrow> nat \<Rightarrow> Request \<Rightarrow> string \<Rightarrow> 'z node_panel_scheme \<Rightarrow> ('z node_panel_scheme, NodeDetail) handled" where
  "AdminNodes_findById X now req i s =
     with_admin X now req
       (\<lambda>_ s. (case findOne (\<lambda>n. node_id n = i) (db_nodes s) of
                 None \<Rightarrow> (Inl (BadRequestException ''Node not found''), s)
               | Some node \<Rightarrow>
                   (Inr \<lparr>nd_node = node, nd_allocations = findRows (\<lambda>a. alloc_nodeId a = i) (db_allocations s),
                         nd_servers = findRows (\<lambda>x. server_nodeId x = i) (db_servers s),
                         nd_location = location_of node s,
                         nd_online = NodeHeartbeatStore_isOnline now s (node_id node),
                         nd_lastHeartbeat = NodeHeartbeatStore_get s (node_id node)\<rparr>, s))) s"

definition AdminNodes_create ::
  "ext \<Rightarrow> nat \<Rightarrow> Request \<Rightarrow> string \<Rightarrow> string \<Rightarrow> string \<Rightarrow> string \<Rightarrow> CreateNodeDto \<Rightarrow> 'z db_scheme \<Rightarrow>
   ('z db_scheme, CreatedNode) handled" where
  "AdminNodes_create X now req newId tokenId token panelUrl dto d =
     with_admin X now req
       (\<lambda>_. validated (CreateNodeDto_ok dto) (NodesService_create X now newId tokenId token panelUrl dto)) d"

definition AdminNodes_update ::
  "ext \<Rightarrow> nat \<Rightarrow> Request \<Rightarrow> string \<Rightarrow> UpdateNodeDto \<Rightarrow> 'z db_scheme \<Rightarrow> ('z db_scheme, NodeEntity) handled" where
  "AdminNodes_update X now req i dto d =
     with_admin X now req (\<lambda>_. validated (UpdateNodeDto_ok dto) (NodesService_update i dto)) d"

definition AdminNodes_delete ::
  "ext \<Rightarrow> nat \<Rightarrow> Request \<Rightarrow> string \<Rightarrow> 'z db_scheme \<Rightarrow> ('z db_scheme, unit) handled" where
  "AdminNodes_delete X now req i d =
     with_admin X now req
       (\<lambda>_ d. (let serverCount = countRows (\<lambda>s. server_nodeId s = i) (db_servers d)
               in if 0 < serverCount
                  then (Inl (BadRequestException (servers_left_message ''Cannot delete node: '' serverCount
                               '' server(s) are still assigned to it'')), d)
                  else NodesService_delete i d)) d"

section \<open>Daemon tokens\<close>

definition bearer_request :: "string \<Rightarrow> string \<Rightarrow> Request \<Rightarrow> bool" where
  "bearer_request tokenId token req \<longleftrightarrow>
     req_authorization req = Some (bearer_prefix @ daemon_bearer tokenId token)"

text \<open>
  The daemon token of a created node authenticates it: with a new token identifier
  (hexadecimal, so without a dot), the value \<open>tokenId.token\<close> handed to the daemon passes
  \<open>DaemonTokenGuard\<close> as exactly the created node, and the same identifier with another
  secret is refused.
\<close>

theorem created_node_authenticates:
  assumes "NodesService_create X now newId tokenId token panelUrl dto d = (Inr c, d')"
    and "\<not> hasRow (\<lambda>n. node_daemonTokenId n = tokenId \<or> node_id n = newId) (db_nodes d)" and "CHR ''.'' \<notin> set tokenId"
    and "bearer_request tokenId given req"
  shows "DaemonTokenGuard req d' =
    (if given = token then Inr (new_node newId now tokenId token dto)
     else Inl (UnauthorizedException ''Invalid daemon token''))"
proof -
  let ?n = "new_node newId now tokenId token dto"
  have "\<not> hasRow (\<lambda>n. node_id n = newId) (db_nodes d)" using assms(2) by (auto simp: hasRow_iff)
  then have n: "db_nodes d' = db_nodes d @ [?n]"
    using assms(1) by (auto simp: NodesService_create_def Let_def save_node_def map_sum_Inr upsertRow_def insertRow_def
        new_node_def dest!: saveRow_Inr split: sum.splits)
  have "findOne (\<lambda>n. node_daemonTokenId n = tokenId) (db_nodes d) = None"
    using assms(2) by (auto simp: findOne_None hasRow_iff)
  then have "findOne (\<lambda>n. node_daemonTokenId n = tokenId) (db_nodes d') = Some ?n"
    using findOne_insertRow [of "\<lambda>n. node_daemonTokenId n = tokenId" ?n "db_nodes d"]
    by (simp add: n insertRow_def new_node_def)
  then show ?thesis
    using assms(4) unfolding bearer_request_def by (simp add: DaemonTokenGuard_bearer [OF assms(3)] new_node_def)
qed

definition demo_node_dto :: CreateNodeDto where
  "demo_node_dto = \<lparr>cn_name = ''second'', cn_description = None, cn_location = ''eu'', cn_fqdn = ''n2.x'',
     cn_scheme = ''https'', cn_behindProxy = None, cn_memory = 1, cn_memoryOverallocate = None, cn_disk = 1,
     cn_diskOverallocate = None, cn_daemonPort = None, cn_uploadSize = None\<rparr>"

theorem created_node_authenticates_witness:
  "\<exists>c d'. NodesService_create demo_ext 0 ''n2'' ''ab'' ''cd'' [] demo_node_dto demo_full = (Inr c, d') \<and>
     DaemonTokenGuard (demo_request None (Some ''Bearer ab.cd'')) d' = Inr (new_node ''n2'' 0 ''ab'' ''cd'' demo_node_dto)"
proof -
  let ?n = "new_node ''n2'' 0 ''ab'' ''cd'' demo_node_dto"
  have "save_node ?n demo_full = Inr (demo_full\<lparr>db_nodes := [demo_node, ?n]\<rparr>)"
    by (simp add: save_node_def saveRow_def hasRow_def upsertRow_def insertRow_def node_clash_def new_node_def
        demo_node_def demo_node_dto_def)
  then obtain c where c: "NodesService_create demo_ext 0 ''n2'' ''ab'' ''cd'' [] demo_node_dto demo_full =
      (Inr c, demo_full\<lparr>db_nodes := [demo_node, ?n]\<rparr>)"
    by (simp add: NodesService_create_def Let_def)
  from created_node_authenticates [OF c, where given = "''cd''" and req = "demo_request None (Some ''Bearer ab.cd'')"]
  show ?thesis using c by (auto simp: hasRow_def demo_node_def bearer_request_def bearer_prefix_def daemon_bearer_def)
qed

text \<open>
  Regenerating a node's token replaces the old one at once: afterwards the new value
  passes as the node and any value with the old token identifier is refused (the new
  identifier belongs to no node, the old one to this node alone).
\<close>

theorem regenerate_token_replaces:
  assumes "distinct (map node_id (db_nodes d))" and "distinct (map node_daemonTokenId (db_nodes d))" and "n \<in> set (db_nodes d)"
    and "\<not> hasRow (\<lambda>x. node_daemonTokenId x = tokenId) (db_nodes d)"
    and "CHR ''.'' \<notin> set tokenId" and "CHR ''.'' \<notin> set (node_daemonTokenId n)"
  shows "\<exists>t d'. NodesService_regenerateToken X tokenId token panelUrl (node_id n) d = (Inr t, d') \<and>
    (\<forall>req. bearer_request tokenId token req \<longrightarrow>
       DaemonTokenGuard req d' = Inr (n\<lparr>node_daemonTokenId := tokenId, node_daemonToken := token\<rparr>)) \<and>
    (\<forall>req old. bearer_request (node_daemonTokenId n) old req \<longrightarrow>
       DaemonTokenGuard req d' = Inl (UnauthorizedException ''Invalid daemon token''))"
proof -
  let ?f = "\<lambda>n. n\<lparr>node_daemonTokenId := tokenId, node_daemonToken := token\<rparr>"
  let ?d' = "update_node (node_id n) ?f d"
  have n1: "findOne (\<lambda>x. node_id x = node_id n) (db_nodes d) = Some n" using assms(1,3) by (rule findOne_key)
  have ns: "db_nodes ?d' = map (\<lambda>x. if x = n then ?f n else x) (db_nodes d)"
    using assms(1,3) by (auto simp: update_node_def updateRows_def dest: distinct_map_key_eq)
  have other: "node_daemonTokenId x \<noteq> node_daemonTokenId n" if "x \<in> set (db_nodes d)" "x \<noteq> n" for x
    using assms(2,3) that by (auto dest: distinct_map_key_eq)
  have new: "findOne (\<lambda>x. node_daemonTokenId x = tokenId) (db_nodes ?d') = Some (?f n)"
  proof -
    have "findOne (\<lambda>x. node_daemonTokenId x = tokenId) (map (\<lambda>x. if x = n then ?f n else x) t) = Some (?f n)"
      if "n \<in> set t" "\<forall>x \<in> set t. node_daemonTokenId x \<noteq> tokenId" for t
      using that by (induction t) (auto simp: findOne_def)
    then show ?thesis using assms(3,4) by (auto simp: ns hasRow_iff)
  qed
  have old: "findOne (\<lambda>x. node_daemonTokenId x = node_daemonTokenId n) (db_nodes ?d') = None"
    using assms(3,4) other by (auto simp: ns findOne_None hasRow_iff)
  have "NodesService_regenerateToken X tokenId token panelUrl (node_id n) d =
      (Inr \<lparr>nt_nodeId = node_id n, nt_daemonTokenId = tokenId, nt_daemonToken = token,
            nt_configurationToken = configurationToken X panelUrl (node_id n) tokenId token\<rparr>, ?d')"
    using n1 by (simp add: NodesService_regenerateToken_def)
  moreover have "DaemonTokenGuard req ?d' = Inr (?f n)" if "bearer_request tokenId token req" for req
    using that new unfolding bearer_request_def by (simp add: DaemonTokenGuard_bearer [OF assms(5)])
  moreover have "DaemonTokenGuard req ?d' = Inl (UnauthorizedException ''Invalid daemon token'')"
    if "bearer_request (node_daemonTokenId n) x req" for x req
    using that old unfolding bearer_request_def by (simp add: DaemonTokenGuard_bearer [OF assms(6)])
  ultimately show ?thesis by blast
qed

theorem regenerate_token_replaces_witness:
  "\<exists>t d'. NodesService_regenerateToken demo_ext ''ab'' ''cd'' [] ''n1'' demo_full = (Inr t, d') \<and>
     DaemonTokenGuard (demo_request None (Some ''Bearer tid.tok'')) demo_full = Inr demo_node \<and>
     DaemonTokenGuard (demo_request None (Some ''Bearer tid.tok'')) d' = Inl (UnauthorizedException ''Invalid daemon token'')"
proof -
  have "DaemonTokenGuard (demo_request None (Some ''Bearer tid.tok'')) demo_full = Inr demo_node"
    by (simp add: DaemonTokenGuard_def bearer_prefix_def js_startsWith_def Let_def findOne_def demo_node_def)
  then show ?thesis
    using regenerate_token_replaces [where d = demo_full and n = demo_node and tokenId = "''ab''" and token = "''cd''"
        and X = demo_ext and panelUrl = "[]"]
    by (fastforce simp: demo_node_def hasRow_def bearer_request_def bearer_prefix_def daemon_bearer_def)
qed

section \<open>Online and offline\<close>

lemma isOnline_set:
  "NodeHeartbeatStore_isOnline t (NodeHeartbeatStore_set i data s) j =
   (if j = i then int t - int (hb_receivedAt data) < 60000 else NodeHeartbeatStore_isOnline t s j)"
  using heartbeat_map.get_set [of i data s j]
  by (simp add: NodeHeartbeatStore_isOnline_def OFFLINE_THRESHOLD_MS_def)

lemma isOnline_update_node [simp]:
  "NodeHeartbeatStore_isOnline t (update_node i f s) j = NodeHeartbeatStore_isOnline t s j"
  by (simp add: NodeHeartbeatStore_isOnline_def NodeHeartbeatStore_get_def update_node_def)

lemma db_nodes_set [simp]: "db_nodes (NodeHeartbeatStore_set i data s) = db_nodes s"
  by (simp add: NodeHeartbeatStore_set_def)

lemma find_update_node:
  "(\<And>n. node_id (f n) = node_id n) \<Longrightarrow>
   findOne (\<lambda>n. node_id n = j) (db_nodes (update_node i f s)) =
     map_option (\<lambda>n. if node_id n = i then f n else n) (findOne (\<lambda>n. node_id n = j) (db_nodes s))"
  by (simp add: update_node_def findOne_updateRows)

text \<open>
  A heartbeat makes its node online for sixty seconds and no other: after an accepted
  heartbeat received at \<open>now\<close> the node counts as online exactly at the times less than
  60000 ms later and every other node counts as before; a health request reports just that,
  and once it reports the node offline its stored status is not \<open>CONNECTED\<close>.
\<close>

theorem heartbeat_online_window:
  assumes "DaemonTokenGuard req s = Inr n" and "HeartbeatDto_ok dto" and "distinct (map node_id (db_nodes s))"
    and "NodesController_heartbeat now req dto s = (r, s')"
  shows "r = Inr () \<and>
    (\<forall>t j. NodeHeartbeatStore_isOnline t s' j =
       (if j = node_id n then int t < int now + 60000 else NodeHeartbeatStore_isOnline t s j)) \<and>
    (\<forall>t. \<exists>h s''. NodesService_getHealth t (node_id n) s' = (Inr h, s'') \<and>
       nh_online h = (int t < int now + 60000) \<and>
       (\<not> nh_online h \<longrightarrow> (\<exists>m. findOne (\<lambda>x. node_id x = node_id n) (db_nodes s'') = Some m \<and>
          node_connectionStatus m \<noteq> CONNECTED)))"
proof -
  let ?data = "HeartbeatDto.extend dto (HeartbeatData.fields now)"
  let ?s1 = "NodeHeartbeatStore_set (node_id n) ?data s"
  have s': "r = Inr ()" "s' = NodesService_processHeartbeat now n dto s"
    using assms(1,2,4) by (simp_all add: NodesController_heartbeat_def with_daemon_def validated_def)
  have recv: "hb_receivedAt ?data = now" by (simp add: HeartbeatDto.extend_def HeartbeatData.fields_def)
  have on: "NodeHeartbeatStore_isOnline t s' j =
       (if j = node_id n then int t < int now + 60000 else NodeHeartbeatStore_isOnline t s j)" for t j
    unfolding s'(2) NodesService_processHeartbeat_def Let_def
    using isOnline_set [of t "node_id n" ?data s j] by (auto simp: recv)
  have "n \<in> set (db_nodes s)" using DaemonTokenGuard_Inr [OF assms(1)] by simp
  then have "findOne (\<lambda>x. node_id x = node_id n) (db_nodes s) = Some n" using assms(3) by (simp add: findOne_key)
  then have "\<exists>m. findOne (\<lambda>x. node_id x = node_id n) (db_nodes s') = Some m \<and> node_id m = node_id n"
    unfolding s'(2) NodesService_processHeartbeat_def Let_def by (simp add: find_update_node)
  then obtain m where m: "findOne (\<lambda>x. node_id x = node_id n) (db_nodes s') = Some m" "node_id m = node_id n"
    by blast
  have "\<exists>h s''. NodesService_getHealth t (node_id n) s' = (Inr h, s'') \<and> nh_online h = (int t < int now + 60000) \<and>
       (\<not> nh_online h \<longrightarrow> (\<exists>m. findOne (\<lambda>x. node_id x = node_id n) (db_nodes s'') = Some m \<and>
          node_connectionStatus m \<noteq> CONNECTED))" for t
    using m on [of t "node_id n"]
    by (simp add: NodesService_getHealth_def NodesService_findById_def Let_def find_update_node)
  then show ?thesis using s'(1) on by blast
qed

theorem heartbeat_online_window_witness:
  "let s = db.extend demo_full (node_panel.fields []);
       dto = \<lparr>hb_version = ''1'', hb_totalMemory = 1, hb_usedMemory = 1, hb_totalDisk = 1, hb_usedDisk = 1,
              hb_cpuPercent = 50, hb_servers = []\<rparr>;
       s' = snd (NodesController_heartbeat 1000 (demo_request None (Some ''Bearer tid.tok'')) dto s)
   in NodeHeartbeatStore_isOnline 60999 s' ''n1'' \<and> \<not> NodeHeartbeatStore_isOnline 61000 s' ''n1''"
proof -
  let ?s = "db.extend demo_full (node_panel.fields [])"
  let ?dto = "\<lparr>hb_version = ''1'', hb_totalMemory = 1, hb_usedMemory = 1, hb_totalDisk = 1, hb_usedDisk = 1,
              hb_cpuPercent = 50, hb_servers = []\<rparr>"
  have n: "db_nodes ?s = [demo_node]" by (simp add: db.extend_def)
  have g: "DaemonTokenGuard (demo_request None (Some ''Bearer tid.tok'')) ?s = Inr demo_node"
    by (simp add: DaemonTokenGuard_def bearer_prefix_def js_startsWith_def Let_def findOne_def n demo_node_def)
  have "HeartbeatDto_ok ?dto" by (simp add: HeartbeatDto_ok_def)
  from heartbeat_online_window [OF g this _ prod.collapse [symmetric], of 1000]
  show ?thesis by (simp add: Let_def n demo_node_def)
qed


end
