(* ===== verification/Wings.thy ===== *)
theory Wings
  imports Nodes
begin

text \<open>
  \<^verbatim>\<open>wings/wings.service.ts\<close>: the panel's calls to the daemon of a node, over gRPC and
  over HTTP.  The daemon is the parameter \<open>W\<close>: from the calls made so far and the next one
  it gives the answer.  The state records the calls, so that the theorems can say what was
  sent and what was not.
\<close>

section \<open>Calls and answers\<close>

text \<open>\<open>WingsServerConfig\<close> as the requests carry it; \<open>portMappings\<close> are pairs of host and
  container port.\<close>

record WingsServerConfig =
  wc_uuid :: string
  wc_dockerImage :: string
  wc_startupCommand :: string
  wc_environment :: "string js_obj"
  wc_memoryLimit :: int
  wc_cpuLimit :: int
  wc_diskLimit :: int
  wc_portMappings :: "(int \<times> int) list"
  wc_volumePath :: string

datatype grpc_request =
    CreateServer WingsServerConfig string string \<comment> \<open>\<open>server\<close>, \<open>installScript\<close>, \<open>installDockerImage\<close>\<close>
  | DeleteServer string bool \<comment> \<open>\<open>uuid\<close>, \<open>removeVolumes\<close>\<close>
  | SendPowerAction string nat
  | SendCommand string string
  | UpdateResources string int int int \<comment> \<open>memory, cpu, disk\<close>
  | GetServerStatus string
  | GetSystemInfo
  | SyncServerConfig WingsServerConfig
  | ReinstallServer WingsServerConfig string string

record NodeGrpcClient =
  gcl_nodeId :: string
  gcl_address :: string
  gcl_ssl :: bool \<comment> \<open>the credentials the client was created with\<close>

record http_request =
  hr_method :: string
  hr_url :: string
  hr_authorization :: "string option" \<comment> \<open>\<open>None\<close>: the call sets no headers\<close>
  hr_body :: "(string \<times> json) list option"

datatype wings_call =
    Grpc NodeGrpcClient string grpc_request \<comment> \<open>client, \<open>authorization\<close> metadata, request\<close>
  | Http http_request

datatype wings_reply =
    CallFailed string \<comment> \<open>\<open>error.message\<close>\<close>
  | GrpcReply json
  | HttpReply nat "string option" string \<comment> \<open>status, content type, text\<close>

type_synonym wings = "wings_call list \<Rightarrow> wings_call \<Rightarrow> wings_reply"

record wings_panel = node_panel +
  pn_clients :: "(string \<times> NodeGrpcClient) list"
  pn_calls :: "wings_call list"

section \<open>gRPC\<close>

definition grpc_address :: "NodeEntity \<Rightarrow> string" where
  "grpc_address node =
     (let grpcPort = (if node_behindProxy node then node_daemonPort node else node_daemonPort node + 1)
      in node_fqdn node @ '':'' @ show_int grpcPort)"

definition clients_get :: "'z wings_panel_scheme \<Rightarrow> string \<Rightarrow> NodeGrpcClient option" where
  "clients_get s i = map_of (pn_clients s) i"

definition clients_set :: "string \<Rightarrow> NodeGrpcClient \<Rightarrow> 'z wings_panel_scheme \<Rightarrow> 'z wings_panel_scheme" where
  "clients_set i c s = s\<lparr>pn_clients := AList.update i c (pn_clients s)\<rparr>"

definition clients_delete :: "string \<Rightarrow> 'z wings_panel_scheme \<Rightarrow> 'z wings_panel_scheme" where
  "clients_delete i s = s\<lparr>pn_clients := AList.delete i (pn_clients s)\<rparr>"

interpretation clients_map: js_map clients_get clients_set clients_delete
  by unfold_locales (simp_all add: clients_get_def clients_set_def clients_delete_def update_conv' delete_conv')

definition getClient :: "NodeEntity \<Rightarrow> 'z wings_panel_scheme \<Rightarrow> NodeGrpcClient \<times> 'z wings_panel_scheme" where
  "getClient node s =
     (let address = grpc_address node;
          client = \<lparr>gcl_nodeId = node_id node, gcl_address = address, gcl_ssl = (node_scheme node = ''https'')\<rparr>
      in (case clients_get s (node_id node) of
            Some cached \<Rightarrow> if gcl_address cached = address then (cached, s)
                           else (client, clients_set (node_id node) client s)
          | None \<Rightarrow> (client, clients_set (node_id node) client s)))"

definition node_authorization :: "NodeEntity \<Rightarrow> string" where
  "node_authorization node = bearer_prefix @ daemon_bearer (node_daemonTokenId node) (node_daemonToken node)"

definition buildMetadata :: "NodeEntity \<Rightarrow> string" where
  "buildMetadata node = node_authorization node"

definition send_call :: "wings \<Rightarrow> wings_call \<Rightarrow> 'z wings_panel_scheme \<Rightarrow> wings_reply \<times> 'z wings_panel_scheme" where
  "send_call W c s = (W (pn_calls s) c, s\<lparr>pn_calls := pn_calls s @ [c]\<rparr>)"

text \<open>\<open>callGrpc\<close>: the thirty second deadline is one of the failures of \<open>W\<close>.\<close>

definition callGrpc ::
  "wings \<Rightarrow> NodeGrpcClient \<Rightarrow> grpc_request \<Rightarrow> string \<Rightarrow> 'z wings_panel_scheme \<Rightarrow> ('z wings_panel_scheme, json) handled" where
  "callGrpc W client request metadata s =
     (case send_call W (Grpc client metadata request) s of
        (CallFailed m, s1) \<Rightarrow> (Inl (WingsError (''Wings gRPC error: '' @ m)), s1)
      | (GrpcReply r, s1) \<Rightarrow> (Inr r, s1)
      | (HttpReply st ct text, s1) \<Rightarrow> (Inr JNull, s1))"

text \<open>The frame of every gRPC operation: the client, the metadata, the call.\<close>

definition node_grpc :: "wings \<Rightarrow> NodeEntity \<Rightarrow> grpc_request \<Rightarrow> 'z wings_panel_scheme \<Rightarrow> ('z wings_panel_scheme, json) handled" where
  "node_grpc W node request s =
     (case getClient node s of (client, s1) \<Rightarrow> callGrpc W client request (buildMetadata node) s1)"

definition ignore_result :: "('s, 'a) handled \<Rightarrow> ('s, unit) handled" where
  "ignore_result h = (case h of (Inl e, s) \<Rightarrow> (Inl e, s) | (Inr a, s) \<Rightarrow> (Inr (), s))"

fun mapPowerAction :: "PowerAction \<Rightarrow> nat" where
  "mapPowerAction START = 0"
| "mapPowerAction STOP = 1"
| "mapPowerAction RESTART = 2"
| "mapPowerAction KILL = 3"

definition WingsService_createServer ::
  "wings \<Rightarrow> NodeEntity \<Rightarrow> WingsServerConfig \<Rightarrow> string option \<Rightarrow> string option \<Rightarrow> 'z wings_panel_scheme \<Rightarrow>
   ('z wings_panel_scheme, unit) handled" where
  "WingsService_createServer W node serverConfig installScript installImage s =
     ignore_result (node_grpc W node (CreateServer serverConfig (str_or installScript []) (str_or installImage [])) s)"

definition WingsService_deleteServer ::
  "wings \<Rightarrow> NodeEntity \<Rightarrow> string \<Rightarrow> 'z wings_panel_scheme \<Rightarrow> ('z wings_panel_scheme, unit) handled" where
  "WingsService_deleteServer W node serverUuid s = ignore_result (node_grpc W node (DeleteServer serverUuid False) s)"

definition WingsService_powerAction ::
  "wings \<Rightarrow> NodeEntity \<Rightarrow> string \<Rightarrow> PowerAction \<Rightarrow> 'z wings_panel_scheme \<Rightarrow> ('z wings_panel_scheme, unit) handled" where
  "WingsService_powerAction W node serverUuid action s =
     ignore_result (node_grpc W node (SendPowerAction serverUuid (mapPowerAction action)) s)"

definition WingsService_sendCommand ::
  "wings \<Rightarrow> NodeEntity \<Rightarrow> string \<Rightarrow> string \<Rightarrow> 'z wings_panel_scheme \<Rightarrow> ('z wings_panel_scheme, unit) handled" where
  "WingsService_sendCommand W node serverUuid command s =
     ignore_result (node_grpc W node (SendCommand serverUuid command) s)"

definition WingsService_updateResources ::
  "wings \<Rightarrow> NodeEntity \<Rightarrow> string \<Rightarrow> int \<Rightarrow> int \<Rightarrow> int \<Rightarrow> 'z wings_panel_scheme \<Rightarrow> ('z wings_panel_scheme, unit) handled" where
  "WingsService_updateResources W node serverUuid memoryLimit cpuLimit diskLimit s =
     ignore_result (node_grpc W node (UpdateResources serverUuid memoryLimit cpuLimit diskLimit) s)"

definition WingsService_getServerStatus ::
  "wings \<Rightarrow> NodeEntity \<Rightarrow> string \<Rightarrow> 'z wings_panel_scheme \<Rightarrow> ('z wings_panel_scheme, json) handled" where
  "WingsService_getServerStatus W node serverUuid s = node_grpc W node (GetServerStatus serverUuid) s"

definition WingsService_getSystemInfo ::
  "wings \<Rightarrow> NodeEntity \<Rightarrow> 'z wings_panel_scheme \<Rightarrow> ('z wings_panel_scheme, json) handled" where
  "WingsService_getSystemInfo W node s = node_grpc W node GetSystemInfo s"

definition WingsService_syncServerConfig ::
  "wings \<Rightarrow> NodeEntity \<Rightarrow> WingsServerConfig \<Rightarrow> 'z wings_panel_scheme \<Rightarrow> ('z wings_panel_scheme, unit) handled" where
  "WingsService_syncServerConfig W node serverConfig s =
     ignore_result (node_grpc W node (SyncServerConfig serverConfig) s)"

definition WingsService_installServer ::
  "wings \<Rightarrow> NodeEntity \<Rightarrow> WingsServerConfig \<Rightarrow> string \<Rightarrow> string \<Rightarrow> 'z wings_panel_scheme \<Rightarrow>
   ('z wings_panel_scheme, unit) handled" where
  "WingsService_installServer W node serverConfig installScript installImage s =
     ignore_result (node_grpc W node (ReinstallServer serverConfig installScript installImage) s)"

definition WingsService_reinstallServer ::
  "wings \<Rightarrow> NodeEntity \<Rightarrow> WingsServerConfig \<Rightarrow> string \<Rightarrow> string \<Rightarrow> 'z wings_panel_scheme \<Rightarrow>
   ('z wings_panel_scheme, unit) handled" where
  "WingsService_reinstallServer W node serverConfig installScript installImage s =
     WingsService_installServer W node serverConfig installScript installImage s"

section \<open>HTTP\<close>

definition buildHttpUrl :: "NodeEntity \<Rightarrow> string \<Rightarrow> string" where
  "buildHttpUrl node path =
     node_scheme node @ ''://'' @ node_fqdn node @ '':'' @ show_int (node_daemonPort node) @ ''/api'' @ path"

text \<open>\<open>encodeURIComponent\<close>: the unreserved characters stay, any other is the \<open>%XX\<close> of its
  UTF-8 bytes (one below 128, two up to 255).\<close>

definition uri_unreserved :: "char \<Rightarrow> bool" where
  "uri_unreserved c \<longleftrightarrow>
     (let n = of_char c :: nat in (48 \<le> n \<and> n \<le> 57) \<or> (65 \<le> n \<and> n \<le> 90) \<or> (97 \<le> n \<and> n \<le> 122) \<or>
        n \<in> {33, 39, 40, 41, 42, 45, 46, 95, 126})"

definition hex_upper :: "nat \<Rightarrow> char" where
  "hex_upper d = (if d < 10 then char_of (48 + d) else char_of (55 + d))"

definition percent_byte :: "nat \<Rightarrow> string" where
  "percent_byte b = [CHR ''%'', hex_upper (b div 16), hex_upper (b mod 16)]"

definition encode_char :: "char \<Rightarrow> string" where
  "encode_char c =
     (let n = of_char c :: nat
      in if uri_unreserved c then [c]
         else if n < 128 then percent_byte n
         else percent_byte (192 + n div 64) @ percent_byte (128 + n mod 64))"

definition encodeURIComponent :: "string \<Rightarrow> string" where
  "encodeURIComponent s = concat (map encode_char s)"

datatype http_value = JsonText string | PlainText string

definition str_includes :: "string \<Rightarrow> string \<Rightarrow> bool" where
  "str_includes s p = sublist p s"

definition httpRequest ::
  "wings \<Rightarrow> NodeEntity \<Rightarrow> string \<Rightarrow> string \<Rightarrow> (string \<times> json) list option \<Rightarrow> 'z wings_panel_scheme \<Rightarrow>
   ('z wings_panel_scheme, http_value) handled" where
  "httpRequest W node method path body s =
     (case send_call W (Http \<lparr>hr_method = method, hr_url = buildHttpUrl node path,
                              hr_authorization = Some (node_authorization node), hr_body = body\<rparr>) s of
        (CallFailed m, s1) \<Rightarrow> (Inl (WingsError m), s1)
      | (GrpcReply r, s1) \<Rightarrow> (Inr (PlainText []), s1)
      | (HttpReply st contentType text, s1) \<Rightarrow>
          if st < 200 \<or> 299 < st
          then (Inl (WingsError (''Wings HTTP error '' @ show_nat st @ '': '' @ text)), s1)
          else if (case contentType of None \<Rightarrow> False | Some ct \<Rightarrow> str_includes ct ''application/json'')
          then (Inr (JsonText text), s1)
          else (Inr (PlainText text), s1))"

definition files_path :: "string \<Rightarrow> string \<Rightarrow> string" where
  "files_path serverUuid rest = ''/servers/'' @ serverUuid @ ''/files'' @ rest"

definition WingsService_listFiles ::
  "wings \<Rightarrow> NodeEntity \<Rightarrow> string \<Rightarrow> string \<Rightarrow> 'z wings_panel_scheme \<Rightarrow> ('z wings_panel_scheme, http_value) handled" where
  "WingsService_listFiles W node serverUuid filePath s =
     httpRequest W node ''GET'' (files_path serverUuid (''?path='' @ encodeURIComponent filePath)) None s"

definition WingsService_readFile ::
  "wings \<Rightarrow> NodeEntity \<Rightarrow> string \<Rightarrow> string \<Rightarrow> 'z wings_panel_scheme \<Rightarrow> ('z wings_panel_scheme, http_value) handled" where
  "WingsService_readFile W node serverUuid filePath s =
     httpRequest W node ''GET'' (files_path serverUuid (''/read?path='' @ encodeURIComponent filePath)) None s"

definition WingsService_writeFile ::
  "wings \<Rightarrow> NodeEntity \<Rightarrow> string \<Rightarrow> string \<Rightarrow> string \<Rightarrow> 'z wings_panel_scheme \<Rightarrow> ('z wings_panel_scheme, unit) handled" where
  "WingsService_writeFile W node serverUuid filePath content s =
     ignore_result (httpRequest W node ''POST'' (files_path serverUuid ''/write'')
       (Some [(''path'', JStr filePath), (''content'', JStr content)]) s)"

definition WingsService_deleteFiles ::
  "wings \<Rightarrow> NodeEntity \<Rightarrow> string \<Rightarrow> string list \<Rightarrow> 'z wings_panel_scheme \<Rightarrow> ('z wings_panel_scheme, unit) handled" where
  "WingsService_deleteFiles W node serverUuid paths s =
     ignore_result (httpRequest W node ''POST'' (files_path serverUuid ''/delete'')
       (Some [(''paths'', JArr (map JStr paths))]) s)"

definition WingsService_compressFiles ::
  "wings \<Rightarrow> NodeEntity \<Rightarrow> string \<Rightarrow> string list \<Rightarrow> string \<Rightarrow> 'z wings_panel_scheme \<Rightarrow> ('z wings_panel_scheme, unit) handled" where
  "WingsService_compressFiles W node serverUuid paths destination s =
     ignore_result (httpRequest W node ''POST'' (files_path serverUuid ''/compress'')
       (Some [(''paths'', JArr (map JStr paths)), (''destination'', JStr destination)]) s)"

definition WingsService_decompressFile ::
  "wings \<Rightarrow> NodeEntity \<Rightarrow> string \<Rightarrow> string \<Rightarrow> string \<Rightarrow> 'z wings_panel_scheme \<Rightarrow> ('z wings_panel_scheme, unit) handled" where
  "WingsService_decompressFile W node serverUuid filePath destination s =
     ignore_result (httpRequest W node ''POST'' (files_path serverUuid ''/decompress'')
       (Some [(''path'', JStr filePath), (''destination'', JStr destination)]) s)"

definition WingsService_createDirectory ::
  "wings \<Rightarrow> NodeEntity \<Rightarrow> string \<Rightarrow> string \<Rightarrow> 'z wings_panel_scheme \<Rightarrow> ('z wings_panel_scheme, unit) handled" where
  "WingsService_createDirectory W node serverUuid filePath s =
     ignore_result (httpRequest W node ''POST'' (files_path serverUuid ''/directory'')
       (Some [(''path'', JStr filePath)]) s)"

definition WingsService_renameFile ::
  "wings \<Rightarrow> NodeEntity \<Rightarrow> string \<Rightarrow> string \<Rightarrow> string \<Rightarrow> 'z wings_panel_scheme \<Rightarrow> ('z wings_panel_scheme, unit) handled" where
  "WingsService_renameFile W node serverUuid filePath newName s =
     ignore_result (httpRequest W node ''POST'' (files_path serverUuid ''/rename'')
       (Some [(''from'', JStr filePath), (''to'', JStr newName)]) s)"

text \<open>\<open>suspendServer\<close> and \<open>unsuspendServer\<close> have empty bodies.\<close>

definition WingsService_suspendServer :: "NodeEntity \<Rightarrow> string \<Rightarrow> 'z wings_panel_scheme \<Rightarrow> ('z wings_panel_scheme, unit) handled" where
  "WingsService_suspendServer node serverUuid s = (Inr (), s)"

definition WingsService_unsuspendServer :: "NodeEntity \<Rightarrow> string \<Rightarrow> 'z wings_panel_scheme \<Rightarrow> ('z wings_panel_scheme, unit) handled" where
  "WingsService_unsuspendServer node serverUuid s = (Inr (), s)"

text \<open>\<open>checkAvailability\<close>: gRPC, then the HTTP health check (a timeout of five seconds is a
  failure of \<open>W\<close>); no exception leaves it.\<close>

definition WingsService_checkAvailability ::
  "wings \<Rightarrow> NodeEntity \<Rightarrow> 'z wings_panel_scheme \<Rightarrow> bool \<times> 'z wings_panel_scheme" where
  "WingsService_checkAvailability W node s =
     (case node_grpc W node GetSystemInfo s of
        (Inr _, s1) \<Rightarrow> (True, s1)
      | (Inl _, s1) \<Rightarrow>
          (case send_call W (Http \<lparr>hr_method = ''GET'', hr_url = buildHttpUrl node ''/health'',
                                   hr_authorization = None, hr_body = None\<rparr>) s1 of
             (HttpReply st ct text, s2) \<Rightarrow> (200 \<le> st \<and> st \<le> 299, s2)
           | (_, s2) \<Rightarrow> (False, s2)))"

end
