(* ===== verification/Startup.thy ===== *)
theory Startup
  imports VariableValidator "HOL-Library.Multiset"
begin

text \<open>
  Step 8 of \<open>ServersService.create\<close> (\<^verbatim>\<open>servers/servers.service.ts\<close>): every
  environment variable in turn replaces its placeholder in the startup command.
  \<open>String.prototype.replace\<close> with a global regular expression is written out, with the
  \<open>$\<close> patterns of the replacement text; a key that is not a plain word goes to the regular
  expression engine.
\<close>

section \<open>Global replacement\<close>

text \<open>GetSubstitution without captures: \<open>$$\<close>, \<open>$&\<close>, \<open>$`\<close> and \<open>$'\<close>.\<close>

fun expand_replacement :: "string \<Rightarrow> string \<Rightarrow> string \<Rightarrow> string \<Rightarrow> string" where
  "expand_replacement m bef aft [] = []"
| "expand_replacement m bef aft [c] = [c]"
| "expand_replacement m bef aft (c # d # cs) =
     (if c = CHR ''$'' then
        (if d = CHR ''$'' then CHR ''$'' # expand_replacement m bef aft cs
         else if d = CHR ''&'' then m @ expand_replacement m bef aft cs
         else if d = CHR ''`'' then bef @ expand_replacement m bef aft cs
         else if d = CHR 0x27 then aft @ expand_replacement m bef aft cs
         else c # expand_replacement m bef aft (d # cs))
      else c # expand_replacement m bef aft (d # cs))"

text \<open>\<open>bef\<close> is the part of the subject already passed.\<close>

function replace_from :: "string \<Rightarrow> string \<Rightarrow> string \<Rightarrow> string \<Rightarrow> string" where
  "replace_from p r bef s =
     (if p \<noteq> [] \<and> prefix p s then
        expand_replacement p bef (drop (length p) s) r @ replace_from p r (bef @ p) (drop (length p) s)
      else (case s of [] \<Rightarrow> [] | c # cs \<Rightarrow> c # replace_from p r (bef @ [c]) cs))"
  by pat_completeness auto
termination
  by (relation "measure (\<lambda>(p, r, bef, s). length s)") (auto simp: prefix_def)

declare replace_from.simps [simp del]

definition js_replace_all :: "string \<Rightarrow> string \<Rightarrow> string \<Rightarrow> string" where
  "js_replace_all p r s = replace_from p r [] s"

section \<open>The startup command\<close>

definition word_char :: "char \<Rightarrow> bool" where
  "word_char c \<longleftrightarrow> digit_val c \<noteq> None \<or> c = CHR ''_''"

definition placeholder :: "string \<Rightarrow> string" where
  "placeholder k = ''{{'' @ k @ ''}}''"

text \<open>A doubled brace as the regular expression source writes it, each behind a backslash.\<close>

definition escaped_braces :: "char \<Rightarrow> string" where
  "escaped_braces c = [CHR 0x5C, c, CHR 0x5C, c]"

definition substitute :: "ext \<Rightarrow> string \<times> string \<Rightarrow> string \<Rightarrow> string option" where
  "substitute X e startup =
     (if list_all word_char (fst e) then Some (js_replace_all (placeholder (fst e)) (snd e) startup)
      else regexReplaceAll X (escaped_braces (CHR ''{'') @ fst e @ escaped_braces (CHR ''}'')) (snd e) startup)"

fun substitute_all :: "ext \<Rightarrow> (string \<times> string) list \<Rightarrow> string \<Rightarrow> string option" where
  "substitute_all X [] startup = Some startup"
| "substitute_all X (e # es) startup =
     (case substitute X e startup of None \<Rightarrow> None | Some s \<Rightarrow> substitute_all X es s)"

definition build_startup :: "ext \<Rightarrow> string \<Rightarrow> string js_obj \<Rightarrow> string option" where
  "build_startup X startup envVariables = substitute_all X (js_entries envVariables) startup"

section \<open>The reference: templates\<close>

text \<open>A template is a list of literal pieces and named holes; the specification fills all
  holes at once.\<close>

datatype segment = Lit string | Hole string

fun seg_text :: "segment \<Rightarrow> string" where
  "seg_text (Lit s) = s"
| "seg_text (Hole k) = placeholder k"

definition render :: "segment list \<Rightarrow> string" where
  "render ts = concat (map seg_text ts)"

fun fill :: "(string \<Rightarrow> string option) \<Rightarrow> segment \<Rightarrow> segment" where
  "fill env (Lit s) = Lit s"
| "fill env (Hole k) = (case env k of None \<Rightarrow> Hole k | Some v \<Rightarrow> Lit v)"

fun seg_ok :: "segment \<Rightarrow> bool" where
  "seg_ok (Lit s) \<longleftrightarrow> CHR ''{'' \<notin> set s"
| "seg_ok (Hole k) \<longleftrightarrow> CHR ''{'' \<notin> set k \<and> CHR ''}'' \<notin> set k"

definition plain_value :: "string \<Rightarrow> bool" where
  "plain_value v \<longleftrightarrow> CHR ''{'' \<notin> set v \<and> CHR ''$'' \<notin> set v"

section \<open>The sequential replacement fills the template\<close>

lemma expand_plain: "CHR ''$'' \<notin> set r \<Longrightarrow> expand_replacement m bef aft r = r"
  by (induction m bef aft r rule: expand_replacement.induct) auto

lemma replace_nil [simp]: "replace_from (c # p) r bef [] = []"
  by (simp add: replace_from.simps)

lemma replace_skip:
  "c \<notin> set l \<Longrightarrow> replace_from (c # p) r bef (l @ s) = l @ replace_from (c # p) r (bef @ l) s"
proof (induction l arbitrary: bef)
  case Nil
  then show ?case by simp
next
  case (Cons d l)
  then show ?case by (subst replace_from.simps) auto
qed

lemma replace_match:
  "CHR ''$'' \<notin> set r \<Longrightarrow>
   replace_from (c # p) r bef ((c # p) @ s) = r @ replace_from (c # p) r (bef @ c # p) s"
  by (subst replace_from.simps) (simp add: expand_plain)

lemma delimited_prefix_eq:
  "d \<notin> set k \<Longrightarrow> d \<notin> set n \<Longrightarrow> prefix (k @ d # a) (n @ d # b) \<Longrightarrow> k = n"
proof (induction k arbitrary: n)
  case Nil
  then show ?case by (cases n) auto
next
  case (Cons c k)
  then show ?case by (cases n) auto
qed

lemma placeholder_prefix:
  assumes "CHR ''}'' \<notin> set k" "CHR ''}'' \<notin> set n" "prefix (placeholder k) (placeholder n @ s)"
  shows "k = n"
  using assms delimited_prefix_eq [of "CHR ''}''" k n "''}''" "''}'' @ s"]
  by (simp add: placeholder_def)

lemma replace_other:
  assumes "seg_ok (Hole k)" "seg_ok (Hole n)" "k \<noteq> n"
  shows "replace_from (placeholder k) r bef (placeholder n @ s) =
    placeholder n @ replace_from (placeholder k) r (bef @ placeholder n) s"
proof -
  let ?p = "placeholder k"
  define t where "t = n @ ''}}''"
  have pn: "placeholder n = CHR ''{'' # CHR ''{'' # t"
    by (simp add: placeholder_def t_def)
  have t: "CHR ''{'' \<notin> set t" using assms(2) by (simp add: t_def)
  have p: "?p = CHR ''{'' # ''{'' @ k @ ''}}''" by (simp add: placeholder_def)
  have n0: "\<not> prefix ?p (placeholder n @ s)"
    using placeholder_prefix [of k n s] assms by auto
  have "t \<noteq> []" by (simp add: t_def)
  then have n1: "\<not> prefix ?p (CHR ''{'' # t @ s)"
    using t by (cases t) (auto simp: p)
  have "replace_from ?p r bef (placeholder n @ s) =
      CHR ''{'' # replace_from ?p r (bef @ ''{'') (CHR ''{'' # t @ s)"
    using n0 by (subst replace_from.simps) (simp add: pn)
  also have "replace_from ?p r (bef @ ''{'') (CHR ''{'' # t @ s) =
      CHR ''{'' # replace_from ?p r (bef @ ''{{'') (t @ s)"
    using n1 by (subst replace_from.simps) simp
  also have "replace_from ?p r (bef @ ''{{'') (t @ s) = t @ replace_from ?p r (bef @ ''{{'' @ t) s"
    using replace_skip [OF t, of "''{'' @ k @ ''}}''" r "bef @ ''{{''" s] by (simp add: p)
  finally show ?thesis by (simp add: pn)
qed

lemma replace_render:
  assumes "seg_ok (Hole k)" "plain_value r" "list_all seg_ok ts"
  shows "replace_from (placeholder k) r bef (render ts) = render (map (fill [k \<mapsto> r]) ts)"
  using assms(3)
proof (induction ts arbitrary: bef)
  case Nil
  then show ?case by (simp add: render_def placeholder_def)
next
  case (Cons t ts)
  then have ok: "list_all seg_ok ts" by simp
  show ?case
  proof (cases t)
    case (Lit l)
    then have "CHR ''{'' \<notin> set l" using Cons.prems by simp
    then show ?thesis
      using Cons.IH [OF ok] replace_skip [of "CHR ''{''" l "''{'' @ k @ ''}}''" r bef "render ts"]
      by (simp add: Lit render_def placeholder_def)
  next
    case (Hole n)
    show ?thesis
    proof (cases "k = n")
      case True
      then show ?thesis
        using Cons.IH [OF ok] assms(2)
          replace_match [of r "CHR ''{''" "''{'' @ k @ ''}}''" bef "render ts"]
        by (simp add: Hole render_def placeholder_def plain_value_def)
    next
      case False
      then show ?thesis
        using Cons.IH [OF ok] Cons.prems replace_other [of k n r bef "render ts"] assms(1)
        by (simp add: Hole render_def)
    qed
  qed
qed

lemma word_char_ok: "list_all word_char k \<Longrightarrow> seg_ok (Hole k)"
  by (auto simp: list_all_iff word_char_def digit_val_def)

lemma fill_ok: "seg_ok t \<Longrightarrow> plain_value v \<Longrightarrow> seg_ok (fill [k \<mapsto> v] t)"
  by (cases t) (auto simp: plain_value_def)

lemma fill_fill: "k \<notin> dom m \<Longrightarrow> fill m \<circ> fill [k \<mapsto> v] = fill (m(k \<mapsto> v))"
proof
  fix t
  assume "k \<notin> dom m"
  then show "(fill m \<circ> fill [k \<mapsto> v]) t = fill (m(k \<mapsto> v)) t"
    by (cases t) (auto split: option.splits)
qed

lemma fill_empty: "fill Map.empty t = t"
  by (cases t) auto

lemma substitute_all_render:
  assumes "distinct (map fst es)" "list_all (\<lambda>e. list_all word_char (fst e) \<and> plain_value (snd e)) es"
    and "list_all seg_ok ts"
  shows "substitute_all X es (render ts) = Some (render (map (fill (map_of es)) ts))"
  using assms
proof (induction es arbitrary: ts)
  case Nil
  then show ?case by (simp add: fill_empty cong: map_cong)
next
  case (Cons e es)
  obtain k v where e: "e = (k, v)" by force
  let ?ts = "map (fill [k \<mapsto> v]) ts"
  have kv: "list_all word_char k" "plain_value v" using Cons.prems e by auto
  have "substitute X e (render ts) = Some (render ?ts)"
    using kv replace_render [OF word_char_ok [OF kv(1)] kv(2) Cons.prems(3)]
    by (simp add: substitute_def js_replace_all_def e)
  moreover have "list_all seg_ok ?ts"
    using Cons.prems(3) kv(2) by (auto simp: list_all_iff intro: fill_ok)
  moreover have "k \<notin> dom (map_of es)"
    using Cons.prems(1) e by (auto simp: dom_map_of_conv_image_fst)
  moreover have "map (fill (map_of es)) ?ts = map (fill (map_of (e # es))) ts"
    using fill_fill [OF calculation(3)] by (simp add: e)
  ultimately show ?case
    using Cons.IH [of ?ts] Cons.prems(1,2) by (simp add: fun_upd_def del: map_map)
qed

lemma js_entries_mset: "mset (js_entries obj) = mset obj"
  by (simp add: js_entries_def)

lemma js_entries_set [simp]: "set (js_entries obj) = set obj"
  by (metis js_entries_mset set_mset_mset)

lemma js_entries_distinct: "distinct (map fst obj) \<Longrightarrow> distinct (map fst (js_entries obj))"
  by (metis js_entries_mset mset_eq_imp_distinct_iff mset_map)

lemma js_entries_map_of: "distinct (map fst obj) \<Longrightarrow> map_of (js_entries obj) = map_of obj"
  by (rule map_of_eqI) (auto simp: js_entries_distinct map_of_eq_Some_iff)

end
