(* ===== verification/Servers.thy ===== *)
theory Servers
  imports Wings Startup
begin

text \<open>
  \<^verbatim>\<open>servers/servers.service.ts\<close> with its controller, the install callback of the daemon
  and the DTOs: the life of a server, from the checks of its creation to its deletion.
  Loading a server with its relations is \<open>FullServer\<close>; \<open>server.allocation\<close> is the inverse
  side, the allocation whose \<open>serverId\<close> is the server.
\<close>

section \<open>Bodies\<close>

text \<open>An optional property that is \<open>null\<close> counts as absent; the values of \<open>envVariables\<close> are strings.\<close>

record CreateServerDto =
  csd_name :: string
  csd_description :: "string option"
  csd_userId :: string
  csd_nodeId :: string
  csd_eggId :: string
  csd_allocationId :: string
  csd_memory :: int
  csd_cpu :: int
  csd_disk :: int
  csd_envVariables :: "string js_obj option"
  csd_nestId :: string
  csd_swap :: "int option"
  csd_io :: "int option"
  csd_threads :: "string option"
  csd_oomDisabled :: "bool option"
  csd_startup :: "string option"
  csd_image :: "string option"
  csd_externalId :: "string option"

definition CreateServerDto_ok :: "ext \<Rightarrow> CreateServerDto \<Rightarrow> bool" where
  "CreateServerDto_ok X dto \<longleftrightarrow>
     csd_name dto \<noteq> [] \<and> isUUID X (csd_userId dto) \<and> isUUID X (csd_nodeId dto) \<and> isUUID X (csd_eggId dto) \<and>
     isUUID X (csd_allocationId dto) \<and> 64 \<le> csd_memory dto \<and> 1 \<le> csd_cpu dto \<and> 256 \<le> csd_disk dto \<and>
     csd_nestId dto \<noteq> []"

record UpdateServerDto =
  usd_name :: "string option"
  usd_description :: "string option"
  usd_memory :: "int option"
  usd_cpu :: "int option"
  usd_disk :: "int option"
  usd_envVariables :: "string js_obj option"
  usd_swap :: "int option"
  usd_io :: "int option"
  usd_threads :: "string option"
  usd_oomDisabled :: "bool option"
  usd_startup :: "string option"
  usd_image :: "string option"
  usd_externalId :: "string option"

definition UpdateServerDto_ok :: "UpdateServerDto \<Rightarrow> bool" where
  "UpdateServerDto_ok dto \<longleftrightarrow>
     opt_ok (\<lambda>n. 64 \<le> n) (usd_memory dto) \<and> opt_ok (\<lambda>n. 1 \<le> n) (usd_cpu dto) \<and> opt_ok (\<lambda>n. 256 \<le> n) (usd_disk dto)"

definition ConsoleCommandDto_ok :: "string \<Rightarrow> bool" where
  "ConsoleCommandDto_ok command \<longleftrightarrow> command \<noteq> []"

section \<open>Loading\<close>

record FullServer =
  fs_server :: ServerEntity
  fs_node :: "NodeEntity option"
  fs_egg :: "EggEntity option"
  fs_allocation :: "AllocationEntity option"
  fs_user :: "UserEntity option"

definition load_server :: "'z db_scheme \<Rightarrow> ServerEntity \<Rightarrow> FullServer" where
  "load_server d s =
     \<lparr>fs_server = s, fs_node = findOne (\<lambda>n. node_id n = server_nodeId s) (db_nodes d),
      fs_egg = findOne (\<lambda>e. egg_id e = server_eggId s) (db_eggs d),
      fs_allocation = findOne (\<lambda>a. alloc_serverId a = Some (server_id s)) (db_allocations d),
      fs_user = findOne (\<lambda>u. user_id u = server_userId s) (db_users d)\<rparr>"

definition server_visible :: "ext \<Rightarrow> string option \<Rightarrow> bool \<Rightarrow> string option \<Rightarrow> ServerEntity \<Rightarrow> bool" where
  "server_visible X userId isAdmin search s \<longleftrightarrow>
     (\<not> isAdmin \<and> truthy_str userId \<longrightarrow> Some (server_userId s) = userId) \<and>
     (case search of None \<Rightarrow> True | Some q \<Rightarrow> q = [] \<or> sqlILike X (server_name s) (like_pattern q))"

definition ServersService_findAll ::
  "ext \<Rightarrow> int \<Rightarrow> int \<Rightarrow> string option \<Rightarrow> bool \<Rightarrow> string option \<Rightarrow> 'z db_scheme \<Rightarrow> exn + FullServer paged" where
  "ServersService_findAll X page perPage userId isAdmin search d =
     paginate page perPage
       (map (load_server d)
          (order_desc server_createdAt (findRows (server_visible X userId isAdmin search) (db_servers d))))"

definition ServersService_findByUuid :: "string \<Rightarrow> 'z db_scheme \<Rightarrow> exn + FullServer" where
  "ServersService_findByUuid uuid d =
     (case findOne (\<lambda>s. server_uuid s = uuid) (db_servers d) of
        None \<Rightarrow> Inl (NotFoundException ''Server not found'')
      | Some s \<Rightarrow> Inr (load_server d s))"

definition ServersService_findById :: "string \<Rightarrow> 'z db_scheme \<Rightarrow> exn + FullServer" where
  "ServersService_findById i d =
     (case findOne (\<lambda>s. server_id s = i) (db_servers d) of
        None \<Rightarrow> Inl (NotFoundException ''Server not found'')
      | Some s \<Rightarrow> Inr (load_server d s))"

definition ServersService_checkAccess :: "ServerEntity \<Rightarrow> string \<Rightarrow> bool \<Rightarrow> exn + unit" where
  "ServersService_checkAccess server userId isAdmin =
     (if isAdmin then Inr ()
      else if server_userId server \<noteq> userId then Inl (ForbiddenException ''You do not have access to this server'')
      else Inr ())"

section \<open>Creation\<close>

text \<open>\<open>max = total * (1 + over / 100)\<close> in doubles; every operation rounds.\<close>

definition max_capacity :: "int \<Rightarrow> int \<Rightarrow> rat" where
  "max_capacity amount over = rnd (rnd (of_int amount) * rnd (1 + rnd (rnd (of_int over) / 100)))"

definition capacity_error :: "string \<Rightarrow> int \<Rightarrow> int \<Rightarrow> int \<Rightarrow> int \<Rightarrow> exn option" where
  "capacity_error what amount over allocated requested =
     (let maximum = max_capacity amount over
      in if maximum < rnd (rnd (of_int allocated) + rnd (of_int requested))
         then Some (BadRequestException (''Not enough '' @ what @ '' on node. Available: '' @
                show_int \<lfloor>rnd (maximum - rnd (of_int allocated))\<rfloor> @ ''MB, Requested: '' @ show_int requested @ ''MB''))
         else None)"

definition node_sum :: "(ServerEntity \<Rightarrow> int) \<Rightarrow> string \<Rightarrow> 'z db_scheme \<Rightarrow> int" where
  "node_sum f nodeId d = sum_list (map f (filter (\<lambda>s. server_nodeId s = nodeId) (db_servers d)))"

definition resolve_variables :: "string js_obj option \<Rightarrow> EggVariableEntity list \<Rightarrow> string js_obj" where
  "resolve_variables given vs =
     fold (\<lambda>v env. js_set (eggvar_envVariable v)
             (case given of None \<Rightarrow> eggvar_defaultValue v
              | Some g \<Rightarrow> nullish (js_get g (eggvar_envVariable v)) (eggvar_defaultValue v)) env) vs []"

definition egg_var_spec :: "EggVariableEntity \<Rightarrow> var_spec" where
  "egg_var_spec v = \<lparr>vs_envVariable = eggvar_envVariable v, vs_name = eggvar_name v, vs_rules = eggvar_rules v,
                     vs_defaultValue = eggvar_defaultValue v\<rparr>"

text \<open>What the insertion draws: the identifier and the \<open>uuid\<close> (of the database), the random
  short code (of the \<open>@BeforeInsert\<close> hook, before the database has given the uuid).\<close>

record server_draws =
  sd_id :: string
  sd_uuid :: string
  sd_hex :: string

definition new_server :: "server_draws \<Rightarrow> nat \<Rightarrow> CreateServerDto \<Rightarrow> string \<Rightarrow> string \<Rightarrow> string js_obj \<Rightarrow> ServerEntity" where
  "new_server dr now dto startup img env =
     (generateUuidShort (sd_hex dr)
       \<lparr>server_id = sd_id dr, server_externalId = csd_externalId dto, server_uuid = [], server_uuidShort = [],
        server_name = csd_name dto, server_description = csd_description dto, server_userId = csd_userId dto,
        server_nodeId = csd_nodeId dto, server_nestId = csd_nestId dto, server_eggId = csd_eggId dto,
        server_allocationId = csd_allocationId dto, server_memory = csd_memory dto,
        server_swap = nullish (csd_swap dto) 0, server_disk = csd_disk dto, server_io = nullish (csd_io dto) 500,
        server_cpu = csd_cpu dto, server_threads = csd_threads dto,
        server_oomDisabled = nullish (csd_oomDisabled dto) False, server_startup = startup, server_image = img,
        server_envVariables = env, server_installed = 0, server_status = Some INSTALLING, server_createdAt = now\<rparr>)
      \<lparr>server_uuid := sd_uuid dr\<rparr>"

text \<open>The transaction: the server row, then the allocation; a failure leaves neither.\<close>

definition server_transaction :: "ServerEntity \<Rightarrow> AllocationEntity \<Rightarrow> 'z db_scheme \<Rightarrow> exn + 'z db_scheme" where
  "server_transaction server allocation d =
     (case save_server server d of
        Inl e \<Rightarrow> Inl e
      | Inr d1 \<Rightarrow> save_allocation (allocation\<lparr>alloc_serverId := Some (server_id server)\<rparr>) d1)"

definition wings_config :: "ServerEntity \<Rightarrow> AllocationEntity \<Rightarrow> WingsServerConfig" where
  "wings_config server allocation =
     \<lparr>wc_uuid = server_uuid server, wc_dockerImage = server_image server,
      wc_startupCommand = server_startup server, wc_environment = server_envVariables server,
      wc_memoryLimit = server_memory server, wc_cpuLimit = server_cpu server, wc_diskLimit = server_disk server,
      wc_portMappings = [(alloc_port allocation, alloc_port allocation)],
      wc_volumePath = ''/srv/daemon-data/'' @ server_uuid server\<rparr>"

definition update_server :: "string \<Rightarrow> (ServerEntity \<Rightarrow> ServerEntity) \<Rightarrow> 'z db_scheme \<Rightarrow> 'z db_scheme" where
  "update_server i f d = d\<lparr>db_servers := updateRows (\<lambda>s. server_id s = i) f (db_servers d)\<rparr>"

text \<open>The \<open>message\<close> of a caught error.\<close>

fun exn_message :: "exn \<Rightarrow> string" where
  "exn_message (WingsError m) = m"
| "exn_message (NotFoundException m) = m"
| "exn_message (BadRequestException m) = m"
| "exn_message _ = []"

text \<open>Steps 1 to 9: what is checked before anything is written, in the order of the source.\<close>

definition create_checks ::
  "ext \<Rightarrow> CreateServerDto \<Rightarrow> NodeEntity \<Rightarrow> 'z db_scheme \<Rightarrow> exn + (AllocationEntity \<times> string \<times> string \<times> string js_obj)" where
  "create_checks X dto node d =
     (case findOne (\<lambda>e. egg_id e = csd_eggId dto) (db_eggs d) of
        None \<Rightarrow> Inl (NotFoundException ''Egg not found'')
      | Some egg \<Rightarrow>
     (case findOne (\<lambda>a. alloc_id a = csd_allocationId dto) (db_allocations d) of
        None \<Rightarrow> Inl (NotFoundException ''Allocation not found'')
      | Some allocation \<Rightarrow>
     if alloc_nodeId allocation \<noteq> csd_nodeId dto
     then Inl (BadRequestException ''Allocation does not belong to the specified node'')
     else if truthy_str (alloc_serverId allocation)
     then Inl (BadRequestException ''Allocation is already assigned to a server'')
     else
     (case findOne (\<lambda>u. user_id u = csd_userId dto) (db_users d) of
        None \<Rightarrow> Inl (NotFoundException ''User not found'')
      | Some user \<Rightarrow>
     (case capacity_error ''memory'' (node_memory node) (node_memoryOverallocate node)
             (node_sum server_memory (csd_nodeId dto) d) (csd_memory dto) of
        Some e \<Rightarrow> Inl e
      | None \<Rightarrow>
     (case capacity_error ''disk'' (node_disk node) (node_diskOverallocate node)
             (node_sum server_disk (csd_nodeId dto) d) (csd_disk dto) of
        Some e \<Rightarrow> Inl e
      | None \<Rightarrow>
     (let eggVariables = findRows (\<lambda>v. eggvar_eggId v = csd_eggId dto) (db_eggVariables d);
          envVariables = resolve_variables (csd_envVariables dto) eggVariables;
          validation = validateServerVariables X envVariables (map egg_var_spec eggVariables)
      in if \<not> sv_valid validation
         then Inl (BadRequestErrors ''Variable validation failed'' (sv_errors validation))
         else (case build_startup X (egg_startup egg) envVariables of
                 None \<Rightarrow> Inl SyntaxError
               | Some startup \<Rightarrow>
                   Inr (allocation, startup, str_or (csd_image dto) (egg_dockerImage egg), envVariables))))))))"

text \<open>Step 12: the creation command, and the status when it fails.\<close>

definition create_on_wings ::
  "wings \<Rightarrow> string \<Rightarrow> 'z wings_panel_scheme \<Rightarrow> ('z wings_panel_scheme, FullServer) handled" where
  "create_on_wings W i s =
     (case ServersService_findById i s of
        Inl e \<Rightarrow> (Inl e, s)
      | Inr full \<Rightarrow>
          (let outcome =
             (case (fs_node full, fs_egg full, fs_allocation full) of
                (Some node, Some egg, Some allocation) \<Rightarrow>
                  WingsService_createServer W node (wings_config (fs_server full) allocation)
                    (egg_scriptInstall egg) (Some (egg_scriptContainer egg)) s
              | _ \<Rightarrow> (Inl TypeError, s))
           in (case outcome of
                 (Inr (), s1) \<Rightarrow> (Inr full, s1)
               | (Inl e, s1) \<Rightarrow>
                   (Inl (BadRequestException (''Failed to create server on Wings: '' @ exn_message e)),
                    update_server i (server_status_update (\<lambda>_. Some INSTALL_FAILED)) s1))))"

definition ServersService_create ::
  "ext \<Rightarrow> wings \<Rightarrow> nat \<Rightarrow> server_draws \<Rightarrow> CreateServerDto \<Rightarrow> 'z wings_panel_scheme \<Rightarrow>
   ('z wings_panel_scheme, FullServer) handled" where
  "ServersService_create X W now dr dto s =
     (case findOne (\<lambda>n. node_id n = csd_nodeId dto) (db_nodes s) of
        None \<Rightarrow> (Inl (NotFoundException ''Node not found''), s)
      | Some node \<Rightarrow>
          if \<not> NodeHeartbeatStore_isOnline now s (node_id node)
          then (Inl (BadRequestException ''Node is offline''), s)
          else
            (case WingsService_checkAvailability W node s of
               (False, s1) \<Rightarrow> (Inl (BadRequestException ''Wings daemon is not reachable on this node''), s1)
             | (True, s1) \<Rightarrow>
                 (case create_checks X dto node s1 of
                    Inl e \<Rightarrow> (Inl e, s1)
                  | Inr (allocation, startup, img, env) \<Rightarrow>
                      (let server = new_server dr now dto startup img env
                       in (case server_transaction server allocation s1 of
                             Inl e \<Rightarrow> (Inl e, s1)
                           | Inr s2 \<Rightarrow> create_on_wings W (server_id server) s2)))))"

section \<open>The other operations\<close>

text \<open>A call on \<open>server.node\<close>; without a node the property access throws.\<close>

definition on_node ::
  "FullServer \<Rightarrow> (NodeEntity \<Rightarrow> 's \<Rightarrow> ('s, 'a) handled) \<Rightarrow> 's \<Rightarrow> ('s, 'a) handled" where
  "on_node full h s = (case fs_node full of None \<Rightarrow> (Inl TypeError, s) | Some node \<Rightarrow> h node s)"

definition assign_server :: "UpdateServerDto \<Rightarrow> ServerEntity \<Rightarrow> ServerEntity" where
  "assign_server dto s =
     s\<lparr>server_name := nullish (usd_name dto) (server_name s),
       server_description := (case usd_description dto of None \<Rightarrow> server_description s | Some x \<Rightarrow> Some x),
       server_memory := nullish (usd_memory dto) (server_memory s),
       server_cpu := nullish (usd_cpu dto) (server_cpu s),
       server_disk := nullish (usd_disk dto) (server_disk s),
       server_envVariables := nullish (usd_envVariables dto) (server_envVariables s),
       server_swap := nullish (usd_swap dto) (server_swap s),
       server_io := nullish (usd_io dto) (server_io s),
       server_threads := (case usd_threads dto of None \<Rightarrow> server_threads s | Some x \<Rightarrow> Some x),
       server_oomDisabled := nullish (usd_oomDisabled dto) (server_oomDisabled s),
       server_startup := nullish (usd_startup dto) (server_startup s),
       server_image := nullish (usd_image dto) (server_image s),
       server_externalId := (case usd_externalId dto of None \<Rightarrow> server_externalId s | Some x \<Rightarrow> Some x)\<rparr>"

definition ServersService_update ::
  "string \<Rightarrow> UpdateServerDto \<Rightarrow> 'z db_scheme \<Rightarrow> ('z db_scheme, ServerEntity) handled" where
  "ServersService_update uuid dto d =
     (case ServersService_findByUuid uuid d of
        Inl e \<Rightarrow> (Inl e, d)
      | Inr full \<Rightarrow>
          (let server = assign_server dto (fs_server full)
           in (case save_server server d of Inl e \<Rightarrow> (Inl e, d) | Inr d1 \<Rightarrow> (Inr server, d1))))"

definition release_allocation :: "FullServer \<Rightarrow> 'z db_scheme \<Rightarrow> 'z db_scheme" where
  "release_allocation full d =
     (case fs_allocation full of
        None \<Rightarrow> d
      | Some a \<Rightarrow> d\<lparr>db_allocations := updateRows (\<lambda>x. alloc_id x = alloc_id a) (alloc_serverId_update (\<lambda>_. None))
                    (db_allocations d)\<rparr>)"

definition ServersService_delete ::
  "wings \<Rightarrow> string \<Rightarrow> 'z wings_panel_scheme \<Rightarrow> ('z wings_panel_scheme, unit) handled" where
  "ServersService_delete W uuid s =
     (case ServersService_findByUuid uuid s of
        Inl e \<Rightarrow> (Inl e, s)
      | Inr full \<Rightarrow>
          (let s1 = snd (on_node full (\<lambda>node. WingsService_deleteServer W node (server_uuid (fs_server full))) s);
               s2 = release_allocation full s1
           in (case remove_server (server_id (fs_server full)) s2 of
                 Inl e \<Rightarrow> (Inl e, s2) | Inr s3 \<Rightarrow> (Inr (), s3))))"

definition ServersService_power ::
  "wings \<Rightarrow> string \<Rightarrow> PowerAction \<Rightarrow> 'z wings_panel_scheme \<Rightarrow> ('z wings_panel_scheme, unit) handled" where
  "ServersService_power W uuid action s =
     (case ServersService_findByUuid uuid s of
        Inl e \<Rightarrow> (Inl e, s)
      | Inr full \<Rightarrow>
          if server_status (fs_server full) = Some INSTALLING
          then (Inl (BadRequestException ''Cannot perform power action on a server that is still installing''), s)
          else if server_status (fs_server full) = Some SUSPENDED
          then (Inl (BadRequestException ''Cannot perform power action on a suspended server''), s)
          else on_node full (\<lambda>node. WingsService_powerAction W node (server_uuid (fs_server full)) action) s)"

definition ServersService_sendCommand ::
  "wings \<Rightarrow> string \<Rightarrow> string \<Rightarrow> 'z wings_panel_scheme \<Rightarrow> ('z wings_panel_scheme, unit) handled" where
  "ServersService_sendCommand W uuid command s =
     (case ServersService_findByUuid uuid s of
        Inl e \<Rightarrow> (Inl e, s)
      | Inr full \<Rightarrow> on_node full (\<lambda>node. WingsService_sendCommand W node (server_uuid (fs_server full)) command) s)"

definition ServersService_getStats ::
  "wings \<Rightarrow> string \<Rightarrow> 'z wings_panel_scheme \<Rightarrow> ('z wings_panel_scheme, json) handled" where
  "ServersService_getStats W uuid s =
     (case ServersService_findByUuid uuid s of
        Inl e \<Rightarrow> (Inl e, s)
      | Inr full \<Rightarrow> on_node full (\<lambda>node. WingsService_getServerStatus W node (server_uuid (fs_server full))) s)"

definition ServersService_suspend ::
  "wings \<Rightarrow> string \<Rightarrow> 'z wings_panel_scheme \<Rightarrow> ('z wings_panel_scheme, FullServer) handled" where
  "ServersService_suspend W i s =
     (case ServersService_findById i s of
        Inl e \<Rightarrow> (Inl e, s)
      | Inr full \<Rightarrow>
          if server_status (fs_server full) = Some SUSPENDED
          then (Inl (BadRequestException ''Server is already suspended''), s)
          else (let s1 = snd (on_node full (\<lambda>node. WingsService_powerAction W node (server_uuid (fs_server full)) KILL) s);
                    s2 = update_server (server_id (fs_server full)) (server_status_update (\<lambda>_. Some SUSPENDED)) s1;
                    s3 = snd (on_node full (\<lambda>node. WingsService_suspendServer node (server_uuid (fs_server full))) s2)
                in (ServersService_findById i s3, s3)))"

definition ServersService_unsuspend ::
  "string \<Rightarrow> 'z wings_panel_scheme \<Rightarrow> ('z wings_panel_scheme, FullServer) handled" where
  "ServersService_unsuspend i s =
     (case ServersService_findById i s of
        Inl e \<Rightarrow> (Inl e, s)
      | Inr full \<Rightarrow>
          if server_status (fs_server full) \<noteq> Some SUSPENDED
          then (Inl (BadRequestException ''Server is not suspended''), s)
          else (let s1 = update_server (server_id (fs_server full)) (server_status_update (\<lambda>_. None)) s;
                    s2 = snd (on_node full (\<lambda>node. WingsService_unsuspendServer node (server_uuid (fs_server full))) s1)
                in (ServersService_findById i s2, s2)))"

definition ServersService_reinstall ::
  "wings \<Rightarrow> string \<Rightarrow> 'z wings_panel_scheme \<Rightarrow> ('z wings_panel_scheme, FullServer) handled" where
  "ServersService_reinstall W i s =
     (case ServersService_findById i s of
        Inl e \<Rightarrow> (Inl e, s)
      | Inr full \<Rightarrow>
          (let s1 = update_server (server_id (fs_server full)) (server_installed_update (\<lambda>_. 0)) s;
               outcome =
                 (case (fs_node full, fs_egg full, fs_allocation full) of
                    (Some node, Some egg, Some allocation) \<Rightarrow>
                      WingsService_reinstallServer W node (wings_config (fs_server full) allocation)
                        (str_or (egg_scriptInstall egg) []) (egg_scriptContainer egg) s1
                  | _ \<Rightarrow> (Inl TypeError, s1))
           in (case outcome of
                 (Inr (), s2) \<Rightarrow> (ServersService_findById i s2, s2)
               | (Inl e, s2) \<Rightarrow>
                   (Inl (BadRequestException (''Failed to reinstall server on Wings: '' @ exn_message e)), s2))))"

definition ServersService_updateInstallStatus ::
  "string \<Rightarrow> string \<Rightarrow> 'z db_scheme \<Rightarrow> ('z db_scheme, unit) handled" where
  "ServersService_updateInstallStatus uuid status d =
     (case findOne (\<lambda>s. server_uuid s = uuid) (db_servers d) of
        None \<Rightarrow> (Inl (NotFoundException ''Server not found''), d)
      | Some server \<Rightarrow>
          if status = ''success''
          then (Inr (), update_server (server_id server) (\<lambda>s. s\<lparr>server_installed := 1, server_status := None\<rparr>) d)
          else (Inr (), update_server (server_id server) (\<lambda>s. s\<lparr>server_installed := 2, server_status := Some INSTALL_FAILED\<rparr>) d))"

section \<open>The controllers\<close>

text \<open>\<open>findByUuid\<close> then \<open>checkAccess\<close>, as every route on one server begins.\<close>

definition with_server_access ::
  "string \<Rightarrow> AuthUser \<Rightarrow> (FullServer \<Rightarrow> 'z db_scheme \<Rightarrow> ('z db_scheme, 'a) handled) \<Rightarrow>
   'z db_scheme \<Rightarrow> ('z db_scheme, 'a) handled" where
  "with_server_access uuid user h d =
     (case ServersService_findByUuid uuid d of
        Inl e \<Rightarrow> (Inl e, d)
      | Inr full \<Rightarrow>
          (case ServersService_checkAccess (fs_server full) (au_id user) (au_rootAdmin user) of
             Inl e \<Rightarrow> (Inl e, d)
           | Inr () \<Rightarrow> h full d))"

definition ServersController_findAll ::
  "ext \<Rightarrow> nat \<Rightarrow> Request \<Rightarrow> int option \<Rightarrow> int option \<Rightarrow> string option \<Rightarrow> 'z db_scheme \<Rightarrow>
   ('z db_scheme, FullServer paged) handled" where
  "ServersController_findAll X now req page perPage search d =
     with_user X now req
       (\<lambda>u d. (ServersService_findAll X (query_or page 1) (query_or perPage 25) (Some (au_id u)) (au_rootAdmin u) search d, d)) d"

definition ServersController_findByUuid ::
  "ext \<Rightarrow> nat \<Rightarrow> Request \<Rightarrow> string \<Rightarrow> 'z db_scheme \<Rightarrow> ('z db_scheme, FullServer) handled" where
  "ServersController_findByUuid X now req uuid d =
     with_user X now req (\<lambda>u. with_server_access uuid u (\<lambda>full d. (Inr full, d))) d"

definition ServersController_create ::
  "ext \<Rightarrow> wings \<Rightarrow> nat \<Rightarrow> Request \<Rightarrow> server_draws \<Rightarrow> CreateServerDto \<Rightarrow> 'z wings_panel_scheme \<Rightarrow>
   ('z wings_panel_scheme, FullServer) handled" where
  "ServersController_create X W now req dr dto s =
     with_admin X now req (\<lambda>_. validated (CreateServerDto_ok X dto) (ServersService_create X W now dr dto)) s"

definition ServersController_update ::
  "ext \<Rightarrow> nat \<Rightarrow> Request \<Rightarrow> string \<Rightarrow> UpdateServerDto \<Rightarrow> 'z db_scheme \<Rightarrow> ('z db_scheme, ServerEntity) handled" where
  "ServersController_update X now req uuid dto d =
     with_user X now req (\<lambda>u. validated (UpdateServerDto_ok dto)
       (with_server_access uuid u (\<lambda>_. ServersService_update uuid dto))) d"

definition ServersController_delete ::
  "ext \<Rightarrow> wings \<Rightarrow> nat \<Rightarrow> Request \<Rightarrow> string \<Rightarrow> 'z wings_panel_scheme \<Rightarrow> ('z wings_panel_scheme, unit) handled" where
  "ServersController_delete X W now req uuid s = with_admin X now req (\<lambda>_. ServersService_delete W uuid) s"

definition ServersController_power ::
  "ext \<Rightarrow> wings \<Rightarrow> nat \<Rightarrow> Request \<Rightarrow> string \<Rightarrow> PowerAction \<Rightarrow> 'z wings_panel_scheme \<Rightarrow> ('z wings_panel_scheme, unit) handled" where
  "ServersController_power X W now req uuid action s =
     with_user X now req (\<lambda>u. with_server_access uuid u (\<lambda>_. ServersService_power W uuid action)) s"

definition ServersController_sendCommand ::
  "ext \<Rightarrow> wings \<Rightarrow> nat \<Rightarrow> Request \<Rightarrow> string \<Rightarrow> string \<Rightarrow> 'z wings_panel_scheme \<Rightarrow> ('z wings_panel_scheme, unit) handled" where
  "ServersController_sendCommand X W now req uuid command s =
     with_user X now req (\<lambda>u. validated (ConsoleCommandDto_ok command)
       (with_server_access uuid u (\<lambda>_. ServersService_sendCommand W uuid command))) s"

definition by_uuid ::
  "string \<Rightarrow> (string \<Rightarrow> 'z db_scheme \<Rightarrow> ('z db_scheme, 'a) handled) \<Rightarrow> 'z db_scheme \<Rightarrow> ('z db_scheme, 'a) handled" where
  "by_uuid uuid h d =
     (case ServersService_findByUuid uuid d of
        Inl e \<Rightarrow> (Inl e, d) | Inr full \<Rightarrow> h (server_id (fs_server full)) d)"

definition ServersController_suspend ::
  "ext \<Rightarrow> wings \<Rightarrow> nat \<Rightarrow> Request \<Rightarrow> string \<Rightarrow> 'z wings_panel_scheme \<Rightarrow> ('z wings_panel_scheme, FullServer) handled" where
  "ServersController_suspend X W now req uuid s =
     with_admin X now req (\<lambda>_. by_uuid uuid (ServersService_suspend W)) s"

definition ServersController_unsuspend ::
  "ext \<Rightarrow> nat \<Rightarrow> Request \<Rightarrow> string \<Rightarrow> 'z wings_panel_scheme \<Rightarrow> ('z wings_panel_scheme, FullServer) handled" where
  "ServersController_unsuspend X now req uuid s =
     with_admin X now req (\<lambda>_. by_uuid uuid ServersService_unsuspend) s"

definition ServersController_reinstall ::
  "ext \<Rightarrow> wings \<Rightarrow> nat \<Rightarrow> Request \<Rightarrow> string \<Rightarrow> 'z wings_panel_scheme \<Rightarrow> ('z wings_panel_scheme, FullServer) handled" where
  "ServersController_reinstall X W now req uuid s =
     with_admin X now req (\<lambda>_. by_uuid uuid (ServersService_reinstall W)) s"

text \<open>The callback of the daemon: any node's token, any server's uuid.\<close>

definition ServerCallbacks_installStatus ::
  "Request \<Rightarrow> string \<Rightarrow> string \<Rightarrow> 'z db_scheme \<Rightarrow> ('z db_scheme, unit) handled" where
  "ServerCallbacks_installStatus req uuid status d =
     with_daemon req
       (\<lambda>_ d. if status \<notin> {''success'', ''failed''}
              then (Inl (BadRequestException (''Invalid status: must be '' @ CHR 0x22 # ''success'' @ CHR 0x22 # '' or '' @
                      CHR 0x22 # ''failed'' @ [CHR 0x22])), d)
              else ServersService_updateInstallStatus uuid status d) d"

end
