(* ===== verification/WingsProps.thy ===== *)
theory WingsProps
  imports Wings AuthProps
begin

text \<open>
  What leaves the panel towards a node's daemon: every call goes to the address of the node
  with its current token, the database does not change on the way, and the paths of the file
  calls stay inside their query parameter.
\<close>

section \<open>The frame of a call\<close>

definition grpc_call :: "NodeEntity \<Rightarrow> grpc_request \<Rightarrow> 'z wings_panel_scheme \<Rightarrow> wings_call" where
  "grpc_call node request s = Grpc (fst (getClient node s)) (node_authorization node) request"

definition after_call :: "NodeEntity \<Rightarrow> grpc_request \<Rightarrow> 'z wings_panel_scheme \<Rightarrow> 'z wings_panel_scheme" where
  "after_call node request s =
     s\<lparr>pn_clients := pn_clients (snd (getClient node s)), pn_calls := pn_calls s @ [grpc_call node request s]\<rparr>"

lemma getClient_state: "snd (getClient node s) = s\<lparr>pn_clients := pn_clients (snd (getClient node s))\<rparr>"
  by (simp add: getClient_def clients_set_def Let_def split: option.splits)

lemma getClient_address: "gcl_address (fst (getClient node s)) = grpc_address node"
  by (simp add: getClient_def Let_def split: option.splits)

lemma node_grpc_state: "snd (node_grpc W node request s) = after_call node request s"
proof -
  obtain c s1 where g: "getClient node s = (c, s1)" by force
  then have c: "pn_calls s1 = pn_calls s" and s1: "s\<lparr>pn_clients := pn_clients s1\<rparr> = s1"
    using getClient_state [of node s] by (auto dest: arg_cong [where f = pn_calls])
  have "after_call node request s = s1\<lparr>pn_calls := pn_calls s @ [Grpc c (node_authorization node) request]\<rparr>"
    using s1 by (simp add: after_call_def grpc_call_def g)
  then show ?thesis
    by (simp add: node_grpc_def callGrpc_def send_call_def g buildMetadata_def c split: wings_reply.splits)
qed

lemma node_grpc_pair: "node_grpc W node request s = (fst (node_grpc W node request s), after_call node request s)"
  by (metis node_grpc_state prod.collapse)

lemma ignore_result_state [simp]: "snd (ignore_result h) = snd h"
  by (simp add: ignore_result_def split: prod.splits sum.splits)

lemma ignore_result_Inr: "fst (ignore_result h) = Inr () \<longleftrightarrow> (\<exists>a. fst h = Inr a)"
  by (cases h; cases "fst h") (simp_all add: ignore_result_def)

lemma after_call_sel [simp]:
  "pn_calls (after_call node request s) = pn_calls s @ [grpc_call node request s]"
  "db_servers (after_call node request s) = db_servers s"
  "db_users (after_call node request s) = db_users s"
  "db_nodes (after_call node request s) = db_nodes s"
  "db_eggs (after_call node request s) = db_eggs s"
  "db_eggVariables (after_call node request s) = db_eggVariables s"
  "db_allocations (after_call node request s) = db_allocations s"
  "pn_heartbeats (after_call node request s) = pn_heartbeats s"
  "db.truncate (after_call node request s) = db.truncate s"
  by (simp_all add: after_call_def db.truncate_def)

section \<open>Where the calls go\<close>

text \<open>\<open>request\<close> was sent to the daemon of \<open>node\<close>, once, and the panel's own state is as before.\<close>

definition called :: "NodeEntity \<Rightarrow> grpc_request \<Rightarrow> 'z wings_panel_scheme \<Rightarrow> 'z wings_panel_scheme \<Rightarrow> bool" where
  "called node request s s' \<longleftrightarrow>
     (\<exists>c. gcl_nodeId c = node_id node \<and>
        gcl_address c = node_fqdn node @ '':'' @
          show_int (if node_behindProxy node then node_daemonPort node else node_daemonPort node + 1) \<and>
        pn_calls s' = pn_calls s @
          [Grpc c (bearer_prefix @ daemon_bearer (node_daemonTokenId node) (node_daemonToken node)) request]) \<and>
     db.truncate s' = db.truncate s \<and> pn_heartbeats s' = pn_heartbeats s"

text \<open>The cache maps a node's identifier to a client of that node.\<close>

definition clients_ok :: "'z wings_panel_scheme \<Rightarrow> bool" where
  "clients_ok s \<longleftrightarrow> (\<forall>i c. clients_get s i = Some c \<longrightarrow> gcl_nodeId c = i)"

lemma getClient_ok:
  assumes "clients_ok s"
  shows "gcl_nodeId (fst (getClient node s)) = node_id node" and "clients_ok (snd (getClient node s))"
  using assms
  by (auto simp: clients_ok_def getClient_def Let_def clients_map.get_set split: option.splits)

lemma clients_ok_calls [simp]: "clients_ok (s\<lparr>pn_calls := x\<rparr>) = clients_ok s"
  by (simp add: clients_ok_def clients_get_def)

lemma called_after: "clients_ok s \<Longrightarrow> called node request s (after_call node request s)"
  by (auto simp: called_def grpc_call_def getClient_address grpc_address_def Let_def node_authorization_def
      getClient_ok(1))

text \<open>One HTTP call to the daemon of \<open>node\<close>, under its token.\<close>

definition http_called ::
  "NodeEntity \<Rightarrow> string \<Rightarrow> string \<Rightarrow> (string \<times> json) list option \<Rightarrow> 'z wings_panel_scheme \<Rightarrow> 'z wings_panel_scheme \<Rightarrow> bool" where
  "http_called node method path body s s' \<longleftrightarrow>
     s' = s\<lparr>pn_calls := pn_calls s @
       [Http \<lparr>hr_method = method,
              hr_url = node_scheme node @ ''://'' @ node_fqdn node @ '':'' @ show_int (node_daemonPort node) @ ''/api'' @ path,
              hr_authorization = Some (bearer_prefix @ daemon_bearer (node_daemonTokenId node) (node_daemonToken node)),
              hr_body = body\<rparr>]\<rparr>"

lemma http_called_request: "http_called node method path body s (snd (httpRequest W node method path body s))"
  by (simp add: http_called_def httpRequest_def send_call_def buildHttpUrl_def node_authorization_def split: wings_reply.split)

text \<open>
  C39. What each operation of \<open>WingsService\<close> sends to the daemon of the given node.  The ten gRPC
  operations send exactly one call each, to the address of the node
  (the port itself behind a proxy, the port plus one otherwise) under the node's current
  token, carrying the request of that operation for that server, and the eight operations on
  files one HTTP request each, to the node's own port under the same token; whatever the daemon answers,
  the database and the heartbeats stay as they are, and the client cache stays consistent.
  Suspending sends nothing.  \<open>checkAvailability\<close> asks \<open>GetSystemInfo\<close>, and when that fails
  \<^verbatim>\<open>/api/health\<close> as well, the one call without a token; it answers whether either succeeded.
\<close>

theorem wings_call_target:
  assumes "clients_ok s"
  shows "called node (CreateServer config (str_or script []) (str_or img [])) s
           (snd (WingsService_createServer W node config script img s)) \<and>
    called node (DeleteServer uuid False) s (snd (WingsService_deleteServer W node uuid s)) \<and>
    called node (SendPowerAction uuid (mapPowerAction action)) s (snd (WingsService_powerAction W node uuid action s)) \<and>
    called node (SendCommand uuid command) s (snd (WingsService_sendCommand W node uuid command s)) \<and>
    called node (UpdateResources uuid mem cpu disk) s (snd (WingsService_updateResources W node uuid mem cpu disk s)) \<and>
    called node (GetServerStatus uuid) s (snd (WingsService_getServerStatus W node uuid s)) \<and>
    called node GetSystemInfo s (snd (WingsService_getSystemInfo W node s)) \<and>
    called node (SyncServerConfig config) s (snd (WingsService_syncServerConfig W node config s)) \<and>
    called node (ReinstallServer config script' image') s (snd (WingsService_installServer W node config script' image' s)) \<and>
    called node (ReinstallServer config script' image') s (snd (WingsService_reinstallServer W node config script' image' s)) \<and>
    clients_ok (snd (node_grpc W node request s)) \<and>
    http_called node ''GET'' (''/servers/'' @ uuid @ ''/files?path='' @ encodeURIComponent path) None s
      (snd (WingsService_listFiles W node uuid path s)) \<and>
    http_called node ''GET'' (''/servers/'' @ uuid @ ''/files/read?path='' @ encodeURIComponent path) None s
      (snd (WingsService_readFile W node uuid path s)) \<and>
    http_called node ''POST'' (''/servers/'' @ uuid @ ''/files/write'') (Some [(''path'', JStr path), (''content'', JStr content)]) s
      (snd (WingsService_writeFile W node uuid path content s)) \<and>
    http_called node ''POST'' (''/servers/'' @ uuid @ ''/files/delete'') (Some [(''paths'', JArr (map JStr paths))]) s
      (snd (WingsService_deleteFiles W node uuid paths s)) \<and>
    http_called node ''POST'' (''/servers/'' @ uuid @ ''/files/compress'')
      (Some [(''paths'', JArr (map JStr paths)), (''destination'', JStr dest)]) s (snd (WingsService_compressFiles W node uuid paths dest s)) \<and>
    http_called node ''POST'' (''/servers/'' @ uuid @ ''/files/decompress'') (Some [(''path'', JStr path), (''destination'', JStr dest)]) s
      (snd (WingsService_decompressFile W node uuid path dest s)) \<and>
    http_called node ''POST'' (''/servers/'' @ uuid @ ''/files/directory'') (Some [(''path'', JStr path)]) s
      (snd (WingsService_createDirectory W node uuid path s)) \<and>
    http_called node ''POST'' (''/servers/'' @ uuid @ ''/files/rename'') (Some [(''from'', JStr path), (''to'', JStr dest)]) s
      (snd (WingsService_renameFile W node uuid path dest s)) \<and>
    snd (WingsService_suspendServer node uuid s) = s \<and> snd (WingsService_unsuspendServer node uuid s) = s \<and>
    (case WingsService_getSystemInfo W node s of
       (Inr info, s1) \<Rightarrow> WingsService_checkAvailability W node s = (True, s1)
     | (Inl e, s1) \<Rightarrow>
         let health = Http \<lparr>hr_method = ''GET'',
               hr_url = node_scheme node @ ''://'' @ node_fqdn node @ '':'' @ show_int (node_daemonPort node) @ ''/api/health'',
               hr_authorization = None, hr_body = None\<rparr>
         in WingsService_checkAvailability W node s =
              ((\<exists>st ct body. W (pn_calls s1) health = HttpReply st ct body \<and> 200 \<le> st \<and> st \<le> 299),
               s1\<lparr>pn_calls := pn_calls s1 @ [health]\<rparr>))"
proof -
  have "clients_ok (after_call node request s)"
    using getClient_ok(2) [OF assms] getClient_state [of node s] by (simp add: after_call_def)
  moreover have "case WingsService_getSystemInfo W node s of
       (Inr info, s1) \<Rightarrow> WingsService_checkAvailability W node s = (True, s1)
     | (Inl e, s1) \<Rightarrow>
         let health = Http \<lparr>hr_method = ''GET'',
               hr_url = node_scheme node @ ''://'' @ node_fqdn node @ '':'' @ show_int (node_daemonPort node) @ ''/api/health'',
               hr_authorization = None, hr_body = None\<rparr>
         in WingsService_checkAvailability W node s =
              ((\<exists>st ct body. W (pn_calls s1) health = HttpReply st ct body \<and> 200 \<le> st \<and> st \<le> 299),
               s1\<lparr>pn_calls := pn_calls s1 @ [health]\<rparr>)"
    by (auto simp: WingsService_getSystemInfo_def WingsService_checkAvailability_def send_call_def buildHttpUrl_def Let_def
        split: prod.split sum.split wings_reply.split)
  moreover note http_called_request [of node _ _ _ s W]
  ultimately show ?thesis
    unfolding WingsService_listFiles_def WingsService_readFile_def WingsService_writeFile_def WingsService_deleteFiles_def
      WingsService_compressFiles_def WingsService_decompressFile_def WingsService_createDirectory_def WingsService_renameFile_def
      ignore_result_state
    by (simp add: WingsService_createServer_def WingsService_deleteServer_def WingsService_powerAction_def
      WingsService_sendCommand_def WingsService_updateResources_def WingsService_getServerStatus_def
      WingsService_syncServerConfig_def WingsService_suspendServer_def WingsService_unsuspendServer_def WingsService_getSystemInfo_def
      WingsService_reinstallServer_def WingsService_installServer_def node_grpc_state called_after [OF assms] files_path_def)
qed

definition demo_panel :: wings_panel where
  "demo_panel = node_panel.extend (db.extend demo_full
     (node_panel.fields [(''n1'', \<lparr>hb_version = ''1'', hb_totalMemory = 1, hb_usedMemory = 1, hb_totalDisk = 1,
        hb_usedDisk = 1, hb_cpuPercent = 50, hb_servers = [], hb_receivedAt = 0\<rparr>)]))
     (wings_panel.fields [] [])"

lemma demo_panel_sel [simp]:
  "db_users demo_panel = [demo_user ''u1'' ''ann'' True, demo_user ''u2'' ''bob'' False]"
  "db_nodes demo_panel = [demo_node]" "db_servers demo_panel = [demo_server]"
  "db_allocations demo_panel = [demo_allocation ''al1'' 2000 (Some ''s1''), demo_allocation ''al2'' 2001 None]"
  "db_eggs demo_panel = [demo_egg]" "db_eggVariables demo_panel = [demo_eggVariable]"
  "pn_clients demo_panel = []" "pn_calls demo_panel = []"
  by (simp_all add: demo_panel_def node_panel.extend_def db.extend_def node_panel.fields_def wings_panel.fields_def)


lemma demo_clients_ok: "clients_ok demo_panel"
  by (simp add: clients_ok_def clients_get_def)

theorem wings_call_target_witness:
  "\<exists>c. gcl_address c = ''n1.x:8081'' \<and>
     pn_calls (snd (WingsService_powerAction (\<lambda>_ _. CallFailed []) demo_node ''uuid-1'' KILL demo_panel)) =
       [Grpc c ''Bearer tid.tok'' (SendPowerAction ''uuid-1'' 3)]"
proof -
  have n: "show_int 8081 = ''8081''" by (simp add: show_int_def show_nat.simps digit_char_def char_of_def bit_Suc_0_iff bit_0)
  have "called demo_node (SendPowerAction ''uuid-1'' (mapPowerAction KILL)) demo_panel
      (snd (WingsService_powerAction (\<lambda>_ _. CallFailed []) demo_node ''uuid-1'' KILL demo_panel))"
    using wings_call_target [OF demo_clients_ok, where node = demo_node and uuid = "''uuid-1''" and action = KILL
        and W = "\<lambda>_ _. CallFailed []"]
    by blast
  then show ?thesis
    by (auto simp: called_def demo_node_def n bearer_prefix_def daemon_bearer_def)
qed

text \<open>
  A client is cached for a node's address: asking again gives the same client unless the
  address changed, and then a new one with the node's present scheme.  So a node switched
  between http and https at the same address keeps the credentials of its first call.
\<close>

theorem cached_client:
  assumes "getClient node s = (c, s1)" and "node_id node' = node_id node"
  shows "fst (getClient node' s1) =
    (if grpc_address node' = grpc_address node then c
     else \<lparr>gcl_nodeId = node_id node, gcl_address = grpc_address node', gcl_ssl = (node_scheme node' = ''https'')\<rparr>)"
proof -
  have c: "clients_get s1 (node_id node) = Some c" and a: "gcl_address c = grpc_address node"
    using assms(1) by (auto simp: getClient_def Let_def clients_map.get_set split: option.splits if_splits)
  then show ?thesis using assms(2) by (auto simp: getClient_def Let_def)
qed

theorem cached_client_witness:
  "let (c, s1) = getClient (demo_node\<lparr>node_scheme := ''http''\<rparr>) demo_panel in
     \<not> gcl_ssl c \<and> fst (getClient demo_node s1) = c"
proof -
  obtain c s1 where g: "getClient (demo_node\<lparr>node_scheme := ''http''\<rparr>) demo_panel = (c, s1)" by force
  have "\<not> gcl_ssl c"
    using g by (auto simp: getClient_def clients_get_def Let_def demo_node_def)
  moreover have "grpc_address (demo_node\<lparr>node_scheme := ''http''\<rparr>) = grpc_address demo_node"
    by (simp add: grpc_address_def)
  ultimately show ?thesis using cached_client [OF g, of demo_node] by (simp add: g)
qed

section \<open>Paths in a query\<close>

text \<open>\<open>decodeURIComponent\<close> for the bytes \<open>encodeURIComponent\<close> writes.\<close>

definition hex_val :: "char \<Rightarrow> nat" where
  "hex_val c = (let n = of_char c in if n < 58 then n - 48 else n - 55)"

definition byte_val :: "char \<Rightarrow> char \<Rightarrow> nat" where
  "byte_val a b = 16 * hex_val a + hex_val b"

fun uri_decode :: "string \<Rightarrow> string" where
  "uri_decode (c # a # b # r) =
     (if c \<noteq> CHR ''%'' then c # uri_decode (a # b # r)
      else if byte_val a b < 128 then char_of (byte_val a b) # uri_decode r
      else (case r of
              _ # x # y # r' \<Rightarrow> char_of ((byte_val a b - 192) * 64 + (byte_val x y - 128)) # uri_decode r'
            | _ \<Rightarrow> []))"
| "uri_decode s = s"

lemma hex_val_upper: "d < 16 \<Longrightarrow> hex_val (hex_upper d) = d"
  by (simp add: hex_val_def hex_upper_def Let_def)

lemma byte_val_percent: "b < 256 \<Longrightarrow> byte_val (hex_upper (b div 16)) (hex_upper (b mod 16)) = b"
  by (simp add: byte_val_def hex_val_upper)

lemma uri_decode_plain: "c \<noteq> CHR ''%'' \<Longrightarrow> uri_decode (c # r) = c # uri_decode r"
  by (cases r; cases "tl r") auto

lemma uri_decode_encode_char: "uri_decode (encode_char c @ r) = c # uri_decode r"
proof -
  let ?n = "of_char c :: nat"
  have n: "?n < 256" by simp
  consider "uri_unreserved c" | "\<not> uri_unreserved c" "?n < 128" | "\<not> uri_unreserved c" "\<not> ?n < 128" by blast
  then show ?thesis
  proof cases
    case 1
    then have "c \<noteq> CHR ''%''" by (auto simp: uri_unreserved_def Let_def)
    then show ?thesis using 1 by (simp add: encode_char_def uri_decode_plain)
  next
    case 2
    then show ?thesis by (simp add: encode_char_def percent_byte_def Let_def byte_val_percent)
  next
    case 3
    have d: "?n div 64 < 64" by (rule less_mult_imp_div_less) (use n in linarith)
    have "?n mod 64 < 64" by simp
    then have "128 + ?n mod 64 < 256" by linarith
    then show ?thesis using 3 d
      by (simp add: encode_char_def percent_byte_def Let_def byte_val_percent)
  qed
qed

text \<open>
  A path survives the query string of the file calls: \<open>encodeURIComponent\<close> is undone by
  decoding, and it leaves nothing in it that ends the parameter (\<open>&\<close>, \<open>#\<close>, \<open>=\<close>, \<open>?\<close>, \<open>/\<close>, \<open>+\<close>,
  a space): two paths never give the same request.
\<close>

theorem encoded_path_roundtrip:
  "uri_decode (encodeURIComponent s) = s \<and>
   set (encodeURIComponent s) \<inter> set ''&#=?/+ '' = {}"
proof
  show "uri_decode (encodeURIComponent s) = s"
    by (induction s) (simp_all add: encodeURIComponent_def uri_decode_encode_char)
  have codes: "c \<in> set ''&#=?/+ '' \<Longrightarrow> of_char c \<in> {38, 35, 61, 63, 47, 43, 32 :: nat}" for c :: char
    by auto
  have h: "hex_upper d \<notin> set ''&#=?/+ ''" if "d < 16" for d
  proof
    assume "hex_upper d \<in> set ''&#=?/+ ''"
    then have "of_char (hex_upper d) \<in> {38, 35, 61, 63, 47, 43, 32 :: nat}" by (rule codes)
    with that show False by (auto simp: hex_upper_def split: if_splits)
  qed
  have p: "set (percent_byte b) \<inter> set ''&#=?/+ '' = {}" if "b < 256" for b
    using h [of "b div 16"] h [of "b mod 16"] that by (simp add: percent_byte_def)
  have "set (encode_char c) \<inter> set ''&#=?/+ '' = {}" for c
  proof (cases "uri_unreserved c")
    case True
    then have "c \<notin> set ''&#=?/+ ''" by (auto simp: uri_unreserved_def Let_def)
    then show ?thesis using True by (simp add: encode_char_def)
  next
    case False
    let ?n = "of_char c :: nat"
    have n: "?n < 256" by simp
    have "?n div 64 < 64" by (rule less_mult_imp_div_less) (use n in linarith)
    moreover have "?n mod 64 < 64" by simp
    ultimately have m: "192 + ?n div 64 < 256" "128 + ?n mod 64 < 256" by linarith+
    show ?thesis using False p [OF n] p [OF m(1)] p [OF m(2)]
      unfolding encode_char_def Let_def by (simp only: if_False set_append Int_Un_distrib2 Un_empty split: if_split) simp
  qed
  then show "set (encodeURIComponent s) \<inter> set ''&#=?/+ '' = {}"
    by (fastforce simp: encodeURIComponent_def)
qed

end
