(* ===== verification/Rounding.thy ===== *)
theory Rounding
  imports JsNumber
begin

text \<open>
  What the rounding of doubles guarantees: integers up to \<open>2\<^sup>5\<^sup>3\<close> are exact, and a rounded
  number is at most one part in \<open>2\<^sup>5\<^sup>3\<close> above the exact one.
\<close>

lemma pow2_pos [simp]: "0 < pow2 e"
  by (simp add: pow2_def)

lemma pow2_nat: "pow2 (int k) = 2 ^ k"
  by (simp add: pow2_def)

lemma pow2_add: "pow2 (a + b) = pow2 a * pow2 b"
proof -
  have p: "pow2 e = 2 powi e" for e
    unfolding pow2_def power_int_def divide_inverse by (simp only: mult_1_left power_inverse)
  show ?thesis unfolding p by (rule power_int_add) simp
qed

lemma pow2_mono: "a \<le> b \<Longrightarrow> pow2 a \<le> pow2 b"
proof -
  assume "a \<le> b"
  then have "pow2 b = pow2 a * 2 ^ nat (b - a)"
    using pow2_add [of a "b - a"] pow2_nat [of "nat (b - a)"] by simp
  moreover have "pow2 a * 1 \<le> pow2 a * 2 ^ nat (b - a)"
    by (intro mult_left_mono) (simp_all add: less_imp_le)
  ultimately show ?thesis by simp
qed

lemma bitlen_rat_bounds:
  assumes "0 < p"
  shows "pow2 (bitlen p - 1) \<le> of_int p" and "of_int p < pow2 (bitlen p)"
proof -
  have b: "2 ^ nat (bitlen p - 1) \<le> p" "p < 2 ^ nat (bitlen p)" and pos: "0 < bitlen p"
    using bitlen_bounds [OF assms] bitlen_eq_zero_iff [of p] bitlen_nonneg [of p] assms by linarith+
  have "of_int (2 ^ nat (bitlen p - 1)) \<le> (of_int p :: rat)" using b(1) by (simp only: of_int_le_iff)
  moreover have "(of_int p :: rat) < of_int (2 ^ nat (bitlen p))" using b(2) by (simp only: of_int_less_iff)
  ultimately show "pow2 (bitlen p - 1) \<le> of_int p" "of_int p < pow2 (bitlen p)"
    using pos by (simp_all add: pow2_def)
qed

lemma log2_floor_le: 
  assumes "0 < x"
  shows "pow2 (log2_floor x) \<le> x"
proof -
  obtain p q where pq: "quotient_of x = (p, q)" by force
  have q: "0 < q" using quotient_of_denom_pos [OF pq] .
  have x: "x = of_int p / of_int q" using quotient_of_div [OF pq] .
  have p: "0 < p" using assms q by (simp add: x zero_less_divide_iff)
  let ?e = "bitlen p - bitlen q"
  have "pow2 (bitlen p - 1) = pow2 (?e - 1) * pow2 (bitlen q)"
    using pow2_add [of "?e - 1" "bitlen q"] by simp
  then have "pow2 (?e - 1) * pow2 (bitlen q) \<le> of_int p" using bitlen_rat_bounds [OF p] by simp
  moreover have "pow2 (?e - 1) * of_int q \<le> pow2 (?e - 1) * pow2 (bitlen q)"
    using bitlen_rat_bounds(2) [OF q] by (intro mult_left_mono) (simp_all add: less_imp_le)
  ultimately have "pow2 (?e - 1) * of_int q \<le> of_int p" by (rule order_trans [rotated])
  then have "pow2 (?e - 1) \<le> x" using q by (simp add: x pos_le_divide_eq)
  then show ?thesis by (simp add: log2_floor_def pq Let_def)
qed

lemma round_half_even_int [simp]: "round_half_even (of_int n) = n"
  by (simp add: round_half_even_def Let_def)

lemma round_half_even_ge: "y - 1 / 2 \<le> of_int (round_half_even y)"
proof -
  let ?f = "\<lfloor>y\<rfloor>"
  have "y < of_int ?f + 1" by linarith
  moreover have "round_half_even y = ?f \<and> y - of_int ?f \<le> 1 / 2 \<or> round_half_even y = ?f + 1"
    by (auto simp: round_half_even_def Let_def)
  ultimately show ?thesis
  proof (elim disjE conjE)
    assume "round_half_even y = ?f" "y - of_int ?f \<le> 1 / 2"
    then show ?thesis by linarith
  next
    assume "round_half_even y = ?f + 1" "y < of_int ?f + 1"
    then show ?thesis unfolding of_int_add of_int_1 by linarith
  qed
qed

lemma round_half_even_le: "of_int (round_half_even y) \<le> y + 1 / 2"
proof -
  let ?f = "\<lfloor>y\<rfloor>"
  have "of_int ?f \<le> y" by simp
  moreover have "round_half_even y = ?f \<or> round_half_even y = ?f + 1 \<and> 1 / 2 \<le> y - of_int ?f"
    by (auto simp: round_half_even_def Let_def)
  ultimately show ?thesis
  proof (elim disjE conjE)
    assume "round_half_even y = ?f"
    with \<open>of_int ?f \<le> y\<close> show ?thesis by linarith
  next
    assume "round_half_even y = ?f + 1" "1 / 2 \<le> y - of_int ?f"
    then show ?thesis unfolding of_int_add by linarith
  qed
qed

lemma rnd_multiple:
  assumes "ulp (of_int n) = pow2 k" and "k \<le> 0"
  shows "rnd (of_int n) = of_int n"
proof -
  define m :: nat where "m = nat (- k)"
  have "pow2 k = 1 / 2 ^ m" using assms(2) by (cases "k = 0") (simp_all add: pow2_def m_def)
  then have u: "ulp (of_int n) = 1 / 2 ^ m" using assms(1) by simp
  have "of_int n / ulp (of_int n) = of_int (n * 2 ^ m)" by (simp add: u)
  then have "round_half_even (of_int n / ulp (of_int n)) = n * 2 ^ m" by (simp only: round_half_even_int)
  then show ?thesis by (simp add: rnd_def u)
qed

lemma rnd_int:
  assumes "\<bar>n\<bar> < 2 ^ 53"
  shows "rnd (of_int n) = of_int n"
proof (cases "n = 0")
  case True
  then show ?thesis by (simp add: rnd_def)
next
  case False
  let ?x = "of_int n :: rat"
  let ?k = "max (log2_floor \<bar>?x\<bar> - 52) (-1074)"
  have x: "0 < \<bar>?x\<bar>" using False by simp
  have "\<bar>?x\<bar> < of_int (2 ^ 53)" unfolding of_int_abs [symmetric] of_int_less_iff by (rule assms)
  then have "\<bar>?x\<bar> < pow2 53" by (simp add: pow2_def)
  then have "pow2 (log2_floor \<bar>?x\<bar>) < pow2 53" using log2_floor_le [OF x] by (rule order_le_less_trans [rotated])
  then have "\<not> 53 \<le> log2_floor \<bar>?x\<bar>" using pow2_mono by (metis not_less)
  then have k: "?k \<le> 0" by simp
  have u: "ulp ?x = pow2 ?k" by (simp add: ulp_def)
  show ?thesis using False rnd_multiple [OF u k] by simp
qed

text \<open>At least \<open>2\<^sup>-\<^sup>1\<^sup>0\<^sup>2\<^sup>2\<close>, a number is normal, and its last place is at most \<open>2\<^sup>-\<^sup>5\<^sup>2\<close> of it.\<close>

lemma rnd_bounds:
  assumes "x = 0 \<or> pow2 (-1022) \<le> x"
  shows "rnd x \<le> x * (1 + 1 / 2 ^ 53) \<and> x * (1 - 1 / 2 ^ 53) \<le> rnd x"
proof (cases "x = 0")
  case True
  then show ?thesis by (simp add: rnd_def)
next
  case False
  then have lo: "pow2 (-1022) \<le> x" using assms by simp
  then have x: "0 < x" using pow2_pos [of "-1022"] by linarith
  let ?l = "log2_floor x"
  have u: "ulp x \<le> x / 2 ^ 52"
  proof (cases "-1022 \<le> ?l")
    case True
    then have "ulp x = pow2 (?l + (- 52))" using x by (simp add: ulp_def)
    also have "\<dots> = pow2 ?l / 2 ^ 52" unfolding pow2_add by (simp add: pow2_def)
    finally show ?thesis using log2_floor_le [OF x] by (simp add: divide_right_mono)
  next
    case False
    then have "ulp x = pow2 (-1022 + (- 52))" using x by (simp add: ulp_def)
    also have "\<dots> = pow2 (-1022) / 2 ^ 52" unfolding pow2_add by (simp add: pow2_def)
    finally show ?thesis using lo by (simp add: divide_right_mono)
  qed
  have up: "0 < ulp x" by (simp add: ulp_def)
  have "rnd x \<le> (x / ulp x + 1 / 2) * ulp x"
    using False up round_half_even_le [of "x / ulp x"] by (simp add: rnd_def mult_right_mono)
  also have "\<dots> = x + ulp x / 2" using up by (simp add: field_simps)
  also have "\<dots> \<le> x + x / 2 ^ 52 / 2" using u by simp
  also have "\<dots> = x * (1 + 1 / 2 ^ 53)" by (simp add: field_simps)
  finally have le: "rnd x \<le> x * (1 + 1 / 2 ^ 53)" .
  have "x * (1 - 1 / 2 ^ 53) = x - x / 2 ^ 52 / 2" by (simp add: field_simps)
  also have "\<dots> \<le> x - ulp x / 2" using u by simp
  also have "\<dots> = (x / ulp x - 1 / 2) * ulp x" using up by (simp add: field_simps)
  also have "\<dots> \<le> rnd x"
    using False up round_half_even_ge [of "x / ulp x"] by (simp add: rnd_def mult_right_mono)
  finally show ?thesis using le by blast
qed

lemmas rnd_le = rnd_bounds [THEN conjunct1]
lemmas rnd_ge = rnd_bounds [THEN conjunct2]

lemma rnd_nonneg: "0 \<le> x \<Longrightarrow> 0 \<le> rnd x"
proof -
  assume "0 \<le> x"
  have "0 \<le> round_half_even y" if "0 \<le> y" for y
    using that by (auto simp: round_half_even_def Let_def)
  then show ?thesis using \<open>0 \<le> x\<close> by (simp add: rnd_def ulp_def less_imp_le)
qed

section \<open>Reading numbers\<close>

lemma to_double_int: "to_double (of_int n) = Fin (of_int n)" if "\<bar>n\<bar> < 2 ^ 53"
proof -
  have "(of_int \<bar>n\<bar> :: rat) < of_int (2 ^ 53)" using that by (simp only: of_int_less_iff)
  moreover have "(of_int (2 ^ 53) :: rat) \<le> pow2 1024" by (simp add: pow2_def)
  ultimately have "\<not> pow2 1024 \<le> \<bar>of_int n :: rat\<bar>" by simp
  then show ?thesis by (simp add: to_double_def rnd_int [OF that])
qed

lemma to_double_numeral [simp]: "(numeral w :: int) < 2 ^ 53 \<Longrightarrow> to_double (numeral w) = Fin (numeral w)"
  using to_double_int [of "numeral w"] by simp

lemma to_double_one [simp]: "to_double 1 = Fin 1"
  using to_double_int [of 1] by simp

lemmas js_Number_eval =
  js_Number_def js_trim_def js_space_def unsigned_decimal_def is_digit_def digits_def digit_val_def exponent_def Let_def

end
