(* ===== verification/ServersLib.thy ===== *)
theory ServersLib
  imports Servers WingsProps UsersProps Rounding
begin

text \<open>
  The lemmas the server properties share: the panel's state under the calls to the daemon, the
  checks of a creation, its split at the transaction, and updates of a server row that keep
  the constraints of the database.
\<close>

section \<open>Asking the daemon\<close>

lemma checkAvailability_db:
  assumes "WingsService_checkAvailability W node s = (b, s1)"
  shows "\<exists>cl ca. s1 = s\<lparr>pn_clients := cl, pn_calls := pn_calls s @ ca\<rparr> \<and>
    (\<forall>c \<in> set ca. \<forall>client m r. c = Grpc client m r \<longrightarrow> r = GetSystemInfo)"
proof -
  obtain g where g: "node_grpc W node GetSystemInfo s = (g, after_call node GetSystemInfo s)"
    using node_grpc_pair by blast
  show ?thesis
  proof (cases g)
    case (Inr a)
    then have "s1 = after_call node GetSystemInfo s" using assms unfolding WingsService_checkAvailability_def g by simp
    then show ?thesis unfolding after_call_def grpc_call_def by (intro exI conjI) auto
  next
    case (Inl e)
    let ?h = "Http \<lparr>hr_method = ''GET'', hr_url = buildHttpUrl node ''/health'', hr_authorization = None, hr_body = None\<rparr>"
    have "s1 = (after_call node GetSystemInfo s)\<lparr>pn_calls := pn_calls (after_call node GetSystemInfo s) @ [?h]\<rparr>"
      using assms Inl unfolding WingsService_checkAvailability_def g by (auto simp: send_call_def split: wings_reply.splits)
    then have "s1 = s\<lparr>pn_clients := pn_clients (snd (getClient node s)),
        pn_calls := pn_calls s @ [grpc_call node GetSystemInfo s, ?h]\<rparr>"
      by (simp add: after_call_def)
    then show ?thesis unfolding grpc_call_def by (intro exI conjI) auto
  qed
qed

lemma load_server_after [simp]: "load_server (after_call node request s) x = load_server s x"
  by (simp add: load_server_def)

text \<open>The panel's own tables do not depend on the calls made.\<close>

abbreviation moved :: "'z wings_panel_scheme \<Rightarrow> (string \<times> NodeGrpcClient) list \<Rightarrow> wings_call list \<Rightarrow> 'z wings_panel_scheme" where
  "moved s cl ca \<equiv> s\<lparr>pn_clients := cl, pn_calls := ca\<rparr>"

lemma moved_tables:
  "db_users (moved s cl ca) = db_users s" "db_nodes (moved s cl ca) = db_nodes s"
  "db_eggs (moved s cl ca) = db_eggs s" "db_eggVariables (moved s cl ca) = db_eggVariables s"
  "db_allocations (moved s cl ca) = db_allocations s" "db_servers (moved s cl ca) = db_servers s"
  by simp_all

lemma server_exists_moved [simp]: "server_exists (moved s cl ca) = server_exists s"
  by (simp add: server_exists_def fun_eq_iff)

lemma save_server_moved:
  "save_server x (moved s cl ca) = map_sum id (\<lambda>s. moved s cl ca) (save_server x s)"
  by (simp add: save_server_def exists_defs) (simp add: map_sum_def o_def split: sum.split)

lemma save_allocation_moved:
  "save_allocation x (moved s cl ca) = map_sum id (\<lambda>s. moved s cl ca) (save_allocation x s)"
  by (simp add: save_allocation_def exists_defs) (simp add: map_sum_def o_def split: sum.split)

lemma create_checks_moved [simp]: "create_checks X dto node (moved s cl ca) = create_checks X dto node s"
  unfolding create_checks_def node_sum_def moved_tables by (rule refl)

section \<open>Creation\<close>

lemma create_checks_Inr:
  assumes "create_checks X dto node d = Inr (al, startup, img, env)"
  shows "\<exists>egg user. findOne (\<lambda>e. egg_id e = csd_eggId dto) (db_eggs d) = Some egg \<and>
    findOne (\<lambda>a. alloc_id a = csd_allocationId dto) (db_allocations d) = Some al \<and>
    alloc_nodeId al = csd_nodeId dto \<and> \<not> truthy_str (alloc_serverId al) \<and>
    findOne (\<lambda>u. user_id u = csd_userId dto) (db_users d) = Some user \<and>
    capacity_error ''memory'' (node_memory node) (node_memoryOverallocate node)
      (node_sum server_memory (csd_nodeId dto) d) (csd_memory dto) = None \<and>
    capacity_error ''disk'' (node_disk node) (node_diskOverallocate node)
      (node_sum server_disk (csd_nodeId dto) d) (csd_disk dto) = None \<and>
    env = resolve_variables (csd_envVariables dto) (findRows (\<lambda>v. eggvar_eggId v = csd_eggId dto) (db_eggVariables d)) \<and>
    sv_valid (validateServerVariables X env (map egg_var_spec (findRows (\<lambda>v. eggvar_eggId v = csd_eggId dto) (db_eggVariables d)))) \<and>
    build_startup X (egg_startup egg) env = Some startup \<and> img = str_or (csd_image dto) (egg_dockerImage egg)"
  using assms by (auto simp: create_checks_def Let_def split: option.splits if_splits)

text \<open>What the transaction leaves, with the calls that ran besides it.\<close>

lemma server_transaction_Inr:
  assumes "server_transaction x al d = Inr d'"
    and "\<not> hasRow (\<lambda>s. server_id s = server_id x) (db_servers d)" and "al \<in> set (db_allocations d)"
  shows "d' = d\<lparr>db_servers := db_servers d @ [x],
       db_allocations := updateRows (\<lambda>a. alloc_id a = alloc_id al) (\<lambda>_. al\<lparr>alloc_serverId := Some (server_id x)\<rparr>) (db_allocations d)\<rparr>"
proof -
  have "hasRow (\<lambda>a. alloc_id a = alloc_id al) (db_allocations d)" using assms(3) by (auto simp: hasRow_iff)
  then show ?thesis
    using assms(1,2)
    by (auto simp: server_transaction_def save_server_def save_allocation_def map_sum_Inr upsertRow_def insertRow_def
        dest!: saveRow_Inr split: sum.splits)
qed

lemma new_server_sel [simp]:
  "server_id (new_server dr now dto startup img env) = sd_id dr"
  "server_uuid (new_server dr now dto startup img env) = sd_uuid dr"
  "server_nodeId (new_server dr now dto startup img env) = csd_nodeId dto"
  "server_userId (new_server dr now dto startup img env) = csd_userId dto"
  "server_eggId (new_server dr now dto startup img env) = csd_eggId dto"
  "server_memory (new_server dr now dto startup img env) = csd_memory dto"
  "server_disk (new_server dr now dto startup img env) = csd_disk dto"
  "server_status (new_server dr now dto startup img env) = Some INSTALLING"
  "server_installed (new_server dr now dto startup img env) = 0"
  "server_startup (new_server dr now dto startup img env) = startup"
  "server_image (new_server dr now dto startup img env) = img"
  "server_envVariables (new_server dr now dto startup img env) = env"
  by (simp_all add: new_server_def generateUuidShort_def)

text \<open>The creation, split at the transaction.\<close>

lemma create_cases:
  assumes "ServersService_create X W now dr dto s = (r, s')"
  obtains (refused) e cl ca where "r = Inl e" "s' = moved s cl (pn_calls s @ ca)"
      "\<forall>c \<in> set ca. \<forall>client m q. c = Grpc client m q \<longrightarrow> q = GetSystemInfo"
  | (written) node al startup img env cl ca s2 where
      "findOne (\<lambda>n. node_id n = csd_nodeId dto) (db_nodes s) = Some node"
      "NodeHeartbeatStore_isOnline now s (csd_nodeId dto)"
      "create_checks X dto node s = Inr (al, startup, img, env)"
      "\<forall>c \<in> set ca. \<forall>client m q. c = Grpc client m q \<longrightarrow> q = GetSystemInfo"
      "server_transaction (new_server dr now dto startup img env) al (moved s cl (pn_calls s @ ca)) = Inr s2"
      "create_on_wings W (sd_id dr) s2 = (r, s')"
proof (cases "findOne (\<lambda>n. node_id n = csd_nodeId dto) (db_nodes s)")
  case None
  then have "r = Inl (NotFoundException ''Node not found'')" "s' = moved s (pn_clients s) (pn_calls s @ [])"
    using assms by (simp_all add: ServersService_create_def)
  then show ?thesis by (rule refused) simp
next
  case (Some node)
  note n = this
  then have i: "node_id node = csd_nodeId dto" by (auto dest: findOne_Some)
  show ?thesis
  proof (cases "NodeHeartbeatStore_isOnline now s (csd_nodeId dto)")
    case False
    then have "r = Inl (BadRequestException ''Node is offline'')" "s' = moved s (pn_clients s) (pn_calls s @ [])"
      using assms by (simp_all add: ServersService_create_def n i)
    then show ?thesis by (rule refused) simp
  next
    case True
    obtain b s1 where c: "WingsService_checkAvailability W node s = (b, s1)" by force
    then obtain cl ca where s1: "s1 = moved s cl (pn_calls s @ ca)"
      and g: "\<forall>c \<in> set ca. \<forall>client m q. c = Grpc client m q \<longrightarrow> q = GetSystemInfo"
      using checkAvailability_db by blast
    have e: "(r, s') = (if b then (case create_checks X dto node s of Inl e \<Rightarrow> (Inl e, s1)
        | Inr (al, startup, img, env) \<Rightarrow>
            (case server_transaction (new_server dr now dto startup img env) al s1 of
               Inl e \<Rightarrow> (Inl e, s1) | Inr s2 \<Rightarrow> create_on_wings W (sd_id dr) s2))
       else (Inl (BadRequestException ''Wings daemon is not reachable on this node''), s1))"
      using assms c True i
      unfolding ServersService_create_def Let_def n option.case s1 new_server_sel
      by (cases b) simp_all
    show ?thesis
    proof (cases "\<exists>e. (r, s') = (Inl e, s1)")
      case True
      then show ?thesis using refused [OF _ _ g] s1 by auto
    next
      case False
      then obtain al startup img env s2 where "create_checks X dto node s = Inr (al, startup, img, env)"
        "server_transaction (new_server dr now dto startup img env) al s1 = Inr s2"
        "create_on_wings W (sd_id dr) s2 = (r, s')"
        using e by (auto split: sum.splits if_splits)
      then show ?thesis using written [OF n True _ g] s1 by blast
    qed
  qed
qed

lemma db_ok_moved [simp]: "db_ok (moved s cl ca) = db_ok s"
  by (simp add: db_ok_def db_keys_def children_defs exists_iff)

lemma db_ok_after [simp]: "db_ok (after_call node q s) = db_ok s"
  unfolding after_call_def by (rule db_ok_moved)

lemma update_server_sel [simp]:
  "db_servers (update_server i f d) = updateRows (\<lambda>s. server_id s = i) f (db_servers d)"
  "db_users (update_server i f d) = db_users d" "db_nodes (update_server i f d) = db_nodes d"
  "db_eggs (update_server i f d) = db_eggs d" "db_allocations (update_server i f d) = db_allocations d"
  by (simp_all add: update_server_def)

text \<open>Changing columns of a server that are neither keys nor references.\<close>

lemma update_server_ok:
  assumes "db_ok d"
    and "\<And>s. server_id (f s) = server_id s"
    and "\<And>s. server_uuidShort (f s) = server_uuidShort s" "\<And>s. server_externalId (f s) = server_externalId s"
    and "\<And>s. server_userId (f s) = server_userId s" "\<And>s. server_nodeId (f s) = server_nodeId s"
    and "\<And>s. server_eggId (f s) = server_eggId s" "\<And>s. server_allocationId (f s) = server_allocationId s"
  shows "db_ok (update_server i f d)"
proof -
  let ?t = "updateRows (\<lambda>s. server_id s = i) f (db_servers d)"
  have u: "unique_rows server_id server_clash (db_servers d)" using assms(1) by (simp add: db_ok_def db_keys_def)
  have "unique_rows server_id server_clash ?t"
    by (rule unique_rows_updateRows [OF u]) (auto simp: server_clash_def assms)
  then have "db_keys (update_server i f d)"
    using assms(1) by (simp add: db_ok_def db_keys_def update_server_def)
  moreover have "server_exists (update_server i f d) = server_exists d"
    by (simp add: server_exists_def fun_eq_iff hasRow_key map_updateRows assms(2))
  ultimately show ?thesis
    using assms(1)
    by (auto simp: db_ok_def children_defs exists_iff table_sets update_server_def assms(2-))
qed

lemma updateRows_cong: "(\<And>r. r \<in> set t \<Longrightarrow> P r \<Longrightarrow> f r = g r) \<Longrightarrow> updateRows P f t = updateRows P g t"
  by (simp add: updateRows_def)

end
