(* ===== verification/ServersProps.thy ===== *)
theory ServersProps
  imports ServersLib
begin

text \<open>
  The life of a server: what a creation writes and sends, what remains when it fails, the
  capacity it respects, who may act on a server and in which states, suspension, deletion and
  the install callback.
\<close>

section \<open>Creation\<close>

text \<open>The rows of a creation: the server appended, the allocation assigned to it.\<close>

definition with_server_row :: "ServerEntity \<Rightarrow> string \<Rightarrow> 'z db_scheme \<Rightarrow> 'z db_scheme" where
  "with_server_row x al d =
     d\<lparr>db_servers := db_servers d @ [x],
       db_allocations := updateRows (\<lambda>a. alloc_id a = al) (alloc_serverId_update (\<lambda>_. Some (server_id x)))
         (db_allocations d)\<rparr>"

lemma transaction_row:
  assumes "server_transaction x al d = Inr d'" and "db_ok d"
    and "\<not> hasRow (\<lambda>s. server_id s = server_id x) (db_servers d)" and "al \<in> set (db_allocations d)"
  shows "d' = with_server_row x (alloc_id al) d \<and> db_ok d'"
proof
  have u: "distinct (map alloc_id (db_allocations d))"
    using assms(2) by (simp add: db_ok_def db_keys_def unique_rows_def)
  have "updateRows (\<lambda>a. alloc_id a = alloc_id al) (\<lambda>_. al\<lparr>alloc_serverId := Some (server_id x)\<rparr>) (db_allocations d) =
      updateRows (\<lambda>a. alloc_id a = alloc_id al) (alloc_serverId_update (\<lambda>_. Some (server_id x))) (db_allocations d)"
  proof (rule updateRows_cong)
    fix r
    assume "r \<in> set (db_allocations d)" "alloc_id r = alloc_id al"
    then have "r = al" using distinct_map_key_eq [OF u] assms(4) by blast
    then show "al\<lparr>alloc_serverId := Some (server_id x)\<rparr> = alloc_serverId_update (\<lambda>_. Some (server_id x)) r" by simp
  qed
  then show "d' = with_server_row x (alloc_id al) d"
    using server_transaction_Inr [OF assms(1,3,4)] by (simp add: with_server_row_def)
  show "db_ok d'"
    using assms(1,2) by (auto simp: server_transaction_def split: sum.splits intro: save_ok)
qed

text \<open>After the transaction the server is found with all it needs.\<close>

lemma created_full:
  assumes ok: "db_ok d" and fresh: "\<not> hasRow (\<lambda>s. server_id s = server_id x) (db_servers d)"
    and al: "al \<in> set (db_allocations d)"
    and n: "findOne (\<lambda>n. node_id n = server_nodeId x) (db_nodes d) = Some node"
    and e: "findOne (\<lambda>e. egg_id e = server_eggId x) (db_eggs d) = Some egg"
  defines "d' \<equiv> with_server_row x (alloc_id al) d"
  shows "ServersService_findById (server_id x) d' = Inr (load_server d' x)"
    and "fs_node (load_server d' x) = Some node" and "fs_egg (load_server d' x) = Some egg"
    and "fs_allocation (load_server d' x) = Some (al\<lparr>alloc_serverId := Some (server_id x)\<rparr>)"
proof -
  have "findOne (\<lambda>s. server_id s = server_id x) (db_servers d) = None"
    using fresh by (auto simp: findOne_None hasRow_iff)
  then have "findOne (\<lambda>s. server_id s = server_id x) (db_servers d') = Some x"
    using findOne_insertRow [of "\<lambda>s. server_id s = server_id x" x "db_servers d"]
    by (simp add: d'_def with_server_row_def insertRow_def)
  then show "ServersService_findById (server_id x) d' = Inr (load_server d' x)"
    by (simp add: ServersService_findById_def)
  show "fs_node (load_server d' x) = Some node" "fs_egg (load_server d' x) = Some egg"
    using n e by (simp_all add: load_server_def d'_def with_server_row_def)
  have u: "distinct (map alloc_id (db_allocations d))"
    using ok by (simp add: db_ok_def db_keys_def unique_rows_def)
  have none: "alloc_serverId a \<noteq> Some (server_id x)" if "a \<in> set (db_allocations d)" for a
  proof
    assume "alloc_serverId a = Some (server_id x)"
    moreover have "opt_ref (server_exists d) (alloc_serverId a)"
      using db_ok_allocation_refs [OF ok] that by (simp add: allocation_refs_iff)
    ultimately show False using fresh by (simp add: server_exists_def)
  qed
  let ?f = "alloc_serverId_update (\<lambda>_. Some (server_id x))"
  have "findOne (\<lambda>a. alloc_serverId a = Some (server_id x)) (updateRows (\<lambda>a. alloc_id a = alloc_id al) ?f t) = Some (?f al)"
    if "al \<in> set t" "\<forall>a \<in> set t. alloc_serverId a \<noteq> Some (server_id x)" "distinct (map alloc_id t)" for t
    using that
  proof (induction t)
    case (Cons a t)
    show ?case
    proof (cases "a = al")
      case False
      then have "alloc_id a \<noteq> alloc_id al" "al \<in> set t" using Cons.prems by auto
      then show ?thesis using Cons by (simp add: updateRows_def findOne_def)
    qed (simp add: updateRows_def findOne_def)
  qed simp
  from this [OF al _ u] none show "fs_allocation (load_server d' x) = Some (al\<lparr>alloc_serverId := Some (server_id x)\<rparr>)"
    by (simp add: load_server_def d'_def with_server_row_def)
qed

text \<open>What the daemon is asked to create.\<close>

definition create_request :: "ServerEntity \<Rightarrow> AllocationEntity \<Rightarrow> EggEntity \<Rightarrow> grpc_request" where
  "create_request x al egg =
     CreateServer (wings_config x al) (str_or (egg_scriptInstall egg) []) (str_or (Some (egg_scriptContainer egg)) [])"

lemma wings_config_port: "alloc_port a = alloc_port b \<Longrightarrow> wings_config x a = wings_config x b"
  by (simp add: wings_config_def)

lemma create_on_wings_created:
  assumes "db_ok d" and "\<not> hasRow (\<lambda>s. server_id s = server_id x) (db_servers d)"
    and "al \<in> set (db_allocations d)"
    and "findOne (\<lambda>n. node_id n = server_nodeId x) (db_nodes d) = Some node"
    and "findOne (\<lambda>e. egg_id e = server_eggId x) (db_eggs d) = Some egg"
    and "create_on_wings W (server_id x) (with_server_row x (alloc_id al) d) = (r, s')"
  defines "d1 \<equiv> after_call node (create_request x al egg) (with_server_row x (alloc_id al) d)"
  shows "is_ok (fst (node_grpc W node (create_request x al egg) (with_server_row x (alloc_id al) d))) \<and>
      r = Inr (load_server d1 x) \<and> s' = d1 \<or>
    \<not> is_ok (fst (node_grpc W node (create_request x al egg) (with_server_row x (alloc_id al) d))) \<and>
    (\<exists>m. r = Inl (BadRequestException (''Failed to create server on Wings: '' @ m))) \<and>
    s' = update_server (server_id x) (server_status_update (\<lambda>_. Some INSTALL_FAILED)) d1"
proof -
  note f = created_full [OF assms(1-5)]
  let ?d = "with_server_row x (alloc_id al) d"
  have w: "wings_config x (al\<lparr>alloc_serverId := Some (server_id x)\<rparr>) = wings_config x al"
    by (rule wings_config_port) simp
  let ?q = "create_request x al egg"
  have g: "node_grpc W node ?q ?d = (fst (node_grpc W node ?q ?d), d1)"
    unfolding d1_def by (rule node_grpc_pair)
  obtain o1 where o1: "WingsService_createServer W node (wings_config x al) (egg_scriptInstall egg)
      (Some (egg_scriptContainer egg)) ?d = (o1, d1)" and k: "is_ok o1 = is_ok (fst (node_grpc W node ?q ?d))"
    using g unfolding WingsService_createServer_def create_request_def
    by (cases "fst (node_grpc W node ?q ?d)") (simp_all add: ignore_result_def create_request_def)
  have s: "fs_server (load_server ?d x) = x" by (simp add: load_server_def)
  have l: "load_server d1 x = load_server ?d x" by (simp add: d1_def)
  have c: "(case (o1, d1) of (Inr (), s1) \<Rightarrow> (Inr (load_server ?d x), s1)
      | (Inl e, s1) \<Rightarrow> (Inl (BadRequestException (''Failed to create server on Wings: '' @ exn_message e)),
           update_server (server_id x) (server_status_update (\<lambda>_. Some INSTALL_FAILED)) s1)) = (r, s')"
    using assms(6) unfolding create_on_wings_def f(1) sum.case f(2-4) s option.case prod.case Let_def w o1 .
  show ?thesis
  proof (cases o1)
    case (Inl e)
    with c have "r = Inl (BadRequestException (''Failed to create server on Wings: '' @ exn_message e))"
      "s' = update_server (server_id x) (server_status_update (\<lambda>_. Some INSTALL_FAILED)) d1" by simp_all
    then show ?thesis using Inl k by auto
  next
    case (Inr u)
    with c have "r = Inr (load_server ?d x)" "s' = d1" by (simp_all split: unit.splits)
    then show ?thesis using Inr k unfolding l by auto
  qed
qed

lemma truncate_moved [simp]: "db.truncate (moved s cl ca) = db.truncate s"
  by (simp add: db.truncate_def)

lemma truncate_row_moved [simp]:
  "db.truncate (with_server_row x al (moved s cl ca)) = db.truncate (with_server_row x al s)"
  by (simp add: db.truncate_def with_server_row_def)

lemma row_calls [simp]: "pn_calls (with_server_row x al s) = pn_calls s"
  by (simp add: with_server_row_def)

text \<open>The outcome of a creation that reached the transaction.\<close>

lemma create_outcome:
  assumes "ServersService_create X W now dr dto s = (r, s')" and ok: "db_ok s"
    and fresh: "\<not> hasRow (\<lambda>x. server_id x = sd_id dr) (db_servers s)"
  obtains (refused) e cl ca where "r = Inl e" "s' = moved s cl (pn_calls s @ ca)"
      "\<forall>c \<in> set ca. \<forall>client m q. c = Grpc client m q \<longrightarrow> q = GetSystemInfo"
  | (written) node al egg x startup img env cl ca d1 where
      "findOne (\<lambda>n. node_id n = csd_nodeId dto) (db_nodes s) = Some node"
      "NodeHeartbeatStore_isOnline now s (csd_nodeId dto)"
      "create_checks X dto node s = Inr (al, startup, img, env)"
      "x = new_server dr now dto startup img env" "alloc_id al = csd_allocationId dto"
      "al \<in> set (db_allocations s)" "findOne (\<lambda>e. egg_id e = csd_eggId dto) (db_eggs s) = Some egg"
      "d1 = after_call node (create_request x al egg) (with_server_row x (alloc_id al) (moved s cl (pn_calls s @ ca)))"
      "db_ok d1"
      "r = Inr (load_server d1 x) \<and> s' = d1 \<or>
       (\<exists>m. r = Inl (BadRequestException (''Failed to create server on Wings: '' @ m))) \<and>
       s' = update_server (server_id x) (server_status_update (\<lambda>_. Some INSTALL_FAILED)) d1"
  using assms(1)
proof (cases rule: create_cases)
  case (refused e cl ca)
  then show ?thesis by (rule that(1))
next
  case (written node al startup img env cl ca s2)
  let ?x = "new_server dr now dto startup img env"
  let ?s = "moved s cl (pn_calls s @ ca)"
  obtain egg where c: "findOne (\<lambda>e. egg_id e = csd_eggId dto) (db_eggs s) = Some egg"
      "findOne (\<lambda>a. alloc_id a = csd_allocationId dto) (db_allocations s) = Some al"
    using create_checks_Inr [OF written(3)] by blast
  then have al: "al \<in> set (db_allocations s)" "alloc_id al = csd_allocationId dto" by (auto dest: findOne_Some)
  have "s2 = with_server_row ?x (alloc_id al) ?s \<and> db_ok s2"
    by (rule transaction_row [OF written(5)]) (use ok fresh al(1) in simp_all)
  then have t: "s2 = with_server_row ?x (alloc_id al) ?s" "db_ok (with_server_row ?x (alloc_id al) ?s)" by blast+
  let ?d = "after_call node (create_request ?x al egg) (with_server_row ?x (alloc_id al) ?s)"
  have o: "r = Inr (load_server ?d ?x) \<and> s' = ?d \<or>
    (\<exists>m. r = Inl (BadRequestException (''Failed to create server on Wings: '' @ m))) \<and>
    s' = update_server (server_id ?x) (server_status_update (\<lambda>_. Some INSTALL_FAILED)) ?d"
    using create_on_wings_created [of ?s ?x al node egg W r s'] ok fresh al(1) written(1,6) c(1)
    by (auto simp: t(1))
  have d: "db_ok ?d" using t(2) by simp
  show ?thesis using that(2) [OF written(1,2,3) refl al(2,1) c(1) refl d o] .
qed




definition demo_dto :: CreateServerDto where
  "demo_dto = \<lparr>csd_name = ''new'', csd_description = None, csd_userId = ''u2'', csd_nodeId = ''n1'', csd_eggId = ''e1'',
     csd_allocationId = ''al2'', csd_memory = 900, csd_cpu = 100, csd_disk = 900, csd_envVariables = None,
     csd_nestId = ''t1'', csd_swap = None, csd_io = None, csd_threads = None, csd_oomDisabled = None,
     csd_startup = None, csd_image = None, csd_externalId = None\<rparr>"

definition demo_server_draws :: server_draws where
  "demo_server_draws = \<lparr>sd_id = ''s2'', sd_uuid = ''uuid-2'', sd_hex = ''abcdef01''\<rparr>"

definition wings_up :: wings where
  "wings_up calls call = GrpcReply JNull"

text \<open>A daemon that answers but refuses to create.\<close>

definition wings_full :: wings where
  "wings_full calls call =
     (case call of Grpc _ _ (CreateServer _ _ _) \<Rightarrow> CallFailed ''full'' | _ \<Rightarrow> GrpcReply JNull)"

lemma db_ok_truncate: "db_ok (db.truncate d) = db_ok d"
  by (simp add: db.truncate_def db_ok_def db_keys_def children_defs exists_iff)

lemma demo_panel_truncate: "db.truncate demo_panel = demo_full"
  by (simp add: demo_panel_def db.truncate_def node_panel.extend_def db.extend_def node_panel.fields_def wings_panel.fields_def)

lemma demo_panel_ok: "db_ok demo_panel"
  using demo_full_ok db_ok_truncate [of demo_panel] by (simp add: demo_panel_truncate)

lemma demo_fresh: "\<not> hasRow (\<lambda>x. server_id x = sd_id demo_server_draws) (db_servers demo_panel)"
  by (simp add: hasRow_def demo_server_def demo_server_draws_def)

lemma demo_checks:
  "create_checks demo_ext demo_dto demo_node demo_panel =
   Inr (demo_allocation ''al2'' 2001 None, ''run 80'', ''img'', [(''PORT'', ''80'')])"
  by code_simp

lemma demo_online: "NodeHeartbeatStore_isOnline 1 demo_panel ''n1''"
  by (simp add: NodeHeartbeatStore_isOnline_def NodeHeartbeatStore_get_def demo_panel_def OFFLINE_THRESHOLD_MS_def
      node_panel.extend_def db.extend_def node_panel.fields_def wings_panel.fields_def)

text \<open>When the daemon answers, the creation comes to the transaction.\<close>

lemma create_reaches:
  assumes "findOne (\<lambda>n. node_id n = csd_nodeId dto) (db_nodes s) = Some node"
    and "NodeHeartbeatStore_isOnline now s (csd_nodeId dto)"
    and "\<And>calls client m. W calls (Grpc client m GetSystemInfo) = GrpcReply a"
    and "create_checks X dto node s = Inr (al, startup, img, env)"
    and "server_transaction (new_server dr now dto startup img env) al (after_call node GetSystemInfo s) = Inr s2"
  shows "ServersService_create X W now dr dto s = create_on_wings W (sd_id dr) s2"
proof -
  have i: "node_id node = csd_nodeId dto" using assms(1) by (auto dest: findOne_Some)
  have "fst (node_grpc W node GetSystemInfo s) = Inr a"
    by (simp add: node_grpc_def callGrpc_def send_call_def assms(3) split: prod.split)
  then have "WingsService_checkAvailability W node s = (True, after_call node GetSystemInfo s)"
    using node_grpc_pair [of W node GetSystemInfo s] by (simp add: WingsService_checkAvailability_def)
  moreover have "create_checks X dto node (after_call node GetSystemInfo s) = Inr (al, startup, img, env)"
    using assms(4) unfolding after_call_def by simp
  ultimately show ?thesis
    using assms(1,2,5) by (simp add: ServersService_create_def i)
qed

lemma demo_create:
  fixes W :: wings
  assumes "\<And>calls client m. W calls (Grpc client m GetSystemInfo) = GrpcReply a"
    and "ServersService_create demo_ext W 1 demo_server_draws demo_dto demo_panel = (r, s')"
  shows "length (db_servers s') = 2 \<and> (\<exists>x (d :: wings_panel). is_ok r = is_ok (fst (node_grpc W demo_node
     (create_request x (demo_allocation ''al2'' 2001 None) demo_egg) d)))"
proof -
  let ?x = "new_server demo_server_draws 1 demo_dto ''run 80'' ''img'' [(''PORT'', ''80'')]"
  let ?al = "demo_allocation ''al2'' 2001 None"
  let ?s = "after_call demo_node GetSystemInfo demo_panel"
  have "\<exists>s2. server_transaction ?x ?al ?s = Inr s2"
    by (simp add: server_transaction_def save_server_def save_allocation_def saveRow_def hasRow_def upsertRow_def
      insertRow_def updateRows_def server_clash_def allocation_clash_def same_some_def opt_ref_def exists_defs
      demo_dto_def demo_server_def demo_server_draws_def demo_allocation_def demo_node_def demo_egg_def
      demo_user_def new_server_def generateUuidShort_def)
  then obtain s2 where t: "server_transaction ?x ?al ?s = Inr s2" by blast
  have n: "findOne (\<lambda>n. node_id n = csd_nodeId demo_dto) (db_nodes demo_panel) = Some demo_node"
    and e: "findOne (\<lambda>e. egg_id e = csd_eggId demo_dto) (db_eggs demo_panel) = Some demo_egg"
    by (simp_all add: findOne_def demo_dto_def demo_node_def demo_egg_def)
  have o: "NodeHeartbeatStore_isOnline 1 demo_panel (csd_nodeId demo_dto)"
    using demo_online by (simp add: demo_dto_def)
  have c: "create_on_wings W (server_id ?x) s2 = (r, s')"
    using create_reaches [where W = W, OF n o assms(1) demo_checks t] assms(2) by simp
  have s2: "s2 = with_server_row ?x (alloc_id ?al) ?s"
    using transaction_row [OF t] demo_panel_ok demo_fresh by simp
  from create_on_wings_created [of ?s ?x ?al demo_node demo_egg W r s'] c n e demo_panel_ok demo_fresh
  have "length (db_servers s') = 2 \<and> is_ok r = is_ok (fst (node_grpc W demo_node (create_request ?x ?al demo_egg) s2))"
    by (auto simp: s2 with_server_row_def updateRows_def)
  then show ?thesis by blast
qed

lemma node_grpc_up: "fst (node_grpc wings_up node q s) = Inr JNull"
  by (simp add: node_grpc_def callGrpc_def send_call_def wings_up_def split: prod.split)

lemma demo_create_up:
  obtains full s' where "ServersService_create demo_ext wings_up 1 demo_server_draws demo_dto demo_panel = (Inr full, s')"
proof -
  obtain r s' where c: "ServersService_create demo_ext wings_up 1 demo_server_draws demo_dto demo_panel = (r, s')" by force
  then have "is_ok r" using demo_create [of wings_up JNull r s'] by (simp add: wings_up_def [abs_def] node_grpc_up [unfolded wings_up_def [abs_def]])
  then show thesis using that c by (auto simp: is_ok_iff)
qed


text \<open>
  C2. A creation that fails leaves no half-made server: either nothing changed in the
  database and the daemon was asked nothing but its system information, or everything was
  written and the daemon refused; then the row stays, marked \<open>INSTALL_FAILED\<close>, its allocation
  stays taken, the last call is the refused creation, and the answer says so.
\<close>

theorem server_create_failed:
  assumes "ServersService_create X W now dr dto s = (Inl e, s')" and "db_ok s"
    and "\<not> hasRow (\<lambda>x. server_id x = sd_id dr) (db_servers s)"
  shows "db_ok s' \<and>
    (db.truncate s' = db.truncate s \<and>
       (\<exists>calls. pn_calls s' = pn_calls s @ calls \<and>
          (\<forall>client m q. Grpc client m q \<in> set calls \<longrightarrow> q = GetSystemInfo)) \<or>
     (\<exists>x m client calls node al egg. e = BadRequestException (''Failed to create server on Wings: '' @ m) \<and>
        server_id x = sd_id dr \<and> server_status x = Some INSTALL_FAILED \<and>
        db.truncate s' = db.truncate (with_server_row x (csd_allocationId dto) s) \<and>
        pn_calls s' = pn_calls s @ calls @ [Grpc client (node_authorization node)
          (create_request (x\<lparr>server_status := Some INSTALLING\<rparr>) al egg)]))"
  using assms
proof (cases rule: create_outcome)
  case (refused e' cl ca)
  then show ?thesis using assms(2) by auto
next
  case (written node al egg x startup img env cl ca d1)
  let ?f = "server_status_update (\<lambda>_. Some INSTALL_FAILED)"
  let ?r = "with_server_row x (alloc_id al) (moved s cl (pn_calls s @ ca))"
  obtain m where e: "e = BadRequestException (''Failed to create server on Wings: '' @ m)"
    and s': "s' = update_server (server_id x) ?f d1"
    using written(10) by auto
  have "db_ok s'" unfolding s' by (rule update_server_ok [OF written(9)]) simp_all
  moreover have "updateRows (\<lambda>y. server_id y = server_id x) ?f (db_servers s @ [x]) = db_servers s @ [?f x]"
    using assms(3) written(4) by (auto simp: updateRows_def hasRow_iff intro!: map_idI)
  then have "db.truncate s' = db.truncate (with_server_row (?f x) (csd_allocationId dto) s)"
    unfolding s' written(8) written(5) by (simp add: db.truncate_def update_server_def after_call_def with_server_row_def)
  moreover have "pn_calls s' = pn_calls s @ ca @ [Grpc (fst (getClient node ?r)) (node_authorization node)
      (create_request (?f x\<lparr>server_status := Some INSTALLING\<rparr>) al egg)]"
    unfolding s' written(8) using written(4)
    by (simp add: grpc_call_def update_server_def new_server_def generateUuidShort_def)
  moreover have "server_id (?f x) = sd_id dr" "server_status (?f x) = Some INSTALL_FAILED" using written(4) by simp_all
  ultimately show ?thesis unfolding e by blast
qed

lemma node_grpc_full: "fst (node_grpc wings_full node (CreateServer c a b) s) = Inl (WingsError ''Wings gRPC error: full'')"
  by (simp add: node_grpc_def callGrpc_def send_call_def wings_full_def split: prod.split)

theorem server_create_failed_witness:
  "\<exists>m s'. ServersService_create demo_ext wings_full 1 demo_server_draws demo_dto demo_panel =
       (Inl (BadRequestException (''Failed to create server on Wings: '' @ m)), s') \<and>
     map server_status (db_servers (db.truncate s')) = [None, Some INSTALL_FAILED]"
proof -
  obtain r s' where c: "ServersService_create demo_ext wings_full 1 demo_server_draws demo_dto demo_panel = (r, s')" by force
  from demo_create [where W = wings_full, OF _ c] obtain x and d :: wings_panel where l: "length (db_servers s') = 2"
    and "is_ok r = is_ok (fst (node_grpc wings_full demo_node (create_request x (demo_allocation ''al2'' 2001 None) demo_egg) d))"
    by (auto simp: wings_full_def)
  then obtain e where r: "r = Inl e" by (cases r) (simp_all add: create_request_def node_grpc_full)
  from server_create_failed [OF c [unfolded r] demo_panel_ok demo_fresh] show ?thesis
  proof (elim conjE disjE exE)
    assume "db.truncate s' = db.truncate demo_panel"
    then have "db_servers (db.truncate s') = db_servers (db.truncate demo_panel)" by simp
    then show ?thesis using l by (simp add: db.truncate_def)
  next
    fix x m
    assume "e = BadRequestException (''Failed to create server on Wings: '' @ m)" "server_status x = Some INSTALL_FAILED"
      "db.truncate s' = db.truncate (with_server_row x (csd_allocationId demo_dto) demo_panel)"
    then show ?thesis using c r by (auto simp: with_server_row_def db.truncate_def demo_server_def)
  qed
qed

section \<open>Capacity\<close>

lemma rnd_small: "rnd (of_int n) = of_int n" if "0 \<le> n" "n \<le> 2 ^ 52" for n
  using that by (intro rnd_int) auto

lemma max_capacity_le:
  assumes "0 \<le> amount" "0 \<le> over" "amount * (100 + over) \<le> 2 ^ 50"
  shows "100 * max_capacity amount over < of_int (amount * (100 + over)) + 1"
proof (cases "amount = 0")
  case True
  then show ?thesis by (simp add: max_capacity_def rnd_def)
next
  case False
  then have a: "1 \<le> amount" using assms(1) by simp
  have "1 * (100 + over) \<le> amount * (100 + over)" using assms(2) by (intro mult_right_mono a) simp
  from this [unfolded mult_1_left] assms(3) have "100 + over \<le> 2 ^ 50" by (rule order_trans)
  moreover have "amount * 100 \<le> 2 ^ 50"
    using mult_left_mono [of 100 "100 + over" amount] assms by auto
  ultimately have "over \<le> 2 ^ 52" "amount \<le> 2 ^ 52" by simp_all
  then have ra: "rnd (of_int amount) = of_int amount" and ro: "rnd (of_int over) = of_int over"
    using a assms(2) by (auto intro: rnd_small)
  let ?u = "1 + 1 / 2 ^ 53 :: rat"
  have tiny: "pow2 (-1022) \<le> 1 / 100" by (simp add: pow2_def)
  have "over = 0 \<or> 1 \<le> over" using assms(2) by auto
  then have "(of_int over / 100 :: rat) = 0 \<or> pow2 (-1022) \<le> of_int over / 100"
  proof
    assume "1 \<le> over"
    then have "(1::rat) \<le> of_int over" by simp
    then have "1 / 100 \<le> (of_int over / 100 :: rat)" by (rule divide_right_mono) simp
    with tiny show ?thesis by (blast intro: order_trans)
  qed simp
  then have d: "rnd (of_int over / 100) \<le> of_int over / 100 * ?u" by (rule rnd_le)
  have d0: "0 \<le> rnd (of_int over / 100)" using assms(2) by (intro rnd_nonneg) simp
  let ?f = "1 + rnd (of_int over / 100)"
  have one: "pow2 (-1022) \<le> 1" by (simp add: pow2_def)
  have f1: "1 \<le> ?f" using d0 by simp
  then have f: "rnd ?f \<le> ?f * ?u" by (intro rnd_le) (use one in linarith)
  have "?f * (1 - 1 / 2 ^ 53) \<le> rnd ?f" using f1 one by (intro rnd_ge) linarith
  moreover have "1 * (1 - 1 / 2 ^ 53) \<le> ?f * (1 - 1 / 2 ^ 53 :: rat)" using f1 by (intro mult_right_mono) simp_all
  ultimately have f0: "1 / 2 \<le> rnd ?f" by simp
  have half: "pow2 (-1022) \<le> 1 / 2" by (simp add: pow2_def)
  have am: "(1::rat) \<le> of_int amount" using a by simp
  have "1 * (1 / 2) \<le> of_int amount * rnd ?f" using am f0 by (intro mult_mono) simp_all
  then have p: "rnd (of_int amount * rnd ?f) \<le> (of_int amount * rnd ?f) * ?u"
    by (intro rnd_le) (use half in linarith)
  have "?f \<le> (1 + of_int over / 100) * ?u" using d by (simp add: algebra_simps)
  then have "?f * ?u \<le> (1 + of_int over / 100) * ?u * ?u" by (rule mult_right_mono) simp
  with f have "rnd ?f \<le> (1 + of_int over / 100) * ?u * ?u" by (rule order_trans)
  then have "of_int amount * rnd ?f * ?u \<le> of_int amount * ((1 + of_int over / 100) * ?u * ?u) * ?u"
    using am by (intro mult_right_mono mult_left_mono) simp_all
  with p have "100 * rnd (of_int amount * rnd ?f) \<le> 100 * (of_int amount * ((1 + of_int over / 100) * ?u * ?u) * ?u)" by simp
  also have "\<dots> = of_int (amount * (100 + over)) * (?u * ?u * ?u)" by (simp add: algebra_simps)
  also have "\<dots> \<le> of_int (amount * (100 + over)) * (1 + 1 / 2 ^ 51)"
    using assms(1,2) by (intro mult_left_mono) simp_all
  also have "\<dots> < of_int (amount * (100 + over)) + 1"
  proof -
    have "(of_int (amount * (100 + over)) :: rat) \<le> of_int (2 ^ 50)" using assms(3) by (simp only: of_int_le_iff)
    then show ?thesis by (simp add: algebra_simps)
  qed
  finally show ?thesis by (simp add: max_capacity_def ra ro rnd_int)
qed

lemma capacity_error_None:
  assumes "capacity_error what amount over allocated requested = None"
    and "0 \<le> amount" "0 \<le> over" "amount * (100 + over) \<le> 2 ^ 50"
    and "0 \<le> allocated" "allocated \<le> 2 ^ 52" "0 \<le> requested" "requested < 2 ^ 52"
  shows "100 * (allocated + requested) \<le> amount * (100 + over)"
proof -
  have "\<bar>allocated + requested\<bar> < 2 ^ 53" using assms(5-8) by simp
  then have "rnd (of_int (allocated + requested)) = of_int (allocated + requested)" by (rule rnd_int)
  moreover have "rnd (of_int allocated) = of_int allocated" "rnd (of_int requested) = of_int requested"
    using assms(5-8) by (auto intro: rnd_small)
  ultimately have "of_int (allocated + requested) \<le> max_capacity amount over"
    using assms(1) by (auto simp: capacity_error_def Let_def not_less split: if_splits)
  then have "of_int (100 * (allocated + requested)) \<le> 100 * max_capacity amount over" by simp
  also have "\<dots> < of_int (amount * (100 + over) + 1)" using max_capacity_le [OF assms(2-4)] by simp
  finally have "100 * (allocated + requested) < amount * (100 + over) + 1" by (simp only: of_int_less_iff)
  then show ?thesis by linarith
qed

text \<open>A node whose limits and load are in the range where the doubles of the check are exact enough.\<close>

definition in_range :: "int \<Rightarrow> int \<Rightarrow> int \<Rightarrow> int \<Rightarrow> bool" where
  "in_range amount over allocated requested \<longleftrightarrow>
     0 \<le> amount \<and> 0 \<le> over \<and> amount * (100 + over) \<le> 2 ^ 50 \<and>
     0 \<le> allocated \<and> allocated \<le> 2 ^ 52 \<and> 0 \<le> requested \<and> requested < 2 ^ 52"

lemma node_sum_row: "node_sum f n (with_server_row x al d) = node_sum f n d + (if server_nodeId x = n then f x else 0)"
  by (simp add: node_sum_def with_server_row_def)

lemma node_sum_truncate: "node_sum f n (db.truncate d) = node_sum f n d"
  by (simp add: node_sum_def db.truncate_def)

text \<open>
  C3. A creation never overcommits its node: after a successful one, the servers of the node
  together use at most its memory and its disk, each raised by the overallocation percentage,
  for all limits with \<open>amount * (100 + over) \<le> 2\<^sup>5\<^sup>0\<close> (a petabyte in MB): the rounding of the
  doubles in which the code computes the bound cannot let a larger total pass.
\<close>

theorem creation_within_capacity:
  assumes "ServersService_create X W now dr dto s = (Inr full, s')" and "db_ok s"
    and "\<not> hasRow (\<lambda>x. server_id x = sd_id dr) (db_servers s)"
    and "findOne (\<lambda>n. node_id n = csd_nodeId dto) (db_nodes s) = Some node"
    and "in_range (node_memory node) (node_memoryOverallocate node) (node_sum server_memory (csd_nodeId dto) s) (csd_memory dto)"
    and "in_range (node_disk node) (node_diskOverallocate node) (node_sum server_disk (csd_nodeId dto) s) (csd_disk dto)"
  shows "100 * node_sum server_memory (csd_nodeId dto) s' \<le> node_memory node * (100 + node_memoryOverallocate node) \<and>
    100 * node_sum server_disk (csd_nodeId dto) s' \<le> node_disk node * (100 + node_diskOverallocate node)"
  using assms(1-3)
proof (cases rule: create_outcome)
  case (refused e cl ca)
  then show ?thesis by simp
next
  case (written node' al egg x startup img env cl ca d1)
  have n: "node' = node" using written(1) assms(4) by simp
  have c: "capacity_error ''memory'' (node_memory node) (node_memoryOverallocate node)
      (node_sum server_memory (csd_nodeId dto) s) (csd_memory dto) = None"
    "capacity_error ''disk'' (node_disk node) (node_diskOverallocate node)
      (node_sum server_disk (csd_nodeId dto) s) (csd_disk dto) = None"
    using create_checks_Inr [OF written(3)] by (auto simp: n)
  have "s' = d1" using written(10) by auto
  then have "db.truncate s' = db.truncate (with_server_row x (alloc_id al) s)" unfolding written(8) by simp
  then have "node_sum f (csd_nodeId dto) s' = node_sum f (csd_nodeId dto) (with_server_row x (alloc_id al) s)" for f
    using node_sum_truncate [of f _ s'] node_sum_truncate [of f _ "with_server_row x (alloc_id al) s"] by metis
  then have t: "node_sum f (csd_nodeId dto) s' = node_sum f (csd_nodeId dto) s + f x" for f
    using written(4) by (simp add: node_sum_row)
  show ?thesis
    using capacity_error_None [OF c(1)] capacity_error_None [OF c(2)] assms(5,6) written(4)
    by (simp add: t in_range_def)
qed

theorem creation_within_capacity_witness:
  "\<exists>s'. 100 * node_sum server_memory ''n1'' (s' :: wings_panel) \<le> 100000 \<and> length (db_servers s') = 2"
proof -
  obtain full s' where c: "ServersService_create demo_ext wings_up 1 demo_server_draws demo_dto demo_panel = (Inr full, s')"
    by (rule demo_create_up)
  have n: "findOne (\<lambda>n. node_id n = csd_nodeId demo_dto) (db_nodes demo_panel) = Some demo_node"
    by (simp add: findOne_def demo_dto_def demo_node_def)
  from creation_within_capacity [OF c demo_panel_ok demo_fresh n] demo_create [where W = wings_up, OF _ c, of JNull]
  show ?thesis
    by (auto simp: in_range_def node_sum_def demo_node_def demo_server_def demo_dto_def wings_up_def)
qed

text \<open>The converse fails: a bound that is not a double may round down.  100 MB with 15 percent
  overallocation hold 115 MB, but a server of 115 MB is refused.\<close>

lemma exact_fit_refused:
  "capacity_error ''memory'' 100 15 0 115 =
     Some (BadRequestException ''Not enough memory on node. Available: 114MB, Requested: 115MB'')"
  by code_simp

end
