(* ===== verification/ServersAccess.thy ===== *)
theory ServersAccess
  imports ServersProps
begin

text \<open>
  Who may do what to a server, and in which states: access by owner or administrator, the
  gate before a power action, suspension, deletion and the install callback.
\<close>

section \<open>Access\<close>

lemma validated_True [simp]: "validated True h = h"
  by (simp add: validated_def fun_eq_iff)

lemma fs_server_load [simp]: "fs_server (load_server d s) = s"
  by (simp add: load_server_def)

text \<open>The routes on one server share a gate: sign in, a valid body, the server found, its owner
  or an administrator; then the operation runs.\<close>

locale server_route =
  fixes route :: "ext \<Rightarrow> nat \<Rightarrow> Request \<Rightarrow> string \<Rightarrow> 'd db_scheme \<Rightarrow> ('d db_scheme, 'a) handled"
    and ok :: "ext \<Rightarrow> bool"
    and body :: "nat \<Rightarrow> string \<Rightarrow> FullServer \<Rightarrow> 'd db_scheme \<Rightarrow> ('d db_scheme, 'a) handled"
  assumes route_gate:
    "route X now req uuid d = with_user X now req (\<lambda>u. validated (ok X) (with_server_access uuid u (body now uuid))) d"
begin

lemma forbidden:
  assumes "JwtAuthGuard X now req d = Inr u" and "findOne (\<lambda>s. server_uuid s = uuid) (db_servers d) = Some s"
    and "\<not> au_rootAdmin u" "server_userId s \<noteq> au_id u" and "ok X"
  shows "route X now req uuid d = (Inl (ForbiddenException ''You do not have access to this server''), d)"
  using assms
  by (simp add: route_gate with_user_def RolesGuard_def validated_def with_server_access_def
      ServersService_findByUuid_def ServersService_checkAccess_def)

lemma granted:
  assumes "JwtAuthGuard X now req d = Inr u" and "findOne (\<lambda>s. server_uuid s = uuid) (db_servers d) = Some s"
    and "au_rootAdmin u \<or> server_userId s = au_id u" and "ok X"
  shows "route X now req uuid d = body now uuid (load_server d s) d"
proof -
  have "ServersService_checkAccess s (au_id u) (au_rootAdmin u) = Inr ()"
    using assms(3) by (auto simp: ServersService_checkAccess_def)
  then show ?thesis
    using assms(1,2,4)
    by (simp add: route_gate with_user_def RolesGuard_def with_server_access_def
        ServersService_findByUuid_def split: unit.split)
qed

lemma refused:
  assumes "\<nexists>u s. JwtAuthGuard X now req d = Inr u \<and> findOne (\<lambda>s. server_uuid s = uuid) (db_servers d) = Some s \<and>
    (au_rootAdmin u \<or> server_userId s = au_id u) \<and> ok X"
  shows "snd (route X now req uuid d) = d" and "\<not> is_ok (fst (route X now req uuid d))"
  using assms
  by (auto simp: route_gate with_user_def RolesGuard_def validated_def with_server_access_def
      ServersService_findByUuid_def ServersService_checkAccess_def split: sum.splits option.splits)

end

interpretation show_route: server_route ServersController_findByUuid "\<lambda>_. True" "\<lambda>_ _ full d. (Inr full, d)"
  by unfold_locales (simp add: ServersController_findByUuid_def)

interpretation update_route: server_route "\<lambda>X now req uuid. ServersController_update X now req uuid dto"
    "\<lambda>_. UpdateServerDto_ok dto" "\<lambda>_ uuid _. ServersService_update uuid dto" for dto
  by unfold_locales (simp add: ServersController_update_def)

interpretation power_route: server_route "\<lambda>X now req uuid. ServersController_power X W now req uuid action"
    "\<lambda>_. True" "\<lambda>_ uuid _. ServersService_power W uuid action" for W action
  by unfold_locales (simp add: ServersController_power_def)

interpretation command_route: server_route "\<lambda>X now req uuid. ServersController_sendCommand X W now req uuid command"
    "\<lambda>_. ConsoleCommandDto_ok command" "\<lambda>_ uuid _. ServersService_sendCommand W uuid command" for W command
  by unfold_locales (simp add: ServersController_sendCommand_def)

text \<open>
  A signed-in user who is neither an administrator nor the owner of a server can neither
  read it, change it, switch its power nor type into its console: each of those requests is
  answered with 403, nothing is written and no call reaches the daemon.
\<close>

theorem foreign_server_forbidden:
  fixes s :: "'z wings_panel_scheme"
  assumes "JwtAuthGuard X now req s = Inr u" and "findOne (\<lambda>x. server_uuid x = uuid) (db_servers s) = Some x"
    and "\<not> au_rootAdmin u" and "server_userId x \<noteq> au_id u"
    and "UpdateServerDto_ok dto" and "ConsoleCommandDto_ok command"
  defines "no \<equiv> ForbiddenException ''You do not have access to this server''"
  shows "ServersController_findByUuid X now req uuid s = (Inl no, s) \<and>
    ServersController_update X now req uuid dto s = (Inl no, s) \<and>
    ServersController_power X W now req uuid action s = (Inl no, s) \<and>
    ServersController_sendCommand X W now req uuid command s = (Inl no, s)"
  unfolding no_def using assms(1-6)
  by (simp add: show_route.forbidden update_route.forbidden power_route.forbidden command_route.forbidden)

text \<open>A panel with a third user, who owns nothing.\<close>

definition eve :: UserEntity where
  "eve = demo_user ''u3'' ''eve'' False"

definition demo_three :: wings_panel where
  "demo_three = demo_panel\<lparr>db_users := db_users demo_panel @ [eve]\<rparr>"

lemma demo_three_guard:
  "u \<in> {demo_user ''u1'' ''ann'' True, demo_user ''u2'' ''bob'' False, eve} \<Longrightarrow>
   JwtAuthGuard demo_ext 0 (demo_cookie u) demo_three =
     Inr \<lparr>au_id = user_id u, au_email = user_email u, au_rootAdmin = user_rootAdmin u\<rparr>"
  using demo_cookie_guard [where u = u and v = u and d = demo_three]
  by (auto simp: validateUser_def findOne_def demo_three_def eve_def demo_user_def)

lemma demo_three_server: "findOne (\<lambda>x. server_uuid x = ''uuid-1'') (db_servers demo_three) = Some demo_server"
  by (simp add: demo_three_def findOne_def demo_server_def)

theorem foreign_server_forbidden_witness:
  "ServersController_power demo_ext wings_up 0 (demo_cookie eve) ''uuid-1'' KILL demo_three =
     (Inl (ForbiddenException ''You do not have access to this server''), demo_three)"
proof -
  let ?dto = "\<lparr>usd_name = None, usd_description = None, usd_memory = Some 64, usd_cpu = None, usd_disk = None,
    usd_envVariables = None, usd_swap = None, usd_io = None, usd_threads = None, usd_oomDisabled = None,
    usd_startup = None, usd_image = None, usd_externalId = None\<rparr>"
  have "UpdateServerDto_ok ?dto" "ConsoleCommandDto_ok ''stop''"
    by (simp_all add: UpdateServerDto_ok_def opt_ok_def ConsoleCommandDto_ok_def)
  from foreign_server_forbidden [OF demo_three_guard demo_three_server _ _ this, of eve]
  show ?thesis by (simp add: eve_def demo_user_def demo_server_def)
qed

section \<open>Power\<close>

text \<open>Who may switch which server: the conditions of the route, in one place.\<close>

definition may_power :: "ext \<Rightarrow> nat \<Rightarrow> Request \<Rightarrow> string \<Rightarrow> 'z wings_panel_scheme \<Rightarrow> NodeEntity \<Rightarrow> bool" where
  "may_power X now req uuid s node \<longleftrightarrow>
     (\<exists>u x. JwtAuthGuard X now req s = Inr u \<and>
        findOne (\<lambda>x. server_uuid x = uuid) (db_servers s) = Some x \<and>
        (au_rootAdmin u \<or> server_userId x = au_id u) \<and>
        server_status x \<noteq> Some INSTALLING \<and> server_status x \<noteq> Some SUSPENDED \<and>
        findOne (\<lambda>n. node_id n = server_nodeId x) (db_nodes s) = Some node)"

lemma power_service:
  assumes "findOne (\<lambda>x. server_uuid x = uuid) (db_servers s) = Some x"
  shows "ServersService_power W uuid action s =
    (if server_status x = Some INSTALLING
     then (Inl (BadRequestException ''Cannot perform power action on a server that is still installing''), s)
     else if server_status x = Some SUSPENDED
     then (Inl (BadRequestException ''Cannot perform power action on a suspended server''), s)
     else (case findOne (\<lambda>n. node_id n = server_nodeId x) (db_nodes s) of
             None \<Rightarrow> (Inl TypeError, s)
           | Some node \<Rightarrow> WingsService_powerAction W node uuid action s))"
proof -
  have "server_uuid x = uuid" using assms by (auto dest: findOne_Some)
  then show ?thesis
    using assms by (simp add: ServersService_power_def ServersService_findByUuid_def on_node_def load_server_def)
qed

text \<open>
  C8. A power action reaches a daemon exactly when its sender is signed in and owns the server
  or is an administrator, and the server is neither installing nor suspended; then the one
  call sent is that action for that server, to the server's own node.  In every other case
  the request fails and the state stays as it is; the database never changes.
\<close>

theorem power_gate:
  assumes "ServersController_power X W now req uuid action s = (r, s')"
  shows "db.truncate s' = db.truncate s \<and>
    (if \<exists>node. may_power X now req uuid s node
     then \<exists>node. may_power X now req uuid s node \<and>
            s' = after_call node (SendPowerAction uuid (mapPowerAction action)) s
     else s' = s \<and> \<not> is_ok r)"
proof (cases "\<exists>u x. JwtAuthGuard X now req s = Inr u \<and> findOne (\<lambda>x. server_uuid x = uuid) (db_servers s) = Some x \<and>
    (au_rootAdmin u \<or> server_userId x = au_id u)")
  case False
  have "s' = s" "\<not> is_ok r"
    using power_route.refused [of X now req s uuid W action] assms False by auto
  moreover have "\<not> (\<exists>node. may_power X now req uuid s node)" using False by (auto simp: may_power_def)
  ultimately show ?thesis by simp
next
  case True
  then obtain u x where ux: "JwtAuthGuard X now req s = Inr u"
      "findOne (\<lambda>x. server_uuid x = uuid) (db_servers s) = Some x" "au_rootAdmin u \<or> server_userId x = au_id u" by blast
  have m: "may_power X now req uuid s node \<longleftrightarrow>
      server_status x \<noteq> Some INSTALLING \<and> server_status x \<noteq> Some SUSPENDED \<and>
      findOne (\<lambda>n. node_id n = server_nodeId x) (db_nodes s) = Some node" for node
    using ux by (simp add: may_power_def)
  have "(r, s') = ServersService_power W uuid action s"
    using power_route.granted [OF ux TrueI, of W action] assms by simp
  then show ?thesis
    unfolding power_service [OF ux(2)] m
    by (auto simp: WingsService_powerAction_def node_grpc_state split: if_splits option.splits
        dest: arg_cong [where f = snd])
qed

theorem power_gate_witness:
  "\<exists>node. snd (ServersController_power demo_ext wings_up 0 (demo_cookie (demo_user ''u2'' ''bob'' False)) ''uuid-1'' KILL demo_three) =
     after_call node (SendPowerAction ''uuid-1'' 3) demo_three"
proof -
  let ?bob = "demo_user ''u2'' ''bob'' False"
  have "JwtAuthGuard demo_ext 0 (demo_cookie ?bob) demo_three =
      Inr \<lparr>au_id = user_id ?bob, au_email = user_email ?bob, au_rootAdmin = user_rootAdmin ?bob\<rparr>"
    by (rule demo_three_guard) simp
  moreover have "findOne (\<lambda>n. node_id n = server_nodeId demo_server) (db_nodes demo_three) = Some demo_node"
    by (simp add: findOne_def demo_three_def demo_node_def demo_server_def)
  ultimately have "may_power demo_ext 0 (demo_cookie ?bob) ''uuid-1'' demo_three demo_node"
    unfolding may_power_def using demo_three_server
    by (intro exI conjI) (assumption | simp add: demo_user_def demo_server_def)+
  then show ?thesis
    using power_gate [OF prod.collapse [symmetric], of demo_ext wings_up 0 "demo_cookie ?bob" "''uuid-1''" KILL demo_three]
    by (auto split: if_split_asm)
qed

section \<open>Suspension\<close>

lemma on_node_power_state:
  "\<exists>cl ca. snd (on_node full (\<lambda>node. WingsService_powerAction W node u a) s) = moved s cl ca"
proof (cases "fs_node full")
  case None
  then show ?thesis
    by (intro exI [of _ "pn_clients s"] exI [of _ "pn_calls s"]) (simp add: on_node_def)
next
  case (Some node)
  then show ?thesis
    by (auto simp: on_node_def WingsService_powerAction_def node_grpc_state after_call_def)
qed

lemma on_node_same: "(\<And>node s. snd (h node s) = s) \<Longrightarrow> snd (on_node full h s) = s"
  by (simp add: on_node_def split: option.split)

lemma find_update_server:
  "(\<And>x. server_id (f x) = server_id x) \<Longrightarrow>
   findOne (\<lambda>x. server_id x = i) (db_servers (update_server i f d)) = map_option f (findOne (\<lambda>x. server_id x = i) (db_servers d))"
  by (cases "findOne (\<lambda>x. server_id x = i) (db_servers d)") (auto simp: findOne_updateRows dest: findOne_Some)

lemma find_uuid_update_server:
  "(\<And>x. server_uuid (f x) = server_uuid x) \<Longrightarrow> distinct (map server_id (db_servers d)) \<Longrightarrow>
   findOne (\<lambda>x. server_uuid x = u) (db_servers d) = Some x \<Longrightarrow>
   findOne (\<lambda>x. server_uuid x = u) (db_servers (update_server (server_id x) f d)) = Some (f x)"
  by (auto simp: findOne_updateRows)

lemma update_server_moved: "update_server i f (moved s cl ca) = moved (update_server i f s) cl ca"
  by (simp add: update_server_def)

lemma update_server_twice:
  "(\<And>x. server_id (g x) = server_id x) \<Longrightarrow>
   update_server i f (update_server i g d) = update_server i (f \<circ> g) d"
  by (auto simp: update_server_def updateRows_def)

text \<open>
  Suspending a server that is not suspended succeeds whether or not its daemon can be
  reached, and changes one column of one row; while it lasts every power action is refused
  without a call; lifting the suspension then only clears the status, so that for a server
  that was in its normal state the two together change nothing in the database.
\<close>

theorem suspend_then_unsuspend:
  assumes "ServersService_suspend W i s = (r, s')" and "db_ok s"
    and "findOne (\<lambda>x. server_id x = i) (db_servers s) = Some x" and "server_status x \<noteq> Some SUSPENDED"
    and "distinct (map server_uuid (db_servers s))"
  shows "is_ok r \<and> db_ok s' \<and>
    db.truncate s' = db.truncate (update_server i (server_status_update (\<lambda>_. Some SUSPENDED)) s) \<and>
    (\<forall>W' action. ServersService_power W' (server_uuid x) action s' =
       (Inl (BadRequestException ''Cannot perform power action on a suspended server''), s')) \<and>
    (\<forall>r' s''. ServersService_unsuspend i s' = (r', s'') \<longrightarrow> is_ok r' \<and>
       db.truncate s'' = db.truncate (update_server i (server_status_update (\<lambda>_. None)) s))"
proof -
  let ?f = "server_status_update (\<lambda>_. Some SUSPENDED)" and ?g = "server_status_update (\<lambda>_. None)"
  have i: "server_id x = i" using assms(3) by (auto dest: findOne_Some)
  have full: "ServersService_findById i s = Inr (load_server s x)" using assms(3) by (simp add: ServersService_findById_def)
  obtain cl ca where p: "snd (on_node (load_server s x) (\<lambda>node. WingsService_powerAction W node (server_uuid x) KILL) s) = moved s cl ca"
    using on_node_power_state by blast
  have s': "s' = moved (update_server i ?f s) cl ca" and r: "r = ServersService_findById i s'"
    using assms(1,4) by (auto simp: ServersService_suspend_def full Let_def i p on_node_same
        WingsService_suspendServer_def update_server_moved)
  have f1: "findOne (\<lambda>x. server_id x = i) (db_servers s') = Some (?f x)"
    using find_update_server [of ?f i s] assms(3) by (simp add: s')
  have ok: "db_ok s'" unfolding s' db_ok_moved by (rule update_server_ok [OF assms(2)]) simp_all
  have d: "distinct (map server_id (db_servers s))" using assms(2) by (simp add: db_ok_def db_keys_def unique_rows_def)
  have "findOne (\<lambda>y. server_uuid y = server_uuid x) (db_servers s) = Some x"
    using assms(3,5) by (intro findOne_key) (auto dest: findOne_Some)
  from find_uuid_update_server [OF _ d this, of ?f]
  have u1: "findOne (\<lambda>y. server_uuid y = server_uuid x) (db_servers s') = Some (?f x)" by (simp add: s' i)
  have t: "db.truncate s' = db.truncate (update_server i ?f s)" by (simp add: s')
  have "ServersService_power W' (server_uuid x) action s' =
       (Inl (BadRequestException ''Cannot perform power action on a suspended server''), s')" for W' action
    using power_service [OF u1] by simp
  moreover have "is_ok r' \<and> db.truncate s'' = db.truncate (update_server i ?g s)"
    if un: "ServersService_unsuspend i s' = (r', s'')" for r' s''
  proof -
    have "ServersService_findById i s' = Inr (load_server s' (?f x))" using f1 by (simp add: ServersService_findById_def)
    then have s'': "s'' = update_server i ?g s'" "r' = ServersService_findById i s''"
      using un by (auto simp: ServersService_unsuspend_def Let_def i on_node_same WingsService_unsuspendServer_def)
    have "s'' = moved (update_server i ?g s) cl ca"
      unfolding s'' s' update_server_moved by (simp add: update_server_twice o_def)
    moreover have "findOne (\<lambda>x. server_id x = i) (db_servers s'') = Some (?g (?f x))"
      using find_update_server [of ?g i s'] f1 by (simp add: s'')
    ultimately show ?thesis using s''(2) by (simp add: ServersService_findById_def)
  qed
  moreover have "is_ok r" using f1 by (simp add: r ServersService_findById_def)
  ultimately show ?thesis using ok t by blast
qed

theorem suspend_then_unsuspend_witness:
  "let s' = snd (ServersService_suspend wings_up ''s1'' demo_panel) in
     ServersService_power wings_up ''uuid-1'' KILL s' =
       (Inl (BadRequestException ''Cannot perform power action on a suspended server''), s') \<and>
     db.truncate (snd (ServersService_unsuspend ''s1'' s')) = demo_full"
proof -
  have f: "findOne (\<lambda>x. server_id x = ''s1'') (db_servers demo_panel) = Some demo_server"
    by (simp add: findOne_def demo_server_def)
  have "update_server ''s1'' (server_status_update (\<lambda>_. None)) demo_panel = demo_panel"
  proof -
    have "updateRows (\<lambda>x. server_id x = ''s1'') (server_status_update (\<lambda>_. None)) (db_servers demo_panel) = db_servers demo_panel"
      by (simp add: updateRows_def) (simp add: demo_server_def)
    then show ?thesis unfolding update_server_def by (simp del: demo_panel_sel)
  qed
  note restored = this
  obtain r s' where 1: "ServersService_suspend wings_up ''s1'' demo_panel = (r, s')" by force
  obtain r2 s2 where 2: "ServersService_unsuspend ''s1'' s' = (r2, s2)" by force
  have "server_status demo_server \<noteq> Some SUSPENDED" "distinct (map server_uuid (db_servers demo_panel))"
    and u: "server_uuid demo_server = ''uuid-1''" by (simp_all add: demo_server_def)
  from suspend_then_unsuspend [OF 1 demo_panel_ok f this(1,2)] 2 show ?thesis
    by (simp add: 1 restored demo_panel_truncate u)
qed

section \<open>Deletion\<close>

lemma server_allocation_unique:
  assumes "db_ok d" and "a \<in> set (db_allocations d)" "b \<in> set (db_allocations d)"
    and "alloc_serverId a = Some i" "alloc_serverId b = Some i"
  shows "a = b"
proof (rule ccontr)
  have u: "unique_rows alloc_id allocation_clash (db_allocations d)" using assms(1) by (simp add: db_ok_def db_keys_def)
  assume "a \<noteq> b"
  then have "alloc_id a \<noteq> alloc_id b"
    using assms(2,3) distinct_map_key_eq [OF unique_rows_distinct [OF u]] by blast
  then have "\<not> allocation_clash a b" using u assms(2,3) unfolding unique_rows_def by blast
  then show False using assms(4,5) by (simp add: allocation_clash_def same_some_def)
qed

text \<open>Releasing the server's allocation is releasing every allocation that names it.\<close>

lemma release_all:
  assumes "db_ok d"
  shows "release_allocation (load_server d x) d = d\<lparr>db_allocations :=
    updateRows (\<lambda>a. alloc_serverId a = Some (server_id x)) (alloc_serverId_update (\<lambda>_. None)) (db_allocations d)\<rparr>"
proof (cases "findOne (\<lambda>a. alloc_serverId a = Some (server_id x)) (db_allocations d)")
  case None
  then have "updateRows (\<lambda>a. alloc_serverId a = Some (server_id x)) (alloc_serverId_update (\<lambda>_. None)) (db_allocations d) = db_allocations d"
    by (intro updateRows_none) (auto simp: findOne_None hasRow_iff)
  then show ?thesis using None by (simp add: release_allocation_def load_server_def)
next
  case (Some a)
  then have a: "a \<in> set (db_allocations d)" "alloc_serverId a = Some (server_id x)" by (auto dest: findOne_Some)
  have u: "distinct (map alloc_id (db_allocations d))" using assms by (simp add: db_ok_def db_keys_def unique_rows_def)
  have "alloc_id y = alloc_id a \<longleftrightarrow> alloc_serverId y = Some (server_id x)" if "y \<in> set (db_allocations d)" for y
    using distinct_map_key_eq [OF u that a(1)] server_allocation_unique [OF assms that a(1) _ a(2)] a(2) by blast
  then have "updateRows (\<lambda>y. alloc_id y = alloc_id a) (alloc_serverId_update (\<lambda>_. None)) (db_allocations d) =
      updateRows (\<lambda>y. alloc_serverId y = Some (server_id x)) (alloc_serverId_update (\<lambda>_. None)) (db_allocations d)"
    by (simp add: updateRows_def)
  then show ?thesis using Some by (simp add: release_allocation_def load_server_def)
qed

lemma release_ok:
  assumes "db_ok d"
  shows "db_ok (d\<lparr>db_allocations := updateRows P (alloc_serverId_update (\<lambda>_. None)) (db_allocations d)\<rparr>)"
proof -
  have u: "unique_rows alloc_id allocation_clash (db_allocations d)" using assms by (simp add: db_ok_def db_keys_def)
  have "unique_rows alloc_id allocation_clash (updateRows P (alloc_serverId_update (\<lambda>_. None)) (db_allocations d))"
    by (rule unique_rows_updateRows [OF u]) (auto simp: allocation_clash_def same_some_def split: option.splits)
  then show ?thesis
    using assms by (auto simp: db_ok_def db_keys_def children_defs exists_iff table_sets)
qed

lemma server_delete_result:
  assumes "ServersService_delete W uuid s = (r, s')" and "db_ok s"
    and "findOne (\<lambda>x. server_uuid x = uuid) (db_servers s) = Some x"
  shows "r = Inr () \<and> db_ok s' \<and>
    db_servers s' = removeRows (\<lambda>y. server_id y = server_id x) (db_servers s) \<and>
    db_allocations s' = updateRows (\<lambda>a. alloc_serverId a = Some (server_id x)) (alloc_serverId_update (\<lambda>_. None)) (db_allocations s) \<and>
    set (db_subusers s') = {y \<in> set (db_subusers s). subuser_serverId y \<noteq> server_id x} \<and>
    set (db_databases s') = {y \<in> set (db_databases s). sdb_serverId y \<noteq> server_id x} \<and>
    set (db_schedules s') = {y \<in> set (db_schedules s). sched_serverId y \<noteq> server_id x} \<and>
    db_users s' = db_users s \<and> db_nodes s' = db_nodes s \<and> db_eggs s' = db_eggs s"
proof -
  let ?h = "\<lambda>node. WingsService_deleteServer W node uuid"
  have u: "server_uuid x = uuid" and x: "x \<in> set (db_servers s)" using assms(3) by (auto dest: findOne_Some)
  obtain cl ca where m: "snd (on_node (load_server s x) ?h s) = moved s cl ca"
  proof (cases "fs_node (load_server s x)")
    case None
    then show thesis using that [of "pn_calls s" "pn_clients s"] by (simp add: on_node_def)
  next
    case (Some node)
    then show thesis using that
      by (simp add: on_node_def WingsService_deleteServer_def node_grpc_state after_call_def)
  qed
  have l: "load_server s x = load_server (moved s cl ca) x" by (simp add: load_server_def)
  let ?s2 = "(moved s cl ca)\<lparr>db_allocations :=
    updateRows (\<lambda>a. alloc_serverId a = Some (server_id x)) (alloc_serverId_update (\<lambda>_. None)) (db_allocations s)\<rparr>"
  have s2: "release_allocation (load_server s x) (moved s cl ca) = ?s2"
    using release_all [of "moved s cl ca" x] assms(2) unfolding l by simp
  have ok2: "db_ok ?s2" using release_ok [of "moved s cl ca"] assms(2) by simp
  let ?s3 = "cascade_servers (\<lambda>y. server_id y = server_id x) ?s2"
  have "allocation_refs ?s3"
    using db_ok_allocation_refs [OF ok2]
    by (fastforce simp: allocation_refs_iff exists_iff store_simps opt_ref_def split: option.splits)
  then have rem: "remove_server (server_id x) ?s2 = Inr ?s3" by (simp add: remove_server_def checked_def)
  have "r = Inr ()" "s' = ?s3"
    using assms(1,3) by (auto simp: ServersService_delete_def ServersService_findByUuid_def Let_def u m s2 rem)
  moreover have "db_ok ?s3" by (rule remove_ok(1) [OF rem ok2])
  moreover have "db_servers ?s3 = removeRows (\<lambda>y. server_id y = server_id x) (db_servers s)"
    by (simp add: cascade_servers_def remove_schedules_def remove_scheduleTasks_def Let_def)
  ultimately show ?thesis using x by (auto simp: store_simps)
qed

text \<open>
  C32. Deleting a server always succeeds, whether or not its daemon can be reached: the server
  and its subusers, databases, schedules and their tasks go, its allocation is free again,
  every other server, node, user and egg stays as it was, and the constraints of the database
  hold.
\<close>

theorem server_delete_spec:
  assumes "ServersService_delete W uuid s = (r, s')" and "db_ok s"
    and "findOne (\<lambda>x. server_uuid x = uuid) (db_servers s) = Some x"
  shows "r = Inr () \<and> db_ok s' \<and>
    db_servers s' = removeRows (\<lambda>y. server_id y = server_id x) (db_servers s) \<and>
    db_allocations s' = updateRows (\<lambda>a. alloc_serverId a = Some (server_id x)) (alloc_serverId_update (\<lambda>_. None)) (db_allocations s) \<and>
    set (db_subusers s') = {y \<in> set (db_subusers s). subuser_serverId y \<noteq> server_id x} \<and>
    set (db_databases s') = {y \<in> set (db_databases s). sdb_serverId y \<noteq> server_id x} \<and>
    set (db_schedules s') = {y \<in> set (db_schedules s). sched_serverId y \<noteq> server_id x} \<and>
    db_users s' = db_users s \<and> db_nodes s' = db_nodes s \<and> db_eggs s' = db_eggs s"
  by (rule server_delete_result [OF assms])

text \<open>A daemon that never answers.\<close>

definition wings_down :: wings where
  "wings_down calls call = CallFailed ''unreachable''"

theorem server_delete_spec_witness:
  "let (r, s') = ServersService_delete wings_down ''uuid-1'' demo_panel in
     r = Inr () \<and> db_servers s' = [] \<and> map alloc_serverId (db_allocations s') = [None, None]"
proof -
  obtain r s' where 1: "ServersService_delete wings_down ''uuid-1'' demo_panel = (r, s')" by force
  have f: "findOne (\<lambda>x. server_uuid x = ''uuid-1'') (db_servers demo_panel) = Some demo_server"
    by (simp add: findOne_def demo_server_def)
  from server_delete_spec [OF 1 demo_panel_ok f] show ?thesis
    by (simp add: 1 removeRows_def updateRows_def demo_allocation_def demo_server_def)
qed

section \<open>Updates by the owner\<close>

text \<open>
  The update route cannot move a server or change what it is: whoever sends whatever body,
  every server keeps its identifiers, owner, node, nest, egg, allocation, status and install
  flag, no row appears or disappears, at most the addressed one changes, and its limits are at
  least the minimum of the validation when the body names them.  Nothing bounds the new
  limits by the node: the capacity check of the creation is not repeated.
\<close>

theorem server_update_keeps_placement:
  assumes "ServersController_update X now req uuid dto d = (r, d')" and "db_ok d"
  shows "db_ok d' \<and> (d' = d \<or>
    (\<exists>u x. JwtAuthGuard X now req d = Inr u \<and> (au_rootAdmin u \<or> server_userId x = au_id u) \<and>
       findOne (\<lambda>x. server_uuid x = uuid) (db_servers d) = Some x \<and>
       d' = d\<lparr>db_servers := updateRows (\<lambda>y. server_id y = server_id x) (\<lambda>_. assign_server dto x) (db_servers d)\<rparr> \<and>
       (let y = assign_server dto x in
          server_id y = server_id x \<and> server_uuid y = server_uuid x \<and> server_uuidShort y = server_uuidShort x \<and>
          server_userId y = server_userId x \<and> server_nodeId y = server_nodeId x \<and> server_nestId y = server_nestId x \<and>
          server_eggId y = server_eggId x \<and> server_allocationId y = server_allocationId x \<and>
          server_status y = server_status x \<and> server_installed y = server_installed x \<and>
          (\<forall>m. usd_memory dto = Some m \<longrightarrow> server_memory y = m \<and> 64 \<le> m) \<and>
          (usd_memory dto = None \<longrightarrow> server_memory y = server_memory x))))"
proof (cases "\<exists>u x. JwtAuthGuard X now req d = Inr u \<and> findOne (\<lambda>x. server_uuid x = uuid) (db_servers d) = Some x \<and>
    (au_rootAdmin u \<or> server_userId x = au_id u) \<and> UpdateServerDto_ok dto")
  case False
  then have "d' = d" using update_route.refused(1) [of X now req d uuid dto] assms(1) by auto
  then show ?thesis using assms(2) by simp
next
  case True
  then obtain u x where ux: "JwtAuthGuard X now req d = Inr u"
      "findOne (\<lambda>x. server_uuid x = uuid) (db_servers d) = Some x" "au_rootAdmin u \<or> server_userId x = au_id u"
      "UpdateServerDto_ok dto" by blast
  let ?y = "assign_server dto x"
  have e: "(r, d') = (case save_server ?y d of Inl e \<Rightarrow> (Inl e, d) | Inr d1 \<Rightarrow> (Inr ?y, d1))"
    using update_route.granted [OF ux] assms(1) ux(2)
    by (simp add: ServersService_update_def ServersService_findByUuid_def Let_def)
  show ?thesis
  proof (cases "save_server ?y d")
    case (Inl e')
    then show ?thesis using e assms(2) by simp
  next
    case (Inr d1)
    have i: "server_id ?y = server_id x" by (simp add: assign_server_def)
    have "hasRow (\<lambda>z. server_id z = server_id x) (db_servers d)" using ux(2) by (auto simp: hasRow_iff dest: findOne_Some)
    then have "d1 = d\<lparr>db_servers := updateRows (\<lambda>y. server_id y = server_id x) (\<lambda>_. ?y) (db_servers d)\<rparr>"
      using Inr by (auto simp: save_server_def map_sum_Inr upsertRow_def i dest!: saveRow_Inr)
    moreover have "db_ok d1" using save_ok(12) [OF Inr assms(2)] .
    moreover have "d' = d1" using e Inr by simp
    moreover have "\<forall>m. usd_memory dto = Some m \<longrightarrow> 64 \<le> m"
      using ux(4) by (auto simp: UpdateServerDto_ok_def opt_ok_def)
    ultimately show ?thesis using ux(1-3) by (auto simp: Let_def assign_server_def)
  qed
qed

lemma demo_three_ok: "db_ok demo_three"
proof -
  have "db.truncate demo_three = demo_full\<lparr>db_users := db_users demo_full @ [eve]\<rparr>"
    by (simp add: demo_three_def demo_panel_truncate [symmetric] db.truncate_def)
  moreover have "db_ok (demo_full\<lparr>db_users := db_users demo_full @ [eve]\<rparr>)"
  proof -
    have "save_user eve demo_full = Inr (demo_full\<lparr>db_users := db_users demo_full @ [eve]\<rparr>)"
      by (simp add: save_user_def saveRow_def hasRow_def upsertRow_def insertRow_def user_clash_def eve_def demo_user_def)
    then show ?thesis by (rule save_ok(1)) (rule demo_full_ok)
  qed
  ultimately show ?thesis using db_ok_truncate [of demo_three] by simp
qed

definition greedy_update :: UpdateServerDto where
  "greedy_update = \<lparr>usd_name = None, usd_description = None, usd_memory = Some 5000, usd_cpu = None, usd_disk = None,
     usd_envVariables = None, usd_swap = None, usd_io = None, usd_threads = None, usd_oomDisabled = None,
     usd_startup = None, usd_image = None, usd_externalId = None\<rparr>"

theorem server_update_keeps_placement_witness:
  "map server_userId (db_servers (snd (ServersController_update demo_ext 0
     (demo_cookie (demo_user ''u2'' ''bob'' False)) ''uuid-1'' greedy_update demo_three))) = [''u2'']"
proof -
  obtain r d' where 1: "ServersController_update demo_ext 0 (demo_cookie (demo_user ''u2'' ''bob'' False)) ''uuid-1''
      greedy_update demo_three = (r, d')" by force
  have s: "db_servers demo_three = [demo_server]" by (simp add: demo_three_def)
  have u: "server_userId demo_server = ''u2''" by (simp add: demo_server_def)
  from server_update_keeps_placement [OF 1 demo_three_ok] demo_three_server show ?thesis
    by (auto simp: 1 s u updateRows_def Let_def)
qed

section \<open>The install callback\<close>

text \<open>
  The install callback asks for a valid daemon token and nothing more: the daemon of any
  node reports for the server of any other, and a report of success lifts a suspension.  With
  an accepted report exactly the reported server changes, in its status and install flag.
\<close>

theorem install_callback_spec:
  assumes "DaemonTokenGuard req d = Inr node" and "findOne (\<lambda>x. server_uuid x = uuid) (db_servers d) = Some x"
    and "db_ok d" and "status \<in> {''success'', ''failed''}"
    and "ServerCallbacks_installStatus req uuid status d = (r, d')"
  shows "r = Inr () \<and> db_ok d' \<and>
    d' = update_server (server_id x) (\<lambda>y. if status = ''success'' then y\<lparr>server_installed := 1, server_status := None\<rparr>
           else y\<lparr>server_installed := 2, server_status := Some INSTALL_FAILED\<rparr>) d \<and>
    (status = ''success'' \<longrightarrow> (\<exists>y. findOne (\<lambda>x. server_uuid x = uuid) (db_servers d') = Some y \<and> server_status y = None))"
proof -
  let ?f = "\<lambda>y. if status = ''success'' then y\<lparr>server_installed := 1, server_status := None\<rparr>
           else y\<lparr>server_installed := 2, server_status := Some INSTALL_FAILED\<rparr>"
  have e: "r = Inr ()" "d' = update_server (server_id x) ?f d"
    using assms(1,2,4,5)
    by (auto simp: ServerCallbacks_installStatus_def with_daemon_def ServersService_updateInstallStatus_def)
  have "db_ok d'" unfolding e(2) by (rule update_server_ok [OF assms(3)]) simp_all
  moreover have "distinct (map server_id (db_servers d))" using assms(3) by (simp add: db_ok_def db_keys_def unique_rows_def)
  then have "findOne (\<lambda>x. server_uuid x = uuid) (db_servers d') = Some (?f x)"
    unfolding e(2) by (intro find_uuid_update_server) (use assms(2) in simp_all)
  ultimately show ?thesis using e by auto
qed

theorem install_callback_spec_witness:
  "let d = update_server ''s1'' (server_status_update (\<lambda>_. Some SUSPENDED)) demo_full;
       d' = snd (ServerCallbacks_installStatus (demo_request None (Some ''Bearer tid.tok'')) ''uuid-1'' ''success'' d)
   in map server_status (db_servers d) = [Some SUSPENDED] \<and> map server_status (db_servers d') = [None]"
proof -
  let ?d = "update_server ''s1'' (server_status_update (\<lambda>_. Some SUSPENDED)) demo_full"
  let ?x = "demo_server\<lparr>server_status := Some SUSPENDED\<rparr>"
  let ?req = "demo_request None (Some ''Bearer tid.tok'')"
  have d: "db_servers ?d = [?x]" by (simp add: updateRows_def) (simp add: demo_server_def)
  have ok: "db_ok ?d" by (rule update_server_ok [OF demo_full_ok]) simp_all
  have g: "DaemonTokenGuard ?req ?d = Inr demo_node"
    by (simp add: DaemonTokenGuard_def bearer_prefix_def js_startsWith_def Let_def findOne_def demo_node_def)
  have f: "findOne (\<lambda>x. server_uuid x = ''uuid-1'') (db_servers ?d) = Some ?x"
    unfolding d by (simp add: findOne_def demo_server_def)
  obtain r d' where 1: "ServerCallbacks_installStatus ?req ''uuid-1'' ''success'' ?d = (r, d')" by force
  from install_callback_spec [OF g f ok _ 1] show ?thesis
    unfolding Let_def 1 d by (simp add: updateRows_def del: update_server_sel(1)) (simp add: d updateRows_def)
qed

end
