(* ===== verification/Gateway.thy ===== *)
theory Gateway
  imports ServersAccess
begin

text \<open>
  \<^verbatim>\<open>websocket/websocket.gateway.ts\<close>: the sockets of the browsers, how they authenticate
  and subscribe, the commands and power actions they send, and the two polls that forward a
  daemon's answers to the rooms.  A socket carries what it was sent; of socket.io the model
  has the table of connected sockets and the rooms.  Each handler, and each server of a poll,
  runs as one step.
\<close>

section \<open>State\<close>

datatype ServerMessage =
    AuthSuccess
  | ErrorMessage string
  | ConsoleLine json
  | StatsUpdate json
  | PowerState json

record GatewaySocket =
  sk_cookie :: "string option" \<comment> \<open>\<open>handshake.headers.cookie\<close>\<close>
  sk_queryServer :: "string option" \<comment> \<open>\<open>handshake.query.server\<close>\<close>
  sk_userId :: "string option"
  sk_serverUuid :: "string option"
  sk_rooms :: "string list"
  sk_sent :: "ServerMessage list"

record Subscriptions =
  sub_console :: bool
  sub_stats :: bool

record gateway_panel = wings_panel +
  gw_sockets :: "(string \<times> GatewaySocket) list"
  gw_subscriptions :: "string \<Rightarrow> Subscriptions option"

definition on_client ::
  "string \<Rightarrow> (GatewaySocket \<Rightarrow> 'z gateway_panel_scheme \<Rightarrow> 'z gateway_panel_scheme) \<Rightarrow>
   'z gateway_panel_scheme \<Rightarrow> 'z gateway_panel_scheme" where
  "on_client i h s = (case map_of (gw_sockets s) i of None \<Rightarrow> s | Some client \<Rightarrow> h client s)"

definition update_client :: "string \<Rightarrow> (GatewaySocket \<Rightarrow> GatewaySocket) \<Rightarrow> 'z gateway_panel_scheme \<Rightarrow> 'z gateway_panel_scheme" where
  "update_client i f s = s\<lparr>gw_sockets := map (\<lambda>(j, c). (j, if j = i then f c else c)) (gw_sockets s)\<rparr>"

definition set_subscriptions :: "string \<Rightarrow> (Subscriptions \<Rightarrow> Subscriptions) \<Rightarrow> 'z gateway_panel_scheme \<Rightarrow> 'z gateway_panel_scheme" where
  "set_subscriptions i f s =
     s\<lparr>gw_subscriptions := (gw_subscriptions s)(i := map_option f (gw_subscriptions s i))\<rparr>"

definition server_room :: "string \<Rightarrow> string" where
  "server_room uuid = ''server:'' @ uuid"

definition join_room :: "string \<Rightarrow> GatewaySocket \<Rightarrow> GatewaySocket" where
  "join_room room c = c\<lparr>sk_rooms := List.insert room (sk_rooms c)\<rparr>"

definition leave_room :: "string \<Rightarrow> GatewaySocket \<Rightarrow> GatewaySocket" where
  "leave_room room c = c\<lparr>sk_rooms := removeAll room (sk_rooms c)\<rparr>"

definition emit_client :: "ServerMessage \<Rightarrow> GatewaySocket \<Rightarrow> GatewaySocket" where
  "emit_client m c = c\<lparr>sk_sent := sk_sent c @ [m]\<rparr>"

text \<open>\<open>this.server.to(room).emit\<close>: every socket that is in the room.\<close>

definition emit_room :: "string \<Rightarrow> ServerMessage \<Rightarrow> 'z gateway_panel_scheme \<Rightarrow> 'z gateway_panel_scheme" where
  "emit_room room m s =
     s\<lparr>gw_sockets := map (\<lambda>(j, c). (j, if room \<in> set (sk_rooms c) then emit_client m c else c)) (gw_sockets s)\<rparr>"

definition emitConsoleOutput :: "string \<Rightarrow> json \<Rightarrow> 'z gateway_panel_scheme \<Rightarrow> 'z gateway_panel_scheme" where
  "emitConsoleOutput uuid line s = emit_room (server_room uuid) (ConsoleLine line) s"

definition emitStatsUpdate :: "string \<Rightarrow> json \<Rightarrow> 'z gateway_panel_scheme \<Rightarrow> 'z gateway_panel_scheme" where
  "emitStatsUpdate uuid stats s = emit_room (server_room uuid) (StatsUpdate stats) s"

definition emitPowerState :: "string \<Rightarrow> json \<Rightarrow> 'z gateway_panel_scheme \<Rightarrow> 'z gateway_panel_scheme" where
  "emitPowerState uuid state s = emit_room (server_room uuid) (PowerState state) s"

section \<open>Connecting\<close>

text \<open>\<open>cookies.match(/nexus_session=([^;]+)/)?.[1]\<close>: the first match anywhere in the header.\<close>

definition session_prefix :: string where
  "session_prefix = ''nexus_session=''"

fun session_match :: "string \<Rightarrow> string option" where
  "session_match [] = None"
| "session_match (c # cs) =
     (let value = takeWhile (\<lambda>x. x \<noteq> CHR '';'') (drop (length session_prefix) (c # cs))
      in if js_startsWith (c # cs) session_prefix \<and> value \<noteq> [] then Some value else session_match cs)"

definition handleConnection :: "ext \<Rightarrow> nat \<Rightarrow> string \<Rightarrow> 'z gateway_panel_scheme \<Rightarrow> 'z gateway_panel_scheme" where
  "handleConnection X now i s0 =
     (let s = s0\<lparr>gw_subscriptions := (gw_subscriptions s0)(i \<mapsto> \<lparr>sub_console = False, sub_stats = False\<rparr>)\<rparr>
      in on_client i (\<lambda>client s.
           case session_match (str_or (sk_cookie client) []) of
             None \<Rightarrow> s
           | Some token \<Rightarrow>
               (case jwtVerify X now token of
                  None \<Rightarrow> s
                | Some payload \<Rightarrow>
                    (let s1 = update_client i (sk_userId_update (\<lambda>_. Some (jwt_sub payload))) s
                     in if truthy_str (sk_queryServer client)
                        then (let uuid = str_or (sk_queryServer client) []
                              in update_client i (emit_client AuthSuccess)
                                   (set_subscriptions i (\<lambda>_. \<lparr>sub_console = True, sub_stats = True\<rparr>)
                                     (update_client i (join_room (server_room uuid) \<circ> sk_serverUuid_update (\<lambda>_. Some uuid)) s1)))
                        else s1))) s)"

text \<open>A socket enters the table before the handler runs, with what its handshake carried.\<close>

definition gateway_connect ::
  "ext \<Rightarrow> nat \<Rightarrow> string \<Rightarrow> string option \<Rightarrow> string option \<Rightarrow> 'z gateway_panel_scheme \<Rightarrow> 'z gateway_panel_scheme" where
  "gateway_connect X now i cookie server s =
     handleConnection X now i (s\<lparr>gw_sockets := gw_sockets s @
       [(i, \<lparr>sk_cookie = cookie, sk_queryServer = server, sk_userId = None, sk_serverUuid = None, sk_rooms = [], sk_sent = []\<rparr>)]\<rparr>)"

definition handleDisconnect :: "string \<Rightarrow> 'z gateway_panel_scheme \<Rightarrow> 'z gateway_panel_scheme" where
  "handleDisconnect i s0 =
     (let s = s0\<lparr>gw_subscriptions := (gw_subscriptions s0)(i := None)\<rparr>
      in on_client i (\<lambda>client s.
           case sk_serverUuid client of
             None \<Rightarrow> s
           | Some uuid \<Rightarrow> if uuid = [] then s else update_client i (leave_room (server_room uuid)) s) s)"

text \<open>socket.io then drops the socket, and with it its place in every room.\<close>

definition gateway_disconnect :: "string \<Rightarrow> 'z gateway_panel_scheme \<Rightarrow> 'z gateway_panel_scheme" where
  "gateway_disconnect i s =
     (let s1 = handleDisconnect i s in s1\<lparr>gw_sockets := filter (\<lambda>(j, c). j \<noteq> i) (gw_sockets s1)\<rparr>)"

section \<open>Messages of a client\<close>

definition handleAuth :: "ext \<Rightarrow> nat \<Rightarrow> string \<Rightarrow> string \<Rightarrow> string \<Rightarrow> 'z gateway_panel_scheme \<Rightarrow> 'z gateway_panel_scheme" where
  "handleAuth X now i token serverUuid s =
     (case jwtVerify X now token of
        Some payload \<Rightarrow>
          update_client i (emit_client AuthSuccess \<circ> join_room (server_room serverUuid) \<circ>
            sk_serverUuid_update (\<lambda>_. Some serverUuid) \<circ> sk_userId_update (\<lambda>_. Some (jwt_sub payload))) s
      | None \<Rightarrow> gateway_disconnect i (update_client i (emit_client (ErrorMessage ''Authentication failed'')) s))"

definition handleSubscribeConsole :: "string \<Rightarrow> 'z gateway_panel_scheme \<Rightarrow> 'z gateway_panel_scheme" where
  "handleSubscribeConsole i s =
     on_client i (\<lambda>client s. if \<not> truthy_str (sk_userId client) then s
                             else set_subscriptions i (sub_console_update (\<lambda>_. True)) s) s"

definition handleSubscribeStats :: "string \<Rightarrow> 'z gateway_panel_scheme \<Rightarrow> 'z gateway_panel_scheme" where
  "handleSubscribeStats i s =
     on_client i (\<lambda>client s. if \<not> truthy_str (sk_userId client) then s
                             else set_subscriptions i (sub_stats_update (\<lambda>_. True)) s) s"

text \<open>\<open>findByUuid\<close> and a call on \<open>server.node\<close>, as the handlers and the polls begin.\<close>

definition call_server ::
  "string \<Rightarrow> (NodeEntity \<Rightarrow> string \<Rightarrow> 'z wings_panel_scheme \<Rightarrow> ('z wings_panel_scheme, 'a) handled) \<Rightarrow>
   'z wings_panel_scheme \<Rightarrow> ('z wings_panel_scheme, 'a) handled" where
  "call_server uuid h s =
     (case ServersService_findByUuid uuid s of
        Inl e \<Rightarrow> (Inl e, s)
      | Inr full \<Rightarrow> on_node full (\<lambda>node. h node (server_uuid (fs_server full))) s)"

definition handleSendCommand :: "wings \<Rightarrow> string \<Rightarrow> string \<Rightarrow> 'z gateway_panel_scheme \<Rightarrow> 'z gateway_panel_scheme" where
  "handleSendCommand W i command s =
     on_client i (\<lambda>client s.
       if \<not> truthy_str (sk_userId client) \<or> \<not> truthy_str (sk_serverUuid client) then s
       else (case call_server (str_or (sk_serverUuid client) []) (\<lambda>node uuid. WingsService_sendCommand W node uuid command) s of
               (Inr _, s1) \<Rightarrow> update_client i (emit_client (ConsoleLine (JStr (''> '' @ command)))) s1
             | (Inl e, s1) \<Rightarrow> update_client i (emit_client (ErrorMessage (''Failed to send command: '' @ exn_message e))) s1)) s"

definition handleSendPowerAction :: "wings \<Rightarrow> string \<Rightarrow> PowerAction \<Rightarrow> 'z gateway_panel_scheme \<Rightarrow> 'z gateway_panel_scheme" where
  "handleSendPowerAction W i action s =
     on_client i (\<lambda>client s.
       if \<not> truthy_str (sk_userId client) \<or> \<not> truthy_str (sk_serverUuid client) then s
       else (case call_server (str_or (sk_serverUuid client) []) (\<lambda>node uuid. WingsService_powerAction W node uuid action) s of
               (Inr _, s1) \<Rightarrow> update_client i (emit_client (PowerState (JStr (PowerAction_value action)))) s1
             | (Inl e, s1) \<Rightarrow> update_client i (emit_client (ErrorMessage (''Failed to send power action: '' @ exn_message e))) s1)) s"

section \<open>Polls\<close>

text \<open>A \<open>Set\<close> iterates in the order of first insertion.\<close>

definition js_Set :: "'a list \<Rightarrow> 'a list" where
  "js_Set xs = rev (remdups (rev xs))"

definition getSubscribedServerUuids :: "(Subscriptions \<Rightarrow> bool) \<Rightarrow> 'z gateway_panel_scheme \<Rightarrow> string list" where
  "getSubscribedServerUuids kind s =
     js_Set (map (\<lambda>(i, c). str_or (sk_serverUuid c) [])
       (filter (\<lambda>(i, c). truthy_str (sk_serverUuid c) \<and>
          (case gw_subscriptions s i of None \<Rightarrow> False | Some subs \<Rightarrow> kind subs)) (gw_sockets s)))"

fun json_field :: "string \<Rightarrow> json \<Rightarrow> json option" where
  "json_field f (JObj kvs) = map_of kvs f"
| "json_field f _ = None"

fun json_truthy :: "json \<Rightarrow> bool" where
  "json_truthy JNull = False"
| "json_truthy (JBool b) = b"
| "json_truthy (JNum n) = (n \<noteq> 0)"
| "json_truthy (JStr t) = (t \<noteq> [])"
| "json_truthy (JArr _) = True"
| "json_truthy (JObj _) = True"

definition poll_stats_one :: "wings \<Rightarrow> string \<Rightarrow> 'z gateway_panel_scheme \<Rightarrow> 'z gateway_panel_scheme" where
  "poll_stats_one W serverUuid s =
     (case call_server serverUuid (\<lambda>node _. WingsService_getServerStatus W node serverUuid) s of
        (Inl e, s1) \<Rightarrow> s1
      | (Inr status, s1) \<Rightarrow>
          (let s2 = emitStatsUpdate serverUuid status s1
           in (case json_field ''state'' status of None \<Rightarrow> s2 | Some state \<Rightarrow> emitPowerState serverUuid state s2)))"

definition pollStats :: "wings \<Rightarrow> 'z gateway_panel_scheme \<Rightarrow> 'z gateway_panel_scheme" where
  "pollStats W s = fold (poll_stats_one W) (getSubscribedServerUuids sub_stats s) s"

fun output_lines :: "json \<Rightarrow> json list" where
  "output_lines (JArr lines) = lines"
| "output_lines j = [j]"

definition poll_console_one :: "wings \<Rightarrow> string \<Rightarrow> 'z gateway_panel_scheme \<Rightarrow> 'z gateway_panel_scheme" where
  "poll_console_one W serverUuid s =
     (case call_server serverUuid (\<lambda>node _. WingsService_getServerStatus W node serverUuid) s of
        (Inl e, s1) \<Rightarrow> s1
      | (Inr status, s1) \<Rightarrow>
          (case json_field ''output'' status of
             None \<Rightarrow> s1
           | Some out \<Rightarrow> if json_truthy out then fold (emitConsoleOutput serverUuid) (output_lines out) s1 else s1))"

definition pollConsole :: "wings \<Rightarrow> 'z gateway_panel_scheme \<Rightarrow> 'z gateway_panel_scheme" where
  "pollConsole W s = fold (poll_console_one W) (getSubscribedServerUuids sub_console s) s"

section \<open>Runs\<close>

text \<open>
  Everything that can happen to the gateway: what a browser does (a connection gets an
  identifier that is not in use), the two timers, and any change of the rest of the panel.
\<close>

inductive gateway_step :: "ext \<Rightarrow> wings \<Rightarrow> 'z gateway_panel_scheme \<Rightarrow> 'z gateway_panel_scheme \<Rightarrow> bool" for X W where
  connect: "i \<notin> fst ` set (gw_sockets s) \<Longrightarrow> gateway_step X W s (gateway_connect X now i cookie server s)"
| disconnect: "gateway_step X W s (gateway_disconnect i s)"
| auth: "gateway_step X W s (handleAuth X now i token uuid s)"
| subscribe_console: "gateway_step X W s (handleSubscribeConsole i s)"
| subscribe_stats: "gateway_step X W s (handleSubscribeStats i s)"
| send_command: "gateway_step X W s (handleSendCommand W i command s)"
| send_power: "gateway_step X W s (handleSendPowerAction W i action s)"
| stats_poll: "gateway_step X W s (pollStats W s)"
| console_poll: "gateway_step X W s (pollConsole W s)"
| panel: "gw_sockets t = gw_sockets s \<Longrightarrow> gw_subscriptions t = gw_subscriptions s \<Longrightarrow> gateway_step X W s t"

inductive_cases gateway_stepE: "gateway_step X W s t"

end
