(* ===== verification/WebClient.thy ===== *)
theory WebClient
  imports Gateway JsNumber
begin

text \<open>
  The browser's side of the websocket: the hook \<^verbatim>\<open>hooks/useServerWebSocket.ts\<close> with its
  sockets and timers, and what the console page does with it:
  \<^verbatim>\<open>components/server/Terminal.tsx\<close>, \<^verbatim>\<open>PowerControls.tsx\<close>, the history of
  \<^verbatim>\<open>ConsolePage.tsx\<close>.  Of socket.io the model has what its documentation says: a socket made
  with \<open>reconnection: false\<close> connects once, then only when \<open>connect()\<close> is called; \<open>disconnect\<close>
  fires when a connection ends, by either side, \<open>connect_error\<close> when an attempt fails;
  what is emitted without a connection is sent at the next one.
\<close>

section \<open>Power states\<close>

datatype WebPowerState = WebRunning | WebStarting | WebStopping | WebOffline

datatype ConnectionStatus = Connecting | Connected | Disconnected | Failed

text \<open>\<open>parseInt(s, 10)\<close>; \<open>None\<close> is \<open>NaN\<close>.\<close>

definition js_parseInt :: "string \<Rightarrow> int option" where
  "js_parseInt s =
     (let (neg, u) = take_sign (dropWhile js_space s)
      in map_option (\<lambda>n. if neg then - int n else int n) (digits 10 (takeWhile is_digit u)))"

text \<open>\<open>toLowerCase\<close> below 256.\<close>

definition lower_char :: "char \<Rightarrow> char" where
  "lower_char c =
     (let n = (of_char c :: nat)
      in if 65 \<le> n \<and> n \<le> 90 \<or> 192 \<le> n \<and> n \<le> 222 \<and> n \<noteq> 215 then char_of (n + 32) else c)"

definition js_toLowerCase :: "string \<Rightarrow> string" where
  "js_toLowerCase s = map lower_char s"

text \<open>\<open>String(x)\<close>.\<close>

fun joined :: "string list \<Rightarrow> string" where
  "joined [] = []"
| "joined [s] = s"
| "joined (s # t # ss) = s @ '','' @ joined (t # ss)"

fun js_String :: "json \<Rightarrow> string" where
  "js_String JNull = ''null''"
| "js_String (JBool b) = (if b then ''true'' else ''false'')"
| "js_String (JNum n) = show_int n"
| "js_String (JStr s) = s"
| "js_String (JArr xs) = joined (map (\<lambda>x. if x = JNull then [] else js_String x) xs)"
| "js_String (JObj kvs) = ''[object Object]''"

definition mapGrpcState :: "json \<Rightarrow> WebPowerState" where
  "mapGrpcState state =
     (let n = (case state of JNum k \<Rightarrow> Some k | _ \<Rightarrow> js_parseInt (js_String state))
      in if n = Some 2 then WebRunning
         else if n = Some 1 then WebStarting
         else if n = Some 3 then WebStopping
         else if n = Some 0 \<or> n = Some 4 then WebOffline
         else (let s = js_toLowerCase (js_String state)
               in if s = ''running'' then WebRunning
                  else if s = ''starting'' then WebStarting
                  else if s = ''stopping'' then WebStopping
                  else WebOffline))"

section \<open>State\<close>

record ServerStats =
  ss_cpuPercent :: json
  ss_memoryBytes :: json
  ss_memoryLimitBytes :: json
  ss_diskBytes :: json
  ss_diskLimitBytes :: json
  ss_networkRxBytes :: json
  ss_networkTxBytes :: json
  ss_uptime :: json

datatype ClientMessage =
    EmitAuth string string \<comment> \<open>token, server\<close>
  | EmitSubscribeConsole
  | EmitSubscribeStats
  | EmitCommand string
  | EmitPowerAction PowerAction

datatype link = Idle | Dialling | Up

text \<open>A socket and what its handlers close over: the token and the server of the effect that
  made it.  The timers are the delays of the pending calls of \<open>socket.connect()\<close>.\<close>

record WebSocket =
  ws_token :: string
  ws_server :: string
  ws_link :: link
  ws_timers :: "nat list"
  ws_buffered :: "ClientMessage list"
  ws_sent :: "ClientMessage list"

record WebHook =
  wh_consoleLines :: "json list"
  wh_stats :: "ServerStats option"
  wh_powerState :: WebPowerState
  wh_connectionStatus :: ConnectionStatus
  wh_retries :: nat
  wh_sockets :: "WebSocket list"
  wh_current :: "nat option" \<comment> \<open>\<open>socketRef.current\<close>\<close>

definition MAX_LINES :: nat where
  "MAX_LINES = 2000"

definition initial_hook :: WebHook where
  "initial_hook = \<lparr>wh_consoleLines = [], wh_stats = None, wh_powerState = WebOffline,
     wh_connectionStatus = Connecting, wh_retries = 0, wh_sockets = [], wh_current = None\<rparr>"

definition on_socket :: "nat \<Rightarrow> (WebSocket \<Rightarrow> WebSocket) \<Rightarrow> WebHook \<Rightarrow> WebHook" where
  "on_socket i f h = h\<lparr>wh_sockets := (wh_sockets h)[i := f (wh_sockets h ! i)]\<rparr>"

definition socket_emit :: "ClientMessage \<Rightarrow> WebSocket \<Rightarrow> WebSocket" where
  "socket_emit m k =
     (if ws_link k = Up then k\<lparr>ws_sent := ws_sent k @ [m]\<rparr> else k\<lparr>ws_buffered := ws_buffered k @ [m]\<rparr>)"

definition socket_up :: "WebSocket \<Rightarrow> WebSocket" where
  "socket_up k = k\<lparr>ws_link := Up, ws_sent := ws_sent k @ ws_buffered k, ws_buffered := []\<rparr>"

definition socket_connect :: "WebSocket \<Rightarrow> WebSocket" where
  "socket_connect k = (if ws_link k = Idle then k\<lparr>ws_link := Dialling\<rparr> else k)"

section \<open>The handlers\<close>

definition on_connect :: "nat \<Rightarrow> WebHook \<Rightarrow> WebHook" where
  "on_connect i h =
     on_socket i (\<lambda>k. socket_emit EmitSubscribeStats (socket_emit EmitSubscribeConsole
                        (socket_emit (EmitAuth (ws_token k) (ws_server k)) k)))
       (h\<lparr>wh_connectionStatus := Connected, wh_retries := 0\<rparr>)"

text \<open>\<open>xs.slice(-n)\<close> for \<open>n > 0\<close>.\<close>

definition last_n :: "nat \<Rightarrow> 'a list \<Rightarrow> 'a list" where
  "last_n n xs = drop (length xs - n) xs"

definition append_line :: "json \<Rightarrow> json list \<Rightarrow> json list" where
  "append_line line prev =
     (let next = prev @ [line] in if length next > MAX_LINES then last_n MAX_LINES next else next)"

text \<open>\<open>a ?? b\<close> on a field that may be missing.\<close>

definition field_or :: "json option \<Rightarrow> json \<Rightarrow> json" where
  "field_or a b = (case a of None \<Rightarrow> b | Some JNull \<Rightarrow> b | Some v \<Rightarrow> v)"

definition shown_stats :: "json \<Rightarrow> ServerStats" where
  "shown_stats raw =
     (let r = field_or (json_field ''resources'' raw) raw
      in \<lparr>ss_cpuPercent = field_or (json_field ''cpuPercent'' r) (JNum 0),
          ss_memoryBytes = field_or (json_field ''memoryBytes'' r) (JNum 0),
          ss_memoryLimitBytes = field_or (json_field ''memoryLimit'' r) (field_or (json_field ''memoryLimitBytes'' r) (JNum 0)),
          ss_diskBytes = field_or (json_field ''diskBytes'' r) (JNum 0),
          ss_diskLimitBytes = field_or (json_field ''diskLimit'' r) (field_or (json_field ''diskLimitBytes'' r) (JNum 0)),
          ss_networkRxBytes = field_or (json_field ''networkRxBytes'' r) (JNum 0),
          ss_networkTxBytes = field_or (json_field ''networkTxBytes'' r) (JNum 0),
          ss_uptime = field_or (json_field ''uptime'' r) (JNum 0)\<rparr>)"

text \<open>What arrives on the \<open>message\<close> channel is an object with a \<open>type\<close>.\<close>

definition on_stats :: "json \<Rightarrow> WebHook \<Rightarrow> WebHook" where
  "on_stats raw h =
     (if \<not> json_truthy raw then h
      else (let h1 = h\<lparr>wh_stats := Some (shown_stats raw)\<rparr>
            in case json_field ''state'' raw of None \<Rightarrow> h1 | Some st \<Rightarrow> h1\<lparr>wh_powerState := mapGrpcState st\<rparr>))"

definition on_console_output :: "json \<Rightarrow> WebHook \<Rightarrow> WebHook" where
  "on_console_output msg h =
     (case json_field ''line'' msg of
        Some (JStr line) \<Rightarrow> h\<lparr>wh_consoleLines := append_line (JStr line) (wh_consoleLines h)\<rparr>
      | _ \<Rightarrow> h)"

definition on_console_history :: "json \<Rightarrow> WebHook \<Rightarrow> WebHook" where
  "on_console_history msg h =
     (case json_field ''lines'' msg of
        Some (JArr lines) \<Rightarrow> h\<lparr>wh_consoleLines := last_n MAX_LINES lines\<rparr>
      | _ \<Rightarrow> h)"

definition on_stats_update :: "json \<Rightarrow> WebHook \<Rightarrow> WebHook" where
  "on_stats_update msg h = (case json_field ''stats'' msg of None \<Rightarrow> h | Some raw \<Rightarrow> on_stats raw h)"

definition on_power_state :: "json \<Rightarrow> WebHook \<Rightarrow> WebHook" where
  "on_power_state msg h =
     (case json_field ''state'' msg of None \<Rightarrow> h | Some st \<Rightarrow> h\<lparr>wh_powerState := mapGrpcState st\<rparr>)"

definition on_message :: "json \<Rightarrow> WebHook \<Rightarrow> WebHook" where
  "on_message msg h =
     (if json_field ''type'' msg = Some (JStr ''console_output'') then on_console_output msg h
      else if json_field ''type'' msg = Some (JStr ''console_history'') then on_console_history msg h
      else if json_field ''type'' msg = Some (JStr ''stats_update'') then on_stats_update msg h
      else if json_field ''type'' msg = Some (JStr ''power_state'') then on_power_state msg h
      else h)"

definition reconnect_delay :: "nat \<Rightarrow> nat" where
  "reconnect_delay retries = min (1000 * 2 ^ retries) 30000"

definition on_disconnect :: "nat \<Rightarrow> WebHook \<Rightarrow> WebHook" where
  "on_disconnect i h =
     on_socket i (\<lambda>k. k\<lparr>ws_timers := ws_timers k @ [reconnect_delay (wh_retries h)]\<rparr>)
       (h\<lparr>wh_connectionStatus := Disconnected, wh_powerState := WebOffline, wh_retries := wh_retries h + 1\<rparr>)"

definition on_connect_error :: "WebHook \<Rightarrow> WebHook" where
  "on_connect_error h = h\<lparr>wh_connectionStatus := Failed\<rparr>"

section \<open>The effect and its cleanup\<close>

definition open_socket :: "string option \<Rightarrow> string \<Rightarrow> WebHook \<Rightarrow> WebHook" where
  "open_socket accessToken serverUuid h =
     h\<lparr>wh_sockets := wh_sockets h @
         [\<lparr>ws_token = str_or accessToken [], ws_server = serverUuid, ws_link = Dialling, ws_timers = [],
           ws_buffered = [], ws_sent = []\<rparr>],
       wh_current := Some (length (wh_sockets h))\<rparr>"

text \<open>\<open>socket.disconnect()\<close>: an open connection ends, which fires \<open>disconnect\<close>; an attempt is
  given up.\<close>

definition close_socket :: "WebHook \<Rightarrow> WebHook" where
  "close_socket h =
     (case wh_current h of
        None \<Rightarrow> h
      | Some i \<Rightarrow>
          (let down = on_socket i (ws_link_update (\<lambda>_. Idle)) h
           in (if ws_link (wh_sockets h ! i) = Up then on_disconnect i down else down)\<lparr>wh_current := None\<rparr>))"

definition sendCommand :: "string \<Rightarrow> WebHook \<Rightarrow> WebHook" where
  "sendCommand cmd h =
     (case wh_current h of None \<Rightarrow> h | Some i \<Rightarrow> on_socket i (socket_emit (EmitCommand cmd)) h)"

definition sendPowerAction :: "PowerAction \<Rightarrow> WebHook \<Rightarrow> WebHook" where
  "sendPowerAction action h =
     (case wh_current h of None \<Rightarrow> h | Some i \<Rightarrow> on_socket i (socket_emit (EmitPowerAction action)) h)"

section \<open>Runs\<close>

definition link_up :: "nat \<Rightarrow> WebHook \<Rightarrow> WebHook" where
  "link_up i h = on_connect i (on_socket i socket_up h)"

definition link_refused :: "nat \<Rightarrow> WebHook \<Rightarrow> WebHook" where
  "link_refused i h = on_connect_error (on_socket i (ws_link_update (\<lambda>_. Idle)) h)"

definition link_lost :: "nat \<Rightarrow> WebHook \<Rightarrow> WebHook" where
  "link_lost i h = on_disconnect i (on_socket i (ws_link_update (\<lambda>_. Idle)) h)"

definition timer_fires :: "nat \<Rightarrow> nat \<Rightarrow> WebHook \<Rightarrow> WebHook" where
  "timer_fires i d h = on_socket i (\<lambda>k. socket_connect (k\<lparr>ws_timers := remove1 d (ws_timers k)\<rparr>)) h"

abbreviation socket_at :: "WebHook \<Rightarrow> nat \<Rightarrow> WebSocket \<Rightarrow> bool" where
  "socket_at h i k \<equiv> i < length (wh_sockets h) \<and> wh_sockets h ! i = k"

inductive web_step :: "WebHook \<Rightarrow> WebHook \<Rightarrow> bool" where
  changed: "web_step h (open_socket accessToken uuid (close_socket h))"
| unmounted: "web_step h (close_socket h)"
| up: "socket_at h i k \<Longrightarrow> ws_link k = Dialling \<Longrightarrow> web_step h (link_up i h)"
| refused: "socket_at h i k \<Longrightarrow> ws_link k = Dialling \<Longrightarrow> web_step h (link_refused i h)"
| lost: "socket_at h i k \<Longrightarrow> ws_link k = Up \<Longrightarrow> web_step h (link_lost i h)"
| timer: "socket_at h i k \<Longrightarrow> d \<in> set (ws_timers k) \<Longrightarrow> web_step h (timer_fires i d h)"
| incoming: "socket_at h i k \<Longrightarrow> ws_link k = Up \<Longrightarrow> web_step h (on_message msg h)"
| command: "web_step h (sendCommand cmd h)"
| power: "web_step h (sendPowerAction action h)"

inductive_cases web_stepE: "web_step h h'"

section \<open>The terminal\<close>

text \<open>What the terminal keeps: how many lines it wrote, what it wrote, the typed command, and
  the commands it passed on.\<close>

record Terminal =
  tm_written :: nat
  tm_output :: "json list"
  tm_buffer :: string
  tm_commands :: "string list"

definition initial_terminal :: Terminal where
  "initial_terminal = \<lparr>tm_written = 0, tm_output = [], tm_buffer = [], tm_commands = []\<rparr>"

text \<open>The effect on \<open>lines\<close>.\<close>

definition write_lines :: "json list \<Rightarrow> Terminal \<Rightarrow> Terminal" where
  "write_lines lines term =
     (let newLines = drop (tm_written term) lines
      in if length newLines > 0
         then term\<lparr>tm_output := tm_output term @ newLines, tm_written := length lines\<rparr>
         else term)"

text \<open>One line arrives and the page renders.\<close>

definition console_message :: "string \<Rightarrow> json" where
  "console_message line = JObj [(''type'', JStr ''console_output''), (''line'', JStr line)]"

definition receive_line :: "string \<Rightarrow> WebHook \<times> Terminal \<Rightarrow> WebHook \<times> Terminal" where
  "receive_line line p =
     (let h = on_message (console_message line) (fst p) in (h, write_lines (wh_consoleLines h) (snd p)))"

datatype key_event = Enter | Backspace | Key string bool bool \<comment> \<open>the characters, \<open>ctrlKey\<close>, \<open>altKey\<close>\<close>

fun on_key :: "key_event \<Rightarrow> Terminal \<Rightarrow> Terminal" where
  "on_key Enter term =
     (let sent = (if js_trim (tm_buffer term) \<noteq> [] then tm_commands term @ [tm_buffer term] else tm_commands term)
      in term\<lparr>tm_commands := sent, tm_buffer := []\<rparr>)"
| "on_key Backspace term =
     (if length (tm_buffer term) > 0 then term\<lparr>tm_buffer := butlast (tm_buffer term)\<rparr> else term)"
| "on_key (Key key ctrl alt) term =
     (if length key = 1 \<and> \<not> ctrl \<and> \<not> alt then term\<lparr>tm_buffer := tm_buffer term @ key\<rparr> else term)"

section \<open>The power buttons\<close>

text \<open>The four buttons; each calls \<open>sendPowerAction\<close> with its own action.\<close>

definition button_enabled :: "PowerAction \<Rightarrow> WebPowerState \<Rightarrow> bool" where
  "button_enabled action powerState =
     (let isRunning = (powerState = WebRunning); isOffline = (powerState = WebOffline)
      in case action of
           START \<Rightarrow> \<not> (isRunning \<or> powerState = WebStarting)
         | STOP \<Rightarrow> \<not> isOffline
         | RESTART \<Rightarrow> \<not> isOffline
         | KILL \<Rightarrow> \<not> isOffline)"

end
