(* ===== verification/WebStats.thy ===== *)
theory WebStats
  imports WebClient Rounding
begin

text \<open>
  What the console page draws of the statistics it receives: \<^verbatim>\<open>components/server/StatsPanel.tsx\<close>
  and the sliding window of \<^verbatim>\<open>pages/server/ConsolePage.tsx\<close>.  The arithmetic is that of doubles,
  with \<open>NaN\<close> and \<open>Infinity\<close>: a limit of zero is divided by.  A zero has no sign here; the counts
  of the daemon are unsigned.  \<open>N\<close> is \<open>Number.prototype.toString\<close>, which \<open>toFixed\<close> uses from
  \<open>10\<^sup>2\<^sup>1\<close> on.
\<close>

section \<open>Arithmetic\<close>

fun js_neg :: "jsnum \<Rightarrow> bool" where
  "js_neg NaN = False"
| "js_neg (Infinity a) = a"
| "js_neg (Fin x) = (x < 0)"

fun js_divide :: "jsnum \<Rightarrow> jsnum \<Rightarrow> jsnum" where
  "js_divide NaN _ = NaN"
| "js_divide _ NaN = NaN"
| "js_divide (Infinity a) y = (case y of Fin z \<Rightarrow> Infinity (a \<noteq> (z < 0)) | _ \<Rightarrow> NaN)"
| "js_divide (Fin x) (Infinity _) = Fin 0"
| "js_divide (Fin x) (Fin y) = (if y = 0 then if x = 0 then NaN else Infinity (x < 0) else to_double (x / y))"

fun js_times :: "jsnum \<Rightarrow> jsnum \<Rightarrow> jsnum" where
  "js_times NaN _ = NaN"
| "js_times _ NaN = NaN"
| "js_times (Fin x) (Fin y) = to_double (x * y)"
| "js_times x y = (if x = Fin 0 \<or> y = Fin 0 then NaN else Infinity (js_neg x \<noteq> js_neg y))"

definition js_min :: "jsnum \<Rightarrow> jsnum \<Rightarrow> jsnum" where
  "js_min x y = (if is_nan x \<or> is_nan y then NaN else if x < y then x else y)"

text \<open>An operand of an arithmetic operator.\<close>

fun js_ToNumber :: "json \<Rightarrow> jsnum" where
  "js_ToNumber JNull = Fin 0"
| "js_ToNumber (JBool b) = Fin (if b then 1 else 0)"
| "js_ToNumber (JNum n) = to_double (of_int n)"
| "js_ToNumber v = js_Number (js_String v)"

text \<open>\<open>x.toFixed(d)\<close>: the integer nearest to \<open>x * 10\<^sup>d\<close>, of two the larger, with a point before the last \<open>d\<close> digits.\<close>

definition fixed_units :: "nat \<Rightarrow> rat \<Rightarrow> nat" where
  "fixed_units d x = nat \<lfloor>x * 10 ^ d + 1 / 2\<rfloor>"

definition fixed_text :: "nat \<Rightarrow> nat \<Rightarrow> string" where
  "fixed_text d n =
     (if d = 0 then show_nat n
      else (let s = show_nat n; digits = replicate (d + 1 - length s) (CHR ''0'') @ s; k = length digits - d
            in take k digits @ ''.'' @ drop k digits))"

fun toFixed :: "(jsnum \<Rightarrow> string) \<Rightarrow> nat \<Rightarrow> jsnum \<Rightarrow> string" where
  "toFixed N d NaN = ''NaN''"
| "toFixed N d (Infinity a) = (if a then ''-Infinity'' else ''Infinity'')"
| "toFixed N d (Fin x) =
     (if 10 ^ 21 \<le> \<bar>x\<bar> then N (Fin x)
      else (if x < 0 then ''-'' else []) @ fixed_text d (fixed_units d \<bar>x\<bar>))"

section \<open>The panel\<close>

definition formatBytes :: "(jsnum \<Rightarrow> string) \<Rightarrow> json \<Rightarrow> string" where
  "formatBytes N bytes =
     (let b = js_ToNumber bytes
      in if b < Fin 1024 then js_String bytes @ '' B''
         else if b < Fin 1048576 then toFixed N 1 (js_divide b (Fin 1024)) @ '' KB''
         else if b < Fin 1073741824 then toFixed N 1 (js_divide b (Fin 1048576)) @ '' MB''
         else toFixed N 2 (js_divide b (Fin 1073741824)) @ '' GB'')"

definition formatRate :: "(jsnum \<Rightarrow> string) \<Rightarrow> json \<Rightarrow> string" where
  "formatRate N bytes = formatBytes N bytes @ ''/s''"

text \<open>\<open>Math.min(used / limit * 100, 100)\<close>, and the colour of its bar.\<close>

definition usage_percent :: "json \<Rightarrow> json \<Rightarrow> jsnum" where
  "usage_percent used limit = js_min (js_times (js_divide (js_ToNumber used) (js_ToNumber limit)) (Fin 100)) (Fin 100)"

definition bar_color :: "string \<Rightarrow> jsnum \<Rightarrow> string" where
  "bar_color normal p = (if Fin 90 < p then ''error'' else if Fin 70 < p then ''warning'' else normal)"

record PanelView =
  pv_cpu :: string
  pv_memory :: string
  pv_inbound :: string
  pv_outbound :: string
  pv_diskPercent :: string
  pv_diskColor :: string
  pv_disk :: string
  pv_memPercent :: string
  pv_memColor :: string

text \<open>\<open>toFixed\<close> is a method of numbers: on anything else the page ends with a \<open>TypeError\<close>.\<close>

fun cpu_text :: "(jsnum \<Rightarrow> string) \<Rightarrow> json \<Rightarrow> exn + string" where
  "cpu_text N (JNum n) = Inr (toFixed N 1 (to_double (of_int n)))"
| "cpu_text N _ = Inl TypeError"

definition StatsPanel :: "(jsnum \<Rightarrow> string) \<Rightarrow> ServerStats option \<Rightarrow> exn + PanelView" where
  "StatsPanel N currentStats =
     (case currentStats of
        None \<Rightarrow>
          Inr \<lparr>pv_cpu = ''0.0%'', pv_memory = ''0 B / 0 B'', pv_inbound = ''0 B/s'', pv_outbound = ''0 B/s'',
               pv_diskPercent = toFixed N 1 (Fin 0) @ ''%'', pv_diskColor = bar_color ''primary'' (Fin 0), pv_disk = ''0 B / 0 B'',
               pv_memPercent = toFixed N 1 (Fin 0) @ ''%'', pv_memColor = bar_color ''secondary'' (Fin 0)\<rparr>
      | Some st \<Rightarrow>
          (let memPercent = usage_percent (ss_memoryBytes st) (ss_memoryLimitBytes st);
               diskPercent = usage_percent (ss_diskBytes st) (ss_diskLimitBytes st)
           in case cpu_text N (ss_cpuPercent st) of
                Inl e \<Rightarrow> Inl e
              | Inr cpu \<Rightarrow>
                  Inr \<lparr>pv_cpu = cpu @ ''%'',
                       pv_memory = formatBytes N (ss_memoryBytes st) @ '' / '' @ formatBytes N (ss_memoryLimitBytes st),
                       pv_inbound = formatRate N (ss_networkRxBytes st), pv_outbound = formatRate N (ss_networkTxBytes st),
                       pv_diskPercent = toFixed N 1 diskPercent @ ''%'', pv_diskColor = bar_color ''primary'' diskPercent,
                       pv_disk = formatBytes N (ss_diskBytes st) @ '' / '' @ formatBytes N (ss_diskLimitBytes st),
                       pv_memPercent = toFixed N 1 memPercent @ ''%'', pv_memColor = bar_color ''secondary'' memPercent\<rparr>))"

section \<open>The page\<close>

record StatsData =
  sd_time :: nat
  sd_cpu :: json
  sd_memory :: jsnum

text \<open>Each rendering with statistics drops what is a minute old and adds one point.\<close>

definition history_point :: "nat \<Rightarrow> ServerStats \<Rightarrow> StatsData" where
  "history_point now st =
     \<lparr>sd_time = now, sd_cpu = ss_cpuPercent st,
      sd_memory = (if Fin 0 < js_ToNumber (ss_memoryLimitBytes st)
                   then js_times (js_divide (js_ToNumber (ss_memoryBytes st)) (js_ToNumber (ss_memoryLimitBytes st))) (Fin 100)
                   else Fin 0)\<rparr>"

definition render_history :: "nat \<Rightarrow> ServerStats option \<Rightarrow> StatsData list \<Rightarrow> StatsData list" where
  "render_history now stats history =
     (case stats of None \<Rightarrow> history
      | Some st \<Rightarrow> filter (\<lambda>s. int now - int (sd_time s) < 60000) history @ [history_point now st])"

text \<open>The command line below the terminal: the typed text, and what its button or Enter does.\<close>

definition ConsolePage_handleSend :: "string \<Rightarrow> WebHook \<Rightarrow> string \<times> WebHook" where
  "ConsolePage_handleSend commandInput h =
     (if js_trim commandInput \<noteq> [] then ([], sendCommand commandInput h) else (commandInput, h))"

end
