(* ===== verification/GatewayProps.thy ===== *)
theory GatewayProps
  imports Gateway
begin

text \<open>
  What holds of the sockets after any number of steps, what a poll asks the daemons, and
  where the gateway is weaker than the routes it stands beside.
\<close>

section \<open>Frames\<close>

lemma map_of_map_entries: "map_of (map (\<lambda>(j, c). (j, f j c)) xs) i = map_option (f i) (map_of xs i)"
  by (induction xs) auto

lemma after_call_gateway [simp]:
  "gw_sockets (after_call node request s) = gw_sockets s"
  "gw_subscriptions (after_call node request s) = gw_subscriptions s"
  by (simp_all add: after_call_def)

text \<open>The node whose daemon runs a server.\<close>

definition node_of :: "'z db_scheme \<Rightarrow> string \<Rightarrow> NodeEntity option" where
  "node_of d uuid =
     (case findOne (\<lambda>x. server_uuid x = uuid) (db_servers d) of
        None \<Rightarrow> None
      | Some x \<Rightarrow> findOne (\<lambda>n. node_id n = server_nodeId x) (db_nodes d))"

lemma node_of_cong: "db_servers s = db_servers t \<Longrightarrow> db_nodes s = db_nodes t \<Longrightarrow> node_of s = node_of t"
  by (simp add: fun_eq_iff node_of_def split: option.split)

lemma call_server_state:
  assumes "\<And>node u s. snd (h node u s) = after_call node (request u) s"
  shows "snd (call_server uuid h s) = (case node_of s uuid of None \<Rightarrow> s | Some node \<Rightarrow> after_call node (request uuid) s)"
  by (auto simp: call_server_def ServersService_findByUuid_def node_of_def on_node_def load_server_def assms
      split: option.split dest: findOne_Some)

lemma command_state: "snd (WingsService_sendCommand W node u c s) = after_call node (SendCommand u c) s"
  by (simp add: WingsService_sendCommand_def node_grpc_state)

lemma power_state: "snd (WingsService_powerAction W node u a s) = after_call node (SendPowerAction u (mapPowerAction a)) s"
  by (simp add: WingsService_powerAction_def node_grpc_state)

lemma status_state: "snd (WingsService_getServerStatus W node u s) = after_call node (GetServerStatus u) s"
  by (simp add: WingsService_getServerStatus_def node_grpc_state)

lemma call_server_gateway:
  assumes "\<And>node u s. snd (h node u s) = after_call node (request u) s" and "call_server uuid h s = (r, s1)"
  shows "gw_sockets s1 = gw_sockets s" "gw_subscriptions s1 = gw_subscriptions s"
  using call_server_state [where h = h, OF assms(1), of uuid s] assms(2) by (auto split: option.splits)

section \<open>The invariant\<close>

text \<open>\<open>userId\<close> came out of a token that was verified, at some time.\<close>

definition verified :: "ext \<Rightarrow> string \<Rightarrow> bool" where
  "verified X userId \<longleftrightarrow> (\<exists>now token payload. jwtVerify X now token = Some payload \<and> jwt_sub payload = userId)"

fun about_server :: "ServerMessage \<Rightarrow> bool" where
  "about_server (ConsoleLine _) = True"
| "about_server (StatsUpdate _) = True"
| "about_server (PowerState _) = True"
| "about_server _ = False"

definition socket_ok :: "ext \<Rightarrow> GatewaySocket \<Rightarrow> bool" where
  "socket_ok X c \<longleftrightarrow>
     (case sk_userId c of
        Some u \<Rightarrow> verified X u
      | None \<Rightarrow> sk_rooms c = [] \<and> sk_serverUuid c = None \<and> \<not> list_ex about_server (sk_sent c))"

definition gateway_ok :: "ext \<Rightarrow> 'z gateway_panel_scheme \<Rightarrow> bool" where
  "gateway_ok X s \<longleftrightarrow>
     distinct (map fst (gw_sockets s)) \<and> (\<forall>(i, c) \<in> set (gw_sockets s). socket_ok X c) \<and>
     (\<forall>i subs. gw_subscriptions s i = Some subs \<and> (sub_console subs \<or> sub_stats subs) \<longrightarrow>
        (\<exists>c. map_of (gw_sockets s) i = Some c \<and> sk_userId c \<noteq> None))"

lemma gateway_ok_cong:
  "gw_sockets t = gw_sockets s \<Longrightarrow> gw_subscriptions t = gw_subscriptions s \<Longrightarrow> gateway_ok X t = gateway_ok X s"
  by (simp add: gateway_ok_def)

lemma gateway_ok_socket: "gateway_ok X s \<Longrightarrow> map_of (gw_sockets s) i = Some c \<Longrightarrow> socket_ok X c"
  by (auto simp: gateway_ok_def dest!: map_of_SomeD)

lemma map_sockets_ok:
  assumes "gateway_ok X s"
    and "\<And>j c. map_of (gw_sockets s) j = Some c \<Longrightarrow> socket_ok X (f j c) \<and> (sk_userId c \<noteq> None \<longrightarrow> sk_userId (f j c) \<noteq> None)"
  shows "gateway_ok X (s\<lparr>gw_sockets := map (\<lambda>(j, c). (j, f j c)) (gw_sockets s)\<rparr>)"
proof -
  have d: "distinct (map fst (gw_sockets s))" using assms(1) by (simp add: gateway_ok_def)
  have "map fst (map (\<lambda>(j, c). (j, f j c)) (gw_sockets s)) = map fst (gw_sockets s)" by (simp add: case_prod_unfold)
  moreover have "socket_ok X (f j c)" if "(j, c) \<in> set (gw_sockets s)" for j c
    using assms(2) map_of_is_SomeI [OF d that] by blast
  moreover have "\<exists>c. map_of (map (\<lambda>(j, c). (j, f j c)) (gw_sockets s)) i = Some c \<and> sk_userId c \<noteq> None"
    if "gw_subscriptions s i = Some subs" "sub_console subs \<or> sub_stats subs" for i subs
    using that assms unfolding map_of_map_entries gateway_ok_def by fastforce
  ultimately show ?thesis unfolding gateway_ok_def using d by (auto simp del: map_map)
qed

lemma update_client_ok:
  assumes "gateway_ok X s"
    and "\<And>c. map_of (gw_sockets s) i = Some c \<Longrightarrow> socket_ok X (f c) \<and> (sk_userId c \<noteq> None \<longrightarrow> sk_userId (f c) \<noteq> None)"
  shows "gateway_ok X (update_client i f s)"
  unfolding update_client_def
  by (rule map_sockets_ok [OF assms(1), where f = "\<lambda>j c. if j = i then f c else c"])
    (use assms in \<open>auto dest: gateway_ok_socket\<close>)

lemma emit_room_ok [inv_intros]: "gateway_ok X s \<Longrightarrow> gateway_ok X (emit_room room m s)"
  unfolding emit_room_def
  by (rule map_sockets_ok [where f = "\<lambda>j c. if room \<in> set (sk_rooms c) then emit_client m c else c"], assumption)
    (auto dest!: gateway_ok_socket simp: socket_ok_def emit_client_def split: option.splits)

lemma subscriptions_ok:
  assumes "gateway_ok X s" and "map_of (gw_sockets s) i = Some c" "sk_userId c \<noteq> None"
  shows "gateway_ok X (set_subscriptions i f s)"
  using assms by (auto simp: gateway_ok_def set_subscriptions_def)

lemma drop_socket_ok:
  assumes "gateway_ok X s" and "gw_subscriptions s i = None"
  shows "gateway_ok X (s\<lparr>gw_sockets := filter (\<lambda>(j, c). j \<noteq> i) (gw_sockets s)\<rparr>)"
proof -
  have "map_of (filter (\<lambda>(j, c). j \<noteq> i) xs) k = (if k = i then None else map_of xs k)" for xs :: "(string \<times> GatewaySocket) list" and k
    by (induction xs) auto
  moreover have "distinct (map fst (filter (\<lambda>(j, c). j \<noteq> i) (gw_sockets s)))"
    using assms(1) by (simp add: gateway_ok_def distinct_map_filter_keep)
  ultimately show ?thesis using assms by (auto simp: gateway_ok_def)
qed

section \<open>Every step keeps it\<close>

lemma map_of_update_client [simp]:
  "map_of (gw_sockets (update_client i f s)) j = (if j = i then map_option f (map_of (gw_sockets s) i) else map_of (gw_sockets s) j)"
  by (simp add: update_client_def map_of_map_entries option.map_ident)

lemma gateway_fields [simp]:
  "gw_subscriptions (update_client i f s) = gw_subscriptions s"
  "gw_sockets (set_subscriptions i g s) = gw_sockets s"
  by (simp_all add: update_client_def set_subscriptions_def)

lemma disconnect_ok [inv_intros]:
  assumes "gateway_ok X s"
  shows "gateway_ok X (gateway_disconnect i s)"
proof -
  let ?s = "s\<lparr>gw_subscriptions := (gw_subscriptions s)(i := None)\<rparr>"
  have ok: "gateway_ok X ?s" using assms by (auto simp: gateway_ok_def)
  have leave: "gateway_ok X (update_client i (leave_room r) ?s)" for r
    by (rule update_client_ok [OF ok])
      (use ok in \<open>auto dest!: gateway_ok_socket simp: socket_ok_def leave_room_def split: option.splits\<close>)
  have "gateway_ok X (handleDisconnect i s)" "gw_subscriptions (handleDisconnect i s) i = None"
    using ok leave by (auto simp: handleDisconnect_def on_client_def Let_def split: option.splits)
  then show ?thesis unfolding gateway_disconnect_def Let_def by (rule drop_socket_ok)
qed

lemma connect_ok [inv_intros]:
  assumes "gateway_ok X s" and "i \<notin> fst ` set (gw_sockets s)"
  shows "gateway_ok X (gateway_connect X now i cookie server s)"
proof -
  let ?c = "\<lparr>sk_cookie = cookie, sk_queryServer = server, sk_userId = None, sk_serverUuid = None, sk_rooms = [], sk_sent = []\<rparr>"
  let ?s = "s\<lparr>gw_sockets := gw_sockets s @ [(i, ?c)],
    gw_subscriptions := (gw_subscriptions s)(i \<mapsto> \<lparr>sub_console = False, sub_stats = False\<rparr>)\<rparr>"
  have none: "map_of (gw_sockets s) i = None" using assms(2) by (simp add: map_of_eq_None_iff)
  then have m: "map_of (gw_sockets ?s) j = (if j = i then Some ?c else map_of (gw_sockets s) j)" for j
    by (auto simp: map_add_def split: option.split)
  then have c: "map_of (gw_sockets ?s) i = Some ?c" by metis
  have ok: "gateway_ok X ?s"
    using assms unfolding gateway_ok_def m by (auto simp: socket_ok_def)
  have user: "gateway_ok X (update_client i (sk_userId_update (\<lambda>_. Some (jwt_sub p))) ?s)"
    if "jwtVerify X now token = Some p" for token p
    by (rule update_client_ok [OF ok]) (use that in \<open>auto simp: socket_ok_def verified_def\<close>)
  have join: "gateway_ok X (update_client i (join_room r \<circ> sk_serverUuid_update (\<lambda>_. Some u))
      (update_client i (sk_userId_update (\<lambda>_. Some (jwt_sub p))) ?s))"
    if "jwtVerify X now token = Some p" for token p r u
    by (rule update_client_ok [OF user [OF that]])
      (use that c in \<open>auto simp: socket_ok_def verified_def join_room_def\<close>)
  have full: "gateway_ok X (update_client i (emit_client AuthSuccess) (set_subscriptions i g
      (update_client i (join_room r \<circ> sk_serverUuid_update (\<lambda>_. Some u))
        (update_client i (sk_userId_update (\<lambda>_. Some (jwt_sub p))) ?s))))"
    if "jwtVerify X now token = Some p" for token p r u g
    by (rule update_client_ok, rule subscriptions_ok [OF join [OF that]])
      (use that c in \<open>auto simp: socket_ok_def verified_def join_room_def emit_client_def\<close>)
  show ?thesis
    unfolding gateway_connect_def handleConnection_def Let_def on_client_def
    using ok user full c by (simp split: option.split)
qed

lemma auth_ok [inv_intros]:
  assumes "gateway_ok X s" shows "gateway_ok X (handleAuth X now i token uuid s)"
proof (cases "jwtVerify X now token")
  case None
  have "gateway_ok X (update_client i (emit_client (ErrorMessage m)) s)" for m
    by (rule update_client_ok [OF assms])
      (use assms in \<open>auto dest!: gateway_ok_socket simp: socket_ok_def emit_client_def split: option.splits\<close>)
  then show ?thesis using None by (simp add: handleAuth_def disconnect_ok)
next
  case (Some p)
  then show ?thesis
    unfolding handleAuth_def
    by (simp, intro update_client_ok [OF assms]) (auto simp: socket_ok_def verified_def emit_client_def join_room_def)
qed

lemma subscribe_ok [inv_intros]:
  "gateway_ok X s \<Longrightarrow> gateway_ok X (handleSubscribeConsole i s)"
  "gateway_ok X s \<Longrightarrow> gateway_ok X (handleSubscribeStats i s)"
  by (auto simp: handleSubscribeConsole_def handleSubscribeStats_def on_client_def truthy_str_def intro!: subscriptions_ok split: option.splits)

lemma reply_ok:
  assumes "gateway_ok X s" and "map_of (gw_sockets s) i = Some c" "truthy_str (sk_userId c)"
    and "gw_sockets s1 = gw_sockets s" "gw_subscriptions s1 = gw_subscriptions s"
  shows "gateway_ok X (update_client i (emit_client m) s1)"
proof -
  have "gateway_ok X s1" using assms(1,4,5) gateway_ok_cong by blast
  then show ?thesis
    by (rule update_client_ok)
      (use assms(2-4) gateway_ok_socket [OF assms(1,2)] in \<open>auto simp: socket_ok_def emit_client_def split: option.splits\<close>)
qed

lemma send_ok [inv_intros]:
  assumes "gateway_ok X s"
  shows "gateway_ok X (handleSendCommand W i command s)" "gateway_ok X (handleSendPowerAction W i action s)"
  using assms
  by (auto simp: handleSendCommand_def handleSendPowerAction_def on_client_def split: option.split sum.splits prod.split
      intro: reply_ok [OF assms] dest: call_server_gateway [OF command_state] call_server_gateway [OF power_state])

lemma poll_ok [inv_intros]:
  assumes "gateway_ok X s" shows "gateway_ok X (pollStats W s)" "gateway_ok X (pollConsole W s)"
proof -
  have frame: "gateway_ok X s1" if "call_server uuid (\<lambda>node _. WingsService_getServerStatus W node uuid) s = (r, s1)" "gateway_ok X s"
    for uuid r s1 and s :: "'a gateway_panel_scheme"
    using call_server_gateway [OF status_state [of W _ uuid] that(1)] that(2) gateway_ok_cong by blast
  have emits: "gateway_ok X (fold (emitConsoleOutput uuid) lines s)" if "gateway_ok X s"
    for uuid lines and s :: "'a gateway_panel_scheme"
    using that by (induction lines arbitrary: s) (simp_all add: emitConsoleOutput_def emit_room_ok)
  have "gateway_ok X (poll_stats_one W uuid s)" "gateway_ok X (poll_console_one W uuid s)" if "gateway_ok X s"
    for uuid and s :: "'a gateway_panel_scheme"
    using frame [OF _ that] emits
    by (auto simp: poll_stats_one_def poll_console_one_def Let_def emitStatsUpdate_def emitPowerState_def emit_room_ok
        split: prod.split sum.split option.split)
  then have "gateway_ok X (fold (poll_stats_one W) us s)" "gateway_ok X (fold (poll_console_one W) us s)" if "gateway_ok X s"
    for us and s :: "'a gateway_panel_scheme"
    using that by (induction us arbitrary: s) simp_all
  then show "gateway_ok X (pollStats W s)" "gateway_ok X (pollConsole W s)"
    using assms by (simp_all add: pollStats_def pollConsole_def)
qed

interpretation gateway_run: run_invariant "gateway_step X W" "gateway_ok X" for X W
proof unfold_locales
  fix s t :: "'a gateway_panel_scheme"
  assume "gateway_step X W s t" and "gateway_ok X s"
  then show "gateway_ok X t"
    by cases (simp_all add: connect_ok disconnect_ok auth_ok subscribe_ok send_ok poll_ok cong: gateway_ok_cong)
qed

section \<open>What the sockets show\<close>

text \<open>
  C4. After any number of steps of browsers, timers and the rest of the panel, starting with
  no sockets: a socket that is in a room, is tied to a server, is subscribed to anything or
  was ever sent a line of a console, a statistic or a power state carries a user that came
  out of a verified token.
\<close>

theorem gateway_rooms_authenticated:
  assumes "(gateway_step X W)\<^sup>*\<^sup>* s t" and "gw_sockets s = []" "gw_subscriptions s = (\<lambda>_. None)"
    and "(i, c) \<in> set (gw_sockets t)"
    and "sk_rooms c \<noteq> [] \<or> sk_serverUuid c \<noteq> None \<or> (\<exists>m \<in> set (sk_sent c). about_server m) \<or>
      (\<exists>subs. gw_subscriptions t i = Some subs \<and> (sub_console subs \<or> sub_stats subs))"
  shows "\<exists>now token payload. jwtVerify X now token = Some payload \<and> sk_userId c = Some (jwt_sub payload)"
proof -
  have "gateway_ok X s" using assms(2,3) by (simp add: gateway_ok_def)
  with assms(1) have ok: "gateway_ok X t" by (rule gateway_run.run_keeps)
  then have c: "map_of (gw_sockets t) i = Some c" using assms(4) by (simp add: gateway_ok_def)
  have "sk_userId c \<noteq> None"
  proof
    assume n: "sk_userId c = None"
    then show False
      using assms(5) gateway_ok_socket [OF ok c] ok c
      by (auto simp: socket_ok_def gateway_ok_def list_ex_iff)
  qed
  then obtain u where "sk_userId c = Some u" "verified X u"
    using gateway_ok_socket [OF ok c] by (auto simp: socket_ok_def)
  then show ?thesis unfolding verified_def by blast
qed

text \<open>The panel with one socket.\<close>

definition demo_gateway :: "string option \<Rightarrow> GatewaySocket \<Rightarrow> gateway_panel" where
  "demo_gateway status c = wings_panel.extend
     (update_server ''s1'' (server_status_update (\<lambda>_. if status = None then None else Some SUSPENDED)) demo_three)
     (gateway_panel.fields [(''k'', c)] (\<lambda>_. None))"

definition fresh_socket :: GatewaySocket where
  "fresh_socket = \<lparr>sk_cookie = None, sk_queryServer = None, sk_userId = None, sk_serverUuid = None, sk_rooms = [], sk_sent = []\<rparr>"

definition no_sockets :: gateway_panel where
  "no_sockets = (demo_gateway None fresh_socket)\<lparr>gw_sockets := []\<rparr>"

lemma auth_client:
  assumes "jwtVerify X now token = Some p" and "map_of (gw_sockets s) i = Some c"
  shows "map_of (gw_sockets (handleAuth X now i token uuid s)) i =
    Some (emit_client AuthSuccess (join_room (server_room uuid)
      (c\<lparr>sk_userId := Some (jwt_sub p), sk_serverUuid := Some uuid\<rparr>)))"
  using assms by (simp add: handleAuth_def)

abbreviation eve_token :: string where
  "eve_token \<equiv> demo_sign (access_claims 0 eve)"

lemma eve_token_verified: "jwtVerify demo_ext 0 eve_token = Some (access_claims 0 eve)"
  by (simp add: access_claims_def expires_def)

theorem gateway_rooms_authenticated_witness:
  "\<exists>t c. (gateway_step demo_ext wings_up)\<^sup>*\<^sup>* no_sockets t \<and> map_of (gw_sockets t) ''k'' = Some c \<and>
     sk_rooms c = [''server:uuid-1''] \<and> (\<exists>now token payload. jwtVerify demo_ext now token = Some payload \<and> sk_userId c = Some (jwt_sub payload))"
proof -
  let ?s1 = "gateway_connect demo_ext 0 ''k'' None None no_sockets"
  let ?t = "handleAuth demo_ext 0 ''k'' eve_token ''uuid-1'' ?s1"
  have e: "gw_sockets no_sockets = []" "gw_subscriptions no_sockets = (\<lambda>_. None)"
    by (simp_all add: no_sockets_def demo_gateway_def wings_panel.extend_def gateway_panel.fields_def)
  have "gateway_step demo_ext wings_up no_sockets ?s1" by (rule connect) (simp add: e)
  then have run: "(gateway_step demo_ext wings_up)\<^sup>*\<^sup>* no_sockets ?t" by (rule converse_rtranclp_into_rtranclp) (auto intro: auth)
  have "map_of (gw_sockets ?s1) ''k'' = Some fresh_socket"
    by (simp add: gateway_connect_def handleConnection_def Let_def on_client_def e fresh_socket_def)
  note c = auth_client [OF eve_token_verified this, of "''uuid-1''"]
  let ?c = "emit_client AuthSuccess (join_room (server_room ''uuid-1'')
      (fresh_socket\<lparr>sk_userId := Some (jwt_sub (access_claims 0 eve)), sk_serverUuid := Some ''uuid-1''\<rparr>))"
  have r: "sk_rooms ?c = [''server:uuid-1'']" by (simp add: emit_client_def join_room_def fresh_socket_def server_room_def)
  then have "\<exists>now token payload. jwtVerify demo_ext now token = Some payload \<and> sk_userId ?c = Some (jwt_sub payload)"
    using gateway_rooms_authenticated [OF run e, of "''k''" ?c] map_of_SomeD [OF c] by simp
  then show ?thesis using run c r by blast
qed

section \<open>Beside the routes\<close>

text \<open>
  C15. The gateway asks neither who owns a server nor what state it is in: a socket that
  presents any verified token, of whatever user, ties itself to any server of the panel, and
  its power action goes to the daemon of that server although the server is suspended,
  installing or somebody else's.
\<close>

theorem websocket_power_unguarded:
  assumes "map_of (gw_sockets s) i = Some c" and "jwtVerify X now token = Some p" "jwt_sub p \<noteq> []"
    and "node_of s uuid = Some node" and "uuid \<noteq> []"
  shows "pn_calls (handleSendPowerAction W i action (handleAuth X now i token uuid s)) =
    pn_calls s @ [grpc_call node (SendPowerAction uuid (mapPowerAction action)) s]"
proof -
  let ?s1 = "handleAuth X now i token uuid s"
  obtain c1 where c1: "map_of (gw_sockets ?s1) i = Some c1" "truthy_str (sk_userId c1)" "sk_serverUuid c1 = Some uuid"
    using auth_client [OF assms(2,1), of uuid] assms(3)
    by (simp add: emit_client_def join_room_def)
  have "node_of ?s1 = node_of s" using assms(2) by (intro node_of_cong) (simp_all add: handleAuth_def update_client_def)
  then have frame: "pn_calls ?s1 = pn_calls s" "pn_clients ?s1 = pn_clients s" "node_of ?s1 uuid = Some node"
    using assms(2,4) by (simp_all add: handleAuth_def update_client_def)
  then have g: "grpc_call node q ?s1 = grpc_call node q s" for q
    by (simp add: grpc_call_def getClient_def clients_get_def Let_def split: option.split)
  obtain r s2 where call: "call_server uuid (\<lambda>node uuid. WingsService_powerAction W node uuid action) ?s1 = (r, s2)" by force
  then have "pn_calls s2 = pn_calls s @ [grpc_call node (SendPowerAction uuid (mapPowerAction action)) s]"
    using call_server_state [where h = "\<lambda>node uuid. WingsService_powerAction W node uuid action", OF power_state, of uuid ?s1]
      frame g by simp
  then show ?thesis
    using c1 assms(5) call by (cases r) (simp_all add: handleSendPowerAction_def on_client_def update_client_def)
qed

theorem websocket_power_unguarded_witness:
  "let s = demo_gateway (Some ''suspended'') fresh_socket in
     pn_calls (handleSendPowerAction wings_up ''k'' START (handleAuth demo_ext 0 ''k'' eve_token ''uuid-1'' s)) =
       pn_calls s @ [grpc_call demo_node (SendPowerAction ''uuid-1'' 0) s] \<and>
     map server_status (db_servers s) = [Some SUSPENDED] \<and> map server_userId (db_servers s) = [''u2''] \<and> user_id eve = ''u3''"
proof -
  let ?s = "demo_gateway (Some ''suspended'') fresh_socket"
  have c: "map_of (gw_sockets ?s) ''k'' = Some fresh_socket"
    by (simp add: demo_gateway_def wings_panel.extend_def gateway_panel.fields_def)
  have sv: "db_servers ?s = [demo_server\<lparr>server_status := Some SUSPENDED\<rparr>]" and nd: "db_nodes ?s = [demo_node]"
    by (simp_all add: demo_gateway_def wings_panel.extend_def demo_three_def updateRows_def) (simp add: demo_server_def)
  have n: "node_of ?s ''uuid-1'' = Some demo_node"
    unfolding node_of_def sv nd by (simp add: findOne_def demo_server_def demo_node_def)
  have p: "jwt_sub (access_claims 0 eve) \<noteq> []" by (simp add: access_claims_def eve_def demo_user_def)
  from websocket_power_unguarded [OF c eve_token_verified p n, of wings_up START] show ?thesis
    unfolding Let_def sv by (simp add: demo_server_def eve_def demo_user_def)
qed

text \<open>
  Authenticating again for a second server does not leave the first: the socket is tied
  to the second and still receives every line of the first one's console.
\<close>

theorem reauth_keeps_old_room:
  assumes "map_of (gw_sockets s) i = Some c" and "server_room a \<in> set (sk_rooms c)"
    and "jwtVerify X now token = Some p"
  shows "\<exists>c'. map_of (gw_sockets (emitConsoleOutput a line (handleAuth X now i token b s))) i = Some c' \<and>
    sk_serverUuid c' = Some b \<and> sk_sent c' = sk_sent c @ [AuthSuccess, ConsoleLine line]"
  using assms(2) auth_client [OF assms(3,1), of b]
  by (simp add: emitConsoleOutput_def emit_room_def map_of_map_entries emit_client_def join_room_def)

theorem reauth_keeps_old_room_witness:
  "\<exists>c'. map_of (gw_sockets (emitConsoleOutput ''uuid-1'' (JStr ''hello'')
       (handleAuth demo_ext 0 ''k'' eve_token ''uuid-2'' (demo_gateway None (join_room (server_room ''uuid-1'') fresh_socket))))) ''k'' = Some c' \<and>
     sk_serverUuid c' = Some ''uuid-2'' \<and> ConsoleLine (JStr ''hello'') \<in> set (sk_sent c')"
proof -
  let ?c = "join_room (server_room ''uuid-1'') fresh_socket"
  have "map_of (gw_sockets (demo_gateway None ?c)) ''k'' = Some ?c"
    by (simp add: demo_gateway_def wings_panel.extend_def gateway_panel.fields_def)
  from reauth_keeps_old_room [OF this _ eve_token_verified, of "''uuid-1''" "JStr ''hello''" "''uuid-2''"]
  show ?thesis by (auto simp: join_room_def fresh_socket_def)
qed

section \<open>Polls\<close>

text \<open>The daemon request a call carries.\<close>

fun requested :: "wings_call \<Rightarrow> grpc_request option" where
  "requested (Grpc _ _ request) = Some request"
| "requested (Http _) = None"

lemma requested_call [simp]: "requested (grpc_call node request s) = Some request"
  by (simp add: grpc_call_def)

lemma node_of_truncate: "db.truncate s = db.truncate t \<Longrightarrow> node_of s = node_of t"
  by (rule node_of_cong) (auto simp: db.truncate_def dest: arg_cong [where f = db_servers] arg_cong [where f = db_nodes])

lemma emit_room_frame:
  "pn_calls (emit_room r m s) = pn_calls s" "db.truncate (emit_room r m s) = db.truncate s"
  by (simp_all add: emit_room_def db.truncate_def)

lemma poll_one:
  "db.truncate (poll_stats_one W uuid s) = db.truncate s \<and>
   map requested (pn_calls (poll_stats_one W uuid s)) =
     map requested (pn_calls s) @ (if node_of s uuid = None then [] else [Some (GetServerStatus uuid)])"
  "db.truncate (poll_console_one W uuid s) = db.truncate s \<and>
   map requested (pn_calls (poll_console_one W uuid s)) =
     map requested (pn_calls s) @ (if node_of s uuid = None then [] else [Some (GetServerStatus uuid)])"
proof -
  obtain r s1 where c: "call_server uuid (\<lambda>node _. WingsService_getServerStatus W node uuid) s = (r, s1)" by force
  have s1: "s1 = (case node_of s uuid of None \<Rightarrow> s | Some node \<Rightarrow> after_call node (GetServerStatus uuid) s)"
    using call_server_state [where h = "\<lambda>node _. WingsService_getServerStatus W node uuid", OF status_state, of uuid s] c by simp
  then have f: "db.truncate s1 = db.truncate s" "map requested (pn_calls s1) =
      map requested (pn_calls s) @ (if node_of s uuid = None then [] else [Some (GetServerStatus uuid)])"
    by (auto split: option.splits)
  have e: "pn_calls (fold (emitConsoleOutput uuid) lines t) = pn_calls t \<and> db.truncate (fold (emitConsoleOutput uuid) lines t) = db.truncate t"
    for lines and t :: "'a gateway_panel_scheme"
    by (induction lines arbitrary: t) (simp_all add: emitConsoleOutput_def emit_room_frame)
  show "db.truncate (poll_stats_one W uuid s) = db.truncate s \<and>
   map requested (pn_calls (poll_stats_one W uuid s)) =
     map requested (pn_calls s) @ (if node_of s uuid = None then [] else [Some (GetServerStatus uuid)])"
    using f by (cases r) (simp_all add: poll_stats_one_def c Let_def emitStatsUpdate_def emitPowerState_def emit_room_frame split: option.split)
  show "db.truncate (poll_console_one W uuid s) = db.truncate s \<and>
   map requested (pn_calls (poll_console_one W uuid s)) =
     map requested (pn_calls s) @ (if node_of s uuid = None then [] else [Some (GetServerStatus uuid)])"
    using f e by (cases r) (simp_all add: poll_console_one_def c split: option.split)
qed

lemma poll_fold:
  assumes "\<And>uuid s. db.truncate (one uuid s) = db.truncate s \<and> map requested (pn_calls (one uuid s)) =
     map requested (pn_calls s) @ (if node_of s uuid = None then [] else [Some (GetServerStatus uuid)])"
  shows "db.truncate (fold one us s) = db.truncate s \<and>
    map requested (pn_calls (fold one us s)) =
      map requested (pn_calls s) @ map (Some \<circ> GetServerStatus) (filter (\<lambda>u. node_of s u \<noteq> None) us)"
proof (induction us arbitrary: s)
  case Nil
  then show ?case by simp
next
  case (Cons u us)
  have "node_of (one u s) = node_of s" using assms [of u s] by (intro node_of_truncate) blast
  then show ?case using Cons.IH [of "one u s"] assms [of u s] by simp
qed

lemma js_Set_simps [simp]: "distinct (js_Set xs)" "set (js_Set xs) = set xs"
  by (simp_all add: js_Set_def)

text \<open>
  A poll asks the daemons for the status of each server that some subscribed socket is
  tied to, once each however many sockets there are, and of no other server; servers the panel
  does not know are skipped.  It writes nothing to the database.
\<close>

theorem poll_asks_subscribed_once:
  "db.truncate (pollStats W s) = db.truncate s \<and> db.truncate (pollConsole W s) = db.truncate s \<and>
   map requested (pn_calls (pollStats W s)) = map requested (pn_calls s) @
     map (Some \<circ> GetServerStatus) (filter (\<lambda>u. node_of s u \<noteq> None) (getSubscribedServerUuids sub_stats s)) \<and>
   map requested (pn_calls (pollConsole W s)) = map requested (pn_calls s) @
     map (Some \<circ> GetServerStatus) (filter (\<lambda>u. node_of s u \<noteq> None) (getSubscribedServerUuids sub_console s)) \<and>
   distinct (getSubscribedServerUuids kind s) \<and>
   set (getSubscribedServerUuids kind s) =
     {u. u \<noteq> [] \<and> (\<exists>i c subs. (i, c) \<in> set (gw_sockets s) \<and> sk_serverUuid c = Some u \<and>
        gw_subscriptions s i = Some subs \<and> kind subs)}"
proof -
  have "set (getSubscribedServerUuids kind s) =
     {u. u \<noteq> [] \<and> (\<exists>i c subs. (i, c) \<in> set (gw_sockets s) \<and> sk_serverUuid c = Some u \<and>
        gw_subscriptions s i = Some subs \<and> kind subs)}"
    by (auto simp: getSubscribedServerUuids_def truthy_str_iff image_iff split: option.splits) force+
  moreover have "distinct (getSubscribedServerUuids kind s)" by (simp add: getSubscribedServerUuids_def)
  ultimately show ?thesis
    using poll_fold [where one = "poll_stats_one W", OF poll_one(1), of "getSubscribedServerUuids sub_stats s" s]
      poll_fold [where one = "poll_console_one W", OF poll_one(2), of "getSubscribedServerUuids sub_console s" s]
    by (simp add: pollStats_def pollConsole_def)
qed

end
