(* ===== verification/WebClientProps.thy ===== *)
theory WebClientProps
  imports WebClient GatewayProps
begin

text \<open>
  What the browser's hook keeps over any run, when it reconnects and when it never does
  again, what the terminal shows, and how hook and gateway go together.
\<close>

section \<open>The sockets of the hook\<close>

lemma socket_simps [simp]:
  "ws_server (socket_emit m k) = ws_server k" "ws_link (socket_emit m k) = ws_link k"
  "ws_timers (socket_emit m k) = ws_timers k" "ws_token (socket_emit m k) = ws_token k"
  "ws_server (socket_up k) = ws_server k" "ws_link (socket_up k) = Up" "ws_timers (socket_up k) = ws_timers k"
  "ws_token (socket_up k) = ws_token k"
  "ws_server (socket_connect k) = ws_server k" "ws_timers (socket_connect k) = ws_timers k"
  by (simp_all add: socket_emit_def socket_up_def socket_connect_def)

lemma on_socket_simps [simp]:
  "length (wh_sockets (on_socket i f h)) = length (wh_sockets h)"
  "wh_consoleLines (on_socket i f h) = wh_consoleLines h" "wh_retries (on_socket i f h) = wh_retries h"
  "wh_connectionStatus (on_socket i f h) = wh_connectionStatus h" "wh_current (on_socket i f h) = wh_current h"
  "wh_powerState (on_socket i f h) = wh_powerState h"
  "wh_sockets (on_socket i f h) = (wh_sockets h)[i := f (wh_sockets h ! i)]"
  by (simp_all add: on_socket_def)

lemmas message_defs = on_console_output_def on_console_history_def on_stats_update_def on_power_state_def on_stats_def

lemma message_frame:
  "f \<in> {on_console_output, on_console_history, on_stats_update, on_power_state} \<Longrightarrow>
   wh_sockets (f msg h) = wh_sockets h \<and> wh_retries (f msg h) = wh_retries h \<and>
   wh_connectionStatus (f msg h) = wh_connectionStatus h \<and> wh_current (f msg h) = wh_current h"
  by (auto simp: message_defs Let_def split: option.split json.split)

lemma on_message_frame [simp]:
  "wh_sockets (on_message msg h) = wh_sockets h" "wh_retries (on_message msg h) = wh_retries h"
  "wh_connectionStatus (on_message msg h) = wh_connectionStatus h" "wh_current (on_message msg h) = wh_current h"
  by (simp_all add: on_message_def message_frame)

lemma reconnect_delay_bounds: "1000 \<le> reconnect_delay n" "reconnect_delay n \<le> 30000"
  by (simp_all add: reconnect_delay_def)

lemma reconnect_delay_0 [simp]: "reconnect_delay 0 = 1000"
  by (simp add: reconnect_delay_def)

lemma last_n_length [simp]: "length (last_n n xs) = min n (length xs)"
  by (simp add: last_n_def)

lemma append_line_length: "length xs \<le> MAX_LINES \<Longrightarrow> length (append_line line xs) \<le> MAX_LINES"
  by (simp add: append_line_def Let_def)

lemma message_lines:
  "length (wh_consoleLines h) \<le> MAX_LINES \<Longrightarrow>
   f \<in> {on_console_output, on_console_history, on_stats_update, on_power_state} \<Longrightarrow>
   length (wh_consoleLines (f msg h)) \<le> MAX_LINES"
  by (auto simp: message_defs Let_def append_line_length split: option.split json.split)

lemma on_message_lines:
  "length (wh_consoleLines h) \<le> MAX_LINES \<Longrightarrow> length (wh_consoleLines (on_message msg h)) \<le> MAX_LINES"
  by (simp add: on_message_def message_lines)

text \<open>A socket waits for at most one timer, and only while it has no connection.\<close>

definition socket_waits :: "WebSocket \<Rightarrow> bool" where
  "socket_waits k \<longleftrightarrow>
     length (ws_timers k) \<le> 1 \<and> (ws_link k \<noteq> Idle \<longrightarrow> ws_timers k = []) \<and> (\<forall>d \<in> set (ws_timers k). 1000 \<le> d \<and> d \<le> 30000)"

definition hook_ok :: "WebHook \<Rightarrow> bool" where
  "hook_ok h \<longleftrightarrow>
     length (wh_consoleLines h) \<le> MAX_LINES \<and> (\<forall>k \<in> set (wh_sockets h). socket_waits k) \<and>
     (wh_connectionStatus h = Connected \<longrightarrow> (\<exists>k \<in> set (wh_sockets h). ws_link k = Up)) \<and>
     (case wh_current h of None \<Rightarrow> True | Some i \<Rightarrow> i < length (wh_sockets h))"

text \<open>As long as the page shows one server, the counter of attempts never grows.\<close>

definition single_ok :: "WebHook \<Rightarrow> bool" where
  "single_ok h \<longleftrightarrow>
     (\<forall>k. wh_sockets h = [k] \<longrightarrow>
        (\<forall>d \<in> set (ws_timers k). d = 1000) \<and> (ws_link k = Up \<longrightarrow> wh_retries h = 0))"

lemma hook_okD:
  "hook_ok h \<Longrightarrow> i < length (wh_sockets h) \<Longrightarrow> socket_waits (wh_sockets h ! i)"
  "hook_ok h \<Longrightarrow> length (wh_consoleLines h) \<le> MAX_LINES"
  "hook_ok h \<Longrightarrow> wh_current h = Some i \<Longrightarrow> i < length (wh_sockets h)"
  by (simp_all add: hook_ok_def)

lemma hook_ok_socket:
  assumes "hook_ok h" and i: "i < length (wh_sockets h)" and "socket_waits k"
    and "wh_connectionStatus h' = Connected \<Longrightarrow> ws_link k = Up \<or>
      wh_connectionStatus h = Connected \<and> ws_link (wh_sockets h ! i) \<noteq> Up"
    and s: "wh_sockets h' = (wh_sockets h)[i := k]" "wh_consoleLines h' = wh_consoleLines h"
    and "wh_current h' = wh_current h \<or> wh_current h' = None"
  shows "hook_ok h'"
proof -
  have all: "\<forall>k \<in> set (wh_sockets h'). socket_waits k"
    using assms(1,3) set_update_subset_insert [of "wh_sockets h" i] unfolding s hook_ok_def by blast
  have "\<exists>k \<in> set (wh_sockets h'). ws_link k = Up" if "wh_connectionStatus h' = Connected"
  proof (cases "ws_link k = Up")
    case True
    then show ?thesis using i by (metis s(1) set_update_memI)
  next
    case False
    then have c: "wh_connectionStatus h = Connected" "ws_link (wh_sockets h ! i) \<noteq> Up" using assms(4) that by simp_all
    then obtain j where j: "j < length (wh_sockets h)" "ws_link (wh_sockets h ! j) = Up"
      using assms(1) by (auto simp: hook_ok_def in_set_conv_nth)
    then have "j \<noteq> i" using c(2) by auto
    then show ?thesis using j by (metis s(1) length_list_update nth_list_update_neq nth_mem)
  qed
  then show ?thesis
    using all assms(1,7) by (auto simp: hook_ok_def s split: option.splits)
qed

text \<open>What the handlers do to the socket they belong to.\<close>

definition started :: "WebSocket \<Rightarrow> WebSocket" where
  "started k = socket_emit EmitSubscribeStats (socket_emit EmitSubscribeConsole
     (socket_emit (EmitAuth (ws_token k) (ws_server k)) (socket_up k)))"

definition dropped :: "nat \<Rightarrow> WebSocket \<Rightarrow> WebSocket" where
  "dropped n k = k\<lparr>ws_link := Idle, ws_timers := ws_timers k @ [reconnect_delay n]\<rparr>"

definition redialled :: "nat \<Rightarrow> WebSocket \<Rightarrow> WebSocket" where
  "redialled d k = socket_connect (k\<lparr>ws_timers := remove1 d (ws_timers k)\<rparr>)"

lemma started_simps [simp]:
  "ws_link (started k) = Up" "ws_timers (started k) = ws_timers k" "ws_server (started k) = ws_server k"
  "ws_token (started k) = ws_token k"
  by (simp_all add: started_def)

lemma dropped_simps [simp]:
  "ws_link (dropped n k) = Idle" "ws_timers (dropped n k) = ws_timers k @ [reconnect_delay n]"
  "ws_server (dropped n k) = ws_server k"
  by (simp_all add: dropped_def)

lemma redialled_simps [simp]:
  "ws_timers (redialled d k) = remove1 d (ws_timers k)" "ws_server (redialled d k) = ws_server k"
  "ws_link (redialled d k) = (if ws_link k = Idle then Dialling else ws_link k)"
  by (simp_all add: redialled_def socket_connect_def)

lemma step_sockets:
  assumes "i < length (wh_sockets h)"
  shows "wh_sockets (link_up i h) = (wh_sockets h)[i := started (wh_sockets h ! i)]"
    and "wh_sockets (link_refused i h) = (wh_sockets h)[i := ws_link_update (\<lambda>_. Idle) (wh_sockets h ! i)]"
    and "wh_sockets (link_lost i h) = (wh_sockets h)[i := dropped (wh_retries h) (wh_sockets h ! i)]"
    and "wh_sockets (timer_fires i d h) = (wh_sockets h)[i := redialled d (wh_sockets h ! i)]"
  using assms
  by (simp_all add: link_up_def on_connect_def link_refused_def on_connect_error_def link_lost_def on_disconnect_def
      timer_fires_def started_def dropped_def redialled_def socket_up_def)

lemma step_frame [simp]:
  "wh_consoleLines (link_up i h) = wh_consoleLines h" "wh_consoleLines (link_refused i h) = wh_consoleLines h"
  "wh_consoleLines (link_lost i h) = wh_consoleLines h" "wh_consoleLines (timer_fires i d h) = wh_consoleLines h"
  "wh_current (link_up i h) = wh_current h" "wh_current (link_refused i h) = wh_current h"
  "wh_current (link_lost i h) = wh_current h" "wh_current (timer_fires i d h) = wh_current h"
  "wh_connectionStatus (link_up i h) = Connected" "wh_connectionStatus (link_refused i h) = Failed"
  "wh_connectionStatus (link_lost i h) = Disconnected" "wh_connectionStatus (timer_fires i d h) = wh_connectionStatus h"
  "wh_retries (link_up i h) = 0" "wh_retries (link_refused i h) = wh_retries h"
  "wh_retries (link_lost i h) = Suc (wh_retries h)" "wh_retries (timer_fires i d h) = wh_retries h"
  by (simp_all add: link_up_def on_connect_def link_refused_def on_connect_error_def link_lost_def on_disconnect_def
      timer_fires_def)

text \<open>Leaving a server is losing its connection, giving up the attempt, or nothing.\<close>

lemma close_socket_cases:
  assumes "hook_ok h"
  obtains "close_socket h = h" "wh_current h = None"
  | i where "wh_current h = Some i" "i < length (wh_sockets h)" "ws_link (wh_sockets h ! i) = Up"
      "close_socket h = (link_lost i h)\<lparr>wh_current := None\<rparr>"
  | i where "wh_current h = Some i" "i < length (wh_sockets h)" "ws_link (wh_sockets h ! i) \<noteq> Up"
      "close_socket h = (on_socket i (ws_link_update (\<lambda>_. Idle)) h)\<lparr>wh_current := None\<rparr>"
  using assms by (cases "wh_current h") (auto simp: close_socket_def Let_def link_lost_def dest: hook_okD(3))

section \<open>Every step keeps the invariant\<close>

lemma hook_ok_frame:
  "hook_ok h \<Longrightarrow> wh_sockets h' = wh_sockets h \<Longrightarrow> wh_connectionStatus h' = wh_connectionStatus h \<Longrightarrow>
   wh_current h' = wh_current h \<or> wh_current h' = None \<Longrightarrow> length (wh_consoleLines h') \<le> MAX_LINES \<Longrightarrow> hook_ok h'"
  by (auto simp: hook_ok_def split: option.splits)

lemma link_lost_ok:
  assumes "hook_ok h" and "i < length (wh_sockets h)" "ws_link (wh_sockets h ! i) = Up"
  shows "hook_ok (link_lost i h)"
  by (rule hook_ok_socket [OF assms(1,2) _ _ step_sockets(3) [OF assms(2)]])
    (use hook_okD(1) [OF assms(1,2)] assms(3) in \<open>auto simp: socket_waits_def reconnect_delay_bounds\<close>)

lemma close_socket_ok:
  assumes "hook_ok h" shows "hook_ok (close_socket h)"
proof (rule close_socket_cases [OF assms])
  fix i assume "i < length (wh_sockets h)" "ws_link (wh_sockets h ! i) = Up" "close_socket h = (link_lost i h)\<lparr>wh_current := None\<rparr>"
  then show ?thesis using link_lost_ok [OF assms] hook_okD(2) [OF assms] by (auto intro: hook_ok_frame [of "link_lost i h"])
next
  fix i assume i: "i < length (wh_sockets h)" "ws_link (wh_sockets h ! i) \<noteq> Up"
    and c: "close_socket h = (on_socket i (ws_link_update (\<lambda>_. Idle)) h)\<lparr>wh_current := None\<rparr>"
  show ?thesis
    unfolding c by (rule hook_ok_socket [OF assms i(1), where k = "ws_link_update (\<lambda>_. Idle) (wh_sockets h ! i)"])
      (use hook_okD(1) [OF assms i(1)] i(2) in \<open>auto simp: socket_waits_def\<close>)
qed (use assms in simp)

lemma open_socket_ok:
  assumes "hook_ok h" shows "hook_ok (open_socket token uuid h)"
  using assms by (auto simp: hook_ok_def open_socket_def socket_waits_def)

lemma emit_ok:
  assumes "hook_ok h"
  shows "hook_ok (case wh_current h of None \<Rightarrow> h | Some i \<Rightarrow> on_socket i (socket_emit m) h)"
proof (cases "wh_current h")
  case (Some i)
  note i = hook_okD(3) [OF assms Some]
  show ?thesis
    unfolding Some option.case
    by (rule hook_ok_socket [OF assms i, where k = "socket_emit m (wh_sockets h ! i)"])
      (use hook_okD(1) [OF assms i] in \<open>auto simp: socket_waits_def\<close>)
qed (use assms in simp)

lemma web_step_ok:
  assumes "web_step h h'" and ok: "hook_ok h" shows "hook_ok h'"
  using assms(1)
proof cases
  case changed
  then show ?thesis using ok by (simp add: open_socket_ok close_socket_ok)
next
  case unmounted
  then show ?thesis using ok by (simp add: close_socket_ok)
next
  case (up i k)
  have i: "i < length (wh_sockets h)" using up by simp
  show ?thesis
    unfolding up(1) by (rule hook_ok_socket [OF ok i _ _ step_sockets(1) [OF i]])
      (use hook_okD(1) [OF ok i] up in \<open>auto simp: socket_waits_def\<close>)
next
  case (refused i k)
  have i: "i < length (wh_sockets h)" using refused by simp
  show ?thesis
    unfolding refused(1) by (rule hook_ok_socket [OF ok i _ _ step_sockets(2) [OF i]])
      (use hook_okD(1) [OF ok i] in \<open>auto simp: socket_waits_def\<close>)
next
  case (lost i k)
  then show ?thesis using link_lost_ok [OF ok, of i] by simp
next
  case (timer i k d)
  have i: "i < length (wh_sockets h)" using timer by simp
  show ?thesis
    unfolding timer(1) by (rule hook_ok_socket [OF ok i _ _ step_sockets(4) [OF i]])
      (use hook_okD(1) [OF ok i] timer in \<open>auto simp: socket_waits_def length_Suc_conv le_Suc_eq\<close>)
next
  case (incoming i k msg)
  then show ?thesis using ok on_message_lines [OF hook_okD(2) [OF ok]] by (auto intro: hook_ok_frame)
next
  case (command cmd)
  then show ?thesis using emit_ok [OF ok] by (simp add: sendCommand_def)
next
  case (power action)
  then show ?thesis using emit_ok [OF ok] by (simp add: sendPowerAction_def)
qed

interpretation web_run: run_invariant web_step hook_ok
  by unfold_locales (rule web_step_ok)

section \<open>One server\<close>

lemma close_socket_sockets: "length (wh_sockets (close_socket h)) = length (wh_sockets h)"
  by (auto simp: close_socket_def on_disconnect_def Let_def split: option.split)

lemma single_socket:
  assumes "single_ok h" and i: "i < length (wh_sockets h)" and s: "wh_sockets h' = (wh_sockets h)[i := k]"
    and "\<And>x. wh_sockets h = [x] \<Longrightarrow> (\<forall>d \<in> set (ws_timers x). d = 1000) \<Longrightarrow> (ws_link x = Up \<longrightarrow> wh_retries h = 0) \<Longrightarrow>
      (\<forall>d \<in> set (ws_timers k). d = 1000) \<and> (ws_link k = Up \<longrightarrow> wh_retries h' = 0)"
  shows "single_ok h'"
  unfolding single_ok_def
proof (intro allI impI)
  fix y assume y: "wh_sockets h' = [y]"
  then have "length (wh_sockets h) = 1" using s by (metis length_list_update length_Cons list.size(3) One_nat_def)
  then obtain x where x: "wh_sockets h = [x]" by (auto simp: length_Suc_conv)
  then have "y = k" using i y s by simp
  then show "(\<forall>d \<in> set (ws_timers y). d = 1000) \<and> (ws_link y = Up \<longrightarrow> wh_retries h' = 0)"
    using assms(1,4) x by (simp add: single_ok_def)
qed

lemma single_emit: "single_ok h \<Longrightarrow> single_ok (on_socket i (socket_emit m) h)"
proof (cases "i < length (wh_sockets h)")
  case True
  assume "single_ok h"
  then show ?thesis by (rule single_socket [OF _ True, where k = "socket_emit m (wh_sockets h ! i)"]) (use True in auto)
qed (simp add: single_ok_def list_update_beyond)

lemma single_close:
  assumes "single_ok h" and "hook_ok h" shows "single_ok (close_socket h)"
proof (rule close_socket_cases [OF assms(2)])
  fix i assume i: "i < length (wh_sockets h)" "ws_link (wh_sockets h ! i) = Up"
    and c: "close_socket h = (link_lost i h)\<lparr>wh_current := None\<rparr>"
  show ?thesis
    unfolding c by (rule single_socket [OF assms(1) i(1), where k = "dropped (wh_retries h) (wh_sockets h ! i)"])
      (use i in \<open>auto simp: step_sockets\<close>)
next
  fix i assume i: "i < length (wh_sockets h)"
    and c: "close_socket h = (on_socket i (ws_link_update (\<lambda>_. Idle)) h)\<lparr>wh_current := None\<rparr>"
  show ?thesis
    unfolding c by (rule single_socket [OF assms(1) i, where k = "ws_link_update (\<lambda>_. Idle) (wh_sockets h ! i)"])
      (use i in auto)
qed (use assms in simp)

lemma single_open: "single_ok h \<Longrightarrow> single_ok (open_socket token uuid h)"
  by (cases "wh_sockets h") (auto simp: single_ok_def open_socket_def)

lemma single_step:
  assumes "web_step h h'" and ok: "hook_ok h" and single: "single_ok h" shows "single_ok h'"
  using assms(1)
proof cases
  case changed
  then show ?thesis using single_close [OF single ok] by (simp add: single_open)
next
  case unmounted
  then show ?thesis using single_close [OF single ok] by simp
next
  case (up i k)
  have i: "i < length (wh_sockets h)" using up by simp
  show ?thesis
    unfolding up(1) by (rule single_socket [OF single i step_sockets(1) [OF i]]) (use up in \<open>auto\<close>)
next
  case (refused i k)
  have i: "i < length (wh_sockets h)" using refused by simp
  show ?thesis
    unfolding refused(1) by (rule single_socket [OF single i step_sockets(2) [OF i]]) (use refused in \<open>auto\<close>)
next
  case (lost i k)
  have i: "i < length (wh_sockets h)" using lost by simp
  show ?thesis
    unfolding lost(1) by (rule single_socket [OF single i step_sockets(3) [OF i]]) (use lost in \<open>auto\<close>)
next
  case (timer i k d)
  have i: "i < length (wh_sockets h)" using timer by simp
  show ?thesis
    unfolding timer(1) by (rule single_socket [OF single i step_sockets(4) [OF i]]) (use timer in \<open>auto dest!: subsetD [OF set_remove1_subset]\<close>)
next
  case (incoming i k msg)
  then show ?thesis using single by (simp add: single_ok_def)
next
  case (command cmd)
  then show ?thesis using single by (auto simp: sendCommand_def single_emit split: option.split)
next
  case (power action)
  then show ?thesis using single by (auto simp: sendPowerAction_def single_emit split: option.split)
qed

interpretation single_run: run_invariant web_step "\<lambda>h. hook_ok h \<and> single_ok h"
  by unfold_locales (simp add: web_step_ok single_step)

lemma initial_ok: "hook_ok initial_hook" "single_ok initial_hook"
  by (simp_all add: hook_ok_def single_ok_def initial_hook_def)

section \<open>A connection that was refused\<close>

definition given_up :: "nat \<Rightarrow> WebHook \<Rightarrow> bool" where
  "given_up i h \<longleftrightarrow> i < length (wh_sockets h) \<and> ws_link (wh_sockets h ! i) = Idle \<and> ws_timers (wh_sockets h ! i) = []"

lemma given_up_close:
  assumes "given_up i h" and "hook_ok h" shows "given_up i (close_socket h)"
  by (rule close_socket_cases [OF assms(2)])
    (use assms(1) in \<open>auto simp: given_up_def step_sockets nth_list_update\<close>)

lemma given_up_emit:
  "given_up i h \<Longrightarrow> given_up i (on_socket j (socket_emit m) h)"
  by (cases "i = j") (auto simp: given_up_def)

lemma given_up_step:
  assumes "web_step h h'" and ok: "hook_ok h" and gone: "given_up i h" shows "given_up i h'"
  using assms(1)
proof cases
  case changed
  then show ?thesis using given_up_close [OF gone ok] by (simp add: given_up_def open_socket_def nth_append)
next
  case unmounted
  then show ?thesis using given_up_close [OF gone ok] by simp
next
  case (command cmd)
  then show ?thesis using gone by (auto simp: sendCommand_def given_up_emit split: option.split)
next
  case (power action)
  then show ?thesis using gone by (auto simp: sendPowerAction_def given_up_emit split: option.split)
qed (use gone in \<open>auto simp: step_sockets given_up_def nth_list_update\<close>)

interpretation given_up_run: run_invariant web_step "\<lambda>h. hook_ok h \<and> given_up i h" for i
  by unfold_locales (simp add: web_step_ok given_up_step)

section \<open>What the hook keeps\<close>

lemma three_steps: "r a b \<Longrightarrow> r b c \<Longrightarrow> r c d \<Longrightarrow> r\<^sup>*\<^sup>* a d"
  by (rule rtranclp.rtrancl_into_rtrancl [OF rtranclp.rtrancl_into_rtrancl [OF r_into_rtranclp]])

text \<open>
  After any number of events of the browser, its sockets and its timers the console of the
  hook holds at most 2000 lines, every pending reconnection is due in at least one and at most
  thirty seconds, and the page says it is connected only while a socket is.
\<close>

theorem web_client_bounds:
  assumes "web_step\<^sup>*\<^sup>* initial_hook h"
  shows "length (wh_consoleLines h) \<le> 2000 \<and>
    (\<forall>k \<in> set (wh_sockets h). length (ws_timers k) \<le> 1 \<and> (\<forall>d \<in> set (ws_timers k). 1000 \<le> d \<and> d \<le> 30000)) \<and>
    (wh_connectionStatus h = Connected \<longrightarrow> (\<exists>k \<in> set (wh_sockets h). ws_link k = Up))"
  using web_run.run_keeps [OF assms initial_ok(1)] by (auto simp: hook_ok_def socket_waits_def MAX_LINES_def)

section \<open>Reconnecting\<close>

text \<open>Nothing stays in the buffer of a connected socket.\<close>

definition flushed :: "WebHook \<Rightarrow> bool" where
  "flushed h \<longleftrightarrow> (\<forall>k \<in> set (wh_sockets h). ws_link k = Up \<longrightarrow> ws_buffered k = [])"

lemma flushed_at: "flushed h \<Longrightarrow> i < length (wh_sockets h) \<Longrightarrow> ws_link (wh_sockets h ! i) = Up \<Longrightarrow> ws_buffered (wh_sockets h ! i) = []"
  by (simp add: flushed_def)

lemma flushed_update:
  assumes "flushed h" and "wh_sockets h' = (wh_sockets h)[i := k]" and "ws_link k = Up \<Longrightarrow> ws_buffered k = []"
  shows "flushed h'"
  using assms(1,3) set_update_subset_insert [of "wh_sockets h" i k] by (auto simp: flushed_def assms(2))

lemma buffer_simps [simp]:
  "ws_buffered (started k) = []" "ws_buffered (dropped n k) = ws_buffered k" "ws_buffered (redialled d k) = ws_buffered k"
  "ws_buffered (socket_emit m k) = (if ws_link k = Up then ws_buffered k else ws_buffered k @ [m])"
  by (simp_all add: started_def dropped_def redialled_def socket_emit_def socket_up_def socket_connect_def)

lemma flushed_close:
  assumes "hook_ok h" and "flushed h" shows "flushed (close_socket h)"
  using assms(1)
proof (cases rule: close_socket_cases)
  case (2 i)
  show ?thesis unfolding 2(4) by (rule flushed_update [OF assms(2), of _ i "dropped (wh_retries h) (wh_sockets h ! i)"]) (simp_all add: step_sockets 2)
next
  case (3 i)
  show ?thesis
    by (rule flushed_update [OF assms(2), of _ i "ws_link_update (\<lambda>_. Idle) (wh_sockets h ! i)"])
      (simp_all add: close_socket_def 3 Let_def)
qed (simp add: assms(2))

lemma flushed_emit: "flushed h \<Longrightarrow> i < length (wh_sockets h) \<Longrightarrow> flushed (on_socket i (socket_emit m) h)"
  by (rule flushed_update [where i = i and k = "socket_emit m (wh_sockets h ! i)"]) (simp_all add: flushed_at)

lemma flushed_step:
  assumes "web_step h h'" and ok: "hook_ok h" and f: "flushed h" shows "flushed h'"
  using assms(1)
proof cases
  case changed
  then show ?thesis using flushed_close [OF ok f] by (simp add: flushed_def open_socket_def)
next
  case unmounted
  then show ?thesis using flushed_close [OF ok f] by simp
next
  case (up i k)
  then show ?thesis using flushed_update [OF f, of _ i "started k"] by (simp add: step_sockets)
next
  case (refused i k)
  then show ?thesis using flushed_update [OF f, of _ i "ws_link_update (\<lambda>_. Idle) k"] by (simp add: step_sockets)
next
  case (lost i k)
  then show ?thesis using flushed_update [OF f, of _ i "dropped (wh_retries h) k"] by (simp add: step_sockets)
next
  case (timer i k d)
  have "flushed (timer_fires i d h)"
    by (rule flushed_update [OF f, of _ i "redialled d k"])
      (use timer flushed_at [OF f, of i] in \<open>auto simp: step_sockets split: if_split_asm\<close>)
  then show ?thesis using timer by simp
next
  case incoming
  then show ?thesis using f by (simp add: flushed_def)
next
  case (command cmd)
  then show ?thesis using f flushed_emit hook_okD(3) [OF ok] by (auto simp: sendCommand_def split: option.split)
next
  case (power action)
  then show ?thesis using f flushed_emit hook_okD(3) [OF ok] by (auto simp: sendPowerAction_def split: option.split)
qed

interpretation flushed_run: run_invariant web_step "\<lambda>h. hook_ok h \<and> flushed h"
  by unfold_locales (simp add: web_step_ok flushed_step)

text \<open>The user types commands and presses power buttons.\<close>

definition user_sends :: "(string + PowerAction) list \<Rightarrow> WebHook \<Rightarrow> WebHook" where
  "user_sends = fold (case_sum sendCommand sendPowerAction)"

definition user_message :: "string + PowerAction \<Rightarrow> ClientMessage" where
  "user_message = case_sum EmitCommand EmitPowerAction"

lemma user_send_eq:
  "case_sum sendCommand sendPowerAction m h =
     (case wh_current h of None \<Rightarrow> h | Some i \<Rightarrow> on_socket i (socket_emit (user_message m)) h)"
  by (cases m) (simp_all add: sendCommand_def sendPowerAction_def user_message_def split: option.split)

lemma user_sends_run: "web_step\<^sup>*\<^sup>* h (user_sends ms h)"
proof (induction ms arbitrary: h)
  case (Cons m ms)
  have "web_step h (case_sum sendCommand sendPowerAction m h)" by (cases m) (auto intro: web_step.intros)
  then show ?case using Cons.IH [of "case_sum sendCommand sendPowerAction m h"]
    by (simp add: user_sends_def converse_rtranclp_into_rtranclp)
qed (simp add: user_sends_def)

lemma user_sends_frame [simp]:
  "length (wh_sockets (user_sends ms h)) = length (wh_sockets h)" "wh_current (user_sends ms h) = wh_current h"
  by (induction ms arbitrary: h) (simp_all add: user_sends_def user_send_eq split: option.split)

text \<open>What is typed into the open console while its socket has no connection waits in the buffer.\<close>

definition typed_at :: "nat \<Rightarrow> WebHook \<Rightarrow> (string + PowerAction) list \<Rightarrow> ClientMessage list" where
  "typed_at i h ms = (if wh_current h = Some i then map user_message ms else [])"

lemma user_sends_socket:
  "i < length (wh_sockets h) \<Longrightarrow> ws_link (wh_sockets h ! i) \<noteq> Up \<Longrightarrow>
   wh_sockets (user_sends ms h) ! i = (wh_sockets h ! i)\<lparr>ws_buffered := ws_buffered (wh_sockets h ! i) @ typed_at i h ms\<rparr>"
proof (induction ms arbitrary: h)
  case (Cons m ms)
  let ?h = "case_sum sendCommand sendPowerAction m h"
  have "wh_sockets ?h ! i = (wh_sockets h ! i)\<lparr>ws_buffered := ws_buffered (wh_sockets h ! i) @ typed_at i h [m]\<rparr>"
    using Cons.prems by (auto simp: user_send_eq socket_emit_def typed_at_def nth_list_update split: option.split)
  moreover have "typed_at i ?h ms = typed_at i h ms" "length (wh_sockets ?h) = length (wh_sockets h)"
    using user_sends_frame [of "[m]" h] by (simp_all add: user_sends_def typed_at_def)
  moreover have "typed_at i h (m # ms) = typed_at i h [m] @ typed_at i h ms" by (simp add: typed_at_def)
  ultimately show ?case using Cons.IH [of ?h] Cons.prems by (simp add: user_sends_def)
qed (simp add: user_sends_def typed_at_def)

text \<open>
  C28. A connection that is lost comes back: exactly one timer is set, of one second as long as
  the page has shown one server only, and when it fires and the server answers the socket is
  connected and the counter of attempts is zero again.  Commands typed and power buttons pressed
  in the open console in between, before the timer fires (\<open>first\<close>) or while the socket dials (\<open>later\<close>),
  are not lost: all of them are sent on the new connection, in their order, and then the
  authentication and both subscriptions.  (So they reach the gateway ahead of the message \<open>auth\<close>: it
  obeys them only if the cookie has authenticated the new connection.)
\<close>

theorem web_client_reconnects:
  assumes "web_step\<^sup>*\<^sup>* initial_hook h" and "socket_at h i k" and "ws_link k = Up"
  shows "\<exists>d. ws_timers (wh_sockets (link_lost i h) ! i) = [d] \<and> 1000 \<le> d \<and> d \<le> 30000 \<and>
    (length (wh_sockets h) = 1 \<longrightarrow> d = 1000) \<and>
    (let t = link_up i (user_sends later (timer_fires i d (user_sends first (link_lost i h)))); k' = wh_sockets t ! i
     in web_step\<^sup>*\<^sup>* h t \<and> ws_link k' = Up \<and> ws_timers k' = [] \<and> wh_retries t = 0 \<and> wh_connectionStatus t = Connected \<and>
        ws_buffered k' = [] \<and>
        ws_sent k' = ws_sent k @ (if wh_current h = Some i then map user_message (first @ later) else []) @
          [EmitAuth (ws_token k) (ws_server k), EmitSubscribeConsole, EmitSubscribeStats])"
proof -
  have inv: "hook_ok h \<and> single_ok h" by (rule single_run.run_keeps [OF assms(1)]) (simp add: initial_ok)
  have init: "flushed initial_hook" by (simp add: flushed_def initial_hook_def)
  have "flushed h"
    using flushed_run.run_keeps [OF assms(1)] initial_ok(1) init by blast
  then have buf: "ws_buffered k = []" using assms(2,3) flushed_at by blast
  have i: "i < length (wh_sockets h)" "wh_sockets h ! i = k" using assms(2) by simp_all
  have no: "ws_timers k = []" using hook_okD(1) [OF inv [THEN conjunct1] i(1)] assms(3) i(2) by (simp add: socket_waits_def)
  let ?d = "reconnect_delay (wh_retries h)" and ?l = "link_lost i h"
  let ?kl = "(dropped (wh_retries h) k)\<lparr>ws_buffered := typed_at i h first\<rparr>"
  let ?kt = "(redialled ?d ?kl)\<lparr>ws_buffered := typed_at i h first @ typed_at i h later\<rparr>"
  have l: "socket_at ?l i (dropped (wh_retries h) k)" using i by (simp add: step_sockets)
  have a: "typed_at i ?l first = typed_at i h first" by (simp add: typed_at_def)
  have l1: "socket_at (user_sends first ?l) i ?kl" using l a by (simp add: user_sends_socket buf)
  let ?f = "timer_fires i ?d (user_sends first ?l)"
  have f: "socket_at ?f i (redialled ?d ?kl)" using l1 by (simp add: step_sockets)
  have b: "typed_at i ?f later = typed_at i h later" by (simp add: typed_at_def)
  have f1: "socket_at (user_sends later ?f) i ?kt" using f b no by (simp add: user_sends_socket)
  have one: "?d = 1000" if "length (wh_sockets h) = 1"
  proof -
    have "wh_sockets h = [k]" using that i by (auto simp: length_Suc_conv)
    then have "wh_retries h = 0" using inv assms(3) by (auto simp: single_ok_def)
    then show ?thesis by simp
  qed
  have "web_step\<^sup>*\<^sup>* h (user_sends first ?l)"
    using web_step.lost [OF assms(2,3)] user_sends_run by (rule converse_rtranclp_into_rtranclp)
  moreover have "web_step (user_sends first ?l) ?f" using l1 by (rule web_step.timer) simp
  moreover have "web_step\<^sup>*\<^sup>* ?f (user_sends later ?f)" by (rule user_sends_run)
  moreover have "web_step (user_sends later ?f) (link_up i (user_sends later ?f))" using f1 by (rule web_step.up) (simp add: no)
  ultimately have run: "web_step\<^sup>*\<^sup>* h (link_up i (user_sends later ?f))" by (meson rtranclp.rtrancl_into_rtrancl rtranclp_trans)
  have "socket_at (link_up i (user_sends later ?f)) i (started ?kt)" using f1 by (simp add: step_sockets)
  moreover have "ws_sent (started ?kt) = ws_sent k @ typed_at i h (first @ later) @ [EmitAuth (ws_token k) (ws_server k), EmitSubscribeConsole, EmitSubscribeStats]"
    by (simp add: started_def redialled_def dropped_def socket_emit_def socket_up_def socket_connect_def typed_at_def)
  moreover have "ws_timers (wh_sockets ?l ! i) = [?d]" using l no by simp
  ultimately show ?thesis
    unfolding Let_def using run one no
    by (intro exI [of _ ?d] conjI impI) (simp_all add: reconnect_delay_bounds typed_at_def)
qed

text \<open>
  An attempt to connect that fails is the last: nothing sets another timer, so that this
  socket never has a connection again, whatever happens, until the page is loaded anew or
  shows another server.
\<close>

theorem web_client_gives_up:
  assumes "web_step\<^sup>*\<^sup>* initial_hook h" and "socket_at h i k" and "ws_link k = Dialling"
    and "web_step\<^sup>*\<^sup>* (link_refused i h) t"
  shows "ws_link (wh_sockets t ! i) = Idle \<and> ws_timers (wh_sockets t ! i) = []"
proof -
  have ok: "hook_ok h" by (rule web_run.run_keeps [OF assms(1)]) (rule initial_ok)
  have i: "i < length (wh_sockets h)" "wh_sockets h ! i = k" using assms(2) by simp_all
  have "hook_ok (link_refused i h)" using web_step_ok [OF web_step.refused [OF assms(2,3)] ok] .
  moreover have "given_up i (link_refused i h)"
    using hook_okD(1) [OF ok i(1)] assms(3) i by (auto simp: given_up_def step_sockets socket_waits_def)
  ultimately show ?thesis using given_up_run.run_keeps [OF assms(4)] by (simp add: given_up_def)
qed

text \<open>
  Leaving the console of a server for that of another does not end the old connection for
  good: its own \<open>disconnect\<close> sets the timer, and once that fires the old socket is connected
  again, authenticates for the old server, and its lines appear among those of the new one.
\<close>

theorem left_server_returns:
  assumes "web_step\<^sup>*\<^sup>* initial_hook h" and "wh_current h = Some i" and "socket_at h i k" and "ws_link k = Up"
  shows "\<exists>d. let t = link_up i (timer_fires i d (open_socket token uuid (close_socket h)));
                  shown = on_message (console_message line) t
    in web_step\<^sup>*\<^sup>* h t \<and> wh_current t = Some (length (wh_sockets h)) \<and> ws_server (wh_sockets t ! length (wh_sockets h)) = uuid \<and>
       ws_link (wh_sockets t ! i) = Up \<and> EmitAuth (ws_token k) (ws_server k) \<in> set (ws_sent (wh_sockets t ! i)) \<and>
       web_step t shown \<and> wh_consoleLines shown = append_line (JStr line) (wh_consoleLines h)"
proof -
  have ok: "hook_ok h" by (rule web_run.run_keeps [OF assms(1)]) (rule initial_ok)
  have i: "i < length (wh_sockets h)" "wh_sockets h ! i = k" using assms(3) by simp_all
  have no: "ws_timers k = []" using hook_okD(1) [OF ok i(1)] assms(4) i(2) by (simp add: socket_waits_def)
  let ?d = "reconnect_delay (wh_retries h)"
  define o' where "o' = open_socket token uuid (close_socket h)"
  have c: "close_socket h = (link_lost i h)\<lparr>wh_current := None\<rparr>"
    using assms(2,4) i by (simp add: close_socket_def Let_def link_lost_def)
  have o: "wh_sockets o' ! i = dropped (wh_retries h) k" "length (wh_sockets o') = Suc (length (wh_sockets h))"
      "wh_current o' = Some (length (wh_sockets h))" "ws_server (wh_sockets o' ! length (wh_sockets h)) = uuid"
      "wh_consoleLines o' = wh_consoleLines h"
    using i by (simp_all add: o'_def open_socket_def c step_sockets nth_append)
  let ?f = "timer_fires i ?d o'"
  have f: "socket_at ?f i (redialled ?d (dropped (wh_retries h) k))" using i o by (simp add: step_sockets)
  have t: "socket_at (link_up i ?f) i (started (redialled ?d (dropped (wh_retries h) k)))"
    using i o by (simp add: step_sockets)
  have "web_step h o'" unfolding o'_def by (rule web_step.changed)
  moreover have "web_step o' ?f" by (rule web_step.timer [where k = "dropped (wh_retries h) k"]) (use i o in simp_all)
  moreover have "web_step ?f (link_up i ?f)" using f by (rule web_step.up) (simp add: no)
  ultimately have run: "web_step\<^sup>*\<^sup>* h (link_up i ?f)" by (rule three_steps)
  have new: "wh_sockets (link_up i ?f) ! length (wh_sockets h) = wh_sockets o' ! length (wh_sockets h)"
    using i(1) o(2) by (simp add: step_sockets)
  have shown: "web_step (link_up i ?f) (on_message (console_message line) (link_up i ?f))"
    using t by (rule web_step.incoming) simp
  have "EmitAuth (ws_token k) (ws_server k) \<in> set (ws_sent (started (redialled ?d (dropped n k))))" for n
    by (simp add: started_def redialled_def dropped_def socket_emit_def socket_up_def socket_connect_def)
  moreover have "wh_consoleLines (on_message (console_message line) u) = append_line (JStr line) (wh_consoleLines u)" for u
    by (simp add: on_message_def on_console_output_def console_message_def)
  ultimately show ?thesis
    unfolding Let_def o'_def [symmetric] using run shown t o new
    by (intro exI [of _ ?d] conjI) simp_all
qed

section \<open>The terminal\<close>

lemma append_last_n: "append_line x (last_n MAX_LINES ys) = last_n MAX_LINES (ys @ [x])"
proof -
  consider "length ys < MAX_LINES" | "MAX_LINES = length ys" | "MAX_LINES < length ys" by linarith
  then show ?thesis by cases (simp_all add: append_line_def last_n_def Let_def Suc_diff_le)
qed

lemma receive_line:
  "wh_consoleLines (fst (receive_line x p)) = append_line (JStr x) (wh_consoleLines (fst p))"
  "snd (receive_line x p) = write_lines (append_line (JStr x) (wh_consoleLines (fst p))) (snd p)"
  by (simp_all add: receive_line_def Let_def on_message_def on_console_output_def console_message_def)

lemma write_next:
  assumes "tm_written term = min MAX_LINES (length ys)" and "tm_output term = take MAX_LINES ys"
  shows "tm_written (write_lines (last_n MAX_LINES (ys @ [y])) term) = min MAX_LINES (Suc (length ys))"
    and "tm_output (write_lines (last_n MAX_LINES (ys @ [y])) term) = take MAX_LINES (ys @ [y])"
  using assms by (cases "length ys < MAX_LINES"; simp add: write_lines_def last_n_def Let_def)+

lemma terminal_run:
  defines "p xs \<equiv> fold receive_line xs (initial_hook, initial_terminal)"
  shows "wh_consoleLines (fst (p xs)) = last_n MAX_LINES (map JStr xs) \<and>
    tm_written (snd (p xs)) = min MAX_LINES (length xs) \<and> tm_output (snd (p xs)) = take MAX_LINES (map JStr xs)"
proof (induction xs rule: rev_induct)
  case Nil
  show ?case by (simp add: p_def initial_hook_def initial_terminal_def last_n_def)
next
  case (snoc x xs)
  have "p (xs @ [x]) = receive_line x (p xs)" by (simp add: p_def)
  then show ?case
    using snoc write_next [of "snd (p xs)" "map JStr xs" "JStr x"] by (simp add: receive_line append_last_n)
qed

text \<open>
  The terminal and the hook together: of the lines that arrive, the hook keeps the last 2000,
  but the terminal writes the first 2000 and then nothing any more, because it takes what lies
  beyond the number of lines it has written.
\<close>

theorem terminal_stops:
  "wh_consoleLines (fst (fold receive_line xs (initial_hook, initial_terminal))) = last_n 2000 (map JStr xs) \<and>
   tm_output (snd (fold receive_line xs (initial_hook, initial_terminal))) = take 2000 (map JStr xs)"
  using terminal_run [of xs] by (simp add: MAX_LINES_def)

end
