(* ===== verification/WebConsole.thy ===== *)
theory WebConsole
  imports WebClientProps
begin

text \<open>
  Hook and gateway joined: what the gateway puts on the \<open>message\<close> channel, what a daemon
  answers by \<^verbatim>\<open>shared/proto/wings.proto\<close> (loaded with \<open>enums: String\<close> and
  \<open>defaults: true\<close>), and what the page then shows.
\<close>

section \<open>Messages on the wire\<close>

fun wire :: "ServerMessage \<Rightarrow> json" where
  "wire AuthSuccess = JObj [(''type'', JStr ''auth_success'')]"
| "wire (ErrorMessage m) = JObj [(''type'', JStr ''error''), (''message'', JStr m)]"
| "wire (ConsoleLine line) = JObj [(''type'', JStr ''console_output''), (''line'', line)]"
| "wire (StatsUpdate stats) = JObj [(''type'', JStr ''stats_update''), (''stats'', stats)]"
| "wire (PowerState state) = JObj [(''type'', JStr ''power_state''), (''state'', state)]"

fun deliver :: "ext \<Rightarrow> wings \<Rightarrow> nat \<Rightarrow> string \<Rightarrow> ClientMessage \<Rightarrow> 'z gateway_panel_scheme \<Rightarrow> 'z gateway_panel_scheme" where
  "deliver X W now i (EmitAuth token uuid) s = handleAuth X now i token uuid s"
| "deliver X W now i EmitSubscribeConsole s = handleSubscribeConsole i s"
| "deliver X W now i EmitSubscribeStats s = handleSubscribeStats i s"
| "deliver X W now i (EmitCommand command) s = handleSendCommand W i command s"
| "deliver X W now i (EmitPowerAction action) s = handleSendPowerAction W i action s"

section \<open>What a daemon answers\<close>

datatype DaemonState = STATE_OFFLINE | STATE_STARTING | STATE_RUNNING | STATE_STOPPING | STATE_UNKNOWN

fun DaemonState_name :: "DaemonState \<Rightarrow> string" where
  "DaemonState_name STATE_OFFLINE = ''STATE_OFFLINE''"
| "DaemonState_name STATE_STARTING = ''STATE_STARTING''"
| "DaemonState_name STATE_RUNNING = ''STATE_RUNNING''"
| "DaemonState_name STATE_STOPPING = ''STATE_STOPPING''"
| "DaemonState_name STATE_UNKNOWN = ''STATE_UNKNOWN''"

text \<open>\<open>cpu_percent\<close> is a double, which the gateway only passes on; it is rounded here.\<close>

record ResourceStats =
  rs_uuid :: string
  rs_cpuPercent :: int
  rs_memoryBytes :: int
  rs_memoryLimit :: int
  rs_networkRxBytes :: int
  rs_networkTxBytes :: int
  rs_diskBytes :: int
  rs_timestampMs :: int

definition resources_json :: "ResourceStats \<Rightarrow> json" where
  "resources_json r =
     JObj [(''uuid'', JStr (rs_uuid r)), (''cpuPercent'', JNum (rs_cpuPercent r)), (''memoryBytes'', JNum (rs_memoryBytes r)),
           (''memoryLimit'', JNum (rs_memoryLimit r)), (''networkRxBytes'', JNum (rs_networkRxBytes r)),
           (''networkTxBytes'', JNum (rs_networkTxBytes r)), (''diskBytes'', JNum (rs_diskBytes r)),
           (''timestampMs'', JNum (rs_timestampMs r))]"

definition status_response :: "string \<Rightarrow> DaemonState \<Rightarrow> ResourceStats option \<Rightarrow> json" where
  "status_response uuid state resources =
     JObj [(''uuid'', JStr uuid), (''state'', JStr (DaemonState_name state)),
           (''resources'', case resources of None \<Rightarrow> JNull | Some r \<Rightarrow> resources_json r)]"

text \<open>A daemon fails a status call or answers it with the message of the proto file.\<close>

definition answers_proto :: "wings \<Rightarrow> bool" where
  "answers_proto W \<longleftrightarrow>
     (\<forall>calls client meta uuid. case W calls (Grpc client meta (GetServerStatus uuid)) of
        CallFailed m \<Rightarrow> True
      | GrpcReply r \<Rightarrow> (\<exists>u state resources. r = status_response u state resources)
      | HttpReply status ct text \<Rightarrow> False)"

section \<open>Everything a socket is sent\<close>

definition sent_ok :: "(ServerMessage \<Rightarrow> bool) \<Rightarrow> 'z gateway_panel_scheme \<Rightarrow> bool" where
  "sent_ok P s \<longleftrightarrow> (\<forall>(i, c) \<in> set (gw_sockets s). \<forall>m \<in> set (sk_sent c). P m)"

lemma sent_ok_cong: "gw_sockets t = gw_sockets s \<Longrightarrow> sent_ok P t = sent_ok P s"
  by (simp add: sent_ok_def)

lemma sent_ok_subscriptions [simp]:
  "sent_ok P (s\<lparr>gw_subscriptions := subs\<rparr>) = sent_ok P s" "sent_ok P (set_subscriptions i f s) = sent_ok P s"
  by (simp_all add: sent_ok_def)

lemma sent_ok_map:
  "sent_ok P s \<Longrightarrow> (\<And>j c m. m \<in> set (sk_sent (f j c)) \<Longrightarrow> m \<in> set (sk_sent c) \<or> P m) \<Longrightarrow>
   sent_ok P (s\<lparr>gw_sockets := map (\<lambda>(j, c). (j, f j c)) (gw_sockets s)\<rparr>)"
  by (fastforce simp: sent_ok_def)

lemma sent_ok_client:
  "sent_ok P s \<Longrightarrow> (\<And>c m. m \<in> set (sk_sent (f c)) \<Longrightarrow> m \<in> set (sk_sent c) \<or> P m) \<Longrightarrow> sent_ok P (update_client i f s)"
  unfolding update_client_def by (rule sent_ok_map [where f = "\<lambda>j c. if j = i then f c else c"]) (auto split: if_splits)

lemma sent_ok_room: "sent_ok P s \<Longrightarrow> P m \<Longrightarrow> sent_ok P (emit_room room m s)"
  unfolding emit_room_def
  by (rule sent_ok_map [where f = "\<lambda>j c. if room \<in> set (sk_rooms c) then emit_client m c else c"]) (auto simp: emit_client_def split: if_splits)

lemma sent_ok_lines: "sent_ok P s \<Longrightarrow> (\<forall>l \<in> set ls. P (ConsoleLine l)) \<Longrightarrow> sent_ok P (fold (emitConsoleOutput uuid) ls s)"
  by (induction ls arbitrary: s) (simp_all add: emitConsoleOutput_def sent_ok_room)

locale message_law =
  fixes W :: wings and P :: "ServerMessage \<Rightarrow> bool"
  assumes plain: "P AuthSuccess" "P (ErrorMessage e)" "P (ConsoleLine (JStr (''> '' @ command)))" "P (PowerState (JStr (PowerAction_value action)))"
    and status: "W calls (Grpc client meta (GetServerStatus uuid)) = GrpcReply r \<Longrightarrow>
      P (StatsUpdate r) \<and> (\<forall>state. json_field ''state'' r = Some state \<longrightarrow> P (PowerState state)) \<and>
      (\<forall>out. json_field ''output'' r = Some out \<longrightarrow> json_truthy out \<longrightarrow> (\<forall>line \<in> set (output_lines out). P (ConsoleLine line)))"
    and other: "W calls (Grpc client meta (GetServerStatus uuid)) = HttpReply status_code ct text \<Longrightarrow> P (StatsUpdate JNull)"
begin

lemma polled:
  assumes "call_server uuid (\<lambda>node _. WingsService_getServerStatus W node uuid) s = (Inr r, s1)"
  obtains calls client meta where "W calls (Grpc client meta (GetServerStatus uuid)) = GrpcReply r"
  | calls client meta st ct body where "W calls (Grpc client meta (GetServerStatus uuid)) = HttpReply st ct body" "r = JNull"
  using assms
  by (auto simp: call_server_def on_node_def WingsService_getServerStatus_def node_grpc_def callGrpc_def send_call_def Let_def
      split: sum.splits option.splits prod.splits wings_reply.splits)

lemma poll_sent:
  assumes "sent_ok P s" shows "sent_ok P (poll_stats_one W uuid s)" and "sent_ok P (poll_console_one W uuid s)"
proof -
  obtain a s1 where c: "call_server uuid (\<lambda>node _. WingsService_getServerStatus W node uuid) s = (a, s1)" by force
  have s1: "sent_ok P s1" using assms call_server_gateway(1) [OF status_state c] sent_ok_cong by blast
  have ok: "P (StatsUpdate r) \<and> (\<forall>state. json_field ''state'' r = Some state \<longrightarrow> P (PowerState state)) \<and>
      (\<forall>out. json_field ''output'' r = Some out \<longrightarrow> json_truthy out \<longrightarrow> (\<forall>line \<in> set (output_lines out). P (ConsoleLine line)))"
    if "a = Inr r" for r
    by (rule polled [OF c [unfolded that]]) (auto dest: status other)
  show "sent_ok P (poll_stats_one W uuid s)"
    using s1 ok by (auto simp: poll_stats_one_def c Let_def emitStatsUpdate_def emitPowerState_def sent_ok_room split: sum.split option.split)
  show "sent_ok P (poll_console_one W uuid s)"
    using s1 ok by (auto simp: poll_console_one_def c intro!: sent_ok_lines split: sum.split option.split)
qed

lemma poll_all: "sent_ok P s \<Longrightarrow> sent_ok P (fold (poll_stats_one W) us s)" "sent_ok P s \<Longrightarrow> sent_ok P (fold (poll_console_one W) us s)"
  by (induction us arbitrary: s) (simp_all add: poll_sent)

lemma disconnect_sent: "sent_ok P s \<Longrightarrow> sent_ok P (gateway_disconnect i s)"
proof -
  assume ok: "sent_ok P s"
  then have leave: "sent_ok P (update_client i (leave_room r) (s\<lparr>gw_subscriptions := subs\<rparr>))" for r subs
    by (intro sent_ok_client) (simp_all add: leave_room_def)
  have "sent_ok P (handleDisconnect i s)"
    using ok leave by (simp add: handleDisconnect_def on_client_def Let_def split: option.split)
  then show ?thesis by (auto simp: gateway_disconnect_def Let_def sent_ok_def)
qed

lemma emit_sent: "sent_ok P s \<Longrightarrow> P m \<Longrightarrow> sent_ok P (update_client i (emit_client m) s)"
  by (rule sent_ok_client) (auto simp: emit_client_def)

lemma connect_sent:
  assumes "sent_ok P s" shows "sent_ok P (gateway_connect X now i cookie server s)"
proof -
  let ?s = "s\<lparr>gw_sockets := gw_sockets s @
      [(i, \<lparr>sk_cookie = cookie, sk_queryServer = server, sk_userId = None, sk_serverUuid = None, sk_rooms = [], sk_sent = []\<rparr>)]\<rparr>"
  have user: "sent_ok P (update_client i (sk_userId_update (\<lambda>_. u)) (?s\<lparr>gw_subscriptions := subs\<rparr>))" for u subs
    by (rule sent_ok_client) (use assms in \<open>auto simp: sent_ok_def\<close>)
  have "sent_ok P (update_client i (join_room r \<circ> sk_serverUuid_update (\<lambda>_. v))
      (update_client i (sk_userId_update (\<lambda>_. u)) (?s\<lparr>gw_subscriptions := subs\<rparr>)))" for r v u subs
    by (rule sent_ok_client [OF user]) (simp add: join_room_def)
  moreover have "sent_ok P ?s" using assms by (auto simp: sent_ok_def)
  ultimately show ?thesis
    using user by (simp add: gateway_connect_def handleConnection_def Let_def on_client_def emit_sent plain split: option.split)
qed

lemma auth_sent:
  assumes "sent_ok P s" shows "sent_ok P (handleAuth X now i token uuid s)"
proof (cases "jwtVerify X now token")
  case None
  then show ?thesis using assms by (simp add: handleAuth_def disconnect_sent emit_sent plain)
next
  case (Some payload)
  then show ?thesis
    unfolding handleAuth_def
    by (simp, intro sent_ok_client [OF assms]) (auto simp: emit_client_def join_room_def plain)
qed

lemma subscribe_sent:
  "sent_ok P s \<Longrightarrow> sent_ok P (handleSubscribeConsole i s)" "sent_ok P s \<Longrightarrow> sent_ok P (handleSubscribeStats i s)"
  by (simp_all add: handleSubscribeConsole_def handleSubscribeStats_def on_client_def split: option.split)

lemma echo: "P (ConsoleLine (JStr (CHR ''>'' # CHR '' '' # command)))"
  using plain(3) [of command] by simp

lemma send_sent:
  assumes "sent_ok P s"
  shows "sent_ok P (handleSendCommand W i command s)" "sent_ok P (handleSendPowerAction W i action s)"
proof -
  have s1: "sent_ok P s1" if "gw_sockets s1 = gw_sockets s" for s1 using assms sent_ok_cong that by blast
  show "sent_ok P (handleSendCommand W i command s)"
    using assms s1 [OF call_server_gateway(1) [OF command_state]]
    by (auto simp: handleSendCommand_def on_client_def emit_sent plain echo split: option.split sum.split prod.split)
  show "sent_ok P (handleSendPowerAction W i action s)"
    using assms s1 [OF call_server_gateway(1) [OF power_state]]
    by (auto simp: handleSendPowerAction_def on_client_def emit_sent plain split: option.split sum.split prod.split)
qed

lemma step_sent: "gateway_step X W s t \<Longrightarrow> sent_ok P s \<Longrightarrow> sent_ok P t"
  by (erule gateway_stepE)
    (simp_all add: connect_sent disconnect_sent auth_sent subscribe_sent send_sent pollStats_def pollConsole_def poll_all
      cong: sent_ok_cong)

lemma run_sent: "(gateway_step X W)\<^sup>*\<^sup>* s t \<Longrightarrow> sent_ok P s \<Longrightarrow> sent_ok P t"
  by (induction rule: rtranclp_induct) (auto intro: step_sent)

end

section \<open>What the page shows\<close>

lemma daemon_state_offline: "mapGrpcState (JStr (DaemonState_name state)) = WebOffline"
  by (cases state) (simp; code_simp)+

lemma power_action_offline: "mapGrpcState (JStr (PowerAction_value action)) = WebOffline"
  by (cases action) (simp; code_simp)+

text \<open>A message that leaves a page without news: no state but offline, no line but an echo of a
  command, statistics without uptime and disk limit.\<close>

definition echo_line :: "json \<Rightarrow> bool" where
  "echo_line line \<longleftrightarrow> (\<exists>command. line = JStr (''> '' @ command))"

definition page_blind :: "WebHook \<Rightarrow> bool" where
  "page_blind h \<longleftrightarrow>
     wh_powerState h = WebOffline \<and> (\<forall>line \<in> set (wh_consoleLines h). echo_line line) \<and>
     (case wh_stats h of None \<Rightarrow> True | Some x \<Rightarrow> ss_uptime x = JNum 0 \<and> ss_diskLimitBytes x = JNum 0)"

definition blind :: "ServerMessage \<Rightarrow> bool" where
  "blind m \<longleftrightarrow> (\<forall>h. page_blind h \<longrightarrow> page_blind (on_message (wire m) h))"

lemma append_line_mem: "y \<in> set (append_line x xs) \<Longrightarrow> y = x \<or> y \<in> set xs"
  by (auto simp: append_line_def last_n_def Let_def dest: in_set_dropD split: if_splits)

lemma blind_plain:
  "blind AuthSuccess" "blind (ErrorMessage e)" "echo_line line \<Longrightarrow> blind (ConsoleLine line)"
  "mapGrpcState state = WebOffline \<Longrightarrow> blind (PowerState state)"
proof -
  show "blind (ConsoleLine line)" if e: "echo_line line"
  proof -
    obtain t where t: "line = JStr t" using e by (auto simp: echo_line_def)
    have "on_message (wire (ConsoleLine line)) h = h\<lparr>wh_consoleLines := append_line line (wh_consoleLines h)\<rparr>" for h
      by (simp add: on_message_def on_console_output_def t)
    then show ?thesis using e by (auto simp: blind_def page_blind_def dest!: append_line_mem)
  qed
qed (simp_all add: blind_def on_message_def on_power_state_def page_blind_def)

lemma blind_status: "blind (StatsUpdate (status_response uuid state resources))"
proof -
  have "ss_uptime (shown_stats (status_response uuid state resources)) = JNum 0"
    "ss_diskLimitBytes (shown_stats (status_response uuid state resources)) = JNum 0"
    by (cases resources; simp add: shown_stats_def status_response_def resources_json_def field_or_def Let_def)+
  moreover have "json_truthy (status_response uuid state resources)"
    "json_field ''state'' (status_response uuid state resources) = Some (JStr (DaemonState_name state))"
    by (simp_all add: status_response_def)
  ultimately show ?thesis
    by (simp add: blind_def on_message_def on_stats_update_def on_stats_def Let_def page_blind_def daemon_state_offline)
qed

lemma status_no_output: "json_field ''output'' (status_response uuid state resources) = None"
  by (simp add: status_response_def)

lemma daemon_reply:
  assumes "answers_proto W" and "W calls (Grpc client meta (GetServerStatus uuid)) = GrpcReply r"
  obtains u state resources where "r = status_response u state resources"
  using assms(1) [unfolded answers_proto_def, rule_format, of calls client meta uuid] assms(2) by auto

interpretation shown: message_law W "\<lambda>m. answers_proto W \<longrightarrow> blind m" for W
proof (unfold_locales, goal_cases)
  case (3 command) then show ?case by (simp add: blind_plain(3) echo_line_def)
next
  case (5 calls client meta uuid r)
  have "blind (StatsUpdate r) \<and> (\<forall>state. json_field ''state'' r = Some state \<longrightarrow> blind (PowerState state)) \<and> json_field ''output'' r = None"
    if p: "answers_proto W"
  proof -
    obtain u state resources where r: "r = status_response u state resources" by (rule daemon_reply [OF p 5])
    have "json_field ''state'' r = Some (JStr (DaemonState_name state))" by (simp add: r status_response_def)
    then show ?thesis using blind_status blind_plain(4) daemon_state_offline status_no_output by (auto simp: r)
  qed
  then show ?case by auto
next
  case (6 calls client meta uuid status_code ct body)
  then show ?case using answers_proto_def [of W] by (metis (no_types, lifting) wings_reply.simps(12))
qed (simp_all add: blind_plain power_action_offline)

lemma page_stays_blind:
  assumes "(gateway_step X W)\<^sup>*\<^sup>* s t" and "gw_sockets s = []" and "answers_proto W"
    and "(i, c) \<in> set (gw_sockets t)" and "set messages \<subseteq> set (sk_sent c)"
  shows "page_blind (fold (\<lambda>m. on_message (wire m)) messages initial_hook)"
proof -
  have "sent_ok (\<lambda>m. answers_proto W \<longrightarrow> blind m) s" using assms(2) by (simp add: sent_ok_def)
  then have "sent_ok (\<lambda>m. answers_proto W \<longrightarrow> blind m) t" by (rule shown.run_sent [OF assms(1)])
  then have "\<forall>m \<in> set (sk_sent c). blind m" using assms(3,4) unfolding sent_ok_def by blast
  then have "\<forall>m \<in> set messages. blind m" using assms(5) by blast
  moreover have "page_blind h0 \<Longrightarrow> \<forall>m \<in> set ms. blind m \<Longrightarrow> page_blind (fold (\<lambda>m. on_message (wire m)) ms h0)" for ms h0
    by (induction ms arbitrary: h0) (simp_all add: blind_def)
  moreover have "page_blind initial_hook" by (simp add: page_blind_def initial_hook_def)
  ultimately show ?thesis by blast
qed

text \<open>
  C29. With daemons that answer their status calls as the proto file says, whatever browsers,
  timers and the rest of the panel do: a page that receives messages the gateway sent shows the
  server as offline, all buttons but Start are disabled, its console has no line but echoes of
  its own commands, and uptime and disk limit are zero.  (The state arrives by the name of the
  proto enum, which \<open>mapGrpcState\<close> does not know, and the message has no \<open>output\<close>, which is
  where the console poll looks for the lines.)
\<close>

theorem web_console_blind:
  assumes "(gateway_step X W)\<^sup>*\<^sup>* s t" and "gw_sockets s = []" and "answers_proto W"
    and "(i, c) \<in> set (gw_sockets t)" and "set messages \<subseteq> set (sk_sent c)"
  defines "h \<equiv> fold (\<lambda>m. on_message (wire m)) messages initial_hook"
  shows "wh_powerState h = WebOffline \<and> (\<forall>action. button_enabled action (wh_powerState h) \<longleftrightarrow> action = START) \<and>
    (\<forall>line \<in> set (wh_consoleLines h). \<exists>command. line = JStr (''> '' @ command)) \<and>
    (\<forall>x. wh_stats h = Some x \<longrightarrow> ss_uptime x = JNum 0 \<and> ss_diskLimitBytes x = JNum 0)"
proof -
  have "page_blind h" unfolding h_def by (rule page_stays_blind [OF assms(1-5)])
  then show ?thesis
    by (auto simp: page_blind_def echo_line_def button_enabled_def split: PowerAction.split option.splits)
qed

section \<open>Authentication\<close>

lemma disconnected:
  "map_of (gw_sockets (gateway_disconnect i s)) i = None" "gw_subscriptions (gateway_disconnect i s) i = None"
  "j \<noteq> i \<Longrightarrow> map_of (gw_sockets (gateway_disconnect i s)) j = map_of (gw_sockets s) j"
  "wings_panel.truncate (gateway_disconnect i s) = wings_panel.truncate s"
proof -
  have f: "map_of (filter (\<lambda>(j, c). j \<noteq> i) xs) k = (if k = i then None else map_of xs k)" for xs :: "(string \<times> GatewaySocket) list" and k
    by (induction xs) auto
  show "map_of (gw_sockets (gateway_disconnect i s)) i = None" by (simp add: gateway_disconnect_def Let_def f)
  show "gw_subscriptions (gateway_disconnect i s) i = None"
    by (simp add: gateway_disconnect_def handleDisconnect_def on_client_def Let_def split: option.split)
  show "map_of (gw_sockets (gateway_disconnect i s)) j = map_of (gw_sockets s) j" if "j \<noteq> i"
    using that by (simp add: gateway_disconnect_def handleDisconnect_def on_client_def Let_def f split: option.split)
  show "wings_panel.truncate (gateway_disconnect i s) = wings_panel.truncate s"
    by (simp add: gateway_disconnect_def handleDisconnect_def on_client_def Let_def wings_panel.truncate_def update_client_def
        split: option.split)
qed

lemma truncate_gateway [simp]:
  "wings_panel.truncate (update_client i f s) = wings_panel.truncate s"
  "wings_panel.truncate (set_subscriptions i g s) = wings_panel.truncate s"
  "wings_panel.truncate (s\<lparr>gw_sockets := ks\<rparr>) = wings_panel.truncate s"
  "wings_panel.truncate (s\<lparr>gw_subscriptions := subs\<rparr>) = wings_panel.truncate s"
  by (simp_all add: wings_panel.truncate_def update_client_def set_subscriptions_def)

lemma connect_frame:
  "wings_panel.truncate (gateway_connect X now i cookie server s) = wings_panel.truncate s"
  "j \<noteq> i \<Longrightarrow> map_of (gw_sockets (gateway_connect X now i cookie server s)) j = map_of (gw_sockets s) j"
  by (simp_all add: gateway_connect_def handleConnection_def on_client_def Let_def map_add_def split: option.split)

lemma no_client: "map_of (gw_sockets s) i = None \<Longrightarrow> handleSubscribeConsole i s = s \<and> handleSubscribeStats i s = s"
  by (simp add: handleSubscribeConsole_def handleSubscribeStats_def on_client_def)

text \<open>
  A page without a stored access token (no part of the frontend stores one) never stays
  connected: whatever session cookie its connection carries, and although the gateway accepts
  it by that cookie, the empty token that the hook sends next is refused and the gateway drops
  the socket; the page is disconnected and about to try the same again.
\<close>

theorem web_client_thrown_out:
  fixes s :: "'z gateway_panel_scheme" and W :: wings and c :: string and cookie :: "string option"
  assumes "socket_at h i k" and "ws_link k = Dialling" and "ws_token k = str_or None []" and "ws_buffered k = []"
    and "jwtVerify X now [] = None"
  defines "sent \<equiv> drop (length (ws_sent k)) (ws_sent (wh_sockets (link_up i h) ! i))"
  defines "t \<equiv> fold (deliver X W now c) sent (gateway_connect X now c cookie (Some (ws_server k)) s)"
  shows "map_of (gw_sockets t) c = None \<and> gw_subscriptions t c = None \<and> wings_panel.truncate t = wings_panel.truncate s \<and>
    (\<forall>j. j \<noteq> c \<longrightarrow> map_of (gw_sockets t) j = map_of (gw_sockets s) j) \<and>
    wh_connectionStatus (link_lost i (link_up i h)) = Disconnected \<and>
    ws_timers (wh_sockets (link_lost i (link_up i h)) ! i) = ws_timers k @ [1000]"
proof -
  have i: "i < length (wh_sockets h)" "wh_sockets h ! i = k" using assms(1) by simp_all
  have "ws_sent (wh_sockets (link_up i h) ! i) = ws_sent k @ [EmitAuth [] (ws_server k), EmitSubscribeConsole, EmitSubscribeStats]"
    using i assms(3,4) by (simp add: step_sockets started_def socket_emit_def socket_up_def)
  then have sent: "sent = [EmitAuth [] (ws_server k), EmitSubscribeConsole, EmitSubscribeStats]"
    by (simp add: sent_def)
  let ?g = "update_client c (emit_client (ErrorMessage ''Authentication failed'')) (gateway_connect X now c cookie (Some (ws_server k)) s)"
  have "map_of (gw_sockets (gateway_disconnect c ?g)) c = None" by (rule disconnected)
  then have "t = gateway_disconnect c ?g"
    by (simp add: t_def sent handleAuth_def assms(5) no_client)
  moreover have "wings_panel.truncate ?g = wings_panel.truncate s"
    by (simp add: connect_frame)
  ultimately show ?thesis
    using i by (simp add: disconnected connect_frame step_sockets)
qed

section \<open>Concrete runs\<close>

definition demo_dialling :: WebHook where
  "demo_dialling = open_socket None ''uuid-1'' (close_socket initial_hook)"

definition demo_page :: WebHook where
  "demo_page = link_up 0 demo_dialling"

lemma demo_dialling_socket: "socket_at demo_dialling 0 (wh_sockets demo_dialling ! 0)" "ws_link (wh_sockets demo_dialling ! 0) = Dialling"
  "ws_token (wh_sockets demo_dialling ! 0) = str_or None []" "ws_buffered (wh_sockets demo_dialling ! 0) = []"
  "wh_current demo_dialling = Some 0" "length (wh_sockets demo_dialling) = 1"
  by (simp_all add: demo_dialling_def open_socket_def close_socket_def initial_hook_def)

lemma demo_dialling_run: "web_step\<^sup>*\<^sup>* initial_hook demo_dialling"
  unfolding demo_dialling_def by (rule r_into_rtranclp, rule web_step.changed)

lemma demo_page_run: "web_step\<^sup>*\<^sup>* initial_hook demo_page"
  unfolding demo_page_def
  by (rule rtranclp.rtrancl_into_rtrancl [OF demo_dialling_run web_step.up [OF demo_dialling_socket(1,2)]])

lemma demo_page_socket: "socket_at demo_page 0 (wh_sockets demo_page ! 0)" "ws_link (wh_sockets demo_page ! 0) = Up"
  "wh_current demo_page = Some 0" "length (wh_sockets demo_page) = 1" "wh_connectionStatus demo_page = Connected"
  using demo_dialling_socket by (simp_all add: demo_page_def step_sockets)

theorem web_client_bounds_witness:
  "length (wh_consoleLines demo_page) \<le> 2000 \<and> (\<exists>k \<in> set (wh_sockets demo_page). ws_link k = Up)"
  using web_client_bounds [OF demo_page_run] demo_page_socket(5) by simp

theorem web_client_reconnects_witness:
  "ws_timers (wh_sockets (link_lost 0 demo_page) ! 0) = [1000] \<and>
   (\<exists>t. t = link_up 0 (timer_fires 0 1000 (user_sends [Inl ''say hello''] (link_lost 0 demo_page))) \<and>
      wh_connectionStatus t = Connected \<and> EmitCommand ''say hello'' \<in> set (ws_sent (wh_sockets t ! 0)))"
  using web_client_reconnects [OF demo_page_run demo_page_socket(1,2), of "[]" "[Inl ''say hello'']"] demo_page_socket(3,4)
  by (auto simp: Let_def user_message_def user_sends_def)

theorem web_client_gives_up_witness:
  "ws_link (wh_sockets (sendCommand ''say hello'' (link_refused 0 demo_dialling)) ! 0) = Idle"
  using web_client_gives_up [OF demo_dialling_run demo_dialling_socket(1,2) r_into_rtranclp [of web_step, OF web_step.command]] by blast

theorem left_server_returns_witness:
  "\<exists>t. web_step\<^sup>*\<^sup>* demo_page t \<and> ws_server (wh_sockets t ! 1) = ''uuid-2'' \<and> wh_current t = Some 1 \<and> ws_link (wh_sockets t ! 0) = Up \<and>
     JStr ''from uuid-1'' \<in> set (wh_consoleLines (on_message (console_message ''from uuid-1'') t))"
proof -
  have "JStr line \<in> set (append_line (JStr line) xs)" for line xs
    by (auto simp: append_line_def last_n_def Let_def MAX_LINES_def)
  then show ?thesis
    using left_server_returns [OF demo_page_run demo_page_socket(3,1,2), of None "''uuid-2''" "''from uuid-1''"]
    unfolding Let_def demo_page_socket(4) by metis
qed

theorem web_client_thrown_out_witness:
  "map_of (gw_sockets (fold (deliver demo_ext wings_down 0 ''k'')
     (drop (length (ws_sent (wh_sockets demo_dialling ! 0))) (ws_sent (wh_sockets (link_up 0 demo_dialling) ! 0)))
     (gateway_connect demo_ext 0 ''k'' (Some (''nexus_session='' @ eve_token)) (Some (ws_server (wh_sockets demo_dialling ! 0))) no_sockets))) ''k'' = None"
proof -
  have "jwtVerify demo_ext 0 [] = None" by code_simp
  from web_client_thrown_out [OF demo_dialling_socket(1-4) this] show ?thesis by blast
qed

text \<open>A daemon that reports every server as running, with the resources given.\<close>

definition wings_running :: "ResourceStats option \<Rightarrow> wings" where
  "wings_running resources calls call = (case call of
     Grpc _ _ (GetServerStatus uuid) \<Rightarrow> GrpcReply (status_response ''uuid-1'' STATE_RUNNING resources)
   | _ \<Rightarrow> CallFailed ''refused'')"

lemma wings_running_proto: "answers_proto (wings_running resources)"
  by (auto simp: answers_proto_def wings_running_def)

lemma emit_room_client:
  "map_of (gw_sockets (emit_room room m s)) i =
     map_option (\<lambda>c. if room \<in> set (sk_rooms c) then emit_client m c else c) (map_of (gw_sockets s) i)"
  by (simp add: emit_room_def map_of_map_entries)

lemma poll_stats_sent:
  assumes "node_of s uuid = Some node" and "\<And>calls client meta u. W calls (Grpc client meta (GetServerStatus u)) = GrpcReply r"
    and "json_field ''state'' r = Some state" and "map_of (gw_sockets s) i = Some c" "server_room uuid \<in> set (sk_rooms c)"
  shows "map_of (gw_sockets (poll_stats_one W uuid s)) i = Some (emit_client (PowerState state) (emit_client (StatsUpdate r) c))"
proof -
  obtain a s1 where c: "call_server uuid (\<lambda>node _. WingsService_getServerStatus W node uuid) s = (a, s1)" by force
  have s1: "gw_sockets s1 = gw_sockets s" using call_server_gateway(1) [OF status_state c] .
  have "a = Inr r"
    using c assms(1,2)
    by (auto simp: node_of_def call_server_def ServersService_findByUuid_def on_node_def load_server_def
        WingsService_getServerStatus_def node_grpc_def callGrpc_def send_call_def Let_def split: option.splits prod.splits)
  then show ?thesis
    using assms(3-5)
    by (simp add: poll_stats_one_def c Let_def emitStatsUpdate_def emitPowerState_def emit_room_client s1 emit_client_def)
qed

text \<open>A socket that has authenticated and asked for statistics, and its next poll.\<close>

definition demo_watching :: gateway_panel where
  "demo_watching = handleSubscribeStats ''k'' (handleAuth demo_ext 0 ''k'' eve_token ''uuid-1''
     (gateway_connect demo_ext 0 ''k'' None None no_sockets))"

definition watching_socket :: GatewaySocket where
  "watching_socket = emit_client AuthSuccess (join_room (server_room ''uuid-1'')
     (fresh_socket\<lparr>sk_userId := Some ''u3'', sk_serverUuid := Some ''uuid-1''\<rparr>))"

lemma demo_watching_run: "(gateway_step demo_ext W)\<^sup>*\<^sup>* no_sockets demo_watching"
  unfolding demo_watching_def
  by (rule three_steps [of "gateway_step demo_ext W"], rule connect, simp add: no_sockets_def, rule auth, rule subscribe_stats)

lemma demo_watching_sockets:
  "gw_sockets demo_watching = [(''k'', watching_socket)]"
  "getSubscribedServerUuids sub_stats demo_watching = [''uuid-1'']"
proof -
  let ?s1 = "gateway_connect demo_ext 0 ''k'' None None no_sockets"
  let ?s2 = "handleAuth demo_ext 0 ''k'' eve_token ''uuid-1'' ?s1"
  have e: "gw_sockets no_sockets = []" by (simp add: no_sockets_def)
  have s1: "gw_sockets ?s1 = [(''k'', fresh_socket)]" "gw_subscriptions ?s1 ''k'' = Some \<lparr>sub_console = False, sub_stats = False\<rparr>"
    by (simp_all add: gateway_connect_def handleConnection_def Let_def on_client_def e fresh_socket_def)
  have "jwt_sub (access_claims 0 eve) = ''u3''" by (simp add: access_claims_def eve_def demo_user_def)
  then have s2: "gw_sockets ?s2 = [(''k'', watching_socket)]" "gw_subscriptions ?s2 = gw_subscriptions ?s1"
    using s1 eve_token_verified by (simp_all add: handleAuth_def update_client_def watching_socket_def)
  have u: "sk_userId watching_socket = Some ''u3''" "sk_serverUuid watching_socket = Some ''uuid-1''"
    by (simp_all add: watching_socket_def emit_client_def join_room_def)
  show w: "gw_sockets demo_watching = [(''k'', watching_socket)]"
    using s2 by (simp add: demo_watching_def handleSubscribeStats_def on_client_def u)
  have "gw_subscriptions demo_watching ''k'' = Some \<lparr>sub_console = False, sub_stats = True\<rparr>"
    using s1 s2 by (simp add: demo_watching_def handleSubscribeStats_def on_client_def set_subscriptions_def u)
  then show "getSubscribedServerUuids sub_stats demo_watching = [''uuid-1'']"
    by (simp add: getSubscribedServerUuids_def js_Set_def w u)
qed

lemma demo_watching_node: "node_of demo_watching ''uuid-1'' = Some demo_node"
proof -
  have "wings_panel.truncate demo_watching = wings_panel.truncate no_sockets"
    by (simp add: demo_watching_def handleSubscribeStats_def handleAuth_def on_client_def disconnected connect_frame
        split: option.split)
  then have "db_servers demo_watching = db_servers no_sockets" "db_nodes demo_watching = db_nodes no_sockets"
    by (auto simp: wings_panel.truncate_def)
  moreover have "db_servers no_sockets = [demo_server\<lparr>server_status := None\<rparr>]" "db_nodes no_sockets = [demo_node]"
    by (simp_all add: no_sockets_def demo_gateway_def wings_panel.extend_def demo_three_def updateRows_def)
      (simp add: demo_server_def)
  ultimately show ?thesis by (simp add: node_of_def findOne_def demo_server_def demo_node_def)
qed

lemma demo_stats_sent:
  obtains c where "(gateway_step demo_ext (wings_running resources))\<^sup>*\<^sup>* no_sockets (pollStats (wings_running resources) demo_watching)"
    "(''k'', c) \<in> set (gw_sockets (pollStats (wings_running resources) demo_watching))"
    "StatsUpdate (status_response ''uuid-1'' STATE_RUNNING resources) \<in> set (sk_sent c)"
proof -
  let ?r = "status_response ''uuid-1'' STATE_RUNNING resources" and ?t = "pollStats (wings_running resources) demo_watching"
  let ?c = "emit_client (PowerState (JStr ''STATE_RUNNING'')) (emit_client (StatsUpdate ?r) watching_socket)"
  have "map_of (gw_sockets demo_watching) ''k'' = Some watching_socket" by (simp add: demo_watching_sockets)
  moreover have "server_room ''uuid-1'' \<in> set (sk_rooms watching_socket)"
    by (simp add: watching_socket_def emit_client_def join_room_def)
  moreover have "json_field ''state'' ?r = Some (JStr ''STATE_RUNNING'')" by (simp add: status_response_def)
  moreover have "?t = poll_stats_one (wings_running resources) ''uuid-1'' demo_watching"
    by (simp add: pollStats_def demo_watching_sockets)
  ultimately have "map_of (gw_sockets ?t) ''k'' = Some ?c"
    using poll_stats_sent [OF demo_watching_node, of "wings_running resources" ?r] by (simp add: wings_running_def)
  then have c: "(''k'', ?c) \<in> set (gw_sockets ?t)" by (rule map_of_SomeD)
  have run: "(gateway_step demo_ext (wings_running resources))\<^sup>*\<^sup>* no_sockets ?t"
    by (rule rtranclp.rtrancl_into_rtrancl [OF demo_watching_run]) (rule stats_poll)
  have "StatsUpdate ?r \<in> set (sk_sent ?c)" by (simp add: emit_client_def)
  then show thesis using that run c by blast
qed

lemma no_sockets_none: "gw_sockets no_sockets = []"
  by (simp add: no_sockets_def)

theorem web_console_blind_witness:
  "\<exists>t c. (gateway_step demo_ext (wings_running None))\<^sup>*\<^sup>* no_sockets t \<and> (''k'', c) \<in> set (gw_sockets t) \<and>
     StatsUpdate (status_response ''uuid-1'' STATE_RUNNING None) \<in> set (sk_sent c) \<and>
     wh_powerState (fold (\<lambda>m. on_message (wire m)) (sk_sent c) initial_hook) = WebOffline"
proof -
  obtain c where c: "(gateway_step demo_ext (wings_running None))\<^sup>*\<^sup>* no_sockets (pollStats (wings_running None) demo_watching)"
    "(''k'', c) \<in> set (gw_sockets (pollStats (wings_running None) demo_watching))"
    "StatsUpdate (status_response ''uuid-1'' STATE_RUNNING None) \<in> set (sk_sent c)" by (rule demo_stats_sent)
  then show ?thesis
    using web_console_blind [OF c(1) no_sockets_none wings_running_proto c(2) subset_refl] by blast
qed

end
