(* ===== verification/WebStatsProps.thy ===== *)
theory WebStatsProps
  imports WebStats WebConsole
begin

text \<open>What the figures of the console page say: how exact they are, the window, and the disk that is always full.\<close>

section \<open>Sizes\<close>

text \<open>A number with 53 significant bits is a double.\<close>

lemma rnd_dyadic:
  assumes "\<bar>n\<bar> < 2 ^ 53" and "-1000 \<le> k"
  shows "rnd (of_int n * pow2 k) = of_int n * pow2 k"
proof (cases "n = 0")
  case True
  then show ?thesis by (simp add: rnd_def)
next
  case False
  let ?x = "of_int n * pow2 k"
  have "pow2 k \<noteq> 0" using pow2_pos [of k] by linarith
  then have x: "0 < \<bar>?x\<bar>" using False by simp
  have "of_int \<bar>n\<bar> < (of_int (2 ^ 53) :: rat)" using assms(1) by (simp only: of_int_less_iff)
  then have "\<bar>of_int n\<bar> < pow2 53" by (simp add: pow2_def)
  then have "\<bar>of_int n\<bar> * pow2 k < pow2 53 * pow2 k" by (rule mult_strict_right_mono) simp
  then have "\<bar>?x\<bar> < pow2 53 * pow2 k" using pow2_pos [of k] by (simp only: abs_mult abs_of_pos)
  then have "pow2 (log2_floor \<bar>?x\<bar>) < pow2 (53 + k)" using log2_floor_le [OF x] by (simp add: pow2_add)
  then have l: "log2_floor \<bar>?x\<bar> < 53 + k" using pow2_mono by (metis not_less)
  define e where "e = max (log2_floor \<bar>?x\<bar> - 52) (-1074)"
  have e: "e \<le> k" "ulp ?x = pow2 e" using l assms(2) by (simp_all add: e_def ulp_def)
  have k: "pow2 k = pow2 (k - e) * pow2 e" by (simp flip: pow2_add)
  have "pow2 (k - e) = of_int (2 ^ nat (k - e))" using e(1) by (simp add: pow2_def)
  then have x': "?x = of_int (n * 2 ^ nat (k - e)) * pow2 e" by (simp add: k)
  have "pow2 e \<noteq> 0" using pow2_pos [of e] by linarith
  then have "of_int (n * 2 ^ nat (k - e)) * pow2 e / pow2 e = of_int (n * 2 ^ nat (k - e))" by (rule nonzero_mult_div_cancel_right)
  then have "?x / ulp ?x = of_int (n * 2 ^ nat (k - e))" by (simp only: e(2)) (simp only: x')
  then have "round_half_even (?x / ulp ?x) = n * 2 ^ nat (k - e)" by (simp only: round_half_even_int)
  then have "of_int (round_half_even (?x / ulp ?x)) * ulp ?x = ?x" by (simp only: e(2)) (simp only: x')
  then show ?thesis by (simp only: rnd_def split: if_split) simp
qed

lemma divide_pow2:
  assumes "0 \<le> n" "n < 2 ^ 53" "k \<le> 30"
  shows "js_divide (to_double (of_int n)) (Fin (2 ^ k)) = Fin (of_int n / 2 ^ k)"
proof -
  have q: "(of_int n / 2 ^ k :: rat) = of_int n * pow2 (- int k)" by (cases "k = 0") (simp_all add: pow2_def)
  have "rnd (of_int n / 2 ^ k) = of_int n / 2 ^ k" unfolding q by (rule rnd_dyadic) (use assms in auto)
  moreover have "(of_int n / 2 ^ k :: rat) < pow2 1024"
  proof -
    have "(of_int n :: rat) < of_int (2 ^ 53)" using assms(2) by (simp only: of_int_less_iff)
    then have "(of_int n :: rat) < pow2 1024 * 1" by (simp add: pow2_def)
    moreover have "pow2 1024 * 1 \<le> pow2 1024 * 2 ^ k" by (rule mult_left_mono) (simp_all add: pow2_def)
    ultimately have "of_int n < pow2 1024 * 2 ^ k" by (simp only: mult_1_right)
    then show ?thesis by (simp only: pos_divide_less_eq zero_less_power zero_less_numeral)
  qed
  moreover have "0 \<le> (of_int n / 2 ^ k :: rat)" using assms(1) by simp
  ultimately show ?thesis using to_double_int [of n] assms by (simp add: to_double_def)
qed

text \<open>Reading a printed number back.\<close>

lemma digits_acc_append:
  "digits_acc r acc (s @ t) = (case digits_acc r acc s of None \<Rightarrow> None | Some a \<Rightarrow> digits_acc r a t)"
  by (induction r acc s rule: digits_acc.induct) (auto split: option.split)

lemma digit_char_facts: "n < 10 \<Longrightarrow> digit_val (digit_char n) = Some n \<and> is_digit (digit_char n)"
  by (simp add: digit_val_def digit_char_def is_digit_def Let_def)

lemma digits_show_nat: "digits_acc 10 0 (show_nat n) = Some n \<and> list_all is_digit (show_nat n)"
proof (induction n rule: show_nat.induct)
  case (1 n)
  then show ?case
    by (subst (1 2) show_nat.simps) (auto simp: digits_acc_append digit_char_facts)
qed

lemma digits_zeros: "digits_acc 10 0 (replicate k (CHR ''0'') @ s) = digits_acc 10 0 s"
  by (induction k) (simp_all add: digit_val_def)

lemma until_point:
  "\<forall>c \<in> set s. is_digit c \<Longrightarrow> takeWhile is_digit (s @ CHR ''.'' # t) = s \<and> dropWhile is_digit (s @ CHR ''.'' # t) = CHR ''.'' # t"
  by (induction s) (simp_all add: is_digit_def)

lemma all_digits: "\<forall>c \<in> set s. is_digit c \<Longrightarrow> takeWhile is_digit s = s \<and> dropWhile is_digit s = []"
  by (induction s) simp_all

lemma decimal_point:
  assumes "\<forall>c \<in> set u. is_digit c" "\<forall>c \<in> set v. is_digit c" "u \<noteq> []" "digits 10 (u @ v) = Some n"
  shows "unsigned_decimal (u @ CHR ''.'' # v) = Some (of_nat n / 10 ^ length v)"
proof -
  note point = until_point [OF assms(1), THEN conjunct1] until_point [OF assms(1), THEN conjunct2]
    all_digits [OF assms(2), THEN conjunct1] all_digits [OF assms(2), THEN conjunct2]
  show ?thesis
    unfolding unsigned_decimal_def Let_def point list.case simp_thms if_True assms(4)
    by (cases "length v = 0") (use assms(3) in \<open>simp_all add: exponent_def\<close>)
qed

lemma fixed_text_read:
  assumes "0 < d"
  shows "unsigned_decimal (fixed_text d n) = Some (of_nat n / 10 ^ d)"
proof -
  define ds where "ds = replicate (d + 1 - length (show_nat n)) (CHR ''0'') @ show_nat n"
  define k where "k = length ds - d"
  have k: "0 < k" "length (drop k ds) = d" "take k ds \<noteq> []" by (auto simp: k_def ds_def)
  have written: "fixed_text d n = take k ds @ ''.'' @ drop k ds" using assms by (simp add: fixed_text_def ds_def k_def Let_def)
  have all: "\<forall>c \<in> set ds. is_digit c" using digits_show_nat [of n] by (auto simp: ds_def list_all_iff is_digit_def)
  then have all': "\<forall>c \<in> set (take k ds). is_digit c" "\<forall>c \<in> set (drop k ds). is_digit c"
    by (auto dest: in_set_takeD in_set_dropD)
  have "digits 10 ds = Some n" using digits_show_nat [of n] by (simp add: digits_def ds_def digits_zeros)
  then have "digits 10 (take k ds @ drop k ds) = Some n" by (simp only: append_take_drop_id)
  from decimal_point [OF all' k(3) this] show ?thesis unfolding written k(2) by simp
qed

lemma fixed_units_near:
  assumes "0 \<le> x" shows "\<bar>of_nat (fixed_units d x) - x * 10 ^ d\<bar> \<le> 1 / 2"
proof -
  have "0 \<le> \<lfloor>x * 10 ^ d + 1 / 2\<rfloor>" using assms by simp
  then have "(of_nat (fixed_units d x) :: rat) = of_int \<lfloor>x * 10 ^ d + 1 / 2\<rfloor>" by (simp add: fixed_units_def)
  then show ?thesis by linarith
qed

lemma toFixed_nonneg: "0 \<le> x \<Longrightarrow> x < 10 ^ 21 \<Longrightarrow> toFixed N d (Fin x) = fixed_text d (fixed_units d x)"
  by simp

lemma size_figure:
  assumes "0 \<le> n" "n < 2 ^ 53" "k \<le> 30" "0 < d"
  obtains figure x where "toFixed N d (js_divide (to_double (of_int n)) (Fin (2 ^ k))) = figure"
    "unsigned_decimal figure = Some x" "\<bar>x * 2 ^ k - of_int n\<bar> \<le> 2 ^ k / (2 * 10 ^ d)"
proof -
  let ?q = "of_int n / 2 ^ k :: rat"
  let ?m = "fixed_units d ?q"
  have q: "0 \<le> ?q" using assms(1) by simp
  have "?q \<le> of_int n" using assms(1) by (simp add: divide_le_eq mult_le_cancel_left1)
  moreover have "(of_int n :: rat) < of_int (2 ^ 53)" using assms(2) by (simp only: of_int_less_iff)
  ultimately have "?q < 10 ^ 21" by simp
  then have "toFixed N d (js_divide (to_double (of_int n)) (Fin (2 ^ k))) = fixed_text d ?m"
    unfolding divide_pow2 [OF assms(1-3)] by (rule toFixed_nonneg [OF q])
  moreover have "\<bar>of_nat ?m / 10 ^ d * 2 ^ k - of_int n :: rat\<bar> \<le> 2 ^ k / (2 * 10 ^ d)"
  proof -
    have "(of_nat ?m / 10 ^ d * 2 ^ k - of_int n :: rat) = (of_nat ?m - ?q * 10 ^ d) * (2 ^ k / 10 ^ d)" by (simp add: field_simps)
    then have "\<bar>of_nat ?m / 10 ^ d * 2 ^ k - of_int n :: rat\<bar> = \<bar>of_nat ?m - ?q * 10 ^ d\<bar> * (2 ^ k / 10 ^ d)" by (simp add: abs_mult)
    also have "\<dots> \<le> 1 / 2 * (2 ^ k / 10 ^ d)" by (rule mult_right_mono [OF fixed_units_near [OF q]]) simp
    finally show ?thesis by simp
  qed
  ultimately show ?thesis using that fixed_text_read [OF assms(4)] by blast
qed

lemma formatBytes_num:
  assumes "0 \<le> n" and "n < 2 ^ 53"
  shows "formatBytes N (JNum n) =
    (let x = to_double (of_int n)
     in if n < 1024 then show_int n @ '' B''
        else if n < 1048576 then toFixed N 1 (js_divide x (Fin (2 ^ 10))) @ '' KB''
        else if n < 1073741824 then toFixed N 1 (js_divide x (Fin (2 ^ 20))) @ '' MB''
        else toFixed N 2 (js_divide x (Fin (2 ^ 30))) @ '' GB'')"
proof -
  have "to_double (of_int n) < Fin (numeral w) \<longleftrightarrow> n < numeral w" for w
    using to_double_int [of n] assms of_int_less_iff [of n "numeral w", where ?'a = rat] by simp
  then show ?thesis by (simp add: formatBytes_def Let_def)
qed

text \<open>
  C31. A size below \<open>2\<^sup>5\<^sup>3\<close> bytes is shown exactly when it is below 1024, and else by a decimal figure in a
  unit it has at least one of; read back, the figure is within a twentieth of that unit of the size,
  for gigabytes within a two-hundredth.
\<close>

theorem size_shown:
  assumes "0 \<le> n" and "n < 2 ^ 53"
  shows "(if n < 1024 then formatBytes N (JNum n) = show_int n @ '' B''
    else \<exists>(unit, suffix, error) \<in> {(2 ^ 10, '' KB'', 1 / 20), (2 ^ 20, '' MB'', 1 / 20), (2 ^ 30, '' GB'', 1 / 200)}.
      \<exists>figure x. formatBytes N (JNum n) = figure @ suffix \<and> unsigned_decimal figure = Some x \<and>
        unit \<le> of_int n \<and> \<bar>x * unit - of_int n\<bar> \<le> error * unit)"
proof -
  note bytes = formatBytes_num [OF assms, of N]
  note kb = size_figure [OF assms, of 10 1 N] and mb = size_figure [OF assms, of 20 1 N] and gb = size_figure [OF assms, of 30 2 N]
  consider "n < 1024" | "1024 \<le> n" "n < 1048576" | "1048576 \<le> n" "n < 1073741824" | "1073741824 \<le> n" by linarith
  then show ?thesis
  proof cases
    case 1 then show ?thesis by (simp add: bytes)
  next
    case 2
    obtain figure x where f: "toFixed N 1 (js_divide (to_double (of_int n)) (Fin (2 ^ 10))) = figure"
      "unsigned_decimal figure = Some x" "\<bar>x * 2 ^ 10 - of_int n\<bar> \<le> 2 ^ 10 / (2 * 10 ^ 1)" by (rule kb) simp_all
    moreover have "1024 \<le> (of_int n :: rat)" using 2(1) of_int_le_iff [of 1024 n, where ?'a = rat] by simp
    ultimately show ?thesis using 2 bytes by auto
  next
    case 3
    obtain figure x where f: "toFixed N 1 (js_divide (to_double (of_int n)) (Fin (2 ^ 20))) = figure"
      "unsigned_decimal figure = Some x" "\<bar>x * 2 ^ 20 - of_int n\<bar> \<le> 2 ^ 20 / (2 * 10 ^ 1)" by (rule mb) simp_all
    moreover have "1048576 \<le> (of_int n :: rat)" using 3(1) of_int_le_iff [of 1048576 n, where ?'a = rat] by simp
    ultimately show ?thesis using 3 bytes by auto
  next
    case 4
    obtain figure x where f: "toFixed N 2 (js_divide (to_double (of_int n)) (Fin (2 ^ 30))) = figure"
      "unsigned_decimal figure = Some x" "\<bar>x * 2 ^ 30 - of_int n\<bar> \<le> 2 ^ 30 / (2 * 10 ^ 2)" by (rule gb) simp_all
    moreover have "1073741824 \<le> (of_int n :: rat)" using 4 of_int_le_iff [of 1073741824 n, where ?'a = rat] by simp
    ultimately show ?thesis using 4 bytes by auto
  qed
qed

lemma size_shown_witness:
  "formatBytes (\<lambda>_. []) (JNum 5) = show_int 5 @ '' B''"
  using size_shown [of 5 "\<lambda>_. []"] by simp

section \<open>The disk\<close>

text \<open>With a limit of zero, which is all the page ever gets, the disk is full or not a number.\<close>

lemma usage_without_limit:
  "usage_percent used (JNum 0) = (case js_ToNumber used of
     NaN \<Rightarrow> NaN | Infinity a \<Rightarrow> if a then Infinity True else Fin 100
   | Fin x \<Rightarrow> if x = 0 then NaN else if x < 0 then Infinity True else Fin 100)"
proof -
  have "to_double 0 = Fin 0" using to_double_int [of 0] by simp
  then show ?thesis by (cases "js_ToNumber used") (auto simp: usage_percent_def js_min_def is_nan_def)
qed

text \<open>
  C30. With daemons that answer as the proto file says, whatever browsers, timers and the rest of the
  panel do: a page that has received messages of the gateway shows every server that uses any disk
  with a full disk, in the colour of an error, and one that uses none with \<open>NaN%\<close>, because the limit
  of the disk is not in the message and the panel divides by zero.
\<close>

theorem disk_always_full:
  assumes "(gateway_step X W)\<^sup>*\<^sup>* s t" and "gw_sockets s = []" and "answers_proto W"
    and "(i, c) \<in> set (gw_sockets t)" and "set messages \<subseteq> set (sk_sent c)"
    and "wh_stats (fold (\<lambda>m. on_message (wire m)) messages initial_hook) = Some st"
    and "StatsPanel N (Some st) = Inr v" and "js_ToNumber (ss_diskBytes st) = Fin x" and "0 \<le> x"
  shows "if x = 0 then pv_diskPercent v = ''NaN%'' \<and> pv_diskColor v = ''primary'' else pv_diskPercent v = ''100.0%'' \<and> pv_diskColor v = ''error''"
proof -
  have limit: "ss_diskLimitBytes st = JNum 0"
    using page_stays_blind [OF assms(1-5)] assms(6) by (simp add: page_blind_def)
  have "fixed_text 1 (fixed_units 1 100) = ''100.0''" by code_simp
  then have full: "toFixed N 1 (Fin 100) = ''100.0''" by simp
  show ?thesis
    using assms(7,9) full
    by (auto simp: StatsPanel_def Let_def limit assms(8) usage_without_limit bar_color_def split: sum.splits if_splits)
qed

definition demo_resources :: ResourceStats where
  "demo_resources = \<lparr>rs_uuid = ''uuid-1'', rs_cpuPercent = 3, rs_memoryBytes = 512, rs_memoryLimit = 1024, rs_networkRxBytes = 1,
     rs_networkTxBytes = 1, rs_diskBytes = 7, rs_timestampMs = 0\<rparr>"

text \<open>Seven bytes of disk, and the bar of the disk is full and red.\<close>

lemma disk_always_full_witness:
  "\<exists>st v. wh_stats (fold (\<lambda>m. on_message (wire m)) [StatsUpdate (status_response ''uuid-1'' STATE_RUNNING (Some demo_resources))] initial_hook) = Some st \<and>
     ss_diskBytes st = JNum 7 \<and> StatsPanel (\<lambda>_. []) (Some st) = Inr v \<and> pv_diskPercent v = ''100.0%'' \<and> pv_diskColor v = ''error''"
proof -
  let ?ms = "[StatsUpdate (status_response ''uuid-1'' STATE_RUNNING (Some demo_resources))]"
  obtain c where c: "(gateway_step demo_ext (wings_running (Some demo_resources)))\<^sup>*\<^sup>* no_sockets (pollStats (wings_running (Some demo_resources)) demo_watching)"
    "(''k'', c) \<in> set (gw_sockets (pollStats (wings_running (Some demo_resources)) demo_watching))"
    "StatsUpdate (status_response ''uuid-1'' STATE_RUNNING (Some demo_resources)) \<in> set (sk_sent c)" by (rule demo_stats_sent)
  then have ms: "set ?ms \<subseteq> set (sk_sent c)" by simp
  let ?r = "status_response ''uuid-1'' STATE_RUNNING (Some demo_resources)"
  have raw: "json_truthy ?r" "json_field ''state'' ?r = Some (JStr ''STATE_RUNNING'')" by (simp_all add: status_response_def)
  have st: "wh_stats (fold (\<lambda>m. on_message (wire m)) ?ms initial_hook) = Some (shown_stats ?r)"
    using raw by (simp add: on_message_def on_stats_update_def on_stats_def Let_def)
  have fields: "ss_cpuPercent (shown_stats ?r) = JNum 3" "ss_diskBytes (shown_stats ?r) = JNum 7"
    by (simp_all add: shown_stats_def status_response_def resources_json_def field_or_def demo_resources_def Let_def)
  obtain v where v: "StatsPanel (\<lambda>_. []) (Some (shown_stats ?r)) = Inr v" by (simp add: StatsPanel_def fields Let_def)
  have x: "js_ToNumber (ss_diskBytes (shown_stats ?r)) = Fin 7" by (simp add: fields)
  show ?thesis
    using disk_always_full [OF c(1) no_sockets_none wings_running_proto c(2) ms st v x] st v fields by auto
qed

end
