(* ===== verification/Eggs.thy ===== *)
theory Eggs
  imports UsersProps
begin

text \<open>
  \<^verbatim>\<open>eggs/eggs.service.ts\<close>, its DTOs and its controller: nests, the eggs in them with
  their variables, and the exchange format of import and export.
\<close>

section \<open>Bodies\<close>

record CreateNestDto =
  cnd_name :: string
  cnd_description :: string

definition CreateNestDto_ok :: "CreateNestDto \<Rightarrow> bool" where
  "CreateNestDto_ok dto \<longleftrightarrow> cnd_name dto \<noteq> []"

record EggVariableDto =
  evd_name :: string
  evd_description :: string
  evd_envVariable :: string
  evd_defaultValue :: string
  evd_userViewable :: bool
  evd_userEditable :: bool
  evd_rules :: string

definition EggVariableDto_ok :: "EggVariableDto \<Rightarrow> bool" where
  "EggVariableDto_ok v \<longleftrightarrow> evd_name v \<noteq> [] \<and> evd_envVariable v \<noteq> []"

record CreateEggDto =
  ced_nestId :: string
  ced_name :: string
  ced_description :: "string option"
  ced_author :: string
  ced_dockerImage :: string
  ced_dockerImages :: "string js_obj option"
  ced_startup :: string
  ced_configFiles :: "json option"
  ced_configStartup :: "json option"
  ced_configStop :: "string option"
  ced_configLogs :: "json option"
  ced_scriptInstall :: "string option"
  ced_scriptEntry :: "string option"
  ced_scriptContainer :: "string option"
  ced_copyScriptFrom :: "string option"
  ced_variables :: "EggVariableDto list option"

definition CreateEggDto_ok :: "ext \<Rightarrow> CreateEggDto \<Rightarrow> bool" where
  "CreateEggDto_ok X dto \<longleftrightarrow>
     isUUID X (ced_nestId dto) \<and> ced_name dto \<noteq> [] \<and> ced_author dto \<noteq> [] \<and> ced_dockerImage dto \<noteq> [] \<and>
     ced_startup dto \<noteq> [] \<and> opt_ref (isUUID X) (ced_copyScriptFrom dto) \<and>
     opt_ref (list_all EggVariableDto_ok) (ced_variables dto)"

record UpdateEggDto =
  ued_name :: "string option"
  ued_description :: "string option"
  ued_author :: "string option"
  ued_dockerImage :: "string option"
  ued_dockerImages :: "string js_obj option"
  ued_startup :: "string option"
  ued_configFiles :: "json option"
  ued_configStartup :: "json option"
  ued_configStop :: "string option"
  ued_configLogs :: "json option"
  ued_scriptInstall :: "string option"
  ued_scriptEntry :: "string option"
  ued_scriptContainer :: "string option"
  ued_copyScriptFrom :: "string option"
  ued_variables :: "EggVariableDto list option"

definition UpdateEggDto_ok :: "ext \<Rightarrow> UpdateEggDto \<Rightarrow> bool" where
  "UpdateEggDto_ok X dto \<longleftrightarrow>
     opt_ref (isUUID X) (ued_copyScriptFrom dto) \<and> opt_ref (list_all EggVariableDto_ok) (ued_variables dto)"

section \<open>Reading\<close>

record FullNest =
  fn_nest :: NestEntity
  fn_eggs :: "EggEntity list"

record FullEgg =
  fe_egg :: EggEntity
  fe_nest :: "NestEntity option"
  fe_variables :: "EggVariableEntity list"

definition load_nest :: "'z db_scheme \<Rightarrow> NestEntity \<Rightarrow> FullNest" where
  "load_nest d n = \<lparr>fn_nest = n, fn_eggs = findRows (\<lambda>e. egg_nestId e = nest_id n) (db_eggs d)\<rparr>"

definition load_egg :: "'z db_scheme \<Rightarrow> EggEntity \<Rightarrow> FullEgg" where
  "load_egg d e =
     \<lparr>fe_egg = e, fe_nest = findOne (\<lambda>n. nest_id n = egg_nestId e) (db_nests d),
      fe_variables = findRows (\<lambda>v. eggvar_eggId v = egg_id e) (db_eggVariables d)\<rparr>"

definition EggsService_findAllNests :: "ext \<Rightarrow> 'z db_scheme \<Rightarrow> FullNest list" where
  "EggsService_findAllNests X d = map (load_nest d) (sort_key (\<lambda>n. collation X (nest_name n)) (db_nests d))"

definition EggsService_findNestById :: "string \<Rightarrow> 'z db_scheme \<Rightarrow> exn + FullNest" where
  "EggsService_findNestById i d =
     (case findOne (\<lambda>n. nest_id n = i) (db_nests d) of
        None \<Rightarrow> Inl (NotFoundException ''Nest not found'')
      | Some n \<Rightarrow> Inr (load_nest d n))"

definition EggsService_findAllEggs :: "ext \<Rightarrow> string option \<Rightarrow> 'z db_scheme \<Rightarrow> FullEgg list" where
  "EggsService_findAllEggs X nestId d =
     map (load_egg d) (sort_key (\<lambda>e. collation X (egg_name e))
       (findRows (\<lambda>e. truthy_str nestId \<longrightarrow> Some (egg_nestId e) = nestId) (db_eggs d)))"

definition EggsService_findEggById :: "string \<Rightarrow> 'z db_scheme \<Rightarrow> exn + FullEgg" where
  "EggsService_findEggById i d =
     (case findOne (\<lambda>e. egg_id e = i) (db_eggs d) of
        None \<Rightarrow> Inl (NotFoundException ''Egg not found'')
      | Some e \<Rightarrow> Inr (load_egg d e))"

section \<open>Writing\<close>

text \<open>The entity asks for an author (a column that is not nullable); the body has none.\<close>

definition save_new_nest ::
  "string \<Rightarrow> nat \<Rightarrow> string option \<Rightarrow> string \<Rightarrow> string option \<Rightarrow> 'z db_scheme \<Rightarrow> ('z db_scheme, NestEntity) handled" where
  "save_new_nest newId now author name description d =
     (case author of
        None \<Rightarrow> (Inl QueryFailedError, d)
      | Some a \<Rightarrow>
          (let nest = \<lparr>nest_id = newId, nest_author = a, nest_name = name, nest_description = description, nest_createdAt = now\<rparr>
           in (case save_nest nest d of Inl e \<Rightarrow> (Inl e, d) | Inr d1 \<Rightarrow> (Inr nest, d1))))"

definition EggsService_createNest ::
  "string \<Rightarrow> nat \<Rightarrow> CreateNestDto \<Rightarrow> 'z db_scheme \<Rightarrow> ('z db_scheme, NestEntity) handled" where
  "EggsService_createNest newId now dto d = save_new_nest newId now None (cnd_name dto) (Some (cnd_description dto)) d"

text \<open>The identifiers of the variables of one request are drawn from \<open>ids\<close>, by position.\<close>

definition egg_variable :: "(nat \<Rightarrow> string) \<Rightarrow> nat \<Rightarrow> string \<Rightarrow> nat \<times> EggVariableDto \<Rightarrow> EggVariableEntity" where
  "egg_variable ids now eggId iv =
     \<lparr>eggvar_id = ids (fst iv), eggvar_eggId = eggId, eggvar_name = evd_name (snd iv),
      eggvar_description = evd_description (snd iv), eggvar_envVariable = evd_envVariable (snd iv),
      eggvar_defaultValue = evd_defaultValue (snd iv), eggvar_userViewable = evd_userViewable (snd iv),
      eggvar_userEditable = evd_userEditable (snd iv), eggvar_rules = evd_rules (snd iv), eggvar_createdAt = now\<rparr>"

text \<open>A field the body leaves out gets the default of its column.\<close>

definition new_egg :: "string \<Rightarrow> nat \<Rightarrow> CreateEggDto \<Rightarrow> EggEntity" where
  "new_egg newId now dto =
     \<lparr>egg_id = newId, egg_nestId = ced_nestId dto, egg_name = ced_name dto, egg_description = ced_description dto,
      egg_author = ced_author dto, egg_dockerImage = ced_dockerImage dto, egg_dockerImages = nullish (ced_dockerImages dto) [],
      egg_startup = ced_startup dto, egg_configFiles = ced_configFiles dto, egg_configStartup = ced_configStartup dto,
      egg_configStop = ced_configStop dto, egg_configLogs = ced_configLogs dto, egg_scriptInstall = ced_scriptInstall dto,
      egg_scriptEntry = nullish (ced_scriptEntry dto) ''bash'',
      egg_scriptContainer = nullish (ced_scriptContainer dto) ''alpine:latest'',
      egg_copyScriptFrom = ced_copyScriptFrom dto, egg_createdAt = now\<rparr>"

text \<open>The egg is saved first and its variables in a statement of their own.\<close>

record SavedEgg =
  se_egg :: EggEntity
  se_variables :: "EggVariableEntity list option"

definition save_variables ::
  "EggEntity \<Rightarrow> EggVariableEntity list \<Rightarrow> 'z db_scheme \<Rightarrow> ('z db_scheme, SavedEgg) handled" where
  "save_variables savedEgg vars d =
     (case save_each save_eggVariable vars d of
        Inl e \<Rightarrow> (Inl e, d)
      | Inr d1 \<Rightarrow> (Inr \<lparr>se_egg = savedEgg, se_variables = Some vars\<rparr>, d1))"

definition EggsService_createEgg ::
  "string \<Rightarrow> (nat \<Rightarrow> string) \<Rightarrow> nat \<Rightarrow> CreateEggDto \<Rightarrow> 'z db_scheme \<Rightarrow> ('z db_scheme, SavedEgg) handled" where
  "EggsService_createEgg newId ids now dto d =
     (case findOne (\<lambda>n. nest_id n = ced_nestId dto) (db_nests d) of
        None \<Rightarrow> (Inl (NotFoundException ''Nest not found''), d)
      | Some _ \<Rightarrow>
          (let egg = new_egg newId now dto
           in (case save_egg egg d of
                 Inl e \<Rightarrow> (Inl e, d)
               | Inr d1 \<Rightarrow>
                   (case ced_variables dto of
                      None \<Rightarrow> (Inr \<lparr>se_egg = egg, se_variables = None\<rparr>, d1)
                    | Some [] \<Rightarrow> (Inr \<lparr>se_egg = egg, se_variables = None\<rparr>, d1)
                    | Some vs \<Rightarrow> save_variables egg (map (egg_variable ids now newId) (enumerate 0 vs)) d1))))"

definition assign_egg :: "UpdateEggDto \<Rightarrow> EggEntity \<Rightarrow> EggEntity" where
  "assign_egg dto e =
     e\<lparr>egg_name := nullish (ued_name dto) (egg_name e),
       egg_description := (case ued_description dto of None \<Rightarrow> egg_description e | Some x \<Rightarrow> Some x),
       egg_author := nullish (ued_author dto) (egg_author e),
       egg_dockerImage := nullish (ued_dockerImage dto) (egg_dockerImage e),
       egg_dockerImages := nullish (ued_dockerImages dto) (egg_dockerImages e),
       egg_startup := nullish (ued_startup dto) (egg_startup e),
       egg_configFiles := (case ued_configFiles dto of None \<Rightarrow> egg_configFiles e | Some x \<Rightarrow> Some x),
       egg_configStartup := (case ued_configStartup dto of None \<Rightarrow> egg_configStartup e | Some x \<Rightarrow> Some x),
       egg_configStop := (case ued_configStop dto of None \<Rightarrow> egg_configStop e | Some x \<Rightarrow> Some x),
       egg_configLogs := (case ued_configLogs dto of None \<Rightarrow> egg_configLogs e | Some x \<Rightarrow> Some x),
       egg_scriptInstall := (case ued_scriptInstall dto of None \<Rightarrow> egg_scriptInstall e | Some x \<Rightarrow> Some x),
       egg_scriptEntry := nullish (ued_scriptEntry dto) (egg_scriptEntry e),
       egg_scriptContainer := nullish (ued_scriptContainer dto) (egg_scriptContainer e),
       egg_copyScriptFrom := (case ued_copyScriptFrom dto of None \<Rightarrow> egg_copyScriptFrom e | Some x \<Rightarrow> Some x)\<rparr>"

definition EggsService_updateEgg ::
  "(nat \<Rightarrow> string) \<Rightarrow> nat \<Rightarrow> string \<Rightarrow> UpdateEggDto \<Rightarrow> 'z db_scheme \<Rightarrow> ('z db_scheme, SavedEgg) handled" where
  "EggsService_updateEgg ids now i dto d =
     (case findOne (\<lambda>e. egg_id e = i) (db_eggs d) of
        None \<Rightarrow> (Inl (NotFoundException ''Egg not found''), d)
      | Some e \<Rightarrow>
          (let egg = assign_egg dto e
           in (case save_egg egg d of
                 Inl e \<Rightarrow> (Inl e, d)
               | Inr d1 \<Rightarrow>
                   (case ued_variables dto of
                      None \<Rightarrow> (Inr \<lparr>se_egg = egg, se_variables = None\<rparr>, d1)
                    | Some vs \<Rightarrow>
                        save_variables egg (map (egg_variable ids now i) (enumerate 0 vs))
                          (d1\<lparr>db_eggVariables := removeRows (\<lambda>v. eggvar_eggId v = i) (db_eggVariables d1)\<rparr>)))))"

definition EggsService_deleteEgg :: "string \<Rightarrow> 'z db_scheme \<Rightarrow> ('z db_scheme, unit) handled" where
  "EggsService_deleteEgg i d =
     (case findOne (\<lambda>e. egg_id e = i) (db_eggs d) of
        None \<Rightarrow> (Inl (NotFoundException ''Egg not found''), d)
      | Some egg \<Rightarrow>
          (case remove_eggs (\<lambda>e. egg_id e = egg_id egg) d of Inl e \<Rightarrow> (Inl e, d) | Inr d1 \<Rightarrow> (Inr (), d1)))"

section \<open>Import and export\<close>

text \<open>
  The exchanged document: \<open>None\<close> is a field that is missing or \<open>null\<close>.  A document with a
  field of another type than the export writes is outside the model.
\<close>

record VariableJson =
  vj_name :: "string option"
  vj_description :: "string option"
  vj_envVariable :: "string option"
  vj_defaultValue :: "string option"
  vj_userViewable :: "bool option"
  vj_userEditable :: "bool option"
  vj_rules :: "string option"

record EggJson =
  ej_name :: "string option"
  ej_description :: "string option"
  ej_author :: "string option"
  ej_dockerImage :: "string option"
  ej_dockerImages :: "string js_obj option"
  ej_startup :: "string option"
  ej_configFiles :: "json option"
  ej_configStartup :: "json option"
  ej_configStop :: "string option"
  ej_configLogs :: "json option"
  ej_scriptInstall :: "string option"
  ej_scriptEntry :: "string option"
  ej_scriptContainer :: "string option"
  ej_copyScriptFrom :: "string option"
  ej_variables :: "VariableJson list option"
  ej_nestId :: "string option"
  ej_exportVersion :: "string option"

text \<open>A required column without a value is a \<open>QueryFailedError\<close>: \<open>None\<close> here.\<close>

definition imported_egg :: "string \<Rightarrow> nat \<Rightarrow> EggJson \<Rightarrow> EggEntity option" where
  "imported_egg newId now json =
     (case (ej_nestId json, ej_name json, ej_dockerImage json, ej_startup json) of
        (Some nestId, Some name, Some dockerImage, Some startup) \<Rightarrow>
          Some \<lparr>egg_id = newId, egg_nestId = nestId, egg_name = name, egg_description = Some (str_or (ej_description json) []),
                egg_author = str_or (ej_author json) [], egg_dockerImage = dockerImage,
                egg_dockerImages = nullish (ej_dockerImages json) [], egg_startup = startup,
                egg_configFiles = ej_configFiles json, egg_configStartup = ej_configStartup json,
                egg_configStop = ej_configStop json, egg_configLogs = ej_configLogs json,
                egg_scriptInstall = Some (str_or (ej_scriptInstall json) []),
                egg_scriptEntry = str_or (ej_scriptEntry json) ''bash'',
                egg_scriptContainer = str_or (ej_scriptContainer json) ''alpine:latest'',
                egg_copyScriptFrom = ej_copyScriptFrom json, egg_createdAt = now\<rparr>
      | _ \<Rightarrow> None)"

definition imported_variable :: "(nat \<Rightarrow> string) \<Rightarrow> nat \<Rightarrow> string \<Rightarrow> nat \<times> VariableJson \<Rightarrow> EggVariableEntity option" where
  "imported_variable ids now eggId iv =
     (case (vj_name (snd iv), vj_envVariable (snd iv)) of
        (Some name, Some envVariable) \<Rightarrow>
          Some \<lparr>eggvar_id = ids (fst iv), eggvar_eggId = eggId, eggvar_name = name,
                eggvar_description = str_or (vj_description (snd iv)) [], eggvar_envVariable = envVariable,
                eggvar_defaultValue = str_or (vj_defaultValue (snd iv)) [],
                eggvar_userViewable = nullish (vj_userViewable (snd iv)) True,
                eggvar_userEditable = nullish (vj_userEditable (snd iv)) True,
                eggvar_rules = str_or (vj_rules (snd iv)) [], eggvar_createdAt = now\<rparr>
      | _ \<Rightarrow> None)"

definition save_imported :: "EggEntity \<Rightarrow> EggVariableEntity option list \<Rightarrow> 'z db_scheme \<Rightarrow> ('z db_scheme, SavedEgg) handled" where
  "save_imported savedEgg vars d =
     (if None \<in> set vars then (Inl QueryFailedError, d) else save_variables savedEgg (map the vars) d)"

definition EggsService_importEgg ::
  "string \<Rightarrow> (nat \<Rightarrow> string) \<Rightarrow> nat \<Rightarrow> EggJson \<Rightarrow> 'z db_scheme \<Rightarrow> ('z db_scheme, SavedEgg) handled" where
  "EggsService_importEgg newId ids now json d =
     (case imported_egg newId now json of
        None \<Rightarrow> (Inl QueryFailedError, d)
      | Some egg \<Rightarrow>
          (case save_egg egg d of
             Inl e \<Rightarrow> (Inl e, d)
           | Inr d1 \<Rightarrow>
               (case ej_variables json of
                  None \<Rightarrow> (Inr \<lparr>se_egg = egg, se_variables = None\<rparr>, d1)
                | Some [] \<Rightarrow> (Inr \<lparr>se_egg = egg, se_variables = None\<rparr>, d1)
                | Some vs \<Rightarrow> save_imported egg (map (imported_variable ids now newId) (enumerate 0 vs)) d1)))"

definition variable_json :: "EggVariableEntity \<Rightarrow> VariableJson" where
  "variable_json v =
     \<lparr>vj_name = Some (eggvar_name v), vj_description = Some (eggvar_description v),
      vj_envVariable = Some (eggvar_envVariable v), vj_defaultValue = Some (eggvar_defaultValue v),
      vj_userViewable = Some (eggvar_userViewable v), vj_userEditable = Some (eggvar_userEditable v),
      vj_rules = Some (eggvar_rules v)\<rparr>"

definition egg_json :: "EggEntity \<Rightarrow> EggVariableEntity list \<Rightarrow> EggJson" where
  "egg_json e vs =
     \<lparr>ej_name = Some (egg_name e), ej_description = egg_description e, ej_author = Some (egg_author e),
      ej_dockerImage = Some (egg_dockerImage e), ej_dockerImages = Some (egg_dockerImages e),
      ej_startup = Some (egg_startup e), ej_configFiles = egg_configFiles e, ej_configStartup = egg_configStartup e,
      ej_configStop = egg_configStop e, ej_configLogs = egg_configLogs e, ej_scriptInstall = egg_scriptInstall e,
      ej_scriptEntry = Some (egg_scriptEntry e), ej_scriptContainer = Some (egg_scriptContainer e),
      ej_copyScriptFrom = egg_copyScriptFrom e, ej_variables = Some (map variable_json vs),
      ej_nestId = Some (egg_nestId e), ej_exportVersion = Some ''1.0''\<rparr>"

definition EggsService_exportEgg :: "string \<Rightarrow> 'z db_scheme \<Rightarrow> exn + EggJson" where
  "EggsService_exportEgg i d = map_sum id (\<lambda>f. egg_json (fe_egg f) (fe_variables f)) (EggsService_findEggById i d)"

section \<open>Controller\<close>

definition EggsController_findAllNests :: "ext \<Rightarrow> nat \<Rightarrow> Request \<Rightarrow> 'z db_scheme \<Rightarrow> ('z db_scheme, FullNest list) handled" where
  "EggsController_findAllNests X now req d = with_user X now req (\<lambda>_ d. (Inr (EggsService_findAllNests X d), d)) d"

definition EggsController_createNest ::
  "ext \<Rightarrow> nat \<Rightarrow> Request \<Rightarrow> string \<Rightarrow> CreateNestDto \<Rightarrow> 'z db_scheme \<Rightarrow> ('z db_scheme, NestEntity) handled" where
  "EggsController_createNest X now req newId dto d =
     with_admin X now req (\<lambda>_. validated (CreateNestDto_ok dto) (EggsService_createNest newId now dto)) d"

definition EggsController_findAllEggs ::
  "ext \<Rightarrow> nat \<Rightarrow> Request \<Rightarrow> string option \<Rightarrow> 'z db_scheme \<Rightarrow> ('z db_scheme, FullEgg list) handled" where
  "EggsController_findAllEggs X now req nestId d = with_user X now req (\<lambda>_ d. (Inr (EggsService_findAllEggs X nestId d), d)) d"

definition EggsController_findEggById ::
  "ext \<Rightarrow> nat \<Rightarrow> Request \<Rightarrow> string \<Rightarrow> 'z db_scheme \<Rightarrow> ('z db_scheme, FullEgg) handled" where
  "EggsController_findEggById X now req i d = with_user X now req (\<lambda>_ d. (EggsService_findEggById i d, d)) d"

definition EggsController_createEgg ::
  "ext \<Rightarrow> nat \<Rightarrow> Request \<Rightarrow> string \<Rightarrow> (nat \<Rightarrow> string) \<Rightarrow> CreateEggDto \<Rightarrow> 'z db_scheme \<Rightarrow> ('z db_scheme, SavedEgg) handled" where
  "EggsController_createEgg X now req newId ids dto d =
     with_admin X now req (\<lambda>_. validated (CreateEggDto_ok X dto) (EggsService_createEgg newId ids now dto)) d"

definition EggsController_updateEgg ::
  "ext \<Rightarrow> nat \<Rightarrow> Request \<Rightarrow> (nat \<Rightarrow> string) \<Rightarrow> string \<Rightarrow> UpdateEggDto \<Rightarrow> 'z db_scheme \<Rightarrow> ('z db_scheme, SavedEgg) handled" where
  "EggsController_updateEgg X now req ids i dto d =
     with_admin X now req (\<lambda>_. validated (UpdateEggDto_ok X dto) (EggsService_updateEgg ids now i dto)) d"

definition EggsController_deleteEgg ::
  "ext \<Rightarrow> nat \<Rightarrow> Request \<Rightarrow> string \<Rightarrow> 'z db_scheme \<Rightarrow> ('z db_scheme, unit) handled" where
  "EggsController_deleteEgg X now req i d = with_admin X now req (\<lambda>_. EggsService_deleteEgg i) d"

definition EggsController_importEgg ::
  "ext \<Rightarrow> nat \<Rightarrow> Request \<Rightarrow> string \<Rightarrow> (nat \<Rightarrow> string) \<Rightarrow> EggJson \<Rightarrow> 'z db_scheme \<Rightarrow> ('z db_scheme, SavedEgg) handled" where
  "EggsController_importEgg X now req newId ids json d =
     with_admin X now req (\<lambda>_. EggsService_importEgg newId ids now json) d"

definition EggsController_exportEgg ::
  "ext \<Rightarrow> nat \<Rightarrow> Request \<Rightarrow> string \<Rightarrow> 'z db_scheme \<Rightarrow> ('z db_scheme, EggJson) handled" where
  "EggsController_exportEgg X now req i d = with_admin X now req (\<lambda>_ d. (EggsService_exportEgg i d, d)) d"

end
