(* ===== verification/Seed.thy ===== *)
theory Seed
  imports Eggs Servers
begin

text \<open>
  \<^verbatim>\<open>database/seed.ts\<close>: the script that fills an empty database with an administrator, three
  nests and five eggs, and skips what it finds.  The rows it creates draw the identifiers
  \<open>ids k\<close>, \<open>ids (k + 1)\<close>, and so on.  Its data source lists the entities by hand.
\<close>

section \<open>The data source\<close>

datatype seed_failure = EntityMetadataNotFound string | Failed exn

definition seed_entities :: "string list" where
  "seed_entities =
     [''UserEntity'', ''SessionEntity'', ''ApiKeyEntity'', ''NotificationEntity'', ''NodeEntity'', ''AllocationEntity'', ''NestEntity'',
      ''EggEntity'', ''EggVariableEntity'', ''ServerEntity'', ''ServerSubuserEntity'', ''ServerDatabaseEntity'', ''DatabaseHostEntity'',
      ''ScheduleEntity'', ''ScheduleTaskEntity'', ''AuditLogEntity'']"

text \<open>The classes that the relations of an entity name.\<close>

definition relation_targets :: "(string \<times> string list) list" where
  "relation_targets =
     [(''UserEntity'', [''ServerEntity'', ''SessionEntity'', ''ApiKeyEntity'', ''NotificationEntity'']), (''SessionEntity'', [''UserEntity'']),
      (''ApiKeyEntity'', [''UserEntity'']), (''NotificationEntity'', [''UserEntity'']), (''AuditLogEntity'', [''UserEntity'']),
      (''LocationEntity'', [''NodeEntity'']), (''NodeEntity'', [''AllocationEntity'', ''ServerEntity'', ''LocationEntity'']),
      (''AllocationEntity'', [''NodeEntity'', ''ServerEntity'']), (''NestEntity'', [''EggEntity'']),
      (''EggEntity'', [''NestEntity'', ''EggVariableEntity'', ''EggEntity'']), (''EggVariableEntity'', [''EggEntity'']),
      (''ServerEntity'', [''UserEntity'', ''NodeEntity'', ''EggEntity'', ''AllocationEntity'', ''ServerDatabaseEntity'', ''ScheduleEntity'', ''ServerSubuserEntity'']),
      (''ServerSubuserEntity'', [''ServerEntity'', ''UserEntity'']), (''ServerDatabaseEntity'', [''ServerEntity'', ''DatabaseHostEntity'']),
      (''DatabaseHostEntity'', [''NodeEntity'', ''ServerDatabaseEntity'']), (''ScheduleEntity'', [''ServerEntity'', ''ScheduleTaskEntity'']),
      (''ScheduleTaskEntity'', [''ScheduleEntity''])]"

text \<open>\<open>dataSource.initialize\<close>: every relation leads to a listed entity.\<close>

definition missing_entities :: "string list \<Rightarrow> string list" where
  "missing_entities entities =
     filter (\<lambda>t. t \<notin> set entities) (concat (map (\<lambda>(e, ts). if e \<in> set entities then ts else []) relation_targets))"

definition initialize_source :: "string list \<Rightarrow> seed_failure + unit" where
  "initialize_source entities = (case missing_entities entities of [] \<Rightarrow> Inr () | t # ts \<Rightarrow> Inl (EntityMetadataNotFound t))"

section \<open>The data\<close>

record seed_nest_data =
  sn_name :: string
  sn_author :: string
  sn_description :: string

definition nestData :: "seed_nest_data list" where
  "nestData =
     [\<lparr>sn_name = ''Minecraft'', sn_author = ''support@nexus.local'', sn_description = ''Minecraft game server eggs''\<rparr>,
      \<lparr>sn_name = ''Bot Hosting'', sn_author = ''support@nexus.local'', sn_description = ''Bot hosting eggs for Node.js and Python''\<rparr>,
      \<lparr>sn_name = ''Custom'', sn_author = ''support@nexus.local'', sn_description = ''Custom and generic eggs''\<rparr>]"

text \<open>A variable is its name, description, environment variable, default and rules.\<close>

record seed_egg_data =
  sd_nestName :: string
  sd_name :: string
  sd_author :: string
  sd_description :: string
  sd_dockerImage :: string
  sd_dockerImages :: "string js_obj"
  sd_startup :: string
  sd_configStop :: string
  sd_scriptInstall :: string
  sd_scriptEntry :: string
  sd_scriptContainer :: string
  sd_variables :: "(string \<times> string \<times> string \<times> string \<times> string) list"

fun script_lines :: "string list \<Rightarrow> string" where
  "script_lines [] = []"
| "script_lines [l] = l"
| "script_lines (l # k # ls) = l @ CHR 0x0A # script_lines (k # ls)"

definition eggData :: "seed_egg_data list" where
  \<open>eggData = [
     \<lparr>sd_nestName = ''Minecraft'', sd_name = ''Minecraft Paper'', sd_author = ''support@nexus.local'',
      sd_description = ''Paper is a high-performance fork of Spigot.'', sd_dockerImage = ''ghcr.io/pterodactyl/yolks:java_21'',
      sd_dockerImages = [(''Java 21'', ''ghcr.io/pterodactyl/yolks:java_21''), (''Java 17'', ''ghcr.io/pterodactyl/yolks:java_17'')],
      sd_startup = ''java -Xms128M -XX:+UseG1GC -jar {{SERVER_JARFILE}}'', sd_configStop = ''stop'',
      sd_scriptInstall = script_lines
        [''#!/bin/bash'',
         ''cd /mnt/server'',
         ''if [ "${BUILD_NUMBER}" == "latest" ]; then'',
         ''  BUILD_NUMBER=$(curl -s "https://api.papermc.io/v2/projects/paper/versions/${MC_VERSION}/builds" | jq -r ".builds[-1].build")'',
         ''fi'',
         ''curl -o ${SERVER_JARFILE} "https://api.papermc.io/v2/projects/paper/versions/${MC_VERSION}/builds/${BUILD_NUMBER}/downloads/paper-${MC_VERSION}-${BUILD_NUMBER}.jar"'',
         ''echo "eula=true" > eula.txt''],
      sd_scriptEntry = ''bash'', sd_scriptContainer = ''ghcr.io/pterodactyl/installers:alpine'',
      sd_variables =
        [(''Server Jar File'', ''The name of the server jar'', ''SERVER_JARFILE'', ''server.jar'', ''required|string''),
         (''Minecraft Version'', ''The version of Minecraft to install'', ''MC_VERSION'', ''latest'', ''required|string''),
         (''Build Number'', ''The Paper build number'', ''BUILD_NUMBER'', ''latest'', ''required|string'')]\<rparr>,
     \<lparr>sd_nestName = ''Minecraft'', sd_name = ''Minecraft Vanilla'', sd_author = ''support@nexus.local'',
      sd_description = ''The official Minecraft server.'', sd_dockerImage = ''ghcr.io/pterodactyl/yolks:java_21'',
      sd_dockerImages = [(''Java 21'', ''ghcr.io/pterodactyl/yolks:java_21''), (''Java 17'', ''ghcr.io/pterodactyl/yolks:java_17'')],
      sd_startup = ''java -Xms128M -XX:+UseG1GC -jar {{SERVER_JARFILE}}'', sd_configStop = ''stop'',
      sd_scriptInstall = script_lines
        [''#!/bin/bash'',
         ''cd /mnt/server'',
         (''MANIFEST_URL=$(curl -s https://launchermeta.mojang.com/mc/game/version_manifest.json | jq -r ".versions[] | select(.id == '' @ [CHR 0x5C] @ ''"${MC_VERSION}'' @ [CHR 0x5C] @ ''") | .url")''),
         ''SERVER_URL=$(curl -s "$MANIFEST_URL" | jq -r ".downloads.server.url")'',
         ''curl -o ${SERVER_JARFILE} "$SERVER_URL"'',
         ''echo "eula=true" > eula.txt''],
      sd_scriptEntry = ''bash'', sd_scriptContainer = ''ghcr.io/pterodactyl/installers:alpine'',
      sd_variables =
        [(''Server Jar File'', ''The name of the server jar'', ''SERVER_JARFILE'', ''server.jar'', ''required|string''),
         (''Minecraft Version'', ''The version of Minecraft to install'', ''MC_VERSION'', ''latest'', ''required|string'')]\<rparr>,
     \<lparr>sd_nestName = ''Bot Hosting'', sd_name = ''Node.js Generic'', sd_author = ''support@nexus.local'',
      sd_description = ''A generic Node.js application egg.'', sd_dockerImage = ''ghcr.io/pterodactyl/yolks:nodejs_20'',
      sd_dockerImages = [(''Node.js 20'', ''ghcr.io/pterodactyl/yolks:nodejs_20''), (''Node.js 18'', ''ghcr.io/pterodactyl/yolks:nodejs_18'')],
      sd_startup = ''node {{MAIN_FILE}}'', sd_configStop = ''^C'',
      sd_scriptInstall = script_lines
        [''#!/bin/bash'',
         ''cd /mnt/server'',
         ''if [ -f package.json ]; then'',
         ''  npm install --production'',
         ''fi''],
      sd_scriptEntry = ''bash'', sd_scriptContainer = ''ghcr.io/pterodactyl/yolks:nodejs_20'',
      sd_variables =
        [(''Main File'', ''The main file to run'', ''MAIN_FILE'', ''index.js'', ''required|string''),
         (''Node.js Version'', ''Node.js version'', ''NODEJS_VERSION'', ''21'', ''required|string'')]\<rparr>,
     \<lparr>sd_nestName = ''Bot Hosting'', sd_name = ''Python Generic'', sd_author = ''support@nexus.local'',
      sd_description = ''A generic Python application egg.'', sd_dockerImage = ''ghcr.io/pterodactyl/yolks:python_3.11'',
      sd_dockerImages = [(''Python 3.11'', ''ghcr.io/pterodactyl/yolks:python_3.11''), (''Python 3.10'', ''ghcr.io/pterodactyl/yolks:python_3.10'')],
      sd_startup = ''python {{MAIN_FILE}}'', sd_configStop = ''^C'',
      sd_scriptInstall = script_lines
        [''#!/bin/bash'',
         ''cd /mnt/server'',
         ''if [ -f requirements.txt ]; then'',
         ''  pip install -r requirements.txt'',
         ''fi''],
      sd_scriptEntry = ''bash'', sd_scriptContainer = ''ghcr.io/pterodactyl/yolks:python_3.11'',
      sd_variables =
        [(''Main File'', ''The main Python file to run'', ''MAIN_FILE'', ''main.py'', ''required|string''),
         (''Additional Packages'', ''Additional pip packages to install'', ''PY_PACKAGES'', [], ''nullable|string'')]\<rparr>,
     \<lparr>sd_nestName = ''Custom'', sd_name = ''Generic Script'', sd_author = ''support@nexus.local'',
      sd_description = ''A generic script egg using Alpine Linux.'', sd_dockerImage = ''alpine:latest'',
      sd_dockerImages = [(''Alpine Latest'', ''alpine:latest'')],
      sd_startup = ''sh {{STARTUP_FILE}}'', sd_configStop = ''^C'',
      sd_scriptInstall = script_lines
        [''#!/bin/bash'',
         ''cd /mnt/server'',
         ''mkdir -p /mnt/server''],
      sd_scriptEntry = ''bash'', sd_scriptContainer = ''alpine:latest'',
      sd_variables =
        [(''Startup File'', ''The startup script to run'', ''STARTUP_FILE'', ''start.sh'', ''required|string'')]\<rparr>]\<close>

section \<open>The script\<close>

type_synonym 'd seed_state = "nat \<times> (string \<rightharpoonup> string) \<times> 'd"

fun seed_each :: "('x \<Rightarrow> 's \<Rightarrow> (exn + unit) \<times> 's) \<Rightarrow> 'x list \<Rightarrow> 's \<Rightarrow> (exn + unit) \<times> 's" where
  "seed_each f [] s = (Inr (), s)"
| "seed_each f (x # xs) s = (case f x s of (Inl e, s1) \<Rightarrow> (Inl e, s1) | (Inr u, s1) \<Rightarrow> seed_each f xs s1)"

definition seed_admin ::
  "ext \<Rightarrow> (nat \<Rightarrow> string) \<Rightarrow> nat \<Rightarrow> (string \<Rightarrow> string option) \<Rightarrow> 'z db_scheme seed_state \<Rightarrow> (exn + unit) \<times> 'z db_scheme seed_state" where
  "seed_admin X ids now env = (\<lambda>(k, nests, d).
     let adminEmail = str_or (env ''ADMIN_EMAIL'') ''admin@nexus.local''; adminUser = str_or (env ''ADMIN_USERNAME'') ''admin'';
         adminPass = str_or (env ''ADMIN_PASSWORD'') ''changeme''
     in (case findOne (\<lambda>u. user_email u = adminEmail) (db_users d) of
           Some _ \<Rightarrow> (Inr (), k, nests, d)
         | None \<Rightarrow>
             (case save_user \<lparr>user_id = ids k, user_email = adminEmail, user_username = adminUser, user_password = bcryptHash X 12 adminPass,
                              user_rootAdmin = True, user_usesTotp = False, user_totpSecret = None, user_pendingTotpSecret = None,
                              user_backupCodes = None, user_enabled = True, user_avatarUrl = None, user_lastLogin = None, user_createdAt = now\<rparr> d of
                Inl e \<Rightarrow> (Inl e, k, nests, d)
              | Inr d1 \<Rightarrow> (Inr (), k + 1, nests, d1))))"

definition seed_nest ::
  "(nat \<Rightarrow> string) \<Rightarrow> nat \<Rightarrow> seed_nest_data \<Rightarrow> 'z db_scheme seed_state \<Rightarrow> (exn + unit) \<times> 'z db_scheme seed_state" where
  "seed_nest ids now nd = (\<lambda>(k, nests, d).
     (case findOne (\<lambda>n. nest_name n = sn_name nd) (db_nests d) of
        Some n \<Rightarrow> (Inr (), k, nests(sn_name nd \<mapsto> nest_id n), d)
      | None \<Rightarrow>
          (case save_nest \<lparr>nest_id = ids k, nest_author = sn_author nd, nest_name = sn_name nd,
                           nest_description = Some (sn_description nd), nest_createdAt = now\<rparr> d of
             Inl e \<Rightarrow> (Inl e, k, nests, d)
           | Inr d1 \<Rightarrow> (Inr (), k + 1, nests(sn_name nd \<mapsto> ids k), d1))))"

definition seed_variable ::
  "(nat \<Rightarrow> string) \<Rightarrow> nat \<Rightarrow> string \<Rightarrow> string \<times> string \<times> string \<times> string \<times> string \<Rightarrow> 'z db_scheme seed_state \<Rightarrow>
   (exn + unit) \<times> 'z db_scheme seed_state" where
  "seed_variable ids now eggId = (\<lambda>(name, description, envVariable, defaultValue, rules) (k, nests, d).
     (case save_eggVariable \<lparr>eggvar_id = ids k, eggvar_eggId = eggId, eggvar_name = name, eggvar_description = description,
                             eggvar_envVariable = envVariable, eggvar_defaultValue = defaultValue, eggvar_userViewable = True,
                             eggvar_userEditable = True, eggvar_rules = rules, eggvar_createdAt = now\<rparr> d of
        Inl e \<Rightarrow> (Inl e, k, nests, d)
      | Inr d1 \<Rightarrow> (Inr (), k + 1, nests, d1)))"

definition seed_new_egg :: "string \<Rightarrow> nat \<Rightarrow> string \<Rightarrow> seed_egg_data \<Rightarrow> EggEntity" where
  "seed_new_egg newId now nestId ed =
     \<lparr>egg_id = newId, egg_nestId = nestId, egg_name = sd_name ed, egg_description = Some (sd_description ed), egg_author = sd_author ed,
      egg_dockerImage = sd_dockerImage ed, egg_dockerImages = sd_dockerImages ed, egg_startup = sd_startup ed, egg_configFiles = None,
      egg_configStartup = None, egg_configStop = Some (sd_configStop ed), egg_configLogs = None,
      egg_scriptInstall = Some (sd_scriptInstall ed), egg_scriptEntry = sd_scriptEntry ed, egg_scriptContainer = sd_scriptContainer ed,
      egg_copyScriptFrom = None, egg_createdAt = now\<rparr>"

text \<open>\<open>nest.id\<close> of a nest that is not there throws.\<close>

definition seed_egg ::
  "(nat \<Rightarrow> string) \<Rightarrow> nat \<Rightarrow> seed_egg_data \<Rightarrow> 'z db_scheme seed_state \<Rightarrow> (exn + unit) \<times> 'z db_scheme seed_state" where
  "seed_egg ids now ed = (\<lambda>(k, nests, d).
     (case nests (sd_nestName ed) of
        None \<Rightarrow> (Inl TypeError, k, nests, d)
      | Some nestId \<Rightarrow>
          (case findOne (\<lambda>e. egg_name e = sd_name ed \<and> egg_nestId e = nestId) (db_eggs d) of
             Some _ \<Rightarrow> (Inr (), k, nests, d)
           | None \<Rightarrow>
               (case save_egg (seed_new_egg (ids k) now nestId ed) d of
                  Inl e \<Rightarrow> (Inl e, k, nests, d)
                | Inr d1 \<Rightarrow> seed_each (seed_variable ids now (ids k)) (sd_variables ed) (k + 1, nests, d1)))))"

definition seed_rows ::
  "ext \<Rightarrow> (nat \<Rightarrow> string) \<Rightarrow> nat \<Rightarrow> (string \<Rightarrow> string option) \<Rightarrow> 'z db_scheme seed_state \<Rightarrow> (exn + unit) \<times> 'z db_scheme seed_state" where
  "seed_rows X ids now env s =
     (case seed_admin X ids now env s of
        (Inl e, s1) \<Rightarrow> (Inl e, s1)
      | (Inr u, s1) \<Rightarrow>
          (case seed_each (seed_nest ids now) nestData s1 of
             (Inl e, s2) \<Rightarrow> (Inl e, s2)
           | (Inr u, s2) \<Rightarrow> seed_each (seed_egg ids now) eggData s2))"

definition seed :: "ext \<Rightarrow> (nat \<Rightarrow> string) \<Rightarrow> nat \<Rightarrow> (string \<Rightarrow> string option) \<Rightarrow> 'z db_scheme \<Rightarrow> (seed_failure + unit) \<times> 'z db_scheme" where
  "seed X ids now env d =
     (case initialize_source seed_entities of
        Inl f \<Rightarrow> (Inl f, d)
      | Inr () \<Rightarrow>
          (case seed_rows X ids now env (0, Map.empty, d) of
             (Inl e, _, _, d1) \<Rightarrow> (Inl (Failed e), d1)
           | (Inr u, _, _, d1) \<Rightarrow> (Inr (), d1)))"

end
