(* ===== verification/SeedProps.thy ===== *)
theory SeedProps
  imports Seed ServersProps
begin

text \<open>The seed: why it never runs, what it would do when run again, and that its eggs are sound.\<close>

section \<open>The data source\<close>

text \<open>
  The seed fails before its first query, for every environment and database: its list of
  entities lacks \<open>LocationEntity\<close>, to which \<open>NodeEntity\<close> has a relation.  With that entity in the
  list nothing would be missing.
\<close>

theorem seed_never_runs:
  "seed X ids now env d = (Inl (EntityMetadataNotFound ''LocationEntity''), d) \<and>
   initialize_source (''LocationEntity'' # seed_entities) = Inr ()"
  by (simp add: seed_def initialize_source_def missing_entities_def seed_entities_def relation_targets_def)

section \<open>Running it twice\<close>

text \<open>Rows are only added.\<close>

definition grows :: "'z db_scheme \<Rightarrow> 'z db_scheme \<Rightarrow> bool" where
  "grows d d' \<longleftrightarrow> (\<exists>us ns es. db_users d' = db_users d @ us \<and> db_nests d' = db_nests d @ ns \<and> db_eggs d' = db_eggs d @ es)"

definition ids_of :: "'z db_scheme \<Rightarrow> string set" where
  "ids_of d = user_id ` set (db_users d) \<union> nest_id ` set (db_nests d) \<union> egg_id ` set (db_eggs d)"

definition fresh_ids :: "(nat \<Rightarrow> string) \<Rightarrow> nat \<Rightarrow> 'z db_scheme \<Rightarrow> bool" where
  "fresh_ids ids k d \<longleftrightarrow> inj ids \<and> (\<forall>n \<ge> k. ids n \<notin> ids_of d)"

definition nest_of :: "string \<Rightarrow> 'z db_scheme \<Rightarrow> string option" where
  "nest_of name d = map_option nest_id (findOne (\<lambda>n. nest_name n = name) (db_nests d))"

definition nests_agree :: "(string \<rightharpoonup> string) \<Rightarrow> 'z db_scheme \<Rightarrow> bool" where
  "nests_agree m d \<longleftrightarrow> (\<forall>name i. m name = Some i \<longrightarrow> nest_of name d = Some i)"

definition egg_there :: "seed_egg_data \<Rightarrow> 'z db_scheme \<Rightarrow> bool" where
  "egg_there ed d \<longleftrightarrow>
     (\<exists>i. nest_of (sd_nestName ed) d = Some i \<and> (\<exists>e. findOne (\<lambda>e. egg_name e = sd_name ed \<and> egg_nestId e = i) (db_eggs d) = Some e))"

definition admin_there :: "(string \<Rightarrow> string option) \<Rightarrow> 'z db_scheme \<Rightarrow> bool" where
  "admin_there env d \<longleftrightarrow> (\<exists>u. findOne (\<lambda>u. user_email u = str_or (env ''ADMIN_EMAIL'') ''admin@nexus.local'') (db_users d) = Some u)"

lemma findOne_append: "findOne P t = Some x \<Longrightarrow> findOne P (t @ t') = Some x"
  by (induction t) (auto simp: findOne_def split: if_splits)

lemma grows_refl [simp]: "grows d d"
  by (simp add: grows_def)

lemma grows_trans: "grows d e \<Longrightarrow> grows e f \<Longrightarrow> grows d f"
  by (auto simp: grows_def)

lemma grows_keeps:
  assumes "grows d d'"
  shows "nest_of name d = Some i \<Longrightarrow> nest_of name d' = Some i" "nests_agree m d \<Longrightarrow> nests_agree m d'"
    "egg_there ed d \<Longrightarrow> egg_there ed d'" "admin_there env d \<Longrightarrow> admin_there env d'"
proof -
  obtain us ns es where g: "db_users d' = db_users d @ us" "db_nests d' = db_nests d @ ns" "db_eggs d' = db_eggs d @ es"
    using assms by (auto simp: grows_def)
  show n: "nest_of name d = Some i \<Longrightarrow> nest_of name d' = Some i" for name i
    by (auto simp: nest_of_def g intro: findOne_append)
  then show "nests_agree m d \<Longrightarrow> nests_agree m d'" by (simp add: nests_agree_def)
  show "egg_there ed d \<Longrightarrow> egg_there ed d'" unfolding egg_there_def g by (blast intro: n findOne_append)
  show "admin_there env d \<Longrightarrow> admin_there env d'" unfolding admin_there_def g by (blast intro: findOne_append)
qed

lemma insert_fresh:
  assumes "saveRow key clash refs r t = Inr t'" and "key r \<notin> key ` set t"
  shows "t' = t @ [r]"
proof -
  have "\<not> hasRow (\<lambda>x. key x = key r) t" using assms(2) unfolding hasRow_iff by (metis imageI)
  then show ?thesis using assms(1) by (auto dest!: saveRow_Inr simp: upsertRow_def insertRow_def)
qed

lemma fresh_next: "fresh_ids ids k d \<Longrightarrow> k < k' \<Longrightarrow> ids_of d' \<subseteq> insert (ids k) (ids_of d) \<Longrightarrow> fresh_ids ids k' d'"
  unfolding fresh_ids_def by (metis injD insertE less_le_not_le order_trans order_less_imp_le subsetD)

lemma findOne_new: "findOne P t = None \<Longrightarrow> P r \<Longrightarrow> findOne P (t @ [r]) = Some r"
  by (induction t) (auto simp: findOne_def split: if_splits)

text \<open>What every step of the script keeps: from a state with fresh identifiers the rows grow, the
  identifiers stay fresh, and the nests remembered are those of the table.\<close>

fun seed_inv :: "(nat \<Rightarrow> string) \<Rightarrow> 'z db_scheme seed_state \<Rightarrow> bool" where
  "seed_inv ids (k, m, d) \<longleftrightarrow> fresh_ids ids k d \<and> nests_agree m d"

lemma admin_step:
  assumes "seed_admin X ids now env (k, m, d) = (Inr u, k', m', d')" and "seed_inv ids (k, m, d)"
  shows "seed_inv ids (k', m', d') \<and> grows d d' \<and> admin_there env d'"
proof (cases "findOne (\<lambda>u. user_email u = str_or (env ''ADMIN_EMAIL'') ''admin@nexus.local'') (db_users d)")
  case (Some x)
  then show ?thesis using assms by (auto simp: seed_admin_def Let_def admin_there_def)
next
  case None
  then obtain r t where t: "saveRow user_id user_clash True r (db_users d) = Inr t" "d' = d\<lparr>db_users := t\<rparr>" "k' = k + 1" "m' = m"
    and r: "user_id r = ids k" "user_email r = str_or (env ''ADMIN_EMAIL'') ''admin@nexus.local''"
    using assms(1) by (auto simp: seed_admin_def Let_def save_user_def map_sum_Inr split: sum.splits)
  have "user_id r \<notin> user_id ` set (db_users d)" using assms(2) r(1) by (auto simp: fresh_ids_def ids_of_def)
  then have d': "d' = d\<lparr>db_users := db_users d @ [r]\<rparr>" using insert_fresh [OF t(1)] t(2) by simp
  have "fresh_ids ids (k + 1) d'" by (rule fresh_next [of ids k d]) (use assms(2) r(1) in \<open>auto simp: d' ids_of_def\<close>)
  moreover have "grows d d'" by (auto simp: d' grows_def)
  moreover have "admin_there env d'" using findOne_new [OF None, of r] r(2) by (auto simp: d' admin_there_def)
  ultimately show ?thesis using assms(2) grows_keeps(2) t(3,4) by auto
qed

lemma nest_step:
  assumes "seed_nest ids now nd (k, m, d) = (Inr u, k', m', d')" and "seed_inv ids (k, m, d)"
  shows "seed_inv ids (k', m', d') \<and> grows d d' \<and> nest_of (sn_name nd) d' \<noteq> None"
proof (cases "findOne (\<lambda>n. nest_name n = sn_name nd) (db_nests d)")
  case (Some n)
  then show ?thesis using assms by (auto simp: seed_nest_def nest_of_def nests_agree_def split: if_splits)
next
  case None
  then obtain r t where t: "saveRow nest_id no_clash True r (db_nests d) = Inr t" "d' = d\<lparr>db_nests := t\<rparr>" "k' = k + 1"
      "m' = m(sn_name nd \<mapsto> ids k)" and r: "nest_id r = ids k" "nest_name r = sn_name nd"
    using assms(1) by (auto simp: seed_nest_def save_nest_def map_sum_Inr split: sum.splits)
  have "nest_id r \<notin> nest_id ` set (db_nests d)" using assms(2) r(1) by (auto simp: fresh_ids_def ids_of_def)
  then have d': "d' = d\<lparr>db_nests := db_nests d @ [r]\<rparr>" using insert_fresh [OF t(1)] t(2) by simp
  have "fresh_ids ids (k + 1) d'" by (rule fresh_next [of ids k d]) (use assms(2) r(1) in \<open>auto simp: d' ids_of_def\<close>)
  moreover have g: "grows d d'" by (auto simp: d' grows_def)
  moreover have n: "nest_of (sn_name nd) d' = Some (ids k)" using findOne_new [OF None, of r] r by (simp add: d' nest_of_def)
  moreover have "nests_agree m' d'" using grows_keeps(2) [OF g] assms(2) n by (auto simp: t(4) nests_agree_def)
  ultimately show ?thesis by (simp add: t(3))
qed

lemma seed_each_Inr:
  "seed_each f (x # xs) s = (Inr u, s') \<longleftrightarrow> (\<exists>v s1. f x s = (Inr v, s1) \<and> seed_each f xs s1 = (Inr u, s'))"
  by (auto split: prod.splits sum.splits)

lemma variables_steps:
  assumes "seed_each (seed_variable ids now i) vs (k, m, d) = (Inr u, k', m', d')"
  shows "k \<le> k' \<and> m' = m \<and> db_users d' = db_users d \<and> db_nests d' = db_nests d \<and> db_eggs d' = db_eggs d"
  using assms
proof (induction vs arbitrary: k m d)
  case (Cons v vs)
  then obtain k1 m1 d1 where 1: "seed_variable ids now i v (k, m, d) = (Inr (), k1, m1, d1)"
      and 2: "seed_each (seed_variable ids now i) vs (k1, m1, d1) = (Inr u, k', m', d')"
    unfolding seed_each_Inr by auto
  from 1 have "k1 = k + 1" "m1 = m" "db_users d1 = db_users d" "db_nests d1 = db_nests d" "db_eggs d1 = db_eggs d"
    by (auto simp: seed_variable_def save_eggVariable_def map_sum_Inr split: prod.splits sum.splits)
  then show ?case using Cons.IH [OF 2] by auto
qed simp

lemma egg_step:
  assumes "seed_egg ids now ed (k, m, d) = (Inr u, k', m', d')" and "seed_inv ids (k, m, d)"
  shows "seed_inv ids (k', m', d') \<and> grows d d' \<and> egg_there ed d'"
proof -
  from assms(1) obtain i where i: "m (sd_nestName ed) = Some i" by (auto simp: seed_egg_def split: option.splits)
  then have nest: "nest_of (sd_nestName ed) d = Some i" using assms(2) by (simp add: nests_agree_def)
  show ?thesis
  proof (cases "findOne (\<lambda>e. egg_name e = sd_name ed \<and> egg_nestId e = i) (db_eggs d)")
    case (Some e)
    then show ?thesis using assms i nest by (auto simp: seed_egg_def egg_there_def)
  next
    case None
    let ?e = "seed_new_egg (ids k) now i ed"
    obtain d1 where d1: "save_egg ?e d = Inr d1" and vs: "seed_each (seed_variable ids now (ids k)) (sd_variables ed) (k + 1, m, d1) = (Inr u, k', m', d')"
      using assms(1) i None by (auto simp: seed_egg_def split: sum.splits)
    have id: "egg_id ?e = ids k" by (simp add: seed_new_egg_def)
    then have "egg_id ?e \<notin> egg_id ` set (db_eggs d)" using assms(2) by (auto simp: fresh_ids_def ids_of_def)
    then have e: "d1 = d\<lparr>db_eggs := db_eggs d @ [?e]\<rparr>"
      using d1 by (auto simp: save_egg_def map_sum_Inr dest: insert_fresh)
    note same = variables_steps [OF vs]
    have "fresh_ids ids k' d'" by (rule fresh_next [of ids k d]) (use assms(2) same id in \<open>auto simp: e ids_of_def\<close>)
    moreover have g: "grows d d'" using same by (auto simp: e grows_def)
    moreover have "egg_there ed d'"
      using grows_keeps(1) [OF g nest] findOne_new [OF None, of ?e] same by (auto simp: e egg_there_def seed_new_egg_def)
    ultimately show ?thesis using assms(2) same grows_keeps(2) [OF g] by simp
  qed
qed

lemma seed_each_keeps:
  assumes "seed_each f xs (k, m, d) = (Inr u, k', m', d')" and "seed_inv ids (k, m, d)"
    and step: "\<And>x k m d k' m' d'. f x (k, m, d) = (Inr (), k', m', d') \<Longrightarrow> seed_inv ids (k, m, d) \<Longrightarrow>
      seed_inv ids (k', m', d') \<and> grows d d' \<and> Q x d'"
    and mono: "\<And>x d d'. grows d d' \<Longrightarrow> Q x d \<Longrightarrow> Q x d'"
  shows "seed_inv ids (k', m', d') \<and> grows d d' \<and> (\<forall>x \<in> set xs. Q x d')"
  using assms(1,2)
proof (induction xs arbitrary: k m d)
  case (Cons x xs)
  then obtain k1 m1 d1 where 1: "f x (k, m, d) = (Inr (), k1, m1, d1)" and 2: "seed_each f xs (k1, m1, d1) = (Inr u, k', m', d')"
    unfolding seed_each_Inr by auto
  note a = step [OF 1 Cons.prems(2)] and b = Cons.IH [OF 2]
  show ?case using a b mono [of d1 d' x] grows_trans [of d d1 d'] by auto
qed simp

text \<open>The second run finds everything.\<close>

lemma admin_skipped: "admin_there env d \<Longrightarrow> seed_admin X ids now env (k, m, d) = (Inr (), k, m, d)"
  by (auto simp: seed_admin_def admin_there_def Let_def)

lemma nests_skipped:
  "\<forall>nd \<in> set xs. nest_of (sn_name nd) d \<noteq> None \<Longrightarrow>
   \<exists>m'. seed_each (seed_nest ids now) xs (k, m, d) = (Inr (), k, m', d) \<and>
     (\<forall>name. m' name = (if name \<in> sn_name ` set xs then nest_of name d else m name))"
proof (induction xs arbitrary: m)
  case (Cons nd xs)
  then obtain n where n: "findOne (\<lambda>n. nest_name n = sn_name nd) (db_nests d) = Some n" by (auto simp: nest_of_def)
  then have 1: "seed_nest ids now nd (k, m, d) = (Inr (), k, m(sn_name nd \<mapsto> nest_id n), d)" by (simp add: seed_nest_def)
  from n have found: "nest_of (sn_name nd) d = Some (nest_id n)" by (simp add: nest_of_def)
  have "\<forall>nd \<in> set xs. nest_of (sn_name nd) d \<noteq> None" using Cons.prems by simp
  from Cons.IH [OF this, of "m(sn_name nd \<mapsto> nest_id n)"] obtain m' where
    2: "seed_each (seed_nest ids now) xs (k, m(sn_name nd \<mapsto> nest_id n), d) = (Inr (), k, m', d)"
    and m': "\<forall>name. m' name = (if name \<in> sn_name ` set xs then nest_of name d else (m(sn_name nd \<mapsto> nest_id n)) name)" by blast
  have "seed_each (seed_nest ids now) (nd # xs) (k, m, d) = (Inr (), k, m', d)" using 1 2 by simp
  then show ?case using m' found by (intro exI [of _ m']) auto
qed simp

lemma eggs_skipped:
  "\<forall>ed \<in> set xs. egg_there ed d \<and> m (sd_nestName ed) = nest_of (sd_nestName ed) d \<Longrightarrow>
   seed_each (seed_egg ids now) xs (k, m, d) = (Inr (), k, m, d)"
  by (induction xs) (auto simp: seed_egg_def egg_there_def)

lemma nests_named: "ed \<in> set eggData \<Longrightarrow> sd_nestName ed \<in> sn_name ` set nestData"
  by (auto simp: eggData_def nestData_def)

text \<open>
  C36. Run again after it ended well, at any later time and with any identifiers and the same
  environment, the part of the script that writes rows (\<open>seed_rows\<close>) changes nothing: it finds the administrator, the nests and the eggs it
  made, also in a database that had some of them before.
\<close>

theorem seed_idempotent:
  fixes d :: "'z db_scheme"
  assumes "fresh_ids ids k d" and "seed_rows X ids now env (k, Map.empty, d) = (Inr (), k', m', d')"
  shows "\<exists>m''. seed_rows X ids2 now2 env (k2, Map.empty, d') = (Inr (), k2, m'', d')"
proof -
  obtain k1 m1 and d1 :: "'z db_scheme" and k2' m2 and d2 :: "'z db_scheme"
    where 1: "seed_admin X ids now env (k, Map.empty, d) = (Inr (), k1, m1, d1)"
      and 2: "seed_each (seed_nest ids now) nestData (k1, m1, d1) = (Inr (), k2', m2, d2)"
      and 3: "seed_each (seed_egg ids now) eggData (k2', m2, d2) = (Inr (), k', m', d')"
    using assms(2) unfolding seed_rows_def by (auto split: prod.splits sum.splits)
  have "seed_inv ids (k, Map.empty, d)" using assms(1) by (simp add: nests_agree_def)
  note a = admin_step [OF 1 this]
  have b: "seed_inv ids (k2', m2, d2) \<and> grows d1 d2 \<and> (\<forall>nd \<in> set nestData. nest_of (sn_name nd) d2 \<noteq> None)"
    by (rule seed_each_keeps [OF 2, where Q = "\<lambda>nd d. nest_of (sn_name nd) d \<noteq> None"]) (use a in \<open>auto dest: nest_step grows_keeps(1)\<close>)
  have c: "seed_inv ids (k', m', d') \<and> grows d2 d' \<and> (\<forall>ed \<in> set eggData. egg_there ed d')"
    by (rule seed_each_keeps [OF 3, where Q = egg_there]) (use b in \<open>auto dest: egg_step grows_keeps(3)\<close>)
  have g: "grows d1 d'" using b c grows_trans by blast
  have admin: "admin_there env d'" using a grows_keeps(4) [OF g] by blast
  have nests: "\<forall>nd \<in> set nestData. nest_of (sn_name nd) d' \<noteq> None" using b c grows_keeps(1) by blast
  obtain m'' where m'': "seed_each (seed_nest ids2 now2) nestData (k2, Map.empty, d') = (Inr (), k2, m'', d')"
      "\<forall>name. m'' name = (if name \<in> sn_name ` set nestData then nest_of name d' else None)"
    using nests_skipped [OF nests, of ids2 now2 k2 Map.empty] by auto
  have "seed_each (seed_egg ids2 now2) eggData (k2, m'', d') = (Inr (), k2, m'', d')"
    by (rule eggs_skipped) (use c m''(2) nests_named in auto)
  then show ?thesis by (simp add: seed_rows_def admin_skipped [OF admin] m''(1))
qed

definition seed_ids :: "nat \<Rightarrow> string" where
  "seed_ids n = replicate n (CHR ''i'')"

lemma seed_idempotent_witness:
  "\<exists>m d'. seed_rows demo_ext seed_ids 0 (\<lambda>_. None) (0, Map.empty, empty_db) = (Inr (), 19, m, d') \<and>
     (\<exists>m'. seed_rows demo_ext seed_ids 5 (\<lambda>_. None) (19, Map.empty, d') = (Inr (), 19, m', d'))"
proof -
  obtain r k m d' where 1: "seed_rows demo_ext seed_ids 0 (\<lambda>_. None) (0, Map.empty, empty_db) = (r, k, m, d')" by (metis prod_cases4)
  moreover have "fst (seed_rows demo_ext seed_ids 0 (\<lambda>_. None) (0, Map.empty, empty_db)) = Inr ()" by code_simp
  moreover have "fst (snd (seed_rows demo_ext seed_ids 0 (\<lambda>_. None) (0, Map.empty, empty_db))) = 19" by code_simp
  moreover have "inj seed_ids" by (rule injI) (metis seed_ids_def length_replicate)
  then have "fresh_ids seed_ids 0 empty_db" by (simp add: fresh_ids_def ids_of_def empty_db_def)
  ultimately show ?thesis using seed_idempotent [of seed_ids 0 empty_db demo_ext 0 "\<lambda>_. None" k m d' seed_ids 5 19] by auto
qed

section \<open>The eggs\<close>

text \<open>The two rules of the variables, and the one placeholder of each command.\<close>

lemma seed_rules:
  "v \<noteq> [] \<Longrightarrow> vr_valid (validateVariableValue X n (Some v) ''required|string'')"
  "vr_valid (validateVariableValue X n (Some v) ''nullable|string'')"
proof -
  have "rule_list ''required|string'' = [''required'', ''string'']" "rule_list ''nullable|string'' = [''nullable'', ''string'']"
    "js_trim ''required|string'' \<noteq> []" "js_trim ''nullable|string'' \<noteq> []" by code_simp+
  moreover have "check_rule X b v ''required'' = []" "check_rule X b v ''nullable'' = []" "check_rule X b v ''string'' = []" for b
    by (simp_all add: check_rule_def)
  ultimately show "v \<noteq> [] \<Longrightarrow> vr_valid (validateVariableValue X n (Some v) ''required|string'')"
    "vr_valid (validateVariableValue X n (Some v) ''nullable|string'')"
    by (simp_all add: validateVariableValue_def Let_def)
qed

definition one_hole :: "string \<Rightarrow> segment list" where
  "one_hole s = (let l = takeWhile (\<lambda>c. c \<noteq> CHR ''{'') s in [Lit l, Hole (takeWhile (\<lambda>c. c \<noteq> CHR ''}'') (drop (length l + 2) s))])"

definition defaults :: "seed_egg_data \<Rightarrow> (string \<times> string) list" where
  "defaults ed = map (\<lambda>(name, description, envVariable, defaultValue, rules). (envVariable, defaultValue)) (sd_variables ed)"

lemma seed_egg_rules:
  "list_all (\<lambda>ed. list_all (\<lambda>(n, description, e, v, r). r = ''required|string'' \<and> v \<noteq> [] \<or> r = ''nullable|string'') (sd_variables ed)) eggData"
  by (simp add: eggData_def)

lemma seed_egg_templates:
  "list_all (\<lambda>ed. render (one_hole (sd_startup ed)) = sd_startup ed) eggData"
  "list_all (\<lambda>ed. list_all seg_ok (one_hole (sd_startup ed))) eggData"
  "list_all (\<lambda>ed. list_all (\<lambda>seg. case seg of Lit l \<Rightarrow> True | Hole k \<Rightarrow> k \<in> fst ` set (defaults ed)) (one_hole (sd_startup ed))) eggData"
  by (simp_all add: eggData_def one_hole_def render_def placeholder_def defaults_def)

lemma seed_egg_defaults:
  "list_all (\<lambda>ed. distinct (map fst (defaults ed))) eggData"
  "list_all (\<lambda>ed. list_all (\<lambda>e. plain_value (snd e)) (defaults ed)) eggData"
  "list_all (\<lambda>ed. list_all (\<lambda>e. list_all word_char (fst e)) (defaults ed)) eggData"
  by (simp_all add: eggData_def defaults_def plain_value_def word_char_def digit_val_def)

lemma filled_plain:
  assumes "list_all seg_ok ts" and "list_all (\<lambda>seg. case seg of Lit l \<Rightarrow> True | Hole k \<Rightarrow> k \<in> fst ` set es) ts"
    and "\<forall>e \<in> set es. plain_value (snd e)"
  shows "CHR ''{'' \<notin> set (render (map (fill (map_of es)) ts))"
  using assms
proof (induction ts)
  case (Cons seg ts)
  have "CHR ''{'' \<notin> set (seg_text (fill (map_of es) seg))"
  proof (cases seg)
    case (Hole k)
    then obtain v where v: "map_of es k = Some v" using Cons.prems(2) by (auto simp: map_of_eq_None_iff dest: weak_map_of_SomeI)
    then have "plain_value v" using Cons.prems(3) map_of_SomeD [OF v] by fastforce
    then show ?thesis using v Hole by (simp add: plain_value_def)
  qed (use Cons.prems(1) in simp)
  then show ?case using Cons by (simp add: render_def)
qed (simp add: render_def)

text \<open>
  C37. The eggs of the seed are sound: the default of every variable passes the rules of that
  variable, and a server created with the defaults alone gets a startup command without an open
  placeholder.
\<close>

theorem seed_eggs_sound:
  assumes "ed \<in> set eggData"
  shows "(\<forall>(name, description, envVariable, defaultValue, rules) \<in> set (sd_variables ed).
      vr_valid (validateVariableValue X name (Some defaultValue) rules)) \<and>
    (\<exists>command. build_startup X (sd_startup ed) (defaults ed) = Some command \<and> CHR ''{'' \<notin> set command)"
proof -
  have f: "list_all (\<lambda>(n, description, e, v, r). r = ''required|string'' \<and> v \<noteq> [] \<or> r = ''nullable|string'') (sd_variables ed)"
    "render (one_hole (sd_startup ed)) = sd_startup ed" "list_all seg_ok (one_hole (sd_startup ed))"
    "list_all (\<lambda>seg. case seg of Lit l \<Rightarrow> True | Hole k \<Rightarrow> k \<in> fst ` set (defaults ed)) (one_hole (sd_startup ed))"
    "distinct (map fst (defaults ed))" "list_all (\<lambda>e. plain_value (snd e)) (defaults ed)" "list_all (\<lambda>e. list_all word_char (fst e)) (defaults ed)"
    using seed_egg_rules seed_egg_templates seed_egg_defaults assms by (simp_all add: list_all_iff)
  let ?ts = "one_hole (sd_startup ed)" and ?es = "js_entries (defaults ed)"
  have es: "distinct (map fst ?es)" "map_of ?es = map_of (defaults ed)" "set ?es = set (defaults ed)"
    using js_entries_distinct [OF f(5)] js_entries_map_of [OF f(5)] by simp_all
  have "build_startup X (render ?ts) (defaults ed) = Some (render (map (fill (map_of ?es)) ?ts))"
    unfolding build_startup_def by (rule substitute_all_render) (use es f in \<open>simp_all add: list_all_iff\<close>)
  moreover have "CHR ''{'' \<notin> set (render (map (fill (map_of ?es)) ?ts))"
    by (rule filled_plain [OF f(3)]) (use f(4,6) in \<open>simp_all only: es(3), auto simp: list_all_iff\<close>)
  moreover have "vr_valid (validateVariableValue X n (Some v) r)" if "(n, description, e, v, r) \<in> set (sd_variables ed)" for n description e v r
  proof -
    have "r = ''required|string'' \<and> v \<noteq> [] \<or> r = ''nullable|string''" using that f(1) by (auto simp: list_all_iff)
    then show ?thesis using seed_rules by blast
  qed
  ultimately show ?thesis using f(2) by fastforce
qed

lemma seed_eggs_sound_witness:
  "\<exists>command. build_startup demo_ext (sd_startup (hd eggData)) (defaults (hd eggData)) = Some command \<and> CHR ''{'' \<notin> set command"
proof -
  have "hd eggData \<in> set eggData" by (rule hd_in_set) (simp add: eggData_def)
  then show ?thesis using seed_eggs_sound by blast
qed

end
