(* ===== verification/WebApi.thy ===== *)
theory WebApi
  imports Enums Entities External
begin

text \<open>
  The seam between the browser and the backend: the routes that the controllers declare, how
  a request finds one, and every request that the pages and \<^verbatim>\<open>api/*.ts\<close> of the frontend make.
  Paths are below \<open>/api/v1\<close>, the prefix on both sides.
\<close>

section \<open>Routes\<close>

datatype http_method = GET | POST | PUT | PATCH | DELETE

datatype path_part = Lit string | Param

text \<open>
  A controller is its class, the prefix of \<open>@Controller\<close> and its decorated methods in their
  order; a part of the path that starts with a colon is a parameter.
\<close>

type_synonym route = "http_method \<times> path_part list \<times> string"

definition pattern :: "string \<Rightarrow> path_part list" where
  "pattern path = map (\<lambda>p. if hd p = CHR '':'' then Param else Lit p) (filter (\<lambda>p. p \<noteq> []) (js_split (CHR ''/'') path))"

definition controller :: "string \<Rightarrow> string \<Rightarrow> (http_method \<times> string \<times> string) list \<Rightarrow> route list" where
  "controller name base_path methods =
     map (\<lambda>(m, path, method). (m, pattern (base_path @ ''/'' @ path), name @ ''.'' @ method)) methods"

definition AuthController_routes :: "route list" where
  "AuthController_routes = controller ''AuthController'' ''auth''
     [(POST, ''register'', ''register''), (POST, ''login'', ''login''), (POST, ''refresh'', ''refresh''),
      (POST, ''logout'', ''logout''), (GET, ''me'', ''me''), (POST, ''2fa/setup'', ''setupTwoFactor''),
      (POST, ''2fa/verify'', ''verifyTwoFactor''), (POST, ''2fa/disable'', ''disableTwoFactor''),
      (POST, ''2fa/login'', ''verifyTwoFactorLogin''), (GET, ''sessions'', ''getSessions''),
      (DELETE, ''sessions/:id'', ''revokeSession'')]"

definition UsersController_routes :: "route list" where
  "UsersController_routes = controller ''UsersController'' ''users''
     [(GET, ''me'', ''getMe''), (PUT, ''me'', ''updateMe''), (GET, [], ''findAll''), (GET, '':id'', ''findById''),
      (POST, [], ''create''), (PUT, '':id'', ''update''), (DELETE, '':id'', ''delete'')]"

definition ServersController_routes :: "route list" where
  "ServersController_routes = controller ''ServersController'' ''servers''
     [(GET, [], ''findAll''), (GET, '':uuid'', ''findByUuid''), (POST, [], ''create''), (PUT, '':uuid'', ''update''),
      (DELETE, '':uuid'', ''delete''), (POST, '':uuid/power'', ''power''), (POST, '':uuid/command'', ''sendCommand''),
      (POST, '':uuid/suspend'', ''suspend''), (POST, '':uuid/unsuspend'', ''unsuspend''),
      (POST, '':uuid/reinstall'', ''reinstall'')]"

definition ServerCallbacksController_routes :: "route list" where
  "ServerCallbacksController_routes = controller ''ServerCallbacksController'' ''servers''
     [(POST, '':uuid/install-status'', ''installStatus'')]"

definition NodesController_routes :: "route list" where
  "NodesController_routes = controller ''NodesController'' ''nodes''
     [(POST, ''heartbeat'', ''heartbeat''), (GET, ''configuration'', ''getConfiguration''), (GET, [], ''findAll''),
      (GET, '':id'', ''findById''), (GET, '':id/health'', ''getHealth''), (POST, [], ''create''),
      (POST, '':id/regenerate-token'', ''regenerateToken''), (PUT, '':id'', ''update''), (DELETE, '':id'', ''delete'')]"

definition AllocationsController_routes :: "route list" where
  "AllocationsController_routes = controller ''AllocationsController'' ''allocations''
     [(GET, [], ''findByNode''), (POST, [], ''create''), (DELETE, '':id'', ''delete'')]"

definition EggsController_routes :: "route list" where
  "EggsController_routes = controller ''EggsController'' []
     [(GET, ''nests'', ''findAllNests''), (POST, ''nests'', ''createNest''), (GET, ''eggs'', ''findAllEggs''),
      (GET, ''eggs/:id'', ''findEggById''), (POST, ''eggs'', ''createEgg''), (PUT, ''eggs/:id'', ''updateEgg''),
      (DELETE, ''eggs/:id'', ''deleteEgg''), (POST, ''eggs/import'', ''importEgg''),
      (GET, ''eggs/:id/export'', ''exportEgg'')]"

definition FilesController_routes :: "route list" where
  "FilesController_routes = controller ''FilesController'' ''servers/:uuid/files''
     [(GET, [], ''listDirectory''), (GET, ''read'', ''readFile''), (POST, ''write'', ''writeFile''),
      (POST, ''directory'', ''createDirectory''), (POST, ''rename'', ''rename''), (POST, ''delete'', ''deleteFiles''),
      (POST, ''compress'', ''compress''), (POST, ''decompress'', ''decompress''), (POST, ''upload'', ''upload'')]"

definition DatabasesController_routes :: "route list" where
  "DatabasesController_routes = controller ''DatabasesController'' ''servers/:uuid/databases''
     [(GET, [], ''findByServer''), (POST, [], ''create''), (DELETE, '':id'', ''delete'')]"

definition SchedulesController_routes :: "route list" where
  "SchedulesController_routes = controller ''SchedulesController'' ''servers/:uuid/schedules''
     [(GET, [], ''findByServer''), (GET, '':id'', ''findById''), (POST, [], ''create''), (PUT, '':id'', ''update''),
      (DELETE, '':id'', ''delete''), (POST, '':id/execute'', ''execute'')]"

definition SubusersController_routes :: "route list" where
  "SubusersController_routes = controller ''SubusersController'' ''servers/:uuid/subusers''
     [(GET, [], ''findByServer''), (POST, [], ''invite''), (PUT, '':id'', ''update''), (DELETE, '':id'', ''remove'')]"

definition ApiKeysController_routes :: "route list" where
  "ApiKeysController_routes = controller ''ApiKeysController'' ''api-keys''
     [(GET, [], ''findAll''), (POST, [], ''create''), (DELETE, '':id'', ''delete'')]"

definition AuditLogController_routes :: "route list" where
  "AuditLogController_routes = controller ''AuditLogController'' ''admin/audit-log''
     [(GET, [], ''findAll'')]"

definition NotificationsController_routes :: "route list" where
  "NotificationsController_routes = controller ''NotificationsController'' ''notifications''
     [(GET, [], ''findAll''), (GET, ''unread-count'', ''unreadCount''), (POST, ''read'', ''markRead''),
      (POST, ''read-all'', ''markAllRead'')]"

definition SearchController_routes :: "route list" where
  "SearchController_routes = controller ''SearchController'' ''search''
     [(GET, [], ''search'')]"

definition AdminController_routes :: "route list" where
  "AdminController_routes = controller ''AdminController'' ''admin''
     [(GET, ''dashboard'', ''getDashboard''), (POST, ''impersonate/:userId'', ''impersonate'')]"

definition AdminNodesController_routes :: "route list" where
  "AdminNodesController_routes = controller ''AdminNodesController'' ''admin/nodes''
     [(GET, [], ''findAll''), (GET, '':id'', ''findById''), (POST, [], ''create''), (PUT, '':id'', ''update''),
      (DELETE, '':id'', ''delete'')]"

definition AdminUsersController_routes :: "route list" where
  "AdminUsersController_routes = controller ''AdminUsersController'' ''admin/users''
     [(GET, [], ''findAll''), (GET, '':id'', ''findById''), (POST, [], ''create''), (PUT, '':id'', ''update''),
      (DELETE, '':id'', ''delete'')]"

definition AdminAllocationsController_routes :: "route list" where
  "AdminAllocationsController_routes = controller ''AdminAllocationsController'' ''admin/nodes/:nodeId/allocations''
     [(GET, [], ''findByNode''), (POST, [], ''create''), (DELETE, '':id'', ''delete''),
      (POST, ''bulk-delete'', ''bulkDelete'')]"

definition SseController_routes :: "route list" where
  "SseController_routes = controller ''SseController'' ''sse''
     [(GET, [], ''sse'')]"

definition LocationsController_routes :: "route list" where
  "LocationsController_routes = controller ''LocationsController'' ''admin/locations''
     [(GET, [], ''findAll''), (GET, '':id'', ''findById''), (POST, [], ''create''), (PUT, '':id'', ''update''),
      (DELETE, '':id'', ''delete'')]"

text \<open>In the order of the modules in \<^verbatim>\<open>app.module.ts\<close>.\<close>

definition routes :: "route list" where
  "routes = concat
     [AuthController_routes,
      UsersController_routes,
      ServersController_routes,
      ServerCallbacksController_routes,
      NodesController_routes,
      AllocationsController_routes,
      EggsController_routes,
      FilesController_routes,
      DatabasesController_routes,
      SchedulesController_routes,
      SubusersController_routes,
      ApiKeysController_routes,
      AuditLogController_routes,
      NotificationsController_routes,
      SearchController_routes,
      AdminController_routes,
      AdminNodesController_routes,
      AdminUsersController_routes,
      AdminAllocationsController_routes,
      SseController_routes,
      LocationsController_routes]"

section \<open>Matching\<close>

text \<open>
  As Express matches by default: letters in either case (the literals of the source have small
  ones), a slash at the end is no part of the path, a parameter is any part that is not empty;
  the first route wins.
\<close>

definition ascii_lower :: "char \<Rightarrow> char" where
  "ascii_lower c = (let n = of_char c :: nat in if 65 \<le> n \<and> n \<le> 90 then char_of (n + 32) else c)"

definition path_parts :: "string \<Rightarrow> string list" where
  "path_parts path =
     (let parts = tl (js_split (CHR ''/'') (takeWhile (\<lambda>c. c \<noteq> CHR ''?'' \<and> c \<noteq> CHR ''#'') (map ascii_lower path)))
      in if parts \<noteq> [] \<and> last parts = [] then butlast parts else parts)"

fun part_matches :: "path_part \<Rightarrow> string \<Rightarrow> bool" where
  "part_matches (Lit l) s = (l = s)"
| "part_matches Param s = (s \<noteq> [])"

fun parts_match :: "path_part list \<Rightarrow> string list \<Rightarrow> bool" where
  "parts_match [] [] = True"
| "parts_match (p # ps) (s # ss) = (if part_matches p s then parts_match ps ss else False)"
| "parts_match _ _ = False"

fun route_matches :: "http_method \<Rightarrow> string list \<Rightarrow> route \<Rightarrow> bool" where
  "route_matches m parts (m', ps, handler) = (if m' = m then parts_match ps parts else False)"

definition dispatch :: "http_method \<Rightarrow> string \<Rightarrow> string option" where
  "dispatch m path = map_option (\<lambda>(m', ps, handler). handler) (find (route_matches m (path_parts path)) routes)"

section \<open>The requests of the frontend\<close>

text \<open>Method and path of each function of \<^verbatim>\<open>api/*.ts\<close>; the
  identifiers of type \<open>'i\<close> are put into the path as they are.\<close>

datatype 'i AuthCall =
    AuthLogin | AuthRegister | AuthRefresh | AuthLogout | AuthMe | Setup2FA | Verify2FA | Disable2FA | ListSessions
  | RevokeSession 'i

fun authApi :: "string AuthCall \<Rightarrow> http_method \<times> string" where
  "authApi AuthLogin = (POST, ''/auth/login'')"
| "authApi AuthRegister = (POST, ''/auth/register'')"
| "authApi AuthRefresh = (POST, ''/auth/refresh'')"
| "authApi AuthLogout = (POST, ''/auth/logout'')"
| "authApi AuthMe = (GET, ''/auth/me'')"
| "authApi Setup2FA = (POST, ''/auth/2fa/setup'')"
| "authApi Verify2FA = (POST, ''/auth/2fa/verify'')"
| "authApi Disable2FA = (POST, ''/auth/2fa/disable'')"
| "authApi ListSessions = (GET, ''/auth/sessions'')"
| "authApi (RevokeSession i) = (DELETE, ''/auth/sessions/'' @ i)"

datatype 'i EggsCall =
    EggsList | EggsGet 'i | EggsCreate | EggsUpdate 'i | EggsDelete 'i | EggsImport | EggsExport 'i

fun eggsApi :: "string EggsCall \<Rightarrow> http_method \<times> string" where
  "eggsApi EggsList = (GET, ''/admin/eggs'')"
| "eggsApi (EggsGet i) = (GET, ''/admin/eggs/'' @ i)"
| "eggsApi EggsCreate = (POST, ''/admin/eggs'')"
| "eggsApi (EggsUpdate i) = (PATCH, ''/admin/eggs/'' @ i)"
| "eggsApi (EggsDelete i) = (DELETE, ''/admin/eggs/'' @ i)"
| "eggsApi EggsImport = (POST, ''/admin/eggs/import'')"
| "eggsApi (EggsExport i) = (GET, ''/admin/eggs/'' @ i @ ''/export'')"

datatype 'i FilesCall =
    FilesList 'i | FilesContents 'i | FilesSave 'i | FilesRename 'i | FilesCopy 'i
  | FilesCompress 'i | FilesDecompress 'i | FilesDelete 'i | FilesCreateDirectory 'i
  | FilesUploadUrl 'i | FilesDownloadUrl 'i

fun filesApi :: "string FilesCall \<Rightarrow> http_method \<times> string" where
  "filesApi (FilesList u) = (GET, ''/servers/'' @ u @ ''/files/list'')"
| "filesApi (FilesContents u) = (GET, ''/servers/'' @ u @ ''/files/contents'')"
| "filesApi (FilesSave u) = (POST, ''/servers/'' @ u @ ''/files/write'')"
| "filesApi (FilesRename u) = (PUT, ''/servers/'' @ u @ ''/files/rename'')"
| "filesApi (FilesCopy u) = (POST, ''/servers/'' @ u @ ''/files/copy'')"
| "filesApi (FilesCompress u) = (POST, ''/servers/'' @ u @ ''/files/compress'')"
| "filesApi (FilesDecompress u) = (POST, ''/servers/'' @ u @ ''/files/decompress'')"
| "filesApi (FilesDelete u) = (POST, ''/servers/'' @ u @ ''/files/delete'')"
| "filesApi (FilesCreateDirectory u) = (POST, ''/servers/'' @ u @ ''/files/create-directory'')"
| "filesApi (FilesUploadUrl u) = (GET, ''/servers/'' @ u @ ''/files/upload'')"
| "filesApi (FilesDownloadUrl u) = (GET, ''/servers/'' @ u @ ''/files/download'')"

datatype 'i LocationsCall =
    LocationsList | LocationsCreate | LocationsUpdate 'i | LocationsDelete 'i

fun locationsApi :: "string LocationsCall \<Rightarrow> http_method \<times> string" where
  "locationsApi LocationsList = (GET, ''/admin/locations'')"
| "locationsApi LocationsCreate = (POST, ''/admin/locations'')"
| "locationsApi (LocationsUpdate i) = (PUT, ''/admin/locations/'' @ i)"
| "locationsApi (LocationsDelete i) = (DELETE, ''/admin/locations/'' @ i)"

datatype 'i NestsCall =
    NestsList | NestsGet 'i

fun nestsApi :: "string NestsCall \<Rightarrow> http_method \<times> string" where
  "nestsApi NestsList = (GET, ''/nests'')"
| "nestsApi (NestsGet i) = (GET, ''/nests/'' @ i)"

datatype 'i NodesCall =
    NodesList | NodesGet 'i | NodesCreate | NodesUpdate 'i | NodesDelete 'i | NodesConfig 'i
  | NodesAllocations 'i | NodesCreateAllocation 'i | NodesDeleteAllocation 'i 'i

fun nodesApi :: "string NodesCall \<Rightarrow> http_method \<times> string" where
  "nodesApi NodesList = (GET, ''/admin/nodes'')"
| "nodesApi (NodesGet i) = (GET, ''/admin/nodes/'' @ i)"
| "nodesApi NodesCreate = (POST, ''/admin/nodes'')"
| "nodesApi (NodesUpdate i) = (PATCH, ''/admin/nodes/'' @ i)"
| "nodesApi (NodesDelete i) = (DELETE, ''/admin/nodes/'' @ i)"
| "nodesApi (NodesConfig i) = (GET, ''/admin/nodes/'' @ i @ ''/config'')"
| "nodesApi (NodesAllocations i) = (GET, ''/admin/nodes/'' @ i @ ''/allocations'')"
| "nodesApi (NodesCreateAllocation i) = (POST, ''/admin/nodes/'' @ i @ ''/allocations'')"
| "nodesApi (NodesDeleteAllocation i j) = (DELETE, ''/admin/nodes/'' @ i @ ''/allocations/'' @ j)"

datatype 'i NotificationsCall =
    NotificationsList | NotificationsMarkRead 'i | NotificationsMarkAllRead | NotificationsUnreadCount

fun notificationsApi :: "string NotificationsCall \<Rightarrow> http_method \<times> string" where
  "notificationsApi NotificationsList = (GET, ''/notifications'')"
| "notificationsApi (NotificationsMarkRead i) = (POST, ''/notifications/'' @ i @ ''/read'')"
| "notificationsApi NotificationsMarkAllRead = (POST, ''/notifications/read-all'')"
| "notificationsApi NotificationsUnreadCount = (GET, ''/notifications/unread-count'')"

datatype 'i ServersCall =
    ServersList | ServersGet 'i | ServersCreate | ServersUpdate 'i | ServersDelete 'i | SendPower 'i
  | SendCommand 'i | GetResources 'i | GetStartup 'i | UpdateStartup 'i | GetDatabases 'i
  | CreateDatabase 'i | DeleteDatabase 'i 'i | RotatePassword 'i 'i | GetSchedules 'i
  | CreateSchedule 'i | UpdateSchedule 'i 'i | DeleteSchedule 'i 'i | GetSubusers 'i
  | AddSubuser 'i | UpdateSubuser 'i 'i | RemoveSubuser 'i 'i | GetSettings 'i
  | UpdateSettings 'i | Reinstall 'i

fun serversApi :: "string ServersCall \<Rightarrow> http_method \<times> string" where
  "serversApi ServersList = (GET, ''/servers'')"
| "serversApi (ServersGet u) = (GET, ''/servers/'' @ u)"
| "serversApi ServersCreate = (POST, ''/servers'')"
| "serversApi (ServersUpdate u) = (PATCH, ''/servers/'' @ u)"
| "serversApi (ServersDelete u) = (DELETE, ''/servers/'' @ u)"
| "serversApi (SendPower u) = (POST, ''/servers/'' @ u @ ''/power'')"
| "serversApi (SendCommand u) = (POST, ''/servers/'' @ u @ ''/command'')"
| "serversApi (GetResources u) = (GET, ''/servers/'' @ u @ ''/resources'')"
| "serversApi (GetStartup u) = (GET, ''/servers/'' @ u @ ''/startup'')"
| "serversApi (UpdateStartup u) = (PUT, ''/servers/'' @ u @ ''/startup'')"
| "serversApi (GetDatabases u) = (GET, ''/servers/'' @ u @ ''/databases'')"
| "serversApi (CreateDatabase u) = (POST, ''/servers/'' @ u @ ''/databases'')"
| "serversApi (DeleteDatabase u i) = (DELETE, ''/servers/'' @ u @ ''/databases/'' @ i)"
| "serversApi (RotatePassword u i) = (POST, ''/servers/'' @ u @ ''/databases/'' @ i @ ''/rotate-password'')"
| "serversApi (GetSchedules u) = (GET, ''/servers/'' @ u @ ''/schedules'')"
| "serversApi (CreateSchedule u) = (POST, ''/servers/'' @ u @ ''/schedules'')"
| "serversApi (UpdateSchedule u i) = (PUT, ''/servers/'' @ u @ ''/schedules/'' @ i)"
| "serversApi (DeleteSchedule u i) = (DELETE, ''/servers/'' @ u @ ''/schedules/'' @ i)"
| "serversApi (GetSubusers u) = (GET, ''/servers/'' @ u @ ''/subusers'')"
| "serversApi (AddSubuser u) = (POST, ''/servers/'' @ u @ ''/subusers'')"
| "serversApi (UpdateSubuser u i) = (PUT, ''/servers/'' @ u @ ''/subusers/'' @ i)"
| "serversApi (RemoveSubuser u i) = (DELETE, ''/servers/'' @ u @ ''/subusers/'' @ i)"
| "serversApi (GetSettings u) = (GET, ''/servers/'' @ u @ ''/settings'')"
| "serversApi (UpdateSettings u) = (PATCH, ''/servers/'' @ u @ ''/settings'')"
| "serversApi (Reinstall u) = (POST, ''/servers/'' @ u @ ''/settings/reinstall'')"

text \<open>What pages request without those.\<close>

datatype 'i PageCall =
    SearchGlobal | AuditLogList | OverviewGet | UsersList | UsersCreate | UsersUpdate 'i | UsersDelete 'i
  | NestEggsList | EggGet 'i | AdminServersList | ApiKeysList | ApiKeysCreate | ApiKeysDelete 'i | AccountUpdate
  | AccountPassword

fun apiClient :: "string PageCall \<Rightarrow> http_method \<times> string" where
  "apiClient SearchGlobal = (GET, ''/search'')"
| "apiClient AuditLogList = (GET, ''/admin/audit-log'')"
| "apiClient OverviewGet = (GET, ''/admin/overview'')"
| "apiClient UsersList = (GET, ''/admin/users'')"
| "apiClient UsersCreate = (POST, ''/admin/users'')"
| "apiClient (UsersUpdate i) = (PATCH, ''/admin/users/'' @ i)"
| "apiClient (UsersDelete i) = (DELETE, ''/admin/users/'' @ i)"
| "apiClient NestEggsList = (GET, ''/eggs'')"
| "apiClient (EggGet i) = (GET, ''/eggs/'' @ i)"
| "apiClient AdminServersList = (GET, ''/admin/servers'')"
| "apiClient ApiKeysList = (GET, ''/account/api-keys'')"
| "apiClient ApiKeysCreate = (POST, ''/account/api-keys'')"
| "apiClient (ApiKeysDelete i) = (DELETE, ''/account/api-keys/'' @ i)"
| "apiClient AccountUpdate = (PATCH, ''/account'')"
| "apiClient AccountPassword = (PUT, ''/account/password'')"

datatype 'i web_call =
    CallAuth "'i AuthCall" | CallEggs "'i EggsCall" | CallFiles "'i FilesCall" | CallLocations "'i LocationsCall" | CallNests "'i NestsCall" | CallNodes "'i NodesCall" | CallNotifications "'i NotificationsCall" | CallServers "'i ServersCall" | CallPage "'i PageCall"

fun web_request :: "string web_call \<Rightarrow> http_method \<times> string" where
  "web_request (CallAuth c) = authApi c"
| "web_request (CallEggs c) = eggsApi c"
| "web_request (CallFiles c) = filesApi c"
| "web_request (CallLocations c) = locationsApi c"
| "web_request (CallNests c) = nestsApi c"
| "web_request (CallNodes c) = nodesApi c"
| "web_request (CallNotifications c) = notificationsApi c"
| "web_request (CallServers c) = serversApi c"
| "web_request (CallPage c) = apiClient c"

text \<open>
  An identifier that is one part of a path.  Those of the backend are UUIDs; the dot segments, which a
  browser resolves, the backslash and the percent sign are in none of them and not treated here.
\<close>

definition id_ok :: "string \<Rightarrow> bool" where
  "id_ok i \<longleftrightarrow> i \<noteq> [] \<and> set i \<inter> {CHR ''/'', CHR ''?'', CHR ''#''} = {}"

end
