(* ===== verification/WebForms.thy ===== *)
theory WebForms
  imports WebApi WebClient Locations
begin

text \<open>
  The forms of the pages, against the DTO classes of the backend: what a handler of a page
  sends, and what the \<open>ValidationPipe\<close> of \<^verbatim>\<open>main.ts\<close> makes of it.
\<close>

section \<open>The validation pipe\<close>

text \<open>The decorators of class-validator that the DTOs use, on a property that may be missing.\<close>

datatype validator =
    IsString | IsNotEmpty | IsNumber | IsBoolean | IsObject | IsUUID | IsEmail | IsArray
  | MinOf int | MinLength nat | IsIn "string list" | EachString | EachIn "string list"
  | NestedEach "(string \<times> bool \<times> validator list) list"

text \<open>A class: its properties, whether \<open>@IsOptional\<close>, and their decorators.\<close>

type_synonym schema = "(string \<times> bool \<times> validator list) list"

fun is_string :: "json \<Rightarrow> bool" where
  "is_string (JStr s) = True"
| "is_string _ = False"

fun one_of :: "string list \<Rightarrow> json \<Rightarrow> bool" where
  "one_of vs (JStr s) = (s \<in> set vs)"
| "one_of vs _ = False"

text \<open>\<open>each: true\<close> looks at the elements of an array, at any other value itself.\<close>

definition each :: "(json \<Rightarrow> bool) \<Rightarrow> json option \<Rightarrow> bool" where
  "each p v = (case v of None \<Rightarrow> False | Some (JArr xs) \<Rightarrow> list_all p xs | Some x \<Rightarrow> p x)"

fun passes :: "ext \<Rightarrow> validator \<Rightarrow> json option \<Rightarrow> bool" where
  "passes X IsString v = (case v of Some (JStr s) \<Rightarrow> True | _ \<Rightarrow> False)"
| "passes X IsNotEmpty v = (v \<noteq> None \<and> v \<noteq> Some JNull \<and> v \<noteq> Some (JStr []))"
| "passes X IsNumber v = (case v of Some (JNum n) \<Rightarrow> True | _ \<Rightarrow> False)"
| "passes X IsBoolean v = (case v of Some (JBool b) \<Rightarrow> True | _ \<Rightarrow> False)"
| "passes X IsObject v = (case v of Some (JObj kvs) \<Rightarrow> True | _ \<Rightarrow> False)"
| "passes X IsUUID v = (case v of Some (JStr s) \<Rightarrow> isUUID X s | _ \<Rightarrow> False)"
| "passes X IsEmail v = (case v of Some (JStr s) \<Rightarrow> isEmail X s | _ \<Rightarrow> False)"
| "passes X IsArray v = (case v of Some (JArr xs) \<Rightarrow> True | _ \<Rightarrow> False)"
| "passes X (MinOf m) v = (case v of Some (JNum n) \<Rightarrow> m \<le> n | _ \<Rightarrow> False)"
| "passes X (MinLength m) v = (case v of Some (JStr s) \<Rightarrow> m \<le> length s | _ \<Rightarrow> False)"
| "passes X (IsIn vs) v = (case v of Some x \<Rightarrow> one_of vs x | None \<Rightarrow> False)"
| "passes X EachString v = each is_string v"
| "passes X (EachIn vs) v = each (one_of vs) v"
| "passes X (NestedEach props) v =
     each (\<lambda>x. case x of
         JObj kvs \<Rightarrow>
           list_all (\<lambda>(k, y). k \<in> fst ` set props) kvs \<and>
           list_all (\<lambda>(k, optional, vs).
             optional \<and> map_of kvs k \<in> {None, Some JNull} \<or> list_all (\<lambda>c. passes X c (map_of kvs k)) vs) props
       | _ \<Rightarrow> False) v"

definition field_ok :: "ext \<Rightarrow> (string \<times> json) list \<Rightarrow> string \<times> bool \<times> validator list \<Rightarrow> bool" where
  "field_ok X body = (\<lambda>(k, optional, vs).
     optional \<and> map_of body k \<in> {None, Some JNull} \<or> list_all (\<lambda>c. passes X c (map_of body k)) vs)"

text \<open>\<open>whitelist\<close> with \<open>forbidNonWhitelisted\<close>: no property that the class does not have.\<close>

definition ValidationPipe :: "ext \<Rightarrow> schema \<Rightarrow> (string \<times> json) list \<Rightarrow> bool" where
  "ValidationPipe X schema body \<longleftrightarrow> list_all (\<lambda>(k, v). k \<in> fst ` set schema) body \<and> list_all (field_ok X body) schema"

section \<open>The classes\<close>

definition CreateNodeDto_schema :: schema where
  "CreateNodeDto_schema =
     [(''name'', False, [IsString, IsNotEmpty]), (''description'', True, [IsString]), (''location'', False, [IsString, IsNotEmpty]),
      (''fqdn'', False, [IsString, IsNotEmpty]), (''scheme'', False, [IsString, IsIn [''http'', ''https'']]),
      (''behindProxy'', True, [IsBoolean]), (''memory'', False, [IsNumber, MinOf 1]), (''memoryOverallocate'', True, [IsNumber]),
      (''disk'', False, [IsNumber, MinOf 1]), (''diskOverallocate'', True, [IsNumber]),
      (''daemonPort'', True, [IsNumber, MinOf 1]), (''uploadSize'', True, [IsNumber, MinOf 1])]"

definition CreateNodeAllocationsDto_schema :: schema where
  "CreateNodeAllocationsDto_schema =
     [(''ip'', False, [IsString, IsNotEmpty]), (''portStart'', False, [IsNumber, MinOf 1024]),
      (''portEnd'', False, [IsNumber, MinOf 1024]), (''ipAlias'', True, [IsString])]"

definition CreateUserDto_schema :: schema where
  "CreateUserDto_schema =
     [(''email'', False, [IsEmail]), (''username'', False, [IsString, IsNotEmpty, MinLength 3]),
      (''password'', False, [IsString, MinLength 8]), (''rootAdmin'', True, [IsBoolean])]"

definition CreateLocationDto_schema :: schema where
  "CreateLocationDto_schema = [(''short'', False, [IsString, IsNotEmpty]), (''long'', False, [IsString, IsNotEmpty])]"

definition UpdateLocationDto_schema :: schema where
  "UpdateLocationDto_schema = [(''short'', True, [IsString]), (''long'', True, [IsString])]"

definition CreateDatabaseDto_schema :: schema where
  "CreateDatabaseDto_schema =
     [(''database'', True, [IsString]), (''databaseHostId'', False, [IsUUID]), (''remote'', True, [IsString]),
      (''maxConnections'', True, [IsNumber])]"

definition ScheduleTaskDto_schema :: schema where
  "ScheduleTaskDto_schema =
     [(''sequence'', False, [IsNumber]), (''action'', False, [IsIn [''command'', ''power'', ''backup'']]),
      (''payload'', False, [IsString, IsNotEmpty]), (''timeOffset'', True, [IsNumber])]"

definition CreateScheduleDto_schema :: schema where
  "CreateScheduleDto_schema =
     [(''name'', False, [IsString, IsNotEmpty]), (''cronMinute'', False, [IsString, IsNotEmpty]), (''cronHour'', False, [IsString, IsNotEmpty]),
      (''cronDayOfMonth'', False, [IsString, IsNotEmpty]), (''cronMonth'', False, [IsString, IsNotEmpty]),
      (''cronDayOfWeek'', False, [IsString, IsNotEmpty]), (''isActive'', False, [IsBoolean]),
      (''tasks'', False, [IsArray, NestedEach ScheduleTaskDto_schema])]"

definition UpdateScheduleDto_schema :: schema where
  "UpdateScheduleDto_schema =
     [(''name'', True, [IsString]), (''cronMinute'', True, [IsString]), (''cronHour'', True, [IsString]), (''cronDayOfMonth'', True, [IsString]),
      (''cronMonth'', True, [IsString]), (''cronDayOfWeek'', True, [IsString]), (''isActive'', True, [IsBoolean]),
      (''tasks'', True, [IsArray, NestedEach ScheduleTaskDto_schema])]"

definition subuser_permissions_all :: "SubuserPermission list" where
  "subuser_permissions_all =
     [WEBSOCKET_CONNECT, CONTROL_CONSOLE, CONTROL_START, CONTROL_STOP, CONTROL_RESTART, USER_READ, USER_UPDATE, USER_CREATE, USER_DELETE,
      SERVER_READ, SERVER_UPDATE, SERVER_CREATE, SERVER_DELETE, SERVER_SUSPEND, SERVER_REINSTALL, FILE_READ, FILE_READ_CONTENT,
      FILE_CREATE, FILE_UPDATE, FILE_DELETE, FILE_ARCHIVE, FILE_SFTP, DATABASE_READ, DATABASE_CREATE, DATABASE_DELETE, DATABASE_UPDATE,
      DATABASE_VIEW_PASSWORD, SCHEDULE_READ, SCHEDULE_CREATE, SCHEDULE_UPDATE, SCHEDULE_DELETE, ALLOCATION_READ, ALLOCATION_CREATE,
      ALLOCATION_UPDATE, ALLOCATION_DELETE, STARTUP_READ, STARTUP_UPDATE, SETTINGS_RENAME]"

definition InviteSubuserDto_schema :: schema where
  "InviteSubuserDto_schema =
     [(''email'', False, [IsEmail]),
      (''permissions'', False, [IsArray, EachIn (map SubuserPermission_value subuser_permissions_all), IsNotEmpty])]"

definition UpdateSubuserDto_schema :: schema where
  "UpdateSubuserDto_schema = [(''permissions'', False, [IsArray, EachIn (map SubuserPermission_value subuser_permissions_all)])]"

definition WriteFileDto_schema :: schema where
  "WriteFileDto_schema = [(''path'', False, [IsString, IsNotEmpty]), (''content'', False, [IsString])]"

definition CompressFilesDto_schema :: schema where
  "CompressFilesDto_schema = [(''paths'', False, [IsArray, EachString]), (''destination'', False, [IsString, IsNotEmpty])]"

definition DecompressArchiveDto_schema :: schema where
  "DecompressArchiveDto_schema = [(''path'', False, [IsString, IsNotEmpty]), (''destination'', False, [IsString, IsNotEmpty])]"

definition DeleteFilesDto_schema :: schema where
  "DeleteFilesDto_schema = [(''paths'', False, [IsArray, EachString])]"

text \<open>The class of the \<open>@Body()\<close> of each method that the forms below reach.\<close>

definition body_schemas :: "(string \<times> schema) list" where
  "body_schemas =
     [(''AdminNodesController.create'', CreateNodeDto_schema), (''AdminAllocationsController.create'', CreateNodeAllocationsDto_schema),
      (''AdminUsersController.create'', CreateUserDto_schema), (''LocationsController.create'', CreateLocationDto_schema),
      (''LocationsController.update'', UpdateLocationDto_schema), (''DatabasesController.create'', CreateDatabaseDto_schema),
      (''SchedulesController.create'', CreateScheduleDto_schema), (''SchedulesController.update'', UpdateScheduleDto_schema),
      (''SubusersController.invite'', InviteSubuserDto_schema), (''SubusersController.update'', UpdateSubuserDto_schema),
      (''FilesController.writeFile'', WriteFileDto_schema), (''FilesController.compress'', CompressFilesDto_schema),
      (''FilesController.decompress'', DecompressArchiveDto_schema), (''FilesController.deleteFiles'', DeleteFilesDto_schema)]"

text \<open>What the backend makes of a request, whose sender the guards let pass.\<close>

datatype verdict = NoRoute | BodyRefused | Reaches string

definition judge :: "ext \<Rightarrow> string web_call \<times> (string \<times> json) list \<Rightarrow> verdict" where
  "judge X = (\<lambda>(call, body).
     case (case web_request call of (m, path) \<Rightarrow> dispatch m path) of
       None \<Rightarrow> NoRoute
     | Some handler \<Rightarrow>
         (case map_of body_schemas handler of
            None \<Rightarrow> Reaches handler
          | Some schema \<Rightarrow> if ValidationPipe X schema body then Reaches handler else BodyRefused))"

section \<open>What the pages send\<close>

text \<open>
  A handler sends a request, shows a message of its own, or does nothing.  \<open>N\<close> writes a number as
  JSON; a property that is \<open>undefined\<close> is not written.
\<close>

datatype sent = Sends "string web_call" "(string \<times> json) list" | Shows string | Nothing

definition optional_field :: "string \<Rightarrow> string \<Rightarrow> (string \<times> json) list" where
  "optional_field k v = (if v = [] then [] else [(k, JStr v)])"

definition NodesPage_handleCreate ::
  "(jsnum \<Rightarrow> json) \<Rightarrow> string \<Rightarrow> string \<Rightarrow> string \<Rightarrow> string \<Rightarrow> string \<Rightarrow> string \<Rightarrow> string \<Rightarrow> sent" where
  "NodesPage_handleCreate N name fqdn port scheme memoryMB diskMB locationId =
     (if js_trim name = [] \<or> js_trim fqdn = [] then Shows ''Name and FQDN are required''
      else Sends (CallNodes NodesCreate)
        ([(''name'', JStr name), (''fqdn'', JStr fqdn), (''port'', N (js_Number port)), (''scheme'', JStr scheme),
          (''memoryMB'', N (js_Number memoryMB)), (''diskMB'', N (js_Number diskMB))] @ optional_field ''locationId'' locationId))"

definition NodesPage_handleCreateAllocation :: "(jsnum \<Rightarrow> json) \<Rightarrow> string \<Rightarrow> string \<Rightarrow> string \<Rightarrow> sent" where
  "NodesPage_handleCreateAllocation N nodeId ip port =
     (if ip = [] \<or> port = [] then Nothing
      else Sends (CallNodes (NodesCreateAllocation nodeId)) [(''ip'', JStr ip), (''port'', N (js_Number port))])"

definition UsersPage_handleCreate :: "string \<Rightarrow> string \<Rightarrow> string \<Rightarrow> bool \<Rightarrow> sent" where
  "UsersPage_handleCreate email username password isAdmin =
     (if email = [] \<or> username = [] \<or> password = [] then Shows ''All fields are required''
      else Sends (CallPage UsersCreate)
        [(''email'', JStr email), (''username'', JStr username), (''password'', JStr password), (''isAdmin'', JBool isAdmin)])"

definition UsersPage_handleEdit :: "string \<Rightarrow> string \<Rightarrow> string \<Rightarrow> string \<Rightarrow> bool \<Rightarrow> sent" where
  "UsersPage_handleEdit userId email username password isAdmin =
     Sends (CallPage (UsersUpdate userId))
       ([(''email'', JStr email), (''username'', JStr username), (''isAdmin'', JBool isAdmin)] @ optional_field ''password'' password)"

text \<open>\<open>toUpperCase\<close> below 256; the two letters whose capitals lie above it stay: no check takes either.\<close>

definition js_toUpperCase :: "string \<Rightarrow> string" where
  "js_toUpperCase s = concat (map (\<lambda>c.
     let n = of_char c :: nat
     in if 97 \<le> n \<and> n \<le> 122 \<or> 224 \<le> n \<and> n \<le> 254 \<and> n \<noteq> 247 then [char_of (n - 32)]
        else if n = 223 then ''SS'' else [c]) s)"

text \<open>\<open>/^[A-Z0-9_-]+$/\<close>\<close>

definition page_code_ok :: "string \<Rightarrow> bool" where
  "page_code_ok s \<longleftrightarrow> s \<noteq> [] \<and> list_all (\<lambda>c. short_char c \<or> c = CHR ''_'') s"

definition LocationsPage_handleSave :: "string option \<Rightarrow> string \<Rightarrow> string \<Rightarrow> sent" where
  "LocationsPage_handleSave editing short long =
     (let shortCode = js_trim (js_toUpperCase short); body = [(''short'', JStr shortCode), (''long'', JStr (js_trim long))]
      in if shortCode = [] then Shows ''Short code is required''
         else if \<not> page_code_ok shortCode then Shows ''Short code must be uppercase letters, numbers, hyphens, or underscores''
         else if js_trim long = [] then Shows ''Full name is required''
         else (case editing of
                 Some i \<Rightarrow> Sends (CallLocations (LocationsUpdate i)) body
               | None \<Rightarrow> Sends (CallLocations LocationsCreate) body))"

definition DatabasesPage_handleCreate :: "string \<Rightarrow> string \<Rightarrow> string \<Rightarrow> sent" where
  "DatabasesPage_handleCreate uuid dbName remote =
     (if js_trim dbName = [] then Nothing
      else Sends (CallServers (CreateDatabase uuid)) [(''name'', JStr (js_trim dbName)), (''remote'', JStr remote)])"

definition SchedulesPage_handleSave ::
  "string \<Rightarrow> string option \<Rightarrow> string \<Rightarrow> string \<Rightarrow> string \<Rightarrow> string \<Rightarrow> string \<Rightarrow> string \<Rightarrow> sent" where
  "SchedulesPage_handleSave uuid editId name minute hour dayOfMonth month dayOfWeek =
     (let cron = minute @ '' '' @ hour @ '' '' @ dayOfMonth @ '' '' @ month @ '' '' @ dayOfWeek;
          payload = [(''name'', JStr name), (''cron'', JStr cron), (''isActive'', JBool True)]
      in case editId of
           Some i \<Rightarrow> if i = [] then Sends (CallServers (CreateSchedule uuid)) payload else Sends (CallServers (UpdateSchedule uuid i)) payload
         | None \<Rightarrow> Sends (CallServers (CreateSchedule uuid)) payload)"

definition ALL_PERMISSIONS :: "string list" where
  "ALL_PERMISSIONS =
     [''control.console'', ''control.start'', ''control.stop'', ''control.restart'', ''file.read'', ''file.create'', ''file.update'', ''file.delete'',
      ''database.read'', ''database.create'', ''database.delete'', ''schedule.read'', ''schedule.create'', ''schedule.update'', ''schedule.delete'',
      ''user.read'', ''user.create'', ''user.update'', ''user.delete'', ''startup.read'', ''startup.update'', ''settings.read'']"

definition togglePerm :: "string \<Rightarrow> string list \<Rightarrow> string list" where
  "togglePerm perm prev = (if perm \<in> set prev then filter (\<lambda>p. p \<noteq> perm) prev else prev @ [perm])"

definition SubusersPage_handleSave :: "string \<Rightarrow> string option \<Rightarrow> string \<Rightarrow> string list \<Rightarrow> sent" where
  "SubusersPage_handleSave uuid editId email permissions =
     (case editId of
        Some i \<Rightarrow>
          if i = [] then Sends (CallServers (AddSubuser uuid)) [(''email'', JStr email), (''permissions'', JArr (map JStr permissions))]
          else Sends (CallServers (UpdateSubuser uuid i)) [(''permissions'', JArr (map JStr permissions))]
      | None \<Rightarrow> Sends (CallServers (AddSubuser uuid)) [(''email'', JStr email), (''permissions'', JArr (map JStr permissions))])"

definition ApiKeysPage_handleCreate :: "string \<Rightarrow> sent" where
  "ApiKeysPage_handleCreate description = Sends (CallPage ApiKeysCreate) [(''description'', JStr description)]"

definition EggsPage_handleCreate :: "string \<Rightarrow> string \<Rightarrow> string \<Rightarrow> string \<Rightarrow> sent" where
  "EggsPage_handleCreate name description dockerImage startup =
     Sends (CallEggs EggsCreate)
       [(''name'', JStr name), (''description'', JStr description), (''dockerImage'', JStr dockerImage), (''startup'', JStr startup)]"

definition SettingsPage_handleSave :: "string \<Rightarrow> string \<Rightarrow> string \<Rightarrow> sent" where
  "SettingsPage_handleSave uuid name description =
     Sends (CallServers (UpdateSettings uuid)) [(''name'', JStr name), (''description'', JStr description)]"

definition StartupPage_handleSave :: "string \<Rightarrow> (string \<times> string) list \<Rightarrow> sent" where
  "StartupPage_handleSave uuid values =
     Sends (CallServers (UpdateStartup uuid)) [(''variables'', JObj (map (\<lambda>(k, v). (k, JStr v)) values))]"

definition AccountSettings_handleSaveProfile :: "string \<Rightarrow> string \<Rightarrow> sent" where
  "AccountSettings_handleSaveProfile email username = Sends (CallPage AccountUpdate) [(''email'', JStr email), (''username'', JStr username)]"

definition AccountSettings_handleChangePassword :: "string \<Rightarrow> string \<Rightarrow> sent" where
  "AccountSettings_handleChangePassword currentPassword newPassword =
     Sends (CallPage AccountPassword) [(''currentPassword'', JStr currentPassword), (''newPassword'', JStr newPassword)]"

end
