(* ===== verification/ServerData.thy ===== *)
theory ServerData
  imports ServersAccess Allocations
begin

text \<open>
  What belongs to a server besides its files: \<^verbatim>\<open>databases\<close>, \<^verbatim>\<open>schedules\<close> and \<^verbatim>\<open>subusers\<close>, each
  a service and a controller under \<open>/servers/:uuid\<close>.
\<close>

section \<open>Databases\<close>

record CreateDatabaseDto =
  cdd_database :: "string option"
  cdd_databaseHostId :: string
  cdd_remote :: "string option"
  cdd_maxConnections :: "int option"

definition CreateDatabaseDto_ok :: "ext \<Rightarrow> CreateDatabaseDto \<Rightarrow> bool" where
  "CreateDatabaseDto_ok X dto \<longleftrightarrow> isUUID X (cdd_databaseHostId dto)"

text \<open>The identifier of the row, the short identifier and the password it draws.\<close>

record database_draws =
  dd_id :: string
  dd_shortId :: string
  dd_password :: string

definition DatabasesService_findByServer :: "string \<Rightarrow> 'z db_scheme \<Rightarrow> ServerDatabaseEntity list" where
  "DatabasesService_findByServer serverId d =
     order_desc sdb_createdAt (findRows (\<lambda>x. sdb_serverId x = serverId) (db_databases d))"

definition new_database :: "database_draws \<Rightarrow> nat \<Rightarrow> string \<Rightarrow> CreateDatabaseDto \<Rightarrow> ServerDatabaseEntity" where
  "new_database dr now serverId dto =
     \<lparr>sdb_id = dd_id dr, sdb_serverId = serverId, sdb_databaseHostId = cdd_databaseHostId dto,
      sdb_database = str_or (cdd_database dto) (''s'' @ dd_shortId dr @ ''_db''),
      sdb_username = ''u'' @ dd_shortId dr, sdb_password = dd_password dr, sdb_remote = nullish (cdd_remote dto) ''%'',
      sdb_maxConnections = nullish (cdd_maxConnections dto) 0, sdb_createdAt = now\<rparr>"

definition DatabasesService_create ::
  "database_draws \<Rightarrow> nat \<Rightarrow> string \<Rightarrow> CreateDatabaseDto \<Rightarrow> 'z db_scheme \<Rightarrow> ('z db_scheme, ServerDatabaseEntity) handled" where
  "DatabasesService_create dr now serverId dto d =
     (let db = new_database dr now serverId dto
      in (case save_database db d of Inl e \<Rightarrow> (Inl e, d) | Inr d1 \<Rightarrow> (Inr db, d1)))"

definition DatabasesService_delete :: "string \<Rightarrow> 'z db_scheme \<Rightarrow> ('z db_scheme, unit) handled" where
  "DatabasesService_delete i d =
     (case findOne (\<lambda>x. sdb_id x = i) (db_databases d) of
        None \<Rightarrow> (Inl (NotFoundException ''Database not found''), d)
      | Some db \<Rightarrow> (Inr (), d\<lparr>db_databases := removeRows (\<lambda>x. sdb_id x = sdb_id db) (db_databases d)\<rparr>))"

definition DatabasesController_findByServer ::
  "ext \<Rightarrow> nat \<Rightarrow> Request \<Rightarrow> string \<Rightarrow> 'z db_scheme \<Rightarrow> ('z db_scheme, ServerDatabaseEntity list) handled" where
  "DatabasesController_findByServer X now req uuid d =
     with_user X now req (\<lambda>u. with_server_access uuid u
       (\<lambda>full d. (Inr (DatabasesService_findByServer (server_id (fs_server full)) d), d))) d"

definition DatabasesController_create ::
  "ext \<Rightarrow> nat \<Rightarrow> Request \<Rightarrow> database_draws \<Rightarrow> string \<Rightarrow> CreateDatabaseDto \<Rightarrow> 'z db_scheme \<Rightarrow>
   ('z db_scheme, ServerDatabaseEntity) handled" where
  "DatabasesController_create X now req dr uuid dto d =
     with_user X now req (\<lambda>u. validated (CreateDatabaseDto_ok X dto) (with_server_access uuid u
       (\<lambda>full. DatabasesService_create dr now (server_id (fs_server full)) dto))) d"

definition DatabasesController_delete ::
  "ext \<Rightarrow> nat \<Rightarrow> Request \<Rightarrow> string \<Rightarrow> string \<Rightarrow> 'z db_scheme \<Rightarrow> ('z db_scheme, unit) handled" where
  "DatabasesController_delete X now req uuid i d =
     with_user X now req (\<lambda>u. with_server_access uuid u (\<lambda>_. DatabasesService_delete i)) d"

section \<open>Schedules\<close>

record ScheduleTaskDto =
  std_sequence :: int
  std_action :: ScheduleTaskAction
  std_payload :: string
  std_timeOffset :: "int option"

record CreateScheduleDto =
  csch_name :: string
  csch_cronMinute :: string
  csch_cronHour :: string
  csch_cronDayOfMonth :: string
  csch_cronMonth :: string
  csch_cronDayOfWeek :: string
  csch_isActive :: bool
  csch_tasks :: "ScheduleTaskDto list"

definition ScheduleTaskDto_ok :: "ScheduleTaskDto \<Rightarrow> bool" where
  "ScheduleTaskDto_ok t \<longleftrightarrow> std_payload t \<noteq> []"

definition CreateScheduleDto_ok :: "CreateScheduleDto \<Rightarrow> bool" where
  "CreateScheduleDto_ok dto \<longleftrightarrow>
     csch_name dto \<noteq> [] \<and> csch_cronMinute dto \<noteq> [] \<and> csch_cronHour dto \<noteq> [] \<and> csch_cronDayOfMonth dto \<noteq> [] \<and>
     csch_cronMonth dto \<noteq> [] \<and> csch_cronDayOfWeek dto \<noteq> [] \<and> list_all ScheduleTaskDto_ok (csch_tasks dto)"

record UpdateScheduleDto =
  usch_name :: "string option"
  usch_cronMinute :: "string option"
  usch_cronHour :: "string option"
  usch_cronDayOfMonth :: "string option"
  usch_cronMonth :: "string option"
  usch_cronDayOfWeek :: "string option"
  usch_isActive :: "bool option"
  usch_tasks :: "ScheduleTaskDto list option"

definition UpdateScheduleDto_ok :: "UpdateScheduleDto \<Rightarrow> bool" where
  "UpdateScheduleDto_ok dto \<longleftrightarrow> (case usch_tasks dto of None \<Rightarrow> True | Some ts \<Rightarrow> list_all ScheduleTaskDto_ok ts)"

text \<open>The identifiers of the tasks of one request are drawn from \<open>ids\<close>, by position.\<close>

definition new_task :: "(nat \<Rightarrow> string) \<Rightarrow> nat \<Rightarrow> string \<Rightarrow> nat \<times> ScheduleTaskDto \<Rightarrow> ScheduleTaskEntity" where
  "new_task ids now scheduleId it =
     \<lparr>task_id = ids (fst it), task_scheduleId = scheduleId, task_action = std_action (snd it),
      task_sequence = std_sequence (snd it), task_payload = std_payload (snd it),
      task_timeOffset = nullish (std_timeOffset (snd it)) 0, task_createdAt = now\<rparr>"

definition new_tasks :: "(nat \<Rightarrow> string) \<Rightarrow> nat \<Rightarrow> string \<Rightarrow> ScheduleTaskDto list \<Rightarrow> ScheduleTaskEntity list" where
  "new_tasks ids now scheduleId ts = map (new_task ids now scheduleId) (enumerate 0 ts)"

definition new_schedule :: "string \<Rightarrow> nat \<Rightarrow> string \<Rightarrow> CreateScheduleDto \<Rightarrow> ScheduleEntity" where
  "new_schedule newId now serverId dto =
     \<lparr>sched_id = newId, sched_serverId = serverId, sched_name = csch_name dto,
      sched_cronDayOfWeek = csch_cronDayOfWeek dto, sched_cronDayOfMonth = csch_cronDayOfMonth dto,
      sched_cronMonth = csch_cronMonth dto, sched_cronHour = csch_cronHour dto, sched_cronMinute = csch_cronMinute dto,
      sched_isActive = csch_isActive dto, sched_isProcessing = False, sched_lastRunAt = None, sched_nextRunAt = None,
      sched_createdAt = now\<rparr>"

text \<open>\<open>save\<close> of a schedule with its tasks (\<open>cascade: true\<close>): one transaction.\<close>

definition save_with_tasks :: "ScheduleEntity \<Rightarrow> ScheduleTaskEntity list \<Rightarrow> 'z db_scheme \<Rightarrow> exn + 'z db_scheme" where
  "save_with_tasks schedule tasks d =
     (case save_schedule schedule d of Inl e \<Rightarrow> Inl e | Inr d1 \<Rightarrow> save_each save_scheduleTask tasks d1)"

record FullSchedule =
  fsch_schedule :: ScheduleEntity
  fsch_tasks :: "ScheduleTaskEntity list"

definition load_schedule :: "'z db_scheme \<Rightarrow> ScheduleEntity \<Rightarrow> FullSchedule" where
  "load_schedule d c = \<lparr>fsch_schedule = c, fsch_tasks = findRows (\<lambda>t. task_scheduleId t = sched_id c) (db_scheduleTasks d)\<rparr>"

definition SchedulesService_findByServer :: "string \<Rightarrow> 'z db_scheme \<Rightarrow> FullSchedule list" where
  "SchedulesService_findByServer serverId d =
     map (load_schedule d) (order_desc sched_createdAt (findRows (\<lambda>c. sched_serverId c = serverId) (db_schedules d)))"

definition SchedulesService_findById :: "string \<Rightarrow> 'z db_scheme \<Rightarrow> exn + FullSchedule" where
  "SchedulesService_findById i d =
     (case findOne (\<lambda>c. sched_id c = i) (db_schedules d) of
        None \<Rightarrow> Inl (NotFoundException ''Schedule not found'')
      | Some c \<Rightarrow> Inr (load_schedule d c))"

definition SchedulesService_create ::
  "string \<Rightarrow> (nat \<Rightarrow> string) \<Rightarrow> nat \<Rightarrow> string \<Rightarrow> CreateScheduleDto \<Rightarrow> 'z db_scheme \<Rightarrow> ('z db_scheme, FullSchedule) handled" where
  "SchedulesService_create newId ids now serverId dto d =
     (let schedule = new_schedule newId now serverId dto; tasks = new_tasks ids now newId (csch_tasks dto)
      in (case save_with_tasks schedule tasks d of
            Inl e \<Rightarrow> (Inl e, d)
          | Inr d1 \<Rightarrow> (Inr \<lparr>fsch_schedule = schedule, fsch_tasks = tasks\<rparr>, d1)))"

definition assign_schedule :: "UpdateScheduleDto \<Rightarrow> ScheduleEntity \<Rightarrow> ScheduleEntity" where
  "assign_schedule dto c =
     c\<lparr>sched_name := nullish (usch_name dto) (sched_name c),
       sched_cronMinute := nullish (usch_cronMinute dto) (sched_cronMinute c),
       sched_cronHour := nullish (usch_cronHour dto) (sched_cronHour c),
       sched_cronDayOfMonth := nullish (usch_cronDayOfMonth dto) (sched_cronDayOfMonth c),
       sched_cronMonth := nullish (usch_cronMonth dto) (sched_cronMonth c),
       sched_cronDayOfWeek := nullish (usch_cronDayOfWeek dto) (sched_cronDayOfWeek c),
       sched_isActive := nullish (usch_isActive dto) (sched_isActive c)\<rparr>"

text \<open>The old tasks are deleted in a statement of their own, before the save.\<close>

definition SchedulesService_update ::
  "(nat \<Rightarrow> string) \<Rightarrow> nat \<Rightarrow> string \<Rightarrow> UpdateScheduleDto \<Rightarrow> 'z db_scheme \<Rightarrow> ('z db_scheme, FullSchedule) handled" where
  "SchedulesService_update ids now i dto d =
     (case SchedulesService_findById i d of
        Inl e \<Rightarrow> (Inl e, d)
      | Inr full \<Rightarrow>
          (let schedule = assign_schedule dto (fsch_schedule full)
           in (case usch_tasks dto of
                 None \<Rightarrow>
                   (case save_schedule schedule d of
                      Inl e \<Rightarrow> (Inl e, d)
                    | Inr d1 \<Rightarrow> (Inr (full\<lparr>fsch_schedule := schedule\<rparr>), d1))
               | Some ts \<Rightarrow>
                   (let d1 = remove_scheduleTasks (\<lambda>t. task_scheduleId t = i) d; tasks = new_tasks ids now i ts
                    in (case save_with_tasks schedule tasks d1 of
                          Inl e \<Rightarrow> (Inl e, d1)
                        | Inr d2 \<Rightarrow> (Inr \<lparr>fsch_schedule = schedule, fsch_tasks = tasks\<rparr>, d2))))))"

definition SchedulesService_delete :: "string \<Rightarrow> 'z db_scheme \<Rightarrow> ('z db_scheme, unit) handled" where
  "SchedulesService_delete i d =
     (case SchedulesService_findById i d of
        Inl e \<Rightarrow> (Inl e, d)
      | Inr full \<Rightarrow> (Inr (), remove_schedules (\<lambda>c. sched_id c = sched_id (fsch_schedule full)) d))"

definition SchedulesService_executeSchedule :: "nat \<Rightarrow> string \<Rightarrow> 'z db_scheme \<Rightarrow> ('z db_scheme, string) handled" where
  "SchedulesService_executeSchedule now i d =
     (case SchedulesService_findById i d of
        Inl e \<Rightarrow> (Inl e, d)
      | Inr full \<Rightarrow>
          (let schedule = (fsch_schedule full)\<lparr>sched_lastRunAt := Some now\<rparr>
           in (case save_schedule schedule d of
                 Inl e \<Rightarrow> (Inl e, d)
               | Inr d1 \<Rightarrow> (Inr (''Schedule '' @ CHR 0x27 # sched_name schedule @ CHR 0x27 # '' execution triggered''), d1))))"

definition SchedulesController_findByServer ::
  "ext \<Rightarrow> nat \<Rightarrow> Request \<Rightarrow> string \<Rightarrow> 'z db_scheme \<Rightarrow> ('z db_scheme, FullSchedule list) handled" where
  "SchedulesController_findByServer X now req uuid d =
     with_user X now req (\<lambda>u. with_server_access uuid u
       (\<lambda>full d. (Inr (SchedulesService_findByServer (server_id (fs_server full)) d), d))) d"

definition SchedulesController_findById ::
  "ext \<Rightarrow> nat \<Rightarrow> Request \<Rightarrow> string \<Rightarrow> string \<Rightarrow> 'z db_scheme \<Rightarrow> ('z db_scheme, FullSchedule) handled" where
  "SchedulesController_findById X now req uuid i d =
     with_user X now req (\<lambda>u. with_server_access uuid u (\<lambda>_ d. (SchedulesService_findById i d, d))) d"

definition SchedulesController_create ::
  "ext \<Rightarrow> nat \<Rightarrow> Request \<Rightarrow> string \<Rightarrow> (nat \<Rightarrow> string) \<Rightarrow> string \<Rightarrow> CreateScheduleDto \<Rightarrow> 'z db_scheme \<Rightarrow>
   ('z db_scheme, FullSchedule) handled" where
  "SchedulesController_create X now req newId ids uuid dto d =
     with_user X now req (\<lambda>u. validated (CreateScheduleDto_ok dto) (with_server_access uuid u
       (\<lambda>full. SchedulesService_create newId ids now (server_id (fs_server full)) dto))) d"

definition SchedulesController_update ::
  "ext \<Rightarrow> nat \<Rightarrow> Request \<Rightarrow> (nat \<Rightarrow> string) \<Rightarrow> string \<Rightarrow> string \<Rightarrow> UpdateScheduleDto \<Rightarrow> 'z db_scheme \<Rightarrow>
   ('z db_scheme, FullSchedule) handled" where
  "SchedulesController_update X now req ids uuid i dto d =
     with_user X now req (\<lambda>u. validated (UpdateScheduleDto_ok dto) (with_server_access uuid u
       (\<lambda>_. SchedulesService_update ids now i dto))) d"

definition SchedulesController_delete ::
  "ext \<Rightarrow> nat \<Rightarrow> Request \<Rightarrow> string \<Rightarrow> string \<Rightarrow> 'z db_scheme \<Rightarrow> ('z db_scheme, unit) handled" where
  "SchedulesController_delete X now req uuid i d =
     with_user X now req (\<lambda>u. with_server_access uuid u (\<lambda>_. SchedulesService_delete i)) d"

definition SchedulesController_execute ::
  "ext \<Rightarrow> nat \<Rightarrow> Request \<Rightarrow> string \<Rightarrow> string \<Rightarrow> 'z db_scheme \<Rightarrow> ('z db_scheme, string) handled" where
  "SchedulesController_execute X now req uuid i d =
     with_user X now req (\<lambda>u. with_server_access uuid u (\<lambda>_. SchedulesService_executeSchedule now i)) d"

section \<open>Subusers\<close>

definition InviteSubuserDto_ok :: "ext \<Rightarrow> string \<Rightarrow> bool" where
  "InviteSubuserDto_ok X email \<longleftrightarrow> isEmail X email"

record FullSubuser =
  fsub_subuser :: ServerSubuserEntity
  fsub_user :: "UserEntity option"

definition SubusersService_findByServer :: "string \<Rightarrow> 'z db_scheme \<Rightarrow> FullSubuser list" where
  "SubusersService_findByServer serverId d =
     map (\<lambda>x. \<lparr>fsub_subuser = x, fsub_user = findOne (\<lambda>u. user_id u = subuser_userId x) (db_users d)\<rparr>)
       (order_desc subuser_createdAt (findRows (\<lambda>x. subuser_serverId x = serverId) (db_subusers d)))"

definition new_subuser :: "string \<Rightarrow> nat \<Rightarrow> string \<Rightarrow> string \<Rightarrow> SubuserPermission list \<Rightarrow> ServerSubuserEntity" where
  "new_subuser newId now serverId userId permissions =
     \<lparr>subuser_id = newId, subuser_serverId = serverId, subuser_userId = userId,
      subuser_permissions = map SubuserPermission_value permissions, subuser_createdAt = now\<rparr>"

definition SubusersService_invite ::
  "string \<Rightarrow> nat \<Rightarrow> string \<Rightarrow> string \<Rightarrow> SubuserPermission list \<Rightarrow> 'z db_scheme \<Rightarrow> ('z db_scheme, ServerSubuserEntity) handled" where
  "SubusersService_invite newId now serverId email permissions d =
     (case findOne (\<lambda>u. user_email u = email) (db_users d) of
        None \<Rightarrow> (Inl (NotFoundException ''User with this email not found''), d)
      | Some user \<Rightarrow>
          if hasRow (\<lambda>x. subuser_serverId x = serverId \<and> subuser_userId x = user_id user) (db_subusers d)
          then (Inl (ConflictException ''User is already a subuser of this server''), d)
          else (let subuser = new_subuser newId now serverId (user_id user) permissions
                in (case save_subuser subuser d of Inl e \<Rightarrow> (Inl e, d) | Inr d1 \<Rightarrow> (Inr subuser, d1))))"

definition SubusersService_update ::
  "string \<Rightarrow> SubuserPermission list \<Rightarrow> 'z db_scheme \<Rightarrow> ('z db_scheme, ServerSubuserEntity) handled" where
  "SubusersService_update i permissions d =
     (case findOne (\<lambda>x. subuser_id x = i) (db_subusers d) of
        None \<Rightarrow> (Inl (NotFoundException ''Subuser not found''), d)
      | Some x \<Rightarrow>
          (let subuser = x\<lparr>subuser_permissions := map SubuserPermission_value permissions\<rparr>
           in (case save_subuser subuser d of Inl e \<Rightarrow> (Inl e, d) | Inr d1 \<Rightarrow> (Inr subuser, d1))))"

definition SubusersService_remove :: "string \<Rightarrow> 'z db_scheme \<Rightarrow> ('z db_scheme, unit) handled" where
  "SubusersService_remove i d =
     (case findOne (\<lambda>x. subuser_id x = i) (db_subusers d) of
        None \<Rightarrow> (Inl (NotFoundException ''Subuser not found''), d)
      | Some x \<Rightarrow> (Inr (), d\<lparr>db_subusers := removeRows (\<lambda>y. subuser_id y = subuser_id x) (db_subusers d)\<rparr>))"

definition SubusersController_findByServer ::
  "ext \<Rightarrow> nat \<Rightarrow> Request \<Rightarrow> string \<Rightarrow> 'z db_scheme \<Rightarrow> ('z db_scheme, FullSubuser list) handled" where
  "SubusersController_findByServer X now req uuid d =
     with_user X now req (\<lambda>u. with_server_access uuid u
       (\<lambda>full d. (Inr (SubusersService_findByServer (server_id (fs_server full)) d), d))) d"

definition SubusersController_invite ::
  "ext \<Rightarrow> nat \<Rightarrow> Request \<Rightarrow> string \<Rightarrow> string \<Rightarrow> string \<Rightarrow> SubuserPermission list \<Rightarrow> 'z db_scheme \<Rightarrow>
   ('z db_scheme, ServerSubuserEntity) handled" where
  "SubusersController_invite X now req newId uuid email permissions d =
     with_user X now req (\<lambda>u. validated (InviteSubuserDto_ok X email) (with_server_access uuid u
       (\<lambda>full. SubusersService_invite newId now (server_id (fs_server full)) email permissions))) d"

definition SubusersController_update ::
  "ext \<Rightarrow> nat \<Rightarrow> Request \<Rightarrow> string \<Rightarrow> string \<Rightarrow> SubuserPermission list \<Rightarrow> 'z db_scheme \<Rightarrow>
   ('z db_scheme, ServerSubuserEntity) handled" where
  "SubusersController_update X now req uuid i permissions d =
     with_user X now req (\<lambda>u. with_server_access uuid u (\<lambda>_. SubusersService_update i permissions)) d"

definition SubusersController_remove ::
  "ext \<Rightarrow> nat \<Rightarrow> Request \<Rightarrow> string \<Rightarrow> string \<Rightarrow> 'z db_scheme \<Rightarrow> ('z db_scheme, unit) handled" where
  "SubusersController_remove X now req uuid i d =
     with_user X now req (\<lambda>u. with_server_access uuid u (\<lambda>_. SubusersService_remove i)) d"

section \<open>The gate of the routes\<close>

interpretation db_list: server_route DatabasesController_findByServer "\<lambda>_. True"
    "\<lambda>_ _ full d. (Inr (DatabasesService_findByServer (server_id (fs_server full)) d), d)"
  by unfold_locales (simp add: DatabasesController_findByServer_def)

interpretation db_create: server_route "\<lambda>X now req uuid. DatabasesController_create X now req dr uuid dto"
    "\<lambda>X. CreateDatabaseDto_ok X dto" "\<lambda>now _ full. DatabasesService_create dr now (server_id (fs_server full)) dto" for dr dto
  by unfold_locales (simp add: DatabasesController_create_def)

interpretation db_delete: server_route "\<lambda>X now req uuid. DatabasesController_delete X now req uuid i"
    "\<lambda>_. True" "\<lambda>_ _ _. DatabasesService_delete i" for i
  by unfold_locales (simp add: DatabasesController_delete_def)

interpretation sched_list: server_route SchedulesController_findByServer "\<lambda>_. True"
    "\<lambda>_ _ full d. (Inr (SchedulesService_findByServer (server_id (fs_server full)) d), d)"
  by unfold_locales (simp add: SchedulesController_findByServer_def)

interpretation sched_find: server_route "\<lambda>X now req uuid. SchedulesController_findById X now req uuid i" "\<lambda>_. True"
    "\<lambda>_ _ _ d. (SchedulesService_findById i d, d)" for i
  by unfold_locales (simp add: SchedulesController_findById_def)

interpretation sched_create: server_route "\<lambda>X now req uuid. SchedulesController_create X now req newId ids uuid dto"
    "\<lambda>_. CreateScheduleDto_ok dto" "\<lambda>now _ full. SchedulesService_create newId ids now (server_id (fs_server full)) dto" for newId ids dto
  by unfold_locales (simp add: SchedulesController_create_def)

interpretation sched_update: server_route "\<lambda>X now req uuid. SchedulesController_update X now req ids uuid i dto"
    "\<lambda>_. UpdateScheduleDto_ok dto" "\<lambda>now _ _. SchedulesService_update ids now i dto" for ids i dto
  by unfold_locales (simp add: SchedulesController_update_def)

interpretation sched_delete: server_route "\<lambda>X now req uuid. SchedulesController_delete X now req uuid i" "\<lambda>_. True"
    "\<lambda>_ _ _. SchedulesService_delete i" for i
  by unfold_locales (simp add: SchedulesController_delete_def)

interpretation sched_execute: server_route "\<lambda>X now req uuid. SchedulesController_execute X now req uuid i" "\<lambda>_. True"
    "\<lambda>now _ _. SchedulesService_executeSchedule now i" for i
  by unfold_locales (simp add: SchedulesController_execute_def)

interpretation sub_list: server_route SubusersController_findByServer "\<lambda>_. True"
    "\<lambda>_ _ full d. (Inr (SubusersService_findByServer (server_id (fs_server full)) d), d)"
  by unfold_locales (simp add: SubusersController_findByServer_def)

interpretation sub_invite: server_route "\<lambda>X now req uuid. SubusersController_invite X now req newId uuid email permissions"
    "\<lambda>X. InviteSubuserDto_ok X email"
    "\<lambda>now _ full. SubusersService_invite newId now (server_id (fs_server full)) email permissions" for newId email permissions
  by unfold_locales (simp add: SubusersController_invite_def)

interpretation sub_update: server_route "\<lambda>X now req uuid. SubusersController_update X now req uuid i permissions" "\<lambda>_. True"
    "\<lambda>_ _ _. SubusersService_update i permissions" for i permissions
  by unfold_locales (simp add: SubusersController_update_def)

interpretation sub_remove: server_route "\<lambda>X now req uuid. SubusersController_remove X now req uuid i" "\<lambda>_. True"
    "\<lambda>_ _ _. SubusersService_remove i" for i
  by unfold_locales (simp add: SubusersController_remove_def)

end
