(* ===== verification/ServerDataProps.thy ===== *)
theory ServerDataProps
  imports ServerData
begin

text \<open>
  What the routes under \<open>/servers/:uuid\<close> promise: they are closed to strangers, their
  row identifiers are not tied to the server of the path, an update replaces the tasks of
  one schedule, and an invitation has three outcomes.
\<close>

section \<open>Access\<close>

text \<open>
  C33. The thirteen routes for databases, schedules and subusers under the path of a server answer 403
  and write nothing when the signed-in user is neither the owner of the server of the path nor
  an administrator, even to a subuser of that server.  This is the check of the path only: the
  identifier of a row is not tied to it, and the owner of another server reaches the rows under
  the path of that server (\<open>row_ids_not_scoped\<close>).
\<close>

theorem server_data_forbidden:
  assumes "JwtAuthGuard X now req d = Inr u" and "findOne (\<lambda>x. server_uuid x = uuid) (db_servers d) = Some x"
    and "\<not> au_rootAdmin u" and "server_userId x \<noteq> au_id u"
    and "CreateDatabaseDto_ok X db" and "CreateScheduleDto_ok cs" and "UpdateScheduleDto_ok us" and "InviteSubuserDto_ok X email"
  defines "no \<equiv> ForbiddenException ''You do not have access to this server''"
  shows "DatabasesController_findByServer X now req uuid d = (Inl no, d) \<and>
    DatabasesController_create X now req dr uuid db d = (Inl no, d) \<and>
    DatabasesController_delete X now req uuid i d = (Inl no, d) \<and>
    SchedulesController_findByServer X now req uuid d = (Inl no, d) \<and>
    SchedulesController_findById X now req uuid i d = (Inl no, d) \<and>
    SchedulesController_create X now req newId ids uuid cs d = (Inl no, d) \<and>
    SchedulesController_update X now req ids uuid i us d = (Inl no, d) \<and>
    SchedulesController_delete X now req uuid i d = (Inl no, d) \<and>
    SchedulesController_execute X now req uuid i d = (Inl no, d) \<and>
    SubusersController_findByServer X now req uuid d = (Inl no, d) \<and>
    SubusersController_invite X now req newId uuid email permissions d = (Inl no, d) \<and>
    SubusersController_update X now req uuid i permissions d = (Inl no, d) \<and>
    SubusersController_remove X now req uuid i d = (Inl no, d)"
  unfolding no_def using assms(1-8)
  by (simp add: db_list.forbidden db_create.forbidden db_delete.forbidden sched_list.forbidden sched_find.forbidden
      sched_create.forbidden sched_update.forbidden sched_delete.forbidden sched_execute.forbidden sub_list.forbidden
      sub_invite.forbidden sub_update.forbidden sub_remove.forbidden)

text \<open>The user \<open>eve\<close> as a subuser of \<open>bob\<close>'s server, with every permission.\<close>

definition demo_subuser :: ServerSubuserEntity where
  "demo_subuser = \<lparr>subuser_id = ''su1'', subuser_serverId = ''s1'', subuser_userId = ''u3'',
     subuser_permissions = [''control.start''], subuser_createdAt = 0\<rparr>"

definition demo_invited :: wings_panel where
  "demo_invited = demo_three\<lparr>db_subusers := [demo_subuser]\<rparr>"

lemma demo_invited_guard:
  "JwtAuthGuard demo_ext 0 (demo_cookie u) demo_invited = JwtAuthGuard demo_ext 0 (demo_cookie u) demo_three"
  by (rule guard_users) (simp add: demo_invited_def)

theorem server_data_forbidden_witness:
  "SchedulesController_findByServer demo_ext 0 (demo_cookie eve) ''uuid-1'' demo_invited =
     (Inl (ForbiddenException ''You do not have access to this server''), demo_invited)"
proof -
  let ?cdb = "\<lparr>cdd_database = None, cdd_databaseHostId = replicate 36 CHR ''a'', cdd_remote = None, cdd_maxConnections = None\<rparr>"
  let ?cs = "\<lparr>csch_name = ''n'', csch_cronMinute = ''*'', csch_cronHour = ''*'', csch_cronDayOfMonth = ''*'', csch_cronMonth = ''*'',
    csch_cronDayOfWeek = ''*'', csch_isActive = True, csch_tasks = []\<rparr>"
  let ?us = "\<lparr>usch_name = None, usch_cronMinute = None, usch_cronHour = None, usch_cronDayOfMonth = None, usch_cronMonth = None,
    usch_cronDayOfWeek = None, usch_isActive = None, usch_tasks = None\<rparr>"
  have dtos: "CreateDatabaseDto_ok demo_ext ?cdb" "CreateScheduleDto_ok ?cs" "UpdateScheduleDto_ok ?us" "InviteSubuserDto_ok demo_ext ''a@b''"
    by (simp_all add: CreateDatabaseDto_ok_def CreateScheduleDto_ok_def UpdateScheduleDto_ok_def InviteSubuserDto_ok_def demo_ext_def)
  have g: "JwtAuthGuard demo_ext 0 (demo_cookie eve) demo_invited =
      Inr \<lparr>au_id = user_id eve, au_email = user_email eve, au_rootAdmin = user_rootAdmin eve\<rparr>"
    unfolding demo_invited_guard by (rule demo_three_guard) simp
  have f: "findOne (\<lambda>x. server_uuid x = ''uuid-1'') (db_servers demo_invited) = Some demo_server"
    using demo_three_server by (simp add: demo_invited_def)
  from server_data_forbidden [OF g f _ _ dtos] show ?thesis
    by (simp add: eve_def demo_user_def demo_server_def)
qed

section \<open>Identifiers of another server\<close>

text \<open>
  The identifier of a row is not tied to the server of the path: who may use the routes of
  one server can delete any schedule with its tasks, any database row and any subuser of the
  panel by its identifier, whichever server it belongs to.
\<close>

theorem row_ids_not_scoped:
  assumes "JwtAuthGuard X now req d = Inr u" and "findOne (\<lambda>x. server_uuid x = uuid) (db_servers d) = Some x"
    and "au_rootAdmin u \<or> server_userId x = au_id u"
  shows "(hasRow (\<lambda>c. sched_id c = i) (db_schedules d) \<longrightarrow>
      SchedulesController_delete X now req uuid i d = (Inr (), remove_schedules (\<lambda>c. sched_id c = i) d)) \<and>
    (hasRow (\<lambda>c. sdb_id c = i) (db_databases d) \<longrightarrow>
      DatabasesController_delete X now req uuid i d = (Inr (), d\<lparr>db_databases := removeRows (\<lambda>c. sdb_id c = i) (db_databases d)\<rparr>)) \<and>
    (hasRow (\<lambda>c. subuser_id c = i) (db_subusers d) \<longrightarrow>
      SubusersController_remove X now req uuid i d = (Inr (), d\<lparr>db_subusers := removeRows (\<lambda>c. subuser_id c = i) (db_subusers d)\<rparr>))"
proof -
  have some: "\<exists>r. findOne (\<lambda>c. key c = i) t = Some r \<and> key r = i" if "hasRow (\<lambda>c. key c = i) t" for key :: "'b \<Rightarrow> string" and t
    using that by (cases "findOne (\<lambda>c. key c = i) t") (auto simp: hasRow_iff findOne_None dest: findOne_Some)
  show ?thesis
    unfolding sched_delete.granted [OF assms TrueI] db_delete.granted [OF assms TrueI] sub_remove.granted [OF assms TrueI]
    by (auto simp: SchedulesService_delete_def SchedulesService_findById_def load_schedule_def DatabasesService_delete_def
        SubusersService_remove_def dest!: some)
qed

definition demo_schedule :: "string \<Rightarrow> string \<Rightarrow> ScheduleEntity" where
  "demo_schedule i serverId =
     \<lparr>sched_id = i, sched_serverId = serverId, sched_name = ''nightly'', sched_cronDayOfWeek = ''*'', sched_cronDayOfMonth = ''*'',
      sched_cronMonth = ''*'', sched_cronHour = ''4'', sched_cronMinute = ''0'', sched_isActive = True, sched_isProcessing = False,
      sched_lastRunAt = None, sched_nextRunAt = None, sched_createdAt = 0\<rparr>"

definition demo_task :: "string \<Rightarrow> string \<Rightarrow> ScheduleTaskEntity" where
  "demo_task i schedId =
     \<lparr>task_id = i, task_scheduleId = schedId, task_action = POWER, task_sequence = 1, task_payload = ''restart'',
      task_timeOffset = 0, task_createdAt = 0\<rparr>"

text \<open>Two servers, \<open>bob\<close>'s and a second one of \<open>eve\<close> with a schedule of two tasks.\<close>

definition eve_server :: ServerEntity where
  "eve_server = demo_server\<lparr>server_id := ''s2'', server_uuid := ''uuid-2'', server_uuidShort := ''uuid2'',
     server_userId := ''u3'', server_allocationId := ''al2''\<rparr>"

definition demo_two :: wings_panel where
  "demo_two = demo_three\<lparr>db_servers := [demo_server, eve_server],
     db_schedules := [demo_schedule ''c1'' ''s1'', demo_schedule ''c2'' ''s2''],
     db_scheduleTasks := [demo_task ''k1'' ''c1'', demo_task ''k2'' ''c2'', demo_task ''k3'' ''c2'']\<rparr>"

lemma demo_two_guard:
  "JwtAuthGuard demo_ext 0 (demo_cookie u) demo_two = JwtAuthGuard demo_ext 0 (demo_cookie u) demo_three"
  by (rule guard_users) (simp add: demo_two_def)

theorem row_ids_not_scoped_witness:
  "let (r, d') = SchedulesController_delete demo_ext 0 (demo_cookie (demo_user ''u2'' ''bob'' False)) ''uuid-1'' ''c2'' demo_two in
     r = Inr () \<and> map sched_id (db_schedules d') = [''c1''] \<and> map task_id (db_scheduleTasks d') = [''k1'']"
proof -
  let ?bob = "demo_user ''u2'' ''bob'' False"
  have g: "JwtAuthGuard demo_ext 0 (demo_cookie ?bob) demo_two =
      Inr \<lparr>au_id = user_id ?bob, au_email = user_email ?bob, au_rootAdmin = user_rootAdmin ?bob\<rparr>"
    unfolding demo_two_guard by (rule demo_three_guard) simp
  have f: "findOne (\<lambda>x. server_uuid x = ''uuid-1'') (db_servers demo_two) = Some demo_server"
    by (simp add: demo_two_def findOne_def demo_server_def)
  have s: "hasRow (\<lambda>c. sched_id c = ''c2'') (db_schedules demo_two)"
    by (simp add: demo_two_def hasRow_def demo_schedule_def)
  have "server_userId demo_server = user_id ?bob" by (simp add: demo_server_def demo_user_def)
  with row_ids_not_scoped [OF g f, of "''c2''"] s show ?thesis
    by (simp add: remove_schedules_def remove_scheduleTasks_def demo_two_def demo_schedule_def demo_task_def removeRows_def)
qed

section \<open>Schedules\<close>

lemma save_each_tasks:
  assumes "\<forall>t \<in> set ts. schedule_exists d (task_scheduleId t)" and "distinct (map task_id ts)"
    and "\<forall>t \<in> set ts. \<forall>x \<in> set (db_scheduleTasks d). task_id x \<noteq> task_id t"
  shows "save_each save_scheduleTask ts d = Inr (d\<lparr>db_scheduleTasks := db_scheduleTasks d @ ts\<rparr>)"
proof -
  have "save_each save_scheduleTask ts d = Inr (db_scheduleTasks_update (\<lambda>t. t @ ts) d)"
    by (rule scheduleTask_repo.save_each_append [where ok = "\<lambda>d'. schedule_exists d' = schedule_exists d"])
      (use assms in \<open>auto simp: save_scheduleTask_def saveRow_def upsertRow_def hasRow_iff no_clash_def exists_iff fun_eq_iff\<close>)
  then show ?thesis by simp
qed

lemma new_tasks_ids:
  "map task_id (new_tasks ids now i ts) = map ids [0..<length ts]"
  "map task_scheduleId (new_tasks ids now i ts) = replicate (length ts) i"
  "map task_action (new_tasks ids now i ts) = map std_action ts"
  by (rule nth_equalityI; simp add: new_tasks_def new_task_def nth_enumerate_eq)+

text \<open>
  Updating a schedule with a list of tasks succeeds and replaces its tasks by the ones
  of the body, in their order; the tasks of every other schedule and every other schedule
  stay as they were, the columns the body leaves out keep their values, and the constraints
  of the database hold.
\<close>

theorem schedule_update_replaces_tasks:
  assumes "db_ok d" and "findOne (\<lambda>c. sched_id c = i) (db_schedules d) = Some c" and "usch_tasks dto = Some ts"
    and "inj_on ids {..<length ts}" and "\<forall>x \<in> set (db_scheduleTasks d). \<forall>n < length ts. task_id x \<noteq> ids n"
    and "SchedulesService_update ids now i dto d = (r, d')"
  shows "is_ok r \<and> db_ok d' \<and>
    filter (\<lambda>t. task_scheduleId t = i) (db_scheduleTasks d') = new_tasks ids now i ts \<and>
    map task_action (new_tasks ids now i ts) = map std_action ts \<and>
    filter (\<lambda>t. task_scheduleId t \<noteq> i) (db_scheduleTasks d') = filter (\<lambda>t. task_scheduleId t \<noteq> i) (db_scheduleTasks d) \<and>
    db_schedules d' = updateRows (\<lambda>x. sched_id x = i) (\<lambda>_. assign_schedule dto c) (db_schedules d)"
proof -
  let ?new = "new_tasks ids now i ts" and ?c = "assign_schedule dto c"
  let ?d1 = "remove_scheduleTasks (\<lambda>t. task_scheduleId t = i) d"
  let ?d2 = "?d1\<lparr>db_schedules := updateRows (\<lambda>x. sched_id x = i) (\<lambda>_. ?c) (db_schedules d)\<rparr>"
  have c: "c \<in> set (db_schedules d)" "sched_id c = i" using assms(2) by (auto dest: findOne_Some)
  have k: "sched_id ?c = i" "sched_serverId ?c = sched_serverId c" using c by (simp_all add: assign_schedule_def)
  have "server_exists d (sched_serverId c)" using assms(1) c by (auto simp: db_ok_def children_defs)
  then have s: "save_schedule ?c ?d1 = Inr ?d2"
    using c by (auto simp: save_schedule_def saveRow_def upsertRow_def k hasRow_iff no_clash_def remove_scheduleTasks_def server_exists_def)
  have ex: "schedule_exists ?d2 i" using c k by (force simp: exists_iff table_sets)
  have sid: "set (map task_scheduleId ?new) \<subseteq> {i}" and tid: "set (map task_id ?new) = ids ` {..<length ts}"
    unfolding new_tasks_ids by (auto simp: lessThan_atLeast0)
  have "distinct (map task_id ?new)"
    using assms(4) by (simp add: new_tasks_ids distinct_map lessThan_atLeast0)
  moreover have "\<forall>t \<in> set ?new. schedule_exists ?d2 (task_scheduleId t)" using sid ex by auto
  moreover have "\<forall>t \<in> set ?new. \<forall>x \<in> set (db_scheduleTasks ?d2). task_id x \<noteq> task_id t"
  proof (intro ballI)
    fix t x
    assume t: "t \<in> set ?new" and x: "x \<in> set (db_scheduleTasks ?d2)"
    from t have "task_id t \<in> ids ` {..<length ts}" unfolding tid [symmetric] by simp
    then obtain n where "n < length ts" "task_id t = ids n" by auto
    then show "task_id x \<noteq> task_id t" using assms(5) x by (auto simp: remove_scheduleTasks_def table_sets)
  qed
  ultimately have e: "save_each save_scheduleTask ?new ?d2 = Inr (?d2\<lparr>db_scheduleTasks := db_scheduleTasks ?d2 @ ?new\<rparr>)"
    by (intro save_each_tasks)
  have r: "r = Inr \<lparr>fsch_schedule = ?c, fsch_tasks = ?new\<rparr>" "d' = ?d2\<lparr>db_scheduleTasks := db_scheduleTasks ?d2 @ ?new\<rparr>"
    using assms(2,3,6) c(2)
    by (simp_all add: SchedulesService_update_def SchedulesService_findById_def load_schedule_def save_with_tasks_def s e Let_def)
  have "db_ok ?d2" by (rule save_ok(16) [OF s]) (rule remove_leaf_ok(8) [OF assms(1)])
  then have "db_ok d'" using save_each_keeps [OF e] save_ok(17) r(2) by blast
  moreover have "filter (\<lambda>t. task_scheduleId t = i) ?new = ?new" "filter (\<lambda>t. task_scheduleId t \<noteq> i) ?new = []"
    using sid by (auto intro: filter_True filter_False)
  ultimately show ?thesis
    by (simp add: r new_tasks_ids remove_scheduleTasks_def removeRows_def)
qed

theorem schedule_update_replaces_tasks_witness:
  "let dto = \<lparr>usch_name = Some ''daily'', usch_cronMinute = None, usch_cronHour = None, usch_cronDayOfMonth = None,
         usch_cronMonth = None, usch_cronDayOfWeek = None, usch_isActive = None,
         usch_tasks = Some [\<lparr>std_sequence = 1, std_action = COMMAND, std_payload = ''save-all'', std_timeOffset = None\<rparr>]\<rparr>;
       d = demo_full\<lparr>db_schedules := [demo_schedule ''c1'' ''s1''], db_scheduleTasks := [demo_task ''k1'' ''c1'']\<rparr>
   in map task_payload (db_scheduleTasks (snd (SchedulesService_update (\<lambda>n. ''new'') 5 ''c1'' dto d))) = [''save-all'']"
proof -
  let ?dto = "\<lparr>usch_name = Some ''daily'', usch_cronMinute = None, usch_cronHour = None, usch_cronDayOfMonth = None,
         usch_cronMonth = None, usch_cronDayOfWeek = None, usch_isActive = None,
         usch_tasks = Some [\<lparr>std_sequence = 1, std_action = COMMAND, std_payload = ''save-all'', std_timeOffset = None\<rparr>]\<rparr>"
  let ?d = "demo_full\<lparr>db_schedules := [demo_schedule ''c1'' ''s1''], db_scheduleTasks := [demo_task ''k1'' ''c1'']\<rparr>"
  have "save_schedule (demo_schedule ''c1'' ''s1'') demo_full = Inr (demo_full\<lparr>db_schedules := [demo_schedule ''c1'' ''s1'']\<rparr>)"
    by (simp add: save_schedule_def saveRow_def upsertRow_def hasRow_def insertRow_def exists_defs demo_server_def
        demo_schedule_def demo_full_def demo_db_def empty_db_def)
  from save_ok(16) [OF this demo_full_ok] have 1: "db_ok (demo_full\<lparr>db_schedules := [demo_schedule ''c1'' ''s1'']\<rparr>)" .
  have "save_scheduleTask (demo_task ''k1'' ''c1'') (demo_full\<lparr>db_schedules := [demo_schedule ''c1'' ''s1'']\<rparr>) = Inr ?d"
    by (simp add: save_scheduleTask_def saveRow_def upsertRow_def hasRow_def insertRow_def exists_defs
        demo_schedule_def demo_task_def demo_full_def demo_db_def empty_db_def)
  from save_ok(17) [OF this 1] have ok: "db_ok ?d" .
  have f: "findOne (\<lambda>c. sched_id c = ''c1'') (db_schedules ?d) = Some (demo_schedule ''c1'' ''s1'')"
    by (simp add: findOne_def demo_schedule_def)
  obtain r d' where 2: "SchedulesService_update (\<lambda>n. ''new'') 5 ''c1'' ?dto ?d = (r, d')" by force
  have t: "filter (\<lambda>t. task_scheduleId t = ''c1'') (db_scheduleTasks d') = new_tasks (\<lambda>n. ''new'') 5 ''c1''
       [\<lparr>std_sequence = 1, std_action = COMMAND, std_payload = ''save-all'', std_timeOffset = None\<rparr>] \<and>
      filter (\<lambda>t. task_scheduleId t \<noteq> ''c1'') (db_scheduleTasks d') = []"
    using schedule_update_replaces_tasks [OF ok f _ _ _ 2] by (simp add: demo_task_def inj_on_def)
  then have "db_scheduleTasks d' = new_tasks (\<lambda>n. ''new'') 5 ''c1''
       [\<lparr>std_sequence = 1, std_action = COMMAND, std_payload = ''save-all'', std_timeOffset = None\<rparr>]"
    by (metis (no_types, lifting) filter_True filter_empty_conv)
  then show ?thesis by (simp add: 2 new_tasks_def new_task_def)
qed

section \<open>Invitations\<close>

text \<open>
  Inviting a subuser has three outcomes and no fourth: 404 when no account has the
  address, 409 when that account is a subuser of the server already, and otherwise one new
  row with the account and the permissions of the body.  No account is created and no rule
  keeps the owner from inviting himself.
\<close>

theorem subuser_invite_spec:
  assumes "db_ok d" and "server_exists d serverId" and "\<forall>x \<in> set (db_subusers d). subuser_id x \<noteq> newId"
    and "SubusersService_invite newId now serverId email permissions d = (r, d')"
  shows "db_ok d' \<and>
    (case findOne (\<lambda>u. user_email u = email) (db_users d) of
       None \<Rightarrow> r = Inl (NotFoundException ''User with this email not found'') \<and> d' = d
     | Some user \<Rightarrow>
         if \<exists>x \<in> set (db_subusers d). subuser_serverId x = serverId \<and> subuser_userId x = user_id user
         then r = Inl (ConflictException ''User is already a subuser of this server'') \<and> d' = d
         else d' = d\<lparr>db_subusers := db_subusers d @ [new_subuser newId now serverId (user_id user) permissions]\<rparr> \<and>
           r = Inr (new_subuser newId now serverId (user_id user) permissions))"
proof (cases "findOne (\<lambda>u. user_email u = email) (db_users d)")
  case None
  then show ?thesis using assms(1,4) by (simp add: SubusersService_invite_def)
next
  case (Some user)
  let ?new = "new_subuser newId now serverId (user_id user) permissions"
  show ?thesis
  proof (cases "\<exists>x \<in> set (db_subusers d). subuser_serverId x = serverId \<and> subuser_userId x = user_id user")
    case True
    then show ?thesis using assms(1,4) Some by (auto simp: SubusersService_invite_def hasRow_iff)
  next
    case False
    have "user_exists d (user_id user)" using Some by (auto simp: exists_defs hasRow_iff dest: findOne_Some)
    then have s: "save_subuser ?new d = Inr (d\<lparr>db_subusers := db_subusers d @ [?new]\<rparr>)"
      using assms(2,3) False
      by (auto simp: save_subuser_def saveRow_def upsertRow_def insertRow_def hasRow_iff subuser_clash_def new_subuser_def)
    then have "r = Inr ?new" "d' = d\<lparr>db_subusers := db_subusers d @ [?new]\<rparr>"
      using assms(4) Some False by (auto simp: SubusersService_invite_def hasRow_iff Let_def)
    then show ?thesis using save_ok(13) [OF s assms(1)] Some False by auto
  qed
qed

theorem subuser_invite_spec_witness:
  "map subuser_userId (db_subusers (snd (SubusersService_invite ''n'' 0 ''s1'' ''ann@x'' [CONTROL_START] demo_full))) = [''u1'']"
proof -
  have e: "server_exists demo_full ''s1''" by (simp add: exists_defs hasRow_def demo_server_def)
  have f: "findOne (\<lambda>u. user_email u = ''ann@x'') (db_users demo_full) = Some (demo_user ''u1'' ''ann'' True)"
    by (simp add: findOne_def demo_user_def)
  obtain r d' where 1: "SubusersService_invite ''n'' 0 ''s1'' ''ann@x'' [CONTROL_START] demo_full = (r, d')" by force
  from subuser_invite_spec [OF demo_full_ok e _ 1] show ?thesis
    unfolding f 1 by (simp add: new_subuser_def demo_user_def)
qed

end
