(* ===== verification/Notifications.thy ===== *)
theory Notifications
  imports UsersProps
begin

text \<open>
  \<^verbatim>\<open>notifications/notifications.service.ts\<close> and its controller: each user's own messages,
  paged, counted and marked as read.  No code of the panel calls \<open>create\<close>.
\<close>

section \<open>Service\<close>

definition NotificationsService_create ::
  "string \<Rightarrow> nat \<Rightarrow> string \<Rightarrow> NotificationType \<Rightarrow> string \<Rightarrow> string \<Rightarrow> string option \<Rightarrow> string option \<Rightarrow>
   'z db_scheme \<Rightarrow> ('z db_scheme, NotificationEntity) handled" where
  "NotificationsService_create newId now userId type title message resourceType resourceId d =
     (let notification = \<lparr>notif_id = newId, notif_userId = userId, notif_type = type, notif_title = title,
            notif_message = message, notif_read = False, notif_resourceType = resourceType,
            notif_resourceId = resourceId, notif_createdAt = now\<rparr>
      in (case save_notification notification d of Inl e \<Rightarrow> (Inl e, d) | Inr d1 \<Rightarrow> (Inr notification, d1)))"

definition NotificationsService_findByUser ::
  "string \<Rightarrow> int \<Rightarrow> int \<Rightarrow> 'z db_scheme \<Rightarrow> exn + NotificationEntity paged" where
  "NotificationsService_findByUser userId page perPage d =
     paginate page perPage (order_desc notif_createdAt (findRows (\<lambda>n. notif_userId n = userId) (db_notifications d)))"

text \<open>The criteria of the two UPDATE statements.\<close>

definition mark_read :: "(NotificationEntity \<Rightarrow> bool) \<Rightarrow> 'z db_scheme \<Rightarrow> 'z db_scheme" where
  "mark_read P d = d\<lparr>db_notifications := updateRows P (notif_read_update (\<lambda>_. True)) (db_notifications d)\<rparr>"

definition NotificationsService_markAsRead :: "string list \<Rightarrow> string \<Rightarrow> 'z db_scheme \<Rightarrow> 'z db_scheme" where
  "NotificationsService_markAsRead ids userId d =
     mark_read (\<lambda>n. notif_id n \<in> set ids \<and> notif_userId n = userId) d"

definition NotificationsService_markAllAsRead :: "string \<Rightarrow> 'z db_scheme \<Rightarrow> 'z db_scheme" where
  "NotificationsService_markAllAsRead userId d =
     mark_read (\<lambda>n. notif_userId n = userId \<and> \<not> notif_read n) d"

definition NotificationsService_countUnread :: "string \<Rightarrow> 'z db_scheme \<Rightarrow> nat" where
  "NotificationsService_countUnread userId d =
     countRows (\<lambda>n. notif_userId n = userId \<and> \<not> notif_read n) (db_notifications d)"

section \<open>Controller\<close>

definition MarkReadDto_ok :: "ext \<Rightarrow> string list \<Rightarrow> bool" where
  "MarkReadDto_ok X notificationIds \<longleftrightarrow> list_all (isUUID4 X) notificationIds"

definition NotificationsController_findAll ::
  "ext \<Rightarrow> nat \<Rightarrow> Request \<Rightarrow> int option \<Rightarrow> int option \<Rightarrow> 'z db_scheme \<Rightarrow> ('z db_scheme, NotificationEntity paged) handled" where
  "NotificationsController_findAll X now req page perPage d =
     with_user X now req
       (\<lambda>u d. (NotificationsService_findByUser (au_id u) (query_or page 1) (query_or perPage 25) d, d)) d"

definition NotificationsController_unreadCount ::
  "ext \<Rightarrow> nat \<Rightarrow> Request \<Rightarrow> 'z db_scheme \<Rightarrow> ('z db_scheme, nat) handled" where
  "NotificationsController_unreadCount X now req d =
     with_user X now req (\<lambda>u d. (Inr (NotificationsService_countUnread (au_id u) d), d)) d"

definition NotificationsController_markRead ::
  "ext \<Rightarrow> nat \<Rightarrow> Request \<Rightarrow> string list \<Rightarrow> 'z db_scheme \<Rightarrow> ('z db_scheme, string) handled" where
  "NotificationsController_markRead X now req ids d =
     with_user X now req (\<lambda>u. validated (MarkReadDto_ok X ids)
       (\<lambda>d. (Inr ''Notifications marked as read'', NotificationsService_markAsRead ids (au_id u) d))) d"

definition NotificationsController_markAllRead ::
  "ext \<Rightarrow> nat \<Rightarrow> Request \<Rightarrow> 'z db_scheme \<Rightarrow> ('z db_scheme, string) handled" where
  "NotificationsController_markAllRead X now req d =
     with_user X now req
       (\<lambda>u d. (Inr ''All notifications marked as read'', NotificationsService_markAllAsRead (au_id u) d)) d"

section \<open>Properties\<close>

lemma mark_read_ok [inv_intros]: "db_ok d \<Longrightarrow> db_ok (mark_read P d)"
  unfolding mark_read_def db_ok_def
  by (auto simp: db_keys_def unique_rows_updateRows no_clash_def children_defs exists_iff table_sets)

lemma countUnread_mark:
  "NotificationsService_countUnread v (mark_read (\<lambda>n. notif_userId n = u \<and> P n) d) =
     countRows (\<lambda>n. notif_userId n = v \<and> \<not> notif_read n \<and> \<not> (u = v \<and> P n)) (db_notifications d)"
  unfolding NotificationsService_countUnread_def mark_read_def countRows_def updateRows_def
  by (simp add: filter_map) (auto simp: comp_def intro!: arg_cong [where f = length] filter_cong)

text \<open>
  What a user marks as read is his: marking a list of identifiers sets the flag of
  exactly his notifications among them, whoever owns the others; marking all leaves him with
  none unread; the unread count of every other user stays, no row is added, removed or set
  back to unread, and nothing else in the database changes.
\<close>

theorem notifications_marked:
  assumes "JwtAuthGuard X now req d = Inr u" and "db_ok d" and "MarkReadDto_ok X ids"
    and "NotificationsController_markRead X now req ids d = (r1, d1)"
    and "NotificationsController_markAllRead X now req d = (r2, d2)"
  shows "is_ok r1 \<and> is_ok r2 \<and> db_ok d1 \<and> db_ok d2 \<and>
    d1 = d\<lparr>db_notifications := map (\<lambda>n. if notif_id n \<in> set ids \<and> notif_userId n = au_id u then n\<lparr>notif_read := True\<rparr> else n)
      (db_notifications d)\<rparr> \<and>
    d2 = d\<lparr>db_notifications := map (\<lambda>n. if notif_userId n = au_id u then n\<lparr>notif_read := True\<rparr> else n) (db_notifications d)\<rparr> \<and>
    NotificationsService_countUnread (au_id u) d2 = 0 \<and>
    (\<forall>v. v \<noteq> au_id u \<longrightarrow>
       NotificationsService_countUnread v d1 = NotificationsService_countUnread v d \<and>
       NotificationsService_countUnread v d2 = NotificationsService_countUnread v d)"
proof -
  let ?P1 = "\<lambda>n. notif_userId n = au_id u \<and> notif_id n \<in> set ids" and ?P2 = "\<lambda>n. notif_userId n = au_id u \<and> \<not> notif_read n"
  have e: "is_ok r1" "d1 = mark_read ?P1 d" "is_ok r2" "d2 = mark_read ?P2 d"
    using assms by (auto simp: NotificationsController_markRead_def NotificationsController_markAllRead_def with_user_def
        RolesGuard_def validated_def NotificationsService_markAsRead_def NotificationsService_markAllAsRead_def conj_commute)
  have "db_ok d1" "db_ok d2" unfolding e by (rule mark_read_ok [OF assms(2)])+
  moreover have "updateRows ?P2 (notif_read_update (\<lambda>_. True)) (db_notifications d) =
      map (\<lambda>n. if notif_userId n = au_id u then n\<lparr>notif_read := True\<rparr> else n) (db_notifications d)"
    by (simp add: updateRows_def)
  moreover have "updateRows ?P1 (notif_read_update (\<lambda>_. True)) (db_notifications d) =
      map (\<lambda>n. if notif_id n \<in> set ids \<and> notif_userId n = au_id u then n\<lparr>notif_read := True\<rparr> else n) (db_notifications d)"
    by (simp add: updateRows_def)
  moreover have "NotificationsService_countUnread (au_id u) d2 = 0"
    unfolding e countUnread_mark by (simp add: countRows_def)
  moreover have "NotificationsService_countUnread v d1 = NotificationsService_countUnread v d"
      "NotificationsService_countUnread v d2 = NotificationsService_countUnread v d" if "v \<noteq> au_id u" for v
    unfolding e countUnread_mark using that by (simp_all add: NotificationsService_countUnread_def)
  ultimately show ?thesis
    using e by (simp add: mark_read_def)
qed

definition demo_notification :: "string \<Rightarrow> string \<Rightarrow> NotificationEntity" where
  "demo_notification i user =
     \<lparr>notif_id = i, notif_userId = user, notif_type = ADMIN_ANNOUNCEMENT, notif_title = ''t'', notif_message = ''m'',
      notif_read = False, notif_resourceType = None, notif_resourceId = None, notif_createdAt = 0\<rparr>"

definition demo_notified :: db where
  "demo_notified = demo_db\<lparr>db_notifications := [demo_notification ''x1'' ''u1'', demo_notification ''x2'' ''u2'']\<rparr>"

lemma demo_notified_ok: "db_ok demo_notified"
  by (simp add: demo_notified_def demo_notification_def demo_db_def empty_db_def demo_user_def db_ok_def db_keys_def
      unique_rows_def user_clash_def no_clash_def children_defs exists_iff)

theorem notifications_marked_witness:
  "let d2 = snd (NotificationsController_markAllRead demo_ext 0 (demo_cookie (demo_user ''u2'' ''bob'' False)) demo_notified)
   in map notif_read (db_notifications d2) = [False, True] \<and> NotificationsService_countUnread ''u2'' d2 = 0"
proof -
  let ?bob = "demo_user ''u2'' ''bob'' False"
  have g: "JwtAuthGuard demo_ext 0 (demo_cookie ?bob) demo_notified =
      Inr \<lparr>au_id = user_id ?bob, au_email = user_email ?bob, au_rootAdmin = user_rootAdmin ?bob\<rparr>"
    by (rule demo_cookie_guard [where v = ?bob]) (simp_all add: validateUser_def findOne_def demo_notified_def demo_user_def)
  obtain r1 d1 where 1: "NotificationsController_markRead demo_ext 0 (demo_cookie ?bob) [] demo_notified = (r1, d1)" by force
  obtain r2 d2 where 2: "NotificationsController_markAllRead demo_ext 0 (demo_cookie ?bob) demo_notified = (r2, d2)" by force
  have "MarkReadDto_ok demo_ext []" by (simp add: MarkReadDto_ok_def)
  from notifications_marked [OF g demo_notified_ok this 1 2]
  have "d2 = demo_notified\<lparr>db_notifications := map (\<lambda>n. if notif_userId n = user_id ?bob then n\<lparr>notif_read := True\<rparr> else n)
        (db_notifications demo_notified)\<rparr>" and c: "NotificationsService_countUnread (user_id ?bob) d2 = 0"
    by (simp_all only: AuthUser.simps) blast+
  then have "db_notifications d2 = map (\<lambda>n. if notif_userId n = user_id ?bob then n\<lparr>notif_read := True\<rparr> else n) (db_notifications demo_notified)"
    by simp
  moreover have u: "user_id ?bob = ''u2''" by (simp add: demo_user_def)
  ultimately show ?thesis
    using c unfolding Let_def 2 snd_conv u by (simp add: demo_notified_def demo_notification_def)
qed

end
