(* ===== verification/Answers.thy ===== *)
theory Answers
  imports ServersAccess ServerDataProps Notifications Gateway
begin

text \<open>
  The bodies of answers: a row goes out as the entity object that TypeORM loaded, with every
  column and every relation that the query joined, because no class has a serializer and no
  column is hidden from selection.  \<open>D\<close> writes a date, \<open>Q\<close> a number of a heartbeat.  Left out is
  \<open>updatedAt\<close>, as in the entities.
\<close>

fun nullable :: "('a \<Rightarrow> json) \<Rightarrow> 'a option \<Rightarrow> json" where
  "nullable f None = JNull"
| "nullable f (Some x) = f x"

definition obj_json :: "string js_obj \<Rightarrow> json" where
  "obj_json kvs = JObj (map (\<lambda>(k, v). (k, JStr v)) kvs)"

definition user_entity_json :: "(nat \<Rightarrow> string) \<Rightarrow> UserEntity \<Rightarrow> json" where
  "user_entity_json D u = JObj
     [(''id'', JStr (user_id u)), (''email'', JStr (user_email u)), (''username'', JStr (user_username u)),
      (''password'', JStr (user_password u)), (''rootAdmin'', JBool (user_rootAdmin u)), (''usesTotp'', JBool (user_usesTotp u)),
      (''totpSecret'', nullable JStr (user_totpSecret u)), (''pendingTotpSecret'', nullable JStr (user_pendingTotpSecret u)),
      (''backupCodes'', nullable (\<lambda>cs. JArr (map JStr cs)) (user_backupCodes u)), (''enabled'', JBool (user_enabled u)),
      (''avatarUrl'', nullable JStr (user_avatarUrl u)), (''lastLogin'', nullable (JStr \<circ> D) (user_lastLogin u)),
      (''createdAt'', JStr (D (user_createdAt u)))]"

definition node_columns :: "(nat \<Rightarrow> string) \<Rightarrow> NodeEntity \<Rightarrow> (string \<times> json) list" where
  "node_columns D n =
     [(''id'', JStr (node_id n)), (''name'', JStr (node_name n)), (''description'', nullable JStr (node_description n)),
      (''location'', JStr (node_location n)), (''locationId'', nullable JStr (node_locationId n)), (''fqdn'', JStr (node_fqdn n)),
      (''scheme'', JStr (node_scheme n)), (''behindProxy'', JBool (node_behindProxy n)), (''memory'', JNum (node_memory n)),
      (''memoryOverallocate'', JNum (node_memoryOverallocate n)), (''disk'', JNum (node_disk n)),
      (''diskOverallocate'', JNum (node_diskOverallocate n)), (''daemonPort'', JNum (node_daemonPort n)),
      (''daemonTokenId'', JStr (node_daemonTokenId n)), (''daemonToken'', JStr (node_daemonToken n)),
      (''uploadSize'', JNum (node_uploadSize n)), (''connectionStatus'', JStr (NodeConnectionStatus_value (node_connectionStatus n))),
      (''wingsVersion'', nullable JStr (node_wingsVersion n)), (''createdAt'', JStr (D (node_createdAt n)))]"

definition location_json :: "(nat \<Rightarrow> string) \<Rightarrow> LocationEntity \<Rightarrow> json" where
  "location_json D l = JObj
     [(''id'', JStr (loc_id l)), (''short'', JStr (loc_short l)), (''long'', JStr (loc_long l)), (''createdAt'', JStr (D (loc_createdAt l)))]"

definition egg_entity_json :: "(nat \<Rightarrow> string) \<Rightarrow> EggEntity \<Rightarrow> json" where
  "egg_entity_json D e = JObj
     [(''id'', JStr (egg_id e)), (''nestId'', JStr (egg_nestId e)), (''name'', JStr (egg_name e)),
      (''description'', nullable JStr (egg_description e)), (''author'', JStr (egg_author e)), (''dockerImage'', JStr (egg_dockerImage e)),
      (''dockerImages'', obj_json (egg_dockerImages e)), (''startup'', JStr (egg_startup e)),
      (''configFiles'', nullable id (egg_configFiles e)), (''configStartup'', nullable id (egg_configStartup e)),
      (''configStop'', nullable JStr (egg_configStop e)), (''configLogs'', nullable id (egg_configLogs e)),
      (''scriptInstall'', nullable JStr (egg_scriptInstall e)), (''scriptEntry'', JStr (egg_scriptEntry e)),
      (''scriptContainer'', JStr (egg_scriptContainer e)), (''copyScriptFrom'', nullable JStr (egg_copyScriptFrom e)),
      (''createdAt'', JStr (D (egg_createdAt e)))]"

definition allocation_json :: "(nat \<Rightarrow> string) \<Rightarrow> AllocationEntity \<Rightarrow> json" where
  "allocation_json D a = JObj
     [(''id'', JStr (alloc_id a)), (''nodeId'', JStr (alloc_nodeId a)), (''ip'', JStr (alloc_ip a)), (''ipAlias'', nullable JStr (alloc_ipAlias a)),
      (''port'', JNum (alloc_port a)), (''notes'', nullable JStr (alloc_notes a)), (''serverId'', nullable JStr (alloc_serverId a)),
      (''createdAt'', JStr (D (alloc_createdAt a)))]"

definition server_json :: "(nat \<Rightarrow> string) \<Rightarrow> FullServer \<Rightarrow> json" where
  "server_json D full = (let s = fs_server full in JObj
     [(''id'', JStr (server_id s)), (''externalId'', nullable JStr (server_externalId s)), (''uuid'', JStr (server_uuid s)),
      (''uuidShort'', JStr (server_uuidShort s)), (''name'', JStr (server_name s)), (''description'', nullable JStr (server_description s)),
      (''userId'', JStr (server_userId s)), (''nodeId'', JStr (server_nodeId s)), (''nestId'', JStr (server_nestId s)),
      (''eggId'', JStr (server_eggId s)), (''allocationId'', JStr (server_allocationId s)), (''memory'', JNum (server_memory s)),
      (''swap'', JNum (server_swap s)), (''disk'', JNum (server_disk s)), (''io'', JNum (server_io s)), (''cpu'', JNum (server_cpu s)),
      (''threads'', nullable JStr (server_threads s)), (''oomDisabled'', JBool (server_oomDisabled s)), (''startup'', JStr (server_startup s)),
      (''image'', JStr (server_image s)), (''envVariables'', obj_json (server_envVariables s)), (''installed'', JNum (server_installed s)),
      (''status'', nullable (JStr \<circ> ServerStatus_value) (server_status s)), (''createdAt'', JStr (D (server_createdAt s))),
      (''node'', nullable (JObj \<circ> node_columns D) (fs_node full)), (''egg'', nullable (egg_entity_json D) (fs_egg full)),
      (''allocation'', nullable (allocation_json D) (fs_allocation full)), (''user'', nullable (user_entity_json D) (fs_user full))])"

definition subuser_json :: "(nat \<Rightarrow> string) \<Rightarrow> FullSubuser \<Rightarrow> json" where
  "subuser_json D full = (let x = fsub_subuser full in JObj
     [(''id'', JStr (subuser_id x)), (''serverId'', JStr (subuser_serverId x)), (''userId'', JStr (subuser_userId x)),
      (''permissions'', JArr (map JStr (subuser_permissions x))), (''createdAt'', JStr (D (subuser_createdAt x))),
      (''user'', nullable (user_entity_json D) (fsub_user full))])"

definition notification_json :: "(nat \<Rightarrow> string) \<Rightarrow> NotificationEntity \<Rightarrow> json" where
  "notification_json D n = JObj
     [(''id'', JStr (notif_id n)), (''userId'', JStr (notif_userId n)), (''type'', JStr (NotificationType_value (notif_type n))),
      (''title'', JStr (notif_title n)), (''message'', JStr (notif_message n)), (''read'', JBool (notif_read n)),
      (''resourceType'', nullable JStr (notif_resourceType n)), (''resourceId'', nullable JStr (notif_resourceId n)),
      (''createdAt'', JStr (D (notif_createdAt n)))]"

definition audit_json :: "(nat \<Rightarrow> string) \<Rightarrow> AuditLogEntity \<times> UserEntity option \<Rightarrow> json" where
  "audit_json D = (\<lambda>(a, u). JObj
     [(''id'', JStr (audit_id a)), (''userId'', nullable JStr (audit_userId a)), (''event'', JStr (audit_event a)),
      (''ip'', nullable JStr (audit_ip a)), (''metadata'', JObj (audit_metadata a)), (''createdAt'', JStr (D (audit_createdAt a))),
      (''user'', nullable (user_entity_json D) u)])"

definition user_row_json :: "(nat \<Rightarrow> string) \<Rightarrow> UserRow \<Rightarrow> json" where
  "user_row_json D u = JObj
     [(''id'', JStr (ur_id u)), (''email'', JStr (ur_email u)), (''username'', JStr (ur_username u)), (''rootAdmin'', JBool (ur_rootAdmin u)),
      (''usesTotp'', JBool (ur_usesTotp u)), (''enabled'', JBool (ur_enabled u)), (''avatarUrl'', nullable JStr (ur_avatarUrl u)),
      (''createdAt'', JStr (D (ur_createdAt u)))]"

definition node_row_json :: "(nat \<Rightarrow> string) \<Rightarrow> (rat \<Rightarrow> json) \<Rightarrow> NodeListRow \<Rightarrow> json" where
  "node_row_json D Q r = JObj (node_columns D (nl_node r) @
     [(''locationEntity'', nullable (location_json D) (nl_location r)), (''serverCount'', JNum (int (nl_serverCount r))),
      (''allocationCount'', JNum (int (nl_allocationCount r))), (''online'', JBool (nl_online r)),
      (''memoryUsed'', nullable Q (nl_memoryUsed r)), (''memoryTotal'', nullable Q (nl_memoryTotal r)),
      (''diskUsed'', nullable Q (nl_diskUsed r)), (''diskTotal'', nullable Q (nl_diskTotal r)),
      (''cpuUsage'', nullable Q (nl_cpuUsage r)), (''lastHeartbeat'', nullable (JStr \<circ> D) (nl_lastHeartbeat r))])"

definition page_json :: "('a \<Rightarrow> json) \<Rightarrow> 'a paged \<Rightarrow> json" where
  "page_json row p = JObj
     [(''data'', JArr (map row (pg_data p))),
      (''meta'', JObj [(''total'', JNum (int (pg_total p))), (''page'', JNum (pg_page p)), (''perPage'', JNum (pg_perPage p)),
                      (''totalPages'', JNum (pg_totalPages p))])]"

definition list_json :: "('a \<Rightarrow> json) \<Rightarrow> 'a list \<Rightarrow> json" where
  "list_json row xs = JArr (map row xs)"

text \<open>What a client reads from a body: a property of a property, a string.\<close>

fun json_path :: "string list \<Rightarrow> json \<Rightarrow> json option" where
  "json_path [] j = Some j"
| "json_path (k # ks) j = Option.bind (json_field k j) (json_path ks)"

fun json_items :: "json \<Rightarrow> json list" where
  "json_items (JArr xs) = xs"
| "json_items _ = []"

fun json_text :: "json option \<Rightarrow> string" where
  "json_text (Some (JStr s)) = s"
| "json_text _ = []"

lemmas row_defs = user_entity_json_def node_columns_def location_json_def egg_entity_json_def allocation_json_def server_json_def
  subuser_json_def notification_json_def audit_json_def user_row_json_def node_row_json_def page_json_def list_json_def

end
