(* ===== verification/Search.thy ===== *)
theory Search
  imports Servers Eggs
begin

text \<open>
  \<^verbatim>\<open>search/search.service.ts\<close> with its controller, and the statistics of \<^verbatim>\<open>admin/admin.service.ts\<close>:
  two queries that name the columns they want.  A query that names a column its table does not
  have is refused by the database.
\<close>

definition ServerEntity_columns :: "string list" where
  "ServerEntity_columns =
     [''id'', ''externalId'', ''uuid'', ''uuidShort'', ''name'', ''description'', ''userId'', ''nodeId'', ''nestId'', ''eggId'',
      ''allocationId'', ''memory'', ''swap'', ''disk'', ''io'', ''cpu'', ''threads'', ''oomDisabled'', ''startup'', ''image'',
      ''envVariables'', ''installed'', ''status'', ''createdAt'', ''updatedAt'']"

definition select_rows :: "string list \<Rightarrow> string list \<Rightarrow> 'r list \<Rightarrow> exn + 'r list" where
  "select_rows columns selected rows = (if set selected \<subseteq> set columns then Inr rows else Inl QueryFailedError)"

section \<open>The search\<close>

record SearchResults =
  sr_servers :: "(string \<times> string \<times> string \<times> ServerStatus option) list"
  sr_users :: "(string \<times> string \<times> string) list"
  sr_eggs :: "(string \<times> string \<times> string) list"
  sr_nodes :: "(string \<times> string \<times> string) list"

definition search_servers :: "ext \<Rightarrow> string \<Rightarrow> string \<Rightarrow> bool \<Rightarrow> 'z db_scheme \<Rightarrow> exn + ServerEntity list" where
  "search_servers X searchPattern userId isAdmin d =
     map_sum id (take 10)
       (select_rows ServerEntity_columns [''id'', ''uuid'', ''name'', ''powerState'']
          (findRows (\<lambda>s. sqlILike X (server_name s) searchPattern \<and> (\<not> isAdmin \<longrightarrow> server_userId s = userId)) (db_servers d)))"

definition nest_name_of :: "'z db_scheme \<Rightarrow> EggEntity \<Rightarrow> string" where
  "nest_name_of d e = (case findOne (\<lambda>n. nest_id n = egg_nestId e) (db_nests d) of None \<Rightarrow> [] | Some n \<Rightarrow> nest_name n)"

definition SearchService_globalSearch ::
  "ext \<Rightarrow> string \<Rightarrow> string \<Rightarrow> bool \<Rightarrow> 'z db_scheme \<Rightarrow> exn + SearchResults" where
  "SearchService_globalSearch X query userId isAdmin d =
     (let searchPattern = like_pattern query
      in (case search_servers X searchPattern userId isAdmin d of
            Inl e \<Rightarrow> Inl e
          | Inr servers \<Rightarrow>
              (let users = (if isAdmin then take 10 (findRows (\<lambda>u. sqlLike X (user_username u) searchPattern \<or>
                              sqlLike X (user_email u) searchPattern) (db_users d)) else []);
                   eggs = take 10 (findRows (\<lambda>e. sqlILike X (egg_name e) searchPattern) (db_eggs d));
                   nodes = (if isAdmin then take 10 (findRows (\<lambda>n. sqlLike X (node_name n) searchPattern \<or>
                              sqlLike X (node_fqdn n) searchPattern) (db_nodes d)) else [])
               in Inr \<lparr>sr_servers = map (\<lambda>s. (server_id s, server_uuid s, server_name s, server_status s)) servers,
                       sr_users = map (\<lambda>u. (user_id u, user_username u, user_email u)) users,
                       sr_eggs = map (\<lambda>e. (egg_id e, egg_name e, nest_name_of d e)) eggs,
                       sr_nodes = map (\<lambda>n. (node_id n, node_name n, node_fqdn n)) nodes\<rparr>)))"

definition SearchController_search ::
  "ext \<Rightarrow> nat \<Rightarrow> Request \<Rightarrow> string \<Rightarrow> 'z db_scheme \<Rightarrow> ('z db_scheme, SearchResults) handled" where
  "SearchController_search X now req query d =
     with_user X now req (\<lambda>u d. (SearchService_globalSearch X query (au_id u) (au_rootAdmin u) d, d)) d"

section \<open>The statistics of the administration\<close>

record DashboardStats =
  ds_totalUsers :: nat
  ds_totalServers :: nat
  ds_totalNodes :: nat
  ds_serversByState :: "(string \<times> nat) list"
  ds_nodes :: "(string \<times> string \<times> NodeConnectionStatus \<times> int \<times> int) list"

text \<open>\<open>GROUP BY server.powerState\<close>: no column of the rows of the model could be grouped.\<close>

definition servers_by_state :: "'z db_scheme \<Rightarrow> exn + (string \<times> nat) list" where
  "servers_by_state d = map_sum id (\<lambda>_. []) (select_rows ServerEntity_columns [''powerState''] (db_servers d))"

definition AdminService_getDashboardStats :: "'z db_scheme \<Rightarrow> exn + DashboardStats" where
  "AdminService_getDashboardStats d =
     (case servers_by_state d of
        Inl e \<Rightarrow> Inl e
      | Inr byState \<Rightarrow>
          Inr \<lparr>ds_totalUsers = length (db_users d), ds_totalServers = length (db_servers d), ds_totalNodes = length (db_nodes d),
               ds_serversByState = byState,
               ds_nodes = map (\<lambda>n. (node_id n, node_name n, node_connectionStatus n, node_memory n, node_disk n)) (db_nodes d)\<rparr>)"

definition AdminController_getDashboard ::
  "ext \<Rightarrow> nat \<Rightarrow> Request \<Rightarrow> 'z db_scheme \<Rightarrow> ('z db_scheme, DashboardStats) handled" where
  "AdminController_getDashboard X now req d = with_admin X now req (\<lambda>_ d. (AdminService_getDashboardStats d, d)) d"

section \<open>Neither ever answers\<close>

lemma select_powerState: "''powerState'' \<in> set selected \<Longrightarrow> select_rows ServerEntity_columns selected rows = Inl QueryFailedError"
  by (auto simp: select_rows_def ServerEntity_columns_def)

lemma globalSearch_fails: "SearchService_globalSearch X query userId isAdmin d = Inl QueryFailedError"
  by (simp add: SearchService_globalSearch_def search_servers_def select_powerState)

text \<open>
  Every search and every request for the statistics fails, for every user and every content
  of the database: both ask for the column \<open>powerState\<close>, which the table of servers does not
  have.  Nothing is written.
\<close>

theorem missing_column_queries_fail:
  shows "\<not> is_ok (fst (SearchController_search X now req query d)) \<and> \<not> is_ok (fst (AdminController_getDashboard X now req d)) \<and>
    snd (SearchController_search X now req query d) = d \<and> snd (AdminController_getDashboard X now req d) = d"
  by (simp add: SearchController_search_def AdminController_getDashboard_def globalSearch_fails with_user_def with_admin_def RolesGuard_def
      AdminService_getDashboardStats_def servers_by_state_def select_powerState split: sum.split)

end
