(* ===== verification/WebTables.thy ===== *)
theory WebTables
  imports WebForms Answers Search
begin

text \<open>
  The lists of the interface: the request each page makes when it opens, the state it keeps of
  the answer (\<open>data.data || []\<close>), and what it shows of the rows.  A request that fails leaves the
  empty list of the beginning.
\<close>

section \<open>Fetching\<close>

definition or_empty :: "json \<Rightarrow> json" where
  "or_empty data = (case json_field ''data'' data of Some v \<Rightarrow> if json_truthy v then v else JArr [] | None \<Rightarrow> JArr [])"

definition body_of :: "('a \<Rightarrow> json) \<Rightarrow> ('s, 'a) handled \<Rightarrow> json option" where
  "body_of row r = (case fst r of Inl e \<Rightarrow> None | Inr a \<Rightarrow> Some (row a))"

text \<open>
  The answers of the methods that list; \<open>i\<close> is the identifier in the path, \<open>perPage\<close> the query
  parameter.  Of rows whose columns no page reads, \<open>J\<close> stands for the JSON.
\<close>

record row_writers =
  jw_location :: "LocationEntity \<times> nat \<Rightarrow> json"
  jw_nest :: "FullNest \<Rightarrow> json"
  jw_session :: "SessionView \<Rightarrow> json"
  jw_database :: "ServerDatabaseEntity \<Rightarrow> json"
  jw_schedule :: "FullSchedule \<Rightarrow> json"
  jw_results :: "SearchResults \<Rightarrow> json"

definition list_answer ::
  "ext \<Rightarrow> (nat \<Rightarrow> string) \<Rightarrow> (rat \<Rightarrow> json) \<Rightarrow> row_writers \<Rightarrow> nat \<Rightarrow> Request \<Rightarrow> string \<Rightarrow> int option \<Rightarrow>
   'z node_panel_scheme \<Rightarrow> string \<Rightarrow> json option" where
  "list_answer X D Q J now rq i perPage s handler =
     (if handler = ''ServersController.findAll'' then body_of (page_json (server_json D)) (ServersController_findAll X now rq None perPage None s)
      else if handler = ''AdminUsersController.findAll'' then body_of (page_json (user_row_json D)) (AdminUsers_findAll X now rq None perPage None s)
      else if handler = ''AdminNodesController.findAll'' then body_of (page_json (node_row_json D Q)) (AdminNodes_findAll X now rq None perPage None s)
      else if handler = ''AdminAllocationsController.findByNode''
      then body_of (page_json (allocation_json D)) (AdminAllocations_findByNode X now rq i None perPage s)
      else if handler = ''NotificationsController.findAll'' then body_of (page_json (notification_json D)) (NotificationsController_findAll X now rq None perPage s)
      else if handler = ''AuditLogController.findAll'' then body_of (page_json (audit_json D)) (AuditLogController_findAll X now rq None perPage None None s)
      else if handler = ''LocationsController.findAll'' then body_of (list_json (jw_location J)) (LocationsController_findAll X now rq s)
      else if handler = ''EggsController.findAllNests'' then body_of (list_json (jw_nest J)) (EggsController_findAllNests X now rq s)
      else if handler = ''AuthController.getSessions'' then body_of (list_json (jw_session J)) (AuthController_getSessions X now rq s)
      else if handler = ''DatabasesController.findByServer'' then body_of (list_json (jw_database J)) (DatabasesController_findByServer X now rq i s)
      else if handler = ''SchedulesController.findByServer'' then body_of (list_json (jw_schedule J)) (SchedulesController_findByServer X now rq i s)
      else if handler = ''SubusersController.findByServer'' then body_of (list_json (subuser_json D)) (SubusersController_findByServer X now rq i s)
      else if handler = ''SearchController.search'' then body_of (jw_results J) (SearchController_search X now rq i s)
      else None)"

text \<open>The pages and components with a list, by their effect on opening.\<close>

datatype list_view =
    DashboardPage_servers | ServersPage_servers | AdminServersPage_servers | UsersPage_users | NodesPage_nodes
  | NodesPage_locations | NodesPage_allocations string | LocationsPage_locations | EggsPage_eggs | AuditLogPage_entries
  | ApiKeysPage_keys | SessionsPage_sessions | NotificationsDropdown_notifications | DatabasesPage_databases string
  | SchedulesPage_schedules string | SubusersPage_subusers string | FilesPage_files string | StartupPage_variables string
  | GlobalSearch_results string

fun view_call :: "list_view \<Rightarrow> string web_call" where
  "view_call DashboardPage_servers = CallServers ServersList"
| "view_call ServersPage_servers = CallServers ServersList"
| "view_call AdminServersPage_servers = CallPage AdminServersList"
| "view_call UsersPage_users = CallPage UsersList"
| "view_call NodesPage_nodes = CallNodes NodesList"
| "view_call NodesPage_locations = CallLocations LocationsList"
| "view_call (NodesPage_allocations i) = CallNodes (NodesAllocations i)"
| "view_call LocationsPage_locations = CallLocations LocationsList"
| "view_call EggsPage_eggs = CallEggs EggsList"
| "view_call AuditLogPage_entries = CallPage AuditLogList"
| "view_call ApiKeysPage_keys = CallPage ApiKeysList"
| "view_call SessionsPage_sessions = CallAuth ListSessions"
| "view_call NotificationsDropdown_notifications = CallNotifications NotificationsList"
| "view_call (DatabasesPage_databases u) = CallServers (GetDatabases u)"
| "view_call (SchedulesPage_schedules u) = CallServers (GetSchedules u)"
| "view_call (SubusersPage_subusers u) = CallServers (GetSubusers u)"
| "view_call (FilesPage_files u) = CallFiles (FilesList u)"
| "view_call (StartupPage_variables u) = CallServers (GetStartup u)"
| "view_call (GlobalSearch_results q) = CallPage SearchGlobal"

fun view_perPage :: "list_view \<Rightarrow> int option" where
  "view_perPage AuditLogPage_entries = Some 50"
| "view_perPage NotificationsDropdown_notifications = Some 10"
| "view_perPage _ = None"

fun view_key :: "list_view \<Rightarrow> string" where
  "view_key (NodesPage_allocations i) = i"
| "view_key (DatabasesPage_databases u) = u"
| "view_key (SchedulesPage_schedules u) = u"
| "view_key (SubusersPage_subusers u) = u"
| "view_key (FilesPage_files u) = u"
| "view_key (StartupPage_variables u) = u"
| "view_key (GlobalSearch_results q) = q"
| "view_key _ = []"

definition fetch_list ::
  "ext \<Rightarrow> (nat \<Rightarrow> string) \<Rightarrow> (rat \<Rightarrow> json) \<Rightarrow> row_writers \<Rightarrow> nat \<Rightarrow> Request \<Rightarrow> list_view \<Rightarrow> 'z node_panel_scheme \<Rightarrow> json" where
  "fetch_list X D Q J now rq v s =
     (case (case web_request (view_call v) of (m, path) \<Rightarrow> dispatch m path) of
        None \<Rightarrow> JArr []
      | Some handler \<Rightarrow>
          (case list_answer X D Q J now rq (view_key v) (view_perPage v) s handler of
             None \<Rightarrow> JArr []
           | Some data \<Rightarrow> or_empty data))"

section \<open>The cards of the servers\<close>

text \<open>A property as text: \<open>x || d\<close>.\<close>

definition text_or :: "json option \<Rightarrow> string \<Rightarrow> json" where
  "text_or v d = (case v of Some x \<Rightarrow> if json_truthy x then x else JStr d | None \<Rightarrow> JStr d)"

definition status_is :: "string \<Rightarrow> json \<Rightarrow> bool" where
  "status_is st server \<longleftrightarrow> json_field ''status'' server = Some (JStr st)"

record ServerCard =
  card_title :: "json option"
  card_egg :: json
  card_node :: json
  card_label :: "json option" \<comment> \<open>of the chip; \<open>null\<close> is empty\<close>
  card_cpu :: json
  card_memUsed :: json
  card_memLimit :: json
  card_start :: bool \<comment> \<open>the buttons that are enabled\<close>
  card_stop :: bool
  card_restart :: bool

definition resource :: "string \<Rightarrow> int \<Rightarrow> json \<Rightarrow> json" where
  "resource key d server =
     (case Option.bind (json_field ''resources'' server) (json_field key) of None \<Rightarrow> JNum d | Some JNull \<Rightarrow> JNum d | Some v \<Rightarrow> v)"

definition ServerCard_of :: "json \<Rightarrow> ServerCard" where
  "ServerCard_of server =
     \<lparr>card_title = json_field ''name'' server,
      card_egg = text_or (json_field ''eggName'' server) ''Unknown'', card_node = text_or (json_field ''nodeName'' server) ''Node'',
      card_label = json_field ''status'' server, card_cpu = resource ''cpuPercent'' 0 server,
      card_memUsed = resource ''memoryBytes'' 0 server, card_memLimit = resource ''memoryLimitBytes'' 1 server,
      card_start = (\<not> status_is ''running'' server), card_stop = (\<not> status_is ''offline'' server),
      card_restart = (\<not> status_is ''offline'' server)\<rparr>"

section \<open>The dashboard\<close>

text \<open>\<open>s.memory || 0\<close>; the columns are numbers.\<close>

definition number_or_zero :: "json option \<Rightarrow> int" where
  "number_or_zero v = (case v of Some (JNum n) \<Rightarrow> n | _ \<Rightarrow> 0)"

record Dashboard =
  dash_totalServers :: nat
  dash_runningServers :: nat
  dash_totalRamMB :: int
  dash_totalDiskMB :: int
  dash_previewServers :: "ServerCard list"

definition DashboardPage :: "json \<Rightarrow> Dashboard" where
  "DashboardPage state =
     (let servers = json_items state
      in \<lparr>dash_totalServers = length servers, dash_runningServers = length (filter (status_is ''running'') servers),
          dash_totalRamMB = fold (\<lambda>s sum. sum + number_or_zero (json_field ''memory'' s)) servers 0,
          dash_totalDiskMB = fold (\<lambda>s sum. sum + number_or_zero (json_field ''disk'' s)) servers 0,
          dash_previewServers = map ServerCard_of (take 4 servers)\<rparr>)"

text \<open>The search of \<^verbatim>\<open>pages/servers/ServersPage.tsx\<close>.\<close>

fun lower_includes :: "string \<Rightarrow> json option \<Rightarrow> bool" where
  "lower_includes search (Some (JStr t)) = str_includes (js_toLowerCase t) (js_toLowerCase search)"
| "lower_includes search _ = False"

definition ServersPage_filtered :: "string \<Rightarrow> json \<Rightarrow> json list" where
  "ServersPage_filtered search state =
     filter (\<lambda>s. lower_includes search (json_field ''name'' s) \<or> lower_includes search (json_field ''eggName'' s)) (json_items state)"

section \<open>The tables of the administration\<close>

text \<open>A property of a value of type string: calling a method of \<open>undefined\<close> or \<open>null\<close> throws.\<close>

fun string_of :: "json option \<Rightarrow> exn + string" where
  "string_of (Some (JStr t)) = Inr t"
| "string_of _ = Inl TypeError"

fun all_ok :: "('a \<Rightarrow> exn + 'b) \<Rightarrow> 'a list \<Rightarrow> exn + 'b list" where
  "all_ok f [] = Inr []"
| "all_ok f (x # xs) = (case f x of Inl e \<Rightarrow> Inl e | Inr y \<Rightarrow> map_sum id (Cons y) (all_ok f xs))"

text \<open>The rows of the users: letter of the avatar, name, address, role, servers, last login.\<close>

record UserTableRow =
  ut_avatar :: string
  ut_username :: string
  ut_email :: "json option"
  ut_role :: string
  ut_servers :: "json option"
  ut_lastLogin :: "json option" \<comment> \<open>none: a dash\<close>

definition UsersPage_row :: "json \<Rightarrow> exn + UserTableRow" where
  "UsersPage_row u =
     (case string_of (json_field ''username'' u) of
        Inl e \<Rightarrow> Inl e
      | Inr username \<Rightarrow>
          Inr \<lparr>ut_avatar = js_toUpperCase (take 1 username), ut_username = username, ut_email = json_field ''email'' u,
               ut_role = (case json_field ''isAdmin'' u of Some b \<Rightarrow> if json_truthy b then ''Admin'' else ''User'' | None \<Rightarrow> ''User''),
               ut_servers = json_field ''serversCount'' u,
               ut_lastLogin = (case json_field ''lastLoginAt'' u of Some t \<Rightarrow> if json_truthy t then Some t else None | None \<Rightarrow> None)\<rparr>)"

text \<open>The rows of the nodes.  A number in a template is its text, \<open>undefined\<close> too; \<open>F\<close> writes a quotient of doubles in percent.\<close>

fun template_text :: "json option \<Rightarrow> string" where
  "template_text None = ''undefined''"
| "template_text (Some v) = js_String v"

definition field_truthy :: "string \<Rightarrow> json \<Rightarrow> bool" where
  "field_truthy k v = (case json_field k v of Some x \<Rightarrow> json_truthy x | None \<Rightarrow> False)"

definition percent :: "(int \<Rightarrow> int \<Rightarrow> string) \<Rightarrow> json option \<Rightarrow> json option \<Rightarrow> string" where
  "percent F used whole =
     (case whole of Some (JNum n) \<Rightarrow> if 0 < n then F (number_or_zero used) n else ''0%'' | _ \<Rightarrow> ''0%'')"

record NodeTableRow =
  nt_name :: "json option"
  nt_location :: json
  nt_address :: string
  nt_servers :: "json option"
  nt_memory :: string
  nt_disk :: string
  nt_status :: string

definition getStatusLabel :: "json \<Rightarrow> string" where
  "getStatusLabel node =
     (if field_truthy ''isMaintenance'' node then ''Maintenance'' else if field_truthy ''isOnline'' node then ''Online'' else ''Offline'')"

definition NodesPage_row :: "(int \<Rightarrow> int \<Rightarrow> string) \<Rightarrow> json \<Rightarrow> NodeTableRow" where
  "NodesPage_row F node =
     \<lparr>nt_name = json_field ''name'' node, nt_location = text_or (json_field ''locationName'' node) ''-'',
      nt_address = template_text (json_field ''scheme'' node) @ ''://'' @ template_text (json_field ''fqdn'' node) @ '':'' @
        template_text (json_field ''port'' node),
      nt_servers = json_field ''serversCount'' node,
      nt_memory = percent F (json_field ''memoryUsedMB'' node) (json_field ''memoryMB'' node),
      nt_disk = percent F (json_field ''diskUsedMB'' node) (json_field ''diskMB'' node), nt_status = getStatusLabel node\<rparr>"

text \<open>The audit log: the filter of the two fields, then a row with the part of the action before the colon.\<close>

fun or_else :: "exn + bool \<Rightarrow> exn + bool \<Rightarrow> exn + bool" where
  "or_else (Inl e) r = Inl e"
| "or_else (Inr b) r = (if b then Inr True else r)"

definition calls_includes :: "string \<Rightarrow> json option \<Rightarrow> exn + bool" where
  "calls_includes search v = map_sum id (\<lambda>t. str_includes t search) (string_of v)"

definition AuditLogPage_matches :: "string \<Rightarrow> string \<Rightarrow> json \<Rightarrow> exn + bool" where
  "AuditLogPage_matches search actionFilter e =
     (case or_else (Inr (search = []))
        (or_else (calls_includes search (json_field ''action'' e))
          (or_else (calls_includes search (json_field ''username'' e)) (calls_includes search (json_field ''ipAddress'' e)))) of
        Inl x \<Rightarrow> Inl x
      | Inr matchesSearch \<Rightarrow>
          (case (if actionFilter = [] then Inr True
                 else map_sum id (\<lambda>t. js_startsWith t actionFilter) (string_of (json_field ''action'' e))) of
             Inl x \<Rightarrow> Inl x
           | Inr matchesAction \<Rightarrow> Inr (matchesSearch \<and> matchesAction)))"

record AuditTableRow =
  at_action :: string
  at_base :: string
  at_username :: "json option"
  at_ip :: "json option"

definition AuditLogPage_row :: "json \<Rightarrow> exn + AuditTableRow" where
  "AuditLogPage_row entry =
     map_sum id (\<lambda>t. \<lparr>at_action = t, at_base = hd (js_split (CHR '':'') t), at_username = json_field ''username'' entry,
                        at_ip = json_field ''ipAddress'' entry\<rparr>)
       (string_of (json_field ''action'' entry))"

definition AuditLogPage :: "string \<Rightarrow> string \<Rightarrow> json \<Rightarrow> exn + AuditTableRow list" where
  "AuditLogPage search actionFilter state =
     (case all_ok (\<lambda>e. map_sum id (Pair e) (AuditLogPage_matches search actionFilter e)) (json_items state) of
        Inl x \<Rightarrow> Inl x
      | Inr es \<Rightarrow> all_ok AuditLogPage_row (map fst (filter snd es)))"

section \<open>The notifications\<close>

record NotificationsDropdown =
  nd_notifications :: json
  nd_unreadCount :: int

definition initial_dropdown :: NotificationsDropdown where
  "initial_dropdown = \<lparr>nd_notifications = JArr [], nd_unreadCount = 0\<rparr>"

text \<open>\<open>data.data?.count ?? data.count ?? 0\<close>\<close>

definition count_of :: "json \<Rightarrow> int" where
  "count_of data =
     (case Option.bind (json_field ''data'' data) (json_field ''count'') of
        Some (JNum n) \<Rightarrow> n
      | _ \<Rightarrow> number_or_zero (json_field ''count'' data))"

definition NotificationsDropdown_mount :: "ext \<Rightarrow> nat \<Rightarrow> Request \<Rightarrow> 'z db_scheme \<Rightarrow> NotificationsDropdown \<Rightarrow> NotificationsDropdown" where
  "NotificationsDropdown_mount X now rq d p =
     (case body_of (\<lambda>n. JObj [(''count'', JNum (int n))]) (NotificationsController_unreadCount X now rq d) of
        None \<Rightarrow> p
      | Some data \<Rightarrow> p\<lparr>nd_unreadCount := count_of data\<rparr>)"

text \<open>A click on a notification waits for its request; only when that succeeds the state changes.\<close>

definition mark_row :: "json \<Rightarrow> json" where
  "mark_row n = (case n of JObj kvs \<Rightarrow> JObj (AList.update ''read'' (JBool True) kvs) | _ \<Rightarrow> n)"

definition click_notification :: "json \<Rightarrow> NotificationsDropdown \<Rightarrow> NotificationsDropdown" where
  "click_notification n p =
     (if field_truthy ''read'' n then p
      else (case web_request (CallNotifications (NotificationsMarkRead (json_text (json_field ''id'' n)))) of
              (m, path) \<Rightarrow>
                (case dispatch m path of
                   None \<Rightarrow> p
                 | Some h \<Rightarrow>
                     p\<lparr>nd_notifications := JArr (map (\<lambda>x. if json_field ''id'' x = json_field ''id'' n then mark_row x else x)
                                                  (json_items (nd_notifications p))),
                       nd_unreadCount := max 0 (nd_unreadCount p - 1)\<rparr>)))"

definition handleMarkAllRead ::
  "ext \<Rightarrow> nat \<Rightarrow> Request \<Rightarrow> NotificationsDropdown \<Rightarrow> 'z db_scheme \<Rightarrow> NotificationsDropdown \<times> 'z db_scheme" where
  "handleMarkAllRead X now rq p d =
     (case NotificationsController_markAllRead X now rq d of
        (Inl e, d1) \<Rightarrow> (p, d1)
      | (Inr r, d1) \<Rightarrow> (p\<lparr>nd_unreadCount := 0, nd_notifications := JArr (map mark_row (json_items (nd_notifications p)))\<rparr>, d1))"

end
