(* ===== verification/WebApiProps.thy ===== *)
theory WebApiProps
  imports WebApi
begin

text \<open>Which requests of the frontend reach a method of the backend, and which none.\<close>

section \<open>Parts of a path\<close>

lemma split_id: "c \<notin> set s \<Longrightarrow> js_split c (s @ c # r) = s # js_split c r"
  by (induction s) auto

lemma split_last: "c \<notin> set s \<Longrightarrow> js_split c s = [s]"
  by (induction s) auto

lemma ascii_lower_special:
  assumes "of_char d < (65 :: nat)"
  shows "ascii_lower c = d \<longleftrightarrow> c = d"
proof (cases "65 \<le> (of_char c :: nat) \<and> of_char c \<le> (90 :: nat)")
  case True
  then have "of_char (ascii_lower c) = (of_char c + 32 :: nat)" by (simp add: ascii_lower_def Let_def)
  then have "ascii_lower c \<noteq> d" "c \<noteq> d" using assms True by auto
  then show ?thesis by simp
qed (auto simp: ascii_lower_def Let_def)

lemma lower_member: "of_char d < (65 :: nat) \<Longrightarrow> d \<in> ascii_lower ` set s \<longleftrightarrow> d \<in> set s"
  using ascii_lower_special [of d] by (metis (no_types, lifting) image_iff)

lemma id_lower: "id_ok i \<Longrightarrow> id_ok (map ascii_lower i)"
  by (simp add: id_ok_def lower_member)

lemma until_query:
  "id_ok i \<Longrightarrow> takeWhile (\<lambda>c. c \<noteq> CHR ''?'' \<and> c \<noteq> CHR ''#'') (i @ r) = i @ takeWhile (\<lambda>c. c \<noteq> CHR ''?'' \<and> c \<noteq> CHR ''#'') r"
  by (rule takeWhile_append2) (auto simp: id_ok_def)

lemma until_end: "id_ok i \<Longrightarrow> takeWhile (\<lambda>c. c \<noteq> CHR ''?'' \<and> c \<noteq> CHR ''#'') i = i"
  using until_query [of i "[]"] by simp

lemma id_split:
  "id_ok i \<Longrightarrow> js_split (CHR ''/'') (i @ CHR ''/'' # r) = i # js_split (CHR ''/'') r" "id_ok i \<Longrightarrow> js_split (CHR ''/'') i = [i]"
  "id_ok i \<Longrightarrow> i \<noteq> []"
  by (auto simp: id_ok_def split_id split_last)

lemma lower_chars:
  "ascii_lower (CHR ''a'') = CHR ''a''" "ascii_lower (CHR ''b'') = CHR ''b''" "ascii_lower (CHR ''c'') = CHR ''c''"
  "ascii_lower (CHR ''d'') = CHR ''d''" "ascii_lower (CHR ''e'') = CHR ''e''" "ascii_lower (CHR ''f'') = CHR ''f''"
  "ascii_lower (CHR ''g'') = CHR ''g''" "ascii_lower (CHR ''h'') = CHR ''h''" "ascii_lower (CHR ''i'') = CHR ''i''"
  "ascii_lower (CHR ''j'') = CHR ''j''" "ascii_lower (CHR ''k'') = CHR ''k''" "ascii_lower (CHR ''l'') = CHR ''l''"
  "ascii_lower (CHR ''m'') = CHR ''m''" "ascii_lower (CHR ''n'') = CHR ''n''" "ascii_lower (CHR ''o'') = CHR ''o''"
  "ascii_lower (CHR ''p'') = CHR ''p''" "ascii_lower (CHR ''q'') = CHR ''q''" "ascii_lower (CHR ''r'') = CHR ''r''"
  "ascii_lower (CHR ''s'') = CHR ''s''" "ascii_lower (CHR ''t'') = CHR ''t''" "ascii_lower (CHR ''u'') = CHR ''u''"
  "ascii_lower (CHR ''v'') = CHR ''v''" "ascii_lower (CHR ''w'') = CHR ''w''" "ascii_lower (CHR ''x'') = CHR ''x''"
  "ascii_lower (CHR ''y'') = CHR ''y''" "ascii_lower (CHR ''z'') = CHR ''z''" "ascii_lower (CHR ''2'') = CHR ''2''"
  "ascii_lower (CHR ''-'') = CHR ''-''" "ascii_lower (CHR ''/'') = CHR ''/''"
  by (simp_all add: ascii_lower_def)

text \<open>The routes of each controller, written out, are searched one controller after the other.\<close>


lemma find_routes:
  "find P routes = find P (AuthController_routes @ UsersController_routes @ ServersController_routes @ ServerCallbacksController_routes @ NodesController_routes @ AllocationsController_routes @ EggsController_routes @ FilesController_routes @ DatabasesController_routes @ SchedulesController_routes @ SubusersController_routes @ ApiKeysController_routes @ AuditLogController_routes @ NotificationsController_routes @ SearchController_routes @ AdminController_routes @ AdminNodesController_routes @ AdminUsersController_routes @ AdminAllocationsController_routes @ SseController_routes @ LocationsController_routes)"
  by (simp add: routes_def)

lemma controller_routes:
  "find P AuthController_routes = find P
    [(POST, [Lit ''auth'', Lit ''register''], ''AuthController.register''),
     (POST, [Lit ''auth'', Lit ''login''], ''AuthController.login''),
     (POST, [Lit ''auth'', Lit ''refresh''], ''AuthController.refresh''),
     (POST, [Lit ''auth'', Lit ''logout''], ''AuthController.logout''), (GET, [Lit ''auth'', Lit ''me''], ''AuthController.me''),
     (POST, [Lit ''auth'', Lit ''2fa'', Lit ''setup''], ''AuthController.setupTwoFactor''),
     (POST, [Lit ''auth'', Lit ''2fa'', Lit ''verify''], ''AuthController.verifyTwoFactor''),
     (POST, [Lit ''auth'', Lit ''2fa'', Lit ''disable''], ''AuthController.disableTwoFactor''),
     (POST, [Lit ''auth'', Lit ''2fa'', Lit ''login''], ''AuthController.verifyTwoFactorLogin''),
     (GET, [Lit ''auth'', Lit ''sessions''], ''AuthController.getSessions''),
     (DELETE, [Lit ''auth'', Lit ''sessions'', Param], ''AuthController.revokeSession'')]"
  "find P UsersController_routes = find P
    [(GET, [Lit ''users'', Lit ''me''], ''UsersController.getMe''),
     (PUT, [Lit ''users'', Lit ''me''], ''UsersController.updateMe''), (GET, [Lit ''users''], ''UsersController.findAll''),
     (GET, [Lit ''users'', Param], ''UsersController.findById''), (POST, [Lit ''users''], ''UsersController.create''),
     (PUT, [Lit ''users'', Param], ''UsersController.update''), (DELETE, [Lit ''users'', Param], ''UsersController.delete'')]"
  "find P ServersController_routes = find P
    [(GET, [Lit ''servers''], ''ServersController.findAll''), (GET, [Lit ''servers'', Param], ''ServersController.findByUuid''),
     (POST, [Lit ''servers''], ''ServersController.create''), (PUT, [Lit ''servers'', Param], ''ServersController.update''),
     (DELETE, [Lit ''servers'', Param], ''ServersController.delete''),
     (POST, [Lit ''servers'', Param, Lit ''power''], ''ServersController.power''),
     (POST, [Lit ''servers'', Param, Lit ''command''], ''ServersController.sendCommand''),
     (POST, [Lit ''servers'', Param, Lit ''suspend''], ''ServersController.suspend''),
     (POST, [Lit ''servers'', Param, Lit ''unsuspend''], ''ServersController.unsuspend''),
     (POST, [Lit ''servers'', Param, Lit ''reinstall''], ''ServersController.reinstall'')]"
  "find P ServerCallbacksController_routes = find P
    [(POST, [Lit ''servers'', Param, Lit ''install-status''], ''ServerCallbacksController.installStatus'')]"
  "find P NodesController_routes = find P
    [(POST, [Lit ''nodes'', Lit ''heartbeat''], ''NodesController.heartbeat''),
     (GET, [Lit ''nodes'', Lit ''configuration''], ''NodesController.getConfiguration''),
     (GET, [Lit ''nodes''], ''NodesController.findAll''), (GET, [Lit ''nodes'', Param], ''NodesController.findById''),
     (GET, [Lit ''nodes'', Param, Lit ''health''], ''NodesController.getHealth''),
     (POST, [Lit ''nodes''], ''NodesController.create''),
     (POST, [Lit ''nodes'', Param, Lit ''regenerate-token''], ''NodesController.regenerateToken''),
     (PUT, [Lit ''nodes'', Param], ''NodesController.update''), (DELETE, [Lit ''nodes'', Param], ''NodesController.delete'')]"
  "find P AllocationsController_routes = find P
    [(GET, [Lit ''allocations''], ''AllocationsController.findByNode''),
     (POST, [Lit ''allocations''], ''AllocationsController.create''),
     (DELETE, [Lit ''allocations'', Param], ''AllocationsController.delete'')]"
  "find P EggsController_routes = find P
    [(GET, [Lit ''nests''], ''EggsController.findAllNests''), (POST, [Lit ''nests''], ''EggsController.createNest''),
     (GET, [Lit ''eggs''], ''EggsController.findAllEggs''), (GET, [Lit ''eggs'', Param], ''EggsController.findEggById''),
     (POST, [Lit ''eggs''], ''EggsController.createEgg''), (PUT, [Lit ''eggs'', Param], ''EggsController.updateEgg''),
     (DELETE, [Lit ''eggs'', Param], ''EggsController.deleteEgg''),
     (POST, [Lit ''eggs'', Lit ''import''], ''EggsController.importEgg''),
     (GET, [Lit ''eggs'', Param, Lit ''export''], ''EggsController.exportEgg'')]"
  "find P FilesController_routes = find P
    [(GET, [Lit ''servers'', Param, Lit ''files''], ''FilesController.listDirectory''),
     (GET, [Lit ''servers'', Param, Lit ''files'', Lit ''read''], ''FilesController.readFile''),
     (POST, [Lit ''servers'', Param, Lit ''files'', Lit ''write''], ''FilesController.writeFile''),
     (POST, [Lit ''servers'', Param, Lit ''files'', Lit ''directory''], ''FilesController.createDirectory''),
     (POST, [Lit ''servers'', Param, Lit ''files'', Lit ''rename''], ''FilesController.rename''),
     (POST, [Lit ''servers'', Param, Lit ''files'', Lit ''delete''], ''FilesController.deleteFiles''),
     (POST, [Lit ''servers'', Param, Lit ''files'', Lit ''compress''], ''FilesController.compress''),
     (POST, [Lit ''servers'', Param, Lit ''files'', Lit ''decompress''], ''FilesController.decompress''),
     (POST, [Lit ''servers'', Param, Lit ''files'', Lit ''upload''], ''FilesController.upload'')]"
  "find P DatabasesController_routes = find P
    [(GET, [Lit ''servers'', Param, Lit ''databases''], ''DatabasesController.findByServer''),
     (POST, [Lit ''servers'', Param, Lit ''databases''], ''DatabasesController.create''),
     (DELETE, [Lit ''servers'', Param, Lit ''databases'', Param], ''DatabasesController.delete'')]"
  "find P SchedulesController_routes = find P
    [(GET, [Lit ''servers'', Param, Lit ''schedules''], ''SchedulesController.findByServer''),
     (GET, [Lit ''servers'', Param, Lit ''schedules'', Param], ''SchedulesController.findById''),
     (POST, [Lit ''servers'', Param, Lit ''schedules''], ''SchedulesController.create''),
     (PUT, [Lit ''servers'', Param, Lit ''schedules'', Param], ''SchedulesController.update''),
     (DELETE, [Lit ''servers'', Param, Lit ''schedules'', Param], ''SchedulesController.delete''),
     (POST, [Lit ''servers'', Param, Lit ''schedules'', Param, Lit ''execute''], ''SchedulesController.execute'')]"
  "find P SubusersController_routes = find P
    [(GET, [Lit ''servers'', Param, Lit ''subusers''], ''SubusersController.findByServer''),
     (POST, [Lit ''servers'', Param, Lit ''subusers''], ''SubusersController.invite''),
     (PUT, [Lit ''servers'', Param, Lit ''subusers'', Param], ''SubusersController.update''),
     (DELETE, [Lit ''servers'', Param, Lit ''subusers'', Param], ''SubusersController.remove'')]"
  "find P ApiKeysController_routes = find P
    [(GET, [Lit ''api-keys''], ''ApiKeysController.findAll''), (POST, [Lit ''api-keys''], ''ApiKeysController.create''),
     (DELETE, [Lit ''api-keys'', Param], ''ApiKeysController.delete'')]"
  "find P AuditLogController_routes = find P
    [(GET, [Lit ''admin'', Lit ''audit-log''], ''AuditLogController.findAll'')]"
  "find P NotificationsController_routes = find P
    [(GET, [Lit ''notifications''], ''NotificationsController.findAll''),
     (GET, [Lit ''notifications'', Lit ''unread-count''], ''NotificationsController.unreadCount''),
     (POST, [Lit ''notifications'', Lit ''read''], ''NotificationsController.markRead''),
     (POST, [Lit ''notifications'', Lit ''read-all''], ''NotificationsController.markAllRead'')]"
  "find P SearchController_routes = find P
    [(GET, [Lit ''search''], ''SearchController.search'')]"
  "find P AdminController_routes = find P
    [(GET, [Lit ''admin'', Lit ''dashboard''], ''AdminController.getDashboard''),
     (POST, [Lit ''admin'', Lit ''impersonate'', Param], ''AdminController.impersonate'')]"
  "find P AdminNodesController_routes = find P
    [(GET, [Lit ''admin'', Lit ''nodes''], ''AdminNodesController.findAll''),
     (GET, [Lit ''admin'', Lit ''nodes'', Param], ''AdminNodesController.findById''),
     (POST, [Lit ''admin'', Lit ''nodes''], ''AdminNodesController.create''),
     (PUT, [Lit ''admin'', Lit ''nodes'', Param], ''AdminNodesController.update''),
     (DELETE, [Lit ''admin'', Lit ''nodes'', Param], ''AdminNodesController.delete'')]"
  "find P AdminUsersController_routes = find P
    [(GET, [Lit ''admin'', Lit ''users''], ''AdminUsersController.findAll''),
     (GET, [Lit ''admin'', Lit ''users'', Param], ''AdminUsersController.findById''),
     (POST, [Lit ''admin'', Lit ''users''], ''AdminUsersController.create''),
     (PUT, [Lit ''admin'', Lit ''users'', Param], ''AdminUsersController.update''),
     (DELETE, [Lit ''admin'', Lit ''users'', Param], ''AdminUsersController.delete'')]"
  "find P AdminAllocationsController_routes = find P
    [(GET, [Lit ''admin'', Lit ''nodes'', Param, Lit ''allocations''], ''AdminAllocationsController.findByNode''),
     (POST, [Lit ''admin'', Lit ''nodes'', Param, Lit ''allocations''], ''AdminAllocationsController.create''),
     (DELETE, [Lit ''admin'', Lit ''nodes'', Param, Lit ''allocations'', Param], ''AdminAllocationsController.delete''),
     (POST, [Lit ''admin'', Lit ''nodes'', Param, Lit ''allocations'', Lit ''bulk-delete''], ''AdminAllocationsController.bulkDelete'')]"
  "find P SseController_routes = find P
    [(GET, [Lit ''sse''], ''SseController.sse'')]"
  "find P LocationsController_routes = find P
    [(GET, [Lit ''admin'', Lit ''locations''], ''LocationsController.findAll''),
     (GET, [Lit ''admin'', Lit ''locations'', Param], ''LocationsController.findById''),
     (POST, [Lit ''admin'', Lit ''locations''], ''LocationsController.create''),
     (PUT, [Lit ''admin'', Lit ''locations'', Param], ''LocationsController.update''),
     (DELETE, [Lit ''admin'', Lit ''locations'', Param], ''LocationsController.delete'')]"
  unfolding AuthController_routes_def
    UsersController_routes_def
    ServersController_routes_def
    ServerCallbacksController_routes_def
    NodesController_routes_def
    AllocationsController_routes_def
    EggsController_routes_def
    FilesController_routes_def
    DatabasesController_routes_def
    SchedulesController_routes_def
    SubusersController_routes_def
    ApiKeysController_routes_def
    AuditLogController_routes_def
    NotificationsController_routes_def
    SearchController_routes_def
    AdminController_routes_def
    AdminNodesController_routes_def
    AdminUsersController_routes_def
    AdminAllocationsController_routes_def
    SseController_routes_def
    LocationsController_routes_def
  by (simp_all add: controller_def pattern_def)

text \<open>A path below \<^verbatim>\<open>/servers\<close> is searched in six controllers only.\<close>

lemma other_controllers:
  "find (route_matches m (''servers'' # ps)) AuthController_routes = None"
  "find (route_matches m (''servers'' # ps)) UsersController_routes = None"
  "find (route_matches m (''servers'' # ps)) NodesController_routes = None"
  "find (route_matches m (''servers'' # ps)) AllocationsController_routes = None"
  "find (route_matches m (''servers'' # ps)) EggsController_routes = None"
  "find (route_matches m (''servers'' # ps)) ApiKeysController_routes = None"
  "find (route_matches m (''servers'' # ps)) AuditLogController_routes = None"
  "find (route_matches m (''servers'' # ps)) NotificationsController_routes = None"
  "find (route_matches m (''servers'' # ps)) SearchController_routes = None"
  "find (route_matches m (''servers'' # ps)) AdminController_routes = None"
  "find (route_matches m (''servers'' # ps)) AdminNodesController_routes = None"
  "find (route_matches m (''servers'' # ps)) AdminUsersController_routes = None"
  "find (route_matches m (''servers'' # ps)) AdminAllocationsController_routes = None"
  "find (route_matches m (''servers'' # ps)) SseController_routes = None"
  "find (route_matches m (''servers'' # ps)) LocationsController_routes = None"
  by (simp_all add: controller_routes)

lemma server_routes:
  "find (route_matches m (''servers'' # ps)) routes = find (route_matches m (''servers'' # ps))
     (ServersController_routes @ ServerCallbacksController_routes @ FilesController_routes @ DatabasesController_routes @ SchedulesController_routes @ SubusersController_routes)"
  by (simp add: find_routes find_append other_controllers split: option.split)

lemmas path_simps = dispatch_def find_append controller_routes path_parts_def lower_chars until_query until_end id_split id_lower

lemmas route_simps = path_simps find_routes

section \<open>Who answers\<close>

text \<open>The method that answers a call; no method: the answer is 404.\<close>

fun auth_served :: "'i AuthCall \<Rightarrow> string option" where
  "auth_served AuthLogin = Some ''AuthController.login''"
| "auth_served AuthRegister = Some ''AuthController.register''"
| "auth_served AuthRefresh = Some ''AuthController.refresh''"
| "auth_served AuthLogout = Some ''AuthController.logout''"
| "auth_served AuthMe = Some ''AuthController.me''"
| "auth_served Setup2FA = Some ''AuthController.setupTwoFactor''"
| "auth_served Verify2FA = Some ''AuthController.verifyTwoFactor''"
| "auth_served Disable2FA = Some ''AuthController.disableTwoFactor''"
| "auth_served ListSessions = Some ''AuthController.getSessions''"
| "auth_served (RevokeSession i) = Some ''AuthController.revokeSession''"

fun eggs_served :: "'i EggsCall \<Rightarrow> string option" where
  "eggs_served EggsList = None"
| "eggs_served (EggsGet i) = None"
| "eggs_served EggsCreate = None"
| "eggs_served (EggsUpdate i) = None"
| "eggs_served (EggsDelete i) = None"
| "eggs_served EggsImport = None"
| "eggs_served (EggsExport i) = None"

fun files_served :: "'i FilesCall \<Rightarrow> string option" where
  "files_served (FilesList u) = None"
| "files_served (FilesContents u) = None"
| "files_served (FilesSave u) = Some ''FilesController.writeFile''"
| "files_served (FilesRename u) = None"
| "files_served (FilesCopy u) = None"
| "files_served (FilesCompress u) = Some ''FilesController.compress''"
| "files_served (FilesDecompress u) = Some ''FilesController.decompress''"
| "files_served (FilesDelete u) = Some ''FilesController.deleteFiles''"
| "files_served (FilesCreateDirectory u) = None"
| "files_served (FilesUploadUrl u) = None"
| "files_served (FilesDownloadUrl u) = None"

fun locations_served :: "'i LocationsCall \<Rightarrow> string option" where
  "locations_served LocationsList = Some ''LocationsController.findAll''"
| "locations_served LocationsCreate = Some ''LocationsController.create''"
| "locations_served (LocationsUpdate i) = Some ''LocationsController.update''"
| "locations_served (LocationsDelete i) = Some ''LocationsController.delete''"

fun nests_served :: "'i NestsCall \<Rightarrow> string option" where
  "nests_served NestsList = Some ''EggsController.findAllNests''"
| "nests_served (NestsGet i) = None"

fun nodes_served :: "'i NodesCall \<Rightarrow> string option" where
  "nodes_served NodesList = Some ''AdminNodesController.findAll''"
| "nodes_served (NodesGet i) = Some ''AdminNodesController.findById''"
| "nodes_served NodesCreate = Some ''AdminNodesController.create''"
| "nodes_served (NodesUpdate i) = None"
| "nodes_served (NodesDelete i) = Some ''AdminNodesController.delete''"
| "nodes_served (NodesConfig i) = None"
| "nodes_served (NodesAllocations i) = Some ''AdminAllocationsController.findByNode''"
| "nodes_served (NodesCreateAllocation i) = Some ''AdminAllocationsController.create''"
| "nodes_served (NodesDeleteAllocation i j) = Some ''AdminAllocationsController.delete''"

fun notifications_served :: "'i NotificationsCall \<Rightarrow> string option" where
  "notifications_served NotificationsList = Some ''NotificationsController.findAll''"
| "notifications_served (NotificationsMarkRead i) = None"
| "notifications_served NotificationsMarkAllRead = Some ''NotificationsController.markAllRead''"
| "notifications_served NotificationsUnreadCount = Some ''NotificationsController.unreadCount''"

fun servers_served :: "'i ServersCall \<Rightarrow> string option" where
  "servers_served ServersList = Some ''ServersController.findAll''"
| "servers_served (ServersGet u) = Some ''ServersController.findByUuid''"
| "servers_served ServersCreate = Some ''ServersController.create''"
| "servers_served (ServersUpdate u) = None"
| "servers_served (ServersDelete u) = Some ''ServersController.delete''"
| "servers_served (SendPower u) = Some ''ServersController.power''"
| "servers_served (SendCommand u) = Some ''ServersController.sendCommand''"
| "servers_served (GetResources u) = None"
| "servers_served (GetStartup u) = None"
| "servers_served (UpdateStartup u) = None"
| "servers_served (GetDatabases u) = Some ''DatabasesController.findByServer''"
| "servers_served (CreateDatabase u) = Some ''DatabasesController.create''"
| "servers_served (DeleteDatabase u i) = Some ''DatabasesController.delete''"
| "servers_served (RotatePassword u i) = None"
| "servers_served (GetSchedules u) = Some ''SchedulesController.findByServer''"
| "servers_served (CreateSchedule u) = Some ''SchedulesController.create''"
| "servers_served (UpdateSchedule u i) = Some ''SchedulesController.update''"
| "servers_served (DeleteSchedule u i) = Some ''SchedulesController.delete''"
| "servers_served (GetSubusers u) = Some ''SubusersController.findByServer''"
| "servers_served (AddSubuser u) = Some ''SubusersController.invite''"
| "servers_served (UpdateSubuser u i) = Some ''SubusersController.update''"
| "servers_served (RemoveSubuser u i) = Some ''SubusersController.remove''"
| "servers_served (GetSettings u) = None"
| "servers_served (UpdateSettings u) = None"
| "servers_served (Reinstall u) = None"

fun page_served :: "'i PageCall \<Rightarrow> string option" where
  "page_served SearchGlobal = Some ''SearchController.search''"
| "page_served AuditLogList = Some ''AuditLogController.findAll''"
| "page_served OverviewGet = None"
| "page_served UsersList = Some ''AdminUsersController.findAll''"
| "page_served UsersCreate = Some ''AdminUsersController.create''"
| "page_served (UsersUpdate i) = None"
| "page_served (UsersDelete i) = Some ''AdminUsersController.delete''"
| "page_served NestEggsList = Some ''EggsController.findAllEggs''"
| "page_served (EggGet i) = Some ''EggsController.findEggById''"
| "page_served AdminServersList = None"
| "page_served ApiKeysList = None"
| "page_served ApiKeysCreate = None"
| "page_served (ApiKeysDelete i) = None"
| "page_served AccountUpdate = None"
| "page_served AccountPassword = None"

fun served_by :: "'i web_call \<Rightarrow> string option" where
  "served_by (CallAuth c) = auth_served c"
| "served_by (CallEggs c) = eggs_served c"
| "served_by (CallFiles c) = files_served c"
| "served_by (CallLocations c) = locations_served c"
| "served_by (CallNests c) = nests_served c"
| "served_by (CallNodes c) = nodes_served c"
| "served_by (CallNotifications c) = notifications_served c"
| "served_by (CallServers c) = servers_served c"
| "served_by (CallPage c) = page_served c"

lemma authApi_routed: "(\<forall>i \<in> set_AuthCall c. id_ok i) \<Longrightarrow> (case authApi c of (m, path) \<Rightarrow> dispatch m path) = auth_served c"
  by (cases c) (simp_all add: route_simps)

lemma eggsApi_routed: "(\<forall>i \<in> set_EggsCall c. id_ok i) \<Longrightarrow> (case eggsApi c of (m, path) \<Rightarrow> dispatch m path) = eggs_served c"
  by (cases c) (simp_all add: route_simps)

lemma filesApi_routed: "(\<forall>i \<in> set_FilesCall c. id_ok i) \<Longrightarrow> (case filesApi c of (m, path) \<Rightarrow> dispatch m path) = files_served c"
  by (cases c) (simp_all add: path_simps server_routes)

lemma locationsApi_routed: "(\<forall>i \<in> set_LocationsCall c. id_ok i) \<Longrightarrow> (case locationsApi c of (m, path) \<Rightarrow> dispatch m path) = locations_served c"
  by (cases c) (simp_all add: route_simps)

lemma nestsApi_routed: "(\<forall>i \<in> set_NestsCall c. id_ok i) \<Longrightarrow> (case nestsApi c of (m, path) \<Rightarrow> dispatch m path) = nests_served c"
  by (cases c) (simp_all add: route_simps)

lemma nodesApi_routed: "(\<forall>i \<in> set_NodesCall c. id_ok i) \<Longrightarrow> (case nodesApi c of (m, path) \<Rightarrow> dispatch m path) = nodes_served c"
  by (cases c) (simp_all add: route_simps)

lemma notificationsApi_routed: "(\<forall>i \<in> set_NotificationsCall c. id_ok i) \<Longrightarrow> (case notificationsApi c of (m, path) \<Rightarrow> dispatch m path) = notifications_served c"
  by (cases c) (simp_all add: route_simps)

lemma serversApi_routed: "(\<forall>i \<in> set_ServersCall c. id_ok i) \<Longrightarrow> (case serversApi c of (m, path) \<Rightarrow> dispatch m path) = servers_served c"
  by (cases c) (simp_all add: path_simps server_routes)

lemma apiClient_routed: "(\<forall>i \<in> set_PageCall c. id_ok i) \<Longrightarrow> (case apiClient c of (m, path) \<Rightarrow> dispatch m path) = page_served c"
  by (cases c) (simp_all add: route_simps)

lemmas calls_routed = authApi_routed eggsApi_routed filesApi_routed locationsApi_routed nestsApi_routed nodesApi_routed notificationsApi_routed serversApi_routed apiClient_routed

lemma no_patch: "m = PATCH \<Longrightarrow> dispatch m path = None"
proof -
  assume "m = PATCH"
  moreover have "\<forall>(m', ps, h) \<in> set routes. m' \<noteq> PATCH" unfolding routes_def by code_simp
  ultimately have "find (route_matches m (path_parts path)) routes = None" by (auto simp: find_None_iff)
  then show ?thesis by (simp add: dispatch_def)
qed

text \<open>
  C16. Every request the frontend makes, with identifiers that are one part of a path, is answered
  by the method of the backend that the table \<open>served_by\<close> names, and by none where it names none: 34 of
  the 87 requests have no route, by their path or by their verb, among them every \<open>PATCH\<close>, which no
  controller has.  Neither letters in upper case nor the other routes come between.
\<close>

theorem web_calls_routed:
  assumes "\<forall>i \<in> set_web_call c. id_ok i"
  shows "(case web_request c of (m, path) \<Rightarrow> dispatch m path) = served_by c \<and> (fst (web_request c) = PATCH \<longrightarrow> served_by c = None)"
proof -
  have "(case web_request c of (m, path) \<Rightarrow> dispatch m path) = served_by c"
    using assms by (cases c) (simp_all add: calls_routed)
  then show ?thesis using no_patch by (cases "web_request c") auto
qed

lemma web_calls_routed_witness:
  "(case web_request (CallServers (ServersUpdate ''abc'')) of (m, path) \<Rightarrow> dispatch m path) = None \<and>
   (case web_request (CallNodes (NodesDeleteAllocation ''n1'' ''a1'')) of (m, path) \<Rightarrow> dispatch m path) = Some ''AdminAllocationsController.delete''"
  using web_calls_routed [of "CallServers (ServersUpdate ''abc'')"] web_calls_routed [of "CallNodes (NodesDeleteAllocation ''n1'' ''a1'')"]
  by (simp add: id_ok_def)

end
