(* ===== verification/WebTablesProps.thy ===== *)
theory WebTablesProps
  imports WebTables WebApiProps
begin

text \<open>What the lists of the interface show of the rows the backend has.\<close>

section \<open>Which lists ever have a row\<close>

lemma dispatch_served: "\<forall>i \<in> set_web_call c. id_ok i \<Longrightarrow> (case web_request c of (m, path) \<Rightarrow> dispatch m path) = served_by c"
  by (cases c) (simp_all add: calls_routed)

lemma or_empty_page [simp]: "or_empty (page_json row p) = JArr (map row (pg_data p))"
  by (simp add: or_empty_def page_json_def)

lemma or_empty_list [simp]: "or_empty (list_json row xs) = JArr []"
  by (simp add: or_empty_def list_json_def)

definition fetched_rows :: "('a \<Rightarrow> json) \<Rightarrow> ('s, 'a paged) handled \<Rightarrow> json" where
  "fetched_rows row r = (case fst r of Inl e \<Rightarrow> JArr [] | Inr p \<Rightarrow> JArr (map row (pg_data p)))"

lemma fetched_page: "(case body_of (page_json row) r of None \<Rightarrow> JArr [] | Some data \<Rightarrow> or_empty data) = fetched_rows row r"
  by (simp add: body_of_def fetched_rows_def split: sum.split)

lemma fetched_list: "(case body_of (list_json row) r of None \<Rightarrow> JArr [] | Some data \<Rightarrow> or_empty data) = JArr []"
  by (simp add: body_of_def split: sum.split)

lemma fetched_search: "body_of f (SearchController_search X now rq q s) = None"
  by (simp add: body_of_def SearchController_search_def globalSearch_fails with_user_def split: sum.split)

text \<open>
  C18. What each of the nineteen lists of the interface keeps of the answer in the state of its page (how a
  page renders it is a matter of its own: the audit page throws on any row, see \<open>audit_page_throws\<close>, and the
  pages of the administration never open).  Seven keep the rows: those whose answer is a page.
  Six are answered with a bare array, in which the pages look for \<open>data\<close>: the sessions, the databases,
  schedules and subusers of a server and, on two pages, the locations; five have no route, and
  the search fails.  These twelve keep an empty list whatever the database holds.
\<close>

theorem lists_fetched:
  assumes "\<forall>i \<in> set_web_call (view_call v). id_ok i"
  shows "fetch_list X D Q J now rq v s =
    (case v of
       DashboardPage_servers \<Rightarrow> fetched_rows (server_json D) (ServersController_findAll X now rq None None None s)
     | ServersPage_servers \<Rightarrow> fetched_rows (server_json D) (ServersController_findAll X now rq None None None s)
     | UsersPage_users \<Rightarrow> fetched_rows (user_row_json D) (AdminUsers_findAll X now rq None None None s)
     | NodesPage_nodes \<Rightarrow> fetched_rows (node_row_json D Q) (AdminNodes_findAll X now rq None None None s)
     | NodesPage_allocations i \<Rightarrow> fetched_rows (allocation_json D) (AdminAllocations_findByNode X now rq i None None s)
     | AuditLogPage_entries \<Rightarrow> fetched_rows (audit_json D) (AuditLogController_findAll X now rq None (Some 50) None None s)
     | NotificationsDropdown_notifications \<Rightarrow> fetched_rows (notification_json D) (NotificationsController_findAll X now rq None (Some 10) s)
     | _ \<Rightarrow> JArr [])"
  using assms unfolding fetch_list_def
  by (subst dispatch_served, assumption)
    (cases v; simp add: list_answer_def fetched_page fetched_list fetched_search)

definition demo_writers :: row_writers where
  "demo_writers = \<lparr>jw_location = (\<lambda>_. JObj []), jw_nest = (\<lambda>_. JObj []), jw_session = (\<lambda>_. JObj []), jw_database = (\<lambda>_. JObj []),
     jw_schedule = (\<lambda>_. JObj []), jw_results = (\<lambda>_. JObj [])\<rparr>"

lemma lists_fetched_witness:
  "fetch_list demo_ext (\<lambda>_. ''now'') (\<lambda>_. JNum 0) demo_writers 0 (demo_cookie (demo_user ''u2'' ''bob'' False)) (DatabasesPage_databases ''uuid-1'') demo_three = JArr []"
  using lists_fetched [of "DatabasesPage_databases ''uuid-1''"] by (simp add: id_ok_def)

section \<open>The dashboard\<close>

definition visible_servers :: "ext \<Rightarrow> AuthUser \<Rightarrow> 'z db_scheme \<Rightarrow> ServerEntity list" where
  "visible_servers X u d = order_desc server_createdAt (findRows (server_visible X (Some (au_id u)) (au_rootAdmin u) None) (db_servers d))"

lemma servers_page:
  assumes "JwtAuthGuard X now rq s = Inr u"
  shows "fetched_rows row (ServersController_findAll X now rq None None None s) = JArr (map row (map (load_server s) (take 25 (visible_servers X u s))))"
  using assms
  by (simp add: fetched_rows_def ServersController_findAll_def with_user_def RolesGuard_def ServersService_findAll_def paginate_def query_or_def
      visible_servers_def take_map)

lemma server_json_fields:
  "json_field ''name'' (server_json D full) = Some (JStr (server_name (fs_server full)))"
  "json_field ''status'' (server_json D full) = Some (nullable (JStr \<circ> ServerStatus_value) (server_status (fs_server full)))"
  "json_field ''memory'' (server_json D full) = Some (JNum (server_memory (fs_server full)))"
  "json_field ''disk'' (server_json D full) = Some (JNum (server_disk (fs_server full)))"
  "json_field ''eggName'' (server_json D full) = None" "json_field ''nodeName'' (server_json D full) = None"
  "json_field ''resources'' (server_json D full) = None"
  by (simp_all add: server_json_def Let_def)

lemma server_status_values: "nullable (JStr \<circ> ServerStatus_value) st \<noteq> JStr ''running''" "nullable (JStr \<circ> ServerStatus_value) st \<noteq> JStr ''offline''"
proof -
  have "ServerStatus_value x \<noteq> ''running'' \<and> ServerStatus_value x \<noteq> ''offline''" for x by (cases x) simp_all
  then show "nullable (JStr \<circ> ServerStatus_value) st \<noteq> JStr ''running''" "nullable (JStr \<circ> ServerStatus_value) st \<noteq> JStr ''offline''"
    by (cases st; simp)+
qed

lemma never_running: "\<not> status_is ''running'' (server_json D full)" "\<not> status_is ''offline'' (server_json D full)"
  by (simp_all add: status_is_def server_json_fields server_status_values)

lemma fold_sum: "fold (\<lambda>s acc. acc + f s) xs (a :: int) = a + sum_list (map f xs)"
  by (induction xs arbitrary: a) simp_all

definition blind_card :: "ServerEntity \<Rightarrow> ServerCard" where
  "blind_card x =
     \<lparr>card_title = Some (JStr (server_name x)), card_egg = JStr ''Unknown'', card_node = JStr ''Node'',
      card_label = Some (nullable (JStr \<circ> ServerStatus_value) (server_status x)), card_cpu = JNum 0, card_memUsed = JNum 0, card_memLimit = JNum 1,
      card_start = True, card_stop = True, card_restart = True\<rparr>"

lemma card_of_server: "ServerCard_of (server_json D full) = blind_card (fs_server full)"
  by (simp add: ServerCard_of_def blind_card_def server_json_fields never_running text_or_def resource_def)

text \<open>
  C26. The dashboard counts at most the 25 newest servers of the user, with the memory and disk of
  those; none of them is ever counted as running, whatever the daemons report.  Its four cards
  name neither egg nor node, show no use of processor or memory, and enable every power button
  in every state of the server.
\<close>

theorem dashboard_shows:
  assumes "JwtAuthGuard X now rq s = Inr u"
  shows "DashboardPage (fetch_list X D Q J now rq DashboardPage_servers s) =
    \<lparr>dash_totalServers = min 25 (length (visible_servers X u s)), dash_runningServers = 0,
     dash_totalRamMB = sum_list (map server_memory (take 25 (visible_servers X u s))),
     dash_totalDiskMB = sum_list (map server_disk (take 25 (visible_servers X u s))),
     dash_previewServers = map blind_card (take 4 (visible_servers X u s))\<rparr>"
proof -
  let ?rows = "map (server_json D) (map (load_server s) (take 25 (visible_servers X u s)))"
  have rows: "fetch_list X D Q J now rq DashboardPage_servers s = JArr ?rows"
    unfolding fetch_list_def
    by (subst dispatch_served) (simp_all add: list_answer_def fetched_page servers_page [OF assms])
  have none: "filter (status_is ''running'') ?rows = []" by (simp add: filter_empty_conv never_running)
  show ?thesis
    unfolding rows DashboardPage_def Let_def json_items.simps none
    by (simp add: fold_sum comp_def server_json_fields number_or_zero_def card_of_server take_map)
qed

lemma dashboard_shows_witness:
  "dash_previewServers (DashboardPage (fetch_list demo_ext (\<lambda>_. ''now'') (\<lambda>_. JNum 0) demo_writers 0 (demo_cookie (demo_user ''u2'' ''bob'' False)) DashboardPage_servers demo_three)) =
     [blind_card demo_server]"
proof -
  let ?bob = "demo_user ''u2'' ''bob'' False"
  have user: "JwtAuthGuard demo_ext 0 (demo_cookie ?bob) demo_three = Inr \<lparr>au_id = user_id ?bob, au_email = user_email ?bob, au_rootAdmin = user_rootAdmin ?bob\<rparr>"
    by (rule demo_three_guard) simp
  have "visible_servers demo_ext \<lparr>au_id = user_id ?bob, au_email = user_email ?bob, au_rootAdmin = user_rootAdmin ?bob\<rparr> demo_three = [demo_server]"
    by (simp add: visible_servers_def demo_three_def findRows_def server_visible_def order_desc_def demo_server_def demo_user_def)
  then show ?thesis using dashboard_shows [OF user] by simp
qed

section \<open>The tables of the administration\<close>

lemma user_row_fields:
  "json_field ''username'' (user_row_json D u) = Some (JStr (ur_username u))" "json_field ''email'' (user_row_json D u) = Some (JStr (ur_email u))"
  "json_field ''isAdmin'' (user_row_json D u) = None" "json_field ''serversCount'' (user_row_json D u) = None"
  "json_field ''lastLoginAt'' (user_row_json D u) = None"
  by (simp_all add: user_row_json_def)

lemma node_row_fields:
  "json_field ''name'' (node_row_json D Q r) = Some (JStr (node_name (nl_node r)))" "json_field ''scheme'' (node_row_json D Q r) = Some (JStr (node_scheme (nl_node r)))"
  "json_field ''fqdn'' (node_row_json D Q r) = Some (JStr (node_fqdn (nl_node r)))" "json_field ''port'' (node_row_json D Q r) = None"
  "json_field ''locationName'' (node_row_json D Q r) = None" "json_field ''serversCount'' (node_row_json D Q r) = None"
  "json_field ''memoryMB'' (node_row_json D Q r) = None" "json_field ''diskMB'' (node_row_json D Q r) = None"
  "json_field ''isMaintenance'' (node_row_json D Q r) = None" "json_field ''isOnline'' (node_row_json D Q r) = None"
  by (simp_all add: node_row_json_def node_columns_def)

lemma users_row:
  "UsersPage_row (user_row_json D u) =
     Inr \<lparr>ut_avatar = js_toUpperCase (take 1 (ur_username u)), ut_username = ur_username u, ut_email = Some (JStr (ur_email u)),
          ut_role = ''User'', ut_servers = None, ut_lastLogin = None\<rparr>"
  by (simp add: UsersPage_row_def user_row_fields)

lemma nodes_row:
  "NodesPage_row F (node_row_json D Q r) =
     \<lparr>nt_name = Some (JStr (node_name (nl_node r))), nt_location = JStr ''-'',
      nt_address = node_scheme (nl_node r) @ ''://'' @ node_fqdn (nl_node r) @ '':undefined'', nt_servers = None,
      nt_memory = ''0%'', nt_disk = ''0%'', nt_status = ''Offline''\<rparr>"
  by (simp add: NodesPage_row_def node_row_fields text_or_def percent_def getStatusLabel_def field_truthy_def)

lemma users_fetched: "fetch_list X D Q J now rq UsersPage_users s = fetched_rows (user_row_json D) (AdminUsers_findAll X now rq None None None s)"
  unfolding fetch_list_def by (subst dispatch_served) (simp_all add: list_answer_def fetched_page)

lemma nodes_fetched: "fetch_list X D Q J now rq NodesPage_nodes s = fetched_rows (node_row_json D Q) (AdminNodes_findAll X now rq None None None s)"
  unfolding fetch_list_def by (subst dispatch_served) (simp_all add: list_answer_def fetched_page)

lemma audit_fetched: "fetch_list X D Q J now rq AuditLogPage_entries s = fetched_rows (audit_json D) (AuditLogController_findAll X now rq None (Some 50) None None s)"
  unfolding fetch_list_def by (subst dispatch_served) (simp_all add: list_answer_def fetched_page)

lemma shown_items: "row \<in> set (json_items (fetched_rows f r)) \<Longrightarrow> \<exists>p x. fst r = Inr p \<and> x \<in> set (pg_data p) \<and> row = f x"
  by (auto simp: fetched_rows_def split: sum.split_asm)

text \<open>
  In the tables of the administration every account is an ordinary user without servers and
  without a last login, and every node is offline, unused, without a location and with the port
  \<open>undefined\<close>, whatever rights, servers and heartbeats they have: the pages read properties
  that the answers do not have.
\<close>

theorem admin_tables_blind:
  shows "(\<forall>row \<in> set (json_items (fetch_list X D Q J now rq UsersPage_users s)).
      \<exists>u. UsersPage_row row = Inr u \<and> ut_role u = ''User'' \<and> ut_servers u = None \<and> ut_lastLogin u = None) \<and>
    (\<forall>row \<in> set (json_items (fetch_list X D Q J now rq NodesPage_nodes s)).
      \<exists>n :: NodeEntity. nt_status (NodesPage_row F row) = ''Offline'' \<and> nt_memory (NodesPage_row F row) = ''0%'' \<and> nt_disk (NodesPage_row F row) = ''0%'' \<and>
        nt_location (NodesPage_row F row) = JStr ''-'' \<and> nt_address (NodesPage_row F row) = node_scheme n @ ''://'' @ node_fqdn n @ '':undefined'')"
proof (intro conjI ballI)
  fix row assume "row \<in> set (json_items (fetch_list X D Q J now rq UsersPage_users s))"
  then obtain u where "row = user_row_json D u" unfolding users_fetched using shown_items by blast
  then show "\<exists>u. UsersPage_row row = Inr u \<and> ut_role u = ''User'' \<and> ut_servers u = None \<and> ut_lastLogin u = None"
    by (simp add: users_row)
next
  fix row assume "row \<in> set (json_items (fetch_list X D Q J now rq NodesPage_nodes s))"
  then obtain r where r: "row = node_row_json D Q r" unfolding nodes_fetched using shown_items by blast
  show "\<exists>n :: NodeEntity. nt_status (NodesPage_row F row) = ''Offline'' \<and> nt_memory (NodesPage_row F row) = ''0%'' \<and> nt_disk (NodesPage_row F row) = ''0%'' \<and>
      nt_location (NodesPage_row F row) = JStr ''-'' \<and> nt_address (NodesPage_row F row) = node_scheme n @ ''://'' @ node_fqdn n @ '':undefined''"
    by (rule exI [of _ "nl_node r"]) (simp add: r nodes_row)
qed

lemma audit_matches_throws:
  "AuditLogPage_matches search actionFilter (audit_json D a) = (if search = [] \<and> actionFilter = [] then Inr True else Inl TypeError)"
  by (cases a) (simp add: AuditLogPage_matches_def audit_json_def calls_includes_def)

lemma audit_row_throws: "AuditLogPage_row (audit_json D a) = Inl TypeError"
  by (cases a) (simp add: AuditLogPage_row_def audit_json_def)

lemma all_ok_throws: "xs \<noteq> [] \<Longrightarrow> (\<And>x. x \<in> set xs \<Longrightarrow> f x = Inl e) \<Longrightarrow> all_ok f xs = Inl e"
  by (cases xs) simp_all

lemma all_ok_Inr: "(\<And>x. x \<in> set xs \<Longrightarrow> f x = Inr (g x)) \<Longrightarrow> all_ok f xs = Inr (map g xs)"
  by (induction xs) simp_all

lemma audit_page:
  assumes "as \<noteq> []"
  shows "AuditLogPage search actionFilter (JArr (map (audit_json D) as)) = Inl TypeError"
proof (cases "search = [] \<and> actionFilter = []")
  case True
  have "all_ok (\<lambda>e. map_sum id (Pair e) (AuditLogPage_matches search actionFilter e)) (map (audit_json D) as) =
      Inr (map (\<lambda>e. (e, True)) (map (audit_json D) as))"
    by (rule all_ok_Inr) (use True in \<open>auto simp: audit_matches_throws\<close>)
  moreover have "all_ok AuditLogPage_row (map (audit_json D) as) = Inl TypeError"
    by (rule all_ok_throws) (use assms in \<open>auto simp: audit_row_throws\<close>)
  ultimately show ?thesis by (simp add: AuditLogPage_def comp_def)
next
  case False
  have "all_ok (\<lambda>e. map_sum id (Pair e) (AuditLogPage_matches search actionFilter e)) (map (audit_json D) as) = Inl TypeError"
    by (rule all_ok_throws) (use assms False in \<open>auto simp: audit_matches_throws\<close>)
  then show ?thesis by (simp add: AuditLogPage_def)
qed

text \<open>
  The page of the audit log throws a \<open>TypeError\<close> while it renders, for every
  administrator and every search, as soon as the log has one entry: its rows have an \<open>event\<close>, and the page takes
  their \<open>action\<close> apart.
\<close>

theorem audit_page_throws:
  assumes "JwtAuthGuard X now rq s = Inr u" and "au_rootAdmin u" and "db_auditLogs s \<noteq> []"
  shows "AuditLogPage search actionFilter (fetch_list X D Q J now rq AuditLogPage_entries s) = Inl TypeError"
proof -
  have "order_desc audit_createdAt (db_auditLogs s) \<noteq> []" using assms(3) order_desc_length by (metis length_0_conv)
  then have "\<exists>p. fst (AuditLogController_findAll X now rq None (Some 50) None None s) = Inr p \<and> pg_data p \<noteq> []"
    using assms
    by (simp add: AuditLogController_findAll_def with_admin_def RolesGuard_def AuditLogService_findAll_def paginate_def query_or_def Let_def
        truthy_str_def)
  then show ?thesis by (auto simp: audit_fetched fetched_rows_def audit_page)
qed

section \<open>The notifications\<close>

text \<open>
  The bell shows the number of unread notifications of its user, and marking all as read marks
  exactly theirs, in the database as on the page.  A click on one notification does nothing: its
  request has no route.
\<close>

theorem notifications_dropdown:
  assumes "JwtAuthGuard X now rq d = Inr u" and "id_ok (json_text (json_field ''id'' n))"
    and "handleMarkAllRead X now rq p d = (p', d')"
  shows "nd_unreadCount (NotificationsDropdown_mount X now rq d p) = int (NotificationsService_countUnread (au_id u) d) \<and>
    click_notification n p = p \<and> nd_unreadCount p' = 0 \<and> NotificationsService_countUnread (au_id u) d' = 0 \<and>
    (\<forall>i. i \<noteq> au_id u \<longrightarrow> NotificationsService_countUnread i d' = NotificationsService_countUnread i d)"
proof -
  have click: "click_notification n p = p"
    using dispatch_served [of "CallNotifications (NotificationsMarkRead (json_text (json_field ''id'' n)))"] assms(2)
    by (simp add: click_notification_def split: prod.splits)
  have d': "d' = NotificationsService_markAllAsRead (au_id u) d" and p': "nd_unreadCount p' = 0"
    using assms(1,3) by (auto simp: handleMarkAllRead_def NotificationsController_markAllRead_def with_user_def RolesGuard_def)
  have mine: "NotificationsService_countUnread (au_id u) d' = 0"
    by (auto simp: d' NotificationsService_markAllAsRead_def mark_read_def NotificationsService_countUnread_def countRows_def updateRows_def filter_empty_conv)
  have other: "NotificationsService_countUnread i d' = NotificationsService_countUnread i d" if "i \<noteq> au_id u" for i
  proof -
    have "length (filter P (map f t)) = length (filter P t)" if "\<And>x. P (f x) = P x" for P and f :: "NotificationEntity \<Rightarrow> NotificationEntity" and t
      using that by (induction t) simp_all
    then show ?thesis
      using that by (simp add: d' NotificationsService_markAllAsRead_def mark_read_def NotificationsService_countUnread_def countRows_def updateRows_def)
  qed
  have "nd_unreadCount (NotificationsDropdown_mount X now rq d p) = int (NotificationsService_countUnread (au_id u) d)"
    using assms(1) by (simp add: NotificationsDropdown_mount_def body_of_def NotificationsController_unreadCount_def with_user_def RolesGuard_def
        count_of_def number_or_zero_def)
  then show ?thesis using click p' mine other by blast
qed

lemma notifications_dropdown_witness:
  "click_notification (JObj [(''id'', JStr ''n1''), (''read'', JBool False)]) initial_dropdown = initial_dropdown \<and>
   nd_unreadCount (fst (handleMarkAllRead demo_ext 0 (demo_cookie (demo_user ''u2'' ''bob'' False)) initial_dropdown demo_three)) = 0"
proof -
  let ?bob = "demo_user ''u2'' ''bob'' False" and ?n = "JObj [(''id'', JStr ''n1''), (''read'', JBool False)]"
  have user: "JwtAuthGuard demo_ext 0 (demo_cookie ?bob) demo_three = Inr \<lparr>au_id = user_id ?bob, au_email = user_email ?bob, au_rootAdmin = user_rootAdmin ?bob\<rparr>"
    by (rule demo_three_guard) simp
  have "id_ok (json_text (json_field ''id'' ?n))" by (simp add: id_ok_def)
  from notifications_dropdown [OF user this prod.collapse [symmetric], of initial_dropdown] show ?thesis by blast
qed

end
