(* ===== verification/Disclosure.thy ===== *)
theory Disclosure
  imports Answers
begin

text \<open>
  What the answers tell a user of others: the secrets of the columns, and what can be done
  with them.
\<close>

section \<open>The daemon token\<close>

lemma server_node_columns:
  assumes "fs_node full = Some n"
  shows "json_path [''node'', ''daemonTokenId''] (server_json D full) = Some (JStr (node_daemonTokenId n))"
    and "json_path [''node'', ''daemonToken''] (server_json D full) = Some (JStr (node_daemonToken n))"
  using assms by (simp_all add: server_json_def node_columns_def Let_def)

text \<open>A request whose sender writes into its header what the body of a server says of its node.\<close>

definition with_node_token :: "json \<Rightarrow> Request \<Rightarrow> Request" where
  "with_node_token body req =
     req\<lparr>req_authorization := Some (bearer_prefix @
           daemon_bearer (json_text (json_path [''node'', ''daemonTokenId''] body)) (json_text (json_path [''node'', ''daemonToken''] body)))\<rparr>"

lemma with_node_token_passes:
  assumes "fs_node full = Some n" and "findOne (\<lambda>m. node_daemonTokenId m = node_daemonTokenId n) (db_nodes d) = Some n"
    and "CHR ''.'' \<notin> set (node_daemonTokenId n)"
  shows "DaemonTokenGuard (with_node_token (server_json D full) req) d = Inr n"
proof -
  have "req_authorization (with_node_token (server_json D full) req) = Some (bearer_prefix @ daemon_bearer (node_daemonTokenId n) (node_daemonToken n))"
    by (simp add: with_node_token_def server_node_columns [OF assms(1)] del: json_path.simps)
  then show ?thesis by (simp add: DaemonTokenGuard_bearer [OF assms(3)] assms(2))
qed

lemma report_success:
  assumes "DaemonTokenGuard req d = Inr n" and "findOne (\<lambda>x. server_uuid x = uuid) (db_servers d) = Some x"
  shows "ServerCallbacks_installStatus req uuid ''success'' d =
    (Inr (), update_server (server_id x) (\<lambda>s. s\<lparr>server_installed := 1, server_status := None\<rparr>) d)"
  using assms by (simp add: ServerCallbacks_installStatus_def with_daemon_def ServersService_updateInstallStatus_def)

text \<open>
  C9. The owner of a suspended server ends the suspension alone, with two requests.  The answer
  about the own server holds the daemon token of its node; with it the owner reports a finished
  installation as the daemon, and the next power action reaches the daemon.  Before, the same
  action was refused.
\<close>

theorem owner_ends_suspension:
  fixes s :: "'z wings_panel_scheme"
  assumes user: "JwtAuthGuard X now req s = Inr u"
    and server: "findOne (\<lambda>x. server_uuid x = uuid) (db_servers s) = Some x" "server_userId x = au_id u" "server_status x = Some SUSPENDED"
    and node: "findOne (\<lambda>n. node_id n = server_nodeId x) (db_nodes s) = Some n"
    and token: "findOne (\<lambda>m. node_daemonTokenId m = node_daemonTokenId n) (db_nodes s) = Some n" "CHR ''.'' \<notin> set (node_daemonTokenId n)"
    and "db_ok s"
  shows "\<not> is_ok (fst (ServersController_power X W now req uuid action s)) \<and>
    (\<exists>full s'. ServersController_findByUuid X now req uuid s = (Inr full, s) \<and>
       ServerCallbacks_installStatus (with_node_token (server_json D full) req) uuid ''success'' s = (Inr (), s') \<and>
       snd (ServersController_power X W now req uuid action s') = after_call n (SendPowerAction uuid (mapPowerAction action)) s')"
proof -
  let ?f = "\<lambda>y :: ServerEntity. y\<lparr>server_installed := 1, server_status := None\<rparr>"
  let ?s' = "update_server (server_id x) ?f s"
  have may: "au_rootAdmin u \<or> server_userId x = au_id u" using server(2) by simp
  have refused: "ServersController_power X W now req uuid action s =
      (Inl (BadRequestException ''Cannot perform power action on a suspended server''), s)"
    using power_route.granted [OF user server(1) may TrueI, of W action] server(3) by (simp add: power_service [OF server(1)])
  have "fs_node (load_server s x) = Some n" using node by (simp add: load_server_def)
  then have "DaemonTokenGuard (with_node_token (server_json D (load_server s x)) req) s = Inr n" using token by (rule with_node_token_passes)
  then have lifted: "ServerCallbacks_installStatus (with_node_token (server_json D (load_server s x)) req) uuid ''success'' s = (Inr (), ?s')"
    using server(1) by (rule report_success)
  have "distinct (map server_id (db_servers s))" using \<open>db_ok s\<close> by (simp add: db_ok_def db_keys_def unique_rows_def)
  then have found: "findOne (\<lambda>x. server_uuid x = uuid) (db_servers ?s') = Some (?f x)"
    by (rule find_uuid_update_server [rotated]) (simp_all add: server(1))
  have same: "JwtAuthGuard X now req ?s' = Inr u" using user guard_users [of ?s' s] by (simp add: update_server_def)
  have "snd (ServersController_power X W now req uuid action ?s') = snd (WingsService_powerAction W n uuid action ?s')"
    using power_route.granted [OF same found _ TrueI, of W action] may node by (simp add: power_service [OF found])
  also have "\<dots> = after_call n (SendPowerAction uuid (mapPowerAction action)) ?s'"
    by (simp add: WingsService_powerAction_def node_grpc_state)
  finally show ?thesis
    using refused lifted show_route.granted [OF user server(1) may TrueI] by auto
qed

definition demo_suspended :: wings_panel where
  "demo_suspended = update_server ''s1'' (server_status_update (\<lambda>_. Some SUSPENDED)) demo_three"

lemma owner_ends_suspension_witness:
  "\<exists>s'. ServerCallbacks_installStatus
       (with_node_token (server_json (\<lambda>_. []) (load_server demo_suspended (demo_server\<lparr>server_status := Some SUSPENDED\<rparr>)))
         (demo_cookie (demo_user ''u2'' ''bob'' False))) ''uuid-1'' ''success'' demo_suspended = (Inr (), s')"
proof -
  let ?x = "demo_server\<lparr>server_status := Some SUSPENDED\<rparr>" and ?bob = "demo_user ''u2'' ''bob'' False"
  have servers: "db_servers demo_suspended = [?x]" by (simp add: demo_suspended_def demo_three_def updateRows_def) (simp add: demo_server_def)
  have user: "JwtAuthGuard demo_ext 0 (demo_cookie ?bob) demo_suspended = Inr \<lparr>au_id = user_id ?bob, au_email = user_email ?bob, au_rootAdmin = user_rootAdmin ?bob\<rparr>"
    using demo_three_guard [of ?bob] guard_users [of demo_suspended demo_three] by (simp add: demo_suspended_def update_server_def)
  have server: "findOne (\<lambda>x. server_uuid x = ''uuid-1'') (db_servers demo_suspended) = Some ?x"
    unfolding servers by (simp add: findOne_def demo_server_def)
  have nodes: "db_nodes demo_suspended = [demo_node]" by (simp add: demo_suspended_def demo_three_def)
  have ok: "db_ok demo_suspended" unfolding demo_suspended_def by (rule update_server_ok [OF demo_three_ok]) simp_all
  have given: "\<not> is_ok (fst (ServersController_power demo_ext wings_up 0 (demo_cookie ?bob) ''uuid-1'' START demo_suspended)) \<and>
    (\<exists>full s'. ServersController_findByUuid demo_ext 0 (demo_cookie ?bob) ''uuid-1'' demo_suspended = (Inr full, demo_suspended) \<and>
       ServerCallbacks_installStatus (with_node_token (server_json (\<lambda>_. []) full) (demo_cookie ?bob)) ''uuid-1'' ''success'' demo_suspended = (Inr (), s') \<and>
       snd (ServersController_power demo_ext wings_up 0 (demo_cookie ?bob) ''uuid-1'' START s') = after_call demo_node (SendPowerAction ''uuid-1'' (mapPowerAction START)) s')"
    by (rule owner_ends_suspension [OF user server _ _ _ _ _ ok]) (simp_all add: nodes findOne_def demo_server_def demo_node_def demo_user_def)
  moreover have "ServersController_findByUuid demo_ext 0 (demo_cookie ?bob) ''uuid-1'' demo_suspended = (Inr (load_server demo_suspended ?x), demo_suspended)"
    by (rule show_route.granted [OF user server]) (simp_all add: demo_server_def demo_user_def)
  ultimately show ?thesis by auto
qed

section \<open>The secrets of other accounts\<close>

lemma subuser_secrets:
  assumes "fsub_user full = Some v"
  shows "json_path [''user'', ''email''] (subuser_json D full) = Some (JStr (user_email v))"
    and "json_path [''user'', ''password''] (subuser_json D full) = Some (JStr (user_password v))"
    and "json_path [''user'', ''totpSecret''] (subuser_json D full) = Some (nullable JStr (user_totpSecret v))"
  using assms by (simp_all add: subuser_json_def user_entity_json_def Let_def)

text \<open>
  C10. Whoever owns a server reads the password hash and the secret of the second factor of any
  account, given its e-mail address: after the request that invites the account, and whatever the
  account does, the list of the subusers of that server holds them.
\<close>

theorem invitation_discloses_secrets:
  assumes user: "JwtAuthGuard X now req d = Inr u"
    and server: "findOne (\<lambda>x. server_uuid x = uuid) (db_servers d) = Some x" "au_rootAdmin u \<or> server_userId x = au_id u"
    and victim: "findOne (\<lambda>v. user_email v = email) (db_users d) = Some v" "isEmail X email"
    and "db_ok d" and fresh: "\<forall>y \<in> set (db_subusers d). subuser_id y \<noteq> newId"
    and invited: "SubusersController_invite X now req newId uuid email permissions d = (r, d')"
  shows "\<exists>rows row. SubusersController_findByServer X now req uuid d' = (Inr rows, d') \<and>
    row \<in> set (json_items (list_json (subuser_json D) rows)) \<and>
    json_path [''user'', ''email''] row = Some (JStr email) \<and>
    json_path [''user'', ''password''] row = Some (JStr (user_password v)) \<and>
    json_path [''user'', ''totpSecret''] row = Some (nullable JStr (user_totpSecret v))"
proof -
  have "SubusersService_invite newId now (server_id x) email permissions d = (r, d')"
    using sub_invite.granted [OF user server] victim(2) invited by (simp add: InviteSubuserDto_ok_def)
  moreover have "server_exists d (server_id x)" using server(1) by (auto simp: exists_defs hasRow_iff dest: findOne_Some)
  ultimately have sub: "\<exists>y \<in> set (db_subusers d'). subuser_serverId y = server_id x \<and> subuser_userId y = user_id v"
    and same: "db_users d' = db_users d" "db_servers d' = db_servers d"
    using subuser_invite_spec [OF \<open>db_ok d\<close> _ fresh] victim(1) by (force simp: new_subuser_def split: if_split_asm)+
  have list: "SubusersController_findByServer X now req uuid d' = (Inr (SubusersService_findByServer (server_id x) d'), d')"
    using sub_list.granted [of X now req d' u uuid x] guard_users [OF same(1)] user server by (simp add: same)
  from sub obtain y where y: "y \<in> set (db_subusers d')" "subuser_serverId y = server_id x" "subuser_userId y = user_id v" by blast
  have "distinct (map user_id (db_users d))" using \<open>db_ok d\<close> by (simp add: db_ok_def db_keys_def unique_rows_def)
  then have v: "findOne (\<lambda>z. user_id z = user_id v) (db_users d) = Some v" "user_email v = email"
    using victim(1) by (auto intro: findOne_key dest: findOne_Some)
  let ?full = "\<lparr>fsub_subuser = y, fsub_user = Some v\<rparr>"
  have "?full \<in> set (SubusersService_findByServer (server_id x) d')"
    using y v(1) by (auto simp: SubusersService_findByServer_def findRows_def same image_iff)
  then have "subuser_json D ?full \<in> set (json_items (list_json (subuser_json D) (SubusersService_findByServer (server_id x) d')))"
    by (simp add: list_json_def)
  then show ?thesis using list v(2) subuser_secrets [of ?full v D] by fastforce
qed

lemma invitation_discloses_secrets_witness:
  "\<exists>rows row. SubusersController_findByServer demo_ext 0 (demo_cookie (demo_user ''u2'' ''bob'' False)) ''uuid-1''
       (snd (SubusersController_invite demo_ext 0 (demo_cookie (demo_user ''u2'' ''bob'' False)) ''n1'' ''uuid-1'' ''ann@x'' [] demo_three)) =
         (Inr rows, snd (SubusersController_invite demo_ext 0 (demo_cookie (demo_user ''u2'' ''bob'' False)) ''n1'' ''uuid-1'' ''ann@x'' [] demo_three)) \<and>
     row \<in> set (json_items (list_json (subuser_json (\<lambda>_. [])) rows)) \<and>
     json_path [''user'', ''password''] row = Some (JStr ''$secret'')"
proof -
  let ?bob = "demo_user ''u2'' ''bob'' False" and ?ann = "demo_user ''u1'' ''ann'' True"
  have user: "JwtAuthGuard demo_ext 0 (demo_cookie ?bob) demo_three = Inr \<lparr>au_id = user_id ?bob, au_email = user_email ?bob, au_rootAdmin = user_rootAdmin ?bob\<rparr>"
    by (rule demo_three_guard) simp
  have victim: "findOne (\<lambda>v. user_email v = ''ann@x'') (db_users demo_three) = Some ?ann"
    by (simp add: demo_three_def findOne_def demo_user_def)
  have may: "au_rootAdmin \<lparr>au_id = user_id ?bob, au_email = user_email ?bob, au_rootAdmin = user_rootAdmin ?bob\<rparr> \<or>
      server_userId demo_server = au_id \<lparr>au_id = user_id ?bob, au_email = user_email ?bob, au_rootAdmin = user_rootAdmin ?bob\<rparr>"
    by (simp add: demo_server_def demo_user_def)
  have mail: "isEmail demo_ext ''ann@x''" by (simp add: demo_ext_def)
  have fresh: "\<forall>y \<in> set (db_subusers demo_three). subuser_id y \<noteq> ''n1''" by (simp add: demo_three_def demo_panel_def db.defs node_panel.defs)
  have "user_password ?ann = ''$secret''" by (simp add: demo_user_def)
  with invitation_discloses_secrets [OF user demo_three_server may victim mail demo_three_ok fresh prod.collapse [symmetric],
      where permissions = "[]" and D = "\<lambda>_. []"]
  show ?thesis by metis
qed

end
