(* ===== verification/WebFiles.thy ===== *)
theory WebFiles
  imports WebForms
begin

text \<open>
  The file manager: \<^verbatim>\<open>pages/server/FilesPage.tsx\<close> with its current directory, its selection
  and its menu, and saving in \<^verbatim>\<open>components/files/FileEditor.tsx\<close>.
\<close>

record FileEntry =
  fe_name :: string
  fe_isDirectory :: bool

record FilesPage =
  fp_currentPath :: string
  fp_files :: "FileEntry list"
  fp_selected :: "string list" \<comment> \<open>the \<open>Set\<close>, in the order of insertion\<close>

definition initial_files :: FilesPage where
  "initial_files = \<lparr>fp_currentPath = ''/'', fp_files = [], fp_selected = []\<rparr>"

definition loadFiles :: "FileEntry list option \<Rightarrow> FilesPage \<Rightarrow> FilesPage" where
  "loadFiles answer p = (case answer of None \<Rightarrow> p | Some files \<Rightarrow> p\<lparr>fp_files := files, fp_selected := []\<rparr>)"

definition pathParts :: "FilesPage \<Rightarrow> string list" where
  "pathParts p = filter (\<lambda>s. s \<noteq> []) (js_split (CHR ''/'') (fp_currentPath p))"

fun joined_with :: "string \<Rightarrow> string list \<Rightarrow> string" where
  "joined_with sep [] = []"
| "joined_with sep [s] = s"
| "joined_with sep (s # t # ss) = s @ sep @ joined_with sep (t # ss)"

definition handleNavigate :: "int \<Rightarrow> FilesPage \<Rightarrow> FilesPage" where
  "handleNavigate index p =
     p\<lparr>fp_currentPath := (if index < 0 then ''/'' else ''/'' @ joined_with ''/'' (take (nat (index + 1)) (pathParts p)))\<rparr>"

definition file_path :: "string \<Rightarrow> FilesPage \<Rightarrow> string" where
  "file_path name p = (if fp_currentPath p = ''/'' then ''/'' @ name else fp_currentPath p @ ''/'' @ name)"

text \<open>A click on a directory enters it; on a file its contents are requested.\<close>

definition handleFileClick :: "string \<Rightarrow> FileEntry \<Rightarrow> FilesPage \<Rightarrow> sent \<times> FilesPage" where
  "handleFileClick uuid f p =
     (if fe_isDirectory f then (Nothing, p\<lparr>fp_currentPath := file_path (fe_name f) p\<rparr>)
      else (Sends (CallFiles (FilesContents uuid)) [], p))"

section \<open>The menu of a file\<close>

definition FilesPage_handleDelete :: "string \<Rightarrow> FileEntry \<Rightarrow> FilesPage \<Rightarrow> sent" where
  "FilesPage_handleDelete uuid f p =
     Sends (CallFiles (FilesDelete uuid)) [(''root'', JStr (fp_currentPath p)), (''files'', JArr [JStr (fe_name f)])]"

definition FilesPage_handleCopy :: "string \<Rightarrow> FileEntry \<Rightarrow> FilesPage \<Rightarrow> sent" where
  "FilesPage_handleCopy uuid f p = Sends (CallFiles (FilesCopy uuid)) [(''location'', JStr (file_path (fe_name f) p))]"

definition FilesPage_handleDownload :: "string \<Rightarrow> FileEntry \<Rightarrow> FilesPage \<Rightarrow> sent" where
  "FilesPage_handleDownload uuid f p = Sends (CallFiles (FilesDownloadUrl uuid)) []"

definition ends_with :: "string \<Rightarrow> string \<Rightarrow> bool" where
  "ends_with s e \<longleftrightarrow> length e \<le> length s \<and> drop (length s - length e) s = e"

definition FilesPage_handleCompress :: "string \<Rightarrow> FileEntry \<Rightarrow> FilesPage \<Rightarrow> sent" where
  "FilesPage_handleCompress uuid f p =
     (if ends_with (fe_name f) ''.tar.gz'' \<or> ends_with (fe_name f) ''.zip''
      then Sends (CallFiles (FilesDecompress uuid)) [(''root'', JStr (fp_currentPath p)), (''file'', JStr (fe_name f))]
      else Sends (CallFiles (FilesCompress uuid)) [(''root'', JStr (fp_currentPath p)), (''files'', JArr [JStr (fe_name f)])])"

definition FilesPage_handleCreateFolder :: "string \<Rightarrow> string \<Rightarrow> FilesPage \<Rightarrow> sent" where
  "FilesPage_handleCreateFolder uuid newFolderName p =
     (if js_trim newFolderName = [] then Nothing
      else Sends (CallFiles (FilesCreateDirectory uuid)) [(''root'', JStr (fp_currentPath p)), (''name'', JStr (js_trim newFolderName))])"

definition FilesPage_handleUpload :: "string \<Rightarrow> sent" where
  "FilesPage_handleUpload uuid = Sends (CallFiles (FilesUploadUrl uuid)) []"

text \<open>The editor sends the text as it is: as \<open>text/plain\<close>, of which the backend parses no body.\<close>

definition FileEditor_handleSave :: "string \<Rightarrow> string \<Rightarrow> string \<Rightarrow> sent" where
  "FileEditor_handleSave serverUuid filePath content = Sends (CallFiles (FilesSave serverUuid)) []"

section \<open>Selection and order\<close>

definition toggleSelect :: "string \<Rightarrow> FilesPage \<Rightarrow> FilesPage" where
  "toggleSelect name p =
     p\<lparr>fp_selected := (if name \<in> set (fp_selected p) then removeAll name (fp_selected p) else fp_selected p @ [name])\<rparr>"

definition toggleSelectAll :: "FilesPage \<Rightarrow> FilesPage" where
  "toggleSelectAll p =
     p\<lparr>fp_selected := (if length (fp_selected p) = length (fp_files p) then [] else remdups (map fe_name (fp_files p)))\<rparr>"

text \<open>Directories first, then by name; \<open>rank\<close> is the order of \<open>localeCompare\<close>.  The sort is stable.\<close>

definition sorted_files :: "(string \<Rightarrow> nat) \<Rightarrow> FilesPage \<Rightarrow> FileEntry list" where
  "sorted_files rank p =
     (let byName = sort_key (\<lambda>f. rank (fe_name f)) (fp_files p)
      in filter fe_isDirectory byName @ filter (\<lambda>f. \<not> fe_isDirectory f) byName)"

end
