(* ===== verification/WebFormsProps.thy ===== *)
theory WebFormsProps
  imports WebFiles WebApiProps
begin

text \<open>Which forms of the pages the backend ever accepts, and the way through the directories.\<close>

section \<open>The forms\<close>

datatype page_form =
    NodeForm string string string string string string string
  | AllocationForm string string string
  | UserForm string string string bool
  | UserEditForm string string string string bool
  | DatabaseForm string string string
  | ScheduleForm string "string option" string string string string string string
  | KeyForm string
  | EggForm string string string string
  | SettingsForm string string string
  | StartupForm string "(string \<times> string) list"
  | ProfileForm string string
  | PasswordForm string string
  | FileOpen string FileEntry
  | FileDelete string FileEntry
  | FileCopy string FileEntry
  | FileDownload string FileEntry
  | FileCompress string FileEntry
  | FolderForm string string
  | FileUpload string
  | FileSave string string string

fun submit :: "(jsnum \<Rightarrow> json) \<Rightarrow> FilesPage \<Rightarrow> page_form \<Rightarrow> sent" where
  "submit N p (NodeForm name fqdn port scheme memory disk location) = NodesPage_handleCreate N name fqdn port scheme memory disk location"
| "submit N p (AllocationForm node ip port) = NodesPage_handleCreateAllocation N node ip port"
| "submit N p (UserForm email name password admin) = UsersPage_handleCreate email name password admin"
| "submit N p (UserEditForm i email name password admin) = UsersPage_handleEdit i email name password admin"
| "submit N p (DatabaseForm uuid name remote) = DatabasesPage_handleCreate uuid name remote"
| "submit N p (ScheduleForm uuid editId name mi ho dm mo dw) = SchedulesPage_handleSave uuid editId name mi ho dm mo dw"
| "submit N p (KeyForm description) = ApiKeysPage_handleCreate description"
| "submit N p (EggForm name description img startup) = EggsPage_handleCreate name description img startup"
| "submit N p (SettingsForm uuid name description) = SettingsPage_handleSave uuid name description"
| "submit N p (StartupForm uuid values) = StartupPage_handleSave uuid values"
| "submit N p (ProfileForm email name) = AccountSettings_handleSaveProfile email name"
| "submit N p (PasswordForm old new) = AccountSettings_handleChangePassword old new"
| "submit N p (FileOpen uuid f) = fst (handleFileClick uuid f p)"
| "submit N p (FileDelete uuid f) = FilesPage_handleDelete uuid f p"
| "submit N p (FileCopy uuid f) = FilesPage_handleCopy uuid f p"
| "submit N p (FileDownload uuid f) = FilesPage_handleDownload uuid f p"
| "submit N p (FileCompress uuid f) = FilesPage_handleCompress uuid f p"
| "submit N p (FolderForm uuid name) = FilesPage_handleCreateFolder uuid name p"
| "submit N p (FileUpload uuid) = FilesPage_handleUpload uuid"
| "submit N p (FileSave uuid path content) = FileEditor_handleSave uuid path content"

lemmas page_defs = NodesPage_handleCreate_def NodesPage_handleCreateAllocation_def UsersPage_handleCreate_def UsersPage_handleEdit_def
  DatabasesPage_handleCreate_def SchedulesPage_handleSave_def ApiKeysPage_handleCreate_def EggsPage_handleCreate_def
  SettingsPage_handleSave_def StartupPage_handleSave_def AccountSettings_handleSaveProfile_def AccountSettings_handleChangePassword_def
  handleFileClick_def FilesPage_handleDelete_def FilesPage_handleCopy_def FilesPage_handleDownload_def FilesPage_handleCompress_def
  FilesPage_handleCreateFolder_def FilesPage_handleUpload_def FileEditor_handleSave_def

section \<open>What the pipe refuses\<close>

lemma judge_served:
  assumes "\<forall>i \<in> set_web_call c. id_ok i"
  shows "judge X (c, body) =
    (case served_by c of None \<Rightarrow> NoRoute
     | Some h \<Rightarrow> (case map_of body_schemas h of None \<Rightarrow> Reaches h
         | Some schema \<Rightarrow> if ValidationPipe X schema body then Reaches h else BodyRefused))"
proof -
  have "(case web_request c of (m, path) \<Rightarrow> dispatch m path) = served_by c"
    using assms by (cases c) (simp_all add: calls_routed)
  then show ?thesis by (simp add: judge_def)
qed

lemma foreign_properties:
  "\<not> ValidationPipe X CreateNodeDto_schema ((''name'', a) # (''fqdn'', b) # (''port'', c) # body)"
  "\<not> ValidationPipe X CreateNodeAllocationsDto_schema ((''ip'', a) # (''port'', b) # body)"
  "\<not> ValidationPipe X CreateUserDto_schema ((''email'', a) # (''username'', b) # (''password'', c) # (''isAdmin'', d) # body)"
  "\<not> ValidationPipe X CreateDatabaseDto_schema ((''name'', a) # body)"
  "\<not> ValidationPipe X CreateScheduleDto_schema ((''name'', a) # (''cron'', b) # body)"
  "\<not> ValidationPipe X UpdateScheduleDto_schema ((''name'', a) # (''cron'', b) # body)"
  "\<not> ValidationPipe X CompressFilesDto_schema ((''root'', a) # body)"
  "\<not> ValidationPipe X DecompressArchiveDto_schema ((''root'', a) # body)"
  "\<not> ValidationPipe X DeleteFilesDto_schema ((''root'', a) # body)"
  by (simp_all add: ValidationPipe_def CreateNodeDto_schema_def CreateNodeAllocationsDto_schema_def CreateUserDto_schema_def
      CreateDatabaseDto_schema_def CreateScheduleDto_schema_def UpdateScheduleDto_schema_def CompressFilesDto_schema_def
      DecompressArchiveDto_schema_def DeleteFilesDto_schema_def)

lemma missing_path: "\<not> ValidationPipe X WriteFileDto_schema []"
  by (simp add: ValidationPipe_def WriteFileDto_schema_def field_ok_def)

text \<open>The verdict on a call whose method has a class that refuses the body, or that has no method.\<close>

definition refused :: "ext \<Rightarrow> string web_call \<Rightarrow> (string \<times> json) list \<Rightarrow> bool" where
  "refused X c body \<longleftrightarrow>
     (case served_by c of None \<Rightarrow> True
      | Some h \<Rightarrow> (case map_of body_schemas h of None \<Rightarrow> False | Some schema \<Rightarrow> \<not> ValidationPipe X schema body))"

lemma refused_judge: "refused X c body \<Longrightarrow> \<forall>i \<in> set_web_call c. id_ok i \<Longrightarrow> judge X (c, body) \<in> {NoRoute, BodyRefused}"
  by (auto simp: judge_served refused_def split: option.splits)

lemma schemas_of:
  "map_of body_schemas ''AdminNodesController.create'' = Some CreateNodeDto_schema"
  "map_of body_schemas ''AdminAllocationsController.create'' = Some CreateNodeAllocationsDto_schema"
  "map_of body_schemas ''AdminUsersController.create'' = Some CreateUserDto_schema"
  "map_of body_schemas ''DatabasesController.create'' = Some CreateDatabaseDto_schema"
  "map_of body_schemas ''SchedulesController.create'' = Some CreateScheduleDto_schema"
  "map_of body_schemas ''SchedulesController.update'' = Some UpdateScheduleDto_schema"
  "map_of body_schemas ''FilesController.writeFile'' = Some WriteFileDto_schema"
  "map_of body_schemas ''FilesController.compress'' = Some CompressFilesDto_schema"
  "map_of body_schemas ''FilesController.decompress'' = Some DecompressArchiveDto_schema"
  "map_of body_schemas ''FilesController.deleteFiles'' = Some DeleteFilesDto_schema"
  "map_of body_schemas ''LocationsController.create'' = Some CreateLocationDto_schema"
  "map_of body_schemas ''LocationsController.update'' = Some UpdateLocationDto_schema"
  "map_of body_schemas ''SubusersController.invite'' = Some InviteSubuserDto_schema"
  "map_of body_schemas ''SubusersController.update'' = Some UpdateSubuserDto_schema"
  by (simp_all add: body_schemas_def)

lemma form_refused: "submit N p f = Sends c body \<Longrightarrow> refused X c body"
  by (cases f)
    (auto simp: refused_def page_defs schemas_of foreign_properties missing_path Let_def split: if_split_asm option.split_asm)

text \<open>
  C17. These twenty forms of the interface do nothing, whatever is typed into them: what they send
  has no route, or its body is refused, because the names of its properties are not those of
  the class.  Among them is everything an administrator needs to set up a node, its ports and
  its users, and the whole file manager.
\<close>

theorem dead_forms:
  assumes "submit N p f = Sends c body" and "\<forall>i \<in> set_web_call c. id_ok i"
  shows "judge X (c, body) \<in> {NoRoute, BodyRefused}"
  by (rule refused_judge [OF form_refused [OF assms(1)] assms(2)])

lemma dead_forms_witness:
  "judge demo_ext (CallPage UsersCreate, [(''email'', JStr ''a@b''), (''username'', JStr ''ann''), (''password'', JStr ''longenough''), (''isAdmin'', JBool False)])
     \<in> {NoRoute, BodyRefused}"
  by (rule dead_forms [of "\<lambda>_. JNull" initial_files "UserForm ''a@b'' ''ann'' ''longenough'' False"])
    (simp_all add: UsersPage_handleCreate_def)

section \<open>The forms that are served\<close>

text \<open>The permissions the page offers, those of the enum but for one.\<close>

lemma offered_permissions:
  "set ALL_PERMISSIONS \<inter> set (map SubuserPermission_value subuser_permissions_all) = set ALL_PERMISSIONS - {''settings.read''}"
  by code_simp

lemma known_permissions:
  assumes "set perms \<subseteq> set ALL_PERMISSIONS"
  shows "list_all (one_of (map SubuserPermission_value subuser_permissions_all)) (map JStr perms) \<longleftrightarrow> ''settings.read'' \<notin> set perms"
proof -
  have "list_all (one_of vs) (map JStr perms) \<longleftrightarrow> set perms \<subseteq> set vs" for vs by (induction perms) auto
  then show ?thesis using assms offered_permissions by blast
qed

text \<open>
  Subusers can be invited and changed from their page: the request reaches its method exactly
  for an e-mail address and permissions of the backend's enum, which are all that the page
  offers but \<open>settings.read\<close>.
\<close>

theorem subuser_form_served:
  assumes "id_ok uuid" and "\<forall>i \<in> set_option editId. id_ok i" and "set perms \<subseteq> set ALL_PERMISSIONS"
    and "SubusersPage_handleSave uuid editId email perms = Sends c body"
  shows "judge X (c, body) =
    (if ''settings.read'' \<notin> set perms \<and> (editId = None \<longrightarrow> isEmail X email)
     then Reaches (if editId = None then ''SubusersController.invite'' else ''SubusersController.update'') else BodyRefused)"
proof (cases editId)
  case None
  then have c: "c = CallServers (AddSubuser uuid)" "body = [(''email'', JStr email), (''permissions'', JArr (map JStr perms))]"
    using assms(4) by (simp_all add: SubusersPage_handleSave_def)
  have "judge X (c, body) = (if ValidationPipe X InviteSubuserDto_schema body then Reaches ''SubusersController.invite'' else BodyRefused)"
    by (subst judge_served) (use assms(1) c in \<open>simp_all add: schemas_of\<close>)
  moreover have "ValidationPipe X InviteSubuserDto_schema body \<longleftrightarrow> isEmail X email \<and> ''settings.read'' \<notin> set perms"
    by (simp add: c ValidationPipe_def InviteSubuserDto_schema_def field_ok_def each_def known_permissions [OF assms(3)])
  ultimately show ?thesis using None by simp
next
  case (Some i)
  then have i: "i \<noteq> []" using assms(2) by (simp add: id_ok_def)
  then have c: "c = CallServers (UpdateSubuser uuid i)" "body = [(''permissions'', JArr (map JStr perms))]"
    using assms(4) Some by (simp_all add: SubusersPage_handleSave_def)
  have "judge X (c, body) = (if ValidationPipe X UpdateSubuserDto_schema body then Reaches ''SubusersController.update'' else BodyRefused)"
    by (subst judge_served) (use assms(1,2) c Some in \<open>simp_all add: schemas_of\<close>)
  moreover have "ValidationPipe X UpdateSubuserDto_schema body \<longleftrightarrow> ''settings.read'' \<notin> set perms"
    by (simp add: c ValidationPipe_def UpdateSubuserDto_schema_def field_ok_def each_def known_permissions [OF assms(3)])
  ultimately show ?thesis using Some by simp
qed

lemma subuser_form_served_witness:
  "judge demo_ext (CallServers (AddSubuser ''u1''), [(''email'', JStr ''a@b''), (''permissions'', JArr [JStr ''file.read''])]) =
     Reaches ''SubusersController.invite''"
proof -
  have "judge demo_ext (CallServers (AddSubuser ''u1''), [(''email'', JStr ''a@b''), (''permissions'', JArr (map JStr [''file.read'']))]) =
    (if ''settings.read'' \<notin> set [''file.read''] \<and> (None = (None :: string option) \<longrightarrow> isEmail demo_ext ''a@b'')
     then Reaches (if None = (None :: string option) then ''SubusersController.invite'' else ''SubusersController.update'') else BodyRefused)"
    by (rule subuser_form_served [where uuid = "''u1''"]) (simp_all add: id_ok_def ALL_PERMISSIONS_def SubusersPage_handleSave_def)
  then show ?thesis by (simp add: demo_ext_def)
qed

section \<open>The way through the directories\<close>

definition enter :: "string \<Rightarrow> string \<Rightarrow> FilesPage \<Rightarrow> FilesPage" where
  "enter uuid name p = snd (handleFileClick uuid \<lparr>fe_name = name, fe_isDirectory = True\<rparr> p)"

definition slashed :: "string list \<Rightarrow> string" where
  "slashed names = concat (map (Cons (CHR ''/'')) names)"

lemma slashed_snoc: "slashed (names @ [n]) = slashed names @ CHR ''/'' # n"
  by (simp add: slashed_def)

lemma joined_slashed: "xs \<noteq> [] \<Longrightarrow> CHR ''/'' # joined_with ''/'' xs = slashed xs"
  by (induction "''/''" xs rule: joined_with.induct) (simp_all add: slashed_def)

lemma slashed_root: "[] \<notin> set names \<Longrightarrow> slashed names \<noteq> ''/''"
  by (cases names) (auto simp: slashed_def)

lemma entered_path:
  "[] \<notin> set names \<Longrightarrow> fp_currentPath (fold (enter uuid) names initial_files) = (if names = [] then ''/'' else slashed names)"
proof (induction names rule: rev_induct)
  case (snoc n names)
  then have "fp_currentPath (fold (enter uuid) names initial_files) = (if names = [] then ''/'' else slashed names)" by simp
  moreover have "slashed names \<noteq> ''/''" using snoc.prems by (intro slashed_root) simp
  moreover have "fp_currentPath (enter uuid n q) = (if fp_currentPath q = ''/'' then ''/'' @ n else fp_currentPath q @ ''/'' @ n)" for q
    by (simp add: enter_def handleFileClick_def file_path_def)
  ultimately show ?case by (simp add: slashed_snoc) (simp add: slashed_def)
qed (simp add: initial_files_def)

lemma split_slashed:
  "\<forall>n \<in> set names. CHR ''/'' \<notin> set n \<Longrightarrow> js_split (CHR ''/'') (slashed names) = [] # names"
proof (induction names)
  case (Cons n names)
  then have "js_split (CHR ''/'') (slashed names) = [] # names" by simp
  moreover have "js_split (CHR ''/'') (n @ slashed names) = n # tl (js_split (CHR ''/'') (slashed names))"
  proof (cases names)
    case Nil
    then show ?thesis using Cons.prems by (simp add: slashed_def split_last)
  next
    case (Cons k ks)
    then show ?thesis using Cons.prems \<open>\<forall>n \<in> set (n # names). CHR ''/'' \<notin> set n\<close> by (simp add: slashed_def split_id)
  qed
  ultimately show ?case by (simp add: slashed_def)
qed (simp add: slashed_def)

lemma entered_parts:
  assumes "\<forall>n \<in> set names. n \<noteq> [] \<and> CHR ''/'' \<notin> set n"
  shows "pathParts (fold (enter uuid) names initial_files) = names"
proof -
  have "[] \<notin> set names" using assms by blast
  moreover have "filter (\<lambda>s. s \<noteq> []) names = names" using assms by (simp add: filter_id_conv)
  ultimately show ?thesis using assms by (simp add: pathParts_def entered_path split_slashed)
qed

text \<open>
  C27. The path above the files is the way taken: after any sequence of clicks on directories its
  parts are their names in order, and a click on the part with index \<open>i\<close> leads back to where the
  first \<open>i + 1\<close> clicks had led; the house leads to the root.
\<close>

theorem breadcrumb_roundtrip:
  fixes uuid :: string
  assumes "\<forall>n \<in> set names. n \<noteq> [] \<and> CHR ''/'' \<notin> set n"
  defines "p \<equiv> fold (enter uuid) names initial_files"
  shows "pathParts p = names \<and> fp_currentPath (handleNavigate (- 1) p) = fp_currentPath initial_files \<and>
    (\<forall>i < length names. fp_currentPath (handleNavigate (int i) p) = fp_currentPath (fold (enter uuid) (take (i + 1) names) initial_files))"
proof -
  have parts: "pathParts p = names" unfolding p_def by (rule entered_parts) (rule assms(1))
  have "fp_currentPath (handleNavigate (int i) p) = fp_currentPath (fold (enter uuid) (take (i + 1) names) initial_files)" if "i < length names" for i
  proof -
    have "take (i + 1) names \<noteq> []" "[] \<notin> set (take (i + 1) names)" using that assms(1) by (auto dest: in_set_takeD)
    then show ?thesis using joined_slashed [of "take (i + 1) names"] by (simp add: handleNavigate_def parts entered_path nat_add_distrib)
  qed
  then show ?thesis using parts by (simp add: handleNavigate_def initial_files_def)
qed

lemma breadcrumb_roundtrip_witness:
  "pathParts (fold (enter ''u1'') [''plugins'', ''maps''] initial_files) = [''plugins'', ''maps''] \<and>
   fp_currentPath (handleNavigate 0 (fold (enter ''u1'') [''plugins'', ''maps''] initial_files)) = ''/plugins''"
proof -
  have names: "\<forall>n \<in> set [''plugins'', ''maps'']. n \<noteq> [] \<and> CHR ''/'' \<notin> set n" by simp
  note r = breadcrumb_roundtrip [OF names, of "''u1''"]
  have "fp_currentPath (fold (enter ''u1'') (take (0 + 1) [''plugins'', ''maps'']) initial_files) = ''/plugins''"
    by (simp add: initial_files_def enter_def handleFileClick_def file_path_def)
  moreover have "0 < length [''plugins'', ''maps'']" by simp
  ultimately show ?thesis using r by (metis of_nat_0)
qed

end
