(* ===== verification/WebWizard.thy ===== *)
theory WebWizard
  imports Servers
begin

text \<open>
  The dialog that creates a server, \<^verbatim>\<open>pages/admin/CreateServerDialog.tsx\<close>: five steps, the
  effects that fetch and reset what they depend on, the requests in flight and their answers
  in any order.  An effect runs when one of its dependencies changed since the last
  rendering; it reads what was rendered and its updates are rendered next.
\<close>

section \<open>State\<close>

text \<open>An egg of a nest: its identifier, image and start command; a nest may come without eggs.\<close>

record WizEgg =
  we_id :: string
  we_dockerImage :: string
  we_startup :: string

record WizNest =
  wn_id :: string
  wn_eggs :: "WizEgg list option"

text \<open>The body of \<open>POST /servers\<close>; a number is what \<open>Number\<close> made of the field.\<close>

record CreateBody =
  cb_name :: string
  cb_description :: "string option"
  cb_userId :: string
  cb_nodeId :: string
  cb_eggId :: string
  cb_allocationId :: string
  cb_nestId :: string
  cb_memory :: jsnum
  cb_cpu :: jsnum
  cb_disk :: jsnum
  cb_swap :: jsnum
  cb_startup :: string
  cb_image :: string
  cb_envVariables :: "string js_obj option"

datatype wizard_request =
    GetUsers | GetNests | GetNestEggs string | GetNodes | GetAllocations string | GetEgg string | PostServer CreateBody

text \<open>An answer, as far as the dialog reads it; a failure may carry a message.\<close>

datatype wizard_answer =
    UserIds "string list"
  | NestList "WizNest list"
  | EggList "WizEgg list"
  | NodeIds "string list"
  | AllocationList "(string \<times> string option) list"  \<comment> \<open>identifier, \<open>serverId\<close>\<close>
  | EggVariables "(string \<times> string) list"  \<comment> \<open>\<open>envVariable\<close>, \<open>defaultValue\<close>\<close>
  | ServerCreated
  | RequestFailed string

text \<open>\<open>wz_nestsRev\<close> and \<open>wz_eggsRev\<close> count the arrays that were set: effects compare references.\<close>

record Wizard =
  wz_open :: bool
  wz_activeStep :: nat
  wz_saving :: bool
  wz_error :: string
  wz_success :: bool
  wz_name :: string
  wz_description :: string
  wz_userId :: string
  wz_users :: "string list"
  wz_nests :: "WizNest list"
  wz_nestsRev :: nat
  wz_nestId :: string
  wz_eggs :: "WizEgg list"
  wz_eggsRev :: nat
  wz_eggId :: string
  wz_dockerImage :: string
  wz_startup :: string
  wz_memory :: string
  wz_cpu :: string
  wz_disk :: string
  wz_swap :: string
  wz_nodes :: "string list"
  wz_nodeId :: string
  wz_allocations :: "string list"
  wz_allocationId :: string
  wz_eggVariables :: "(string \<times> string) list"
  wz_envValues :: "string js_obj"
  wz_requests :: "wizard_request list"
  wz_posted :: "CreateBody list"
  wz_closing :: nat

definition initial_wizard :: Wizard where
  "initial_wizard =
     \<lparr>wz_open = False, wz_activeStep = 0, wz_saving = False, wz_error = [], wz_success = False, wz_name = [],
      wz_description = [], wz_userId = [], wz_users = [], wz_nests = [], wz_nestsRev = 0, wz_nestId = [], wz_eggs = [],
      wz_eggsRev = 0, wz_eggId = [], wz_dockerImage = [], wz_startup = [], wz_memory = ''1024'', wz_cpu = ''100'',
      wz_disk = ''5120'', wz_swap = ''0'', wz_nodes = [], wz_nodeId = [], wz_allocations = [], wz_allocationId = [],
      wz_eggVariables = [], wz_envValues = [], wz_requests = [], wz_posted = [], wz_closing = 0\<rparr>"

definition resetForm :: "Wizard \<Rightarrow> Wizard" where
  "resetForm w =
     w\<lparr>wz_activeStep := 0, wz_error := [], wz_success := False, wz_name := [], wz_description := [], wz_userId := [],
       wz_nestId := [], wz_eggId := [], wz_dockerImage := [], wz_startup := [], wz_memory := ''1024'', wz_cpu := ''100'',
       wz_disk := ''5120'', wz_swap := ''0'', wz_nodeId := [], wz_allocationId := [], wz_eggVariables := [], wz_envValues := []\<rparr>"

definition request :: "wizard_request \<Rightarrow> Wizard \<Rightarrow> Wizard" where
  "request r w = w\<lparr>wz_requests := wz_requests w @ [r]\<rparr>"

section \<open>Effects\<close>

text \<open>Each takes what was rendered and the updates made so far.\<close>

definition open_effect :: "Wizard \<Rightarrow> Wizard \<Rightarrow> Wizard" where
  "open_effect rendered w = (if \<not> wz_open rendered then w else request GetUsers (resetForm w))"

definition nests_effect :: "Wizard \<Rightarrow> Wizard \<Rightarrow> Wizard" where
  "nests_effect rendered w =
     (if wz_activeStep rendered < 1 \<or> 0 < length (wz_nests rendered) then w else request GetNests w)"

definition setEggs :: "WizEgg list \<Rightarrow> Wizard \<Rightarrow> Wizard" where
  "setEggs eggs w = w\<lparr>wz_eggs := eggs, wz_eggsRev := Suc (wz_eggsRev w)\<rparr>"

definition eggs_effect :: "Wizard \<Rightarrow> Wizard \<Rightarrow> Wizard" where
  "eggs_effect rendered w =
     (if wz_nestId rendered = [] then setEggs [] w
      else (let selectedNest = find (\<lambda>n. wn_id n = wz_nestId rendered) (wz_nests rendered);
                w1 = (case Option.bind selectedNest wn_eggs of
                        Some eggs \<Rightarrow> setEggs eggs w
                      | None \<Rightarrow> request (GetNestEggs (wz_nestId rendered)) w)
            in w1\<lparr>wz_eggId := [], wz_dockerImage := [], wz_startup := []\<rparr>))"

definition fill_effect :: "Wizard \<Rightarrow> Wizard \<Rightarrow> Wizard" where
  "fill_effect rendered w =
     (if wz_eggId rendered = [] then w
      else (case find (\<lambda>e. we_id e = wz_eggId rendered) (wz_eggs rendered) of
              None \<Rightarrow> w
            | Some egg \<Rightarrow> w\<lparr>wz_dockerImage := we_dockerImage egg, wz_startup := we_startup egg\<rparr>))"

definition nodes_effect :: "Wizard \<Rightarrow> Wizard \<Rightarrow> Wizard" where
  "nodes_effect rendered w =
     (if wz_activeStep rendered < 3 \<or> 0 < length (wz_nodes rendered) then w else request GetNodes w)"

definition allocations_effect :: "Wizard \<Rightarrow> Wizard \<Rightarrow> Wizard" where
  "allocations_effect rendered w =
     (if wz_nodeId rendered = [] then w\<lparr>wz_allocations := [], wz_allocationId := []\<rparr>
      else request (GetAllocations (wz_nodeId rendered)) (w\<lparr>wz_allocationId := []\<rparr>))"

definition variables_effect :: "Wizard \<Rightarrow> Wizard \<Rightarrow> Wizard" where
  "variables_effect rendered w =
     (if wz_activeStep rendered < 4 \<or> wz_eggId rendered = [] then w else request (GetEgg (wz_eggId rendered)) w)"

text \<open>The dependencies of the seven effects.\<close>

definition nest_deps :: "Wizard \<Rightarrow> string \<times> nat" where
  "nest_deps w = (wz_nestId w, wz_nestsRev w)"

definition other_deps :: "Wizard \<Rightarrow> nat \<times> nat \<times> string \<times> nat \<times> nat \<times> string" where
  "other_deps w = (wz_activeStep w, length (wz_nests w), wz_eggId w, wz_eggsRev w, length (wz_nodes w), wz_nodeId w)"

definition same_deps :: "Wizard \<Rightarrow> Wizard \<Rightarrow> bool" where
  "same_deps old new \<longleftrightarrow> wz_open old = wz_open new \<and> nest_deps old = nest_deps new \<and> other_deps old = other_deps new"

definition when_changed :: "bool \<Rightarrow> (Wizard \<Rightarrow> Wizard) \<Rightarrow> Wizard \<Rightarrow> Wizard" where
  "when_changed changed f w = (if changed then f w else w)"

definition run_effects :: "Wizard \<Rightarrow> Wizard \<Rightarrow> Wizard" where
  "run_effects old new =
     (when_changed (wz_activeStep old \<noteq> wz_activeStep new \<or> wz_eggId old \<noteq> wz_eggId new) (variables_effect new) \<circ>
      when_changed (wz_nodeId old \<noteq> wz_nodeId new) (allocations_effect new) \<circ>
      when_changed (wz_activeStep old \<noteq> wz_activeStep new \<or> length (wz_nodes old) \<noteq> length (wz_nodes new)) (nodes_effect new) \<circ>
      when_changed (wz_eggId old \<noteq> wz_eggId new \<or> wz_eggsRev old \<noteq> wz_eggsRev new) (fill_effect new) \<circ>
      when_changed (nest_deps old \<noteq> nest_deps new) (eggs_effect new) \<circ>
      when_changed (wz_activeStep old \<noteq> wz_activeStep new \<or> length (wz_nests old) \<noteq> length (wz_nests new)) (nests_effect new) \<circ>
      when_changed (wz_open old \<noteq> wz_open new) (open_effect new)) new"

text \<open>Rendering and effects take turns until no dependency changes; nothing here says that it ends.\<close>

partial_function (option) settle :: "Wizard \<Rightarrow> Wizard \<Rightarrow> Wizard option" where
  "settle old new = (if same_deps old new then Some new else settle new (run_effects old new))"

section \<open>The buttons\<close>

text \<open>\<open>validateStep\<close>: the message to show, if any.\<close>

definition not_at_least :: "rat \<Rightarrow> string \<Rightarrow> bool" where
  "not_at_least bound field \<longleftrightarrow> is_nan (js_Number field) \<or> js_Number field < Fin bound"

definition step_error :: "Wizard \<Rightarrow> string option" where
  "step_error w =
     (if wz_activeStep w = 0 then
        (if js_trim (wz_name w) = [] then Some ''Server name is required''
         else if wz_userId w = [] then Some ''Owner is required'' else None)
      else if wz_activeStep w = 1 then
        (if wz_nestId w = [] then Some ''Nest is required''
         else if wz_eggId w = [] then Some ''Egg is required''
         else if js_trim (wz_dockerImage w) = [] then Some ''Docker image is required''
         else if js_trim (wz_startup w) = [] then Some ''Startup command is required'' else None)
      else if wz_activeStep w = 2 then
        (if not_at_least 64 (wz_memory w) then Some ''Memory must be at least 64 MB''
         else if not_at_least 1 (wz_cpu w) then Some ''CPU must be at least 1%''
         else if not_at_least 256 (wz_disk w) then Some ''Disk must be at least 256 MB'' else None)
      else if wz_activeStep w = 3 then
        (if wz_nodeId w = [] then Some ''Node is required''
         else if wz_allocationId w = [] then Some ''Allocation is required'' else None)
      else None)"

definition validateStep :: "Wizard \<Rightarrow> bool \<times> Wizard" where
  "validateStep w = (step_error w = None, w\<lparr>wz_error := nullish (step_error w) []\<rparr>)"

definition handleNext :: "Wizard \<Rightarrow> Wizard" where
  "handleNext w = (case validateStep w of (False, w1) \<Rightarrow> w1 | (True, w1) \<Rightarrow> w1\<lparr>wz_activeStep := wz_activeStep w1 + 1\<rparr>)"

definition handleBack :: "Wizard \<Rightarrow> Wizard" where
  "handleBack w = w\<lparr>wz_error := [], wz_activeStep := wz_activeStep w - 1\<rparr>"

definition create_body :: "Wizard \<Rightarrow> CreateBody" where
  "create_body w =
     \<lparr>cb_name = js_trim (wz_name w), cb_description = (if js_trim (wz_description w) = [] then None else Some (js_trim (wz_description w))),
      cb_userId = wz_userId w, cb_nodeId = wz_nodeId w, cb_eggId = wz_eggId w, cb_allocationId = wz_allocationId w,
      cb_nestId = wz_nestId w, cb_memory = js_Number (wz_memory w), cb_cpu = js_Number (wz_cpu w), cb_disk = js_Number (wz_disk w),
      cb_swap = js_Number (wz_swap w), cb_startup = wz_startup w, cb_image = wz_dockerImage w,
      cb_envVariables = (if 0 < length (wz_envValues w) then Some (wz_envValues w) else None)\<rparr>"

definition handleSubmit :: "Wizard \<Rightarrow> Wizard" where
  "handleSubmit w =
     (case validateStep w of
        (False, w1) \<Rightarrow> w1
      | (True, w1) \<Rightarrow>
          (request (PostServer (create_body w1)) w1)\<lparr>wz_saving := True, wz_error := [], wz_posted := wz_posted w1 @ [create_body w1]\<rparr>)"

section \<open>Answers\<close>

text \<open>\<open>merged\<close>: a default for each variable, replaced by what was typed for it.\<close>

definition merge_values :: "(string \<times> string) list \<Rightarrow> string js_obj \<Rightarrow> string js_obj" where
  "merge_values vars prev =
     (let defaults = fold (\<lambda>(k, v). js_set k v) vars []
      in fold (\<lambda>k merged. if js_get merged k \<noteq> None then js_set k (nullish (js_get prev k) []) merged else merged) (map fst prev) defaults)"

fun on_answer :: "wizard_request \<Rightarrow> wizard_answer \<Rightarrow> Wizard \<Rightarrow> Wizard" where
  "on_answer GetUsers (UserIds users) w = w\<lparr>wz_users := users\<rparr>"
| "on_answer GetUsers _ w = w\<lparr>wz_users := []\<rparr>"
| "on_answer GetNests (NestList nests) w = w\<lparr>wz_nests := nests, wz_nestsRev := Suc (wz_nestsRev w)\<rparr>"
| "on_answer GetNests _ w = w\<lparr>wz_nests := [], wz_nestsRev := Suc (wz_nestsRev w)\<rparr>"
| "on_answer (GetNestEggs nest) (EggList eggs) w = setEggs eggs w"
| "on_answer (GetNestEggs nest) _ w = setEggs [] w"
| "on_answer GetNodes (NodeIds nodes) w = w\<lparr>wz_nodes := nodes\<rparr>"
| "on_answer GetNodes _ w = w\<lparr>wz_nodes := []\<rparr>"
| "on_answer (GetAllocations node) (AllocationList allocs) w =
     w\<lparr>wz_allocations := map fst (filter (\<lambda>(i, serverId). \<not> truthy_str serverId) allocs)\<rparr>"
| "on_answer (GetAllocations node) _ w = w\<lparr>wz_allocations := []\<rparr>"
| "on_answer (GetEgg egg) (EggVariables vars) w = w\<lparr>wz_eggVariables := vars, wz_envValues := merge_values vars (wz_envValues w)\<rparr>"
| "on_answer (GetEgg egg) _ w = w\<lparr>wz_eggVariables := []\<rparr>"
| "on_answer (PostServer body) ServerCreated w = w\<lparr>wz_success := True, wz_closing := Suc (wz_closing w), wz_saving := False\<rparr>"
| "on_answer (PostServer body) (RequestFailed message) w =
     w\<lparr>wz_error := (if message = [] then ''Failed to create server'' else message), wz_saving := False\<rparr>"
| "on_answer (PostServer body) _ w = w"

text \<open>Which answers a request can get.\<close>

fun answers :: "wizard_request \<Rightarrow> wizard_answer \<Rightarrow> bool" where
  "answers r (RequestFailed m) = True"
| "answers GetUsers (UserIds us) = True"
| "answers GetNests (NestList ns) = True"
| "answers (GetNestEggs nest) (EggList es) = True"
| "answers GetNodes (NodeIds ns) = True"
| "answers (GetAllocations node) (AllocationList as) = True"
| "answers (GetEgg egg) (EggVariables vs) = True"
| "answers (PostServer body) ServerCreated = True"
| "answers _ _ = False"

section \<open>Events\<close>

datatype wizard_field = NameField | DescriptionField | ImageField | StartupField | MemoryField | CpuField | DiskField | SwapField

datatype wizard_event =
    OpenDialog | CloseDialog | CloseTimer
  | TypeField wizard_field string | TypeVariable string string
  | ChooseOwner string | ChooseNest string | ChooseEgg string | ChooseNode string | ChooseAllocation string
  | NextButton | BackButton | SubmitButton
  | AnswerArrives nat wizard_answer

fun field_step :: "wizard_field \<Rightarrow> nat" where
  "field_step NameField = 0" | "field_step DescriptionField = 0"
| "field_step ImageField = 1" | "field_step StartupField = 1"
| "field_step MemoryField = 2" | "field_step CpuField = 2" | "field_step DiskField = 2" | "field_step SwapField = 2"

text \<open>
  What is on the screen: the inputs of the active step, with what disables them.  A select whose list is
  being fetched is disabled too; here it stays enabled, which allows every run of the component and
  a few more.
\<close>

fun enabled :: "wizard_event \<Rightarrow> Wizard \<Rightarrow> bool" where
  "enabled OpenDialog w = (\<not> wz_open w)"
| "enabled CloseDialog w = wz_open w"
| "enabled CloseTimer w = (0 < wz_closing w)"
| "enabled (TypeField f v) w = (wz_open w \<and> wz_activeStep w = field_step f)"
| "enabled (TypeVariable k v) w = (wz_open w \<and> wz_activeStep w = 4 \<and> k \<in> fst ` set (wz_eggVariables w))"
| "enabled (ChooseOwner u) w = (wz_open w \<and> wz_activeStep w = 0 \<and> u \<in> set (wz_users w))"
| "enabled (ChooseNest n) w = (wz_open w \<and> wz_activeStep w = 1 \<and> n \<in> wn_id ` set (wz_nests w))"
| "enabled (ChooseEgg e) w = (wz_open w \<and> wz_activeStep w = 1 \<and> wz_nestId w \<noteq> [] \<and> e \<in> we_id ` set (wz_eggs w))"
| "enabled (ChooseNode n) w = (wz_open w \<and> wz_activeStep w = 3 \<and> n \<in> set (wz_nodes w))"
| "enabled (ChooseAllocation a) w = (wz_open w \<and> wz_activeStep w = 3 \<and> wz_nodeId w \<noteq> [] \<and> a \<in> set (wz_allocations w))"
| "enabled NextButton w = (wz_open w \<and> wz_activeStep w < 4)"
| "enabled BackButton w = (wz_open w \<and> 0 < wz_activeStep w \<and> \<not> wz_saving w)"
| "enabled SubmitButton w = (wz_open w \<and> 4 \<le> wz_activeStep w \<and> \<not> wz_saving w \<and> \<not> wz_success w)"
| "enabled (AnswerArrives i a) w = (i < length (wz_requests w) \<and> answers (wz_requests w ! i) a)"

fun type_field :: "wizard_field \<Rightarrow> string \<Rightarrow> Wizard \<Rightarrow> Wizard" where
  "type_field NameField v w = w\<lparr>wz_name := v, wz_error := []\<rparr>"
| "type_field DescriptionField v w = w\<lparr>wz_description := v\<rparr>"
| "type_field ImageField v w = w\<lparr>wz_dockerImage := v, wz_error := []\<rparr>"
| "type_field StartupField v w = w\<lparr>wz_startup := v, wz_error := []\<rparr>"
| "type_field MemoryField v w = w\<lparr>wz_memory := v, wz_error := []\<rparr>"
| "type_field CpuField v w = w\<lparr>wz_cpu := v, wz_error := []\<rparr>"
| "type_field DiskField v w = w\<lparr>wz_disk := v, wz_error := []\<rparr>"
| "type_field SwapField v w = w\<lparr>wz_swap := v\<rparr>"

definition without :: "nat \<Rightarrow> 'a list \<Rightarrow> 'a list" where
  "without i xs = take i xs @ drop (Suc i) xs"

fun handle :: "wizard_event \<Rightarrow> Wizard \<Rightarrow> Wizard" where
  "handle OpenDialog w = w\<lparr>wz_open := True\<rparr>"
| "handle CloseDialog w = w\<lparr>wz_open := False\<rparr>"
| "handle CloseTimer w = w\<lparr>wz_closing := wz_closing w - 1, wz_open := False\<rparr>"
| "handle (TypeField f v) w = type_field f v w"
| "handle (TypeVariable k v) w = w\<lparr>wz_envValues := js_set k v (wz_envValues w)\<rparr>"
| "handle (ChooseOwner u) w = w\<lparr>wz_userId := u, wz_error := []\<rparr>"
| "handle (ChooseNest n) w = w\<lparr>wz_nestId := n, wz_error := []\<rparr>"
| "handle (ChooseEgg e) w = w\<lparr>wz_eggId := e, wz_error := []\<rparr>"
| "handle (ChooseNode n) w = w\<lparr>wz_nodeId := n, wz_error := []\<rparr>"
| "handle (ChooseAllocation a) w = w\<lparr>wz_allocationId := a, wz_error := []\<rparr>"
| "handle NextButton w = handleNext w"
| "handle BackButton w = handleBack w"
| "handle SubmitButton w = handleSubmit w"
| "handle (AnswerArrives i a) w = on_answer (wz_requests w ! i) a (w\<lparr>wz_requests := without i (wz_requests w)\<rparr>)"

inductive wizard_step :: "wizard_event \<Rightarrow> Wizard \<Rightarrow> Wizard \<Rightarrow> bool" where
  "enabled e w \<Longrightarrow> settle w (handle e w) = Some w' \<Longrightarrow> wizard_step e w w'"

inductive_cases wizard_stepE: "wizard_step e w w'"

section \<open>What the backend reads\<close>

text \<open>
  \<open>JSON.stringify\<close> writes \<open>null\<close> for \<open>NaN\<close> and the infinities.  \<open>@IsNumber()\<close> with \<open>@Min\<close>
  takes any other number from the bound on, whole or not; an optional \<open>null\<close> counts as not given.
\<close>

fun number_min :: "rat \<Rightarrow> jsnum \<Rightarrow> bool" where
  "number_min least (Fin x) \<longleftrightarrow> least \<le> x"
| "number_min least _ \<longleftrightarrow> False"

text \<open>\<open>CreateServerDto\<close> on the body as it was sent; every value \<open>cb_swap\<close> can have passes.\<close>

definition body_accepted :: "ext \<Rightarrow> CreateBody \<Rightarrow> bool" where
  "body_accepted X b \<longleftrightarrow>
     cb_name b \<noteq> [] \<and> isUUID X (cb_userId b) \<and> isUUID X (cb_nodeId b) \<and> isUUID X (cb_eggId b) \<and>
     isUUID X (cb_allocationId b) \<and> number_min 64 (cb_memory b) \<and> number_min 1 (cb_cpu b) \<and> number_min 256 (cb_disk b) \<and>
     cb_nestId b \<noteq> []"

text \<open>
  The record \<open>CreateServerDto\<close> holds integers, as the columns do: a body with a fraction is outside of it,
  accepted by the DTO and refused by the database.
\<close>

fun json_int :: "jsnum \<Rightarrow> int option" where
  "json_int (Fin x) = (if of_int \<lfloor>x\<rfloor> = x then Some \<lfloor>x\<rfloor> else None)"
| "json_int _ = None"

fun json_int_or_null :: "jsnum \<Rightarrow> int option option" where
  "json_int_or_null (Fin x) = map_option Some (json_int (Fin x))"
| "json_int_or_null _ = Some None"

definition body_dto :: "CreateBody \<Rightarrow> CreateServerDto option" where
  "body_dto b =
     (case (json_int (cb_memory b), json_int (cb_cpu b), json_int (cb_disk b), json_int_or_null (cb_swap b)) of
        (Some memory, Some cpu, Some disk, Some swap) \<Rightarrow>
          Some \<lparr>csd_name = cb_name b, csd_description = cb_description b, csd_userId = cb_userId b, csd_nodeId = cb_nodeId b,
            csd_eggId = cb_eggId b, csd_allocationId = cb_allocationId b, csd_memory = memory, csd_cpu = cpu, csd_disk = disk,
            csd_envVariables = cb_envVariables b, csd_nestId = cb_nestId b, csd_swap = swap, csd_io = None, csd_threads = None,
            csd_oomDisabled = None, csd_startup = Some (cb_startup b), csd_image = Some (cb_image b), csd_externalId = None\<rparr>
      | _ \<Rightarrow> None)"

end
