(* ===== verification/WebWizardProps.thy ===== *)
theory WebWizardProps
  imports WebWizard ServersProps
begin

text \<open>
  The dialog that creates a server: its effects always come to rest, what it sends has passed
  the checks of its steps and of the backend's DTO, one server per submission, and the two
  races of its requests.
\<close>

section \<open>What the effects leave alone\<close>

lemma when_changed_keeps: "(\<And>w. g (f w) = g w) \<Longrightarrow> g (when_changed c f w) = g w"
  by (simp add: when_changed_def)

lemma request_simps [simp]:
  "wz_requests (request r w) = wz_requests w @ [r]" "wz_open (request r w) = wz_open w" "wz_nests (request r w) = wz_nests w"
  "wz_nestsRev (request r w) = wz_nestsRev w" "wz_activeStep (request r w) = wz_activeStep w" "wz_nestId (request r w) = wz_nestId w"
  "wz_eggId (request r w) = wz_eggId w" "wz_eggsRev (request r w) = wz_eggsRev w" "wz_nodes (request r w) = wz_nodes w"
  "wz_nodeId (request r w) = wz_nodeId w" "wz_saving (request r w) = wz_saving w" "wz_success (request r w) = wz_success w"
  "wz_posted (request r w) = wz_posted w" "wz_closing (request r w) = wz_closing w" "wz_allocationId (request r w) = wz_allocationId w"
  "wz_name (request r w) = wz_name w" "wz_userId (request r w) = wz_userId w" "wz_dockerImage (request r w) = wz_dockerImage w"
  "wz_startup (request r w) = wz_startup w" "wz_memory (request r w) = wz_memory w" "wz_cpu (request r w) = wz_cpu w"
  "wz_disk (request r w) = wz_disk w" "wz_eggs (request r w) = wz_eggs w" "wz_users (request r w) = wz_users w"
  "wz_allocations (request r w) = wz_allocations w"
  by (simp_all add: request_def)

lemmas effect_defs = nests_effect_def eggs_effect_def fill_effect_def nodes_effect_def allocations_effect_def
  variables_effect_def open_effect_def setEggs_def resetForm_def

text \<open>What no effect changes, and what only some do.\<close>

definition kept :: "Wizard \<Rightarrow> bool \<times> WizNest list \<times> nat \<times> string list \<times> bool \<times> CreateBody list \<times> nat \<times> string list" where
  "kept w = (wz_open w, wz_nests w, wz_nestsRev w, wz_nodes w, wz_saving w, wz_posted w, wz_closing w, wz_users w)"

definition form :: "Wizard \<Rightarrow> nat \<times> bool \<times> string \<times> string \<times> string \<times> string \<times> string \<times> string \<times> string" where
  "form w = (wz_activeStep w, wz_success w, wz_name w, wz_userId w, wz_nestId w, wz_memory w, wz_cpu w, wz_disk w, wz_nodeId w)"

lemma effects_keep [simp]:
  "kept (open_effect r w) = kept w" "kept (nests_effect r w) = kept w" "kept (eggs_effect r w) = kept w" "kept (fill_effect r w) = kept w"
  "kept (nodes_effect r w) = kept w" "kept (allocations_effect r w) = kept w" "kept (variables_effect r w) = kept w"
  by (simp_all add: kept_def effect_defs Let_def split: option.split)

lemma effects_form [simp]:
  "form (nests_effect r w) = form w" "form (eggs_effect r w) = form w" "form (fill_effect r w) = form w"
  "form (nodes_effect r w) = form w" "form (allocations_effect r w) = form w" "form (variables_effect r w) = form w"
  by (simp_all add: form_def effect_defs Let_def split: option.split)

lemma effects_egg [simp]:
  "wz_eggId (nests_effect r w) = wz_eggId w" "wz_eggId (fill_effect r w) = wz_eggId w" "wz_eggId (nodes_effect r w) = wz_eggId w"
  "wz_eggId (allocations_effect r w) = wz_eggId w" "wz_eggId (variables_effect r w) = wz_eggId w"
  "wz_eggsRev (nests_effect r w) = wz_eggsRev w" "wz_eggsRev (fill_effect r w) = wz_eggsRev w" "wz_eggsRev (nodes_effect r w) = wz_eggsRev w"
  "wz_eggsRev (allocations_effect r w) = wz_eggsRev w" "wz_eggsRev (variables_effect r w) = wz_eggsRev w"
  by (simp_all add: effect_defs Let_def split: option.split)

lemma run_effects_kept [simp]: "kept (run_effects old new) = kept new"
  by (simp add: run_effects_def when_changed_keeps [where g = kept])

lemma run_effects_form: "wz_open old = wz_open new \<or> \<not> wz_open new \<Longrightarrow> form (run_effects old new) = form new"
  by (auto simp: run_effects_def when_changed_def open_effect_def)

lemma run_effects_egg:
  "wz_open old = wz_open new \<Longrightarrow> nest_deps old = nest_deps new \<Longrightarrow>
   wz_eggId (run_effects old new) = wz_eggId new \<and> wz_eggsRev (run_effects old new) = wz_eggsRev new"
  by (simp add: run_effects_def when_changed_def)

section \<open>The effects come to rest\<close>

lemma settle_step: "settle old new = (if same_deps old new then Some new else settle new (run_effects old new))"
  by (rule settle.simps)

lemma settle_rest: "same_deps old new \<Longrightarrow> settle old new = Some new"
  by (simp add: settle_step)

text \<open>Once neither the dialog opens nor the nest changes, one round is the last.\<close>

lemma settle_last:
  assumes "wz_open old = wz_open new" and "nest_deps old = nest_deps new"
  shows "settle old new = Some (if same_deps old new then new else run_effects old new)"
proof -
  have "kept (run_effects old new) = kept new" "form (run_effects old new) = form new"
    using assms by (simp_all add: run_effects_form)
  then have "same_deps new (run_effects old new)"
    using run_effects_egg [OF assms] by (simp add: same_deps_def nest_deps_def other_deps_def kept_def form_def)
  then show ?thesis by (simp add: settle_step [of old new] settle_rest)
qed

lemma settle_nest:
  assumes "wz_open old = wz_open new" and "nest_deps old \<noteq> nest_deps new"
  shows "settle old new = settle new (run_effects old new)" "wz_open new = wz_open (run_effects old new)"
    "nest_deps new = nest_deps (run_effects old new)"
proof -
  have "kept (run_effects old new) = kept new" "form (run_effects old new) = form new"
    using assms by (simp_all add: run_effects_form)
  then show "wz_open new = wz_open (run_effects old new)" "nest_deps new = nest_deps (run_effects old new)"
    by (simp_all add: nest_deps_def kept_def form_def)
  show "settle old new = settle new (run_effects old new)" using assms by (subst settle_step) (simp add: same_deps_def)
qed

lemma settle_total:
  "\<exists>w. settle old new = Some w \<and> kept w = kept new \<and>
     (let r1 = run_effects old new; r2 = run_effects new r1; r3 = run_effects r1 r2 in w = new \<or> w = r1 \<or> w = r2 \<or> w = r3)"
proof -
  let ?r1 = "run_effects old new"
  let ?r2 = "run_effects new ?r1"
  let ?r3 = "run_effects ?r1 ?r2"
  have quiet: "\<exists>w. settle a b = Some w \<and> (w = b \<or> w = run_effects a b \<or> w = run_effects b (run_effects a b))"
    if "wz_open a = wz_open b" for a b
  proof (cases "nest_deps a = nest_deps b")
    case True
    then show ?thesis using settle_last [OF that] by auto
  next
    case False
    note r = settle_nest [OF that False]
    show ?thesis using settle_last [OF r(2,3)] r(1) by auto
  qed
  have "\<exists>w. settle old new = Some w \<and> (w = new \<or> w = ?r1 \<or> w = ?r2 \<or> w = ?r3)"
  proof (cases "wz_open old = wz_open new")
    case True
    then show ?thesis using quiet by blast
  next
    case False
    then have "settle old new = settle new ?r1" by (subst settle_step) (simp add: same_deps_def)
    moreover have "wz_open new = wz_open ?r1" using run_effects_kept [of old new] by (simp add: kept_def)
    ultimately show ?thesis using quiet [of new ?r1] by auto
  qed
  then show ?thesis by (auto simp: Let_def)
qed

lemma settle_kept: "settle old new = Some w \<Longrightarrow> kept w = kept new"
  using settle_total [of old new] by auto

text \<open>
  C20. Rendering and effects of the dialog always come to rest, whatever was rendered before and
  whatever an event changed: after at most three rounds of effects no dependency changes any
  more.  No effect opens or closes the dialog, sends a server or touches the lists of users,
  nests and nodes.
\<close>

theorem wizard_settles:
  "\<exists>w. settle old new = Some w \<and> kept w = kept new \<and>
     (let r1 = run_effects old new; r2 = run_effects new r1; r3 = run_effects r1 r2 in w = new \<or> w = r1 \<or> w = r2 \<or> w = r3)"
  by (rule settle_total)

lemma settle_cases:
  assumes "settle old new = Some w" and "wz_open old = wz_open new"
  obtains "w = new" | "w = run_effects old new" | "w = run_effects new (run_effects old new)" "nest_deps old \<noteq> nest_deps new"
proof (cases "nest_deps old = nest_deps new")
  case True
  then show thesis using settle_last [OF assms(2)] assms(1) that(1,2) by (auto split: if_split_asm)
next
  case False
  note r = settle_nest [OF assms(2) False]
  show thesis using settle_last [OF r(2,3)] r(1) assms(1) False that(2,3) by (auto split: if_split_asm)
qed

lemma settle_form:
  assumes "settle old new = Some w" and "wz_open old = wz_open new"
  shows "form w = form new"
  using assms
proof (cases rule: settle_cases)
  case 3
  then show ?thesis using assms(2) run_effects_kept [of old new] by (simp add: run_effects_form kept_def)
qed (simp_all add: run_effects_form assms(2))

text \<open>The fields the egg fills, and the allocation, change only with the nest, the egg and the node.\<close>

definition config :: "Wizard \<Rightarrow> string \<times> string \<times> string \<times> string" where
  "config w = (wz_nestId w, wz_eggId w, wz_dockerImage w, wz_startup w)"

lemma effects_config [simp]:
  "config (nests_effect r w) = config w" "config (nodes_effect r w) = config w" "config (allocations_effect r w) = config w"
  "config (variables_effect r w) = config w"
  by (simp_all add: config_def effect_defs Let_def)

lemma effects_allocation [simp]:
  "wz_allocationId (nests_effect r w) = wz_allocationId w" "wz_allocationId (nodes_effect r w) = wz_allocationId w"
  "wz_allocationId (variables_effect r w) = wz_allocationId w" "wz_allocationId (eggs_effect r w) = wz_allocationId w"
  "wz_allocationId (fill_effect r w) = wz_allocationId w"
  by (simp_all add: effect_defs Let_def split: option.split)

lemma settle_config:
  assumes "settle old new = Some w" and "wz_open old = wz_open new" and "nest_deps old = nest_deps new"
    and "wz_eggId old = wz_eggId new" and "wz_eggsRev old = wz_eggsRev new"
  shows "config w = config new"
  using settle_last [OF assms(2,3)] assms
  by (auto simp: run_effects_def when_changed_def split: if_split_asm)

lemma settle_allocation:
  assumes "settle old new = Some w" and "wz_open old = wz_open new" and "wz_nodeId old = wz_nodeId new"
  shows "wz_allocationId w = wz_allocationId new"
  using assms(1,2)
proof (cases rule: settle_cases)
  case 3
  have r: "wz_allocationId (run_effects a b) = wz_allocationId b" if "wz_open a = wz_open b" "wz_nodeId a = wz_nodeId b" for a b
    using that by (simp add: run_effects_def when_changed_def)
  have "wz_open new = wz_open (run_effects old new)" "wz_nodeId new = wz_nodeId (run_effects old new)"
    using run_effects_kept [of old new] run_effects_form [of old new] assms(2) by (simp_all add: kept_def form_def)
  then show ?thesis using 3(1) r assms(2,3) by simp
qed (use assms in \<open>simp_all add: run_effects_def when_changed_def\<close>)

section \<open>The checks of the steps\<close>

definition basic_ok :: "Wizard \<Rightarrow> bool" where
  "basic_ok w \<longleftrightarrow> js_trim (wz_name w) \<noteq> [] \<and> wz_userId w \<noteq> []"

definition config_ok :: "Wizard \<Rightarrow> bool" where
  "config_ok w \<longleftrightarrow> wz_nestId w \<noteq> [] \<and> wz_eggId w \<noteq> [] \<and> js_trim (wz_dockerImage w) \<noteq> [] \<and> js_trim (wz_startup w) \<noteq> []"

definition resources_ok :: "Wizard \<Rightarrow> bool" where
  "resources_ok w \<longleftrightarrow> \<not> not_at_least 64 (wz_memory w) \<and> \<not> not_at_least 1 (wz_cpu w) \<and> \<not> not_at_least 256 (wz_disk w)"

definition placement_ok :: "Wizard \<Rightarrow> bool" where
  "placement_ok w \<longleftrightarrow> wz_nodeId w \<noteq> [] \<and> wz_allocationId w \<noteq> []"

definition steps_ok :: "Wizard \<Rightarrow> bool" where
  "steps_ok w \<longleftrightarrow>
     wz_activeStep w \<le> 4 \<and> (1 \<le> wz_activeStep w \<longrightarrow> basic_ok w) \<and> (2 \<le> wz_activeStep w \<longrightarrow> config_ok w) \<and>
     (3 \<le> wz_activeStep w \<longrightarrow> resources_ok w) \<and> (4 \<le> wz_activeStep w \<longrightarrow> placement_ok w)"

lemma step_error_None:
  "step_error w = None \<longleftrightarrow>
     (wz_activeStep w = 0 \<longrightarrow> basic_ok w) \<and> (wz_activeStep w = 1 \<longrightarrow> config_ok w) \<and>
     (wz_activeStep w = 2 \<longrightarrow> resources_ok w) \<and> (wz_activeStep w = 3 \<longrightarrow> placement_ok w)"
  by (simp add: step_error_def basic_ok_def config_ok_def resources_ok_def placement_ok_def)

text \<open>An answer with eggs that arrives after the egg was chosen and the step left.\<close>

definition late :: "wizard_event \<Rightarrow> Wizard \<Rightarrow> bool" where
  "late e w \<longleftrightarrow> 2 \<le> wz_activeStep w \<and>
     (\<exists>i a. e = AnswerArrives i a \<and> (wz_requests w ! i = GetNests \<or> (\<exists>n. wz_requests w ! i = GetNestEggs n)))"

lemmas checks_defs = basic_ok_def config_ok_def resources_ok_def placement_ok_def

lemma steps_ok_cong:
  "form w = form v \<Longrightarrow> config w = config v \<Longrightarrow> wz_allocationId w = wz_allocationId v \<Longrightarrow> steps_ok w = steps_ok v"
  by (simp add: steps_ok_def checks_defs form_def config_def)

lemma settle_opens:
  assumes "settle old new = Some w" and "\<not> wz_open old" "wz_open new"
  shows "wz_activeStep w = 0"
proof -
  have "settle new (run_effects old new) = Some w" using assms by (subst (asm) settle_step) (simp add: same_deps_def)
  moreover have "wz_open new = wz_open (run_effects old new)" using run_effects_kept [of old new] by (simp add: kept_def)
  ultimately have "form w = form (run_effects old new)" by (rule settle_form)
  also have "\<dots> = form (open_effect new new)" using assms(2,3) by (simp add: run_effects_def when_changed_def)
  finally show ?thesis using assms(3) by (simp add: form_def open_effect_def resetForm_def)
qed

lemma settle_closes:
  assumes "settle old new = Some w" and "\<not> wz_open new" "nest_deps old = nest_deps new" "other_deps old = other_deps new"
  shows "w = new"
proof -
  have "run_effects old new = new" using assms by (simp add: run_effects_def when_changed_def other_deps_def open_effect_def)
  then show ?thesis using assms(1) by (subst (asm) settle_step) (simp add: settle_rest same_deps_def split: if_split_asm)
qed

lemma settle_same: "settle old new = Some w \<Longrightarrow> same_deps old new \<Longrightarrow> w = new"
  by (simp add: settle_rest)

text \<open>An event that leaves dialog, nest, eggs and node alone: the checks are those of its own update.\<close>

lemma settle_checks:
  assumes "settle w v = Some w'" and "wz_open w = wz_open v" "nest_deps w = nest_deps v" "wz_eggId w = wz_eggId v"
    "wz_eggsRev w = wz_eggsRev v" "wz_nodeId w = wz_nodeId v"
  shows "steps_ok w' = steps_ok v"
  by (rule steps_ok_cong [OF settle_form [OF assms(1,2)] settle_config [OF assms(1-5)] settle_allocation [OF assms(1,2,6)]])

lemma type_field_deps: "same_deps w (type_field f v w)"
  by (cases f) (simp_all add: same_deps_def nest_deps_def other_deps_def)

lemma type_field_ok: "steps_ok w \<Longrightarrow> wz_activeStep w = field_step f \<Longrightarrow> steps_ok (type_field f v w)"
  by (cases f) (simp_all add: steps_ok_def checks_defs)

lemma validated_step:
  assumes "steps_ok w" and "wz_activeStep w < 4" and "step_error w = None"
  shows "steps_ok (w\<lparr>wz_error := m, wz_activeStep := Suc (wz_activeStep w)\<rparr>)"
proof -
  consider "wz_activeStep w = 0" | "wz_activeStep w = 1" | "wz_activeStep w = 2" | "wz_activeStep w = 3" using assms(2) by linarith
  then show ?thesis using assms(1,3) by cases (simp_all add: step_error_None steps_ok_def checks_defs)
qed

lemma next_ok: "steps_ok w \<Longrightarrow> wz_activeStep w < 4 \<Longrightarrow> steps_ok (handleNext w)"
  using validated_step [of w "[]"]
  by (auto simp: handleNext_def validateStep_def steps_ok_def checks_defs split: bool.split)

lemma back_ok: "steps_ok w \<Longrightarrow> steps_ok (handleBack w)"
  by (auto simp: handleBack_def steps_ok_def checks_defs)

lemma button_frames [simp]:
  "wz_open (handleNext w) = wz_open w" "nest_deps (handleNext w) = nest_deps w" "wz_eggId (handleNext w) = wz_eggId w"
  "wz_eggsRev (handleNext w) = wz_eggsRev w" "wz_nodeId (handleNext w) = wz_nodeId w"
  "wz_open (handleBack w) = wz_open w" "nest_deps (handleBack w) = nest_deps w" "wz_eggId (handleBack w) = wz_eggId w"
  "wz_eggsRev (handleBack w) = wz_eggsRev w" "wz_nodeId (handleBack w) = wz_nodeId w"
  "wz_open (handleSubmit w) = wz_open w" "nest_deps (handleSubmit w) = nest_deps w" "other_deps (handleSubmit w) = other_deps w"
  by (auto simp: handleNext_def handleBack_def handleSubmit_def validateStep_def nest_deps_def other_deps_def split: bool.split)

lemma submit_form [simp]:
  "form (handleSubmit w) = form w" "config (handleSubmit w) = config w" "wz_allocationId (handleSubmit w) = wz_allocationId w"
  by (auto simp: handleSubmit_def validateStep_def form_def config_def split: bool.split)

text \<open>An answer other than with eggs changes no field that is checked.\<close>

lemma answer_frames:
  assumes "r \<noteq> GetNests" "\<And>n. r \<noteq> GetNestEggs n"
  shows "wz_open (on_answer r a w) = wz_open w \<and> nest_deps (on_answer r a w) = nest_deps w \<and> wz_eggId (on_answer r a w) = wz_eggId w \<and>
    wz_eggsRev (on_answer r a w) = wz_eggsRev w \<and> wz_nodeId (on_answer r a w) = wz_nodeId w \<and> steps_ok (on_answer r a w) = steps_ok w"
  using assms by (cases r; cases a) (simp_all add: nest_deps_def steps_ok_def checks_defs)

lemma answer_open [simp]: "wz_open (on_answer r a w) = wz_open w" "wz_activeStep (on_answer r a w) = wz_activeStep w"
    "wz_nodeId (on_answer r a w) = wz_nodeId w" "basic_ok (on_answer r a w) = basic_ok w"
  by (cases r; cases a; simp add: setEggs_def basic_ok_def)+

text \<open>Up to the second step only the first one's fields matter.\<close>

lemma early_ok:
  assumes "settle w v = Some w'" and "wz_open w = wz_open v" "wz_activeStep v \<le> 1" and "1 \<le> wz_activeStep v \<longrightarrow> basic_ok v"
  shows "steps_ok w'"
  using settle_form [OF assms(1,2)] assms(3,4) by (simp add: form_def steps_ok_def basic_ok_def)

text \<open>Events that start no effect.\<close>

fun local_event :: "wizard_event \<Rightarrow> bool" where
  "local_event CloseDialog = True" | "local_event CloseTimer = True" | "local_event (TypeField f v) = True"
| "local_event (TypeVariable k v) = True" | "local_event (ChooseOwner u) = True" | "local_event (ChooseAllocation a) = True"
| "local_event SubmitButton = True"
| "local_event _ = False"

lemma local_deps:
  "local_event e \<Longrightarrow> nest_deps w = nest_deps (handle e w) \<and> other_deps w = other_deps (handle e w) \<and>
     (wz_open w = wz_open (handle e w) \<or> \<not> wz_open (handle e w))"
  using type_field_deps by (cases e) (simp_all add: same_deps_def, simp_all add: nest_deps_def other_deps_def)

lemma local_rest: "local_event e \<Longrightarrow> settle w (handle e w) = Some w' \<Longrightarrow> w' = handle e w"
  using local_deps [of e w] settle_closes settle_same by (metis same_deps_def)

lemma local_checks: "local_event e \<Longrightarrow> enabled e w \<Longrightarrow> steps_ok w \<Longrightarrow> steps_ok (handle e w)"
  using steps_ok_cong [of "handleSubmit w" w]
  by (cases e) (simp_all add: type_field_ok, simp_all add: steps_ok_def checks_defs)

lemma answer_checks:
  assumes s: "settle w (on_answer r a v) = Some w'" and v: "v = w\<lparr>wz_requests := rs\<rparr>" and ok: "steps_ok w"
    and "r = GetNests \<or> (\<exists>n. r = GetNestEggs n) \<Longrightarrow> wz_activeStep w \<le> 1"
  shows "steps_ok w'"
proof -
  have okv: "steps_ok v" using ok v by (simp add: steps_ok_def checks_defs)
  show ?thesis
  proof (cases "r = GetNests \<or> (\<exists>n. r = GetNestEggs n)")
    case True
    then show ?thesis using early_ok [OF s] okv v assms(4) by (simp add: steps_ok_def)
  next
    case False
    then have f: "wz_open (on_answer r a v) = wz_open v \<and> nest_deps (on_answer r a v) = nest_deps v \<and> wz_eggId (on_answer r a v) = wz_eggId v \<and>
        wz_eggsRev (on_answer r a v) = wz_eggsRev v \<and> wz_nodeId (on_answer r a v) = wz_nodeId v \<and> steps_ok (on_answer r a v) = steps_ok v"
      by (intro answer_frames) auto
    have "steps_ok w' = steps_ok (on_answer r a v)"
      by (rule settle_checks [OF s]) (use f v in \<open>simp_all add: nest_deps_def\<close>)
    then show ?thesis using f okv by simp
  qed
qed

lemma checks_kept:
  assumes "wizard_step e w w'" and "\<not> late e w" and ok: "steps_ok w"
  shows "steps_ok w'"
proof -
  have en: "enabled e w" and s: "settle w (handle e w) = Some w'" using assms(1) by (auto elim: wizard_stepE)
  show ?thesis
  proof (cases e)
    case OpenDialog
    then show ?thesis using s en settle_opens [of w "w\<lparr>wz_open := True\<rparr>" w'] by (simp add: steps_ok_def)
  next
    case (ChooseNest n)
    show ?thesis by (rule early_ok [OF s]) (use ok en ChooseNest in \<open>simp_all add: steps_ok_def basic_ok_def\<close>)
  next
    case (ChooseEgg n)
    show ?thesis by (rule early_ok [OF s]) (use ok en ChooseEgg in \<open>simp_all add: steps_ok_def basic_ok_def\<close>)
  next
    case (ChooseNode n)
    have f: "form w' = form (handle e w)" by (rule settle_form [OF s]) (simp add: ChooseNode)
    have "config w' = config (handle e w)" by (rule settle_config [OF s]) (simp_all add: ChooseNode nest_deps_def)
    then show ?thesis using f ok en ChooseNode by (simp add: form_def config_def steps_ok_def checks_defs)
  next
    case NextButton
    then show ?thesis using settle_checks [OF s] next_ok [OF ok] en by simp
  next
    case BackButton
    then show ?thesis using settle_checks [OF s] back_ok [OF ok] by simp
  next
    case (AnswerArrives i a)
    show ?thesis
      by (rule answer_checks [OF s [unfolded AnswerArrives handle.simps] refl ok]) (use assms(2) AnswerArrives in \<open>auto simp: late_def\<close>)
  qed (use local_rest [OF _ s] local_checks [OF _ en ok] in simp_all)
qed

section \<open>What is sent\<close>

text \<open>Identifiers come from the lists the backend delivered; \<open>P\<close> is what holds of those.\<close>

definition chosen :: "(string \<Rightarrow> bool) \<Rightarrow> string \<Rightarrow> bool" where
  "chosen P i \<longleftrightarrow> i = [] \<or> P i"

definition eggs_from :: "(string \<Rightarrow> bool) \<Rightarrow> WizEgg list \<Rightarrow> bool" where
  "eggs_from P es \<longleftrightarrow> (\<forall>e \<in> set es. P (we_id e))"

definition nests_from :: "(string \<Rightarrow> bool) \<Rightarrow> WizNest list \<Rightarrow> bool" where
  "nests_from P ns \<longleftrightarrow> (\<forall>n \<in> set ns. case wn_eggs n of None \<Rightarrow> True | Some es \<Rightarrow> eggs_from P es)"

definition ids_from :: "(string \<Rightarrow> bool) \<Rightarrow> Wizard \<Rightarrow> bool" where
  "ids_from P w \<longleftrightarrow>
     list_all P (wz_users w) \<and> chosen P (wz_userId w) \<and> nests_from P (wz_nests w) \<and> eggs_from P (wz_eggs w) \<and> chosen P (wz_eggId w) \<and>
     list_all P (wz_nodes w) \<and> chosen P (wz_nodeId w) \<and> list_all P (wz_allocations w) \<and> chosen P (wz_allocationId w)"

fun answer_from :: "(string \<Rightarrow> bool) \<Rightarrow> wizard_event \<Rightarrow> bool" where
  "answer_from P (AnswerArrives i (UserIds us)) = list_all P us"
| "answer_from P (AnswerArrives i (NestList ns)) = nests_from P ns"
| "answer_from P (AnswerArrives i (EggList es)) = eggs_from P es"
| "answer_from P (AnswerArrives i (NodeIds ns)) = list_all P ns"
| "answer_from P (AnswerArrives i (AllocationList as)) = list_all P (map fst as)"
| "answer_from P e = True"

lemma find_eggs:
  "nests_from P ns \<Longrightarrow> Option.bind (find (\<lambda>n. wn_id n = i) ns) wn_eggs = Some es \<Longrightarrow> eggs_from P es"
  by (fastforce simp: nests_from_def find_Some_iff bind_eq_Some_conv dest: nth_mem)

lemma empty_ids [simp]: "chosen P []" "eggs_from P []" "nests_from P []"
  by (simp_all add: chosen_def eggs_from_def nests_from_def)

lemma effects_ids:
  assumes "ids_from P r" and "ids_from P w"
  shows "ids_from P (open_effect r w)" "ids_from P (nests_effect r w)" "ids_from P (eggs_effect r w)" "ids_from P (fill_effect r w)"
    "ids_from P (nodes_effect r w)" "ids_from P (allocations_effect r w)" "ids_from P (variables_effect r w)"
proof -
  show "ids_from P (eggs_effect r w)"
    using assms find_eggs [of P "wz_nests r"] by (auto simp: ids_from_def eggs_effect_def setEggs_def Let_def request_def split: option.split)
qed (use assms in \<open>simp_all add: ids_from_def effect_defs request_def split: option.split\<close>)

lemma run_effects_ids: "ids_from P new \<Longrightarrow> ids_from P (run_effects old new)"
  by (simp add: run_effects_def when_changed_def effects_ids)

lemma settle_ids: "settle old new = Some w \<Longrightarrow> ids_from P new \<Longrightarrow> ids_from P w"
  using settle_total [of old new] run_effects_ids [of P] by (auto simp: Let_def)

lemma type_field_ids: "ids_from P (type_field f v w) = ids_from P w"
  by (cases f) (simp_all add: ids_from_def)

lemma filtered_ids: "list_all P (map fst as) \<Longrightarrow> list_all P (map fst (filter f as))"
  by (auto simp: list_all_iff)

lemma answer_ids:
  "ids_from P w \<Longrightarrow> answer_from P (AnswerArrives i a) \<Longrightarrow> ids_from P (on_answer r a w)"
  by (cases r; cases a) (simp_all add: ids_from_def setEggs_def filtered_ids)

lemma button_ids:
  "ids_from P w \<Longrightarrow> ids_from P (handleNext w)" "ids_from P w \<Longrightarrow> ids_from P (handleBack w)" "ids_from P w \<Longrightarrow> ids_from P (handleSubmit w)"
  by (auto simp: handleNext_def handleBack_def handleSubmit_def validateStep_def ids_from_def request_def split: bool.split)

lemma handle_ids: "enabled e w \<Longrightarrow> answer_from P e \<Longrightarrow> ids_from P w \<Longrightarrow> ids_from P (handle e w)"
proof (cases e)
  case (AnswerArrives i a)
  assume "answer_from P e" "ids_from P w"
  moreover from this(2) have "ids_from P (w\<lparr>wz_requests := without i (wz_requests w)\<rparr>)" by (simp add: ids_from_def)
  ultimately show ?thesis using AnswerArrives answer_ids by simp
qed (simp_all add: type_field_ids button_ids, auto simp: ids_from_def chosen_def list_all_iff eggs_from_def)

text \<open>A body that passed every check, with identifiers of the backend.\<close>

definition body_ok :: "(string \<Rightarrow> bool) \<Rightarrow> CreateBody \<Rightarrow> bool" where
  "body_ok P b \<longleftrightarrow>
     cb_name b \<noteq> [] \<and> P (cb_userId b) \<and> P (cb_nodeId b) \<and> P (cb_eggId b) \<and> P (cb_allocationId b) \<and> cb_nestId b \<noteq> [] \<and>
     js_trim (cb_image b) \<noteq> [] \<and> js_trim (cb_startup b) \<noteq> [] \<and>
     \<not> is_nan (cb_memory b) \<and> \<not> cb_memory b < Fin 64 \<and> \<not> is_nan (cb_cpu b) \<and> \<not> cb_cpu b < Fin 1 \<and>
     \<not> is_nan (cb_disk b) \<and> \<not> cb_disk b < Fin 256"

lemma submitted_body:
  assumes "steps_ok w" and "ids_from P w" and "4 \<le> wz_activeStep w"
  shows "body_ok P (create_body w)"
  using assms
  by (simp add: steps_ok_def ids_from_def chosen_def body_ok_def create_body_def checks_defs not_at_least_def)

lemma create_body_error [simp]: "create_body (w\<lparr>wz_error := m\<rparr>) = create_body w"
  by (simp add: create_body_def)

lemma posted_by:
  assumes "settle w (handle e w) = Some w'"
  shows "wz_posted w' = wz_posted w @ (if e = SubmitButton \<and> step_error w = None then [create_body w] else [])"
proof -
  have "wz_posted w' = wz_posted (handle e w)" using settle_kept [OF assms] by (simp add: kept_def)
  moreover have "wz_posted (type_field f v w) = wz_posted w" for f v by (cases f) simp_all
  moreover have "wz_posted (on_answer r a v) = wz_posted v" for r a v by (cases r; cases a) (simp_all add: setEggs_def)
  ultimately show ?thesis
    by (cases e) (simp_all add: handleNext_def handleBack_def handleSubmit_def validateStep_def split: bool.split)
qed

definition sent_checked :: "(string \<Rightarrow> bool) \<Rightarrow> Wizard \<Rightarrow> bool" where
  "sent_checked P w \<longleftrightarrow> steps_ok w \<and> ids_from P w \<and> (\<forall>b \<in> set (wz_posted w). body_ok P b)"

definition timely_step :: "(string \<Rightarrow> bool) \<Rightarrow> Wizard \<Rightarrow> Wizard \<Rightarrow> bool" where
  "timely_step P w w' \<longleftrightarrow> (\<exists>e. wizard_step e w w' \<and> \<not> late e w \<and> answer_from P e)"

interpretation timely: run_invariant "timely_step P" "sent_checked P" for P
proof
  fix w w'
  assume "timely_step P w w'" and inv: "sent_checked P w"
  then obtain e where st: "wizard_step e w w'" "\<not> late e w" "answer_from P e" by (auto simp: timely_step_def)
  then have en: "enabled e w" "settle w (handle e w) = Some w'" by (auto elim: wizard_stepE)
  have "body_ok P (create_body w)" if "e = SubmitButton"
    using submitted_body inv en(1) that by (simp add: sent_checked_def)
  then show "sent_checked P w'"
    using inv checks_kept [OF st(1,2)] settle_ids [OF en(2) handle_ids [OF en(1) st(3)]]
    by (auto simp: sent_checked_def posted_by [OF en(2)])
qed

text \<open>Inside the integers the DTO's numbers are those of the record.\<close>

lemma json_int_Some: "json_int x = Some n \<longleftrightarrow> x = Fin (of_int n)"
  by (cases x) (auto simp: floor_eq_iff)

lemma body_dto_accepted: "body_dto b = Some dto \<Longrightarrow> CreateServerDto_ok X dto = body_accepted X b"
  by (auto simp: body_dto_def body_accepted_def CreateServerDto_ok_def json_int_Some split: option.split_asm)

lemma body_dto_finite:
  "body_dto b = Some dto \<Longrightarrow> cb_memory b \<noteq> Infinity False \<and> cb_cpu b \<noteq> Infinity False \<and> cb_disk b \<noteq> Infinity False"
  by (auto simp: body_dto_def split: option.split_asm)

lemma body_dto_None:
  "body_dto b = None \<Longrightarrow> \<exists>x \<in> {cb_memory b, cb_cpu b, cb_disk b, cb_swap b}. \<forall>n. x \<noteq> Fin (of_int n)"
proof (rule ccontr)
  assume none: "body_dto b = None" and "\<not> (\<exists>x \<in> {cb_memory b, cb_cpu b, cb_disk b, cb_swap b}. \<forall>n. x \<noteq> Fin (of_int n))"
  then obtain m c d s where "cb_memory b = Fin (of_int m)" "cb_cpu b = Fin (of_int c)" "cb_disk b = Fin (of_int d)"
    "cb_swap b = Fin (of_int s)" by auto
  then show False using none by (simp add: body_dto_def)
qed

text \<open>
  C19. What the dialog sends against the backend's DTO.  Over any run in which no answer comes late
  (the eggs arrive before their step is left) and the identifiers the backend delivers are UUIDs, a body that is
  sent is accepted by \<open>CreateServerDto\<close> exactly when none of memory, CPU and disk is infinite, which the checks
  of the dialog let pass (\<open>1e999\<close>) and JSON turns into \<open>null\<close>.  Fractions pass both the dialog and the DTO,
  whose check is \<open>IsNumber\<close>; a swap field that is no number becomes \<open>null\<close>, which counts as not given.
  A body of whole numbers is one \<open>ServersService_create\<close> is defined for.
\<close>

theorem wizard_body_accepted:
  assumes "(timely_step (isUUID X))\<^sup>*\<^sup>* initial_wizard w" and "b \<in> set (wz_posted w)"
  shows "(body_accepted X b \<longleftrightarrow>
      cb_memory b \<noteq> Infinity False \<and> cb_cpu b \<noteq> Infinity False \<and> cb_disk b \<noteq> Infinity False) \<and>
    (case body_dto b of
       Some dto \<Rightarrow> CreateServerDto_ok X dto
     | None \<Rightarrow> (\<exists>x \<in> {cb_memory b, cb_cpu b, cb_disk b, cb_swap b}. \<forall>n. x \<noteq> Fin (of_int n)))"
proof -
  have "sent_checked (isUUID X) w"
    by (rule timely.run_keeps [OF assms(1)])
      (simp add: sent_checked_def steps_ok_def ids_from_def initial_wizard_def)
  then have ok: "body_ok (isUUID X) b" using assms(2) by (simp add: sent_checked_def)
  have number: "number_min m x \<longleftrightarrow> x \<noteq> Infinity False" if "\<not> is_nan x" "\<not> x < Fin m" for m x
    using that by (cases x) (auto simp: is_nan_def)
  have accepted: "body_accepted X b \<longleftrightarrow>
      cb_memory b \<noteq> Infinity False \<and> cb_cpu b \<noteq> Infinity False \<and> cb_disk b \<noteq> Infinity False"
    using ok by (simp add: body_accepted_def body_ok_def number)
  have "CreateServerDto_ok X dto" if "body_dto b = Some dto" for dto
    using body_dto_accepted [OF that] body_dto_finite [OF that] accepted by simp
  moreover note body_dto_None [of b]
  ultimately show ?thesis using accepted by (cases "body_dto b") simp_all
qed

section \<open>One submission at a time\<close>

fun is_post :: "wizard_request \<Rightarrow> bool" where
  "is_post (PostServer b) = True"
| "is_post _ = False"

definition posts :: "Wizard \<Rightarrow> CreateBody list" where
  "posts w = concat (map (\<lambda>r. case r of PostServer b \<Rightarrow> [b] | _ \<Rightarrow> []) (wz_requests w))"

definition sending :: "Wizard \<Rightarrow> bool" where
  "sending w \<longleftrightarrow> length (filter is_post (wz_requests w)) = (if wz_saving w then 1 else 0)"

lemma effects_posts [simp]:
  "filter is_post (wz_requests (open_effect r w)) = filter is_post (wz_requests w)"
  "filter is_post (wz_requests (nests_effect r w)) = filter is_post (wz_requests w)"
  "filter is_post (wz_requests (eggs_effect r w)) = filter is_post (wz_requests w)"
  "filter is_post (wz_requests (fill_effect r w)) = filter is_post (wz_requests w)"
  "filter is_post (wz_requests (nodes_effect r w)) = filter is_post (wz_requests w)"
  "filter is_post (wz_requests (allocations_effect r w)) = filter is_post (wz_requests w)"
  "filter is_post (wz_requests (variables_effect r w)) = filter is_post (wz_requests w)"
  by (simp_all add: effect_defs Let_def split: option.split)

lemma run_effects_posts: "filter is_post (wz_requests (run_effects old new)) = filter is_post (wz_requests new)"
  by (simp add: run_effects_def when_changed_keeps [where g = "\<lambda>w. filter is_post (wz_requests w)"])

lemma settle_sending: "settle old new = Some w \<Longrightarrow> sending w = sending new"
  using settle_total [of old new] run_effects_posts by (auto simp: Let_def sending_def kept_def)

lemma without_posts:
  "i < length rs \<Longrightarrow> length (filter is_post rs) = length (filter is_post (without i rs)) + (if is_post (rs ! i) then 1 else 0)"
  using arg_cong [OF id_take_nth_drop [of i rs], of "\<lambda>rs. length (filter is_post rs)"] by (simp add: without_def)

lemma answer_posts [simp]:
  "wz_requests (on_answer r a w) = wz_requests w" "answers r a \<Longrightarrow> wz_saving (on_answer r a w) = (wz_saving w \<and> \<not> is_post r)"
  by (cases r; cases a; simp add: setEggs_def)+

lemma answer_sending:
  assumes "sending w" and "i < length (wz_requests w)" "answers (wz_requests w ! i) a"
  shows "sending (on_answer (wz_requests w ! i) a (w\<lparr>wz_requests := without i (wz_requests w)\<rparr>))"
  using assms(1,3) without_posts [OF assms(2)] by (simp add: sending_def split: if_split_asm)

lemma other_sending:
  "\<not> (\<exists>i a. e = AnswerArrives i a) \<Longrightarrow> e \<noteq> SubmitButton \<Longrightarrow> sending (handle e w) = sending w"
proof (cases e)
  case (TypeField f v)
  then show ?thesis by (cases f) (simp_all add: sending_def)
next
  case NextButton
  then show ?thesis by (simp add: handleNext_def validateStep_def sending_def split: bool.split)
qed (simp_all add: sending_def handleBack_def)

lemma submit_sending: "sending w \<Longrightarrow> \<not> wz_saving w \<Longrightarrow> sending (handleSubmit w)"
  by (simp add: handleSubmit_def validateStep_def sending_def split: bool.split)

lemma sending_kept: "wizard_step e w w' \<Longrightarrow> sending w \<Longrightarrow> sending w'"
proof (erule wizard_stepE)
  assume inv: "sending w" and en: "enabled e w" and s: "settle w (handle e w) = Some w'"
  have "sending (handle e w)"
  proof (cases "\<exists>i a. e = AnswerArrives i a")
    case True
    then show ?thesis using answer_sending [OF inv] en by auto
  next
    case False
    then show ?thesis using other_sending [of e w] submit_sending [OF inv] inv en by (cases "e = SubmitButton") auto
  qed
  then show "sending w'" using settle_sending [OF s] by simp
qed

definition some_step :: "Wizard \<Rightarrow> Wizard \<Rightarrow> bool" where
  "some_step w w' \<longleftrightarrow> (\<exists>e. wizard_step e w w')"

definition same_dialog_step :: "Wizard \<Rightarrow> Wizard \<Rightarrow> bool" where
  "same_dialog_step w w' \<longleftrightarrow> (\<exists>e. e \<noteq> OpenDialog \<and> wizard_step e w w')"

interpretation one_post: run_invariant some_step sending
  by unfold_locales (auto simp: some_step_def sending_kept)

lemma handle_success:
  "e \<noteq> OpenDialog \<Longrightarrow> wz_success w \<Longrightarrow> wz_success (handle e w) \<and> (wz_open w = wz_open (handle e w) \<or> local_event e)"
proof (cases e)
  case (TypeField f v)
  assume "wz_success w"
  then show ?thesis using TypeField by (cases f) simp_all
next
  case (AnswerArrives i a)
  assume "wz_success w"
  then show ?thesis using AnswerArrives by (cases "wz_requests w ! i"; cases a) (simp_all add: setEggs_def)
qed (simp_all add: handleNext_def handleBack_def handleSubmit_def validateStep_def split: bool.split)

lemma success_kept:
  assumes e: "e \<noteq> OpenDialog" and st: "wizard_step e w w'" and inv: "wz_success w"
  shows "wz_success w'" and "wz_posted w' = wz_posted w"
proof -
  from st have en: "enabled e w" and s: "settle w (handle e w) = Some w'" by (auto elim: wizard_stepE)
  note h = handle_success [OF e inv]
  have "wz_success w' = wz_success (handle e w)"
  proof (cases "local_event e")
    case True
    then show ?thesis using local_rest s by blast
  next
    case False
    then show ?thesis using settle_form [OF s] h by (simp add: form_def)
  qed
  then show "wz_success w'" using h by blast
  have "e \<noteq> SubmitButton"
  proof
    assume "e = SubmitButton"
    then show False using en inv by simp
  qed
  then show "wz_posted w' = wz_posted w" using posted_by [OF s] by simp
qed

interpretation reported: run_invariant same_dialog_step "\<lambda>w. wz_success w \<and> wz_posted w = bs" for bs
  by unfold_locales (use success_kept in \<open>fastforce simp: same_dialog_step_def\<close>)

text \<open>
  C21. The dialog never has two submissions under way, in any run, whatever the user clicks and
  in whatever order answers come: it has exactly one while it shows that it is saving.  Once it
  has reported success it sends nothing more until it is opened again.
\<close>

theorem wizard_single_submission:
  assumes "some_step\<^sup>*\<^sup>* initial_wizard w"
  shows "length (filter is_post (wz_requests w)) = (if wz_saving w then 1 else 0) \<and>
    (\<forall>w'. wz_success w \<longrightarrow> same_dialog_step\<^sup>*\<^sup>* w w' \<longrightarrow> wz_posted w' = wz_posted w)"
proof -
  have "sending w" by (rule one_post.run_keeps [OF assms]) (simp add: sending_def initial_wizard_def)
  moreover have "wz_posted w' = wz_posted w" if "wz_success w" "same_dialog_step\<^sup>*\<^sup>* w w'" for w'
    using reported.run_keeps [OF that(2), of "wz_posted w"] that(1) by blast
  ultimately show ?thesis unfolding sending_def by blast
qed

section \<open>Runs of the dialog\<close>

text \<open>A list of events, each of which has to be possible; \<open>in_time\<close> is \<open>late\<close> as a check.\<close>

fun fetches_eggs :: "wizard_request \<Rightarrow> bool" where
  "fetches_eggs GetNests = True"
| "fetches_eggs (GetNestEggs n) = True"
| "fetches_eggs _ = False"

fun in_time :: "wizard_event \<Rightarrow> Wizard \<Rightarrow> bool" where
  "in_time (AnswerArrives i a) w = (wz_activeStep w < 2 \<or> \<not> fetches_eggs (wz_requests w ! i))"
| "in_time e w = True"

fun play :: "(wizard_event \<Rightarrow> Wizard \<Rightarrow> bool) \<Rightarrow> wizard_event list \<Rightarrow> Wizard \<Rightarrow> Wizard option" where
  "play ok [] w = Some w"
| "play ok (e # es) w =
     (if enabled e w \<and> ok e w then Option.bind (settle w (handle e w)) (play ok es) else None)"

lemma in_time_late: "in_time e w \<Longrightarrow> \<not> late e w"
  by (cases e) (auto simp: late_def)

lemma play_run:
  assumes "play ok es w = Some w'" and "\<And>e w w'. wizard_step e w w' \<Longrightarrow> ok e w \<Longrightarrow> R w w'"
  shows "R\<^sup>*\<^sup>* w w'"
  using assms(1)
proof (induction es arbitrary: w)
  case (Cons e es)
  then obtain w1 where "enabled e w" "ok e w" "settle w (handle e w) = Some w1" "play ok es w1 = Some w'"
    by (auto split: if_split_asm simp: bind_eq_Some_conv)
  then have "R w w1" "R\<^sup>*\<^sup>* w1 w'" using assms(2) Cons.IH wizard_step.intros by blast+
  then show ?case by (rule converse_rtranclp_into_rtranclp)
qed simp

text \<open>A creation: one user, one nest with one egg, one node with one free allocation.\<close>

definition demo_id :: "char \<Rightarrow> string" where
  "demo_id c = replicate 36 c"

definition demo_fill :: "wizard_event list" where
  "demo_fill =
     [OpenDialog, AnswerArrives 0 (UserIds [demo_id CHR ''u'']), TypeField NameField '' my server '', ChooseOwner (demo_id CHR ''u''), NextButton,
      AnswerArrives 0 (NestList [\<lparr>wn_id = ''nest'', wn_eggs = Some [\<lparr>we_id = demo_id CHR ''e'', we_dockerImage = ''img'', we_startup = ''run''\<rparr>]\<rparr>]),
      ChooseNest ''nest'', ChooseEgg (demo_id CHR ''e''), NextButton, TypeField MemoryField ''64'', NextButton,
      AnswerArrives 0 (NodeIds [demo_id CHR ''n'']), ChooseNode (demo_id CHR ''n''),
      AnswerArrives 0 (AllocationList [(demo_id CHR ''a'', None)]), ChooseAllocation (demo_id CHR ''a''), NextButton,
      AnswerArrives 0 (EggVariables [(''JAR'', ''server.jar'')]), SubmitButton]"

definition demo_posted :: CreateBody where
  "demo_posted =
     \<lparr>cb_name = ''my server'', cb_description = None, cb_userId = demo_id CHR ''u'', cb_nodeId = demo_id CHR ''n'', cb_eggId = demo_id CHR ''e'',
      cb_allocationId = demo_id CHR ''a'', cb_nestId = ''nest'', cb_memory = Fin 64, cb_cpu = Fin 100, cb_disk = Fin 5120, cb_swap = Fin 0,
      cb_startup = ''run'', cb_image = ''img'', cb_envVariables = Some [(''JAR'', ''server.jar'')]\<rparr>"

lemma demo_numbers [simp]:
  "js_Number ''64'' = Fin 64" "js_Number ''100'' = Fin 100" "js_Number ''5120'' = Fin 5120" "js_Number ''0'' = Fin 0" "js_Number ''1024'' = Fin 1024"
  by (simp_all add: js_Number_eval to_double_def [of 0] rnd_def pow2_def)

lemma demo_id_simps [simp]: "demo_id c \<noteq> []" "[] \<noteq> demo_id c" "demo_id c = demo_id d \<longleftrightarrow> c = d" "length (demo_id c) = 36"
  by (simp_all add: demo_id_def)

lemma settle_round: "\<not> same_deps old new \<Longrightarrow> settle old new = settle new (run_effects old new)"
  by (subst settle_step) simp

lemmas play_simps = settle_rest settle_round same_deps_def nest_deps_def other_deps_def run_effects_def when_changed_def effect_defs Let_def
  handleNext_def handleBack_def handleSubmit_def validateStep_def step_error_def not_at_least_def create_body_def without_def request_def
  is_nan_def js_trim_def js_space_def merge_values_def js_set_def js_get_def

definition timely_ok :: "(string \<Rightarrow> bool) \<Rightarrow> wizard_event \<Rightarrow> Wizard \<Rightarrow> bool" where
  "timely_ok P e w \<longleftrightarrow> in_time e w \<and> answer_from P e"

lemma demo_fill_plays:
  "\<exists>w. play (timely_ok (\<lambda>i. length i = 36)) demo_fill initial_wizard = Some w \<and> wz_posted w = [demo_posted]"
  by (simp add: demo_fill_def initial_wizard_def demo_posted_def timely_ok_def nests_from_def eggs_from_def play_simps)

lemma wizard_body_accepted_witness:
  "\<exists>w dto. (timely_step (isUUID demo_ext))\<^sup>*\<^sup>* initial_wizard w \<and> wz_posted w = [demo_posted] \<and>
     body_accepted demo_ext demo_posted \<and>
     body_dto demo_posted = Some dto \<and> csd_memory dto = 64 \<and> CreateServerDto_ok demo_ext dto"
proof -
  have u: "isUUID demo_ext = (\<lambda>i. length i = 36)" by (simp add: demo_ext_def)
  obtain w where w: "play (timely_ok (isUUID demo_ext)) demo_fill initial_wizard = Some w" "wz_posted w = [demo_posted]"
    using demo_fill_plays unfolding u by blast
  have run: "(timely_step (isUUID demo_ext))\<^sup>*\<^sup>* initial_wizard w"
    by (rule play_run [OF w(1)]) (auto simp: timely_ok_def timely_step_def dest: in_time_late)
  obtain dto where dto: "body_dto demo_posted = Some dto" "csd_memory dto = 64"
    by (simp add: body_dto_def demo_posted_def)
  have "demo_posted \<in> set (wz_posted w)" by (simp add: w(2))
  from wizard_body_accepted [OF run this] show ?thesis using run w(2) dto by (auto simp: demo_posted_def)
qed

section \<open>A late answer\<close>

lemma when_changed_simps [simp]: "when_changed True f w = f w" "when_changed False f w = w"
  by (simp_all add: when_changed_def)

lemma config_eggs: "wz_nestId r \<noteq> [] \<Longrightarrow> config (eggs_effect r w) = (fst (config w), [], [], [])"
  by (simp add: config_def eggs_effect_def setEggs_def Let_def split: option.split)

lemma run_effects_nest:
  assumes "wz_open old = wz_open new" "nest_deps old \<noteq> nest_deps new" "wz_nestId new \<noteq> []"
    and "wz_eggId old = wz_eggId new" "wz_eggsRev old = wz_eggsRev new"
  shows "config (run_effects old new) = (wz_nestId new, [], [], [])"
proof -
  have "config (run_effects old new) = (fst (config new), [], [], [])"
    using assms by (simp add: run_effects_def when_changed_keeps [where g = config] config_eggs)
  then show ?thesis by (simp add: config_def)
qed

lemma no_egg_no_fill: "wz_eggId r = [] \<Longrightarrow> fill_effect r w = w"
  by (simp add: fill_effect_def)

lemma settle_clears_egg:
  assumes s: "settle old new = Some w" and "wz_open old = wz_open new" "nest_deps old \<noteq> nest_deps new" "wz_nestId new \<noteq> []"
    and "wz_eggId old = wz_eggId new" "wz_eggsRev old = wz_eggsRev new"
  shows "config w = (wz_nestId new, [], [], [])"
proof -
  let ?r = "run_effects old new"
  note n = settle_nest [OF assms(2,3)]
  have r: "config ?r = (wz_nestId new, [], [], [])" by (rule run_effects_nest [OF assms(2-6)])
  then have "wz_eggId ?r = []" by (simp add: config_def)
  then have "config (run_effects new ?r) = config ?r"
    using n(2,3) by (simp add: run_effects_def [of new] when_changed_keeps [where g = config] no_egg_no_fill)
  then have "config w = config ?r"
    using settle_last [OF n(2,3)] s n(1) by (simp split: if_split_asm)
  then show ?thesis using r by simp
qed

text \<open>
  C22. A list of nests that arrives although a nest is chosen, which happens whenever the first step was
  left twice before the first list came, clears the chosen egg, its image and its start command,
  whatever step is shown and whatever the list holds; the step stays the same, and no step is checked
  again: on the last step the dialog then sends a body without an egg, which the DTO refuses.
\<close>

theorem late_nests_clear_egg:
  assumes "i < length (wz_requests w)" and "wz_requests w ! i = GetNests" and "wz_nestId w \<noteq> []" and "\<not> isUUID X []"
  shows "\<exists>w1. (\<forall>w'. wizard_step (AnswerArrives i (NestList nests)) w w' \<longleftrightarrow> w' = w1) \<and>
    wz_eggId w1 = [] \<and> wz_dockerImage w1 = [] \<and> wz_startup w1 = [] \<and>
    wz_nestId w1 = wz_nestId w \<and> wz_activeStep w1 = wz_activeStep w \<and>
    (wz_open w \<and> wz_activeStep w = 4 \<and> \<not> wz_saving w \<and> \<not> wz_success w \<longrightarrow>
      (\<exists>w2. (\<forall>w'. wizard_step SubmitButton w1 w' \<longleftrightarrow> w' = w2) \<and>
         wz_posted w2 = wz_posted w @ [create_body w1] \<and> cb_eggId (create_body w1) = [] \<and>
         \<not> body_accepted X (create_body w1)))"
proof -
  let ?v = "handle (AnswerArrives i (NestList nests)) w"
  have v: "wz_open w = wz_open ?v" "nest_deps w \<noteq> nest_deps ?v" "wz_nestId ?v \<noteq> []" "wz_eggId w = wz_eggId ?v" "wz_eggsRev w = wz_eggsRev ?v"
    using assms(2,3) by (simp_all add: nest_deps_def)
  obtain w1 where w1: "settle w ?v = Some w1" "kept w1 = kept ?v" using settle_total by blast
  have f: "form w1 = form ?v" by (rule settle_form [OF w1(1) v(1)])
  have step: "wizard_step (AnswerArrives i (NestList nests)) w w' \<longleftrightarrow> w' = w1" for w'
    using assms(1,2) w1(1) by (auto simp: wizard_step.simps)
  have c: "wz_eggId w1 = []" "wz_dockerImage w1 = []" "wz_startup w1 = []" "wz_nestId w1 = wz_nestId w"
    using settle_clears_egg [OF w1(1) v] assms(2) by (simp_all add: config_def)
  have k: "wz_activeStep w1 = wz_activeStep w" "wz_open w1 = wz_open w" "wz_saving w1 = wz_saving w" "wz_success w1 = wz_success w"
    "wz_posted w1 = wz_posted w"
    using f w1(2) assms(2) by (simp_all add: form_def kept_def)
  let ?w2 = "handle SubmitButton w1"
  have egg: "cb_eggId (create_body w1) = []" by (simp add: create_body_def c)
  then have refused: "\<not> body_accepted X (create_body w1)" using assms(4) by (simp add: body_accepted_def)
  have "\<exists>w2. (\<forall>w'. wizard_step SubmitButton w1 w' \<longleftrightarrow> w' = w2) \<and> wz_posted w2 = wz_posted w @ [create_body w1]"
    if "wz_open w \<and> wz_activeStep w = 4 \<and> \<not> wz_saving w \<and> \<not> wz_success w"
  proof (intro exI conjI allI)
    have "settle w1 ?w2 = Some ?w2" by (simp add: settle_rest same_deps_def)
    then show "wizard_step SubmitButton w1 w' \<longleftrightarrow> w' = ?w2" for w'
      using that k by (auto simp: wizard_step.simps)
    show "wz_posted ?w2 = wz_posted w @ [create_body w1]"
      using that k by (simp add: handleSubmit_def validateStep_def step_error_def)
  qed
  then show ?thesis using step c k(1) egg refused by blast
qed

definition demo_race :: "wizard_event list" where
  "demo_race =
     [OpenDialog, AnswerArrives 0 (UserIds [demo_id CHR ''u'']), TypeField NameField ''server'', ChooseOwner (demo_id CHR ''u''), NextButton,
      BackButton, NextButton,
      AnswerArrives 0 (NestList [\<lparr>wn_id = ''nest'', wn_eggs = Some [\<lparr>we_id = demo_id CHR ''e'', we_dockerImage = ''img'', we_startup = ''run''\<rparr>]\<rparr>]),
      ChooseNest ''nest'', ChooseEgg (demo_id CHR ''e''), NextButton, TypeField MemoryField ''64'', NextButton,
      AnswerArrives 1 (NodeIds [demo_id CHR ''n'']), ChooseNode (demo_id CHR ''n''),
      AnswerArrives 1 (AllocationList [(demo_id CHR ''a'', None)]), ChooseAllocation (demo_id CHR ''a''), NextButton]"

lemma late_nests_clear_egg_witness:
  "\<exists>w w1 w2 b. some_step\<^sup>*\<^sup>* initial_wizard w \<and> config w = (''nest'', demo_id CHR ''e'', ''img'', ''run'') \<and>
     some_step w w1 \<and> config w1 = (''nest'', [], [], []) \<and>
     some_step w1 w2 \<and> wz_posted w2 = [b] \<and> cb_eggId b = [] \<and> \<not> body_accepted demo_ext b"
proof -
  obtain w where w: "play (\<lambda>e w. True) demo_race initial_wizard = Some w" "config w = (''nest'', demo_id CHR ''e'', ''img'', ''run'')"
    "wz_requests w = [GetNests, GetEgg (demo_id CHR ''e'')]" "wz_open w" "wz_activeStep w = 4"
    "\<not> wz_saving w" "\<not> wz_success w" "wz_posted w = []"
    by (simp add: demo_race_def initial_wizard_def play_simps config_def)
  have run: "some_step\<^sup>*\<^sup>* initial_wizard w"
    by (rule play_run [OF w(1)]) (auto simp: some_step_def)
  have "\<not> isUUID demo_ext []" "wz_nestId w \<noteq> []" using w(2) by (simp_all add: demo_ext_def config_def)
  from late_nests_clear_egg [OF _ _ this(2,1), of 0 "[]"] w
  obtain w1 w2 where "wizard_step (AnswerArrives 0 (NestList [])) w w1" "config w1 = (''nest'', [], [], [])"
    "wizard_step SubmitButton w1 w2" "wz_posted w2 = [create_body w1]" "cb_eggId (create_body w1) = []"
    "\<not> body_accepted demo_ext (create_body w1)"
    by (auto simp: config_def)
  then show ?thesis using run w(2) by (auto simp: some_step_def)
qed

lemma wizard_single_submission_witness:
  "\<exists>w. some_step\<^sup>*\<^sup>* initial_wizard w \<and> wz_saving w \<and> length (filter is_post (wz_requests w)) = 1"
proof -
  obtain w where w: "play (\<lambda>e w. True) demo_fill initial_wizard = Some w" "wz_saving w"
    by (simp add: demo_fill_def initial_wizard_def play_simps)
  have run: "some_step\<^sup>*\<^sup>* initial_wizard w" by (rule play_run [OF w(1)]) (auto simp: some_step_def)
  show ?thesis using wizard_single_submission [OF run] run w(2) by auto
qed

end
