(* ===== verification/VariablesProps.thy ===== *)
theory VariablesProps
  imports Startup Demo Rounding
begin

text \<open>
  The properties of the components below the services: what an accepted egg variable
  satisfies, that the sequential substitution of the startup command fills its template at
  once, and that the pages of a listing are the listing.
\<close>

section \<open>Egg variables\<close>

text \<open>
  A value accepted under \<open>integer\<close> with bounds \<open>min:a\<close> and \<open>max:b\<close> (anywhere in the rule
  string, next to any other rules) is an integer between them, as \<open>Number\<close> reads it: no
  spelling of a number, no infinity and no \<open>NaN\<close> slips through.
\<close>

theorem accepted_integer_range:
  assumes ok: "vr_valid (validateVariableValue X n (Some v) rules)" and ne: "v \<noteq> []"
    and i: "''integer'' \<in> set (rule_list rules)"
    and lo: "''min:'' @ a \<in> set (rule_list rules)" "js_Number a = Fin l"
    and hi: "''max:'' @ b \<in> set (rule_list rules)" "js_Number b = Fin h"
  shows "\<exists>x. js_Number v = Fin (of_int x) \<and> l \<le> of_int x \<and> of_int x \<le> h"
proof -
  have "is_integer (js_Number v)"
    using accepted_rule [OF ok ne i] by (simp add: check_integer)
  then obtain q where q: "js_Number v = Fin q" and f: "of_int \<lfloor>q\<rfloor> = q"
    by (cases "js_Number v") auto
  have "\<not> js_Number v < js_Number a"
    using accepted_rule [OF ok ne lo(1)] i by (simp add: check_min_numeric [simplified])
  moreover have "\<not> js_Number b < js_Number v"
    using accepted_rule [OF ok ne hi(1)] i by (simp add: check_max_numeric [simplified])
  ultimately have "l \<le> q" and "q \<le> h" using q lo(2) hi(2) by auto
  with q f show ?thesis by metis
qed

theorem accepted_integer_range_witness:
  "\<exists>x. js_Number ''0x10'' = Fin (of_int x) \<and> (1 :: rat) \<le> of_int x \<and> of_int x \<le> (65535 :: rat)"
proof -
  let ?rules = "''required|integer|min:1|max:65535''"
  have n: "js_Number ''0x10'' = Fin 16" "js_Number ''1'' = Fin 1" "js_Number ''65535'' = Fin 65535"
    by (simp_all add: js_Number_eval)
  have r: "rule_list ?rules = [''required'', ''integer'', ''min:'' @ ''1'', ''max:'' @ ''65535'']"
    by (simp add: rule_list_def js_trim_def js_space_def)
  have t: "js_trim ?rules \<noteq> []" by (simp add: js_trim_def js_space_def)
  have "vr_valid (validateVariableValue demo_ext ''p'' (Some ''0x10'') ?rules)"
    by (subst validate_nonempty [OF _ t]) (simp_all add: r check_rule_def n is_nan_def Let_def)
  then show ?thesis
    by (rule accepted_integer_range [where a = "''1''" and b = "''65535''"]) (simp_all add: r n)
qed

text \<open>
  A server's variables are accepted exactly when every variable of the egg is: the value
  given, or the default where none is given, passes the rules of that variable.  No error of
  one variable hides another's.
\<close>

theorem server_validation_all:
  "sv_valid (validateServerVariables X vars evs) \<longleftrightarrow>
     (\<forall>ev \<in> set evs. vr_valid (validateVariableValue X (vs_name ev)
        (Some (nullish (js_get vars (vs_envVariable ev)) (vs_defaultValue ev))) (vs_rules ev)))"
  by (simp add: validateServerVariables_def Let_def collect_errors_nil del: vr_valid_iff)

theorem server_validation_all_witness:
  "\<not> sv_valid (validateServerVariables demo_ext [(''PORT'', ''x'')]
     [\<lparr>vs_envVariable = ''NAME'', vs_name = ''n'', vs_rules = ''required'', vs_defaultValue = ''a''\<rparr>,
      \<lparr>vs_envVariable = ''PORT'', vs_name = ''p'', vs_rules = ''integer'', vs_defaultValue = ''80''\<rparr>])"
proof -
  have "\<not> vr_valid (validateVariableValue demo_ext ''p'' (Some ''x'') ''integer'')" by code_simp
  then show ?thesis unfolding server_validation_all by (simp add: nullish_def js_get_def del: vr_valid_iff)
qed

section \<open>The startup command\<close>

text \<open>
  C40. For variables whose names consist of word characters and whose values hold neither braces nor
  dollar signs, and a template with no braces but those of its placeholders, which are word characters too, the startup command is
  the template with every placeholder of a resolved variable
  replaced by its value and every other text kept, whatever the order of the variables: the
  code's one-after-the-other global replacements equal filling all placeholders at once.  Outside
  of these conditions it need not: a dollar sign in a value is read as a replacement pattern.
\<close>

theorem build_startup_render:
  assumes "distinct (map fst obj)" "\<forall>(k, v) \<in> set obj. list_all word_char k \<and> plain_value v"
    and "list_all seg_ok ts"
  shows "build_startup X (render ts) obj = Some (render (map (fill (map_of obj)) ts))"
proof -
  have "list_all (\<lambda>e. list_all word_char (fst e) \<and> plain_value (snd e)) (js_entries obj)"
    using assms(2) by (fastforce simp: list_all_iff)
  then show ?thesis
    using substitute_all_render [OF js_entries_distinct [OF assms(1)] _ assms(3), of X]
    by (simp add: build_startup_def js_entries_map_of [OF assms(1)])
qed

theorem build_startup_render_witness:
  "build_startup demo_ext ''java -Xmx{{MEM}}M -p {{PORT}} {{X}}'' [(''PORT'', ''80''), (''MEM'', ''512'')] =
     Some ''java -Xmx512M -p 80 {{X}}''"
proof -
  let ?ts = "[Lit ''java -Xmx'', Hole ''MEM'', Lit ''M -p '', Hole ''PORT'', Lit '' '', Hole ''X'']"
  have "build_startup demo_ext (render ?ts) [(''PORT'', ''80''), (''MEM'', ''512'')] =
      Some (render (map (fill (map_of [(''PORT'', ''80''), (''MEM'', ''512'')])) ?ts))"
    by (rule build_startup_render) (simp_all add: word_char_def digit_val_def plain_value_def)
  then show ?thesis by (simp add: render_def placeholder_def)
qed

section \<open>Listings\<close>

text \<open>
  The pages of a listing partition it: for any page size, the pages \<open>1 .. \<lceil>n/size\<rceil>\<close> one
  after the other are exactly the rows, in order, none twice and none lost.
\<close>

theorem pages_partition:
  assumes "0 < n"
  shows "concat (map (\<lambda>i. case paginate (int i + 1) (int n) xs of Inr p \<Rightarrow> pg_data p | Inl _ \<Rightarrow> [])
      [0..<(length xs + n - 1) div n]) = xs"
proof -
  have "concat (map (\<lambda>i. case paginate (int i + 1) (int n) xs of Inr p \<Rightarrow> pg_data p | Inl _ \<Rightarrow> [])
      [0..<(length xs + n - 1) div n]) =
    concat (map (\<lambda>i. take n (drop (i * n) xs)) [0..<(length xs + n - 1) div n])"
    by (intro arg_cong [where f = concat] map_cong refl)
      (metis (no_types, lifting) paginate_ok page_data sum.case(2))
  also have "\<dots> = take (((length xs + n - 1) div n) * n) xs" by (rule take_drop_chunks)
  also have "\<dots> = xs"
  proof -
    let ?m = "length xs + n - 1"
    have "?m div n * n + ?m mod n = ?m" and "?m mod n < n" using assms by simp_all
    then have "length xs \<le> ?m div n * n" using assms by linarith
    then show ?thesis by simp
  qed
  finally show ?thesis .
qed

theorem pages_partition_witness:
  "(case paginate 1 2 [''a'', ''b'', ''c''] of Inr p \<Rightarrow> pg_data p | Inl _ \<Rightarrow> []) @
   (case paginate 2 2 [''a'', ''b'', ''c''] of Inr p \<Rightarrow> pg_data p | Inl _ \<Rightarrow> []) = [''a'', ''b'', ''c'']"
  using pages_partition [of 2 "[''a'', ''b'', ''c'']"] by simp

end
