(* ===== verification/Files.thy ===== *)
theory Files
  imports ServersAccess
begin

text \<open>
  \<^verbatim>\<open>files/files.service.ts\<close> and its controller: every route finds the server, checks the
  access and forwards to the daemon of the server's node over HTTP.
\<close>

section \<open>The service\<close>

definition FilesService_listDirectory ::
  "wings \<Rightarrow> NodeEntity \<Rightarrow> string \<Rightarrow> string \<Rightarrow> 'z wings_panel_scheme \<Rightarrow> ('z wings_panel_scheme, http_value) handled" where
  "FilesService_listDirectory W node serverUuid path s = WingsService_listFiles W node serverUuid path s"

definition FilesService_readFile ::
  "wings \<Rightarrow> NodeEntity \<Rightarrow> string \<Rightarrow> string \<Rightarrow> 'z wings_panel_scheme \<Rightarrow> ('z wings_panel_scheme, http_value) handled" where
  "FilesService_readFile W node serverUuid path s = WingsService_readFile W node serverUuid path s"

definition FilesService_writeFile ::
  "wings \<Rightarrow> NodeEntity \<Rightarrow> string \<Rightarrow> string \<Rightarrow> string \<Rightarrow> 'z wings_panel_scheme \<Rightarrow> ('z wings_panel_scheme, unit) handled" where
  "FilesService_writeFile W node serverUuid path content s = WingsService_writeFile W node serverUuid path content s"

definition FilesService_createDirectory ::
  "wings \<Rightarrow> NodeEntity \<Rightarrow> string \<Rightarrow> string \<Rightarrow> 'z wings_panel_scheme \<Rightarrow> ('z wings_panel_scheme, unit) handled" where
  "FilesService_createDirectory W node serverUuid path s = WingsService_createDirectory W node serverUuid path s"

definition FilesService_rename ::
  "wings \<Rightarrow> NodeEntity \<Rightarrow> string \<Rightarrow> string \<Rightarrow> string \<Rightarrow> 'z wings_panel_scheme \<Rightarrow> ('z wings_panel_scheme, unit) handled" where
  "FilesService_rename W node serverUuid path newName s = WingsService_renameFile W node serverUuid path newName s"

definition FilesService_deleteFiles ::
  "wings \<Rightarrow> NodeEntity \<Rightarrow> string \<Rightarrow> string list \<Rightarrow> 'z wings_panel_scheme \<Rightarrow> ('z wings_panel_scheme, unit) handled" where
  "FilesService_deleteFiles W node serverUuid paths s = WingsService_deleteFiles W node serverUuid paths s"

definition FilesService_compress ::
  "wings \<Rightarrow> NodeEntity \<Rightarrow> string \<Rightarrow> string list \<Rightarrow> string \<Rightarrow> 'z wings_panel_scheme \<Rightarrow> ('z wings_panel_scheme, unit) handled" where
  "FilesService_compress W node serverUuid paths destination s = WingsService_compressFiles W node serverUuid paths destination s"

definition FilesService_decompress ::
  "wings \<Rightarrow> NodeEntity \<Rightarrow> string \<Rightarrow> string \<Rightarrow> string \<Rightarrow> 'z wings_panel_scheme \<Rightarrow> ('z wings_panel_scheme, unit) handled" where
  "FilesService_decompress W node serverUuid path destination s = WingsService_decompressFile W node serverUuid path destination s"

section \<open>The controller\<close>

text \<open>The bodies: \<open>WriteFileDto\<close>, \<open>CreateDirectoryDto\<close>, \<open>RenameFileDto\<close>, \<open>DecompressArchiveDto\<close> need
  non-empty texts, \<open>CompressFilesDto\<close> a destination.\<close>

definition WriteFileDto_ok :: "string \<Rightarrow> bool" where
  "WriteFileDto_ok path \<longleftrightarrow> path \<noteq> []"

definition CreateDirectoryDto_ok :: "string \<Rightarrow> string \<Rightarrow> bool" where
  "CreateDirectoryDto_ok path name \<longleftrightarrow> path \<noteq> [] \<and> name \<noteq> []"

definition RenameFileDto_ok :: "string \<Rightarrow> string \<Rightarrow> bool" where
  "RenameFileDto_ok path newName \<longleftrightarrow> path \<noteq> [] \<and> newName \<noteq> []"

definition CompressFilesDto_ok :: "string \<Rightarrow> bool" where
  "CompressFilesDto_ok destination \<longleftrightarrow> destination \<noteq> []"

definition DecompressArchiveDto_ok :: "string \<Rightarrow> string \<Rightarrow> bool" where
  "DecompressArchiveDto_ok path destination \<longleftrightarrow> path \<noteq> [] \<and> destination \<noteq> []"

text \<open>A call of the service for \<open>server.node\<close> and \<open>server.uuid\<close>.\<close>

definition on_server ::
  "(NodeEntity \<Rightarrow> string \<Rightarrow> 's \<Rightarrow> ('s, 'a) handled) \<Rightarrow> FullServer \<Rightarrow> 's \<Rightarrow> ('s, 'a) handled" where
  "on_server h full s = on_node full (\<lambda>node. h node (server_uuid (fs_server full))) s"

definition FilesController_listDirectory ::
  "ext \<Rightarrow> wings \<Rightarrow> nat \<Rightarrow> Request \<Rightarrow> string \<Rightarrow> string option \<Rightarrow> 'z wings_panel_scheme \<Rightarrow>
   ('z wings_panel_scheme, http_value) handled" where
  "FilesController_listDirectory X W now req uuid path s =
     with_user X now req (\<lambda>u. with_server_access uuid u
       (on_server (\<lambda>node i. FilesService_listDirectory W node i (nullish path ''/'')))) s"

text \<open>A missing \<open>path\<close> is the text \<open>undefined\<close> in the template literal.\<close>

definition FilesController_readFile ::
  "ext \<Rightarrow> wings \<Rightarrow> nat \<Rightarrow> Request \<Rightarrow> string \<Rightarrow> string option \<Rightarrow> 'z wings_panel_scheme \<Rightarrow>
   ('z wings_panel_scheme, http_value) handled" where
  "FilesController_readFile X W now req uuid path s =
     with_user X now req (\<lambda>u. with_server_access uuid u
       (on_server (\<lambda>node i. FilesService_readFile W node i (nullish path ''undefined'')))) s"

definition FilesController_writeFile ::
  "ext \<Rightarrow> wings \<Rightarrow> nat \<Rightarrow> Request \<Rightarrow> string \<Rightarrow> string \<Rightarrow> string \<Rightarrow> 'z wings_panel_scheme \<Rightarrow>
   ('z wings_panel_scheme, unit) handled" where
  "FilesController_writeFile X W now req uuid path content s =
     with_user X now req (\<lambda>u. validated (WriteFileDto_ok path) (with_server_access uuid u
       (on_server (\<lambda>node i. FilesService_writeFile W node i path content)))) s"

definition FilesController_createDirectory ::
  "ext \<Rightarrow> wings \<Rightarrow> nat \<Rightarrow> Request \<Rightarrow> string \<Rightarrow> string \<Rightarrow> string \<Rightarrow> 'z wings_panel_scheme \<Rightarrow>
   ('z wings_panel_scheme, unit) handled" where
  "FilesController_createDirectory X W now req uuid path name s =
     with_user X now req (\<lambda>u. validated (CreateDirectoryDto_ok path name) (with_server_access uuid u
       (on_server (\<lambda>node i. FilesService_createDirectory W node i (path @ ''/'' @ name))))) s"

definition FilesController_rename ::
  "ext \<Rightarrow> wings \<Rightarrow> nat \<Rightarrow> Request \<Rightarrow> string \<Rightarrow> string \<Rightarrow> string \<Rightarrow> 'z wings_panel_scheme \<Rightarrow>
   ('z wings_panel_scheme, unit) handled" where
  "FilesController_rename X W now req uuid path newName s =
     with_user X now req (\<lambda>u. validated (RenameFileDto_ok path newName) (with_server_access uuid u
       (on_server (\<lambda>node i. FilesService_rename W node i path newName)))) s"

definition FilesController_deleteFiles ::
  "ext \<Rightarrow> wings \<Rightarrow> nat \<Rightarrow> Request \<Rightarrow> string \<Rightarrow> string list \<Rightarrow> 'z wings_panel_scheme \<Rightarrow>
   ('z wings_panel_scheme, unit) handled" where
  "FilesController_deleteFiles X W now req uuid paths s =
     with_user X now req (\<lambda>u. with_server_access uuid u
       (on_server (\<lambda>node i. FilesService_deleteFiles W node i paths))) s"

definition FilesController_compress ::
  "ext \<Rightarrow> wings \<Rightarrow> nat \<Rightarrow> Request \<Rightarrow> string \<Rightarrow> string list \<Rightarrow> string \<Rightarrow> 'z wings_panel_scheme \<Rightarrow>
   ('z wings_panel_scheme, unit) handled" where
  "FilesController_compress X W now req uuid paths destination s =
     with_user X now req (\<lambda>u. validated (CompressFilesDto_ok destination) (with_server_access uuid u
       (on_server (\<lambda>node i. FilesService_compress W node i paths destination)))) s"

definition FilesController_decompress ::
  "ext \<Rightarrow> wings \<Rightarrow> nat \<Rightarrow> Request \<Rightarrow> string \<Rightarrow> string \<Rightarrow> string \<Rightarrow> 'z wings_panel_scheme \<Rightarrow>
   ('z wings_panel_scheme, unit) handled" where
  "FilesController_decompress X W now req uuid path destination s =
     with_user X now req (\<lambda>u. validated (DecompressArchiveDto_ok path destination) (with_server_access uuid u
       (on_server (\<lambda>node i. FilesService_decompress W node i path destination)))) s"

text \<open>The uploaded file: \<open>originalname\<close> and the buffer as text; without a file,
  \<open>file.buffer\<close> throws after the access check.\<close>

definition FilesController_upload ::
  "ext \<Rightarrow> wings \<Rightarrow> nat \<Rightarrow> Request \<Rightarrow> string \<Rightarrow> string option \<Rightarrow> (string \<times> string) option \<Rightarrow> 'z wings_panel_scheme \<Rightarrow>
   ('z wings_panel_scheme, unit) handled" where
  "FilesController_upload X W now req uuid path upfile s =
     with_user X now req (\<lambda>u. with_server_access uuid u
       (\<lambda>full s. (case upfile of
          None \<Rightarrow> (Inl TypeError, s)
        | Some (originalname, content) \<Rightarrow>
            on_server (\<lambda>node i. FilesService_writeFile W node i (nullish path ''/'' @ ''/'' @ originalname) content) full s))) s"

section \<open>The gate of the routes\<close>

text \<open>One request to the file interface of the daemon, for the server \<open>uuid\<close> only.\<close>

definition file_step :: "NodeEntity \<Rightarrow> string \<Rightarrow> 'z wings_panel_scheme \<Rightarrow> 'z wings_panel_scheme \<Rightarrow> bool" where
  "file_step node uuid s s' \<longleftrightarrow>
     (\<exists>h rest. hr_url h = buildHttpUrl node (files_path uuid rest) \<and> hr_authorization h = Some (node_authorization node) \<and>
        s' = s\<lparr>pn_calls := pn_calls s @ [Http h]\<rparr>)"

lemma httpRequest_state:
  "snd (httpRequest W node meth path b s) = s\<lparr>pn_calls := pn_calls s @ [Http
     \<lparr>hr_method = meth, hr_url = buildHttpUrl node path, hr_authorization = Some (node_authorization node), hr_body = b\<rparr>]\<rparr>"
  by (simp add: httpRequest_def send_call_def split: wings_reply.split option.split)

lemma file_step_request: "file_step node uuid s (snd (httpRequest W node meth (files_path uuid rest) b s))"
  unfolding file_step_def httpRequest_state 
  by (rule exI [of _ "\<lparr>hr_method = meth, hr_url = buildHttpUrl node (files_path uuid rest),
      hr_authorization = Some (node_authorization node), hr_body = b\<rparr>"]) auto

lemmas file_defs = FilesService_listDirectory_def FilesService_readFile_def FilesService_writeFile_def
  FilesService_createDirectory_def FilesService_rename_def FilesService_deleteFiles_def FilesService_compress_def
  FilesService_decompress_def WingsService_listFiles_def WingsService_readFile_def WingsService_writeFile_def
  WingsService_deleteFiles_def WingsService_compressFiles_def WingsService_decompressFile_def
  WingsService_createDirectory_def WingsService_renameFile_def

text \<open>A route whose body makes at most one such request, to the node of its server.\<close>

definition file_body :: "(FullServer \<Rightarrow> 'z wings_panel_scheme \<Rightarrow> ('z wings_panel_scheme, 'a) handled) \<Rightarrow> bool" where
  "file_body h \<longleftrightarrow> (\<forall>full s. snd (h full s) = s \<or>
     (\<exists>node. fs_node full = Some node \<and> file_step node (server_uuid (fs_server full)) s (snd (h full s))))"

lemma file_body_on_server:
  "(\<And>node i s. file_step node i s (snd (h node i s))) \<Longrightarrow> file_body (on_server h)"
  by (auto simp: file_body_def on_server_def on_node_def split: option.split)

locale file_route = server_route route ok body
  for route :: "ext \<Rightarrow> nat \<Rightarrow> Request \<Rightarrow> string \<Rightarrow> 'z wings_panel_scheme \<Rightarrow> ('z wings_panel_scheme, 'a) handled"
    and ok body +
  assumes body_call: "file_body (body now uuid)"
begin

lemma confined:
  "snd (route X now req uuid s) = s \<or>
   (\<exists>u x node. JwtAuthGuard X now req s = Inr u \<and> findOne (\<lambda>x. server_uuid x = uuid) (db_servers s) = Some x \<and>
      (au_rootAdmin u \<or> server_userId x = au_id u) \<and> findOne (\<lambda>n. node_id n = server_nodeId x) (db_nodes s) = Some node \<and>
      file_step node uuid s (snd (route X now req uuid s)))"
proof (cases "\<exists>u x. JwtAuthGuard X now req s = Inr u \<and> findOne (\<lambda>x. server_uuid x = uuid) (db_servers s) = Some x \<and>
    (au_rootAdmin u \<or> server_userId x = au_id u) \<and> ok X")
  case False
  then show ?thesis using refused(1) [of X now req s uuid] by blast
next
  case True
  then obtain u x where ux: "JwtAuthGuard X now req s = Inr u" "findOne (\<lambda>x. server_uuid x = uuid) (db_servers s) = Some x"
      "au_rootAdmin u \<or> server_userId x = au_id u" "ok X" by blast
  have "server_uuid x = uuid" using ux(2) by (auto dest: findOne_Some)
  moreover have "fs_node (load_server s x) = findOne (\<lambda>n. node_id n = server_nodeId x) (db_nodes s)"
    by (simp add: load_server_def)
  ultimately show ?thesis
    using body_call [of now uuid] granted [OF ux] ux(1-3) unfolding file_body_def by (metis fs_server_load)
qed

end


interpretation list_route: file_route "\<lambda>X now req uuid. FilesController_listDirectory X W now req uuid path" "\<lambda>_. True"
    "\<lambda>_ _. on_server (\<lambda>node i. FilesService_listDirectory W node i (nullish path ''/''))" for W path
  by unfold_locales (simp add: FilesController_listDirectory_def, rule file_body_on_server, simp add: file_defs file_step_request)

interpretation read_route: file_route "\<lambda>X now req uuid. FilesController_readFile X W now req uuid path" "\<lambda>_. True"
    "\<lambda>_ _. on_server (\<lambda>node i. FilesService_readFile W node i (nullish path ''undefined''))" for W path
  by unfold_locales (simp add: FilesController_readFile_def, rule file_body_on_server, simp add: file_defs file_step_request)

interpretation write_route: file_route "\<lambda>X now req uuid. FilesController_writeFile X W now req uuid path content"
    "\<lambda>_. WriteFileDto_ok path" "\<lambda>_ _. on_server (\<lambda>node i. FilesService_writeFile W node i path content)" for W path content
  by unfold_locales (simp add: FilesController_writeFile_def, rule file_body_on_server, simp add: file_defs file_step_request)

interpretation directory_route: file_route "\<lambda>X now req uuid. FilesController_createDirectory X W now req uuid path name"
    "\<lambda>_. CreateDirectoryDto_ok path name"
    "\<lambda>_ _. on_server (\<lambda>node i. FilesService_createDirectory W node i (path @ ''/'' @ name))" for W path name
  by unfold_locales (simp add: FilesController_createDirectory_def, rule file_body_on_server, simp add: file_defs file_step_request)

interpretation rename_route: file_route "\<lambda>X now req uuid. FilesController_rename X W now req uuid path newName"
    "\<lambda>_. RenameFileDto_ok path newName" "\<lambda>_ _. on_server (\<lambda>node i. FilesService_rename W node i path newName)" for W path newName
  by unfold_locales (simp add: FilesController_rename_def, rule file_body_on_server, simp add: file_defs file_step_request)

interpretation delete_route: file_route "\<lambda>X now req uuid. FilesController_deleteFiles X W now req uuid paths" "\<lambda>_. True"
    "\<lambda>_ _. on_server (\<lambda>node i. FilesService_deleteFiles W node i paths)" for W paths
  by unfold_locales (simp add: FilesController_deleteFiles_def, rule file_body_on_server, simp add: file_defs file_step_request)

interpretation compress_route: file_route "\<lambda>X now req uuid. FilesController_compress X W now req uuid paths destination"
    "\<lambda>_. CompressFilesDto_ok destination"
    "\<lambda>_ _. on_server (\<lambda>node i. FilesService_compress W node i paths destination)" for W paths destination
  by unfold_locales (simp add: FilesController_compress_def, rule file_body_on_server, simp add: file_defs file_step_request)

interpretation decompress_route: file_route "\<lambda>X now req uuid. FilesController_decompress X W now req uuid path destination"
    "\<lambda>_. DecompressArchiveDto_ok path destination"
    "\<lambda>_ _. on_server (\<lambda>node i. FilesService_decompress W node i path destination)" for W path destination
  by unfold_locales (simp add: FilesController_decompress_def, rule file_body_on_server, simp add: file_defs file_step_request)

interpretation upload_route: file_route "\<lambda>X now req uuid. FilesController_upload X W now req uuid path upfile" "\<lambda>_. True"
    "\<lambda>_ _ full s. (case upfile of None \<Rightarrow> (Inl TypeError, s)
       | Some (originalname, content) \<Rightarrow>
           on_server (\<lambda>node i. FilesService_writeFile W node i (nullish path ''/'' @ ''/'' @ originalname) content) full s)" for W path upfile
proof unfold_locales
  have "file_body (on_server (\<lambda>node i. FilesService_writeFile W node i p c))" for p c
    by (rule file_body_on_server) (simp add: file_defs file_step_request)
  then show "file_body (\<lambda>full s. (case upfile of None \<Rightarrow> (Inl TypeError, s)
       | Some (originalname, content) \<Rightarrow>
           on_server (\<lambda>node i. FilesService_writeFile W node i (nullish path ''/'' @ ''/'' @ originalname) content) full s))"
    by (cases upfile) (auto simp: file_body_def)
qed (simp add: FilesController_upload_def)

definition file_request_ok :: "ext \<Rightarrow> nat \<Rightarrow> Request \<Rightarrow> string \<Rightarrow> 'z wings_panel_scheme \<Rightarrow> 'z wings_panel_scheme \<Rightarrow> bool" where
  "file_request_ok X now req uuid s s' \<longleftrightarrow>
     db.truncate s' = db.truncate s \<and>
     (s' = s \<or> (\<exists>u x node. JwtAuthGuard X now req s = Inr u \<and> findOne (\<lambda>x. server_uuid x = uuid) (db_servers s) = Some x \<and>
        (au_rootAdmin u \<or> server_userId x = au_id u) \<and> findOne (\<lambda>n. node_id n = server_nodeId x) (db_nodes s) = Some node \<and>
        file_step node uuid s s'))"

lemma file_request_okI:
  assumes "s' = s \<or> (\<exists>u x node. JwtAuthGuard X now req s = Inr u \<and> findOne (\<lambda>x. server_uuid x = uuid) (db_servers s) = Some x \<and>
     (au_rootAdmin u \<or> server_userId x = au_id u) \<and> findOne (\<lambda>n. node_id n = server_nodeId x) (db_nodes s) = Some node \<and>
     file_step node uuid s s')"
  shows "file_request_ok X now req uuid s s'"
proof -
  have "db.truncate s' = db.truncate s"
    using assms by (auto simp: file_step_def db.truncate_def)
  then show ?thesis using assms by (simp add: file_request_ok_def)
qed

text \<open>
  C34. The file interface stays inside the server it was called for: whatever the request to any
  of the nine file routes, either nothing happens, or its sender is signed in as the owner or
  an administrator and exactly one request went out, to the node of that server, under that
  node's token, below the path of that server; the database is the same in both cases.
\<close>

theorem file_routes_confined:
  "file_request_ok X now req uuid s (snd (FilesController_listDirectory X W now req uuid path s)) \<and>
   file_request_ok X now req uuid s (snd (FilesController_readFile X W now req uuid path s)) \<and>
   file_request_ok X now req uuid s (snd (FilesController_writeFile X W now req uuid p content s)) \<and>
   file_request_ok X now req uuid s (snd (FilesController_createDirectory X W now req uuid p name s)) \<and>
   file_request_ok X now req uuid s (snd (FilesController_rename X W now req uuid p newName s)) \<and>
   file_request_ok X now req uuid s (snd (FilesController_deleteFiles X W now req uuid paths s)) \<and>
   file_request_ok X now req uuid s (snd (FilesController_compress X W now req uuid paths destination s)) \<and>
   file_request_ok X now req uuid s (snd (FilesController_decompress X W now req uuid p destination s)) \<and>
   file_request_ok X now req uuid s (snd (FilesController_upload X W now req uuid path upfile s))"
  by (intro conjI file_request_okI list_route.confined read_route.confined write_route.confined
      directory_route.confined rename_route.confined delete_route.confined compress_route.confined
      decompress_route.confined upload_route.confined)

end
