(* ===== verification/ApiKeys.thy ===== *)
theory ApiKeys
  imports UsersProps
begin

text \<open>
  \<^verbatim>\<open>api-keys/api-keys.service.ts\<close>, its controller, and the two guards over it,
  \<^verbatim>\<open>common/guards/api-key.guard.ts\<close> and \<^verbatim>\<open>combined-auth.guard.ts\<close>.
\<close>

section \<open>Service\<close>

text \<open>The columns \<open>findByUser\<close> selects.\<close>

record ApiKeyRow =
  akr_id :: string
  akr_memo :: "string option"
  akr_keyStart :: string
  akr_allowedIps :: "string list"
  akr_lastUsedAt :: "nat option"
  akr_createdAt :: nat

definition api_key_row :: "ApiKeyEntity \<Rightarrow> ApiKeyRow" where
  "api_key_row k = \<lparr>akr_id = apikey_id k, akr_memo = apikey_memo k, akr_keyStart = apikey_keyStart k,
     akr_allowedIps = apikey_allowedIps k, akr_lastUsedAt = apikey_lastUsedAt k, akr_createdAt = apikey_createdAt k\<rparr>"

definition ApiKeysService_findByUser :: "string \<Rightarrow> 'z db_scheme \<Rightarrow> ApiKeyRow list" where
  "ApiKeysService_findByUser userId d =
     map api_key_row (order_desc apikey_createdAt (findRows (\<lambda>k. apikey_userId k = userId) (db_apiKeys d)))"

record CreateApiKeyDto =
  cak_memo :: "string option"
  cak_allowedIps :: "string list option"

text \<open>The hexadecimal digits of \<open>randomBytes(24)\<close> are drawn by the caller.\<close>

definition plain_token :: "string \<Rightarrow> string" where
  "plain_token hex = ''ptlc_'' @ js_slice 0 43 hex"

record CreatedApiKey =
  crk_id :: string
  crk_memo :: "string option"
  crk_keyStart :: string
  crk_plainTextToken :: string

definition new_api_key :: "ext \<Rightarrow> string \<Rightarrow> string \<Rightarrow> nat \<Rightarrow> string \<Rightarrow> CreateApiKeyDto \<Rightarrow> ApiKeyEntity" where
  "new_api_key X newId hex now userId dto =
     \<lparr>apikey_id = newId, apikey_userId = userId, apikey_keyStart = js_slice 0 16 (plain_token hex),
      apikey_token = bcryptHash X 10 (plain_token hex), apikey_memo = cak_memo dto,
      apikey_allowedIps = nullish (cak_allowedIps dto) [], apikey_lastUsedAt = None, apikey_createdAt = now\<rparr>"

definition ApiKeysService_create ::
  "ext \<Rightarrow> string \<Rightarrow> string \<Rightarrow> nat \<Rightarrow> string \<Rightarrow> CreateApiKeyDto \<Rightarrow> 'z db_scheme \<Rightarrow> ('z db_scheme, CreatedApiKey) handled" where
  "ApiKeysService_create X newId hex now userId dto d =
     (let apiKey = new_api_key X newId hex now userId dto
      in (case save_apiKey apiKey d of
            Inl e \<Rightarrow> (Inl e, d)
          | Inr d1 \<Rightarrow> (Inr \<lparr>crk_id = apikey_id apiKey, crk_memo = apikey_memo apiKey, crk_keyStart = apikey_keyStart apiKey,
                          crk_plainTextToken = plain_token hex\<rparr>, d1)))"

definition ApiKeysService_findByKeyStart :: "string \<Rightarrow> 'z db_scheme \<Rightarrow> (ApiKeyEntity \<times> UserEntity option) option" where
  "ApiKeysService_findByKeyStart keyStart d =
     map_option (\<lambda>k. (k, findOne (\<lambda>u. user_id u = apikey_userId k) (db_users d)))
       (findOne (\<lambda>k. apikey_keyStart k = keyStart) (db_apiKeys d))"

definition ApiKeysService_updateLastUsed :: "string \<Rightarrow> nat \<Rightarrow> 'z db_scheme \<Rightarrow> 'z db_scheme" where
  "ApiKeysService_updateLastUsed i now d =
     d\<lparr>db_apiKeys := updateRows (\<lambda>k. apikey_id k = i) (apikey_lastUsedAt_update (\<lambda>_. Some now)) (db_apiKeys d)\<rparr>"

definition ApiKeysService_delete :: "string \<Rightarrow> string \<Rightarrow> 'z db_scheme \<Rightarrow> ('z db_scheme, unit) handled" where
  "ApiKeysService_delete i userId d =
     (case findOne (\<lambda>k. apikey_id k = i \<and> apikey_userId k = userId) (db_apiKeys d) of
        None \<Rightarrow> (Inl (NotFoundException ''API key not found''), d)
      | Some apiKey \<Rightarrow> (Inr (), d\<lparr>db_apiKeys := removeRows (\<lambda>k. apikey_id k = apikey_id apiKey) (db_apiKeys d)\<rparr>))"

section \<open>Controller\<close>

definition ApiKeysController_findAll ::
  "ext \<Rightarrow> nat \<Rightarrow> Request \<Rightarrow> 'z db_scheme \<Rightarrow> ('z db_scheme, ApiKeyRow list) handled" where
  "ApiKeysController_findAll X now req d =
     with_user X now req (\<lambda>u d. (Inr (ApiKeysService_findByUser (au_id u) d), d)) d"

definition ApiKeysController_create ::
  "ext \<Rightarrow> nat \<Rightarrow> Request \<Rightarrow> string \<Rightarrow> string \<Rightarrow> CreateApiKeyDto \<Rightarrow> 'z db_scheme \<Rightarrow> ('z db_scheme, CreatedApiKey) handled" where
  "ApiKeysController_create X now req newId hex dto d =
     with_user X now req (\<lambda>u. ApiKeysService_create X newId hex now (au_id u) dto) d"

definition ApiKeysController_delete ::
  "ext \<Rightarrow> nat \<Rightarrow> Request \<Rightarrow> string \<Rightarrow> 'z db_scheme \<Rightarrow> ('z db_scheme, unit) handled" where
  "ApiKeysController_delete X now req i d = with_user X now req (\<lambda>u. ApiKeysService_delete i (au_id u)) d"

section \<open>Guards\<close>

text \<open>\<open>authHeader && authHeader.startsWith('Bearer ')\<close>, and what follows it.\<close>

definition bearer_token :: "Request \<Rightarrow> string option" where
  "bearer_token req =
     (case req_authorization req of
        None \<Rightarrow> None
      | Some h \<Rightarrow> if h \<noteq> [] \<and> js_startsWith h bearer_prefix then Some (drop 7 h) else None)"

text \<open>The user of the key becomes \<open>request.user\<close>; the write of \<open>lastUsedAt\<close> is not awaited.\<close>

definition ApiKeyGuard :: "ext \<Rightarrow> nat \<Rightarrow> Request \<Rightarrow> 'z db_scheme \<Rightarrow> ('z db_scheme, UserEntity option) handled" where
  "ApiKeyGuard X now req d =
     (case bearer_token req of
        None \<Rightarrow> (Inl (UnauthorizedException ''Missing authorization header''), d)
      | Some token \<Rightarrow>
          if \<not> js_startsWith token ''ptlc_'' then (Inl (UnauthorizedException ''Invalid API key format''), d)
          else (case ApiKeysService_findByKeyStart (js_slice 0 16 token) d of
                  None \<Rightarrow> (Inl (UnauthorizedException ''Invalid API key''), d)
                | Some (apiKey, user) \<Rightarrow>
                    if \<not> bcryptCompare X token (apikey_token apiKey)
                    then (Inl (UnauthorizedException ''Invalid API key''), d)
                    else (Inr user, ApiKeysService_updateLastUsed (apikey_id apiKey) now d)))"

datatype RequestUser = JwtUser AuthUser | KeyUser "UserEntity option"

definition map_handled :: "('a \<Rightarrow> 'b) \<Rightarrow> ('s, 'a) handled \<Rightarrow> ('s, 'b) handled" where
  "map_handled f r = (map_sum id f (fst r), snd r)"

text \<open>In the \<open>catch\<close>, a key guard that lets the request pass is thrown: \<open>throw true\<close>.\<close>

definition CombinedAuthGuard :: "ext \<Rightarrow> nat \<Rightarrow> Request \<Rightarrow> 'z db_scheme \<Rightarrow> ('z db_scheme, RequestUser) handled" where
  "CombinedAuthGuard X now req d =
     (if (case bearer_token req of None \<Rightarrow> False | Some token \<Rightarrow> js_startsWith token ''ptlc_'')
      then map_handled KeyUser (ApiKeyGuard X now req d)
      else (case JwtAuthGuard X now req d of
              Inr u \<Rightarrow> (Inr (JwtUser u), d)
            | Inl _ \<Rightarrow>
                (case ApiKeyGuard X now req d of
                   (Inl e, d1) \<Rightarrow> (Inl e, d1)
                 | (Inr _, d1) \<Rightarrow> (Inl ThrownTrue, d1))))"

section \<open>Properties\<close>

text \<open>
  The combined guard never throws \<open>true\<close>: an API key is looked at exactly when the
  header carries one, any other request is decided by its JWT alone, and when that fails the
  answer is the 401 of the key guard for a header that is no key.
\<close>

theorem combined_guard_spec:
  "CombinedAuthGuard X now req d =
     (if \<exists>token. bearer_token req = Some token \<and> js_startsWith token ''ptlc_''
      then map_handled KeyUser (ApiKeyGuard X now req d)
      else (case JwtAuthGuard X now req d of
              Inr u \<Rightarrow> Inr (JwtUser u)
            | Inl _ \<Rightarrow> Inl (UnauthorizedException
                (if bearer_token req = None then ''Missing authorization header'' else ''Invalid API key format'')), d)) \<and>
   fst (CombinedAuthGuard X now req d) \<noteq> Inl ThrownTrue"
  by (auto simp: CombinedAuthGuard_def ApiKeyGuard_def map_handled_def split: option.splits sum.splits if_splits)

lemma bearer_token_prefix: "req_authorization req = Some (bearer_prefix @ t) \<Longrightarrow> bearer_token req = Some t"
  by (simp add: bearer_token_def bearer_prefix_def)

lemma updateLastUsed_ok [inv_intros]: "db_ok d \<Longrightarrow> db_ok (ApiKeysService_updateLastUsed i now d)"
  unfolding ApiKeysService_updateLastUsed_def db_ok_def
  by (auto simp: db_keys_def unique_rows_updateRows no_clash_def children_defs exists_iff table_sets)

text \<open>
  A new API key works at once and acts for its owner: the token that the creation
  returns passes the guard as that user from any address, whatever addresses the key allows
  and also when the account is disabled, and the guard writes nothing but the time of use.
  The token itself is not stored.
\<close>

theorem created_key_authenticates:
  assumes "bcrypt_ok X" and "db_ok d" and "user \<in> set (db_users d)"
    and "\<forall>k \<in> set (db_apiKeys d). apikey_id k \<noteq> newId \<and> apikey_keyStart k \<noteq> js_slice 0 16 (plain_token hex)"
    and "ApiKeysService_create X newId hex now (user_id user) dto d = (r, d')"
  shows "\<exists>k. r = Inr k \<and> db_ok d' \<and> d' = d\<lparr>db_apiKeys := db_apiKeys d @ [new_api_key X newId hex now (user_id user) dto]\<rparr> \<and>
    (\<forall>req later. req_authorization req = Some (bearer_prefix @ crk_plainTextToken k) \<longrightarrow>
       ApiKeyGuard X later req d' = (Inr (Some user), ApiKeysService_updateLastUsed newId later d') \<and>
       CombinedAuthGuard X later req d' = (Inr (KeyUser (Some user)), ApiKeysService_updateLastUsed newId later d') \<and>
       db_ok (ApiKeysService_updateLastUsed newId later d'))"
proof -
  let ?k = "new_api_key X newId hex now (user_id user) dto" and ?t = "plain_token hex"
  have "user_exists d (user_id user)" using assms(3) by (auto simp: exists_iff)
  then have s: "save_apiKey ?k d = Inr (d\<lparr>db_apiKeys := db_apiKeys d @ [?k]\<rparr>)"
    using assms(4) by (auto simp: save_apiKey_def saveRow_def upsertRow_def insertRow_def hasRow_iff no_clash_def new_api_key_def)
  then have r: "r = Inr \<lparr>crk_id = newId, crk_memo = cak_memo dto, crk_keyStart = js_slice 0 16 ?t, crk_plainTextToken = ?t\<rparr>"
    and d': "d' = d\<lparr>db_apiKeys := db_apiKeys d @ [?k]\<rparr>"
    using assms(5) by (simp_all add: ApiKeysService_create_def Let_def) (simp_all add: new_api_key_def)
  have ok: "db_ok d'" unfolding d' by (rule save_ok(3) [OF s assms(2)])
  have "findOne (\<lambda>k. apikey_keyStart k = js_slice 0 16 ?t) (db_apiKeys d') = Some ?k"
  proof -
    have "findOne (\<lambda>k. apikey_keyStart k = js_slice 0 16 ?t) (db_apiKeys d) = None" using assms(4) by (simp add: findOne_None)
    then show ?thesis unfolding d' by (simp add: findOne_def find_append) (simp add: new_api_key_def)
  qed
  moreover have "findOne (\<lambda>u. user_id u = user_id user) (db_users d') = Some user"
    using unique_user_row [OF assms(2,3)] by (simp add: d')
  ultimately have f: "ApiKeysService_findByKeyStart (js_slice 0 16 ?t) d' = Some (?k, Some user)"
    by (simp add: ApiKeysService_findByKeyStart_def new_api_key_def)
  have g: "ApiKeyGuard X later req d' = (Inr (Some user), ApiKeysService_updateLastUsed newId later d')"
    if "req_authorization req = Some (bearer_prefix @ ?t)" for req later
    using bearer_token_prefix [OF that] f assms(1)
    by (simp add: ApiKeyGuard_def bcrypt_ok_def new_api_key_def) (simp add: plain_token_def js_startsWith_def)
  have "CombinedAuthGuard X later req d' = (Inr (KeyUser (Some user)), ApiKeysService_updateLastUsed newId later d')"
    if "req_authorization req = Some (bearer_prefix @ ?t)" for req later
    using bearer_token_prefix [OF that] g [OF that]
    by (simp add: CombinedAuthGuard_def map_handled_def plain_token_def)
  then show ?thesis using r d' ok g by (auto intro: updateLastUsed_ok)
qed

theorem created_key_authenticates_witness:
  "let (r, d') = ApiKeysService_create demo_ext ''k'' (replicate 48 CHR ''a'') 0 ''u2'' \<lparr>cak_memo = None, cak_allowedIps = Some [''10.0.0.9'']\<rparr> demo_db in
     \<exists>k. r = Inr k \<and>
       fst (ApiKeyGuard demo_ext 7 (demo_request None (Some (bearer_prefix @ crk_plainTextToken k))) d') = Inr (Some (demo_user ''u2'' ''bob'' False))"
proof -
  let ?dto = "\<lparr>cak_memo = None, cak_allowedIps = Some [''10.0.0.9'']\<rparr>" and ?bob = "demo_user ''u2'' ''bob'' False"
  obtain r d' where 1: "ApiKeysService_create demo_ext ''k'' (replicate 48 CHR ''a'') 0 (user_id ?bob) ?dto demo_db = (r, d')" by force
  have "user_id ?bob = ''u2''" by (simp add: demo_user_def)
  with created_key_authenticates [OF demo_bcrypt_ok demo_db_ok _ _ 1] 1 show ?thesis by auto
qed

text \<open>
  An API key is deleted by its owner and by nobody else: for any other user the
  identifier is unknown and nothing is written, for the owner exactly that row goes; a key
  that was created and deleted again leaves the table as it was.
\<close>

theorem api_key_delete_own:
  assumes "db_ok d" and "k \<in> set (db_apiKeys d)"
  shows "ApiKeysService_delete (apikey_id k) v d =
    (if v = apikey_userId k
     then (Inr (), d\<lparr>db_apiKeys := removeRows (\<lambda>x. apikey_id x = apikey_id k) (db_apiKeys d)\<rparr>)
     else (Inl (NotFoundException ''API key not found''), d))"
proof -
  have dist: "distinct (map apikey_id (db_apiKeys d))" using assms(1) by (simp add: db_ok_def db_keys_def unique_rows_def)
  have "findOne (\<lambda>x. apikey_id x = apikey_id k \<and> apikey_userId x = v) (db_apiKeys d) = (if v = apikey_userId k then Some k else None)"
  proof (cases "v = apikey_userId k")
    case True
    then obtain y where y: "findOne (\<lambda>x. apikey_id x = apikey_id k \<and> apikey_userId x = v) (db_apiKeys d) = Some y"
      using assms(2) by (cases "findOne (\<lambda>x. apikey_id x = apikey_id k \<and> apikey_userId x = v) (db_apiKeys d)") (auto simp: findOne_None)
    then have "y = k" using distinct_map_key_eq [OF dist _ assms(2)] by (auto dest: findOne_Some)
    then show ?thesis using y True by simp
  next
    case False
    then show ?thesis using distinct_map_key_eq [OF dist _ assms(2)] by (auto simp: findOne_None)
  qed
  then show ?thesis by (simp add: ApiKeysService_delete_def)
qed

theorem api_key_delete_own_witness:
  "let d = demo_db\<lparr>db_apiKeys := [new_api_key demo_ext ''k'' ''ab'' 0 ''u2'' \<lparr>cak_memo = None, cak_allowedIps = None\<rparr>]\<rparr> in
     ApiKeysService_delete ''k'' ''u1'' d = (Inl (NotFoundException ''API key not found''), d) \<and>
     db_apiKeys (snd (ApiKeysService_delete ''k'' ''u2'' d)) = []"
proof -
  let ?k = "new_api_key demo_ext ''k'' ''ab'' 0 ''u2'' \<lparr>cak_memo = None, cak_allowedIps = None\<rparr>"
  let ?d = "demo_db\<lparr>db_apiKeys := [?k]\<rparr>"
  have "save_apiKey ?k demo_db = Inr ?d"
    by (simp add: save_apiKey_def saveRow_def upsertRow_def insertRow_def hasRow_def exists_defs demo_user_def new_api_key_def)
  from save_ok(3) [OF this demo_db_ok] have "db_ok ?d" .
  from api_key_delete_own [OF this, of ?k] show ?thesis by (simp add: new_api_key_def removeRows_def)
qed

end
