(* ===== verification/EggsProps.thy ===== *)
theory EggsProps
  imports Eggs
begin

text \<open>
  What eggs guarantee: an export can be imported again and carries the egg, an update of the
  variables replaces them, a used egg is not deleted, and a failed import is not undone.
\<close>

section \<open>Saving eggs and variables\<close>

lemma save_new_egg:
  assumes "\<not> egg_exists d (egg_id e)" and "nest_exists d (egg_nestId e)"
    and "opt_ref (egg_exists d) (egg_copyScriptFrom e)"
  shows "save_egg e d = Inr (d\<lparr>db_eggs := db_eggs d @ [e]\<rparr>)"
  using assms
  by (auto simp: save_egg_def saveRow_def upsertRow_def insertRow_def egg_exists_def hasRow_iff no_clash_def opt_ref_def
      split: option.splits)

lemma save_variables_append:
  assumes "\<forall>v \<in> set vs. egg_exists d (eggvar_eggId v)" and "distinct (map eggvar_id vs)"
    and "\<forall>v \<in> set vs. \<forall>x \<in> set (db_eggVariables d). eggvar_id x \<noteq> eggvar_id v"
  shows "save_variables e vs d =
    (Inr \<lparr>se_egg = e, se_variables = Some vs\<rparr>, d\<lparr>db_eggVariables := db_eggVariables d @ vs\<rparr>)"
proof -
  have "save_each save_eggVariable vs d = Inr (db_eggVariables_update (\<lambda>t. t @ vs) d)"
    by (rule eggVariable_repo.save_each_append [where ok = "\<lambda>d'. egg_exists d' = egg_exists d"])
      (use assms in \<open>auto simp: save_eggVariable_def saveRow_def upsertRow_def hasRow_iff no_clash_def exists_iff fun_eq_iff\<close>)
  then show ?thesis by (simp add: save_variables_def)
qed

lemma save_variables_ok [inv_intros]:
  assumes "save_variables e vs d = (r, d')" and "db_ok d" shows "db_ok d'"
proof (cases "save_each save_eggVariable vs d")
  case (Inl x)
  then show ?thesis using assms by (simp add: save_variables_def)
next
  case (Inr d1)
  then have "db_ok d1" by (rule save_each_keeps) (use assms(2) save_ok(11) in blast)+
  then show ?thesis using assms(1) Inr by (simp add: save_variables_def)
qed

section \<open>Import of an export\<close>

text \<open>What one round does to a document: missing texts become empty, empty ones the defaults.\<close>

definition imported_form :: "EggJson \<Rightarrow> EggJson" where
  "imported_form j =
     j\<lparr>ej_description := Some (str_or (ej_description j) []), ej_scriptInstall := Some (str_or (ej_scriptInstall j) []),
       ej_scriptEntry := Some (str_or (ej_scriptEntry j) ''bash''),
       ej_scriptContainer := Some (str_or (ej_scriptContainer j) ''alpine:latest'')\<rparr>"

lemma str_or_str_or [simp]: "str_or (Some (str_or a b)) b = str_or a b"
  by (auto simp: str_or_def split: option.splits list.splits)

lemma imported_form_twice: "imported_form (imported_form j) = imported_form j"
  by (simp add: imported_form_def)

lemma imported_variable_json:
  "imported_variable ids now i (n, variable_json v) =
     Some (v\<lparr>eggvar_id := ids n, eggvar_eggId := i, eggvar_createdAt := now\<rparr>)"
  by (simp add: imported_variable_def variable_json_def)

lemma imported_egg_json:
  "imported_egg newId now (egg_json e vs) =
     Some (e\<lparr>egg_id := newId, egg_description := Some (str_or (egg_description e) []),
            egg_scriptInstall := Some (str_or (egg_scriptInstall e) []), egg_scriptEntry := str_or (Some (egg_scriptEntry e)) ''bash'',
            egg_scriptContainer := str_or (Some (egg_scriptContainer e)) ''alpine:latest'', egg_createdAt := now\<rparr>)"
  by (simp add: imported_egg_def egg_json_def)

text \<open>The rows an import of exported variables makes.\<close>

definition copied :: "(nat \<Rightarrow> string) \<Rightarrow> nat \<Rightarrow> string \<Rightarrow> EggVariableEntity list \<Rightarrow> EggVariableEntity list" where
  "copied ids now i vs = map (\<lambda>(n, v). v\<lparr>eggvar_id := ids n, eggvar_eggId := i, eggvar_createdAt := now\<rparr>) (enumerate 0 vs)"

lemma copied_simps:
  "map variable_json (copied ids now i vs) = map variable_json vs"
  "map eggvar_id (copied ids now i vs) = map ids [0..<length vs]"
  "map eggvar_eggId (copied ids now i vs) = replicate (length vs) i"
  by (rule nth_equalityI; simp add: copied_def nth_enumerate_eq variable_json_def)+

lemma imported_variables_json:
  "map (imported_variable ids now i) (enumerate 0 (map variable_json vs)) = map Some (copied ids now i vs)"
  by (rule nth_equalityI) (simp_all add: copied_def nth_enumerate_eq imported_variable_json)

lemma import_saved:
  assumes "vs = [] \<or> save_variables e (copied ids now i vs) d = (Inr \<lparr>se_egg = e, se_variables = Some (copied ids now i vs)\<rparr>, d')"
    and "vs = [] \<longrightarrow> d' = d"
  shows "(case Some (map variable_json vs) of
      None \<Rightarrow> (Inr \<lparr>se_egg = e, se_variables = None\<rparr>, d)
    | Some [] \<Rightarrow> (Inr \<lparr>se_egg = e, se_variables = None\<rparr>, d)
    | Some ws \<Rightarrow> save_imported e (map (imported_variable ids now i) (enumerate 0 ws)) d) =
    (Inr \<lparr>se_egg = e, se_variables = (if vs = [] then None else Some (copied ids now i vs))\<rparr>, d')"
proof (cases "vs = []")
  case True
  then show ?thesis using assms(2) by simp
next
  case False
  moreover have "None \<notin> set (map Some (copied ids now i vs))" by auto
  moreover have "map the (map Some (copied ids now i vs)) = copied ids now i vs" by (simp add: comp_def)
  ultimately have "save_imported e (map (imported_variable ids now i) (enumerate 0 (map variable_json vs))) d =
      (Inr \<lparr>se_egg = e, se_variables = Some (copied ids now i vs)\<rparr>, d')"
    unfolding save_imported_def imported_variables_json using assms(1) by simp
  then show ?thesis using False by (cases vs) simp_all
qed

text \<open>
  C35. What the panel exports it can import: importing the export of any egg succeeds and
  adds one egg with its variables, whose own export is the same document again, but for the
  missing description and install script, which become empty, and an empty script entry or
  container, which becomes the default.  No existing egg or variable changes.
\<close>

theorem egg_export_import:
  assumes "db_ok d" and "EggsService_exportEgg i d = Inr j" and "\<not> egg_exists d newId"
    and "inj ids" and "\<forall>v \<in> set (db_eggVariables d). eggvar_id v \<notin> range ids"
    and "EggsService_importEgg newId ids now j d = (r, d')"
  shows "is_ok r \<and> db_ok d' \<and> EggsService_exportEgg newId d' = Inr (imported_form j) \<and>
    (\<exists>e vs. db_eggs d' = db_eggs d @ [e] \<and> db_eggVariables d' = db_eggVariables d @ vs) \<and>
    (\<forall>k. k \<noteq> newId \<longrightarrow> EggsService_exportEgg k d' = EggsService_exportEgg k d)"
proof -
  obtain e where f: "findOne (\<lambda>e. egg_id e = i) (db_eggs d) = Some e"
    using assms(2) by (auto simp: EggsService_exportEgg_def EggsService_findEggById_def split: option.splits)
  define vs where "vs = findRows (\<lambda>v. eggvar_eggId v = egg_id e) (db_eggVariables d)"
  have j: "j = egg_json e vs"
    using assms(2) f by (simp add: EggsService_exportEgg_def EggsService_findEggById_def load_egg_def vs_def)
  have e: "e \<in> set (db_eggs d)" using f by (auto dest: findOne_Some)
  define e' where "e' = the (imported_egg newId now (egg_json e vs))"
  have e': "imported_egg newId now (egg_json e vs) = Some e'" by (simp add: e'_def imported_egg_json)
  have cols: "egg_id e' = newId" "egg_nestId e' = egg_nestId e" "egg_copyScriptFrom e' = egg_copyScriptFrom e"
    by (simp_all add: e'_def imported_egg_json)
  let ?d1 = "d\<lparr>db_eggs := db_eggs d @ [e']\<rparr>" and ?vs = "copied ids now newId vs"
  let ?d2 = "?d1\<lparr>db_eggVariables := db_eggVariables d @ ?vs\<rparr>"
  have "nest_exists d (egg_nestId e) \<and> opt_ref (egg_exists d) (egg_copyScriptFrom e)"
    using assms(1) e by (auto simp: db_ok_def db_refs_def egg_children_ok_def)
  then have s: "save_egg e' d = Inr ?d1" using assms(3) by (intro save_new_egg) (simp_all add: cols)
  have new: "set (map eggvar_eggId ?vs) \<subseteq> {newId}" "set (map eggvar_id ?vs) \<subseteq> range ids"
    unfolding copied_simps by auto
  have "distinct (map eggvar_id ?vs)" using assms(4) by (simp add: copied_simps distinct_map inj_on_def)
  moreover have "\<forall>v \<in> set ?vs. egg_exists ?d1 (eggvar_eggId v)" using new(1) by (auto simp: exists_iff cols)
  moreover have "\<forall>v \<in> set ?vs. \<forall>x \<in> set (db_eggVariables ?d1). eggvar_id x \<noteq> eggvar_id v"
  proof (intro ballI notI)
    fix v x
    assume "v \<in> set ?vs" "x \<in> set (db_eggVariables ?d1)" "eggvar_id x = eggvar_id v"
    then have "eggvar_id x \<in> range ids" using new(2) by auto
    then show False using assms(5) \<open>x \<in> set (db_eggVariables ?d1)\<close> by simp
  qed
  ultimately have v: "save_variables e' ?vs ?d1 = (Inr \<lparr>se_egg = e', se_variables = Some ?vs\<rparr>, ?d2)"
    using save_variables_append [of ?vs ?d1 e'] by simp
  have "vs = [] \<longrightarrow> ?d2 = ?d1" by (simp add: copied_def)
  with v have "(case Some (map variable_json vs) of
      None \<Rightarrow> (Inr \<lparr>se_egg = e', se_variables = None\<rparr>, ?d1)
    | Some [] \<Rightarrow> (Inr \<lparr>se_egg = e', se_variables = None\<rparr>, ?d1)
    | Some ws \<Rightarrow> save_imported e' (map (imported_variable ids now newId) (enumerate 0 ws)) ?d1) =
    (Inr \<lparr>se_egg = e', se_variables = (if vs = [] then None else Some ?vs)\<rparr>, ?d2)"
    by (intro import_saved) simp_all
  moreover have "ej_variables (egg_json e vs) = Some (map variable_json vs)" by (simp add: egg_json_def)
  ultimately have r: "is_ok r" "d' = ?d2"
    using assms(6) by (auto simp: EggsService_importEgg_def j e' s)
  have "db_ok ?d1" using s assms(1) by (rule save_ok(10))
  then have ok: "db_ok d'" unfolding r(2) by (rule save_variables_ok [OF v])
  have old: "findRows (\<lambda>v. eggvar_eggId v = k) (db_eggVariables d') = findRows (\<lambda>v. eggvar_eggId v = k) (db_eggVariables d)"
    if "k \<noteq> newId" for k
    using new(1) that by (auto simp: r(2) findRows_def filter_empty_conv)
  have "findRows (\<lambda>v. eggvar_eggId v = newId) (db_eggVariables d) = []"
    using assms(1,3) by (auto simp: findRows_def filter_empty_conv db_ok_def db_refs_def egg_children_ok_def)
  moreover have "filter (\<lambda>v. eggvar_eggId v = newId) ?vs = ?vs" using new(1) by (auto intro: filter_True)
  ultimately have "findRows (\<lambda>v. eggvar_eggId v = newId) (db_eggVariables d') = ?vs" by (simp add: r(2) findRows_def)
  moreover have "findOne (\<lambda>e. egg_id e = newId) (db_eggs d) = None" using assms(3) by (auto simp: findOne_None exists_iff)
  then have "findOne (\<lambda>e. egg_id e = newId) (db_eggs d') = Some e'" by (simp add: r(2) findOne_def find_append cols)
  ultimately have "EggsService_exportEgg newId d' = Inr (egg_json e' ?vs)"
    by (simp add: EggsService_exportEgg_def EggsService_findEggById_def load_egg_def cols)
  moreover have "egg_json e' ?vs = imported_form j"
    unfolding j e'_def imported_egg_json by (simp add: egg_json_def imported_form_def copied_simps)
  moreover have "EggsService_exportEgg k d' = EggsService_exportEgg k d" if "k \<noteq> newId" for k
  proof -
    have "findOne (\<lambda>e. egg_id e = k) (db_eggs d') = findOne (\<lambda>e. egg_id e = k) (db_eggs d)"
      using that by (simp add: r(2) findOne_def find_append cols split: option.split)
    then show ?thesis
      using old [OF that] by (auto simp: EggsService_exportEgg_def EggsService_findEggById_def load_egg_def split: option.split
          dest!: findOne_Some)
  qed
  ultimately show ?thesis using r ok by auto
qed

theorem egg_export_import_witness:
  "\<exists>j. EggsService_exportEgg ''e1'' demo_full = Inr j \<and>
     EggsService_exportEgg ''e2'' (snd (EggsService_importEgg ''e2'' (\<lambda>n. CHR ''w'' # show_nat n) 5 j demo_full)) =
       Inr (j\<lparr>ej_description := Some [], ej_scriptInstall := Some []\<rparr>)"
proof -
  let ?ids = "\<lambda>n. CHR ''w'' # show_nat n"
  obtain j where j: "EggsService_exportEgg ''e1'' demo_full = Inr j"
      "imported_form j = j\<lparr>ej_description := Some [], ej_scriptInstall := Some []\<rparr>"
    by (simp add: EggsService_exportEgg_def EggsService_findEggById_def findOne_def demo_egg_def egg_json_def imported_form_def load_egg_def)
  obtain r d' where 1: "EggsService_importEgg ''e2'' ?ids 5 j demo_full = (r, d')" by force
  have "\<not> egg_exists demo_full ''e2''" by (simp add: exists_iff demo_egg_def)
  moreover have "inj ?ids" by (auto intro: injI dest: show_nat_inj)
  moreover have "\<forall>v \<in> set (db_eggVariables demo_full). eggvar_id v \<notin> range ?ids" by (auto simp: demo_eggVariable_def)
  ultimately show ?thesis using egg_export_import [OF demo_full_ok j(1) _ _ _ 1] j by (auto simp: 1)
qed

section \<open>A failed import\<close>

text \<open>
  An import is not one transaction: when a variable of the document lacks its name or its
  environment variable the request ends in a database error, and the egg that was saved
  before stays, without any variable.
\<close>

theorem egg_import_not_atomic:
  assumes "imported_egg newId now j = Some e" and "\<not> egg_exists d newId" and "nest_exists d (egg_nestId e)"
    and "opt_ref (egg_exists d) (egg_copyScriptFrom e)"
    and "ej_variables j = Some vs" and "\<exists>v \<in> set vs. vj_name v = None \<or> vj_envVariable v = None"
  shows "EggsService_importEgg newId ids now j d = (Inl QueryFailedError, d\<lparr>db_eggs := db_eggs d @ [e]\<rparr>)"
proof -
  have i: "egg_id e = newId" using assms(1) by (auto simp: imported_egg_def split: option.splits)
  have s: "save_egg e d = Inr (d\<lparr>db_eggs := db_eggs d @ [e]\<rparr>)" using assms(2-4) by (intro save_new_egg) (simp_all add: i)
  obtain v n where v: "n < length vs" "vs ! n = v" "vj_name v = None \<or> vj_envVariable v = None"
    using assms(6) by (auto simp: in_set_conv_nth)
  then have "imported_variable ids now newId (n, v) = None" by (auto simp: imported_variable_def split: option.split)
  moreover have "(n, v) \<in> set (enumerate 0 vs)" using v by (auto simp: in_set_enumerate_eq)
  ultimately have "None \<in> set (map (imported_variable ids now newId) (enumerate 0 vs))" by force
  moreover have "vs \<noteq> []" using v by auto
  ultimately show ?thesis
    using assms(1,5) s by (cases vs) (simp_all add: EggsService_importEgg_def save_imported_def)
qed

theorem egg_import_not_atomic_witness:
  "let j = (egg_json demo_egg [])\<lparr>ej_variables := Some [(variable_json demo_eggVariable)\<lparr>vj_envVariable := None\<rparr>]\<rparr>;
       (r, d') = EggsService_importEgg ''e2'' (\<lambda>n. ''w'') 5 j demo_full
   in r = Inl QueryFailedError \<and> map egg_id (db_eggs d') = [''e1'', ''e2''] \<and> db_eggVariables d' = [demo_eggVariable]"
proof -
  let ?j = "(egg_json demo_egg [])\<lparr>ej_variables := Some [(variable_json demo_eggVariable)\<lparr>vj_envVariable := None\<rparr>]\<rparr>"
  let ?e = "demo_egg\<lparr>egg_id := ''e2'', egg_description := Some [], egg_scriptInstall := Some [], egg_createdAt := 5\<rparr>"
  have 1: "imported_egg ''e2'' 5 ?j = Some ?e"
    by (simp add: imported_egg_def egg_json_def demo_egg_def)
  have 2: "\<not> egg_exists demo_full ''e2''" "nest_exists demo_full (egg_nestId ?e)" "opt_ref (egg_exists demo_full) (egg_copyScriptFrom ?e)"
    by (simp_all add: exists_iff demo_egg_def) (simp add: demo_full_def)
  from egg_import_not_atomic [OF 1 2] show ?thesis
    by (simp add: Let_def demo_egg_def)
qed

section \<open>Updates and deletions\<close>

text \<open>
  Updating an egg with a list of variables replaces its variables by the ones of the
  body, in their order, and leaves those of every other egg; columns the body leaves out
  keep their values, and servers are not touched: their stored variables keep the old names.
\<close>

theorem egg_update_replaces_variables:
  assumes "db_ok d" and "findOne (\<lambda>e. egg_id e = i) (db_eggs d) = Some e" and "ued_variables dto = Some vs"
    and "opt_ref (egg_exists d) (ued_copyScriptFrom dto)"
    and "inj ids" and "\<forall>v \<in> set (db_eggVariables d). eggvar_id v \<notin> range ids"
    and "EggsService_updateEgg ids now i dto d = (r, d')"
  shows "is_ok r \<and> db_ok d' \<and>
    filter (\<lambda>v. eggvar_eggId v = i) (db_eggVariables d') = map (egg_variable ids now i) (enumerate 0 vs) \<and>
    filter (\<lambda>v. eggvar_eggId v \<noteq> i) (db_eggVariables d') = filter (\<lambda>v. eggvar_eggId v \<noteq> i) (db_eggVariables d) \<and>
    db_eggs d' = updateRows (\<lambda>x. egg_id x = i) (\<lambda>_. assign_egg dto e) (db_eggs d) \<and> db_servers d' = db_servers d"
proof -
  let ?e = "assign_egg dto e" and ?new = "map (egg_variable ids now i) (enumerate 0 vs)"
  let ?d1 = "d\<lparr>db_eggs := updateRows (\<lambda>x. egg_id x = i) (\<lambda>_. ?e) (db_eggs d)\<rparr>"
  let ?d2 = "?d1\<lparr>db_eggVariables := removeRows (\<lambda>v. eggvar_eggId v = i) (db_eggVariables d)\<rparr>"
  have e: "e \<in> set (db_eggs d)" "egg_id e = i" using assms(2) by (auto dest: findOne_Some)
  have cols: "egg_id ?e = i" "egg_nestId ?e = egg_nestId e" by (simp_all add: assign_egg_def e)
  have "nest_exists d (egg_nestId e) \<and> opt_ref (egg_exists d) (egg_copyScriptFrom e)"
    using assms(1) e by (auto simp: db_ok_def db_refs_def egg_children_ok_def)
  then have n: "nest_exists d (egg_nestId e)" and "opt_ref (egg_exists d) (egg_copyScriptFrom ?e)"
    using assms(4) by (auto simp: assign_egg_def split: option.splits)
  then have c: "opt_ref (\<lambda>c. c = i \<or> egg_exists d c) (egg_copyScriptFrom ?e)" by (auto elim: opt_ref_mono)
  have "hasRow (\<lambda>x. egg_id x = i) (db_eggs d)" using e by (auto simp: hasRow_iff)
  then have s: "save_egg ?e d = Inr ?d1"
    unfolding save_egg_def saveRow_def upsertRow_def cols using n c by (simp add: no_clash_def hasRow_iff)
  have ok2: "db_ok ?d2" using remove_leaf_ok(5) [OF save_ok(10) [OF s assms(1)]] by simp
  have ids: "map eggvar_id ?new = map ids [0..<length vs]" "map eggvar_eggId ?new = replicate (length vs) i"
    by (rule nth_equalityI; simp add: egg_variable_def nth_enumerate_eq)+
  then have new: "set (map eggvar_eggId ?new) \<subseteq> {i}" "set (map eggvar_id ?new) \<subseteq> range ids" by auto
  have "distinct (map eggvar_id ?new)" using assms(5) unfolding ids by (simp add: distinct_map inj_on_def)
  moreover have "egg_exists ?d2 i" using e cols by (force simp: exists_iff table_sets)
  then have "\<forall>v \<in> set ?new. egg_exists ?d2 (eggvar_eggId v)" using new(1) by auto
  moreover have "\<forall>v \<in> set ?new. \<forall>x \<in> set (db_eggVariables ?d2). eggvar_id x \<noteq> eggvar_id v"
  proof (intro ballI notI)
    fix v x
    assume "v \<in> set ?new" and x: "x \<in> set (db_eggVariables ?d2)" and "eggvar_id x = eggvar_id v"
    then have "eggvar_id x \<in> range ids" using new(2) by auto
    then show False using assms(6) x by (simp add: table_sets)
  qed
  ultimately have v: "save_variables ?e ?new ?d2 =
      (Inr \<lparr>se_egg = ?e, se_variables = Some ?new\<rparr>, ?d2\<lparr>db_eggVariables := db_eggVariables ?d2 @ ?new\<rparr>)"
    by (intro save_variables_append)
  have r: "is_ok r" "d' = ?d2\<lparr>db_eggVariables := db_eggVariables ?d2 @ ?new\<rparr>"
    using assms(2,3,7) v by (auto simp: EggsService_updateEgg_def s Let_def)
  have "db_ok d'" unfolding r(2) by (rule save_variables_ok [OF v ok2])
  moreover have "filter (\<lambda>v. eggvar_eggId v = i) ?new = ?new" "filter (\<lambda>v. eggvar_eggId v \<noteq> i) ?new = []"
    by (auto simp: egg_variable_def filter_empty_conv intro!: filter_True)
  ultimately show ?thesis using r by (simp add: removeRows_def)
qed

theorem egg_update_replaces_variables_witness:
  "let v = \<lparr>evd_name = ''World'', evd_description = [], evd_envVariable = ''WORLD'', evd_defaultValue = ''w'',
         evd_userViewable = True, evd_userEditable = True, evd_rules = ''string''\<rparr>;
       dto = \<lparr>ued_name = None, ued_description = None, ued_author = None, ued_dockerImage = None, ued_dockerImages = None,
         ued_startup = None, ued_configFiles = None, ued_configStartup = None, ued_configStop = None, ued_configLogs = None,
         ued_scriptInstall = None, ued_scriptEntry = None, ued_scriptContainer = None, ued_copyScriptFrom = None,
         ued_variables = Some [v]\<rparr>;
       d' = snd (EggsService_updateEgg (\<lambda>n. CHR ''w'' # show_nat n) 5 ''e1'' dto demo_full)
   in map eggvar_envVariable (filter (\<lambda>v. eggvar_eggId v = ''e1'') (db_eggVariables d')) = [''WORLD'']"
proof -
  let ?v = "\<lparr>evd_name = ''World'', evd_description = [], evd_envVariable = ''WORLD'', evd_defaultValue = ''w'',
         evd_userViewable = True, evd_userEditable = True, evd_rules = ''string''\<rparr>"
  let ?dto = "\<lparr>ued_name = None, ued_description = None, ued_author = None, ued_dockerImage = None, ued_dockerImages = None,
         ued_startup = None, ued_configFiles = None, ued_configStartup = None, ued_configStop = None, ued_configLogs = None,
         ued_scriptInstall = None, ued_scriptEntry = None, ued_scriptContainer = None, ued_copyScriptFrom = None,
         ued_variables = Some [?v]\<rparr>"
  let ?ids = "\<lambda>n. CHR ''w'' # show_nat n"
  have f: "findOne (\<lambda>e. egg_id e = ''e1'') (db_eggs demo_full) = Some demo_egg" by (simp add: findOne_def demo_egg_def)
  have "inj ?ids" by (auto intro: injI dest: show_nat_inj)
  moreover have "\<forall>v \<in> set (db_eggVariables demo_full). eggvar_id v \<notin> range ?ids" by (auto simp: demo_eggVariable_def)
  moreover obtain r d' where 1: "EggsService_updateEgg ?ids 5 ''e1'' ?dto demo_full = (r, d')" by force
  ultimately have "filter (\<lambda>v. eggvar_eggId v = ''e1'') (db_eggVariables d') = map (egg_variable ?ids 5 ''e1'') (enumerate 0 [?v])"
    using egg_update_replaces_variables [OF demo_full_ok f _ _ _ _ 1] by simp
  then show ?thesis by (simp add: Let_def 1) (simp add: egg_variable_def)
qed

text \<open>
  An egg that a server runs, or whose script another egg copies, is never deleted: the
  request ends in a database error and nothing changes.  Any other egg goes together with
  its variables and nothing else.
\<close>

theorem egg_delete_spec:
  assumes "db_ok d" and "findOne (\<lambda>e. egg_id e = i) (db_eggs d) = Some e"
  shows "EggsService_deleteEgg i d =
    (if (\<exists>s \<in> set (db_servers d). server_eggId s = i) \<or> (\<exists>x \<in> set (db_eggs d). egg_id x \<noteq> i \<and> egg_copyScriptFrom x = Some i)
     then (Inl QueryFailedError, d)
     else (Inr (), d\<lparr>db_eggs := removeRows (\<lambda>e. egg_id e = i) (db_eggs d),
                    db_eggVariables := removeRows (\<lambda>v. eggvar_eggId v = i) (db_eggVariables d)\<rparr>)) \<and>
    db_ok (snd (EggsService_deleteEgg i d))"
proof -
  have e: "e \<in> set (db_eggs d)" "egg_id e = i" using assms(2) by (auto dest: findOne_Some)
  have g: "set (map egg_id (filter (\<lambda>e. egg_id e = i) (db_eggs d))) = {i}" using e by auto
  have "remove_eggs (\<lambda>e. egg_id e = i) d =
    (if (\<exists>s \<in> set (db_servers d). server_eggId s = i) \<or> (\<exists>x \<in> set (db_eggs d). egg_id x \<noteq> i \<and> egg_copyScriptFrom x = Some i)
     then Inl QueryFailedError
     else Inr (d\<lparr>db_eggs := removeRows (\<lambda>e. egg_id e = i) (db_eggs d),
                    db_eggVariables := removeRows (\<lambda>v. eggvar_eggId v = i) (db_eggVariables d)\<rparr>))"
    unfolding remove_eggs_def Let_def g by (auto simp: hasRow_iff opt_ref_def split: option.splits)
  moreover have "db_ok (snd (EggsService_deleteEgg i d))"
    using assms by (auto simp: EggsService_deleteEgg_def split: option.split sum.split dest: remove_ok(4))
  ultimately show ?thesis using assms(2) e by (simp add: EggsService_deleteEgg_def)
qed

theorem egg_delete_spec_witness:
  "EggsService_deleteEgg ''e1'' demo_full = (Inl QueryFailedError, demo_full) \<and>
   db_eggs (snd (EggsService_deleteEgg ''e1'' (demo_full\<lparr>db_servers := [], db_allocations := []\<rparr>))) = []"
proof -
  have ok: "db_ok (demo_full\<lparr>db_servers := [], db_allocations := []\<rparr>)"
    by (simp add: demo_full_def demo_db_def empty_db_def demo_user_def demo_node_def demo_egg_def demo_eggVariable_def
        db_ok_def db_keys_def unique_rows_def user_clash_def children_defs exists_iff)
  have "findOne (\<lambda>e. egg_id e = ''e1'') (db_eggs demo_full) = Some demo_egg" by (simp add: findOne_def demo_egg_def)
  from egg_delete_spec [OF demo_full_ok this] egg_delete_spec [OF ok, of "''e1''" demo_egg] this show ?thesis
    by (simp add: demo_server_def) (simp add: removeRows_def demo_egg_def)
qed

end
