(* ===== verification/Events.thy ===== *)
theory Events
  imports ServersAccess
begin

text \<open>
  \<^verbatim>\<open>sse/sse.service.ts\<close> with its controller, and \<^verbatim>\<open>wings/event-handlers.ts\<close>: the
  event streams of the browsers and what the panel does with the events of the daemons.  The
  subject of a connection is the list of the messages it was given.
\<close>

section \<open>Events\<close>

record ServerStatsEvent =
  ste_uuid :: string
  ste_cpuPercent :: real
  ste_memoryBytes :: int
  ste_memoryLimit :: int
  ste_networkRxBytes :: int
  ste_networkTxBytes :: int
  ste_diskBytes :: int
  ste_timestampMs :: nat

text \<open>The \<open>data\<close> objects the handlers send, and the text of the keepalive.\<close>

datatype SseData =
    StatusData string string string \<comment> \<open>\<open>uuid\<close>, \<open>state\<close>, \<open>previousState\<close>\<close>
  | InstallCompleteData string
  | InstallFailedData string string \<comment> \<open>\<open>uuid\<close>, \<open>error\<close>\<close>
  | StatsData string real int int int int int
  | ConsoleData string string
  | KeepaliveData

record MessageEvent =
  me_type :: "string option"
  me_data :: SseData

record SseEvent =
  sse_type :: string
  sse_data :: SseData
  sse_targetUserIds :: "string list option"

record SseConnection =
  conn_subject :: "MessageEvent list"
  conn_userId :: string
  conn_isAdmin :: bool

text \<open>The database with the two services: the connections in the order of their insertion.\<close>

record event_panel = db +
  ep_connections :: "(string \<times> SseConnection) list"
  ep_serverStates :: "string \<Rightarrow> string option"
  ep_serverStats :: "string \<Rightarrow> ServerStatsEvent option"

section \<open>SseService\<close>

definition ADMIN_ONLY_EVENTS :: "string list" where
  "ADMIN_ONLY_EVENTS = [''node.status'', ''node.heartbeat'']"

definition OWNER_EVENTS :: "string list" where
  "OWNER_EVENTS =
     [''server.status'', ''server.install.complete'', ''server.install.failed'', ''server.created'',
      ''server.deleted'', ''server.stats'', ''server.console'']"

definition connections_get :: "'z event_panel_scheme \<Rightarrow> string \<Rightarrow> SseConnection option" where
  "connections_get s i = map_of (ep_connections s) i"

definition connections_set :: "string \<Rightarrow> SseConnection \<Rightarrow> 'z event_panel_scheme \<Rightarrow> 'z event_panel_scheme" where
  "connections_set i c s = s\<lparr>ep_connections := AList.update i c (ep_connections s)\<rparr>"

definition connections_delete :: "string \<Rightarrow> 'z event_panel_scheme \<Rightarrow> 'z event_panel_scheme" where
  "connections_delete i s = s\<lparr>ep_connections := AList.delete i (ep_connections s)\<rparr>"

interpretation connections_map: js_map connections_get connections_set connections_delete
  by unfold_locales (simp_all add: connections_get_def connections_set_def connections_delete_def update_conv' delete_conv')

definition subject_next :: "MessageEvent \<Rightarrow> SseConnection \<Rightarrow> SseConnection" where
  "subject_next m c = c\<lparr>conn_subject := conn_subject c @ [m]\<rparr>"

definition each_connection :: "(SseConnection \<Rightarrow> SseConnection) \<Rightarrow> 'z event_panel_scheme \<Rightarrow> 'z event_panel_scheme" where
  "each_connection f s = s\<lparr>ep_connections := map (\<lambda>(i, c). (i, f c)) (ep_connections s)\<rparr>"

definition keepalive :: "'z event_panel_scheme \<Rightarrow> 'z event_panel_scheme" where
  "keepalive s = each_connection (subject_next \<lparr>me_type = None, me_data = KeepaliveData\<rparr>) s"

definition SseService_addConnection :: "string \<Rightarrow> string \<Rightarrow> bool \<Rightarrow> 'z event_panel_scheme \<Rightarrow> 'z event_panel_scheme" where
  "SseService_addConnection connectionId userId isAdmin s =
     connections_set connectionId \<lparr>conn_subject = [], conn_userId = userId, conn_isAdmin = isAdmin\<rparr> s"

definition SseService_removeConnection :: "string \<Rightarrow> 'z event_panel_scheme \<Rightarrow> 'z event_panel_scheme" where
  "SseService_removeConnection connectionId s =
     (case connections_get s connectionId of None \<Rightarrow> s | Some conn \<Rightarrow> connections_delete connectionId s)"

definition shouldReceive :: "SseConnection \<Rightarrow> SseEvent \<Rightarrow> bool" where
  "shouldReceive conn event =
     (case sse_targetUserIds event of
        Some (t # ts) \<Rightarrow> conn_userId conn \<in> set (t # ts)
      | _ \<Rightarrow>
          if sse_type event \<in> set ADMIN_ONLY_EVENTS then conn_isAdmin conn
          else if sse_type event \<in> set OWNER_EVENTS then conn_isAdmin conn
          else True)"

definition SseService_emit :: "SseEvent \<Rightarrow> 'z event_panel_scheme \<Rightarrow> 'z event_panel_scheme" where
  "SseService_emit event s =
     each_connection (\<lambda>conn.
       if shouldReceive conn event
       then subject_next \<lparr>me_type = Some (sse_type event), me_data = sse_data event\<rparr> conn else conn) s"

definition SseService_emitToUser :: "string \<Rightarrow> SseEvent \<Rightarrow> 'z event_panel_scheme \<Rightarrow> 'z event_panel_scheme" where
  "SseService_emitToUser userId event s =
     each_connection (\<lambda>conn.
       if conn_userId conn = userId
       then subject_next \<lparr>me_type = Some (sse_type event), me_data = sse_data event\<rparr> conn else conn) s"

text \<open>The identifier the connection is closed with later is returned.\<close>

definition SseController_sse ::
  "ext \<Rightarrow> nat \<Rightarrow> Request \<Rightarrow> string \<Rightarrow> 'z event_panel_scheme \<Rightarrow> ('z event_panel_scheme, string) handled" where
  "SseController_sse X now req connectionId s =
     with_user X now req (\<lambda>u s. (Inr connectionId, SseService_addConnection connectionId (au_id u) (au_rootAdmin u) s)) s"

section \<open>EventHandlers\<close>

definition emit_plain :: "string \<Rightarrow> SseData \<Rightarrow> 'z event_panel_scheme \<Rightarrow> 'z event_panel_scheme" where
  "emit_plain t data s = SseService_emit \<lparr>sse_type = t, sse_data = data, sse_targetUserIds = None\<rparr> s"

definition handleStateChanged :: "string \<Rightarrow> string \<Rightarrow> string \<Rightarrow> 'z event_panel_scheme \<Rightarrow> 'z event_panel_scheme" where
  "handleStateChanged uuid previousState newState s =
     emit_plain ''server.status'' (StatusData uuid newState previousState)
       (s\<lparr>ep_serverStates := (ep_serverStates s)(uuid \<mapsto> newState)\<rparr>)"

text \<open>\<open>update({ uuid }, \<dots>)\<close> writes every row with that \<open>uuid\<close>.\<close>

definition update_by_uuid :: "string \<Rightarrow> (ServerEntity \<Rightarrow> ServerEntity) \<Rightarrow> 'z db_scheme \<Rightarrow> 'z db_scheme" where
  "update_by_uuid uuid f d = d\<lparr>db_servers := updateRows (\<lambda>s. server_uuid s = uuid) f (db_servers d)\<rparr>"

definition handleInstallComplete :: "string \<Rightarrow> 'z event_panel_scheme \<Rightarrow> 'z event_panel_scheme" where
  "handleInstallComplete uuid s =
     emit_plain ''server.install.complete'' (InstallCompleteData uuid)
       (update_by_uuid uuid (\<lambda>x. x\<lparr>server_installed := 1, server_status := None\<rparr>) s)"

definition handleInstallFailed :: "string \<Rightarrow> string \<Rightarrow> 'z event_panel_scheme \<Rightarrow> 'z event_panel_scheme" where
  "handleInstallFailed uuid errorMessage s =
     emit_plain ''server.install.failed'' (InstallFailedData uuid errorMessage)
       (update_by_uuid uuid (\<lambda>x. x\<lparr>server_installed := 2, server_status := Some INSTALL_FAILED\<rparr>) s)"

definition handleStats :: "ServerStatsEvent \<Rightarrow> 'z event_panel_scheme \<Rightarrow> 'z event_panel_scheme" where
  "handleStats event s =
     emit_plain ''server.stats''
       (StatsData (ste_uuid event) (ste_cpuPercent event) (ste_memoryBytes event) (ste_memoryLimit event)
          (ste_networkRxBytes event) (ste_networkTxBytes event) (ste_diskBytes event))
       (s\<lparr>ep_serverStats := (ep_serverStats s)(ste_uuid event \<mapsto> event)\<rparr>)"

definition handleConsole :: "string \<Rightarrow> string \<Rightarrow> 'z event_panel_scheme \<Rightarrow> 'z event_panel_scheme" where
  "handleConsole uuid line s = emit_plain ''server.console'' (ConsoleData uuid line) s"

definition getServerState :: "'z event_panel_scheme \<Rightarrow> string \<Rightarrow> string option" where
  "getServerState s uuid = ep_serverStates s uuid"

definition getServerStats :: "'z event_panel_scheme \<Rightarrow> string \<Rightarrow> ServerStatsEvent option" where
  "getServerStats s uuid = ep_serverStats s uuid"

definition clearServerCache :: "string \<Rightarrow> 'z event_panel_scheme \<Rightarrow> 'z event_panel_scheme" where
  "clearServerCache uuid s =
     s\<lparr>ep_serverStates := (ep_serverStates s)(uuid := None), ep_serverStats := (ep_serverStats s)(uuid := None)\<rparr>"

section \<open>Who is told\<close>

text \<open>An event of a daemon, as the event bus names them.\<close>

datatype daemon_event =
    StateChanged string string string
  | InstallComplete string
  | InstallFailed string string
  | Stats ServerStatsEvent
  | ConsoleOutput string string

fun handle_event :: "daemon_event \<Rightarrow> 'z event_panel_scheme \<Rightarrow> 'z event_panel_scheme" where
  "handle_event (StateChanged uuid p n) s = handleStateChanged uuid p n s"
| "handle_event (InstallComplete uuid) s = handleInstallComplete uuid s"
| "handle_event (InstallFailed uuid m) s = handleInstallFailed uuid m s"
| "handle_event (Stats e) s = handleStats e s"
| "handle_event (ConsoleOutput uuid line) s = handleConsole uuid line s"

lemma connections_update_by_uuid [simp]: "ep_connections (update_by_uuid uuid f s) = ep_connections s"
  by (simp add: update_by_uuid_def)

lemma emit_owner_event:
  "t \<in> set OWNER_EVENTS \<Longrightarrow> ep_connections (emit_plain t data s) =
     map (\<lambda>(i, c). (i, if conn_isAdmin c then subject_next \<lparr>me_type = Some t, me_data = data\<rparr> c else c)) (ep_connections s)"
  by (auto simp: emit_plain_def SseService_emit_def each_connection_def shouldReceive_def)

lemma emit_plain_db [simp]:
  "db.truncate (emit_plain t data s) = db.truncate s" "db_servers (emit_plain t data s) = db_servers s"
  "db_ok (emit_plain t data s) = db_ok s"
  by (simp_all add: emit_plain_def SseService_emit_def each_connection_def db.truncate_def db_ok_def db_keys_def children_defs exists_iff)

text \<open>
  Whatever event a daemon sends, each connection of an administrator is given exactly one
  message for it and no other connection is given anything: the owner of the server never
  learns of its status, console or installation this way.
\<close>

theorem daemon_events_admins_only:
  "\<exists>m. ep_connections (handle_event ev s) =
     map (\<lambda>(i, c). (i, if conn_isAdmin c then c\<lparr>conn_subject := conn_subject c @ [m]\<rparr> else c)) (ep_connections s)"
  by (cases ev)
    (auto simp: handleStateChanged_def handleInstallComplete_def handleInstallFailed_def handleStats_def handleConsole_def
       emit_owner_event OWNER_EVENTS_def subject_next_def)

lemma update_by_uuid_one:
  assumes "findOne (\<lambda>x. server_uuid x = uuid) (db_servers d) = Some x" and "distinct (map server_uuid (db_servers d))"
    and "distinct (map server_id (db_servers d))"
  shows "update_by_uuid uuid f d = update_server (server_id x) f d"
proof -
  have x: "x \<in> set (db_servers d)" "server_uuid x = uuid" using assms(1) by (auto dest: findOne_Some)
  have "server_uuid y = uuid \<longleftrightarrow> server_id y = server_id x" if "y \<in> set (db_servers d)" for y
    using distinct_map_key_eq [OF assms(2) that x(1)] distinct_map_key_eq [OF assms(3) that x(1)] x(2) by auto
  then show ?thesis by (simp add: update_by_uuid_def update_server_def updateRows_def)
qed

text \<open>
  The installation events and the installation callback of the HTTP interface write the
  same: for a server of the panel, an event of success (failure) leaves the database as the
  callback with success (failure) does, and the constraints hold.
\<close>

theorem install_event_equals_callback:
  assumes "db_ok s" and "findOne (\<lambda>x. server_uuid x = uuid) (db_servers s) = Some x"
    and "distinct (map server_uuid (db_servers s))"
  shows "db.truncate (handleInstallComplete uuid s) = db.truncate (snd (ServersService_updateInstallStatus uuid ''success'' s)) \<and>
    db.truncate (handleInstallFailed uuid m s) = db.truncate (snd (ServersService_updateInstallStatus uuid ''failed'' s)) \<and>
    db_ok (handleInstallComplete uuid s) \<and> db_ok (handleInstallFailed uuid m s)"
proof -
  have "distinct (map server_id (db_servers s))" using assms(1) by (simp add: db_ok_def db_keys_def unique_rows_def)
  note u = update_by_uuid_one [OF assms(2,3) this]
  have "db_ok (update_by_uuid uuid (\<lambda>x. x\<lparr>server_installed := 1, server_status := None\<rparr>) s)"
      "db_ok (update_by_uuid uuid (\<lambda>x. x\<lparr>server_installed := 2, server_status := Some INSTALL_FAILED\<rparr>) s)"
    unfolding u by (rule update_server_ok [OF assms(1)]; simp)+
  then show ?thesis
    using assms(2) by (simp add: handleInstallComplete_def handleInstallFailed_def u ServersService_updateInstallStatus_def)
qed

definition demo_events :: event_panel where
  "demo_events = db.extend demo_full (event_panel.fields
     [(''c1'', \<lparr>conn_subject = [], conn_userId = ''u1'', conn_isAdmin = True\<rparr>)] (\<lambda>_. None) (\<lambda>_. None))"

lemma demo_events_truncate: "db.truncate demo_events = demo_full"
  by (simp add: demo_events_def db.truncate_def db.extend_def)

theorem install_event_equals_callback_witness:
  "map server_installed (db_servers (handleInstallFailed ''uuid-1'' ''disk full'' demo_events)) = [2]"
proof -
  have s: "db_servers demo_events = [demo_server]" by (simp add: demo_events_def db.extend_def)
  have ok: "db_ok demo_events" using db_ok_truncate [of demo_events] by (simp add: demo_events_truncate demo_full_ok)
  have f: "findOne (\<lambda>x. server_uuid x = ''uuid-1'') (db_servers demo_events) = Some demo_server"
    by (simp add: s findOne_def demo_server_def)
  have "db.truncate (handleInstallFailed ''uuid-1'' ''disk full'' demo_events) =
      db.truncate (snd (ServersService_updateInstallStatus ''uuid-1'' ''failed'' demo_events))"
    using install_event_equals_callback [OF ok f, of "''disk full''"] by (simp add: s)
  then have "db_servers (handleInstallFailed ''uuid-1'' ''disk full'' demo_events) =
      db_servers (snd (ServersService_updateInstallStatus ''uuid-1'' ''failed'' demo_events))"
    by (auto simp: db.truncate_def dest: arg_cong [where f = db_servers])
  then show ?thesis unfolding ServersService_updateInstallStatus_def f by (simp add: s updateRows_def)
qed

end
