(* ===== verification/Panel.thy ===== *)
theory Panel
  imports Locations Files ServerDataProps Notifications ApiKeys EggsProps AuditLog Search
begin

text \<open>
  The HTTP interface of the backend as one transition system: a step is one request to one
  route, with the controller's guards, its body and the values it draws.  The routes that can
  write are grouped by the guard in front of them: public routes of
  \<^verbatim>\<open>auth.controller.ts\<close>, routes of a signed-in user, routes of an administrator (among them
  \<^verbatim>\<open>GET /nodes/:id/health\<close>, which records the connection status of the node) and routes of a
  daemon.  \<open>read_step\<close> holds the others, which answer from the database and leave it as it is.
  Three routes of the controllers are no step here: \<^verbatim>\<open>GET /auth/me\<close>, whose model returns no state at all,
  \<^verbatim>\<open>GET /health\<close>, which looks at no state, and \<^verbatim>\<open>/sse\<close>, which opens a stream in memory (\<open>Events\<close>).
\<close>

section \<open>Drawn identifiers\<close>

text \<open>A generated identifier is not empty and the primary key of no row of any table.\<close>

definition fresh_id :: "string \<Rightarrow> 'z db_scheme \<Rightarrow> bool" where
  "fresh_id i d \<longleftrightarrow> i \<noteq> [] \<and>
     \<not> user_exists d i \<and> \<not> server_exists d i \<and> \<not> hasRow (\<lambda>a. alloc_id a = i) (db_allocations d) \<and>
     \<not> hasRow (\<lambda>s. session_id s = i) (db_sessions d) \<and> \<not> hasRow (\<lambda>k. apikey_id k = i) (db_apiKeys d) \<and>
     \<not> node_exists d i \<and> \<not> location_exists d i \<and> \<not> nest_exists d i \<and> \<not> egg_exists d i \<and>
     \<not> schedule_exists d i \<and> \<not> hasRow (\<lambda>s. subuser_id s = i) (db_subusers d) \<and>
     \<not> hasRow (\<lambda>x. sdb_id x = i) (db_databases d)"

section \<open>Public routes\<close>

inductive public_step :: "ext \<Rightarrow> nat \<Rightarrow> Request \<Rightarrow> 'z db_scheme \<Rightarrow> 'z db_scheme \<Rightarrow> bool" for X now req where
  register: "fresh_id i s \<Longrightarrow> public_step X now req s (snd (AuthController_register X now i a dto s))"
| login: "fresh_id (dr_sessionId dr) s \<Longrightarrow> public_step X now req s (snd (AuthController_login X now production dr req ldto s))"
| second: "fresh_id (dr_sessionId dr) s \<Longrightarrow>
    public_step X now req s (snd (AuthController_verifyTwoFactorLogin X now production dr req token code s))"
| refresh: "public_step X now req s (snd (AuthController_refresh X now req s))"

section \<open>Routes of a signed-in user\<close>

inductive account_step :: "ext \<Rightarrow> nat \<Rightarrow> Request \<Rightarrow> 'z db_scheme \<Rightarrow> 'z db_scheme \<Rightarrow> bool" for X now req where
  logout: "account_step X now req s (snd (AuthController_logout X now req s))"
| begin_setup: "account_step X now req s (snd (AuthController_setupTwoFactor X now req secret s))"
| finish_setup: "account_step X now req s (snd (AuthController_verifyTwoFactor X now req codes code s))"
| disable: "account_step X now req s (snd (AuthController_disableTwoFactor X now req code s))"
| revoke: "account_step X now req s (snd (AuthController_revokeSession X now req i s))"
| profile: "account_step X now req s (snd (UsersController_updateMe X now req changes s))"
| mark_read: "account_step X now req s (snd (NotificationsController_markRead X now req ids s))"
| mark_all_read: "account_step X now req s (snd (NotificationsController_markAllRead X now req s))"
| key: "fresh_id i s \<Longrightarrow> account_step X now req s (snd (ApiKeysController_create X now req i hex kdto s))"
| drop_key: "account_step X now req s (snd (ApiKeysController_delete X now req i s))"

inductive server_step :: "ext \<Rightarrow> wings \<Rightarrow> nat \<Rightarrow> Request \<Rightarrow> 'z wings_panel_scheme \<Rightarrow> 'z wings_panel_scheme \<Rightarrow> bool" for X W now req where
  update: "server_step X W now req s (snd (ServersController_update X now req uuid dto s))"
| power: "server_step X W now req s (snd (ServersController_power X W now req uuid action s))"
| command: "server_step X W now req s (snd (ServersController_sendCommand X W now req uuid line s))"
| new_database: "fresh_id (dd_id dr) s \<Longrightarrow>
    server_step X W now req s (snd (DatabasesController_create X now req dr uuid ddto s))"
| drop_database: "server_step X W now req s (snd (DatabasesController_delete X now req uuid i s))"
| new_schedule: "fresh_id i s \<Longrightarrow> server_step X W now req s (snd (SchedulesController_create X now req i ids uuid cdto s))"
| update_schedule: "server_step X W now req s (snd (SchedulesController_update X now req ids uuid i udto s))"
| drop_schedule: "server_step X W now req s (snd (SchedulesController_delete X now req uuid i s))"
| execute: "server_step X W now req s (snd (SchedulesController_execute X now req uuid i s))"
| invite: "fresh_id i s \<Longrightarrow> server_step X W now req s (snd (SubusersController_invite X now req i uuid email perms s))"
| permit: "server_step X W now req s (snd (SubusersController_update X now req uuid i perms s))"
| expel: "server_step X W now req s (snd (SubusersController_remove X now req uuid i s))"
| list_files: "server_step X W now req s (snd (FilesController_listDirectory X W now req uuid path s))"
| read_file: "server_step X W now req s (snd (FilesController_readFile X W now req uuid path s))"
| write_file: "server_step X W now req s (snd (FilesController_writeFile X W now req uuid file content s))"
| make_directory: "server_step X W now req s (snd (FilesController_createDirectory X W now req uuid path0 name s))"
| rename: "server_step X W now req s (snd (FilesController_rename X W now req uuid file to s))"
| delete_files: "server_step X W now req s (snd (FilesController_deleteFiles X W now req uuid paths s))"
| compress: "server_step X W now req s (snd (FilesController_compress X W now req uuid paths to s))"
| decompress: "server_step X W now req s (snd (FilesController_decompress X W now req uuid file to s))"
| upload: "server_step X W now req s (snd (FilesController_upload X W now req uuid path upfile s))"

section \<open>Routes of an administrator\<close>

inductive admin_step :: "ext \<Rightarrow> wings \<Rightarrow> nat \<Rightarrow> Request \<Rightarrow> 'z wings_panel_scheme \<Rightarrow> 'z wings_panel_scheme \<Rightarrow> bool" for X W now req where
  new_user: "fresh_id i s \<Longrightarrow> admin_step X W now req s (snd (UsersController_create X now req i dto s))"
| update_user: "admin_step X W now req s (snd (UsersController_update X now req i changes s))"
| drop_user: "admin_step X W now req s (snd (UsersController_delete X now req i s))"
| admin_new_user: "fresh_id i s \<Longrightarrow> admin_step X W now req s (snd (AdminUsers_create X now req i dto s))"
| admin_update_user: "admin_step X W now req s (snd (AdminUsers_update X now req i changes s))"
| admin_drop_user: "admin_step X W now req s (snd (AdminUsers_delete X now req i s))"
| new_location: "fresh_id i s \<Longrightarrow> admin_step X W now req s (snd (LocationsController_create X now req i ldto s))"
| update_location: "admin_step X W now req s (snd (LocationsController_update X now req i uldto s))"
| drop_location: "admin_step X W now req s (snd (LocationsController_delete X now req i s))"
| new_allocations: "(\<And>p. fresh_id (ids p) s) \<Longrightarrow>
    admin_step X W now req s (snd (AllocationsController_create X now req ids adto s))"
| drop_allocation: "admin_step X W now req s (snd (AllocationsController_delete X now req i s))"
| admin_new_allocations: "(\<And>p. fresh_id (ids p) s) \<Longrightarrow>
    admin_step X W now req s (snd (AdminAllocations_create X now req ids node nadto s))"
| admin_drop_allocation: "admin_step X W now req s (snd (AdminAllocations_delete X now req node i s))"
| admin_drop_allocations: "admin_step X W now req s (snd (AdminAllocations_bulkDelete X now req node s))"
| new_node: "fresh_id i s \<Longrightarrow> admin_step X W now req s (snd (NodesController_create X now req i tid tok url ndto s))"
| token: "admin_step X W now req s (snd (NodesController_regenerateToken X now req tid tok url i s))"
| update_node: "admin_step X W now req s (snd (NodesController_update X now req i undto s))"
| health: "admin_step X W now req s (snd (NodesController_getHealth X now req i s))"
| drop_node: "admin_step X W now req s (snd (NodesController_delete X now req i s))"
| admin_new_node: "fresh_id i s \<Longrightarrow> admin_step X W now req s (snd (AdminNodes_create X now req i tid tok url ndto s))"
| admin_update_node: "admin_step X W now req s (snd (AdminNodes_update X now req i undto s))"
| admin_drop_node: "admin_step X W now req s (snd (AdminNodes_delete X now req i s))"
| new_server: "fresh_id (sd_id dr) s \<Longrightarrow> admin_step X W now req s (snd (ServersController_create X W now req dr csdto s))"
| drop_server: "admin_step X W now req s (snd (ServersController_delete X W now req uuid s))"
| suspend: "admin_step X W now req s (snd (ServersController_suspend X W now req uuid s))"
| unsuspend: "admin_step X W now req s (snd (ServersController_unsuspend X now req uuid s))"
| reinstall: "admin_step X W now req s (snd (ServersController_reinstall X W now req uuid s))"
| new_nest: "fresh_id i s \<Longrightarrow> admin_step X W now req s (snd (EggsController_createNest X now req i cndto s))"
| new_egg: "fresh_id i s \<Longrightarrow> admin_step X W now req s (snd (EggsController_createEgg X now req i nids cedto s))"
| update_egg: "admin_step X W now req s (snd (EggsController_updateEgg X now req nids i uedto s))"
| drop_egg: "admin_step X W now req s (snd (EggsController_deleteEgg X now req i s))"
| import_egg: "fresh_id i s \<Longrightarrow> admin_step X W now req s (snd (EggsController_importEgg X now req i nids json s))"

section \<open>Routes of a daemon\<close>

inductive daemon_step :: "nat \<Rightarrow> Request \<Rightarrow> 'z node_panel_scheme \<Rightarrow> 'z node_panel_scheme \<Rightarrow> bool" for now req where
  heartbeat: "daemon_step now req s (snd (NodesController_heartbeat now req hdto s))"
| installed: "daemon_step now req s (snd (ServerCallbacks_installStatus req uuid status s))"

section \<open>Routes that read\<close>

inductive read_step :: "ext \<Rightarrow> nat \<Rightarrow> Request \<Rightarrow> 'z node_panel_scheme \<Rightarrow> 'z node_panel_scheme \<Rightarrow> bool" for X now req where
  sessions: "read_step X now req s (snd (AuthController_getSessions X now req s))"
| me: "read_step X now req s (snd (UsersController_getMe X now req s))"
| users: "read_step X now req s (snd (UsersController_findAll X now req page perPage search s))"
| user: "read_step X now req s (snd (UsersController_findById X now req i s))"
| servers: "read_step X now req s (snd (ServersController_findAll X now req page perPage search s))"
| server: "read_step X now req s (snd (ServersController_findByUuid X now req uuid s))"
| configuration: "read_step X now req s (snd (NodesController_getConfiguration appUrl req s))"
| nodes: "read_step X now req s (snd (NodesController_findAll X now req page perPage search s))"
| node: "read_step X now req s (snd (NodesController_findById X now req i s))"
| allocations: "read_step X now req s (snd (AllocationsController_findByNode X now req i page perPage s))"
| databases: "read_step X now req s (snd (DatabasesController_findByServer X now req uuid s))"
| schedules: "read_step X now req s (snd (SchedulesController_findByServer X now req uuid s))"
| schedule: "read_step X now req s (snd (SchedulesController_findById X now req uuid i s))"
| subusers: "read_step X now req s (snd (SubusersController_findByServer X now req uuid s))"
| keys: "read_step X now req s (snd (ApiKeysController_findAll X now req s))"
| audit_log: "read_step X now req s (snd (AuditLogController_findAll X now req page perPage event userId s))"
| notifications: "read_step X now req s (snd (NotificationsController_findAll X now req page perPage s))"
| unread: "read_step X now req s (snd (NotificationsController_unreadCount X now req s))"
| search: "read_step X now req s (snd (SearchController_search X now req query s))"
| dashboard: "read_step X now req s (snd (AdminController_getDashboard X now req s))"
| impersonate: "read_step X now req s (snd (AdminController_impersonate X now req i s))"
| admin_nodes: "read_step X now req s (snd (AdminNodes_findAll X now req page perPage search s))"
| admin_node: "read_step X now req s (snd (AdminNodes_findById X now req i s))"
| admin_users: "read_step X now req s (snd (AdminUsers_findAll X now req page perPage search s))"
| admin_user: "read_step X now req s (snd (AdminUsers_findById X now req i s))"
| admin_allocations: "read_step X now req s (snd (AdminAllocations_findByNode X now req i page perPage s))"
| locations: "read_step X now req s (snd (LocationsController_findAll X now req s))"
| location: "read_step X now req s (snd (LocationsController_findById X now req i s))"
| nests: "read_step X now req s (snd (EggsController_findAllNests X now req s))"
| eggs: "read_step X now req s (snd (EggsController_findAllEggs X now req nestId s))"
| egg: "read_step X now req s (snd (EggsController_findEggById X now req i s))"
| export: "read_step X now req s (snd (EggsController_exportEgg X now req i s))"

lemma handler_reads:
  "(\<And>u. snd (h u s) = s) \<Longrightarrow> snd (with_user X now req h s) = s"
  "(\<And>u. snd (h u s) = s) \<Longrightarrow> snd (with_admin X now req h s) = s"
  "(\<And>n. snd (hn n s) = s) \<Longrightarrow> snd (with_daemon req hn s) = s"
  "(\<And>full. snd (ha full s) = s) \<Longrightarrow> snd (with_server_access uuid u ha s) = s"
  by (simp_all add: with_user_def with_admin_def with_daemon_def with_server_access_def split: sum.split unit.split)

lemma read_step_same: "read_step X now req s t \<Longrightarrow> t = s"
  by (cases rule: read_step.cases)
    (simp_all add: AdminAllocations_findByNode_def AdminController_getDashboard_def AdminController_impersonate_def
      AdminNodes_findAll_def AdminNodes_findById_def AdminUsers_findAll_def AdminUsers_findById_def
      AllocationsController_findByNode_def ApiKeysController_findAll_def AuditLogController_findAll_def
      AuthController_getSessions_def DatabasesController_findByServer_def EggsController_exportEgg_def
      EggsController_findAllEggs_def EggsController_findAllNests_def EggsController_findEggById_def
      LocationsController_findAll_def LocationsController_findById_def NodesController_findAll_def
      NodesController_findById_def NodesController_getConfiguration_def NotificationsController_findAll_def
      NotificationsController_unreadCount_def SchedulesController_findById_def SchedulesController_findByServer_def
      SearchController_search_def ServersController_findAll_def ServersController_findByUuid_def
      SubusersController_findByServer_def UsersController_findAll_def UsersController_findById_def
      UsersController_getMe_def
      handler_reads split: option.split)

section \<open>The panel\<close>

inductive panel_step :: "ext \<Rightarrow> wings \<Rightarrow> nat \<Rightarrow> Request \<Rightarrow> 'z wings_panel_scheme \<Rightarrow> 'z wings_panel_scheme \<Rightarrow> bool" for X W now req where
  public: "public_step X now req s t \<Longrightarrow> panel_step X W now req s t"
| account: "account_step X now req s t \<Longrightarrow> panel_step X W now req s t"
| server: "server_step X W now req s t \<Longrightarrow> panel_step X W now req s t"
| admin: "admin_step X W now req s t \<Longrightarrow> panel_step X W now req s t"
| daemon: "daemon_step now req s t \<Longrightarrow> panel_step X W now req s t"
| "read": "read_step X now req s t \<Longrightarrow> panel_step X W now req s t"

inductive_cases public_stepE: "public_step X now req s t"
inductive_cases account_stepE: "account_step X now req s t"
inductive_cases server_stepE: "server_step X W now req s t"
inductive_cases admin_stepE: "admin_step X W now req s t"
inductive_cases daemon_stepE: "daemon_step now req s t"
inductive_cases panel_stepE: "panel_step X W now req s t"

end
