(* ===== verification/PanelInvariant.thy ===== *)
theory PanelInvariant
  imports Panel
begin

text \<open>
  What holds of the database whatever requests the panel has served: the constraints of the
  tables, and the placement of the servers: a server and its allocation name each other and
  are on the same node.
\<close>

section \<open>Placement\<close>

definition placed :: "'z db_scheme \<Rightarrow> bool" where
  "placed d \<longleftrightarrow>
     (\<forall>s \<in> set (db_servers d). server_id s \<noteq> [] \<and> (\<exists>a \<in> set (db_allocations d).
        alloc_id a = server_allocationId s \<and> alloc_nodeId a = server_nodeId s \<and> alloc_serverId a = Some (server_id s))) \<and>
     (\<forall>a \<in> set (db_allocations d). \<forall>i. alloc_serverId a = Some i \<longrightarrow>
        (\<exists>s \<in> set (db_servers d). server_id s = i \<and> server_allocationId s = alloc_id a))"

definition panel_ok :: "'z db_scheme \<Rightarrow> bool" where
  "panel_ok d \<longleftrightarrow> db_ok d \<and> placed d"

named_theorems panel_intros "what keeps the invariant of the panel"

lemma panel_okI: "db_ok d \<Longrightarrow> placed d \<Longrightarrow> panel_ok d"
  by (simp add: panel_ok_def)

lemma panel_ok_db: "panel_ok d \<Longrightarrow> db_ok d"
  by (simp add: panel_ok_def)

lemma placed_frame: "db_servers d' = db_servers d \<Longrightarrow> db_allocations d' = db_allocations d \<Longrightarrow> placed d' = placed d"
  by (simp add: placed_def)

lemma placed_allocation:
  "placed d \<Longrightarrow> s \<in> set (db_servers d) \<Longrightarrow> \<exists>a \<in> set (db_allocations d).
     alloc_id a = server_allocationId s \<and> alloc_nodeId a = server_nodeId s \<and> alloc_serverId a = Some (server_id s)"
  by (simp add: placed_def)

lemma placed_server:
  "placed d \<Longrightarrow> a \<in> set (db_allocations d) \<Longrightarrow> alloc_serverId a = Some i \<Longrightarrow>
   \<exists>s \<in> set (db_servers d). server_id s = i \<and> server_allocationId s = alloc_id a"
  by (simp add: placed_def)

lemma panel_frame:
  "panel_ok d \<Longrightarrow> db_ok d' \<Longrightarrow> db_servers d' = db_servers d \<and> db_allocations d' = db_allocations d \<Longrightarrow> panel_ok d'"
  by (simp add: panel_ok_def placed_def)

section \<open>Statements\<close>

lemma saved_placement:
  "save_user r0 d = Inr d' \<Longrightarrow> db_servers d' = db_servers d \<and> db_allocations d' = db_allocations d"
  "save_session r1 d = Inr d' \<Longrightarrow> db_servers d' = db_servers d \<and> db_allocations d' = db_allocations d"
  "save_apiKey r2 d = Inr d' \<Longrightarrow> db_servers d' = db_servers d \<and> db_allocations d' = db_allocations d"
  "save_notification r3 d = Inr d' \<Longrightarrow> db_servers d' = db_servers d \<and> db_allocations d' = db_allocations d"
  "save_auditLog r4 d = Inr d' \<Longrightarrow> db_servers d' = db_servers d \<and> db_allocations d' = db_allocations d"
  "save_location r5 d = Inr d' \<Longrightarrow> db_servers d' = db_servers d \<and> db_allocations d' = db_allocations d"
  "save_node r6 d = Inr d' \<Longrightarrow> db_servers d' = db_servers d \<and> db_allocations d' = db_allocations d"
  "save_nest r8 d = Inr d' \<Longrightarrow> db_servers d' = db_servers d \<and> db_allocations d' = db_allocations d"
  "save_egg r9 d = Inr d' \<Longrightarrow> db_servers d' = db_servers d \<and> db_allocations d' = db_allocations d"
  "save_eggVariable r10 d = Inr d' \<Longrightarrow> db_servers d' = db_servers d \<and> db_allocations d' = db_allocations d"
  "save_subuser r12 d = Inr d' \<Longrightarrow> db_servers d' = db_servers d \<and> db_allocations d' = db_allocations d"
  "save_database r13 d = Inr d' \<Longrightarrow> db_servers d' = db_servers d \<and> db_allocations d' = db_allocations d"
  "save_schedule r15 d = Inr d' \<Longrightarrow> db_servers d' = db_servers d \<and> db_allocations d' = db_allocations d"
  "save_scheduleTask r16 d = Inr d' \<Longrightarrow> db_servers d' = db_servers d \<and> db_allocations d' = db_allocations d"
  by (auto simp: save_defs map_sum_Inr)

lemma save_keeps_panel [panel_intros]:
  "save_user r0 d = Inr d' \<Longrightarrow> panel_ok d \<Longrightarrow> panel_ok d'"
  "save_session r1 d = Inr d' \<Longrightarrow> panel_ok d \<Longrightarrow> panel_ok d'"
  "save_apiKey r2 d = Inr d' \<Longrightarrow> panel_ok d \<Longrightarrow> panel_ok d'"
  "save_notification r3 d = Inr d' \<Longrightarrow> panel_ok d \<Longrightarrow> panel_ok d'"
  "save_auditLog r4 d = Inr d' \<Longrightarrow> panel_ok d \<Longrightarrow> panel_ok d'"
  "save_location r5 d = Inr d' \<Longrightarrow> panel_ok d \<Longrightarrow> panel_ok d'"
  "save_node r6 d = Inr d' \<Longrightarrow> panel_ok d \<Longrightarrow> panel_ok d'"
  "save_nest r8 d = Inr d' \<Longrightarrow> panel_ok d \<Longrightarrow> panel_ok d'"
  "save_egg r9 d = Inr d' \<Longrightarrow> panel_ok d \<Longrightarrow> panel_ok d'"
  "save_eggVariable r10 d = Inr d' \<Longrightarrow> panel_ok d \<Longrightarrow> panel_ok d'"
  "save_subuser r12 d = Inr d' \<Longrightarrow> panel_ok d \<Longrightarrow> panel_ok d'"
  "save_database r13 d = Inr d' \<Longrightarrow> panel_ok d \<Longrightarrow> panel_ok d'"
  "save_schedule r15 d = Inr d' \<Longrightarrow> panel_ok d \<Longrightarrow> panel_ok d'"
  "save_scheduleTask r16 d = Inr d' \<Longrightarrow> panel_ok d \<Longrightarrow> panel_ok d'"
  by (rule panel_frame, assumption, erule save_ok, erule panel_ok_db, erule saved_placement)+

lemma remove_leaf_keeps [panel_intros]:
  "panel_ok d \<Longrightarrow> panel_ok (d\<lparr>db_sessions := removeRows P1 (db_sessions d)\<rparr>)"
  "panel_ok d \<Longrightarrow> panel_ok (d\<lparr>db_apiKeys := removeRows P2 (db_apiKeys d)\<rparr>)"
  "panel_ok d \<Longrightarrow> panel_ok (d\<lparr>db_notifications := removeRows P3 (db_notifications d)\<rparr>)"
  "panel_ok d \<Longrightarrow> panel_ok (d\<lparr>db_eggVariables := removeRows P5 (db_eggVariables d)\<rparr>)"
  "panel_ok d \<Longrightarrow> panel_ok (d\<lparr>db_subusers := removeRows P6 (db_subusers d)\<rparr>)"
  "panel_ok d \<Longrightarrow> panel_ok (d\<lparr>db_databases := removeRows P7 (db_databases d)\<rparr>)"
  "panel_ok d \<Longrightarrow> panel_ok (remove_scheduleTasks P8 d)"
  by (rule panel_frame, assumption, rule remove_leaf_ok, erule panel_ok_db, simp add: remove_scheduleTasks_def)+

lemma placed_cascade:
  assumes "panel_ok d" and "set (db_servers d') \<subseteq> set (db_servers d)"
    and "set (db_allocations d') \<subseteq> set (db_allocations d)" and "allocation_refs d'"
    and "\<And>s a. s \<in> set (db_servers d') \<Longrightarrow> a \<in> set (db_allocations d) \<Longrightarrow> alloc_nodeId a = server_nodeId s \<Longrightarrow>
      a \<in> set (db_allocations d')"
  shows "placed d'"
proof -
  have p: "placed d" and dist: "distinct (map server_id (db_servers d))"
    using assms(1) by (simp_all add: panel_ok_def db_ok_def db_keys_def unique_rows_def)
  have "\<exists>s \<in> set (db_servers d'). server_id s = i \<and> server_allocationId s = alloc_id a"
    if a: "a \<in> set (db_allocations d')" "alloc_serverId a = Some i" for a i
  proof -
    have refs: "server_exists d' i"
      using assms(4) a by (force simp: allocation_refs_def list_all_iff opt_ref_def)
    obtain s where s: "s \<in> set (db_servers d')" "server_id s = i"
      using refs by (auto simp: exists_iff)
    obtain t where t: "t \<in> set (db_servers d)" "server_id t = i" "server_allocationId t = alloc_id a"
      using placed_server [OF p _ a(2)] a(1) assms(3) by blast
    have "s = t" using dist s t assms(2) by (auto simp: distinct_map inj_on_def)
    then show ?thesis using s t by auto
  qed
  moreover have "\<exists>a \<in> set (db_allocations d'). alloc_id a = server_allocationId s \<and> alloc_nodeId a = server_nodeId s \<and>
      alloc_serverId a = Some (server_id s)" if s: "s \<in> set (db_servers d')" for s
  proof -
    obtain a where "a \<in> set (db_allocations d)" "alloc_id a = server_allocationId s" "alloc_nodeId a = server_nodeId s"
      "alloc_serverId a = Some (server_id s)"
      using placed_allocation [OF p] s assms(2) by blast
    then show ?thesis using assms(5) [OF s] by blast
  qed
  moreover have "server_id s \<noteq> []" if "s \<in> set (db_servers d')" for s
    using p assms(2) that by (auto simp: placed_def)
  ultimately show ?thesis by (simp add: placed_def)
qed

lemma remove_keeps [panel_intros]:
  "remove_user i d = Inr d' \<Longrightarrow> panel_ok d \<Longrightarrow> panel_ok d'"
  "remove_node i d = Inr d' \<Longrightarrow> panel_ok d \<Longrightarrow> panel_ok d'"
  "remove_eggs P d = Inr d' \<Longrightarrow> panel_ok d \<Longrightarrow> panel_ok d'"
  "remove_nest i d = Inr d' \<Longrightarrow> panel_ok d \<Longrightarrow> panel_ok d'"
  "panel_ok d \<Longrightarrow> panel_ok (remove_location i d)"
proof -
  assume r: "remove_user i d = Inr d'" and ok: "panel_ok d"
  have "placed d'" using ok
    by (rule placed_cascade) (use r in \<open>auto simp: remove_defs Let_def table_sets split: if_splits\<close>)
  then show "panel_ok d'" using remove_ok(2) [OF r] ok by (simp add: panel_ok_def)
next
  assume r: "remove_node i d = Inr d'" and ok: "panel_ok d"
  have "placed d'" using ok
    by (rule placed_cascade) (use r in \<open>auto simp: remove_defs Let_def table_sets split: if_splits\<close>)
  then show "panel_ok d'" using remove_ok(3) [OF r] ok by (simp add: panel_ok_def)
next
  assume r: "remove_eggs P d = Inr d'" and ok: "panel_ok d"
  show "panel_ok d'" using ok remove_ok(4) [OF r panel_ok_db [OF ok]]
    by (rule panel_frame) (use r in \<open>auto simp: remove_defs Let_def split: if_splits\<close>)
next
  assume r: "remove_nest i d = Inr d'" and ok: "panel_ok d"
  show "panel_ok d'" using ok remove_ok(5) [OF r panel_ok_db [OF ok]]
    by (rule panel_frame) (use r in \<open>auto simp: remove_defs Let_def map_sum_Inr split: if_splits\<close>)
next
  assume ok: "panel_ok d"
  show "panel_ok (remove_location i d)" using ok remove_ok(6) [OF panel_ok_db [OF ok]]
    by (rule panel_frame) (simp add: remove_location_def)
qed

section \<open>Services\<close>

lemma auth_keeps [panel_intros]:
  "panel_ok d \<Longrightarrow> panel_ok (set_lastLogin i now d)"
  "AuditLogService_log i now u ev ip md d = Inr d' \<Longrightarrow> panel_ok d \<Longrightarrow> panel_ok d'"
  subgoal by (rule panel_frame, assumption, rule set_lastLogin_ok, erule panel_ok_db) (simp add: set_lastLogin_def)
  subgoal by (rule panel_frame, assumption, erule audit_log_ok, erule panel_ok_db)
      (auto simp: AuditLogService_log_def dest: saved_placement)
  done

lemma each_keeps [panel_intros]:
  "save_each save_scheduleTask ts d = Inr d' \<Longrightarrow> panel_ok d \<Longrightarrow> panel_ok d'"
  "save_each save_eggVariable vs d = Inr d' \<Longrightarrow> panel_ok d \<Longrightarrow> panel_ok d'"
  by (erule save_each_keeps [where I = panel_ok], erule save_keeps_panel, assumption, assumption)+

lemma save_with_tasks_keeps [panel_intros]: "save_with_tasks schedule ts d = Inr d' \<Longrightarrow> panel_ok d \<Longrightarrow> panel_ok d'"
  by (auto simp: save_with_tasks_def split: sum.splits intro: panel_intros)

lemma remove_schedules_keeps [panel_intros]: "panel_ok d \<Longrightarrow> panel_ok (remove_schedules P d)"
proof (rule panel_frame, assumption)
  assume "panel_ok d"
  then have "db_ok d" by (rule panel_ok_db)
  then show "db_ok (remove_schedules P d)"
    by (auto simp: db_ok_def db_keys_def unique_rows_remove children_defs exists_iff table_sets remove_defs Let_def image_iff) metis
qed (simp add: remove_defs Let_def)

lemmas handler_splits = option.splits if_splits sum.splits list.splits prod.splits

lemma session_keeps [panel_intros]:
  "panel_ok d \<Longrightarrow> panel_ok (snd (open_session X now dr user ip ua d))"
  unfolding Let_def open_session_def
  by (auto split: handler_splits intro: panel_intros)

lemma auth_service_keeps [panel_intros]:
  "panel_ok d \<Longrightarrow> panel_ok (snd (AuthService_register X now i a dto d))"
  "panel_ok d \<Longrightarrow> panel_ok (snd (AuthService_login X now dr ldto ip ua d))"
  "panel_ok d \<Longrightarrow> panel_ok (snd (AuthService_refreshToken X now tok d))"
  "panel_ok d \<Longrightarrow> panel_ok (snd (AuthService_setupTwoFactor X secret u d))"
  "panel_ok d \<Longrightarrow> panel_ok (snd (AuthService_verifyTwoFactorSetup X now codes u code d))"
  "panel_ok d \<Longrightarrow> panel_ok (snd (AuthService_disableTwoFactor X now u code d))"
  "panel_ok d \<Longrightarrow> panel_ok (snd (AuthService_verifyTwoFactorLogin X now dr tok code ip ua d))"
  "panel_ok d \<Longrightarrow> panel_ok (snd (AuthService_revokeSession u i d))"
  unfolding Let_def AuthService_register_def AuthService_login_def AuthService_refreshToken_def AuthService_setupTwoFactor_def AuthService_verifyTwoFactorSetup_def AuthService_disableTwoFactor_def AuthService_verifyTwoFactorLogin_def AuthService_revokeSession_def
  by (auto split: handler_splits intro: panel_intros)

lemma insert_user_keeps [panel_intros]:
  "panel_ok d \<Longrightarrow> panel_ok (snd (insert_user X now i cdto d))"
  unfolding Let_def insert_user_def
  by (auto split: handler_splits intro: panel_intros)

lemma user_service_keeps [panel_intros]:
  "panel_ok d \<Longrightarrow> panel_ok (snd (UsersService_create X now i cdto d))"
  "panel_ok d \<Longrightarrow> panel_ok (snd (UsersService_update X i changes d))"
  "panel_ok d \<Longrightarrow> panel_ok (snd (UsersService_delete i d))"
  unfolding Let_def UsersService_create_def UsersService_update_def UsersService_delete_def
  by (auto split: handler_splits intro: panel_intros)

lemma location_service_keeps [panel_intros]:
  "panel_ok d \<Longrightarrow> panel_ok (snd (LocationsService_create i now short long d))"
  "panel_ok d \<Longrightarrow> panel_ok (snd (LocationsService_update i short' long' d))"
  "panel_ok d \<Longrightarrow> panel_ok (snd (LocationsService_delete i d))"
  unfolding Let_def LocationsService_create_def LocationsService_update_def LocationsService_delete_def
  by (auto split: handler_splits intro: panel_intros)

lemma node_service_keeps [panel_intros]:
  "panel_ok d \<Longrightarrow> panel_ok (snd (NodesService_create X now i tid tok url ndto d))"
  "panel_ok d \<Longrightarrow> panel_ok (snd (NodesService_update i undto d))"
  "panel_ok d \<Longrightarrow> panel_ok (snd (NodesService_delete i d))"
  unfolding Let_def NodesService_create_def NodesService_update_def NodesService_delete_def
  by (auto split: handler_splits intro: panel_intros)

lemma database_service_keeps [panel_intros]:
  "panel_ok d \<Longrightarrow> panel_ok (snd (DatabasesService_create dr now i ddto d))"
  "panel_ok d \<Longrightarrow> panel_ok (snd (DatabasesService_delete i d))"
  unfolding Let_def DatabasesService_create_def DatabasesService_delete_def
  by (auto split: handler_splits intro: panel_intros)

lemma schedule_service_keeps [panel_intros]:
  "panel_ok d \<Longrightarrow> panel_ok (snd (SchedulesService_create i ids now sid csdto d))"
  "panel_ok d \<Longrightarrow> panel_ok (snd (SchedulesService_update ids now i usdto d))"
  "panel_ok d \<Longrightarrow> panel_ok (snd (SchedulesService_delete i d))"
  "panel_ok d \<Longrightarrow> panel_ok (snd (SchedulesService_executeSchedule now i d))"
  unfolding Let_def SchedulesService_create_def SchedulesService_update_def SchedulesService_delete_def SchedulesService_executeSchedule_def
  by (auto split: handler_splits intro: panel_intros)

lemma subuser_service_keeps [panel_intros]:
  "panel_ok d \<Longrightarrow> panel_ok (snd (SubusersService_invite i now sid email perms d))"
  "panel_ok d \<Longrightarrow> panel_ok (snd (SubusersService_update i perms d))"
  "panel_ok d \<Longrightarrow> panel_ok (snd (SubusersService_remove i d))"
  unfolding Let_def SubusersService_invite_def SubusersService_update_def SubusersService_remove_def
  by (auto split: handler_splits intro: panel_intros)

lemma apikey_service_keeps [panel_intros]:
  "panel_ok d \<Longrightarrow> panel_ok (snd (ApiKeysService_create X i hex now u kdto d))"
  "panel_ok d \<Longrightarrow> panel_ok (snd (ApiKeysService_delete u i d))"
  unfolding Let_def ApiKeysService_create_def ApiKeysService_delete_def
  by (auto split: handler_splits intro: panel_intros)

lemma egg_save_keeps [panel_intros]:
  "panel_ok d \<Longrightarrow> panel_ok (snd (save_new_nest i now author name text d))"
  "panel_ok d \<Longrightarrow> panel_ok (snd (save_variables e vs d))"
  "panel_ok d \<Longrightarrow> panel_ok (snd (save_imported e os d))"
  unfolding Let_def save_new_nest_def save_variables_def save_imported_def
  by (auto split: handler_splits intro: panel_intros)

lemma egg_service_keeps [panel_intros]:
  "panel_ok d \<Longrightarrow> panel_ok (snd (EggsService_createNest i now cndto d))"
  "panel_ok d \<Longrightarrow> panel_ok (snd (EggsService_createEgg i ids now cedto d))"
  "panel_ok d \<Longrightarrow> panel_ok (snd (EggsService_updateEgg ids now i uedto d))"
  "panel_ok d \<Longrightarrow> panel_ok (snd (EggsService_deleteEgg i d))"
  "panel_ok d \<Longrightarrow> panel_ok (snd (EggsService_importEgg i ids now json d))"
  unfolding Let_def EggsService_createNest_def EggsService_createEgg_def EggsService_updateEgg_def EggsService_deleteEgg_def EggsService_importEgg_def
  by (auto split: handler_splits intro: panel_intros)

lemma notification_service_keeps [panel_intros]:
  "panel_ok d \<Longrightarrow> panel_ok (mark_read P d)"
  by (rule panel_frame, assumption, rule mark_read_ok, erule panel_ok_db) (simp add: mark_read_def)

lemma update_node_keeps [panel_intros]:
  assumes "panel_ok d" and "\<And>n. node_id (f n) = node_id n" "\<And>n. node_name (f n) = node_name n"
    and "\<And>n. node_locationId (f n) = node_locationId n"
  shows "panel_ok (update_node i f d)"
proof (rule panel_frame [OF assms(1)])
  have "unique_rows node_id node_clash (db_nodes d)" using assms(1) by (simp add: panel_ok_def db_ok_def db_keys_def)
  then have "unique_rows node_id node_clash (updateRows (\<lambda>n. node_id n = i) f (db_nodes d))"
    by (rule unique_rows_updateRows) (auto simp: node_clash_def assms)
  moreover have "node_exists (update_node i f d) = node_exists d"
    by (simp add: update_node_def node_exists_def fun_eq_iff hasRow_key map_updateRows assms(2))
  ultimately show "db_ok (update_node i f d)"
    using panel_ok_db [OF assms(1)]
    by (auto simp: db_ok_def db_keys_def children_defs exists_iff table_sets update_node_def assms(2-))
qed (simp add: update_node_def)

text \<open>Servers may change in every other column.\<close>

definition placement :: "ServerEntity \<Rightarrow> string \<times> string \<times> string" where
  "placement s = (server_id s, server_allocationId s, server_nodeId s)"

lemma placed_moved:
  assumes "placed d" and "placement ` set (db_servers d') = placement ` set (db_servers d)"
    and "db_allocations d' = db_allocations d"
  shows "placed d'"
proof -
  have "placed d \<longleftrightarrow>
     (\<forall>(i, al, n) \<in> placement ` set (db_servers d). i \<noteq> [] \<and> (\<exists>a \<in> set (db_allocations d).
        alloc_id a = al \<and> alloc_nodeId a = n \<and> alloc_serverId a = Some i)) \<and>
     (\<forall>a \<in> set (db_allocations d). \<forall>i. alloc_serverId a = Some i \<longrightarrow>
        (\<exists>(j, al, n) \<in> placement ` set (db_servers d). j = i \<and> al = alloc_id a))" for d :: "'w db_scheme"
    by (simp add: placed_def placement_def)
  note * = this
  show ?thesis using assms(1) unfolding * assms(2,3) .
qed

lemma placement_update:
  assumes "\<And>s. placement (f s) = placement s"
  shows "placement ` set (db_servers (update_server i f d)) = placement ` set (db_servers d)"
proof -
  have "map placement (db_servers (update_server i f d)) = map placement (db_servers d)"
    by (simp add: map_updateRows assms)
  then show ?thesis by (metis list.set_map)
qed

lemma update_server_keeps [panel_intros]:
  assumes "panel_ok d" and "\<And>s. placement (f s) = placement s"
    and "\<And>s. server_uuidShort (f s) = server_uuidShort s" "\<And>s. server_externalId (f s) = server_externalId s"
    and "\<And>s. server_userId (f s) = server_userId s" "\<And>s. server_eggId (f s) = server_eggId s"
  shows "panel_ok (update_server i f d)"
proof (rule panel_okI)
  show "db_ok (update_server i f d)" using panel_ok_db [OF assms(1)] by (rule update_server_ok) (use assms in \<open>simp_all add: placement_def\<close>)
  show "placed (update_server i f d)"
    by (rule placed_moved [OF _ placement_update]) (use assms in \<open>simp_all add: panel_ok_def\<close>)
qed

section \<open>Allocations\<close>

lemma save_free_allocation:
  assumes "save_allocation r d = Inr d'" and "panel_ok d" and "alloc_serverId r = None"
    and "\<forall>a \<in> set (db_allocations d). alloc_id a = alloc_id r \<longrightarrow> alloc_serverId a = None"
  shows "panel_ok d'" and "set (db_allocations d') = insert r {a \<in> set (db_allocations d). alloc_id a \<noteq> alloc_id r}"
proof -
  have dist: "distinct (map alloc_id (db_allocations d))" and p: "placed d"
    using assms(2) by (simp_all add: panel_ok_def db_ok_def db_keys_def unique_rows_def)
  have d': "d' = d\<lparr>db_allocations := upsertRow alloc_id r (db_allocations d)\<rparr>"
    using assms(1) by (auto simp: save_allocation_def map_sum_Inr dest!: saveRow_Inr)
  then show set: "set (db_allocations d') = insert r {a \<in> set (db_allocations d). alloc_id a \<noteq> alloc_id r}"
    using upsertRow_set [OF dist] by simp
  have "placed d'"
    unfolding placed_def set using p assms(3,4) by (fastforce simp: placed_def d')
  then show "panel_ok d'" using save_ok(8) [OF assms(1) panel_ok_db [OF assms(2)]] by (rule panel_okI [rotated])
qed

lemma save_each_in:
  "save_each save rs d = Inr d' \<Longrightarrow> (\<And>r d d'. r \<in> set rs \<Longrightarrow> save r d = Inr d' \<Longrightarrow> I d \<Longrightarrow> I d') \<Longrightarrow> I d \<Longrightarrow> I d'"
proof (induction rs arbitrary: d)
  case (Cons r rs)
  then obtain d1 where "save r d = Inr d1" "save_each save rs d1 = Inr d'" by (auto split: sum.splits)
  then show ?case using Cons.IH [of d1] Cons.prems by (metis list.set_intros)
qed simp

lemma create_allocations_keeps [panel_intros]:
  assumes "panel_ok d" and "\<And>p. fresh_id (ids p) d"
  shows "panel_ok (snd (create_node_allocations ids now node dto d))"
proof -
  let ?I = "\<lambda>d. panel_ok d \<and> (\<forall>a \<in> set (db_allocations d). alloc_id a \<in> range ids \<longrightarrow> alloc_serverId a = None)"
  have I: "?I d" using assms by (auto simp: fresh_id_def hasRow_iff)
  have "?I d'" if "save_each save_allocation (map (new_allocation ids now node ip ali) ports) d = Inr d'" for d' ip ali ports
    using that
  proof (rule save_each_in [where I = ?I])
    fix r d d'
    assume r: "r \<in> set (map (new_allocation ids now node ip ali) ports)" and s: "save_allocation r d = Inr d'" and "?I d"
    then show "?I d'" using save_free_allocation [OF s] by (auto simp: new_allocation_def)
  qed (rule I)
  then show ?thesis
    using assms(1) by (auto simp: create_node_allocations_def save_allocations_def Let_def split: handler_splits)
qed

lemma allocation_service_keeps [panel_intros]:
  "panel_ok d \<Longrightarrow> (\<And>p. fresh_id (ids p) d) \<Longrightarrow> panel_ok (snd (AllocationsService_create ids now node ip a b d))"
  by (simp add: allocation_create_eq create_allocations_keeps)

lemma drop_free_keeps [panel_intros]:
  assumes "panel_ok d" and "\<And>a. a \<in> set (db_allocations d) \<Longrightarrow> P a \<Longrightarrow> \<not> truthy_str (alloc_serverId a)"
  shows "panel_ok (d\<lparr>db_allocations := removeRows P (db_allocations d)\<rparr>)"
proof (rule panel_okI)
  show "db_ok (d\<lparr>db_allocations := removeRows P (db_allocations d)\<rparr>)" using panel_ok_db [OF assms(1)] by (rule remove_leaf_ok)
  have p: "placed d" using assms(1) by (simp add: panel_ok_def)
  have "\<not> P a" if "a \<in> set (db_allocations d)" "alloc_serverId a = Some i" "i \<noteq> []" for a i
    using assms(2) [OF that(1)] that(2,3) by (auto simp: truthy_str_iff)
  then show "placed (d\<lparr>db_allocations := removeRows P (db_allocations d)\<rparr>)"
    using p by (fastforce simp: placed_def table_sets)
qed

section \<open>Servers\<close>

text \<open>Calls to a daemon leave the database alone.\<close>

lemma panel_ok_truncate: "panel_ok (db.truncate d) = panel_ok d"
proof -
  have "placed (db.truncate d) = placed d" by (simp add: placed_def db.truncate_def)
  then show ?thesis by (simp add: panel_ok_def db_ok_truncate)
qed

lemma panel_ok_calls: "db.truncate t = db.truncate s \<Longrightarrow> panel_ok s \<Longrightarrow> panel_ok t"
  using panel_ok_truncate [of s] panel_ok_truncate [of t] by simp

lemma wings_truncate [simp]:
  "db.truncate (snd (WingsService_powerAction W node i action s)) = db.truncate s"
  "db.truncate (snd (WingsService_sendCommand W node i line s)) = db.truncate s"
  "db.truncate (snd (WingsService_deleteServer W node i s)) = db.truncate s"
  "db.truncate (snd (WingsService_reinstallServer W node config text image' s)) = db.truncate s"
  "db.truncate (snd (WingsService_suspendServer node i s)) = db.truncate s"
  "db.truncate (snd (WingsService_unsuspendServer node i s)) = db.truncate s"
  by (simp_all add: WingsService_powerAction_def WingsService_sendCommand_def WingsService_deleteServer_def
    WingsService_reinstallServer_def WingsService_installServer_def WingsService_suspendServer_def
    WingsService_unsuspendServer_def node_grpc_state)

lemma on_node_truncate:
  "(\<And>node s. db.truncate (snd (h node s)) = db.truncate s) \<Longrightarrow> db.truncate (snd (on_node full h s)) = db.truncate s"
  by (simp add: on_node_def split: option.split)

lemma server_calls_truncate [simp]:
  "db.truncate (snd (ServersService_power W uuid action s)) = db.truncate s"
  "db.truncate (snd (ServersService_sendCommand W uuid line s)) = db.truncate s"
  by (simp_all add: ServersService_power_def ServersService_sendCommand_def on_node_truncate split: sum.split)

lemma server_calls_keep [panel_intros]:
  "panel_ok s \<Longrightarrow> panel_ok (snd (ServersService_power W uuid action s))"
  "panel_ok s \<Longrightarrow> panel_ok (snd (ServersService_sendCommand W uuid line s))"
  by (erule panel_ok_calls [rotated], simp)+

lemma on_node_keeps:
  "(\<And>node s. db.truncate (snd (h node s)) = db.truncate s) \<Longrightarrow> panel_ok s \<Longrightarrow> panel_ok (snd (on_node full h s))"
  using on_node_truncate panel_ok_calls by metis

lemma status_keeps [panel_intros]:
  "panel_ok s \<Longrightarrow> panel_ok (update_server i (server_status_update f) s)"
  "panel_ok s \<Longrightarrow> panel_ok (update_server i (server_installed_update g) s)"
  "panel_ok s \<Longrightarrow> panel_ok (update_server i (\<lambda>s. s\<lparr>server_installed := n, server_status := st\<rparr>) s)"
  by (rule update_server_keeps; simp add: placement_def)+

lemma suspend_keeps [panel_intros]:
  "panel_ok s \<Longrightarrow> panel_ok (snd (ServersService_suspend W i s))"
  "panel_ok s \<Longrightarrow> panel_ok (snd (ServersService_unsuspend i s))"
  by (auto simp: ServersService_suspend_def ServersService_unsuspend_def Let_def split: sum.split
      intro!: on_node_keeps status_keeps)

lemma install_status_keeps [panel_intros]:
  "panel_ok s \<Longrightarrow> panel_ok (snd (ServersService_updateInstallStatus uuid status s))"
  by (auto simp: ServersService_updateInstallStatus_def split: option.split intro!: status_keeps)

lemma reinstall_keeps [panel_intros]:
  assumes "panel_ok s" shows "panel_ok (snd (ServersService_reinstall W i s))"
proof (cases "ServersService_findById i s")
  case (Inr full)
  let ?s1 = "update_server (server_id (fs_server full)) (server_installed_update (\<lambda>_. 0)) s"
  let ?o = "case (fs_node full, fs_egg full, fs_allocation full) of
      (Some node, Some egg, Some allocation) \<Rightarrow>
        WingsService_reinstallServer W node (wings_config (fs_server full) allocation)
          (str_or (egg_scriptInstall egg) []) (egg_scriptContainer egg) ?s1
    | _ \<Rightarrow> (Inl TypeError, ?s1)"
  have "db.truncate (snd ?o) = db.truncate ?s1" by (simp split: option.split)
  moreover have "panel_ok ?s1" using assms by (rule status_keeps)
  ultimately have "panel_ok (snd ?o)" by (rule panel_ok_calls)
  moreover have "snd (ServersService_reinstall W i s) = snd ?o"
    by (simp add: ServersService_reinstall_def Inr Let_def split: prod.split sum.split unit.split)
  ultimately show ?thesis by simp
qed (use assms in \<open>simp add: ServersService_reinstall_def\<close>)

lemma placement_upsert:
  assumes "distinct (map server_id t)" and "x \<in> set t" and "placement r = placement x"
  shows "placement ` set (upsertRow server_id r t) = placement ` set t"
proof -
  have id: "server_id r = server_id x" using assms(3) by (simp add: placement_def)
  have "set t = insert x {y \<in> set t. server_id y \<noteq> server_id x}"
    using assms(1,2) by (auto simp: distinct_map inj_on_def)
  then have "placement ` set t = insert (placement x) (placement ` {y \<in> set t. server_id y \<noteq> server_id x})"
    by (metis image_insert)
  then show ?thesis unfolding upsertRow_set [OF assms(1)] id image_insert assms(3) by simp
qed

lemma update_service_keeps [panel_intros]:
  assumes "panel_ok d" shows "panel_ok (snd (ServersService_update uuid dto d))"
proof (cases "\<exists>full d1. ServersService_findByUuid uuid d = Inr full \<and> save_server (assign_server dto (fs_server full)) d = Inr d1")
  case True
  then obtain full d1 where f: "ServersService_findByUuid uuid d = Inr full"
      and s: "save_server (assign_server dto (fs_server full)) d = Inr d1" by blast
  have full: "fs_server full \<in> set (db_servers d)"
    using f by (auto simp: ServersService_findByUuid_def dest: findOne_Some split: option.splits)
  have dist: "distinct (map server_id (db_servers d))"
    using assms by (simp add: panel_ok_def db_ok_def db_keys_def unique_rows_def)
  have d1: "d1 = d\<lparr>db_servers := upsertRow server_id (assign_server dto (fs_server full)) (db_servers d)\<rparr>"
    using s by (auto simp: save_server_def map_sum_Inr dest!: saveRow_Inr)
  have "placement (assign_server dto (fs_server full)) = placement (fs_server full)"
    by (simp add: placement_def assign_server_def)
  note moved = placement_upsert [OF dist full this]
  have "placed d1" by (rule placed_moved [of d]) (use assms moved in \<open>simp_all add: panel_ok_def d1\<close>)
  moreover have "db_ok d1" using s panel_ok_db [OF assms] by (rule save_ok)
  moreover have "snd (ServersService_update uuid dto d) = d1"
    by (simp add: ServersService_update_def f s Let_def)
  ultimately show ?thesis by (simp add: panel_ok_def)
next
  case False
  then have "snd (ServersService_update uuid dto d) = d"
    by (auto simp: ServersService_update_def Let_def split: sum.split)
  then show ?thesis using assms by simp
qed

lemma delete_service_keeps [panel_intros]:
  assumes "panel_ok s" shows "panel_ok (snd (ServersService_delete W uuid s))"
proof (cases "findOne (\<lambda>x. server_uuid x = uuid) (db_servers s)")
  case None
  then show ?thesis using assms by (simp add: ServersService_delete_def ServersService_findByUuid_def)
next
  case (Some x)
  obtain r t where t: "ServersService_delete W uuid s = (r, t)" by force
  have ok: "db_ok t" and serv: "db_servers t = removeRows (\<lambda>y. server_id y = server_id x) (db_servers s)"
    and alloc: "db_allocations t = updateRows (\<lambda>a. alloc_serverId a = Some (server_id x)) (alloc_serverId_update (\<lambda>_. None)) (db_allocations s)"
    using server_delete_result [OF t panel_ok_db [OF assms] Some] by simp_all
  have p: "placed s" using assms by (simp add: panel_ok_def)
  have "placed t"
    unfolding placed_def
  proof (intro conjI ballI allI impI)
    fix y assume y: "y \<in> set (db_servers t)"
    then show "server_id y \<noteq> []" using p by (auto simp: serv table_sets placed_def)
    have y': "y \<in> set (db_servers s)" "server_id y \<noteq> server_id x" using y by (auto simp: serv table_sets)
    then obtain a where "a \<in> set (db_allocations s)" "alloc_id a = server_allocationId y" "alloc_nodeId a = server_nodeId y"
      "alloc_serverId a = Some (server_id y)"
      using placed_allocation [OF p] by blast
    then show "\<exists>a \<in> set (db_allocations t). alloc_id a = server_allocationId y \<and> alloc_nodeId a = server_nodeId y \<and>
        alloc_serverId a = Some (server_id y)"
      using y'(2) by (intro bexI [of _ a]) (auto simp: alloc table_sets intro: image_eqI [of _ _ a])
  next
    fix a i assume "a \<in> set (db_allocations t)" "alloc_serverId a = Some i"
    then have "a \<in> set (db_allocations s)" "i \<noteq> server_id x" by (auto simp: alloc table_sets split: if_splits)
    then show "\<exists>y \<in> set (db_servers t). server_id y = i \<and> server_allocationId y = alloc_id a"
      using placed_server [OF p, of a i] \<open>alloc_serverId a = Some i\<close> by (auto simp: serv table_sets)
  qed
  then show ?thesis using ok by (simp add: t panel_ok_def)
qed

lemma created_placed:
  assumes "placed d" and ok: "db_ok (with_server_row x (alloc_id al) d)" and al: "al \<in> set (db_allocations d)"
    and x: "server_allocationId x = alloc_id al" "server_nodeId x = alloc_nodeId al" "server_id x \<noteq> []"
    and fresh: "\<not> hasRow (\<lambda>s. server_id s = server_id x) (db_servers d)"
  shows "placed (with_server_row x (alloc_id al) d)"
  unfolding placed_def
proof (intro conjI ballI allI impI)
  let ?d = "with_server_row x (alloc_id al) d"
  have serv: "set (db_servers ?d) = insert x (set (db_servers d))" by (simp add: with_server_row_def)
  have alloc: "set (db_allocations ?d) = (\<lambda>a. if alloc_id a = alloc_id al then a\<lparr>alloc_serverId := Some (server_id x)\<rparr> else a) ` set (db_allocations d)"
    by (simp add: with_server_row_def table_sets)
  have dist: "distinct (map server_id (db_servers ?d))" and u: "unique_rows server_id server_clash (db_servers ?d)"
    using ok by (simp_all add: db_ok_def db_keys_def unique_rows_def)
  fix y assume y: "y \<in> set (db_servers ?d)"
  show "server_id y \<noteq> []" using y assms(1) x(3) by (auto simp: serv placed_def)
  show "\<exists>a \<in> set (db_allocations ?d). alloc_id a = server_allocationId y \<and> alloc_nodeId a = server_nodeId y \<and>
      alloc_serverId a = Some (server_id y)"
  proof (cases "y = x")
    case True
    then show ?thesis using al x unfolding alloc by (intro bexI [of _ "al\<lparr>alloc_serverId := Some (server_id x)\<rparr>"]) auto
  next
    case False
    then have "y \<in> set (db_servers d)" using y by (simp add: serv)
    then obtain a where a: "a \<in> set (db_allocations d)" "alloc_id a = server_allocationId y" "alloc_nodeId a = server_nodeId y"
      "alloc_serverId a = Some (server_id y)"
      using placed_allocation [OF assms(1)] by blast
    have "server_id y \<noteq> server_id x" using \<open>y \<in> set (db_servers d)\<close> fresh by (auto simp: hasRow_iff)
    then have "server_allocationId y \<noteq> server_allocationId x"
      using u y by (auto simp: unique_rows_def server_clash_def serv)
    then show ?thesis using a x(1) unfolding alloc by (intro bexI [of _ a]) (auto intro: image_eqI [of _ _ a])
  qed
next
  fix a i assume "a \<in> set (db_allocations (with_server_row x (alloc_id al) d))" "alloc_serverId a = Some i"
  then obtain b where b: "b \<in> set (db_allocations d)" "a = (if alloc_id b = alloc_id al then b\<lparr>alloc_serverId := Some (server_id x)\<rparr> else b)"
    by (auto simp: with_server_row_def table_sets)
  show "\<exists>y \<in> set (db_servers (with_server_row x (alloc_id al) d)). server_id y = i \<and> server_allocationId y = alloc_id a"
  proof (cases "alloc_id b = alloc_id al")
    case True
    then show ?thesis using b \<open>alloc_serverId a = Some i\<close> x(1) by (simp add: with_server_row_def)
  next
    case False
    then show ?thesis using b placed_server [OF assms(1) b(1), of i] \<open>alloc_serverId a = Some i\<close> by (auto simp: with_server_row_def)
  qed
qed

lemma panel_ok_moved [simp]: "panel_ok (moved s cl ca) = panel_ok s"
  by (simp add: panel_ok_def placed_def)

lemma panel_ok_after [simp]: "panel_ok (after_call node q s) = panel_ok s"
  unfolding after_call_def by (rule panel_ok_moved)

lemma create_service_keeps [panel_intros]:
  assumes "panel_ok s" and "fresh_id (sd_id dr) s"
  shows "panel_ok (snd (ServersService_create X W now dr dto s))"
proof -
  obtain r t where t: "ServersService_create X W now dr dto s = (r, t)" by force
  have fresh: "\<not> hasRow (\<lambda>x. server_id x = sd_id dr) (db_servers s)" "sd_id dr \<noteq> []"
    using assms(2) by (simp_all add: fresh_id_def server_exists_def)
  from t panel_ok_db [OF assms(1)] fresh(1) show ?thesis
  proof (cases rule: create_outcome)
    case (refused e cl ca)
    then show ?thesis using assms(1) by (simp add: t)
  next
    case (written node al egg x startup img env cl ca d1)
    have c: "alloc_nodeId al = csd_nodeId dto" using create_checks_Inr [OF written(3)] by auto
    let ?r = "with_server_row x (alloc_id al) (moved s cl (pn_calls s @ ca))"
    have "db_ok ?r" using written(9) by (simp add: written(8))
    moreover have "server_allocationId x = csd_allocationId dto" by (simp add: written(4) new_server_def generateUuidShort_def)
    ultimately have "db_ok ?r" "placed ?r"
      by (simp, intro created_placed) (use assms(1) written(4,5,6) c fresh in \<open>simp_all add: panel_ok_def placed_def\<close>)
    then have "panel_ok d1" by (simp add: written(8) panel_ok_def [of ?r])
    then show ?thesis using written(10) status_keeps(1) by (auto simp: t)
  qed
qed

lemma heartbeat_keeps [panel_intros]:
  assumes "panel_ok s" shows "panel_ok (NodesService_processHeartbeat now node dto s)"
proof -
  have "panel_ok (NodeHeartbeatStore_set i h s)" for i h
    using assms by (simp add: NodeHeartbeatStore_set_def panel_ok_def db_ok_def db_keys_def children_defs exists_iff placed_def)
  then show ?thesis
    by (simp add: NodesService_processHeartbeat_def Let_def update_node_keeps)
qed

end
