(* ===== verification/PanelRun.thy ===== *)
theory PanelRun
  imports PanelInvariant
begin

text \<open>
  The invariant of the panel over any run: every route of \<open>panel_step\<close> keeps it, so it holds
  in every state the panel reaches.
\<close>

section \<open>Every route keeps the invariant\<close>

lemmas gate_defs = with_admin_def with_user_def with_daemon_def validated_def with_server_access_def by_uuid_def

lemma snd_answer [simp]:
  "snd (case p of (Inl e, d) \<Rightarrow> (Inl e, d) | (Inr r, d) \<Rightarrow> (Inr (f r), d)) = snd p"
  by (simp split: prod.split sum.split)

lemma public_step_keeps: "public_step X now req s t \<Longrightarrow> panel_ok s \<Longrightarrow> panel_ok t"
  by (erule public_stepE)
    (auto simp: AuthController_register_def AuthController_login_def AuthController_verifyTwoFactorLogin_def
      AuthController_refresh_def validated_def split: option.split list.split intro: panel_intros)

lemma account_step_keeps: "account_step X now req s t \<Longrightarrow> panel_ok s \<Longrightarrow> panel_ok t"
  by (erule account_stepE)
    (auto simp: AuthController_logout_def AuthController_setupTwoFactor_def AuthController_verifyTwoFactor_def
      AuthController_disableTwoFactor_def AuthController_revokeSession_def UsersController_updateMe_def
      NotificationsController_markRead_def NotificationsController_markAllRead_def NotificationsService_markAsRead_def
      NotificationsService_markAllAsRead_def ApiKeysController_create_def ApiKeysController_delete_def gate_defs
      split: sum.split intro: panel_intros)

lemma daemon_step_keeps: "daemon_step now req s t \<Longrightarrow> panel_ok s \<Longrightarrow> panel_ok t"
  by (erule daemon_stepE)
    (auto simp: NodesController_heartbeat_def ServerCallbacks_installStatus_def gate_defs
      split: sum.split intro: panel_intros)

lemma file_route_keeps: "file_request_ok X now req uuid s t \<Longrightarrow> panel_ok s \<Longrightarrow> panel_ok t"
  by (auto simp: file_request_ok_def intro: panel_ok_calls)

lemma file_routes_ok:
  "file_request_ok X now req uuid s (snd (FilesController_listDirectory X W now req uuid path s))"
  "file_request_ok X now req uuid s (snd (FilesController_readFile X W now req uuid path s))"
  "file_request_ok X now req uuid s (snd (FilesController_writeFile X W now req uuid p content s))"
  "file_request_ok X now req uuid s (snd (FilesController_createDirectory X W now req uuid p name s))"
  "file_request_ok X now req uuid s (snd (FilesController_rename X W now req uuid p newName s))"
  "file_request_ok X now req uuid s (snd (FilesController_deleteFiles X W now req uuid paths s))"
  "file_request_ok X now req uuid s (snd (FilesController_compress X W now req uuid paths destination s))"
  "file_request_ok X now req uuid s (snd (FilesController_decompress X W now req uuid p destination s))"
  "file_request_ok X now req uuid s (snd (FilesController_upload X W now req uuid path upfile s))"
  by (intro file_request_okI list_route.confined read_route.confined write_route.confined
      directory_route.confined rename_route.confined delete_route.confined compress_route.confined
      decompress_route.confined upload_route.confined)+

lemma server_step_keeps: "server_step X W now req s t \<Longrightarrow> panel_ok s \<Longrightarrow> panel_ok t"
  by (erule server_stepE)
    (auto simp: ServersController_update_def ServersController_power_def ServersController_sendCommand_def
      DatabasesController_create_def DatabasesController_delete_def SchedulesController_create_def
      SchedulesController_update_def SchedulesController_delete_def SchedulesController_execute_def
      SubusersController_invite_def SubusersController_update_def SubusersController_remove_def gate_defs
      split: sum.split unit.split intro: panel_intros file_route_keeps [OF file_routes_ok(1)]
      file_route_keeps [OF file_routes_ok(2)] file_route_keeps [OF file_routes_ok(3)]
      file_route_keeps [OF file_routes_ok(4)] file_route_keeps [OF file_routes_ok(5)]
      file_route_keeps [OF file_routes_ok(6)] file_route_keeps [OF file_routes_ok(7)]
      file_route_keeps [OF file_routes_ok(8)] file_route_keeps [OF file_routes_ok(9)])

lemma admin_user_keeps [panel_intros]:
  "panel_ok s \<Longrightarrow> panel_ok (snd (AdminUsers_create X now req i dto s))"
  "panel_ok s \<Longrightarrow> panel_ok (snd (AdminUsers_update X now req i changes s))"
  "panel_ok s \<Longrightarrow> panel_ok (snd (AdminUsers_delete X now req i s))"
  unfolding AdminUsers_create_def AdminUsers_update_def AdminUsers_delete_def Let_def gate_defs
  by (auto split: handler_splits intro: panel_intros)

lemma admin_allocation_keeps [panel_intros]:
  "panel_ok s \<Longrightarrow> panel_ok (snd (AllocationsController_delete X now req i s))"
  "panel_ok s \<Longrightarrow> panel_ok (snd (AdminAllocations_delete X now req node i s))"
  "panel_ok s \<Longrightarrow> panel_ok (snd (AdminAllocations_bulkDelete X now req node s))"
proof -
  assume ok: "panel_ok s"
  have drop: "panel_ok (s\<lparr>db_allocations := removeRows (\<lambda>x. alloc_id x = alloc_id a) (db_allocations s)\<rparr>)"
    if "a \<in> set (db_allocations s)" "\<not> truthy_str (alloc_serverId a)" for a
  proof (rule drop_free_keeps [OF ok])
    fix b assume b: "b \<in> set (db_allocations s)" "alloc_id b = alloc_id a"
    have "distinct (map alloc_id (db_allocations s))"
      using ok by (simp add: panel_ok_def db_ok_def db_keys_def unique_rows_def)
    then have "b = a" using b that(1) by (auto simp: distinct_map inj_on_def)
    then show "\<not> truthy_str (alloc_serverId b)" using that(2) by simp
  qed
  show "panel_ok (snd (AllocationsController_delete X now req i s))"
    using drop ok by (auto simp: AllocationsController_delete_def AllocationsService_delete_def gate_defs
        dest!: findOne_Some split: sum.split option.split)
  show "panel_ok (snd (AdminAllocations_delete X now req node i s))"
    using drop ok by (auto simp: AdminAllocations_delete_def gate_defs
        dest!: findOne_Some split: sum.split option.split)
  show "panel_ok (snd (AdminAllocations_bulkDelete X now req node s))"
    using ok by (auto simp: AdminAllocations_bulkDelete_def gate_defs
        split: sum.split intro!: drop_free_keeps)
qed

lemma regenerate_keeps [panel_intros]: "panel_ok s \<Longrightarrow> panel_ok (snd (NodesService_regenerateToken X tid tok url i s))"
  by (auto simp: NodesService_regenerateToken_def split: option.split intro: update_node_keeps)

lemma admin_node_keeps [panel_intros]:
  "panel_ok s \<Longrightarrow> panel_ok (snd (AdminNodes_create X now req i tid tok url ndto s))"
  "panel_ok s \<Longrightarrow> panel_ok (snd (AdminNodes_update X now req i undto s))"
  "panel_ok s \<Longrightarrow> panel_ok (snd (AdminNodes_delete X now req i s))"
  unfolding AdminNodes_create_def AdminNodes_update_def AdminNodes_delete_def Let_def gate_defs
  by (auto split: handler_splits intro: panel_intros)

lemma health_keeps [panel_intros]: "panel_ok s \<Longrightarrow> panel_ok (snd (NodesService_getHealth now i s))"
  by (auto simp: NodesService_getHealth_def Let_def split: sum.split intro: update_node_keeps)

lemma admin_step_keeps: "admin_step X W now req s t \<Longrightarrow> panel_ok s \<Longrightarrow> panel_ok t"
  by (erule admin_stepE)
    (auto simp: UsersController_create_def UsersController_update_def UsersController_delete_def
      LocationsController_create_def LocationsController_update_def LocationsController_delete_def
      AllocationsController_create_def AdminAllocations_create_def
      NodesController_create_def NodesController_regenerateToken_def NodesController_update_def NodesController_delete_def
      NodesController_getHealth_def ServersController_create_def ServersController_delete_def ServersController_suspend_def
      ServersController_unsuspend_def ServersController_reinstall_def
      EggsController_createNest_def EggsController_createEgg_def EggsController_updateEgg_def
      EggsController_deleteEgg_def EggsController_importEgg_def gate_defs
      split: sum.split intro: panel_intros)

lemma panel_step_keeps: "panel_step X W now req s t \<Longrightarrow> panel_ok s \<Longrightarrow> panel_ok t"
  by (erule panel_stepE)
    (blast dest: read_step_same intro: public_step_keeps account_step_keeps server_step_keeps admin_step_keeps daemon_step_keeps)+

section \<open>Runs\<close>

text \<open>Any request, at any time.\<close>

inductive panel_request :: "ext \<Rightarrow> wings \<Rightarrow> 'z wings_panel_scheme \<Rightarrow> 'z wings_panel_scheme \<Rightarrow> bool" for X W where
  request: "panel_step X W now req s t \<Longrightarrow> panel_request X W s t"

interpretation panel_run: run_invariant "panel_request X W" panel_ok for X W
  by unfold_locales (auto elim!: panel_request.cases intro: panel_step_keeps)

text \<open>
  C5. Whatever requests are served from whatever state in which it holds, in whatever order: the
  constraints of the database hold, every server has exactly one allocation, on its own node,
  that names the server, and no two servers share one; so no port is given to two servers and
  no allocation is left held by a server that is gone.
\<close>

theorem panel_invariant:
  fixes s :: "'z wings_panel_scheme"
  assumes "(panel_request X W)\<^sup>*\<^sup>* s t" and "panel_ok s"
  shows "db_ok t \<and>
    (\<forall>x \<in> set (db_servers t). \<exists>!a. a \<in> set (db_allocations t) \<and> alloc_serverId a = Some (server_id x)) \<and>
    (\<forall>x \<in> set (db_servers t). \<forall>a \<in> set (db_allocations t). alloc_serverId a = Some (server_id x) \<longrightarrow>
       alloc_id a = server_allocationId x \<and> alloc_nodeId a = server_nodeId x) \<and>
    (\<forall>a \<in> set (db_allocations t). \<forall>i. alloc_serverId a = Some i \<longrightarrow> server_exists t i) \<and>
    (\<forall>x \<in> set (db_servers t). \<forall>y \<in> set (db_servers t). server_allocationId x = server_allocationId y \<longrightarrow> x = y)"
proof -
  have ok: "panel_ok t" using assms by (rule panel_run.run_keeps)
  then have db: "db_ok t" and p: "placed t" by (simp_all add: panel_ok_def)
  have one: "a = b" if "a \<in> set (db_allocations t)" "b \<in> set (db_allocations t)" "alloc_serverId a = Some i" "alloc_serverId b = Some i" for a b i
    using server_allocation_unique [OF db that(1,2)] that(3,4) by simp
  have holds: "\<exists>a \<in> set (db_allocations t). alloc_id a = server_allocationId x \<and> alloc_nodeId a = server_nodeId x \<and>
      alloc_serverId a = Some (server_id x)" if "x \<in> set (db_servers t)" for x
    using placed_allocation [OF p that] .
  have "\<forall>x \<in> set (db_servers t). \<exists>!a. a \<in> set (db_allocations t) \<and> alloc_serverId a = Some (server_id x)"
    using holds one by blast
  moreover have "\<forall>x \<in> set (db_servers t). \<forall>a \<in> set (db_allocations t). alloc_serverId a = Some (server_id x) \<longrightarrow>
       alloc_id a = server_allocationId x \<and> alloc_nodeId a = server_nodeId x"
    using holds one by blast
  moreover have "\<forall>a \<in> set (db_allocations t). \<forall>i. alloc_serverId a = Some i \<longrightarrow> server_exists t i"
    using placed_server [OF p] by (fastforce simp: exists_iff)
  moreover have "x = y" if "x \<in> set (db_servers t)" "y \<in> set (db_servers t)" "server_allocationId x = server_allocationId y" for x y
  proof -
    have u: "unique_rows server_id server_clash (db_servers t)" using db by (simp add: db_ok_def db_keys_def)
    then have "server_id x = server_id y" using that by (auto simp: unique_rows_def server_clash_def)
    then show ?thesis using u that by (auto simp: unique_rows_def distinct_map inj_on_def)
  qed
  ultimately show ?thesis using db by blast
qed

lemma demo_three_panel_ok: "panel_ok demo_three"
proof -
  have "placed demo_three"
    by (simp add: placed_def demo_three_def demo_server_def demo_allocation_def)
  then show ?thesis using demo_three_ok by (simp add: panel_ok_def)
qed

theorem panel_invariant_witness:
  "\<exists>t. panel_request demo_ext wings_down demo_three t \<and> db_servers t = [] \<and>
     (\<forall>a \<in> set (db_allocations t). alloc_serverId a = None)"
proof -
  let ?ann = "demo_user ''u1'' ''ann'' True"
  let ?t = "snd (ServersController_delete demo_ext wings_down 0 (demo_cookie ?ann) ''uuid-1'' demo_three)"
  have step: "panel_request demo_ext wings_down demo_three ?t"
    by (rule panel_request.request, rule panel_step.admin, rule admin_step.drop_server)
  obtain r t where r: "ServersService_delete wings_down ''uuid-1'' demo_three = (r, t)" by force
  have "?t = t"
    using demo_three_guard [of ?ann] by (simp add: ServersController_delete_def with_admin_def RolesGuard_def r demo_user_def)
  moreover have "db_servers t = []"
    using server_delete_result [OF r demo_three_ok demo_three_server] by (simp add: demo_three_def removeRows_def demo_server_def)
  ultimately have none: "db_servers ?t = []" by simp
  have "\<forall>a \<in> set (db_allocations ?t). \<forall>i. alloc_serverId a = Some i \<longrightarrow> server_exists ?t i"
    using panel_invariant [OF r_into_rtranclp [of "panel_request demo_ext wings_down", OF step] demo_three_panel_ok] by blast
  then have "\<forall>a \<in> set (db_allocations ?t). alloc_serverId a = None"
    by (auto simp: exists_iff none intro: option.exhaust)
  then show ?thesis using step none by blast
qed

end
