(* ===== verification/PanelIsolation.thy ===== *)
theory PanelIsolation
  imports PanelRun
begin

text \<open>
  What requests without administrator rights can change.  \<open>plain_laws\<close> is the interface: a
  predicate on the state that every statement of such a request keeps; inside it, every such
  request keeps the predicate.  Its interpretations give what nobody but an administrator
  changes, and what a user cannot change of others.
\<close>

section \<open>Requests of ordinary users\<close>

text \<open>Whoever the request is signed in as is in \<open>owner\<close> and no administrator.\<close>

definition plain_request :: "(string \<Rightarrow> bool) \<Rightarrow> ext \<Rightarrow> nat \<Rightarrow> Request \<Rightarrow> 'z db_scheme \<Rightarrow> bool" where
  "plain_request owner X now req s \<longleftrightarrow>
     (\<forall>u. JwtAuthGuard X now req s = Inr u \<longrightarrow> owner (au_id u) \<and> \<not> au_rootAdmin u)"

lemma plain_admin: "plain_request owner X now req s \<Longrightarrow> snd (with_admin X now req h s) = s"
  by (auto simp: with_admin_def RolesGuard_def plain_request_def split: sum.split)

lemma admin_route:
  assumes "admin_step X W now req s t" and "plain_request owner X now req s" shows "t = s"
  using assms(1)
  by (cases rule: admin_step.cases)
      (simp_all add: UsersController_create_def UsersController_update_def UsersController_delete_def
        AdminUsers_create_def AdminUsers_update_def AdminUsers_delete_def
        LocationsController_create_def LocationsController_update_def LocationsController_delete_def
        AllocationsController_create_def AllocationsController_delete_def AdminAllocations_create_def
        AdminAllocations_delete_def AdminAllocations_bulkDelete_def
        NodesController_create_def NodesController_regenerateToken_def NodesController_update_def NodesController_delete_def
        NodesController_getHealth_def AdminNodes_create_def AdminNodes_update_def AdminNodes_delete_def
        ServersController_create_def ServersController_delete_def ServersController_suspend_def
        ServersController_unsuspend_def ServersController_reinstall_def
        EggsController_createNest_def EggsController_createEgg_def EggsController_updateEgg_def
        EggsController_deleteEgg_def EggsController_importEgg_def plain_admin [OF assms(2)])

locale plain_laws =
  fixes I :: "'z wings_panel_scheme \<Rightarrow> bool" and owner :: "string \<Rightarrow> bool"
  assumes calls: "db.truncate t = db.truncate s \<Longrightarrow> I s \<Longrightarrow> I t"
    and session: "save_session ses s = Inr t \<Longrightarrow> I s \<Longrightarrow> I t"
    and audit: "save_auditLog entry s = Inr t \<Longrightarrow> I s \<Longrightarrow> I t"
    and registered: "save_user (new_user i now email name hash False) s = Inr t \<Longrightarrow> fresh_id i s \<Longrightarrow> I s \<Longrightarrow> I t"
    and login_time: "I s \<Longrightarrow> I (set_lastLogin i now s)"
    and codes: "u \<in> set (db_users s) \<Longrightarrow> save_user (u\<lparr>user_backupCodes := c\<rparr>) s = Inr t \<Longrightarrow> I s \<Longrightarrow> I t"
    and account: "u \<in> set (db_users s) \<Longrightarrow> owner (user_id u) \<Longrightarrow> user_id v = user_id u \<Longrightarrow>
      user_rootAdmin v = user_rootAdmin u \<Longrightarrow> user_enabled v = user_enabled u \<Longrightarrow> save_user v s = Inr t \<Longrightarrow> I s \<Longrightarrow> I t"
    and notifications: "I s \<Longrightarrow> (\<And>n. P n \<Longrightarrow> owner (notif_userId n)) \<Longrightarrow> I (mark_read P s)"
    and key: "save_apiKey k s = Inr t \<Longrightarrow> owner (apikey_userId k) \<Longrightarrow> fresh_id (apikey_id k) s \<Longrightarrow> I s \<Longrightarrow> I t"
    and drop_key: "k \<in> set (db_apiKeys s) \<Longrightarrow> owner (apikey_userId k) \<Longrightarrow> I s \<Longrightarrow>
      I (s\<lparr>db_apiKeys := removeRows (\<lambda>x. apikey_id x = apikey_id k) (db_apiKeys s)\<rparr>)"
    and server: "x \<in> set (db_servers s) \<Longrightarrow> owner (server_userId x) \<Longrightarrow>
      save_server (assign_server dto x) s = Inr t \<Longrightarrow> I s \<Longrightarrow> I t"
    and database: "save_database b s = Inr t \<Longrightarrow> I s \<Longrightarrow> I t"
    and drop_database: "I s \<Longrightarrow> I (s\<lparr>db_databases := removeRows PD (db_databases s)\<rparr>)"
    and schedule: "save_schedule sch s = Inr t \<Longrightarrow> I s \<Longrightarrow> I t"
    and task: "save_scheduleTask tk s = Inr t \<Longrightarrow> I s \<Longrightarrow> I t"
    and drop_tasks: "I s \<Longrightarrow> I (remove_scheduleTasks PT s)"
    and drop_schedules: "I s \<Longrightarrow> I (remove_schedules PS s)"
    and subuser: "save_subuser z s = Inr t \<Longrightarrow> I s \<Longrightarrow> I t"
    and drop_subuser: "I s \<Longrightarrow> I (s\<lparr>db_subusers := removeRows PU (db_subusers s)\<rparr>)"
begin

lemma open_session: "I s \<Longrightarrow> I (snd (open_session X now dr user ip ua s))"
  unfolding open_session_def Let_def AuditLogService_log_def
  by (auto split: sum.split intro: session audit login_time)

lemma public:
  assumes "public_step X now req s t" and "I s" shows "I t"
  using assms
proof (cases rule: public_step.cases)
  case (register i a dto)
  then show ?thesis using assms(2)
    by (auto simp: AuthController_register_def validated_def AuthService_register_def AuditLogService_log_def Let_def
        split: option.split sum.split intro: registered audit)
next
  case (login dr production ldto)
  then show ?thesis using assms(2)
    by (auto simp: AuthController_login_def validated_def AuthService_login_def split: option.split intro: open_session)
next
  case (second dr production token code)
  have "I (snd (AuthService_verifyTwoFactorLogin X now dr token code ip ua s))" for ip ua
    using assms(2) unfolding AuthService_verifyTwoFactorLogin_def Let_def
    by (auto dest!: findOne_Some split: option.split sum.split intro: open_session codes)
  then show ?thesis using second assms(2) by (simp add: AuthController_verifyTwoFactorLogin_def validated_def)
next
  case refresh
  then show ?thesis using assms(2)
    by (auto simp: AuthController_refresh_def AuthService_refreshToken_def split: option.split list.split sum.split intro: session)
qed

lemma own_user:
  assumes "save_user v s = Inr t" and "findOne (\<lambda>u. user_id u = i) (db_users s) = Some u" and "owner i" and "I s"
    and "user_id v = user_id u \<and> user_rootAdmin v = user_rootAdmin u \<and> user_enabled v = user_enabled u"
  shows "I t"
proof -
  have "u \<in> set (db_users s)" "user_id u = i" using assms(2) by (auto dest: findOne_Some)
  then show ?thesis using account [of u s v t] assms by blast
qed

lemma own_account:
  assumes "owner i" and "I s"
  shows "I (snd (AuthService_setupTwoFactor X secret i s))"
    and "I (snd (AuthService_verifyTwoFactorSetup X now cs i code s))"
    and "I (snd (AuthService_disableTwoFactor X now i code s))"
    and "I (snd (AuthService_revokeSession i ses s))"
  using assms
  by (auto simp: AuthService_setupTwoFactor_def AuthService_verifyTwoFactorSetup_def AuthService_disableTwoFactor_def
      AuthService_revokeSession_def Let_def split: option.split sum.split intro: session)
    (erule own_user; simp)+

lemma own_profile:
  assumes "owner i" and "I s" and "UpdateProfileDto_ok X changes"
  shows "I (snd (UsersService_update X i changes s))"
proof -
  have "user_id (assign_user X changes u) = user_id u \<and> user_rootAdmin (assign_user X changes u) = user_rootAdmin u \<and>
      user_enabled (assign_user X changes u) = user_enabled u" for u
    using assms(3) by (simp add: UpdateProfileDto_ok_def assign_user_def)
  then show ?thesis
    using assms(1,2) by (auto simp: UsersService_update_def Let_def split: option.split sum.split dest!: own_user)
qed

lemma account_route:
  assumes "account_step X now req s t" and "plain_request owner X now req s" and "I s"
  shows "I t"
proof -
  have drop: "I (snd (ApiKeysService_delete k i s))" if "owner i" for k i
    using drop_key assms(3) that by (auto simp: ApiKeysService_delete_def dest!: findOne_Some split: option.split)
  have make: "I (snd (ApiKeysService_create X k hex now i dto s))" if "owner i" "fresh_id k s" for k hex i dto
    using key assms(3) that by (auto simp: ApiKeysService_create_def new_api_key_def Let_def split: sum.split)
  show ?thesis
    using assms
    by (cases rule: account_step.cases)
      (auto simp: AuthController_logout_def AuthController_setupTwoFactor_def AuthController_verifyTwoFactor_def
        AuthController_disableTwoFactor_def AuthController_revokeSession_def UsersController_updateMe_def
        NotificationsController_markRead_def NotificationsController_markAllRead_def NotificationsService_markAsRead_def
        NotificationsService_markAllAsRead_def ApiKeysController_create_def ApiKeysController_delete_def
        plain_request_def with_user_def validated_def
        split: sum.split intro: own_account own_profile notifications drop make)
qed

lemma on_own_server:
  assumes "plain_request owner X now req s" and "I s"
    and "\<And>x. x \<in> set (db_servers s) \<Longrightarrow> server_uuid x = uuid \<Longrightarrow> findOne (\<lambda>x. server_uuid x = uuid) (db_servers s) = Some x \<Longrightarrow>
      owner (server_userId x) \<Longrightarrow> I (snd (h (load_server s x) s))"
  shows "I (snd (with_user X now req (\<lambda>u. validated ok (with_server_access uuid u h)) s))"
proof (cases "JwtAuthGuard X now req s")
  case (Inl e)
  then show ?thesis using assms(2) by (simp add: with_user_def)
next
  case (Inr u)
  then have u: "owner (au_id u)" "\<not> au_rootAdmin u" using assms(1) by (simp_all add: plain_request_def)
  show ?thesis
  proof (cases "findOne (\<lambda>x. server_uuid x = uuid) (db_servers s)")
    case None
    then show ?thesis using Inr assms(2)
      by (simp add: with_user_def validated_def with_server_access_def ServersService_findByUuid_def)
  next
    case (Some x)
    then have "x \<in> set (db_servers s)" "server_uuid x = uuid" by (auto dest: findOne_Some)
    then show ?thesis using Inr u assms(2) assms(3) [of x] Some
      by (auto simp: with_user_def validated_def with_server_access_def ServersService_findByUuid_def
          ServersService_checkAccess_def split: unit.split)
  qed
qed

lemma save_tasks: "save_with_tasks schedule ts s = Inr t \<Longrightarrow> I s \<Longrightarrow> I t"
  unfolding save_with_tasks_def
  by (auto split: sum.splits intro: schedule elim!: save_each_keeps [where I = I] task)

lemma on_server_data:
  assumes "I s"
  shows "I (snd (DatabasesService_create dr now i ddto s))" and "I (snd (DatabasesService_delete k s))"
    and "I (snd (SchedulesService_create k ids now i cdto s))" and "I (snd (SchedulesService_update ids now k udto s))"
    and "I (snd (SchedulesService_delete k s))" and "I (snd (SchedulesService_executeSchedule now k s))"
    and "I (snd (SubusersService_invite k now i email perms s))" and "I (snd (SubusersService_update k perms s))"
    and "I (snd (SubusersService_remove k s))"
  using assms
  by (auto simp: DatabasesService_create_def DatabasesService_delete_def SchedulesService_create_def
      SchedulesService_update_def SchedulesService_delete_def SchedulesService_executeSchedule_def
      SubusersService_invite_def SubusersService_update_def SubusersService_remove_def Let_def
      split: option.split sum.split
      intro: database drop_database schedule save_tasks drop_tasks drop_schedules subuser drop_subuser)

lemma own_update:
  assumes "findOne (\<lambda>x. server_uuid x = uuid) (db_servers s) = Some x" and "owner (server_userId x)" and "I s"
  shows "I (snd (ServersService_update uuid dto s))"
proof -
  have "x \<in> set (db_servers s)" using assms(1) by (auto dest: findOne_Some)
  then show ?thesis
    using assms server [of x s dto] by (auto simp: ServersService_update_def ServersService_findByUuid_def Let_def split: sum.split)
qed

lemma file_request: "file_request_ok X now req uuid s t \<Longrightarrow> I s \<Longrightarrow> I t"
  by (auto simp: file_request_ok_def intro: calls)

lemma server_route:
  assumes "server_step X W now req s t" and "plain_request owner X now req s" and "I s"
  shows "I t"
proof -
  have plain: "I (snd (with_user X now req (\<lambda>u. with_server_access uuid u h) s))"
    if "\<And>x. x \<in> set (db_servers s) \<Longrightarrow> I (snd (h (load_server s x) s))" for uuid h
    using on_own_server [OF assms(2,3), of uuid h True] that by simp
  have checked: "I (snd (with_user X now req (\<lambda>u. validated ok (with_server_access uuid u h)) s))"
    if "\<And>x. x \<in> set (db_servers s) \<Longrightarrow> I (snd (h (load_server s x) s))" for ok uuid h
    using on_own_server [OF assms(2,3), of uuid h ok] that by simp
  have update: "I (snd (ServersController_update X now req uuid dto s))" for uuid dto
    unfolding ServersController_update_def by (rule on_own_server [OF assms(2,3)]) (rule own_update [OF _ _ assms(3)])
  have call: "I (snd (ServersService_power W uuid action s))" "I (snd (ServersService_sendCommand W uuid line s))" for uuid action line
    using assms(3) by (rule calls [rotated], simp)+
  note data = on_server_data [OF assms(3)]
  show ?thesis
    using assms(1)
    by (cases rule: server_step.cases)
      (simp_all add: update, simp_all add: ServersController_power_def ServersController_sendCommand_def
        DatabasesController_create_def DatabasesController_delete_def SchedulesController_create_def
        SchedulesController_update_def SchedulesController_delete_def SchedulesController_execute_def
        SubusersController_invite_def SubusersController_update_def SubusersController_remove_def
        plain checked data call file_request [OF file_routes_ok(1) assms(3)]
        file_request [OF file_routes_ok(2) assms(3)] file_request [OF file_routes_ok(3) assms(3)]
        file_request [OF file_routes_ok(4) assms(3)] file_request [OF file_routes_ok(5) assms(3)]
        file_request [OF file_routes_ok(6) assms(3)] file_request [OF file_routes_ok(7) assms(3)]
        file_request [OF file_routes_ok(8) assms(3)] file_request [OF file_routes_ok(9) assms(3)])
qed

end

section \<open>Runs of such requests\<close>

text \<open>Requests with neither the token of an administrator nor that of a daemon.\<close>

inductive user_request :: "(string \<Rightarrow> bool) \<Rightarrow> ext \<Rightarrow> wings \<Rightarrow> 'z wings_panel_scheme \<Rightarrow> 'z wings_panel_scheme \<Rightarrow> bool"
  for owner X W where
  request: "panel_step X W now req s t \<Longrightarrow> plain_request owner X now req s \<Longrightarrow>
    (\<And>node. DaemonTokenGuard req s \<noteq> Inr node) \<Longrightarrow> user_request owner X W s t"

lemma daemon_refused: "(\<And>node. DaemonTokenGuard req s \<noteq> Inr node) \<Longrightarrow> daemon_step now req s t \<Longrightarrow> t = s"
  by (erule daemon_stepE)
    (auto simp: NodesController_heartbeat_def ServerCallbacks_installStatus_def with_daemon_def split: sum.split)

context plain_laws
begin

lemma user_request_keeps:
  assumes "user_request owner X W s t" and "I s" shows "I t"
  using assms(1)
proof cases
  case (request now req)
  from request(1) show ?thesis
  proof cases
    case admin
    then show ?thesis using admin_route [OF _ request(2)] assms(2) by blast
  next
    case daemon
    then show ?thesis using daemon_refused [OF request(3)] assms(2) by blast
  next
    case read
    then show ?thesis using read_step_same assms(2) by blast
  qed (use request(2) assms(2) in \<open>blast intro: public account_route server_route\<close>)+
qed

lemma user_run_keeps: "(user_request owner X W)\<^sup>*\<^sup>* s t \<Longrightarrow> I s \<Longrightarrow> I t"
  by (induction rule: rtranclp_induct) (auto intro: user_request_keeps)

end

section \<open>What only an administrator changes\<close>

definition server_identity :: "ServerEntity \<Rightarrow> string \<times> string \<times> string \<times> string \<times> string \<times> string \<times> string" where
  "server_identity s = (server_id s, server_uuid s, server_userId s, server_nodeId s, server_nestId s, server_eggId s, server_allocationId s)"

definition infrastructure where
  "infrastructure d =
     (db_locations d, db_nodes d, db_allocations d, db_nests d, db_eggs d, db_eggVariables d, db_databaseHosts d,
      map server_identity (db_servers d), map server_status (db_servers d))"

text \<open>The accounts of \<open>d\<close> come from those of \<open>U\<close>: none is gone, promoted or enabled again, and a
  new one is no administrator.\<close>

definition accounts_from :: "UserEntity list \<Rightarrow> 'z db_scheme \<Rightarrow> bool" where
  "accounts_from U d \<longleftrightarrow>
     user_id ` set U \<subseteq> user_id ` set (db_users d) \<and>
     (\<forall>v \<in> set (db_users d). if user_id v \<in> user_id ` set U
        then \<exists>u \<in> set U. user_id u = user_id v \<and> (user_rootAdmin v \<longrightarrow> user_rootAdmin u) \<and> (user_enabled v \<longrightarrow> user_enabled u)
        else \<not> user_rootAdmin v)"

lemma accounts_refl: "accounts_from (db_users d) d"
  by (auto simp: accounts_from_def)

lemma accounts_frame: "db_users d' = db_users d \<Longrightarrow> accounts_from U d \<Longrightarrow> accounts_from U d'"
  by (simp add: accounts_from_def)

lemma accounts_new:
  assumes "set (db_users d') = insert v (set (db_users d))" and "\<not> user_rootAdmin v"
    and "user_id v \<notin> user_id ` set (db_users d)" and "accounts_from U d"
  shows "accounts_from U d'"
  using assms by (auto simp: accounts_from_def)

lemma accounts_changed:
  assumes "set (db_users d') = insert v {x \<in> set (db_users d). user_id x \<noteq> user_id v}" and "u \<in> set (db_users d)"
    and "user_id v = user_id u" "user_rootAdmin v = user_rootAdmin u" "user_enabled v = user_enabled u" and "accounts_from U d"
  shows "accounts_from U d'"
proof -
  have "user_id ` set (db_users d') = user_id ` set (db_users d)" using assms(1-3) by (auto simp: image_iff)
  moreover have "\<forall>x \<in> set (db_users d'). \<exists>y \<in> set (db_users d). user_id y = user_id x \<and> user_rootAdmin y = user_rootAdmin x \<and>
      user_enabled y = user_enabled x"
    using assms(1-5) by auto
  ultimately show ?thesis using assms(6) unfolding accounts_from_def by (metis (no_types, lifting))
qed

lemma save_user_set:
  assumes "save_user v d = Inr d'" and "db_ok d"
  shows "set (db_users d') = insert v {x \<in> set (db_users d). user_id x \<noteq> user_id v}"
    and "infrastructure d' = infrastructure d"
proof -
  have "d' = d\<lparr>db_users := upsertRow user_id v (db_users d)\<rparr>"
    using assms(1) by (auto simp: save_user_def map_sum_Inr dest!: saveRow_Inr)
  then show "set (db_users d') = insert v {x \<in> set (db_users d). user_id x \<noteq> user_id v}" "infrastructure d' = infrastructure d"
    using assms(2) by (simp_all add: upsertRow_set db_ok_def db_keys_def unique_rows_def infrastructure_def)
qed

definition unprivileged where
  "unprivileged c U d \<longleftrightarrow> panel_ok d \<and> infrastructure d = c \<and> accounts_from U d"

lemma unprivileged_frame:
  "panel_ok d' \<Longrightarrow> infrastructure d' = infrastructure d \<and> db_users d' = db_users d \<Longrightarrow> unprivileged c U d \<Longrightarrow> unprivileged c U d'"
  by (simp add: unprivileged_def accounts_frame [of d' d])

lemma saved_infrastructure:
  "save_session r1 d = Inr d' \<Longrightarrow> infrastructure d' = infrastructure d \<and> db_users d' = db_users d"
  "save_apiKey r2 d = Inr d' \<Longrightarrow> infrastructure d' = infrastructure d \<and> db_users d' = db_users d"
  "save_auditLog r4 d = Inr d' \<Longrightarrow> infrastructure d' = infrastructure d \<and> db_users d' = db_users d"
  "save_subuser r12 d = Inr d' \<Longrightarrow> infrastructure d' = infrastructure d \<and> db_users d' = db_users d"
  "save_database r13 d = Inr d' \<Longrightarrow> infrastructure d' = infrastructure d \<and> db_users d' = db_users d"
  "save_schedule r15 d = Inr d' \<Longrightarrow> infrastructure d' = infrastructure d \<and> db_users d' = db_users d"
  "save_scheduleTask r16 d = Inr d' \<Longrightarrow> infrastructure d' = infrastructure d \<and> db_users d' = db_users d"
  by (auto simp: save_defs map_sum_Inr infrastructure_def)

lemma map_upsert:
  assumes "distinct (map key t)" and "x \<in> set t" and "key r = key x" and "f r = f x"
  shows "map f (upsertRow key r t) = map f t"
proof -
  have "hasRow (\<lambda>y. key y = key r) t" using assms(2,3) by (auto simp: hasRow_iff)
  moreover have "map f (updateRows (\<lambda>y. key y = key r) (\<lambda>_. r) t) = map f t"
  proof -
    have "y = x" if "y \<in> set t" "key y = key x" for y
      using assms(1,2) that by (auto simp: distinct_map inj_on_def)
    then show ?thesis using assms(3,4) by (auto simp: updateRows_def)
  qed
  ultimately show ?thesis by (simp add: upsertRow_def)
qed

lemma own_server_panel:
  assumes "panel_ok s" and "x \<in> set (db_servers s)" and "save_server (assign_server dto x) s = Inr t"
  shows "panel_ok t" and "t = s\<lparr>db_servers := upsertRow server_id (assign_server dto x) (db_servers s)\<rparr>"
    and "infrastructure t = infrastructure s"
proof -
  have dist: "distinct (map server_id (db_servers s))"
    using assms(1) by (simp add: panel_ok_def db_ok_def db_keys_def unique_rows_def)
  show t: "t = s\<lparr>db_servers := upsertRow server_id (assign_server dto x) (db_servers s)\<rparr>"
    using assms(3) by (auto simp: save_server_def map_sum_Inr dest!: saveRow_Inr)
  have "placement (assign_server dto x) = placement x" by (simp add: placement_def assign_server_def)
  note moved = placement_upsert [OF dist assms(2) this]
  have "placed t" by (rule placed_moved [of s]) (use assms(1) moved in \<open>simp_all add: panel_ok_def t\<close>)
  then show "panel_ok t" using save_ok(12) [OF assms(3) panel_ok_db [OF assms(1)]] by (simp add: panel_ok_def)
  have "server_id (assign_server dto x) = server_id x" "server_identity (assign_server dto x) = server_identity x"
    "server_status (assign_server dto x) = server_status x"
    by (simp_all add: server_identity_def assign_server_def)
  then show "infrastructure t = infrastructure s"
    by (simp add: infrastructure_def t map_upsert [OF dist assms(2)])
qed

lemma login_time_keeps: "panel_ok s \<Longrightarrow> panel_ok (set_lastLogin i now s)"
  by (rule auth_keeps)

lemma accounts_mapped:
  assumes "db_users d' = map f (db_users d)" and "accounts_from U d"
    and "\<And>u. user_id (f u) = user_id u" "\<And>u. user_rootAdmin (f u) = user_rootAdmin u" "\<And>u. user_enabled (f u) = user_enabled u"
  shows "accounts_from U d'"
  using assms(2) by (simp add: accounts_from_def assms(1,3-5) image_image)

lemma unprivileged_calls:
  assumes "db.truncate t = db.truncate s" and "unprivileged c U s" shows "unprivileged c U t"
proof -
  have "panel_ok t" using assms by (intro panel_ok_calls [of t s]) (simp_all add: unprivileged_def)
  moreover have "infrastructure t = infrastructure s \<and> db_users t = db_users s"
    using assms(1) by (simp add: infrastructure_def db.truncate_def)
  ultimately show ?thesis using assms(2) by (rule unprivileged_frame)
qed

lemma unprivileged_registered:
  assumes s: "save_user (new_user i now email name hash False) s = Inr t" and "fresh_id i s" and I: "unprivileged c U s"
  shows "unprivileged c U t"
proof -
  let ?v = "new_user i now email name hash False"
  have new: "user_id ?v = i" "\<not> user_rootAdmin ?v" by (simp_all add: new_user_def)
  have ok: "panel_ok s" and acc: "accounts_from U s" using I by (simp_all add: unprivileged_def)
  have i: "user_id ?v \<notin> user_id ` set (db_users s)" using assms(2) by (auto simp: new(1) fresh_id_def exists_iff)
  have "\<forall>x \<in> set (db_users s). user_id x \<noteq> user_id ?v" using i by (metis imageI)
  then have "{x \<in> set (db_users s). user_id x \<noteq> user_id ?v} = set (db_users s)" by auto
  then have "set (db_users t) = insert ?v (set (db_users s))"
    using save_user_set(1) [OF s panel_ok_db [OF ok]] by simp
  from accounts_new [OF this new(2) i acc] show ?thesis
    using save_user_set(2) [OF s panel_ok_db [OF ok]] save_keeps_panel(1) [OF s ok] I by (simp add: unprivileged_def)
qed

lemma unprivileged_changed:
  assumes "u \<in> set (db_users s)" and s: "save_user v s = Inr t" and I: "unprivileged c U s"
    and v: "user_id v = user_id u" "user_rootAdmin v = user_rootAdmin u" "user_enabled v = user_enabled u"
  shows "unprivileged c U t"
proof -
  have ok: "panel_ok s" and acc: "accounts_from U s" using I by (simp_all add: unprivileged_def)
  show ?thesis
    using accounts_changed [OF save_user_set(1) [OF s panel_ok_db [OF ok]] assms(1) v acc]
      save_user_set(2) [OF s panel_ok_db [OF ok]] save_keeps_panel(1) [OF s ok] I by (simp add: unprivileged_def)
qed

lemma unprivileged_server:
  assumes "x \<in> set (db_servers s)" and "save_server (assign_server dto x) s = Inr t" and "unprivileged c U s"
  shows "unprivileged c U t"
proof -
  have ok: "panel_ok s" using assms(3) by (simp add: unprivileged_def)
  note o = own_server_panel [OF ok assms(1,2)]
  have "db_users t = db_users s" by (simp add: o(2))
  then show ?thesis using o(1,3) assms(3) by (intro unprivileged_frame [of t s]) simp_all
qed

lemma unprivileged_saved:
  "save_session r1 d = Inr d' \<Longrightarrow> unprivileged c U d \<Longrightarrow> unprivileged c U d'"
  "save_apiKey r2 d = Inr d' \<Longrightarrow> unprivileged c U d \<Longrightarrow> unprivileged c U d'"
  "save_auditLog r4 d = Inr d' \<Longrightarrow> unprivileged c U d \<Longrightarrow> unprivileged c U d'"
  "save_subuser r12 d = Inr d' \<Longrightarrow> unprivileged c U d \<Longrightarrow> unprivileged c U d'"
  "save_database r13 d = Inr d' \<Longrightarrow> unprivileged c U d \<Longrightarrow> unprivileged c U d'"
  "save_schedule r15 d = Inr d' \<Longrightarrow> unprivileged c U d \<Longrightarrow> unprivileged c U d'"
  "save_scheduleTask r16 d = Inr d' \<Longrightarrow> unprivileged c U d \<Longrightarrow> unprivileged c U d'"
  by (rule unprivileged_frame, erule save_keeps_panel, simp add: unprivileged_def, erule saved_infrastructure, assumption)+

lemma unprivileged_dropped:
  "unprivileged c U d \<Longrightarrow> unprivileged c U (d\<lparr>db_apiKeys := removeRows P2 (db_apiKeys d)\<rparr>)"
  "unprivileged c U d \<Longrightarrow> unprivileged c U (d\<lparr>db_subusers := removeRows P6 (db_subusers d)\<rparr>)"
  "unprivileged c U d \<Longrightarrow> unprivileged c U (d\<lparr>db_databases := removeRows P7 (db_databases d)\<rparr>)"
  "unprivileged c U d \<Longrightarrow> unprivileged c U (remove_scheduleTasks P8 d)"
  "unprivileged c U d \<Longrightarrow> unprivileged c U (remove_schedules P9 d)"
  by (rule unprivileged_frame, (rule remove_leaf_keeps remove_schedules_keeps, simp add: unprivileged_def),
      simp add: infrastructure_def remove_defs Let_def, assumption)+

interpretation infra: plain_laws "unprivileged c U" "\<lambda>_. True" for c U
proof (unfold_locales, goal_cases)
  case (1 t s) then show ?case by (rule unprivileged_calls)
next
  case (4 i now email name hash s t) then show ?case by (rule unprivileged_registered)
next
  case (5 s i now)
  have "accounts_from U (set_lastLogin i now s)"
    by (rule accounts_mapped [of _ "\<lambda>u. if user_id u = i then user_lastLogin_update (\<lambda>_. Some now) u else u" s])
      (use 5 in \<open>simp_all add: unprivileged_def set_lastLogin_def updateRows_def\<close>)
  then show ?case using 5 login_time_keeps [of s] by (simp add: unprivileged_def infrastructure_def set_lastLogin_def)
next
  case (6 u s b t)
  show ?case by (rule unprivileged_changed [OF 6]) simp_all
next
  case (7 u s v t)
  show ?case by (rule unprivileged_changed [OF 7(1,6,7,3-5)])
next
  case (8 s P)
  show ?case by (rule unprivileged_frame [of _ s])
    (use 8 in \<open>simp_all add: unprivileged_def notification_service_keeps [unfolded mark_read_def] mark_read_def infrastructure_def\<close>)
next
  case (11 x s dto t) then show ?case by (intro unprivileged_server [of x s dto t c U])
qed (erule unprivileged_saved unprivileged_dropped | assumption)+

text \<open>
  C6. Requests that carry neither an administrator's nor a daemon's token, however many and in
  whatever order, change nothing of the installation: locations, nodes, allocations, nests,
  eggs, and of the servers who owns them, where they are and whether they are suspended; they
  create, move and remove no server; and no account is removed, gets administrator rights or
  is enabled again by them, nor is a newly registered one an administrator.
\<close>

theorem users_cannot_escalate:
  fixes s :: "'z wings_panel_scheme"
  assumes "(user_request (\<lambda>_. True) X W)\<^sup>*\<^sup>* s t" and "panel_ok s"
  shows "infrastructure t = infrastructure s \<and> accounts_from (db_users s) t"
  using infra.user_run_keeps [OF assms(1), of "infrastructure s" "db_users s"] assms(2)
  by (simp add: unprivileged_def accounts_refl)

section \<open>What a user cannot change of others\<close>

definition others where
  "others i d =
     (filter (\<lambda>x. server_userId x \<noteq> i) (db_servers d), filter (\<lambda>k. apikey_userId k \<noteq> i) (db_apiKeys d),
      filter (\<lambda>n. notif_userId n \<noteq> i) (db_notifications d))"

text \<open>Of an account, everything but what a login writes: the time, and the backup codes left.\<close>

definition credentials where
  "credentials u =
     (user_id u, user_email u, user_username u, user_password u, user_rootAdmin u, user_usesTotp u,
      user_totpSecret u, user_pendingTotpSecret u, user_enabled u, user_avatarUrl u)"

definition accounts_kept :: "string \<Rightarrow> UserEntity list \<Rightarrow> 'z db_scheme \<Rightarrow> bool" where
  "accounts_kept i U d \<longleftrightarrow> (\<forall>u \<in> set U. user_id u \<noteq> i \<longrightarrow> credentials u \<in> credentials ` set (db_users d))"

definition isolated where
  "isolated i c U d \<longleftrightarrow> panel_ok d \<and> others i d = c \<and> accounts_kept i U d"

lemma isolated_frame:
  "panel_ok d' \<Longrightarrow> others i d' = others i d \<and> db_users d' = db_users d \<Longrightarrow> isolated i c U d \<Longrightarrow> isolated i c U d'"
  by (simp add: isolated_def accounts_kept_def)

lemma saved_others:
  "save_session r1 d = Inr d' \<Longrightarrow> others i d' = others i d \<and> db_users d' = db_users d"
  "save_auditLog r4 d = Inr d' \<Longrightarrow> others i d' = others i d \<and> db_users d' = db_users d"
  "save_subuser r12 d = Inr d' \<Longrightarrow> others i d' = others i d \<and> db_users d' = db_users d"
  "save_database r13 d = Inr d' \<Longrightarrow> others i d' = others i d \<and> db_users d' = db_users d"
  "save_schedule r15 d = Inr d' \<Longrightarrow> others i d' = others i d \<and> db_users d' = db_users d"
  "save_scheduleTask r16 d = Inr d' \<Longrightarrow> others i d' = others i d \<and> db_users d' = db_users d"
  by (auto simp: save_defs map_sum_Inr others_def)

lemma isolated_saved:
  "save_session r1 d = Inr d' \<Longrightarrow> isolated i c U d \<Longrightarrow> isolated i c U d'"
  "save_auditLog r4 d = Inr d' \<Longrightarrow> isolated i c U d \<Longrightarrow> isolated i c U d'"
  "save_subuser r12 d = Inr d' \<Longrightarrow> isolated i c U d \<Longrightarrow> isolated i c U d'"
  "save_database r13 d = Inr d' \<Longrightarrow> isolated i c U d \<Longrightarrow> isolated i c U d'"
  "save_schedule r15 d = Inr d' \<Longrightarrow> isolated i c U d \<Longrightarrow> isolated i c U d'"
  "save_scheduleTask r16 d = Inr d' \<Longrightarrow> isolated i c U d \<Longrightarrow> isolated i c U d'"
  by (rule isolated_frame, erule save_keeps_panel, simp add: isolated_def, erule saved_others, assumption)+

lemma isolated_dropped:
  "isolated i c U d \<Longrightarrow> isolated i c U (d\<lparr>db_subusers := removeRows P6 (db_subusers d)\<rparr>)"
  "isolated i c U d \<Longrightarrow> isolated i c U (d\<lparr>db_databases := removeRows P7 (db_databases d)\<rparr>)"
  "isolated i c U d \<Longrightarrow> isolated i c U (remove_scheduleTasks P8 d)"
  "isolated i c U d \<Longrightarrow> isolated i c U (remove_schedules P9 d)"
  by (rule isolated_frame, (rule remove_leaf_keeps remove_schedules_keeps, simp add: isolated_def),
      simp add: others_def remove_defs Let_def, assumption)+

lemma isolated_calls:
  assumes "db.truncate t = db.truncate s" and "isolated i c U s" shows "isolated i c U t"
proof (rule isolated_frame [OF _ _ assms(2)])
  show "panel_ok t" by (rule panel_ok_calls [OF assms(1)]) (use assms(2) in \<open>simp add: isolated_def\<close>)
  show "others i t = others i s \<and> db_users t = db_users s" using assms(1) by (simp add: others_def db.truncate_def)
qed

text \<open>A saved account: the accounts of others are among the new ones.\<close>

lemma isolated_account:
  assumes s: "save_user v s = Inr t" and I: "isolated i c U s"
    and v: "\<And>u. u \<in> set (db_users s) \<Longrightarrow> user_id u = user_id v \<Longrightarrow> user_id u = i \<or> credentials u = credentials v"
  shows "isolated i c U t"
proof -
  have ok: "panel_ok s" and acc: "accounts_kept i U s" using I by (simp_all add: isolated_def)
  have set: "set (db_users t) = insert v {x \<in> set (db_users s). user_id x \<noteq> user_id v}"
    using s panel_ok_db [OF ok] by (rule save_user_set)
  have "credentials u \<in> credentials ` set (db_users t)" if u: "u \<in> set U" "user_id u \<noteq> i" for u
  proof -
    obtain w where w: "w \<in> set (db_users s)" "credentials u = credentials w" using acc u by (auto simp: accounts_kept_def)
    then have "user_id w \<noteq> i" using u(2) by (simp add: credentials_def)
    then show ?thesis using v [OF w(1)] w by (cases "user_id w = user_id v") (auto simp: set)
  qed
  then have "accounts_kept i U t" by (simp add: accounts_kept_def)
  moreover have "others i t = others i s" using s by (auto simp: save_user_def map_sum_Inr others_def)
  ultimately show ?thesis using save_keeps_panel(1) [OF s ok] I by (simp add: isolated_def)
qed

lemma filter_upsert:
  assumes "distinct (map key t)" and "x \<in> set t" and "key r = key x" and "\<not> P r" "\<not> P x"
  shows "filter P (upsertRow key r t) = filter P t"
proof -
  have row: "hasRow (\<lambda>y. key y = key r) t" using assms(2,3) by (auto simp: hasRow_iff)
  have "y = x" if "y \<in> set t" "key y = key x" for y
    using assms(1,2) that by (auto simp: distinct_map inj_on_def)
  then have "\<forall>y \<in> set t. key y = key r \<longrightarrow> \<not> P y" using assms(3,5) by auto
  then have "filter P (updateRows (\<lambda>y. key y = key r) (\<lambda>_. r) t) = filter P t"
    using assms(4) by (induction t) (auto simp: updateRows_def)
  then show ?thesis using row by (simp add: upsertRow_def)
qed

lemma isolated_server:
  assumes "x \<in> set (db_servers s)" and "server_userId x = i" and "save_server (assign_server dto x) s = Inr t" and "isolated i c U s"
  shows "isolated i c U t"
proof -
  have ok: "panel_ok s" using assms(4) by (simp add: isolated_def)
  note o = own_server_panel [OF ok assms(1,3)]
  have dist: "distinct (map server_id (db_servers s))"
    using ok by (simp add: panel_ok_def db_ok_def db_keys_def unique_rows_def)
  have a: "server_id (assign_server dto x) = server_id x" "server_userId (assign_server dto x) = i"
    using assms(2) by (simp_all add: assign_server_def)
  have "filter (\<lambda>x. server_userId x \<noteq> i) (db_servers t) = filter (\<lambda>x. server_userId x \<noteq> i) (db_servers s)"
    using filter_upsert [OF dist assms(1) a(1), of "\<lambda>x. server_userId x \<noteq> i"] a(2) assms(2) by (simp add: o(2))
  then have "others i t = others i s \<and> db_users t = db_users s" by (simp add: others_def o(2))
  then show ?thesis by (rule isolated_frame [OF o(1) _ assms(4)])
qed

lemma isolated_key:
  assumes "save_apiKey k s = Inr t" and "apikey_userId k = i" and "fresh_id (apikey_id k) s" and "isolated i c U s"
  shows "isolated i c U t"
proof (rule isolated_frame [OF _ _ assms(4)])
  show "panel_ok t" using assms(1) by (rule save_keeps_panel) (use assms(4) in \<open>simp add: isolated_def\<close>)
  have "t = s\<lparr>db_apiKeys := db_apiKeys s @ [k]\<rparr>"
    using assms(1,3) by (auto simp: save_apiKey_def map_sum_Inr fresh_id_def upsertRow_def insertRow_def dest!: saveRow_Inr)
  then show "others i t = others i s \<and> db_users t = db_users s" using assms(2) by (simp add: others_def)
qed

lemma isolated_drop_key:
  assumes "k \<in> set (db_apiKeys s)" and "apikey_userId k = i" and "isolated i c U s"
  shows "isolated i c U (s\<lparr>db_apiKeys := removeRows (\<lambda>x. apikey_id x = apikey_id k) (db_apiKeys s)\<rparr>)"
proof (rule isolated_frame [OF _ _ assms(3)])
  have ok: "panel_ok s" using assms(3) by (simp add: isolated_def)
  then show "panel_ok (s\<lparr>db_apiKeys := removeRows (\<lambda>x. apikey_id x = apikey_id k) (db_apiKeys s)\<rparr>)"
    by (rule remove_leaf_keeps)
  have "x = k" if "x \<in> set (db_apiKeys s)" "apikey_id x = apikey_id k" for x
    using ok assms(1) that by (auto simp: panel_ok_def db_ok_def db_keys_def unique_rows_def distinct_map inj_on_def)
  then have "filter (\<lambda>k. apikey_userId k \<noteq> i) (removeRows (\<lambda>x. apikey_id x = apikey_id k) (db_apiKeys s)) =
      filter (\<lambda>k. apikey_userId k \<noteq> i) (db_apiKeys s)"
    using assms(2) by (auto simp: removeRows_def intro!: filter_cong)
  then show "others i (s\<lparr>db_apiKeys := removeRows (\<lambda>x. apikey_id x = apikey_id k) (db_apiKeys s)\<rparr>) = others i s \<and>
      db_users (s\<lparr>db_apiKeys := removeRows (\<lambda>x. apikey_id x = apikey_id k) (db_apiKeys s)\<rparr>) = db_users s"
    by (simp add: others_def)
qed

lemma isolated_read:
  assumes "isolated i c U s" and "\<And>n. P n \<Longrightarrow> notif_userId n = i"
  shows "isolated i c U (mark_read P s)"
proof (rule isolated_frame [OF _ _ assms(1)])
  show "panel_ok (mark_read P s)" using assms(1) by (simp add: isolated_def notification_service_keeps)
  have "filter (\<lambda>n. notif_userId n \<noteq> i) (updateRows P (notif_read_update (\<lambda>_. True)) t) = filter (\<lambda>n. notif_userId n \<noteq> i) t" for t
    using assms(2) by (induction t) (auto simp: updateRows_def)
  then show "others i (mark_read P s) = others i s \<and> db_users (mark_read P s) = db_users s"
    by (simp add: others_def mark_read_def)
qed

lemma login_credentials:
  "credentials ` set (db_users (set_lastLogin j now s)) = credentials ` set (db_users s)"
proof -
  have "map credentials (db_users (set_lastLogin j now s)) = map credentials (db_users s)"
    by (simp add: set_lastLogin_def updateRows_def credentials_def)
  then show ?thesis by (metis list.set_map)
qed

lemma isolated_login:
  assumes "isolated i c U s" shows "isolated i c U (set_lastLogin j now s)"
proof -
  have "others i (set_lastLogin j now s) = others i s" by (simp add: others_def set_lastLogin_def)
  then show ?thesis
    using assms login_time_keeps [of s] login_credentials [of j now s] by (simp add: isolated_def accounts_kept_def)
qed

interpretation alone: plain_laws "isolated i c U" "\<lambda>j. j = i" for i c U
proof (unfold_locales, goal_cases)
  case (1 t s) then show ?case by (rule isolated_calls)
next
  case (4 j now email name hash s t)
  then show ?case by (intro isolated_account [OF 4(1,3)]) (auto simp: fresh_id_def exists_iff new_user_def)
next
  case (5 s j now) then show ?case by (rule isolated_login)
next
  case (6 u s b t)
  have "w = u" if "w \<in> set (db_users s)" "user_id w = user_id u" for w
    using 6(1,3) that by (auto simp: isolated_def panel_ok_def db_ok_def db_keys_def unique_rows_def distinct_map inj_on_def)
  then show ?case by (intro isolated_account [OF 6(2,3)]) (auto simp: credentials_def)
next
  case (7 u s v t)
  then show ?case by (intro isolated_account [OF 7(6,7)]) auto
next
  case (8 s P) then show ?case by (rule isolated_read)
next
  case (9 k s t) then show ?case by (rule isolated_key)
next
  case (10 k s) then show ?case by (rule isolated_drop_key)
next
  case (11 x s dto t) then show ?case by (rule isolated_server)
qed (erule isolated_saved isolated_dropped | assumption)+

text \<open>
  C7. A run of requests that are signed in, if at all, as one user without administrator rights
  leaves what belongs to everyone else as it was: their servers, with all settings, their API
  keys and their notifications; and of their accounts everything but what a login writes (its
  time and the backup codes that are left), passwords, addresses, rights and second factors
  included.  (Schedules, databases and subusers are not in this list: see
  \<open>row_ids_not_scoped\<close>.)
\<close>

theorem users_isolated:
  fixes s :: "'z wings_panel_scheme"
  assumes "(user_request (\<lambda>j. j = i) X W)\<^sup>*\<^sup>* s t" and "panel_ok s"
  shows "others i t = others i s \<and> accounts_kept i (db_users s) t"
proof -
  have "isolated i (others i s) (db_users s) s" using assms(2) by (auto simp: isolated_def accounts_kept_def)
  then have "isolated i (others i s) (db_users s) t" by (rule alone.user_run_keeps [OF assms(1)])
  then show ?thesis by (simp add: isolated_def)
qed

section \<open>A request of an owner\<close>

definition demo_changes :: UpdateServerDto where
  "demo_changes = \<lparr>usd_name = Some ''mine'', usd_description = None, usd_memory = Some 999999, usd_cpu = None, usd_disk = None,
    usd_envVariables = None, usd_swap = None, usd_io = None, usd_threads = None, usd_oomDisabled = None,
    usd_startup = None, usd_image = None, usd_externalId = None\<rparr>"

definition owner_updated :: wings_panel where
  "owner_updated = snd (ServersController_update demo_ext 0 (demo_cookie (demo_user ''u2'' ''bob'' False)) ''uuid-1''
     demo_changes demo_three)"

lemma demo_owner_request:
  "user_request (\<lambda>j. j = ''u2'') demo_ext wings_down demo_three owner_updated"
  "owner ''u2'' \<Longrightarrow> user_request owner demo_ext wings_down demo_three owner_updated"
  unfolding owner_updated_def using demo_three_guard [of "demo_user ''u2'' ''bob'' False"]
  by (auto simp: plain_request_def demo_user_def DaemonTokenGuard_def demo_cookie_def
      intro!: user_request.request panel_step.server server_step.update)


lemma demo_owner_result:
  "map server_memory (db_servers owner_updated) = [999999]"
proof -
  let ?bob = "demo_user ''u2'' ''bob'' False"
  have "JwtAuthGuard demo_ext 0 (demo_cookie ?bob) demo_three =
      Inr \<lparr>au_id = user_id ?bob, au_email = user_email ?bob, au_rootAdmin = user_rootAdmin ?bob\<rparr>"
    by (rule demo_three_guard) simp
  then have "ServersController_update demo_ext 0 (demo_cookie ?bob) ''uuid-1'' demo_changes demo_three =
      ServersService_update ''uuid-1'' demo_changes demo_three"
    by (rule update_route.granted [OF _ demo_three_server])
      (simp_all add: demo_user_def demo_server_def UpdateServerDto_ok_def demo_changes_def opt_ok_def)
  moreover have "save_server (assign_server demo_changes demo_server) demo_three =
      Inr (demo_three\<lparr>db_servers := [assign_server demo_changes demo_server]\<rparr>)"
    by (simp add: save_server_def saveRow_def hasRow_def upsertRow_def updateRows_def server_clash_def demo_three_def
        assign_server_def demo_changes_def demo_server_def demo_user_def exists_iff demo_node_def demo_egg_def)
  ultimately show ?thesis
    by (simp add: owner_updated_def ServersService_update_def ServersService_findByUuid_def demo_three_server Let_def)
      (simp add: assign_server_def demo_changes_def)
qed

theorem users_cannot_escalate_witness:
  "map server_memory (db_servers owner_updated) = [999999] \<and>
     infrastructure owner_updated = infrastructure demo_three \<and> accounts_from (db_users demo_three) owner_updated"
  using users_cannot_escalate [OF r_into_rtranclp [of "user_request (\<lambda>_. True) demo_ext wings_down"] demo_three_panel_ok,
      OF demo_owner_request(2) [of "\<lambda>_. True", OF TrueI]] demo_owner_result by simp

theorem users_isolated_witness:
  "map server_memory (db_servers owner_updated) = [999999] \<and>
     others ''u2'' owner_updated = others ''u2'' demo_three \<and> accounts_kept ''u2'' (db_users demo_three) owner_updated"
  using users_isolated [OF r_into_rtranclp [of "user_request (\<lambda>j. j = ''u2'') demo_ext wings_down"] demo_three_panel_ok,
      OF demo_owner_request(1)] demo_owner_result by simp

end
