(* ===== verification/PanelSessions.thy ===== *)
theory PanelSessions
  imports PanelRun
begin

text \<open>
  What runs of the whole panel do to the sessions and to the backup codes of the accounts: a
  revoked session stays revoked and a used backup code stays used, whichever routes are called
  in between.  \<open>accounts\<close> are the two tables concerned.  The routes of servers, nodes and the rest
  leave both alone; \<open>since\<close> is what the routes of \<^verbatim>\<open>auth.controller.ts\<close> and of the users keep.
\<close>

section \<open>Routes that leave users and sessions alone\<close>

definition accounts :: "'z db_scheme \<Rightarrow> UserEntity list \<times> SessionEntity list" where
  "accounts d = (db_users d, db_sessions d)"

named_theorems account_simps "what leaves users and sessions as they are"

lemma accounts_saved:
  "save_apiKey r2 d = Inr d' \<Longrightarrow> accounts d' = accounts d"
  "save_location r5 d = Inr d' \<Longrightarrow> accounts d' = accounts d"
  "save_node r6 d = Inr d' \<Longrightarrow> accounts d' = accounts d"
  "save_allocation r7 d = Inr d' \<Longrightarrow> accounts d' = accounts d"
  "save_nest r8 d = Inr d' \<Longrightarrow> accounts d' = accounts d"
  "save_egg r9 d = Inr d' \<Longrightarrow> accounts d' = accounts d"
  "save_eggVariable r10 d = Inr d' \<Longrightarrow> accounts d' = accounts d"
  "save_server r11 d = Inr d' \<Longrightarrow> accounts d' = accounts d"
  "save_subuser r12 d = Inr d' \<Longrightarrow> accounts d' = accounts d"
  "save_database r13 d = Inr d' \<Longrightarrow> accounts d' = accounts d"
  "save_schedule r15 d = Inr d' \<Longrightarrow> accounts d' = accounts d"
  "save_scheduleTask r16 d = Inr d' \<Longrightarrow> accounts d' = accounts d"
  "save_auditLog r4 d = Inr d' \<Longrightarrow> accounts d' = accounts d"
  by (auto simp: save_defs map_sum_Inr accounts_def)

lemma accounts_each:
  "(\<And>r d d'. save r d = Inr d' \<Longrightarrow> accounts d' = accounts d) \<Longrightarrow> save_each save rs d = Inr d' \<Longrightarrow> accounts d' = accounts d"
proof (induction rs arbitrary: d)
  case (Cons r rs)
  then obtain d1 where "save r d = Inr d1" "save_each save rs d1 = Inr d'" by (auto split: sum.splits)
  then show ?case using Cons.IH [of d1] Cons.prems(1) by metis
qed simp

lemma accounts_each_saved:
  "save_each save_allocation as d = Inr d' \<Longrightarrow> accounts d' = accounts d"
  "save_each save_eggVariable vs d = Inr d' \<Longrightarrow> accounts d' = accounts d"
  "save_each save_scheduleTask ts d = Inr d' \<Longrightarrow> accounts d' = accounts d"
  by (erule accounts_each [rotated], erule accounts_saved)+

lemma accounts_removed [account_simps]:
  "accounts (d\<lparr>db_apiKeys := K\<rparr>) = accounts d"
  "accounts (d\<lparr>db_allocations := A\<rparr>) = accounts d"
  "accounts (d\<lparr>db_eggVariables := V\<rparr>) = accounts d"
  "accounts (d\<lparr>db_subusers := S\<rparr>) = accounts d"
  "accounts (d\<lparr>db_databases := B\<rparr>) = accounts d"
  "accounts (remove_scheduleTasks P d) = accounts d"
  "accounts (remove_schedules Q d) = accounts d"
  "accounts (remove_location i d) = accounts d"
  "accounts (mark_read R d) = accounts d"
  "accounts (update_node i f d) = accounts d"
  "accounts (update_server i g d) = accounts d"
  "accounts (NodeHeartbeatStore_set i h s) = accounts s"
  by (simp_all add: accounts_def remove_defs mark_read_def update_node_def update_server_def NodeHeartbeatStore_set_def Let_def)

lemma accounts_cascade:
  "remove_node i d = Inr d' \<Longrightarrow> accounts d' = accounts d"
  "remove_eggs P d = Inr d' \<Longrightarrow> accounts d' = accounts d"
  "remove_nest i d = Inr d' \<Longrightarrow> accounts d' = accounts d"
  "remove_server i d = Inr d' \<Longrightarrow> accounts d' = accounts d"
  by (auto simp: accounts_def remove_defs Let_def map_sum_Inr split: if_splits)

lemma accounts_calls: "db.truncate t = db.truncate s \<Longrightarrow> accounts t = accounts s"
  by (simp add: accounts_def db.truncate_def)

lemmas accounts_dests = accounts_saved accounts_each_saved accounts_cascade

lemma accounts_services [account_simps]:
  "accounts (snd (LocationsService_create i now short long d)) = accounts d"
  "accounts (snd (LocationsService_update i short' long' d)) = accounts d"
  "accounts (snd (LocationsService_delete i d)) = accounts d"
  "accounts (snd (NodesService_create X now i tid tok url ndto d)) = accounts d"
  "accounts (snd (NodesService_update i undto d)) = accounts d"
  "accounts (snd (NodesService_delete i d)) = accounts d"
  "accounts (snd (NodesService_regenerateToken X tid tok url i d)) = accounts d"
  "accounts (snd (NodesService_getHealth now i s)) = accounts s"
  "accounts (NodesService_processHeartbeat now node hdto s) = accounts s"
  "accounts (snd (DatabasesService_create dr now i ddto d)) = accounts d"
  "accounts (snd (DatabasesService_delete i d)) = accounts d"
  unfolding LocationsService_create_def LocationsService_update_def LocationsService_delete_def NodesService_create_def
    NodesService_update_def NodesService_delete_def NodesService_regenerateToken_def NodesService_getHealth_def
    NodesService_processHeartbeat_def DatabasesService_create_def DatabasesService_delete_def Let_def
  by (auto split: handler_splits simp: account_simps dest!: accounts_dests)

lemma accounts_tasks: "save_with_tasks schedule ts d = Inr d' \<Longrightarrow> accounts d' = accounts d"
  by (auto simp: save_with_tasks_def split: sum.splits dest!: accounts_dests)

lemma accounts_schedules [account_simps]:
  "accounts (snd (SchedulesService_create i ids now sid csdto d)) = accounts d"
  "accounts (snd (SchedulesService_update ids now i usdto d)) = accounts d"
  "accounts (snd (SchedulesService_delete i d)) = accounts d"
  "accounts (snd (SchedulesService_executeSchedule now i d)) = accounts d"
  unfolding SchedulesService_create_def SchedulesService_update_def SchedulesService_delete_def
    SchedulesService_executeSchedule_def Let_def
  by (auto split: handler_splits simp: account_simps dest!: accounts_dests accounts_tasks)

lemma accounts_subusers [account_simps]:
  "accounts (snd (SubusersService_invite i now sid email perms d)) = accounts d"
  "accounts (snd (SubusersService_update i perms d)) = accounts d"
  "accounts (snd (SubusersService_remove i d)) = accounts d"
  "accounts (snd (ApiKeysService_create X i hex now u kdto d)) = accounts d"
  "accounts (snd (ApiKeysService_delete u i d)) = accounts d"
  unfolding SubusersService_invite_def SubusersService_update_def SubusersService_remove_def
    ApiKeysService_create_def ApiKeysService_delete_def Let_def
  by (auto split: handler_splits simp: account_simps dest!: accounts_dests)

lemma accounts_egg_saves [account_simps]:
  "accounts (snd (save_new_nest i now author name text d)) = accounts d"
  "accounts (snd (save_variables e vs d)) = accounts d"
  "accounts (snd (save_imported e os d)) = accounts d"
  unfolding Let_def save_new_nest_def save_variables_def save_imported_def
  by (auto split: handler_splits simp: account_simps dest!: accounts_dests)

lemma accounts_eggs [account_simps]:
  "accounts (snd (EggsService_createNest i now cndto d)) = accounts d"
  "accounts (snd (EggsService_createEgg i ids now cedto d)) = accounts d"
  "accounts (snd (EggsService_updateEgg ids now i uedto d)) = accounts d"
  "accounts (snd (EggsService_deleteEgg i d)) = accounts d"
  "accounts (snd (EggsService_importEgg i ids now json d)) = accounts d"
  unfolding Let_def EggsService_createNest_def EggsService_createEgg_def EggsService_updateEgg_def EggsService_deleteEgg_def EggsService_importEgg_def
  by (auto split: handler_splits simp: account_simps dest!: accounts_dests)

lemma accounts_allocations [account_simps]:
  "accounts (snd (create_node_allocations ids now node dto d)) = accounts d"
  "accounts (snd (AllocationsService_create ids now node ip a b d)) = accounts d"
  "accounts (snd (AllocationsService_delete i d)) = accounts d"
proof -
  show c: "accounts (snd (create_node_allocations ids now node dto d)) = accounts d" for dto
    by (auto simp: create_node_allocations_def save_allocations_def Let_def split: handler_splits dest!: accounts_dests)
  show "accounts (snd (AllocationsService_create ids now node ip a b d)) = accounts d"
    by (simp add: allocation_create_eq c)
  show "accounts (snd (AllocationsService_delete i d)) = accounts d"
    by (auto simp: AllocationsService_delete_def account_simps split: handler_splits)
qed

lemma accounts_on_node:
  "(\<And>node s. db.truncate (snd (h node s)) = db.truncate s) \<Longrightarrow> accounts (snd (on_node full h s)) = accounts s"
  using on_node_truncate accounts_calls by metis

lemma accounts_servers [account_simps]:
  "accounts (snd (ServersService_power W uuid action s)) = accounts s"
  "accounts (snd (ServersService_sendCommand W uuid line s)) = accounts s"
  "accounts (snd (ServersService_update uuid dto d)) = accounts d"
  "accounts (snd (ServersService_suspend W i s)) = accounts s"
  "accounts (snd (ServersService_unsuspend i d)) = accounts d"
  "accounts (snd (ServersService_updateInstallStatus uuid status c)) = accounts c"
proof -
  show "accounts (snd (ServersService_power W uuid action s)) = accounts s"
    "accounts (snd (ServersService_sendCommand W uuid line s)) = accounts s"
    by (rule accounts_calls, simp)+
  show "accounts (snd (ServersService_update uuid dto d)) = accounts d"
    by (auto simp: ServersService_update_def Let_def split: sum.split dest!: accounts_dests)
  show "accounts (snd (ServersService_suspend W i s)) = accounts s" "accounts (snd (ServersService_unsuspend i d)) = accounts d"
    by (auto simp: ServersService_suspend_def ServersService_unsuspend_def Let_def account_simps accounts_on_node split: sum.split)
  show "accounts (snd (ServersService_updateInstallStatus uuid status c)) = accounts c"
    by (auto simp: ServersService_updateInstallStatus_def account_simps split: option.split)
qed

lemma accounts_reinstall [account_simps]: "accounts (snd (ServersService_reinstall W i s)) = accounts s"
proof (cases "ServersService_findById i s")
  case (Inr full)
  let ?s1 = "update_server (server_id (fs_server full)) (server_installed_update (\<lambda>_. 0)) s"
  let ?o = "case (fs_node full, fs_egg full, fs_allocation full) of
      (Some node, Some egg, Some allocation) \<Rightarrow>
        WingsService_reinstallServer W node (wings_config (fs_server full) allocation)
          (str_or (egg_scriptInstall egg) []) (egg_scriptContainer egg) ?s1
    | _ \<Rightarrow> (Inl TypeError, ?s1)"
  have "accounts (snd ?o) = accounts ?s1" by (rule accounts_calls) (simp split: option.split)
  moreover have "snd (ServersService_reinstall W i s) = snd ?o"
    by (simp add: ServersService_reinstall_def Inr Let_def split: prod.split sum.split unit.split)
  ultimately show ?thesis by (simp add: account_simps)
qed (simp add: ServersService_reinstall_def)

lemma accounts_delete [account_simps]:
  fixes s :: "'z wings_panel_scheme"
  shows "accounts (snd (ServersService_delete W uuid s)) = accounts s"
proof -
  have "accounts (release_allocation full d) = accounts d" for full and d :: "'z wings_panel_scheme"
    by (simp add: release_allocation_def account_simps split: option.split)
  moreover have "accounts (snd (on_node full (\<lambda>node. WingsService_deleteServer W node u) s)) = accounts s" for full u
    by (rule accounts_on_node) simp
  ultimately show ?thesis
    by (auto simp: ServersService_delete_def Let_def split: sum.split dest!: accounts_dests)
qed

lemma accounts_after: "accounts (after_call node q s) = accounts s"
  by (simp add: accounts_def after_call_def)

lemma accounts_create:
  assumes "panel_ok s" and "fresh_id (sd_id dr) s"
  shows "accounts (snd (ServersService_create X W now dr dto s)) = accounts s"
proof -
  obtain r t where t: "ServersService_create X W now dr dto s = (r, t)" by force
  have "\<not> hasRow (\<lambda>x. server_id x = sd_id dr) (db_servers s)"
    using assms(2) by (simp add: fresh_id_def server_exists_def)
  from t panel_ok_db [OF assms(1)] this show ?thesis
  proof (cases rule: create_outcome)
    case (refused e cl ca)
    then show ?thesis by (simp add: t accounts_def)
  next
    case (written node al egg x startup img env cl ca d1)
    have "accounts d1 = accounts s"
      unfolding written(8) accounts_after by (simp add: accounts_def with_server_row_def)
    then show ?thesis using written(10) by (auto simp: t account_simps)
  qed
qed

lemma accounts_file: "file_request_ok X now req uuid s t \<Longrightarrow> accounts t = accounts s"
  by (auto simp: file_request_ok_def intro: accounts_calls)

lemma server_route_accounts: "server_step X W now req s t \<Longrightarrow> accounts t = accounts s"
  by (erule server_stepE)
    (auto simp: ServersController_update_def ServersController_power_def ServersController_sendCommand_def
      DatabasesController_create_def DatabasesController_delete_def SchedulesController_create_def
      SchedulesController_update_def SchedulesController_delete_def SchedulesController_execute_def
      SubusersController_invite_def SubusersController_update_def SubusersController_remove_def gate_defs account_simps
      accounts_file [OF file_routes_ok(1)] accounts_file [OF file_routes_ok(2)] accounts_file [OF file_routes_ok(3)]
      accounts_file [OF file_routes_ok(4)] accounts_file [OF file_routes_ok(5)] accounts_file [OF file_routes_ok(6)]
      accounts_file [OF file_routes_ok(7)] accounts_file [OF file_routes_ok(8)] accounts_file [OF file_routes_ok(9)]
      split: sum.split unit.split)

lemma daemon_route_accounts: "daemon_step now req s t \<Longrightarrow> accounts t = accounts s"
  by (erule daemon_stepE)
    (auto simp: NodesController_heartbeat_def ServerCallbacks_installStatus_def gate_defs account_simps split: sum.split)

section \<open>What every route keeps of users and sessions\<close>

text \<open>How many of the stored backup codes of an account satisfy \<open>P\<close>.\<close>

definition codes_left :: "(string \<Rightarrow> bool) \<Rightarrow> UserEntity \<Rightarrow> nat" where
  "codes_left P u = length (filter P (nullish (user_backupCodes u) []))"

definition codes_since :: "(string \<Rightarrow> bool) \<Rightarrow> UserEntity list \<Rightarrow> UserEntity list \<Rightarrow> bool" where
  "codes_since P U V \<longleftrightarrow> (\<forall>v \<in> set V. codes_left P v = 0 \<or>
     (\<exists>u \<in> set U. user_id u = user_id v \<and> codes_left P v \<le> codes_left P u))"

text \<open>A session of \<open>T\<close> that was one of \<open>S\<close> has its token, and is revoked if it was.\<close>

definition sessions_since :: "SessionEntity list \<Rightarrow> SessionEntity list \<Rightarrow> bool" where
  "sessions_since S T \<longleftrightarrow> (\<forall>x \<in> set T. \<forall>y \<in> set S. session_id y = session_id x \<longrightarrow>
     session_refreshToken y = session_refreshToken x \<and> (session_revoked y \<longrightarrow> session_revoked x))"

definition since :: "(string \<Rightarrow> bool) \<Rightarrow> UserEntity list \<Rightarrow> SessionEntity list \<Rightarrow> 'z db_scheme \<Rightarrow> bool" where
  "since P U S d \<longleftrightarrow> codes_since P U (db_users d) \<and> sessions_since S (db_sessions d)"

named_theorems since_intros "what keeps since"

lemma since_refl: "panel_ok d \<Longrightarrow> since P (db_users d) (db_sessions d) d"
  by (auto simp: since_def codes_since_def sessions_since_def panel_ok_def db_ok_def db_keys_def unique_rows_def
      dest: distinct_map_key_eq)

lemma since_accounts: "accounts d' = accounts d \<Longrightarrow> since P U S d \<Longrightarrow> since P U S d'"
  by (simp add: since_def accounts_def)

lemma since_audit [since_intros]:
  "AuditLogService_log i now u ev ip md d = Inr d' \<Longrightarrow> since P U S d \<Longrightarrow> since P U S d'"
  by (rule since_accounts [of d' d]) (auto simp: AuditLogService_log_def Let_def dest!: accounts_dests)

lemma since_user:
  assumes "save_user v d = Inr d'" and "since P U S d"
    and "codes_left P v = 0 \<or> (\<exists>u \<in> set (db_users d). user_id u = user_id v \<and> codes_left P v \<le> codes_left P u)"
  shows "since P U S d'"
proof -
  have d': "d' = d\<lparr>db_users := upsertRow user_id v (db_users d)\<rparr>"
    using assms(1) by (auto simp: save_user_def map_sum_Inr dest!: saveRow_Inr)
  have c: "codes_since P U (db_users d)" "sessions_since S (db_sessions d)" using assms(2) by (simp_all add: since_def)
  have "codes_left P v = 0 \<or> (\<exists>u \<in> set U. user_id u = user_id v \<and> codes_left P v \<le> codes_left P u)"
    using assms(3) c(1) unfolding codes_since_def by (metis le_trans le_zero_eq)
  then show ?thesis using c by (auto simp: d' since_def codes_since_def dest!: set_upsert)
qed

lemma since_account [since_intros]:
  assumes "save_user v d = Inr d'" and "findOne Q (db_users d) = Some u" and "since P U S d"
    and "user_id v = user_id u" and "codes_left P v \<le> codes_left P u"
  shows "since P U S d'"
  using assms(1,3)
proof (rule since_user)
  have "u \<in> set (db_users d)" using assms(2) by (auto dest: findOne_Some)
  then show "codes_left P v = 0 \<or> (\<exists>u \<in> set (db_users d). user_id u = user_id v \<and> codes_left P v \<le> codes_left P u)"
    using assms(4,5) by auto
qed

lemma since_new_user [since_intros]:
  "save_user (new_user i now email name hash admin) d = Inr d' \<Longrightarrow> since P U S d \<Longrightarrow> since P U S d'"
  by (rule since_user, assumption, assumption, rule disjI1) (simp add: new_user_def codes_left_def)

lemma since_login_time [since_intros]: "since P U S d \<Longrightarrow> since P U S (set_lastLogin i now d)"
  by (auto simp: since_def codes_since_def set_lastLogin_def table_sets codes_left_def)

lemma since_session:
  assumes "save_session x d = Inr d'" and "since P U S d"
    and "\<forall>y \<in> set S. session_id y = session_id x \<longrightarrow>
      session_refreshToken y = session_refreshToken x \<and> (session_revoked y \<longrightarrow> session_revoked x)"
  shows "since P U S d'"
proof -
  have "d' = d\<lparr>db_sessions := upsertRow session_id x (db_sessions d)\<rparr>"
    using assms(1) by (auto simp: save_session_def map_sum_Inr dest!: saveRow_Inr)
  then show ?thesis using assms(2,3) by (auto simp: since_def sessions_since_def dest!: set_upsert)
qed

lemma since_own_session [since_intros]:
  assumes "save_session x d = Inr d'" and "findOne Q (db_sessions d) = Some y" and "since P U S d"
    and "session_id x = session_id y" "session_refreshToken x = session_refreshToken y" "session_revoked y \<longrightarrow> session_revoked x"
  shows "since P U S d'"
proof -
  have "y \<in> set (db_sessions d)" using assms(2) by (auto dest: findOne_Some)
  then show ?thesis using assms(3-) by (intro since_session [OF assms(1,3)]) (auto simp: since_def sessions_since_def)
qed

lemma since_open [since_intros]:
  assumes "since P U S d" and "\<forall>y \<in> set S. session_id y \<noteq> dr_sessionId dr"
  shows "since P U S (snd (open_session X now dr user ip ua d))"
proof -
  have "since P U S d1" if "save_session (new_session now dr user ip ua) d = Inr d1" for d1
    using that assms(1) by (rule since_session) (use assms(2) in \<open>auto simp: new_session_def\<close>)
  then show ?thesis
    using assms(1) unfolding open_session_def Let_def by (auto split: sum.split intro: since_intros)
qed

lemma since_users_removed [since_intros]: "remove_user i d = Inr d' \<Longrightarrow> since P U S d \<Longrightarrow> since P U S d'"
  by (auto simp: since_def codes_since_def sessions_since_def remove_defs Let_def table_sets split: if_splits)

lemma consume_codes: "consume_backup_code X code hs = Some rest \<Longrightarrow> length (filter P rest) \<le> length (filter P hs)"
  by (induction hs arbitrary: rest) (auto split: if_splits)

lemma codes_left_simps [simp]:
  "codes_left P (u\<lparr>user_pendingTotpSecret := s\<rparr>) = codes_left P u"
  "codes_left P (assign_user X changes u) = codes_left P u"
  "codes_left P (u\<lparr>user_backupCodes := Some hs\<rparr>) = length (filter P hs)"
  by (simp_all add: codes_left_def assign_user_def)

lemma since_services [since_intros]:
  "since P U S d \<Longrightarrow> since P U S (snd (AuthService_register X now i a dto d))"
  "since P U S d \<Longrightarrow> \<forall>y \<in> set S. session_id y \<noteq> dr_sessionId dr \<Longrightarrow> since P U S (snd (AuthService_login X now dr ldto ip ua d))"
  "since P U S d \<Longrightarrow> since P U S (snd (AuthService_refreshToken X now tok d))"
  "since P U S d \<Longrightarrow> since P U S (snd (AuthService_setupTwoFactor X secret u d))"
  "since P U S d \<Longrightarrow> since P U S (snd (AuthService_revokeSession u i d))"
  "since P U S d \<Longrightarrow> since P U S (snd (UsersService_update X i changes d))"
  "since P U S d \<Longrightarrow> since P U S (snd (UsersService_delete i d))"
  "since P U S d \<Longrightarrow> since P U S (snd (insert_user X now i cdto d))"
  "since P U S d \<Longrightarrow> since P U S (snd (UsersService_create X now i cdto d))"
  unfolding AuthService_register_def AuthService_login_def AuthService_refreshToken_def AuthService_setupTwoFactor_def
    AuthService_revokeSession_def UsersService_update_def UsersService_delete_def UsersService_create_def insert_user_def Let_def
  by (auto split: handler_splits intro: since_intros)

lemma since_disable [since_intros]:
  "since P U S d \<Longrightarrow> since P U S (snd (AuthService_disableTwoFactor X now u code d))"
  unfolding AuthService_disableTwoFactor_def
  by (auto split: option.split sum.split intro: since_intros elim!: since_account simp: codes_left_def col_undefined_def)

lemma since_second [since_intros]:
  assumes "since P U S d" and "\<forall>y \<in> set S. session_id y \<noteq> dr_sessionId dr"
  shows "since P U S (snd (AuthService_verifyTwoFactorLogin X now dr tok code ip ua d))"
proof -
  have "since P U S (snd (open_session X now dr v ip ua d1))"
    if "save_user v d = Inr d1" "findOne Q (db_users d) = Some u" "v = u\<lparr>user_backupCodes := Some rest\<rparr>"
      "consume_backup_code X code (nullish (user_backupCodes u) []) = Some rest" for Q u v rest d1
    using since_account [OF that(1,2) assms(1)] consume_codes [OF that(4)] that(3)
    by (intro since_open assms(2)) (simp add: codes_left_def)
  then show ?thesis
    using assms unfolding AuthService_verifyTwoFactorLogin_def Let_def
    by (auto split: option.split sum.split intro: since_open)
qed

lemma since_confirmed [since_intros]:
  assumes "since P U S d"
    and "\<And>new d'. AuthService_verifyTwoFactorSetup X now codes u code d = (Inr new, d') \<Longrightarrow> \<forall>n \<in> set new. \<not> P (bcryptHash X 10 n)"
  shows "since P U S (snd (AuthService_verifyTwoFactorSetup X now codes u code d))"
proof (cases "AuthService_verifyTwoFactorSetup X now codes u code d")
  case (Pair r d')
  show ?thesis
  proof (cases r)
    case (Inl e)
    then have "d' = d" using Pair
      by (auto simp: AuthService_verifyTwoFactorSetup_def Let_def split: option.splits if_splits sum.splits)
    then show ?thesis using assms(1) Pair by simp
  next
    case (Inr new)
    then obtain v where v: "save_user v d = Inr d'" "user_backupCodes v = Some (map (bcryptHash X 10) new)"
      using Pair by (auto simp: AuthService_verifyTwoFactorSetup_def Let_def split: option.splits if_splits sum.splits)
    have "\<forall>n \<in> set new. \<not> P (bcryptHash X 10 n)" using assms(2) Pair Inr by blast
    then have "codes_left P v = 0" using v(2) by (simp add: codes_left_def)
    then show ?thesis using since_user [OF v(1) assms(1)] Pair by simp
  qed
qed

text \<open>A set-up of the second factor that was confirmed hands out no code that satisfies \<open>P\<close>.\<close>

definition hands_out_none :: "(string \<Rightarrow> bool) \<Rightarrow> ext \<Rightarrow> nat \<Rightarrow> Request \<Rightarrow> 'z db_scheme \<Rightarrow> 'z db_scheme \<Rightarrow> bool" where
  "hands_out_none P X now req s t \<longleftrightarrow>
     (\<forall>codes code new. AuthController_verifyTwoFactor X now req codes code s = (Inr new, t) \<longrightarrow>
        (\<forall>n \<in> set new. \<not> P (bcryptHash X 10 n)))"

lemma since_set_up:
  assumes "since P U S s" and "hands_out_none P X now req s (snd (AuthController_verifyTwoFactor X now req codes code s))"
  shows "since P U S (snd (AuthController_verifyTwoFactor X now req codes code s))"
proof -
  have none: "\<forall>n \<in> set new. \<not> P (bcryptHash X 10 n)"
    if "AuthController_verifyTwoFactor X now req codes code s = (Inr new, t)" for new t
    using assms(2) that by (simp add: hands_out_none_def)
  then show ?thesis
    using assms(1) by (auto simp: AuthController_verifyTwoFactor_def gate_defs split: sum.split intro!: since_confirmed)
qed

lemma public_since:
  assumes "public_step X now req s t" and "since P U (db_sessions s) s"
  shows "since P U (db_sessions s) t"
proof -
  have fresh: "fresh_id i s \<Longrightarrow> \<forall>y \<in> set (db_sessions s). session_id y \<noteq> i" for i
    by (auto simp: fresh_id_def hasRow_iff)
  show ?thesis
    using assms
    by (cases rule: public_step.cases)
      (auto simp: AuthController_register_def AuthController_login_def AuthController_verifyTwoFactorLogin_def
        AuthController_refresh_def validated_def fresh split: option.split list.split intro: since_intros)
qed

lemma account_since:
  assumes "account_step X now req s t" and "since P U S s" and "hands_out_none P X now req s t"
  shows "since P U S t"
  using assms(1)
proof (cases rule: account_step.cases)
  case finish_setup
  then show ?thesis using since_set_up assms(2,3) by simp
next
  case mark_read
  then show ?thesis using since_accounts [OF _ assms(2)]
    by (auto simp: NotificationsController_markRead_def NotificationsService_markAsRead_def gate_defs account_simps split: sum.split)
next
  case mark_all_read
  then show ?thesis using since_accounts [OF _ assms(2)]
    by (auto simp: NotificationsController_markAllRead_def NotificationsService_markAllAsRead_def gate_defs account_simps split: sum.split)
next
  case key
  then show ?thesis using since_accounts [OF _ assms(2)]
    by (auto simp: ApiKeysController_create_def gate_defs account_simps split: sum.split)
next
  case drop_key
  then show ?thesis using since_accounts [OF _ assms(2)]
    by (auto simp: ApiKeysController_delete_def gate_defs account_simps split: sum.split)
qed (use assms(2) in \<open>auto simp: AuthController_logout_def AuthController_setupTwoFactor_def AuthController_disableTwoFactor_def
    AuthController_revokeSession_def UsersController_updateMe_def gate_defs split: sum.split intro: since_intros\<close>)

lemma admin_users_since [since_intros]:
  "since P U S s \<Longrightarrow> since P U S (snd (AdminUsers_create X now req i dto s))"
  "since P U S s \<Longrightarrow> since P U S (snd (AdminUsers_update X now req i changes s))"
  "since P U S s \<Longrightarrow> since P U S (snd (AdminUsers_delete X now req i s))"
  "since P U S s \<Longrightarrow> since P U S (snd (UsersController_create X now req i dto s))"
  "since P U S s \<Longrightarrow> since P U S (snd (UsersController_update X now req i changes s))"
  "since P U S s \<Longrightarrow> since P U S (snd (UsersController_delete X now req i s))"
  unfolding AdminUsers_create_def AdminUsers_update_def AdminUsers_delete_def UsersController_create_def
    UsersController_update_def UsersController_delete_def Let_def gate_defs
  by (auto split: handler_splits intro: since_intros)

lemma admin_accounts [account_simps]:
  "accounts (snd (AllocationsController_delete X now req i s)) = accounts s"
  "accounts (snd (AdminAllocations_delete X now req node i s)) = accounts s"
  "accounts (snd (AdminAllocations_bulkDelete X now req node s)) = accounts s"
  "accounts (snd (AdminNodes_create X now req i tid tok url ndto s)) = accounts s"
  "accounts (snd (AdminNodes_update X now req i undto s)) = accounts s"
  "accounts (snd (AdminNodes_delete X now req i s)) = accounts s"
  unfolding AllocationsController_delete_def AdminAllocations_delete_def AdminAllocations_bulkDelete_def AdminNodes_create_def
    AdminNodes_update_def AdminNodes_delete_def Let_def gate_defs
  by (auto split: handler_splits simp: account_simps dest!: accounts_dests)

lemma admin_since:
  assumes "admin_step X W now req s t" and "since P U S s" and "panel_ok s"
  shows "since P U S t"
proof -
  have creation: "since P U S (snd (ServersController_create X W now req dr dto s))" if "fresh_id (sd_id dr) s" for dr dto
    using since_accounts [OF accounts_create [OF assms(3) that] assms(2)] assms(2)
    by (auto simp: ServersController_create_def gate_defs split: sum.split)
  note users = admin_users_since [OF assms(2)]
  show ?thesis
    using assms(1)
  proof (cases rule: admin_step.cases)
    case new_server
    then show ?thesis using creation by simp
  qed (simp_all add: users, (rule since_accounts [OF _ assms(2)],
      simp add: LocationsController_create_def LocationsController_update_def
        LocationsController_delete_def AllocationsController_create_def AdminAllocations_create_def
        NodesController_create_def NodesController_regenerateToken_def NodesController_update_def NodesController_delete_def
        NodesController_getHealth_def ServersController_delete_def ServersController_suspend_def
        ServersController_unsuspend_def ServersController_reinstall_def
        EggsController_createNest_def EggsController_createEgg_def EggsController_updateEgg_def
        EggsController_deleteEgg_def EggsController_importEgg_def gate_defs account_simps split: sum.split)+)
qed

lemma panel_step_since:
  assumes "panel_step X W now req s t" and "panel_ok s" and "hands_out_none P X now req s t"
  shows "since P (db_users s) (db_sessions s) t"
  using assms(1)
proof (cases rule: panel_step.cases)
  case public
  then show ?thesis using since_refl [OF assms(2)] by (rule public_since)
next
  case account
  then show ?thesis using since_refl [OF assms(2)] assms(3) by (rule account_since)
next
  case server
  then show ?thesis using since_accounts [OF server_route_accounts] since_refl [OF assms(2)] by blast
next
  case admin
  then show ?thesis using since_refl [OF assms(2)] assms(2) by (rule admin_since)
next
  case daemon
  then show ?thesis using since_accounts [OF daemon_route_accounts] since_refl [OF assms(2)] by blast
next
  case read
  then show ?thesis using read_step_same since_refl [OF assms(2)] by blast
qed

section \<open>Revoked sessions\<close>

text \<open>Any request that draws the token \<open>k\<close> for no new session.\<close>

inductive token_request :: "string \<Rightarrow> ext \<Rightarrow> wings \<Rightarrow> 'z wings_panel_scheme \<Rightarrow> 'z wings_panel_scheme \<Rightarrow> bool" for k X W where
  request: "panel_request X W s t \<Longrightarrow>
    (\<And>x. x \<in> set (db_sessions t) \<Longrightarrow> session_refreshToken x = k \<Longrightarrow>
       \<exists>y \<in> set (db_sessions s). session_id y = session_id x \<and> session_refreshToken y = k) \<Longrightarrow>
    token_request k X W s t"

definition dead_token :: "string \<Rightarrow> 'z db_scheme \<Rightarrow> bool" where
  "dead_token k d \<longleftrightarrow> panel_ok d \<and> (\<forall>x \<in> set (db_sessions d). session_refreshToken x = k \<longrightarrow> session_revoked x)"

interpretation dead_run: run_invariant "token_request k X W" "dead_token k" for k X W
proof
  fix s t :: "'a wings_panel_scheme"
  assume "token_request k X W s t" and dead: "dead_token k s"
  then obtain now req where step: "panel_step X W now req s t" and drawn:
    "\<And>x. x \<in> set (db_sessions t) \<Longrightarrow> session_refreshToken x = k \<Longrightarrow>
       \<exists>y \<in> set (db_sessions s). session_id y = session_id x \<and> session_refreshToken y = k"
    by (auto elim!: token_request.cases panel_request.cases)
  have ok: "panel_ok s" using dead by (simp add: dead_token_def)
  have "since (\<lambda>_. False) (db_users s) (db_sessions s) t"
    using step ok by (rule panel_step_since) (simp add: hands_out_none_def)
  then have "session_revoked x" if "x \<in> set (db_sessions t)" "session_refreshToken x = k" for x
    using drawn [OF that] that dead by (force simp: since_def sessions_since_def dead_token_def)
  then show "dead_token k t" using panel_step_keeps [OF step ok] by (simp add: dead_token_def)
qed

lemma dead_token_refresh:
  "dead_token k d \<Longrightarrow> AuthService_refreshToken X now k d = (Inl (UnauthorizedException ''Invalid refresh token''), d)"
  by (auto simp: AuthService_refreshToken_def findOne_None dead_token_def split: option.split dest: findOne_Some)

lemma revoke_kills:
  assumes "panel_ok d" and "AuthService_revokeSession u i d = (Inr (), d1)"
    and "\<forall>x \<in> set (db_sessions d). session_refreshToken x = k \<longrightarrow> session_id x = i"
  shows "dead_token k d1"
proof -
  obtain y where y: "y \<in> set (db_sessions d)" "session_id y = i" "save_session (y\<lparr>session_revoked := True\<rparr>) d = Inr d1"
    using assms(2) by (auto simp: AuthService_revokeSession_def split: option.splits sum.splits dest!: findOne_Some)
  have "distinct (map session_id (db_sessions d))"
    using assms(1) by (simp add: panel_ok_def db_ok_def db_keys_def unique_rows_def)
  then have "set (db_sessions d1) =
      insert (y\<lparr>session_revoked := True\<rparr>) {x \<in> set (db_sessions d). session_id x \<noteq> i}"
    using y(2,3) by (auto simp: save_session_def map_sum_Inr upsertRow_set dest!: saveRow_Inr)
  then show ?thesis using assms(3) save_keeps_panel(2) [OF y(3) assms(1)] by (auto simp: dead_token_def)
qed

text \<open>
  C14. Revoking a session is final over every run of the panel: once \<open>revokeSession\<close> has answered, the
  refresh token of the session (held by no other session, and drawn for no later one) is refused, whatever
  requests to whatever routes are served in between: logins, password changes, deletions and administration included.
\<close>

theorem revoked_token_never_refreshes:
  fixes d d1 d2 :: "'z wings_panel_scheme"
  assumes "panel_ok d" and "AuthService_revokeSession u i d = (Inr (), d1)"
    and "\<forall>x \<in> set (db_sessions d). session_refreshToken x = k \<longrightarrow> session_id x = i"
    and "(token_request k X W)\<^sup>*\<^sup>* d1 d2"
  shows "AuthService_refreshToken X now k d2 = (Inl (UnauthorizedException ''Invalid refresh token''), d2)"
  by (rule dead_token_refresh [OF dead_run.run_keeps [OF assms(4) revoke_kills [OF assms(1-3)]]])

section \<open>Backup codes\<close>

text \<open>How many stored hashes of the account \<open>i\<close> the code matches.\<close>

definition code_count :: "ext \<Rightarrow> string \<Rightarrow> string \<Rightarrow> 'z db_scheme \<Rightarrow> nat" where
  "code_count X code i d =
     (case findOne (\<lambda>u. user_id u = i) (db_users d) of None \<Rightarrow> 0 | Some u \<Rightarrow> codes_left (bcryptCompare X code) u)"

text \<open>
  Runs of the panel in which the code is handed out by no set-up, with the number of the logins of the
  account \<open>i\<close> that it opened: second steps that were answered with a session, the code being no valid
  time-based code.
\<close>

inductive code_uses :: "ext \<Rightarrow> wings \<Rightarrow> string \<Rightarrow> string \<Rightarrow> nat \<Rightarrow> 'z wings_panel_scheme \<Rightarrow> 'z wings_panel_scheme \<Rightarrow> bool"
  for X W i code where
  start: "code_uses X W i code 0 s s"
| use: "code_uses X W i code n s t \<Longrightarrow> fresh_id (dr_sessionId dr) t \<Longrightarrow>
    AuthController_verifyTwoFactorLogin X now production dr req tok code t = (Inr answer, t') \<Longrightarrow>
    jwtVerify X now tok = Some payload \<Longrightarrow> jwt_sub payload = i \<Longrightarrow>
    findOne (\<lambda>u. user_id u = i) (db_users t) = Some u \<Longrightarrow> \<not> totpVerify X now code (nullish (user_totpSecret u) []) \<Longrightarrow>
    code_uses X W i code (Suc n) s t'"
| other: "code_uses X W i code n s t \<Longrightarrow> panel_step X W now req t t' \<Longrightarrow>
    hands_out_none (bcryptCompare X code) X now req t t' \<Longrightarrow> code_uses X W i code n s t'"

lemma since_count:
  assumes "since (bcryptCompare X code) (db_users s) S t" and "panel_ok s"
  shows "code_count X code i t \<le> code_count X code i s"
proof (cases "findOne (\<lambda>u. user_id u = i) (db_users t)")
  case (Some v)
  then have v: "v \<in> set (db_users t)" "user_id v = i" by (auto dest: findOne_Some)
  then consider "codes_left (bcryptCompare X code) v = 0"
    | u where "u \<in> set (db_users s)" "user_id u = i" "codes_left (bcryptCompare X code) v \<le> codes_left (bcryptCompare X code) u"
    using assms(1) by (auto simp: since_def codes_since_def)
  then show ?thesis
  proof cases
    case 2
    then have "findOne (\<lambda>x. user_id x = i) (db_users s) = Some u"
      using unique_user_row [OF panel_ok_db [OF assms(2)]] by blast
    then show ?thesis using Some 2 by (simp add: code_count_def)
  qed (simp add: code_count_def Some)
qed (simp add: code_count_def)

lemma used_code_count:
  assumes "AuthService_verifyTwoFactorLogin X now dr tok code ip ua d = (Inr res, d')"
    and "jwtVerify X now tok = Some payload" and "findOne (\<lambda>u. user_id u = jwt_sub payload) (db_users d) = Some u"
    and "\<not> totpVerify X now code (nullish (user_totpSecret u) [])"
  shows "code_count X code (jwt_sub payload) d = Suc (code_count X code (jwt_sub payload) d')"
  using assms(1)
proof (cases rule: two_factor_login_cases)
  case (1 payload u)
  then show ?thesis using assms by simp
next
  case (2 p v rest d1)
  then have eq: "p = payload" "v = u" using assms by simp_all
  let ?u = "u\<lparr>user_backupCodes := Some rest, user_lastLogin := Some now\<rparr>"
  have uid: "user_id u = jwt_sub payload" using findOne_Some [OF assms(3)] by simp
  have "findOne (\<lambda>u. user_id u = jwt_sub payload) (db_users d') = Some ?u"
    using open_session_user [OF 2(9)] save_user_find [OF 2(8)] by (simp add: eq uid)
  then show ?thesis
    using consume_Some [OF 2(7)] assms(3) by (simp add: eq code_count_def codes_left_def)
qed

lemma code_uses_count:
  "code_uses X W i code n s t \<Longrightarrow> panel_ok s \<Longrightarrow> panel_ok t \<and> n + code_count X code i t \<le> code_count X code i s"
proof (induction rule: code_uses.induct)
  case (use n s t dr now production req tok answer t' payload u)
  then have IH: "panel_ok t" "n + code_count X code i t \<le> code_count X code i s" by simp_all
  have "t' = snd (AuthController_verifyTwoFactorLogin X now production dr req tok code t)" using use(3) by simp
  then have "public_step X now req t t'" using public_step.second [OF use(2)] by metis
  then have ok: "panel_ok t'" using IH(1) by (rule public_step_keeps)
  obtain ip ua res where "AuthService_verifyTwoFactorLogin X now dr tok code ip ua t = (Inr res, t')"
    using use(3) by (auto simp: AuthController_verifyTwoFactorLogin_def validated_def split: if_splits prod.splits sum.splits)
  from used_code_count [OF this use(4)] use(5-7) have "code_count X code i t = Suc (code_count X code i t')" by simp
  then show ?case using IH(2) ok by simp
next
  case (other n s t now req t')
  then have IH: "panel_ok t" "n + code_count X code i t \<le> code_count X code i s" by simp_all
  have "code_count X code i t' \<le> code_count X code i t"
    using since_count [OF panel_step_since [OF other(2) IH(1) other(3)] IH(1)] .
  then show ?case using IH panel_step_keeps [OF other(2) IH(1)] by simp
qed simp

text \<open>
  C13. A backup code opens no more sessions than the account has stored hashes that it matches (one, for a code
  that was drawn once): over any run of the panel, all routes included, in which no set-up of a second factor
  hands the code out again, the logins it opened and the matching hashes that are left are together at most the
  matching hashes at the start.  Once they are used up the code is refused, and nothing is written,
  unless it is by then a valid time-based code.  The requests are served one after the other.
\<close>

theorem backup_code_single_use:
  fixes s t :: "'z wings_panel_scheme"
  assumes "code_uses X W i code n s t" and "panel_ok s"
  shows "n + code_count X code i t \<le> code_count X code i s \<and>
    (n = code_count X code i s \<longrightarrow>
      (\<forall>now dr tok payload u ip ua. jwtVerify X now tok = Some payload \<and> jwt_purpose payload = Some ''two-factor'' \<and>
         jwt_sub payload = i \<and> findOne (\<lambda>u. user_id u = i) (db_users t) = Some u \<and> user_enabled u \<and>
         truthy_str (user_totpSecret u) \<and> \<not> totpVerify X now code (nullish (user_totpSecret u) []) \<longrightarrow>
         AuthService_verifyTwoFactorLogin X now dr tok code ip ua t =
           (Inl (UnauthorizedException ''Invalid two-factor code''), t)))"
proof -
  have le: "n + code_count X code i t \<le> code_count X code i s" using code_uses_count [OF assms] by simp
  have "consume_backup_code X code (nullish (user_backupCodes u) []) = None"
    if "n = code_count X code i s" "findOne (\<lambda>u. user_id u = i) (db_users t) = Some u" for u
    using le that by (simp add: consume_None code_count_def codes_left_def)
  then show ?thesis using le by (simp add: AuthService_verifyTwoFactorLogin_def)
qed

section \<open>A revoked session and a used code\<close>

text \<open>A panel with the given tables and nothing else.\<close>

definition as_panel :: "db \<Rightarrow> wings_panel" where
  "as_panel d = node_panel.extend (db.extend d (node_panel.fields [])) (wings_panel.fields [] [])"

lemma as_panel_sel [simp]:
  "db.truncate (as_panel d) = d" "db_users (as_panel d) = db_users d" "db_sessions (as_panel d) = db_sessions d"
  "db_auditLogs (as_panel d) = db_auditLogs d"
  by (simp_all add: as_panel_def db.defs node_panel.defs wings_panel.defs)

lemma as_panel_ok: "db_ok d \<Longrightarrow> db_servers d = [] \<Longrightarrow> db_allocations d = [] \<Longrightarrow> panel_ok (as_panel d)"
  using panel_ok_truncate [of "as_panel d"] by (simp add: panel_ok_def placed_def)

definition demo_session_db :: db where
  "demo_session_db = demo_db\<lparr>db_sessions := [new_session 0 demo_draws (demo_user ''u1'' ''ann'' True) [] []]\<rparr>"

lemma demo_session_db_ok: "db_ok demo_session_db"
  by (simp add: demo_session_db_def demo_db_def empty_db_def demo_user_def db_ok_def db_keys_def unique_rows_def
      user_clash_def children_defs exists_iff new_session_def demo_draws_def)

theorem revoked_token_never_refreshes_witness:
  "\<exists>d1 d2. AuthService_revokeSession ''u1'' ''s1'' (as_panel demo_session_db) = (Inr (), d1) \<and>
     panel_request demo_ext wings_down d1 d2 \<and> map session_refreshToken (db_sessions d2) = [''r1'', ''r2''] \<and>
     AuthService_refreshToken demo_ext 9 ''r1'' d2 = (Inl (UnauthorizedException ''Invalid refresh token''), d2)"
proof -
  let ?s = "new_session 0 demo_draws (demo_user ''u1'' ''ann'' True) [] []"
  let ?d1 = "as_panel demo_session_db\<lparr>db_sessions := [?s\<lparr>session_revoked := True\<rparr>]\<rparr>"
  let ?dr = "\<lparr>dr_sessionId = ''s2'', dr_auditId = ''a2'', dr_refreshToken = ''r2''\<rparr>"
  let ?d2 = "snd (AuthController_login demo_ext 5 False ?dr (demo_request None None) demo_login ?d1)"
  have ok: "panel_ok (as_panel demo_session_db)"
    by (rule as_panel_ok [OF demo_session_db_ok]) (simp_all add: demo_session_db_def demo_db_def empty_db_def)
  have users: "db_users demo_session_db = [demo_user ''u1'' ''ann'' True, demo_user ''u2'' ''bob'' False]"
    by (simp add: demo_session_db_def)
  have r: "AuthService_revokeSession ''u1'' ''s1'' (as_panel demo_session_db) = (Inr (), ?d1)"
    by (simp add: AuthService_revokeSession_def demo_session_db_def findOne_def new_session_def demo_draws_def
        demo_user_def save_session_def saveRow_def upsertRow_def updateRows_def hasRow_def exists_iff no_clash_def)
  have "user_exists ?d1 (user_id (demo_user ''u1'' ''ann'' True))" "\<not> hasRow (\<lambda>s. session_id s = dr_sessionId ?dr) (db_sessions ?d1)"
    "\<not> hasRow (\<lambda>a. audit_id a = dr_auditId ?dr) (db_auditLogs ?d1)"
    by (simp_all add: exists_iff users hasRow_def new_session_def demo_draws_def demo_session_db_def demo_db_def empty_db_def)
  from open_session_writes [OF this, of demo_ext 5 "[]" "[]"]
  have d2: "db_sessions ?d2 = [?s\<lparr>session_revoked := True\<rparr>, new_session 5 ?dr (demo_user ''u1'' ''ann'' True) [] []]"
    by (simp add: AuthController_login_def validated_def LoginDto_ok_def AuthService_login_def findOne_def users demo_login_def
        demo_user_def demo_ext_def demo_request_def str_or_def)
  have "panel_request demo_ext wings_down ?d1 ?d2"
    by (rule panel_request.request, rule panel_step.public, rule public_step.login)
      (simp add: fresh_id_def exists_iff users hasRow_def new_session_def demo_draws_def as_panel_def db.defs node_panel.defs
        wings_panel.defs demo_session_db_def demo_db_def empty_db_def demo_user_def)
  moreover have "\<forall>x \<in> set (db_sessions ?d2). session_refreshToken x = ''r1'' \<longrightarrow> session_id x = ''s1''"
    unfolding d2 by (simp add: new_session_def demo_draws_def)
  moreover have "\<exists>y \<in> set (db_sessions ?d1). session_id y = ''s1'' \<and> session_refreshToken y = ''r1''"
    by (simp add: new_session_def demo_draws_def)
  ultimately have run: "panel_request demo_ext wings_down ?d1 ?d2" and "token_request ''r1'' demo_ext wings_down ?d1 ?d2"
    by - (assumption, rule token_request.request, assumption, metis)
  then have "AuthService_refreshToken demo_ext 9 ''r1'' ?d2 = (Inl (UnauthorizedException ''Invalid refresh token''), ?d2)"
    by (intro revoked_token_never_refreshes [OF ok r _ r_into_rtranclp [of "token_request ''r1'' demo_ext wings_down"]])
      (simp_all add: demo_session_db_def new_session_def demo_draws_def)
  moreover have "map session_refreshToken (db_sessions ?d2) = [''r1'', ''r2'']"
    unfolding d2 by (simp add: new_session_def demo_draws_def)
  ultimately show ?thesis using r run by (intro exI conjI) assumption+
qed

theorem backup_code_single_use_witness:
  "\<exists>t. code_uses demo_ext wings_down ''u1'' ''AAA'' 1 (as_panel demo_totp_db) t \<and>
     code_count demo_ext ''AAA'' ''u1'' (as_panel demo_totp_db) = 1 \<and> code_count demo_ext ''AAA'' ''u1'' t = 0 \<and>
     code_count demo_ext ''BBB'' ''u1'' t = 1"
proof -
  let ?s = "as_panel demo_totp_db"
  let ?u = "hd (db_users demo_totp_db)"
  let ?p = "two_factor_claims 0 ?u"
  let ?u' = "?u\<lparr>user_backupCodes := Some [''$BBB'']\<rparr>"
  have f: "findOne (\<lambda>u. user_id u = ''u1'') (db_users ?s) = Some ?u" "user_id ?u = ''u1''"
    by (simp_all add: demo_totp_db_def findOne_def demo_user_def)
  have v: "jwtVerify demo_ext 0 (demo_sign ?p) = Some ?p"
    by (simp add: two_factor_claims_def expires_def)
  have p: "jwt_sub ?p = ''u1''" "jwt_purpose ?p = Some ''two-factor''" using f(2) by (simp_all add: two_factor_claims_def)
  let ?d = "?s\<lparr>db_users := [?u']\<rparr>"
  have s: "save_user ?u' ?s = Inr ?d"
    by (simp add: save_user_def saveRow_def hasRow_def upsertRow_def updateRows_def demo_totp_db_def demo_user_def)
  have "user_exists ?d (user_id ?u')" by (simp add: exists_iff)
  from open_session_total [where X = demo_ext and now = 0 and dr = demo_draws and ip = "[]" and ua = "[]", OF this]
  obtain t where o: "open_session demo_ext 0 demo_draws ?u' [] [] ?d =
       (Inr (LoggedIn (demo_sign (access_claims 0 ?u)) ''r1'' (user_view ?u)), t)"
    by (auto simp: access_claims_def user_view_def demo_draws_def)
  have n: "\<not> totpVerify demo_ext 0 ''AAA'' (nullish (user_totpSecret ?u) [])" by (simp add: demo_totp_db_def)
  have l: "AuthService_verifyTwoFactorLogin demo_ext 0 demo_draws (demo_sign ?p) ''AAA'' [] [] ?s =
      (Inr (LoggedIn (demo_sign (access_claims 0 ?u)) ''r1'' (user_view ?u)), t)"
    using f(1) v s o n p by (simp add: AuthService_verifyTwoFactorLogin_def) (simp add: demo_totp_db_def demo_user_def)
  have c: "AuthController_verifyTwoFactorLogin demo_ext 0 False demo_draws (demo_request None None) (demo_sign ?p) ''AAA'' ?s =
      (Inr (login_answer False (demo_request None None) (LoggedIn (demo_sign (access_claims 0 ?u)) ''r1'' (user_view ?u))), t)"
    using l by (simp add: AuthController_verifyTwoFactorLogin_def validated_def TwoFactorLoginDto_ok_def demo_request_def str_or_def)
  have "fresh_id (dr_sessionId demo_draws) ?s"
    by (simp add: fresh_id_def exists_iff hasRow_def demo_draws_def as_panel_def db.defs node_panel.defs
        wings_panel.defs demo_totp_db_def demo_db_def empty_db_def demo_user_def)
  from code_uses.use [OF code_uses.start this c v p(1) f(1) n]
  have run: "code_uses demo_ext wings_down ''u1'' ''AAA'' 1 ?s t" by simp
  have ok: "panel_ok ?s"
    by (rule as_panel_ok [OF demo_totp_db_ok]) (simp_all add: demo_totp_db_def demo_db_def empty_db_def)
  have one: "code_count demo_ext ''AAA'' ''u1'' ?s = 1"
    using f(1) by (simp add: code_count_def codes_left_def) (simp add: demo_totp_db_def)
  have "code_count demo_ext ''BBB'' ''u1'' t = 1"
    using open_session_user [OF o, of ?u'] f(2) by (simp add: code_count_def codes_left_def findOne_def)
  then show ?thesis using backup_code_single_use [OF run ok] run one by auto
qed

end
