(* ===== verification/WebAuth.thy ===== *)
theory WebAuth
  imports AuthProps Gateway
begin

text \<open>
  Signing in through the web interface: \<^verbatim>\<open>stores/auth.store.ts\<close>, \<^verbatim>\<open>api/auth.ts\<close>, the
  forms of \<^verbatim>\<open>LoginPage.tsx\<close> and \<^verbatim>\<open>RegisterPage.tsx\<close>, the guards of \<^verbatim>\<open>ProtectedRoute.tsx\<close>
  and \<^verbatim>\<open>AdminRoute.tsx\<close>, the administration entries of \<^verbatim>\<open>Sidebar.tsx\<close>.  The requests run
  the controllers of the backend; the browser adds its cookies.  An error is kept as the
  exception whose message the page shows.
\<close>

section \<open>The browser\<close>

text \<open>The state of the store, and the two cookies with their expiry.\<close>

record Browser =
  br_user :: "json option"
  br_isAuthenticated :: bool
  br_isLoading :: bool
  br_session :: "(string \<times> nat) option"
  br_refresh :: "(string \<times> nat) option"

definition new_browser :: Browser where
  "new_browser = \<lparr>br_user = None, br_isAuthenticated = False, br_isLoading = True, br_session = None, br_refresh = None\<rparr>"

definition live_cookie :: "nat \<Rightarrow> (string \<times> nat) option \<Rightarrow> string option" where
  "live_cookie now c = (case c of None \<Rightarrow> None | Some (value, expiry) \<Rightarrow> if now < expiry then Some value else None)"

text \<open>\<open>withCredentials\<close>: each request carries the cookies; \<open>conn\<close> is what else it carries.\<close>

definition request_of :: "nat \<Rightarrow> Request \<Rightarrow> Browser \<Rightarrow> Request" where
  "request_of now conn b =
     conn\<lparr>req_sessionCookie := live_cookie now (br_session b), req_refreshCookie := live_cookie now (br_refresh b),
          req_authorization := None\<rparr>"

fun apply_cookie :: "nat \<Rightarrow> Request \<Rightarrow> CookieAction \<Rightarrow> Browser \<Rightarrow> Browser" where
  "apply_cookie now conn (SetCookie c) b =
     (if ck_secure c \<and> req_protocol conn \<noteq> ''https'' then b
      else if ck_name c = ''nexus_session'' then b\<lparr>br_session := Some (ck_value c, now + ck_maxAge c)\<rparr>
      else if ck_name c = ''refreshToken'' then b\<lparr>br_refresh := Some (ck_value c, now + ck_maxAge c)\<rparr>
      else b)"
| "apply_cookie now conn (ClearCookie name) b =
     (if name = ''nexus_session'' then b\<lparr>br_session := None\<rparr>
      else if name = ''refreshToken'' then b\<lparr>br_refresh := None\<rparr>
      else b)"

section \<open>The store\<close>

text \<open>The answer of \<open>GET /auth/me\<close>; \<open>isoDate\<close> prints a date.\<close>

definition me_json :: "(nat \<Rightarrow> string) \<Rightarrow> MeView \<Rightarrow> json" where
  "me_json isoDate v =
     JObj [(''id'', JStr (me_id v)), (''email'', JStr (me_email v)), (''username'', JStr (me_username v)),
           (''rootAdmin'', JBool (me_rootAdmin v)), (''usesTotp'', JBool (me_usesTotp v)),
           (''avatarUrl'', case me_avatarUrl v of None \<Rightarrow> JNull | Some u \<Rightarrow> JStr u), (''createdAt'', JStr (isoDate (me_createdAt v)))]"

text \<open>\<open>data.data || data\<close>.\<close>

definition unwrap :: "json \<Rightarrow> json" where
  "unwrap data = (case json_field ''data'' data of None \<Rightarrow> data | Some inner \<Rightarrow> if json_truthy inner then inner else data)"

definition store_checkAuth ::
  "ext \<Rightarrow> (nat \<Rightarrow> string) \<Rightarrow> nat \<Rightarrow> Request \<Rightarrow> Browser \<Rightarrow> 'z db_scheme \<Rightarrow> Browser" where
  "store_checkAuth X isoDate now conn b d =
     (case AuthController_me X now (request_of now conn b) d of
        Inl e \<Rightarrow> b\<lparr>br_user := None, br_isAuthenticated := False, br_isLoading := False\<rparr>
      | Inr v \<Rightarrow> b\<lparr>br_user := Some (unwrap (me_json isoDate v)), br_isAuthenticated := True, br_isLoading := False\<rparr>)"

record LoginPayload =
  lp_email :: "string option"
  lp_username :: "string option"
  lp_password :: string
  lp_twoFactorCode :: "string option"

text \<open>\<open>POST /auth/login\<close>: the pipe refuses a body with a field that \<open>LoginDto\<close> lacks, or
  without an e-mail address.\<close>

definition post_login ::
  "ext \<Rightarrow> nat \<Rightarrow> bool \<Rightarrow> draws \<Rightarrow> Request \<Rightarrow> LoginPayload \<Rightarrow> 'z db_scheme \<Rightarrow> ('z db_scheme, LoginBody \<times> CookieAction list) handled" where
  "post_login X now production dr req p d =
     (case (lp_email p, lp_username p) of
        (Some email, None) \<Rightarrow>
          AuthController_login X now production dr req
            \<lparr>ld_email = email, ld_password = lp_password p, ld_twoFactorCode = lp_twoFactorCode p\<rparr> d
      | _ \<Rightarrow> (Inl ValidationFailed, d))"

text \<open>The result says whether the second factor is asked for.\<close>

definition store_login ::
  "ext \<Rightarrow> (nat \<Rightarrow> string) \<Rightarrow> nat \<Rightarrow> bool \<Rightarrow> draws \<Rightarrow> Request \<Rightarrow> LoginPayload \<Rightarrow> Browser \<Rightarrow> 'z db_scheme \<Rightarrow>
   (exn + bool) \<times> Browser \<times> 'z db_scheme" where
  "store_login X isoDate now production dr conn p b d =
     (case post_login X now production dr (request_of now conn b) p d of
        (Inl e, d') \<Rightarrow> (Inl e, b, d')
      | (Inr (body, cookies), d') \<Rightarrow>
          (let b1 = fold (apply_cookie now conn) cookies b
           in case body of
                TwoFactorBody _ _ \<Rightarrow> (Inr True, b1, d')
              | SessionBody _ _ \<Rightarrow> (Inr False, store_checkAuth X isoDate now conn b1 d', d')))"

definition store_register ::
  "ext \<Rightarrow> (nat \<Rightarrow> string) \<Rightarrow> nat \<Rightarrow> string \<Rightarrow> string \<Rightarrow> Request \<Rightarrow> RegisterDto \<Rightarrow> Browser \<Rightarrow> 'z db_scheme \<Rightarrow>
   (exn + unit) \<times> Browser \<times> 'z db_scheme" where
  "store_register X isoDate now i auditId conn dto b d =
     (case AuthController_register X now i auditId dto d of
        (Inl e, d') \<Rightarrow> (Inl e, b, d')
      | (Inr _, d') \<Rightarrow> (Inr (), store_checkAuth X isoDate now conn b d', d'))"

definition store_logout :: "ext \<Rightarrow> nat \<Rightarrow> Request \<Rightarrow> Browser \<Rightarrow> 'z db_scheme \<Rightarrow> Browser \<times> 'z db_scheme" where
  "store_logout X now conn b d =
     (case AuthController_logout X now (request_of now conn b) d of
        (Inl e, d') \<Rightarrow> (b\<lparr>br_user := None, br_isAuthenticated := False\<rparr>, d')
      | (Inr cookies, d') \<Rightarrow> ((fold (apply_cookie now conn) cookies b)\<lparr>br_user := None, br_isAuthenticated := False\<rparr>, d'))"

definition store_setUser :: "json option \<Rightarrow> Browser \<Rightarrow> Browser" where
  "store_setUser user b =
     b\<lparr>br_user := user, br_isAuthenticated := (case user of None \<Rightarrow> False | Some u \<Rightarrow> json_truthy u)\<rparr>"

text \<open>\<open>{ ...user, twoFactorEnabled }\<close>, as the account page sets it.\<close>

fun with_twoFactorEnabled :: "bool \<Rightarrow> json \<Rightarrow> json" where
  "with_twoFactorEnabled e (JObj kvs) = JObj (filter (\<lambda>(k, v). k \<noteq> ''twoFactorEnabled'') kvs @ [(''twoFactorEnabled'', JBool e)])"
| "with_twoFactorEnabled e j = JObj [(''twoFactorEnabled'', JBool e)]"

section \<open>The login page\<close>

record LoginPage =
  lg_error :: "exn option"
  lg_needs2FA :: bool
  lg_navigated :: "string option"

definition login_payload :: "string \<Rightarrow> string \<Rightarrow> string option \<Rightarrow> LoginPayload" where
  "login_payload identifier password code =
     (let isEmail = CHR ''@'' \<in> set identifier
      in \<lparr>lp_email = if isEmail then Some identifier else None, lp_username = if isEmail then None else Some identifier,
          lp_password = password, lp_twoFactorCode = code\<rparr>)"

text \<open>\<open>loginSchema\<close>, then \<open>onSubmit\<close>.\<close>

definition LoginPage_onSubmit ::
  "ext \<Rightarrow> (nat \<Rightarrow> string) \<Rightarrow> nat \<Rightarrow> bool \<Rightarrow> draws \<Rightarrow> Request \<Rightarrow> string \<Rightarrow> string \<Rightarrow> string option \<Rightarrow>
   LoginPage \<Rightarrow> Browser \<Rightarrow> 'z db_scheme \<Rightarrow> LoginPage \<times> Browser \<times> 'z db_scheme" where
  "LoginPage_onSubmit X isoDate now production dr conn identifier password code page b d =
     (if identifier = [] \<or> password = [] then (page, b, d)
      else (case store_login X isoDate now production dr conn (login_payload identifier password code) b d of
              (Inl e, b', d') \<Rightarrow> (page\<lparr>lg_error := Some e\<rparr>, b', d')
            | (Inr True, b', d') \<Rightarrow> (page\<lparr>lg_error := None, lg_needs2FA := True\<rparr>, b', d')
            | (Inr False, b', d') \<Rightarrow> (page\<lparr>lg_error := None, lg_navigated := Some ''/dashboard''\<rparr>, b', d')))"

text \<open>\<open>registerSchema\<close>; \<open>zodEmail\<close> is the e-mail check of zod.\<close>

definition registerSchema_ok :: "(string \<Rightarrow> bool) \<Rightarrow> string \<Rightarrow> string \<Rightarrow> string \<Rightarrow> string \<Rightarrow> bool" where
  "registerSchema_ok zodEmail email username password confirmPassword \<longleftrightarrow>
     zodEmail email \<and> 3 \<le> length username \<and> length username \<le> 32 \<and> 8 \<le> length password \<and> password = confirmPassword"

definition RegisterPage_onSubmit ::
  "ext \<Rightarrow> (string \<Rightarrow> bool) \<Rightarrow> (nat \<Rightarrow> string) \<Rightarrow> nat \<Rightarrow> string \<Rightarrow> string \<Rightarrow> Request \<Rightarrow> string \<Rightarrow> string \<Rightarrow> string \<Rightarrow> string \<Rightarrow>
   Browser \<Rightarrow> 'z db_scheme \<Rightarrow> (exn + string) option \<times> Browser \<times> 'z db_scheme" where
  "RegisterPage_onSubmit X zodEmail isoDate now i auditId conn email username password confirmPassword b d =
     (if \<not> registerSchema_ok zodEmail email username password confirmPassword then (None, b, d)
      else (case store_register X isoDate now i auditId conn \<lparr>rd_email = email, rd_username = username, rd_password = password\<rparr> b d of
              (Inl e, b', d') \<Rightarrow> (Some (Inl e), b', d')
            | (Inr _, b', d') \<Rightarrow> (Some (Inr ''/dashboard''), b', d')))"

section \<open>Guarded pages\<close>

datatype RouteView = Spinner | Outlet | NavigateTo string

definition ProtectedRoute :: "Browser \<Rightarrow> RouteView" where
  "ProtectedRoute b = (if br_isLoading b then Spinner else if br_isAuthenticated b then Outlet else NavigateTo ''/login'')"

definition user_isAdmin :: "Browser \<Rightarrow> bool" where
  "user_isAdmin b =
     (case br_user b of
        None \<Rightarrow> False
      | Some u \<Rightarrow> (case json_field ''isAdmin'' u of None \<Rightarrow> False | Some v \<Rightarrow> json_truthy v))"

definition AdminRoute :: "Browser \<Rightarrow> RouteView" where
  "AdminRoute b =
     (if br_isLoading b then Spinner
      else if \<not> br_isAuthenticated b then NavigateTo ''/login''
      else if \<not> user_isAdmin b then NavigateTo ''/dashboard''
      else Outlet)"

definition Sidebar_adminNav :: "Browser \<Rightarrow> (string \<times> string) list" where
  "Sidebar_adminNav b =
     (if user_isAdmin b
      then [(''Overview'', ''/admin/dashboard''), (''Locations'', ''/admin/locations''), (''Nodes'', ''/admin/nodes''),
            (''Servers'', ''/admin/servers''), (''Users'', ''/admin/users''), (''Eggs'', ''/admin/eggs''),
            (''Audit Log'', ''/admin/audit-log'')]
      else [])"

section \<open>Runs\<close>

text \<open>
  What a browser does to its store, while the rest of the world does anything to the database.
  (\<open>setUser\<close> of the account settings is never reached: their request has no route.)
\<close>

inductive store_step :: "ext \<Rightarrow> (nat \<Rightarrow> string) \<Rightarrow> Browser \<times> 'z db_scheme \<Rightarrow> Browser \<times> 'z db_scheme \<Rightarrow> bool" for X isoDate where
  start: "store_step X isoDate (b, d) (store_checkAuth X isoDate now conn (b\<lparr>br_isLoading := True\<rparr>) d, d)"
| login: "LoginPage_onSubmit X isoDate now production dr conn identifier password code page b d = (page', b', d') \<Longrightarrow>
    store_step X isoDate (b, d) (b', d')"
| register: "RegisterPage_onSubmit X zodEmail isoDate now i auditId conn email username password again b d = (r, b', d') \<Longrightarrow>
    store_step X isoDate (b, d) (b', d')"
| logout: "store_step X isoDate (b, d) (store_logout X now conn b d)"
| two_factor: "store_step X isoDate (b, d) (store_setUser (map_option (with_twoFactorEnabled e) (br_user b)) b, d)"
| world: "store_step X isoDate (b, d) (b, d')"

end
