(* ===== verification/WebAuthProps.thy ===== *)
theory WebAuthProps
  imports WebAuth
begin

text \<open>What signing in through the web interface gives, and whom it can never sign in or show.\<close>

section \<open>Nobody sees the administration\<close>

definition no_admin :: "Browser \<Rightarrow> bool" where
  "no_admin b \<longleftrightarrow> (\<forall>u. br_user b = Some u \<longrightarrow> json_field ''isAdmin'' u = None)"

lemma no_admin_frame: "no_admin b \<Longrightarrow> br_user b' = br_user b \<or> br_user b' = None \<Longrightarrow> no_admin b'"
  by (auto simp: no_admin_def)

lemma me_json_no_admin: "json_field ''isAdmin'' (unwrap (me_json isoDate v)) = None"
  by (simp add: unwrap_def me_json_def)

lemma checkAuth_no_admin: "no_admin (store_checkAuth X isoDate now conn b d)"
  by (simp add: store_checkAuth_def no_admin_def me_json_no_admin split: sum.split)

lemma cookies_user [simp]: "br_user (fold (apply_cookie now conn) cs b) = br_user b"
proof (induction cs arbitrary: b)
  case (Cons c cs)
  have "br_user (apply_cookie now conn c b) = br_user b" by (cases c) simp_all
  then show ?case using Cons by simp
qed simp

lemma store_login_no_admin:
  "store_login X isoDate now production dr conn p b d = (r, b', d') \<Longrightarrow> no_admin b \<Longrightarrow> no_admin b'"
  by (auto simp: store_login_def Let_def checkAuth_no_admin intro: no_admin_frame split: prod.splits sum.splits LoginBody.splits)

lemma store_register_no_admin:
  "store_register X isoDate now i auditId conn dto b d = (r, b', d') \<Longrightarrow> no_admin b \<Longrightarrow> no_admin b'"
  by (auto simp: store_register_def checkAuth_no_admin split: prod.splits sum.splits)

lemma store_logout_no_admin: "no_admin (fst (store_logout X now conn b d))"
  by (simp add: store_logout_def no_admin_def split: prod.split sum.split)

lemma login_page_store:
  assumes "LoginPage_onSubmit X isoDate now production dr conn ident password code page b d = (page', b', d')"
  shows "b' = b \<or> (\<exists>r. store_login X isoDate now production dr conn (login_payload ident password code) b d = (r, b', d'))"
proof -
  obtain r b1 d1 where l: "store_login X isoDate now production dr conn (login_payload ident password code) b d = (r, b1, d1)"
    by (cases "store_login X isoDate now production dr conn (login_payload ident password code) b d")
  then have "b' = (if ident = [] \<or> password = [] then b else b1) \<and> d' = (if ident = [] \<or> password = [] then d else d1)"
    using assms by (cases r) (auto simp: LoginPage_onSubmit_def split: if_split_asm bool.split_asm)
  then show ?thesis using l by (cases "ident = [] \<or> password = []") auto
qed

lemma register_page_store:
  assumes "RegisterPage_onSubmit X zodEmail isoDate now i auditId conn email username password again b d = (r', b', d')"
  shows "b' = b \<or> (\<exists>r dto. store_register X isoDate now i auditId conn dto b d = (r, b', d'))"
proof -
  let ?dto = "\<lparr>rd_email = email, rd_username = username, rd_password = password\<rparr>"
  obtain r b1 d1 where l: "store_register X isoDate now i auditId conn ?dto b d = (r, b1, d1)"
    by (cases "store_register X isoDate now i auditId conn ?dto b d")
  then have "b' = b \<or> b' = b1 \<and> d' = d1"
    using assms by (cases r) (auto simp: RegisterPage_onSubmit_def split: if_split_asm)
  then show ?thesis using l by blast
qed

lemma field_filter: "k \<noteq> k' \<Longrightarrow> map_of (filter (\<lambda>(x, v). x \<noteq> k') kvs) k = map_of kvs k"
  by (induction kvs) auto

lemma with_twoFactorEnabled_no_admin:
  "json_field ''isAdmin'' u = None \<Longrightarrow> json_field ''isAdmin'' (with_twoFactorEnabled e u) = None"
  by (cases u) (simp_all add: map_add_def field_filter)

interpretation store_run: run_invariant "store_step X isoDate" "\<lambda>s. no_admin (fst s)" for X isoDate
proof unfold_locales
  fix s t :: "Browser \<times> 'a db_scheme"
  assume "store_step X isoDate s t" and inv: "no_admin (fst s)"
  from this(1) show "no_admin (fst t)"
  proof cases
    case (login now production dr conn ident password code page b d page' b' d')
    then show ?thesis using login_page_store [OF login(3)] store_login_no_admin inv by auto
  next
    case (two_factor b e d)
    then show ?thesis
      using inv by (auto simp: store_setUser_def no_admin_def with_twoFactorEnabled_no_admin)
  next
    case (register zodEmail now i auditId conn email username password again b d r b' d')
    then show ?thesis using register_page_store [OF register(3)] store_register_no_admin inv by auto
  qed (use inv in \<open>simp_all add: checkAuth_no_admin store_logout_no_admin\<close>)
qed

text \<open>
  C25. Whatever a browser does with the login, the registration and the account pages, and
  whatever happens to the database meanwhile, the administration pages never open and the
  sidebar never lists them, for administrators neither: the guard reads \<open>isAdmin\<close>, and
  \<open>/auth/me\<close>, which fills the store, answers with \<open>rootAdmin\<close>.
\<close>

theorem admin_pages_closed:
  assumes "(store_step X isoDate)\<^sup>*\<^sup>* (new_browser, d0) (b, d)"
  shows "AdminRoute b \<noteq> Outlet \<and> Sidebar_adminNav b = [] \<and> (br_isAuthenticated b \<and> \<not> br_isLoading b \<longrightarrow> AdminRoute b = NavigateTo ''/dashboard'')"
proof -
  have "no_admin (fst (b, d))" by (rule store_run.run_keeps [OF assms]) (simp add: no_admin_def new_browser_def)
  then have "\<not> user_isAdmin b" by (auto simp: user_isAdmin_def no_admin_def split: option.split)
  then show ?thesis by (simp add: AdminRoute_def Sidebar_adminNav_def)
qed

section \<open>Signing in\<close>

lemma login_service:
  assumes "db_ok d" and "findOne (\<lambda>u. user_email u = ld_email dto) (db_users d) = Some u" "user_enabled u"
    and "bcryptCompare X (ld_password dto) (user_password u)" "\<not> user_usesTotp u"
  obtains d' where "AuthService_login X now dr dto ip ua d =
      (Inr (LoggedIn (jwtSign X (access_claims now u)) (dr_refreshToken dr) (user_view u)), d')"
    "validateUser d' (user_id u) = Some (u\<lparr>user_lastLogin := Some now\<rparr>)"
proof -
  have u: "u \<in> set (db_users d)" using findOne_Some [OF assms(2)] by simp
  then have "user_exists d (user_id u)" by (auto simp: exists_iff)
  then obtain d' where o: "open_session X now dr u ip ua d =
      (Inr (LoggedIn (jwtSign X (access_claims now u)) (dr_refreshToken dr) (user_view u)), d')"
    using open_session_total by blast
  have l: "AuthService_login X now dr dto ip ua d =
      (Inr (LoggedIn (jwtSign X (access_claims now u)) (dr_refreshToken dr) (user_view u)), d')"
    using assms(2-5) o by (simp add: AuthService_login_def)
  have "findOne (\<lambda>x. user_id x = user_id u) (db_users d') = Some (u\<lparr>user_lastLogin := Some now\<rparr>)"
    by (rule open_session_user [OF o unique_user_row [OF assms(1) u]])
  then have "u\<lparr>user_lastLogin := Some now\<rparr> \<in> set (db_users d')" by (auto dest: findOne_Some)
  then have "validateUser d' (user_id u) = Some (u\<lparr>user_lastLogin := Some now\<rparr>)"
    using validateUser_row [OF login_ok [OF l assms(1)], of "u\<lparr>user_lastLogin := Some now\<rparr>"] assms(3) by simp
  then show thesis using that l by blast
qed

lemma me_with_cookie:
  assumes "jwt_ok X" and "br_session b = Some (jwtSign X (access_claims now u), expiry)" and "jwtSign X (access_claims now u) \<noteq> []"
    and "validateUser d (user_id u) = Some v"
  shows "AuthController_me X time (request_of time conn b) d =
    (if time < expiry \<and> time div 1000 < now div 1000 + 900
     then Inr \<lparr>me_id = user_id v, me_email = user_email v, me_username = user_username v, me_rootAdmin = user_rootAdmin v,
            me_usesTotp = user_usesTotp v, me_avatarUrl = user_avatarUrl v, me_createdAt = user_createdAt v\<rparr>
     else Inl (UnauthorizedException (if time < expiry then ''Invalid or expired token'' else ''No token provided'')))"
proof -
  have "jwtVerify X time (jwtSign X (access_claims now u)) =
      (if time div 1000 < now div 1000 + 900 then Some (access_claims now u) else None)"
    using assms(1) by (simp add: jwt_ok_def access_claims_def before_expiry)
  then show ?thesis
    using assms(2-4)
    by (auto simp: AuthController_me_def me_token_def request_of_def live_cookie_def access_claims_def neq_Nil_conv)
qed

lemma session_cookies:
  "br_session (fold (apply_cookie now conn) [refresh_cookie production t, session_cookie (request_of now conn b) a] b) =
     Some (a, now + 900000)"
  by (simp add: refresh_cookie_def session_cookie_def request_of_def)

definition view_of :: "UserEntity \<Rightarrow> MeView" where
  "view_of u = \<lparr>me_id = user_id u, me_email = user_email u, me_username = user_username u, me_rootAdmin = user_rootAdmin u,
     me_usesTotp = user_usesTotp u, me_avatarUrl = user_avatarUrl u, me_createdAt = user_createdAt u\<rparr>"

lemma unwrap_me [simp]: "unwrap (me_json isoDate v) = me_json isoDate v"
  by (simp add: unwrap_def me_json_def)

text \<open>
  C23. The login page, end to end: with the address and the password of an enabled account
  without a second factor the browser gets its cookies, the store holds what \<open>/auth/me\<close> says
  of the account, the page leads to the dashboard and the dashboard opens.  It opens for
  fifteen minutes; the interface never refreshes the token, so that after them the next check
  leads back to the login page.
\<close>

theorem web_login_spec:
  assumes "db_ok d" and "jwt_ok X" and "findOne (\<lambda>u. user_email u = email) (db_users d) = Some u" "user_enabled u"
    and "bcryptCompare X password (user_password u)" "\<not> user_usesTotp u"
    and "isEmail X email" "CHR ''@'' \<in> set email" "password \<noteq> []" and "jwtSign X (access_claims now u) \<noteq> []"
  shows "\<exists>page' b' d'. LoginPage_onSubmit X isoDate now production dr conn email password code page b d = (page', b', d') \<and>
    lg_navigated page' = Some ''/dashboard'' \<and> ProtectedRoute b' = Outlet \<and> br_user b' = Some (me_json isoDate (view_of u)) \<and>
    (\<forall>time. ProtectedRoute (store_checkAuth X isoDate time conn b' d') =
       (if time < now + 900000 \<and> time div 1000 < now div 1000 + 900 then Outlet else NavigateTo ''/login''))"
proof -
  let ?dto = "\<lparr>ld_email = email, ld_password = password, ld_twoFactorCode = code\<rparr>" and ?req = "request_of now conn b"
  let ?a = "jwtSign X (access_claims now u)"
  obtain d' where l: "AuthService_login X now dr ?dto (req_ip ?req) (str_or (req_userAgent ?req) []) d =
      (Inr (LoggedIn ?a (dr_refreshToken dr) (user_view u)), d')" "validateUser d' (user_id u) = Some (u\<lparr>user_lastLogin := Some now\<rparr>)"
    by (rule login_service [of d ?dto u X]) (use assms in simp_all)
  let ?b1 = "fold (apply_cookie now conn) [refresh_cookie production (dr_refreshToken dr), session_cookie ?req ?a] b"
  have v: "\<lparr>me_id = user_id w, me_email = user_email w, me_username = user_username w, me_rootAdmin = user_rootAdmin w,
      me_usesTotp = user_usesTotp w, me_avatarUrl = user_avatarUrl w, me_createdAt = user_createdAt w\<rparr> = view_of u"
    if "w = u\<lparr>user_lastLogin := Some now\<rparr>" for w using that by (simp add: view_of_def)
  have me: "AuthController_me X time (request_of time conn b') d' =
      (if time < now + 900000 \<and> time div 1000 < now div 1000 + 900 then Inr (view_of u)
       else Inl (UnauthorizedException (if time < now + 900000 then ''Invalid or expired token'' else ''No token provided'')))"
    if "br_session b' = Some (?a, now + 900000)" for b' time
    using me_with_cookie [OF assms(2) that assms(10) l(2), of time conn] unfolding v [OF refl] .
  define b2 where "b2 = store_checkAuth X isoDate now conn ?b1 d'"
  have b2: "br_user b2 = Some (me_json isoDate (view_of u)) \<and> ProtectedRoute b2 = Outlet \<and> br_session b2 = Some (?a, now + 900000)"
    using me [OF session_cookies, of now] session_cookies [of now conn production "dr_refreshToken dr" b ?a]
    by (simp add: b2_def store_checkAuth_def ProtectedRoute_def del: fold_simps)
  have page: "LoginPage_onSubmit X isoDate now production dr conn email password code page b d =
      (page\<lparr>lg_error := None, lg_navigated := Some ''/dashboard''\<rparr>, b2, d')"
    using assms(7-9) l(1)
    by (auto simp: b2_def LoginPage_onSubmit_def store_login_def login_payload_def post_login_def AuthController_login_def validated_def
        LoginDto_ok_def login_answer_def Let_def simp del: fold_simps)
  have checked: "ProtectedRoute (store_checkAuth X isoDate time conn b2 d') =
      (if time < now + 900000 \<and> time div 1000 < now div 1000 + 900 then Outlet else NavigateTo ''/login'')" for time
    using me [of b2 time] b2 by (simp add: store_checkAuth_def ProtectedRoute_def)
  show ?thesis
    by (intro exI conjI allI; (rule page | rule checked)?) (simp_all add: b2)
qed

text \<open>
  C24. Nobody with a second factor can sign in through the login page: for such an account every
  submission, with whatever password and whatever code, leaves the store, the cookies and the
  database as they are; with the right password the page asks for the code, again and again,
  since it sends the code to \<open>/auth/login\<close>, which does not read it, and never calls
  \<open>/auth/2fa/login\<close>.
\<close>

theorem two_factor_login_never_completes:
  assumes "findOne (\<lambda>u. user_email u = email) (db_users d) = Some u" and "user_usesTotp u"
  shows "\<exists>page'. LoginPage_onSubmit X isoDate now production dr conn email password code page b d = (page', b, d) \<and>
    lg_navigated page' = lg_navigated page \<and>
    (isEmail X email \<and> CHR ''@'' \<in> set email \<and> password \<noteq> [] \<and> user_enabled u \<and> bcryptCompare X password (user_password u) \<longrightarrow>
       lg_needs2FA page')"
  using assms
  by (auto simp: LoginPage_onSubmit_def store_login_def login_payload_def post_login_def AuthController_login_def validated_def
      LoginDto_ok_def login_answer_def AuthService_login_def Let_def)

text \<open>Registration signs nobody in: the page leads to the dashboard, whose guard leads to the login.\<close>

lemma checkAuth_without_cookie:
  "br_session b = None \<Longrightarrow> store_checkAuth X isoDate now conn b d = b\<lparr>br_user := None, br_isAuthenticated := False, br_isLoading := False\<rparr>"
  by (simp add: store_checkAuth_def AuthController_me_def me_token_def request_of_def live_cookie_def)

lemma register_lands_on_login:
  assumes "RegisterPage_onSubmit X zodEmail isoDate now i auditId conn email username password again b d = (Some (Inr to), b', d')"
    and "br_session b = None"
  shows "to = ''/dashboard'' \<and> ProtectedRoute b' = NavigateTo ''/login''"
  using assms
  by (auto simp: RegisterPage_onSubmit_def store_register_def checkAuth_without_cookie ProtectedRoute_def
      split: if_split_asm prod.split_asm sum.split_asm)

section \<open>Concrete inputs\<close>

lemma admin_pages_closed_witness:
  "\<exists>b d'. (store_step demo_ext (\<lambda>t. ''now''))\<^sup>*\<^sup>* (new_browser, demo_db) (b, d') \<and>
     AdminRoute b = NavigateTo ''/login'' \<and> Sidebar_adminNav b = []"
proof -
  let ?b = "store_checkAuth demo_ext (\<lambda>t. ''now'') 0 (demo_request None None) (new_browser\<lparr>br_isLoading := True\<rparr>) demo_db"
  have run: "(store_step demo_ext (\<lambda>t. ''now''))\<^sup>*\<^sup>* (new_browser, demo_db) (?b, demo_db)"
    by (rule r_into_rtranclp [of "store_step demo_ext (\<lambda>t. ''now'')"]) (rule store_step.start)
  have "AdminRoute ?b = NavigateTo ''/login''"
    by (simp add: checkAuth_without_cookie new_browser_def AdminRoute_def)
  then show ?thesis using admin_pages_closed [OF run] run by blast
qed

lemma web_login_spec_witness:
  "\<exists>page' b' d'. LoginPage_onSubmit demo_ext (\<lambda>t. ''now'') 0 False demo_draws (demo_request None None) ''ann@x'' ''secret'' None
       \<lparr>lg_error = None, lg_needs2FA = False, lg_navigated = None\<rparr> new_browser demo_db = (page', b', d') \<and>
     lg_navigated page' = Some ''/dashboard'' \<and> ProtectedRoute b' = Outlet \<and>
     ProtectedRoute (store_checkAuth demo_ext (\<lambda>t. ''now'') 900000 (demo_request None None) b' d') = NavigateTo ''/login''"
proof -
  have "findOne (\<lambda>u. user_email u = ''ann@x'') (db_users demo_db) = Some (demo_user ''u1'' ''ann'' True)"
    by (simp add: findOne_def demo_user_def)
  moreover have "user_enabled (demo_user ''u1'' ''ann'' True)" "\<not> user_usesTotp (demo_user ''u1'' ''ann'' True)"
    "bcryptCompare demo_ext ''secret'' (user_password (demo_user ''u1'' ''ann'' True))"
    by (simp_all add: demo_user_def)
  moreover have "isEmail demo_ext ''ann@x''" "CHR ''@'' \<in> set ''ann@x''" "''secret'' \<noteq> []"
    "jwtSign demo_ext (access_claims 0 (demo_user ''u1'' ''ann'' True)) \<noteq> []"
    by (simp_all add: demo_ext_def demo_sign_def access_claims_def demo_user_def)
  ultimately obtain page' b' d' where
    l: "LoginPage_onSubmit demo_ext (\<lambda>t. ''now'') 0 False demo_draws (demo_request None None) ''ann@x'' ''secret'' None
       \<lparr>lg_error = None, lg_needs2FA = False, lg_navigated = None\<rparr> new_browser demo_db = (page', b', d')"
      "lg_navigated page' = Some ''/dashboard''" "ProtectedRoute b' = Outlet" and
    t: "\<forall>time. ProtectedRoute (store_checkAuth demo_ext (\<lambda>t. ''now'') time (demo_request None None) b' d') =
       (if time < 0 + 900000 \<and> time div 1000 < 0 div 1000 + 900 then Outlet else NavigateTo ''/login'')"
    using web_login_spec [OF demo_db_ok demo_jwt_ok, where isoDate = "\<lambda>t. ''now''"] by blast
  show ?thesis using l spec [OF t, of 900000] by auto
qed

lemma two_factor_login_never_completes_witness:
  "\<exists>page'. LoginPage_onSubmit demo_ext (\<lambda>t. ''now'') 0 False demo_draws (demo_request None None) ''ann@x'' ''secret'' (Some ''123456'')
       \<lparr>lg_error = None, lg_needs2FA = True, lg_navigated = None\<rparr> new_browser demo_totp_db = (page', new_browser, demo_totp_db) \<and>
     lg_needs2FA page' \<and> lg_navigated page' = None"
  using two_factor_login_never_completes [of "''ann@x''" demo_totp_db "hd (db_users demo_totp_db)" demo_ext "\<lambda>t. ''now''" 0 False
      demo_draws "demo_request None None" "''secret''" "Some ''123456''"
      "\<lparr>lg_error = None, lg_needs2FA = True, lg_navigated = None\<rparr>" new_browser]
  by (auto simp: findOne_def demo_totp_db_def demo_user_def demo_ext_def)

end
