(* ===== verification/Spec2Isabelle.thy ===== *)
theory Spec2Isabelle
  imports WebStatsProps SeedProps WebTablesProps Search Disclosure WebFormsProps WebWizardProps VariablesProps Locations AuditLog Enums Files ServerDataProps Notifications ApiKeys EggsProps Events GatewayProps PanelIsolation PanelSessions WebConsole WebAuthProps
begin

text \<open>
  Nexus Panel manages game servers on remote nodes.  The development covers its three parts: the
  backend (\<^verbatim>\<open>packages/backend\<close>, a NestJS server over a relational database), its daemons as the backend
  sees them (\<^verbatim>\<open>wings/\<close>), and the web interface (\<^verbatim>\<open>packages/frontend\<close>, React).  Below, paths are
  under these packages.

  \<^bold>\<open>How the parts interact.\<close>  A request of the browser is matched against the routes of the
  controllers, passes their guards and the validation of its body, and runs a method of a controller,
  which calls a service.  A service reads and writes the tables through TypeORM and asks the daemon of
  a node over gRPC and HTTP.  The daemon reports back with the token of its node.  A browser on the
  console page holds a socket to the websocket gateway, which polls the daemons and forwards what they
  say; a second stream (server-sent events) carries notices.

  \<^bold>\<open>How code is written here.\<close>  An entity is a record (\<open>Entities\<close>), the database a record of tables, a
  table the list of its rows.  A service method is a function from its arguments and the state to a
  result and the state; the result is \<open>Inl e\<close> with an exception or \<open>Inr v\<close>, and the state after an
  exception is whatever was written before it.  States extend each other: \<open>db\<close>, with the heartbeats of
  the nodes, with the daemon calls made so far and the cached clients, with the sockets of the gateway;
  each component is over the smallest state it needs.  Names of definitions are those of the source,
  with the class in front (\<open>ServersService_create\<close>).  Integers of the panel are JavaScript numbers below
  \<open>2\<^sup>5\<^sup>3\<close>, hence \<open>int\<close>; where doubles round, divide or overflow, \<open>JsNumber\<close> has them as rationals with the
  rounding to 53 bits written out.  Strings are lists of characters below 256.

  \<^bold>\<open>Parameters.\<close>  Code outside the repository is an argument.  \<open>ext\<close> holds bcrypt, the tokens, the
  one-time passwords, regular expressions and the checks of formats; \<open>bcrypt_ok\<close> and \<open>jwt_ok\<close> are the
  documented behaviour that single theorems assume, and \<open>Demo\<close> is an instance of it, on which the
  witnesses run.  \<open>wings\<close> answers for the daemons, given the calls made so far.  Identifiers and other
  drawn values are arguments, and where it matters they are assumed fresh.  In the interface \<open>D\<close> writes
  dates, \<open>Q\<close> heartbeat numbers, \<open>J\<close> the rows no page looks into, \<open>N\<close> large numbers.  Of the frameworks
  only what the program relies on is written: matching of a path (\<open>dispatch\<close>), the whitelist of a body
  (\<open>ValidationPipe\<close>), constraints and cascades of the database (\<open>Constraints\<close>).

  \<^bold>\<open>The backend, component by component.\<close>
  \<^item> \<open>Prelude\<close>, \<open>External\<close>, \<open>JsNumber\<close>, \<open>Rounding\<close>, \<open>Store\<close>, \<open>Enums\<close>, \<open>Entities\<close>, \<open>Constraints\<close>, \<open>Invariant\<close>: what
    all share.  \<open>Store\<close> has the repository as a locale; \<open>Constraints\<close> its saves and removals with unique
    columns, foreign keys and \<open>onDelete\<close>; \<open>Invariant\<close> shows that each keeps \<open>db_ok\<close>.
  \<^item> \<open>Guards\<close> (\<^verbatim>\<open>common/guards\<close>, \<^verbatim>\<open>common/filters\<close>, the JWT strategy), \<open>Auth\<close> and \<open>AuthProps\<close> (\<^verbatim>\<open>auth/\<close>): which
    credentials open a session and what is written, what the token is worth, backup codes, registration.
  \<^item> \<open>Users\<close>, \<open>UsersProps\<close> (\<^verbatim>\<open>users/\<close>, \<^verbatim>\<open>admin/admin-users\<close>), \<open>ApiKeys\<close>, \<open>Notifications\<close>, \<open>AuditLog\<close>,
    \<open>Locations\<close>, \<open>Allocations\<close>, \<open>Nodes\<close> (with the heartbeat store), \<open>Eggs\<close> and \<open>EggsProps\<close>, \<open>Search\<close> (with the
    statistics of \<^verbatim>\<open>admin/admin.service.ts\<close>): one theory per service with its controller and DTOs.
  \<^item> \<open>VariableValidator\<close>, \<open>Startup\<close>, \<open>VariablesProps\<close>: the rules of egg variables and the substitution of the
    startup command, whose refinement is \<open>build_startup_render\<close>.
  \<^item> \<open>Wings\<close>, \<open>WingsProps\<close> (\<^verbatim>\<open>wings/wings.service.ts\<close>): every call, its address and its token.
  \<^item> \<open>Servers\<close>, \<open>ServersLib\<close>, \<open>ServersProps\<close>, \<open>ServersAccess\<close> (\<^verbatim>\<open>servers/\<close>): creation with its checks, transaction
    and failure, capacity, access, power, suspension, deletion, and the install callback.  \<open>Files\<close>,
    \<open>ServerData\<close>, \<open>ServerDataProps\<close>: files, databases, schedules and subusers of a server; the routes share
    one locale, interpreted for each of them.
  \<^item> \<open>Events\<close> (\<^verbatim>\<open>sse/\<close>, \<^verbatim>\<open>wings/event-handlers.ts\<close>), \<open>Gateway\<close>, \<open>GatewayProps\<close> (\<^verbatim>\<open>websocket/\<close>).  A handler is one
    atomic step of \<open>gateway_step\<close>; the invariant holds over any run, with any interleaving of sockets,
    polls and requests.
  \<^item> \<open>Panel\<close>, \<open>PanelInvariant\<close>, \<open>PanelRun\<close>, \<open>PanelIsolation\<close>, \<open>PanelSessions\<close>: the HTTP interface as one transition
    system, one step per request, for the routes that write and those that read; its invariant, what runs
    without an administrator, or of one user, leave unchanged, and over any run that a revoked
    session stays revoked and a used backup code used.
  \<^item> \<open>Answers\<close>, \<open>Disclosure\<close>: the documents that go out, and what a user does with the secrets in them.
  \<^item> \<open>Seed\<close>, \<open>SeedProps\<close> (\<^verbatim>\<open>database/seed.ts\<close>): the script that fills a database, why it fails at once, and that
    it is idempotent and sound with its missing entity added.

  \<^bold>\<open>The interface.\<close>
  \<^item> \<open>WebApi\<close>, \<open>WebApiProps\<close>: the routes of all controllers and all requests of \<^verbatim>\<open>api/*.ts\<close> and the pages;
    which request reaches which method.
  \<^item> \<open>WebForms\<close>, \<open>WebFiles\<close>, \<open>WebFormsProps\<close>: what the forms and the file manager check and send, and what the
    validation of the backend says.  \<open>WebTables\<close>, \<open>WebTablesProps\<close>: what the lists and tables show of an answer.
  \<^item> \<open>WebAuth\<close>, \<open>WebAuthProps\<close>: store, login and registration pages, route guards, over the real controllers.
  \<^item> \<open>WebWizard\<close>, \<open>WebWizardProps\<close> (\<^verbatim>\<open>pages/admin/CreateServerDialog.tsx\<close>): rendering, effects, requests and
    answers in any order.  The loop of rendering and effects is a \<open>partial_function\<close>; \<open>wizard_settles\<close> shows
    that it returns from every state.
  \<^item> \<open>WebClient\<close>, \<open>WebClientProps\<close>, \<open>WebConsole\<close>, \<open>WebStats\<close>, \<open>WebStatsProps\<close>: the hook of the console page with its
    sockets and timers, the terminal, the buttons and the statistics, and hook, gateway and daemon
    joined.

  No definition takes fuel.  Recursion is structural or has its termination proved, apart from the
  loop just named; transition systems are inductive relations and their theorems are about every run.

  \<^bold>\<open>What is not modelled.\<close>  Concurrency inside one request: a handler runs without another between its
  statements, so that races of two requests on the same rows are not covered.  Characters from 256 on.
  Fractions in JSON: the numbers of a message are whole.  The interface declarations of
  \<^verbatim>\<open>shared/src/api\<close> and \<^verbatim>\<open>shared/src/models\<close>, which no code imports.  Layout, icons and styles, the theme, the
  text of notices, the bootstrap of the process (\<^verbatim>\<open>main.ts\<close> besides the validation of bodies), the
  health route, and the daemon itself, another program in another language: these have no state that
  the properties above could be about.
\<close>

end
